(* ===== verification/Prelude.thy ===== *)
theory Prelude
  imports Complex_Main "HOL-Library.AList" "HOL-Library.Char_ord"
    "HOL-Library.List_Lexorder" "HOL-Library.Log_Nat"
begin

text \<open>
  What every component of the model shares: the exceptions of the program as a datatype, results
  as sums, dictionaries as association lists in insertion order, Python's dynamic values and
  floats, and the string functions of the language that the source uses.

  Conventions. A Python string is a list of characters whose code points are below 256; a raised
  exception is a value \<open>Inl e\<close>; message texts of exceptions are left out, their class and their
  machine-readable code are kept. A \<open>dict\<close> is an association list with distinct keys in insertion
  order: \<open>AList.update\<close> replaces in place or appends, as an assignment \<open>d[k] = v\<close> does.
\<close>

named_theorems model_defs \<open>definitions of the model that a proof unfolds\<close>
named_theorems store_simps \<open>reading a store after it was written\<close>
named_theorems preserve \<open>an operation preserves an invariant\<close>

section \<open>Results\<close>

datatype exn =
    ValueError | TypeError | KeyError | OverflowError | FileNotFoundError
  | SpatialContractError
  | SessionProtocolError string
  | TelemetryAdmissionError string
  | UnknownEdgeSchemaError
  | OperatorValidationError
  | OperatorExecutionError
  | AgentLimitError | AgentStreamingError
  | NotFoundError string | DatabaseError | AttributeError | IndexError | AssertionError
  | ZeroDivisionError | TimeoutError | ZoneInfoNotFoundError
  | CalculationError | SpatialUnitError | SpatialTransformError | VisionContractError
  | CalendarAuthorizationError | CalendarUnavailableError | CalendarDeadlineExceeded
  | UnknownAgentError | ModelProviderError | RuntimeError

type_synonym 'a res = "exn + 'a"

text \<open>The subclass relation of the source: both protocol errors are contract errors, and contract
  errors are value errors.\<close>

fun is_spatial_error :: "exn \<Rightarrow> bool" where
  "is_spatial_error SpatialContractError = True"
| "is_spatial_error (SessionProtocolError c) = True"
| "is_spatial_error (TelemetryAdmissionError c) = True"
| "is_spatial_error _ = False"

fun is_value_error :: "exn \<Rightarrow> bool" where
  "is_value_error ValueError = True"
| "is_value_error OperatorValidationError = True"
| "is_value_error CalculationError = True"
| "is_value_error SpatialUnitError = True"
| "is_value_error SpatialTransformError = True"
| "is_value_error VisionContractError = True"
| "is_value_error e = is_spatial_error e"

fun bind_res :: "'e + 'a \<Rightarrow> ('a \<Rightarrow> 'e + 'b) \<Rightarrow> 'e + 'b" where
  "bind_res (Inl e) f = Inl e"
| "bind_res (Inr x) f = f x"

definition guard :: "bool \<Rightarrow> 'e \<Rightarrow> 'e + unit" where
  "guard b e = (if b then Inr () else Inl e)"

lemma bind_res_Inr_iff: "bind_res m f = Inr y \<longleftrightarrow> (\<exists>x. m = Inr x \<and> f x = Inr y)"
  by (cases m) auto

lemma bind_res_Inl_iff:
  "bind_res m f = Inl e \<longleftrightarrow> m = Inl e \<or> (\<exists>x. m = Inr x \<and> f x = Inl e)"
  by (cases m) auto

lemma guard_Inr_iff [simp]: "guard b e = Inr u \<longleftrightarrow> b"
  by (simp add: guard_def)

lemma guard_Inl_iff [simp]: "guard b e = Inl e' \<longleftrightarrow> \<not> b \<and> e' = e"
  by (auto simp: guard_def)

lemma guard_simps [simp]: "guard True e = Inr ()" "guard False e = Inl e"
  by (simp_all add: guard_def)

lemmas bind_res_iff = bind_res_Inr_iff bind_res_Inl_iff

lemma bind_res_assoc: "bind_res (bind_res m f) g = bind_res m (\<lambda>x. bind_res (f x) g)"
  by (cases m) auto

lemma bind_res_Inr [simp]: "bind_res m Inr = m"
  by (cases m) auto

text \<open>A comprehension \<open>[f(x) for x in xs]\<close> whose body may raise stops at the first exception.\<close>

fun map_res :: "('a \<Rightarrow> 'e + 'b) \<Rightarrow> 'a list \<Rightarrow> 'e + 'b list" where
  "map_res f [] = Inr []"
| "map_res f (x # xs) = bind_res (f x) (\<lambda>y. bind_res (map_res f xs) (\<lambda>ys. Inr (y # ys)))"

lemma map_res_Inr_iff:
  "map_res f xs = Inr ys \<longleftrightarrow> list_all2 (\<lambda>x y. f x = Inr y) xs ys"
proof (induction xs arbitrary: ys)
  case Nil
  then show ?case by (cases ys) auto
next
  case (Cons x xs)
  then show ?case by (cases ys) (auto simp: bind_res_iff)
qed

lemma map_res_member: "map_res f xs = Inr ys \<Longrightarrow> y \<in> set ys \<Longrightarrow> \<exists>x \<in> set xs. f x = Inr y"
  by (induction xs arbitrary: ys) (auto simp: bind_res_Inr_iff)

lemma map_res_pure: "map_res (\<lambda>x. Inr (f x)) xs = Inr (map f xs)"
  by (induction xs) simp_all

section \<open>Dictionaries\<close>

text \<open>The interface through which the components use a keyed store: what a lookup returns after a
  write or a removal. The components' invariants are proved from it.\<close>

locale keyed_store =
  fixes get :: "'s \<Rightarrow> 'k \<Rightarrow> 'v option"
    and put :: "'k \<Rightarrow> 'v \<Rightarrow> 's \<Rightarrow> 's"
    and del :: "'k \<Rightarrow> 's \<Rightarrow> 's"
  assumes get_put: "get (put k v s) j = (if j = k then Some v else get s j)"
    and get_del: "get (del k s) j = (if j = k then None else get s j)"
begin

lemma get_put_same: "get (put k v s) k = Some v"
  by (simp add: get_put)

lemma get_put_other: "j \<noteq> k \<Longrightarrow> get (put k v s) j = get s j"
  by (simp add: get_put)

lemma all_put:
  assumes "\<And>j w. get s j = Some w \<Longrightarrow> P j w" and "P k v" and "get (put k v s) j = Some w"
  shows "P j w"
  using assms by (auto simp: get_put split: if_splits)

lemma all_del:
  assumes "\<And>j w. get s j = Some w \<Longrightarrow> P j w" and "get (del k s) j = Some w"
  shows "P j w"
  using assms by (auto simp: get_del split: if_splits)

end

type_synonym 'v dict = "(string \<times> 'v) list"

text \<open>\<open>OrderedDict.move_to_end\<close> for a key that is present.\<close>

definition move_to_end :: "'k \<Rightarrow> ('k \<times> 'v) list \<Rightarrow> ('k \<times> 'v) list" where
  "move_to_end k d = (case map_of d k of None \<Rightarrow> d | Some v \<Rightarrow> AList.delete k d @ [(k, v)])"

lemma map_of_update: "map_of (AList.update k v d) j = (if j = k then Some v else map_of d j)"
  by (simp add: update_conv')

lemma map_of_delete: "map_of (AList.delete k d) j = (if j = k then None else map_of d j)"
  by (simp add: delete_conv')

lemma update_absent: "map_of d k = None \<Longrightarrow> AList.update k v d = d @ [(k, v)]"
  by (induction d) auto

lemma delete_absent: "map_of d k = None \<Longrightarrow> AList.delete k d = d"
  by (induction d) (auto split: if_splits)

interpretation dict: keyed_store map_of AList.update AList.delete
  by unfold_locales (simp_all add: map_of_update map_of_delete)

lemmas dict_lookup [store_simps] = map_of_update map_of_delete

lemma map_of_move_to_end [store_simps]: "map_of (move_to_end k d) = map_of d"
proof
  fix j
  show "map_of (move_to_end k d) j = map_of d j"
    by (auto simp: move_to_end_def map_add_def map_of_delete split: option.splits)
qed

lemma keys_move_to_end: "set (map fst (move_to_end k d)) = set (map fst d)"
  by (metis map_of_move_to_end dom_map_of_conv_image_fst list.set_map)

lemma distinct_move_to_end:
  "distinct (map fst d) \<Longrightarrow> distinct (map fst (move_to_end k d))"
  by (auto simp: move_to_end_def delete_keys distinct_removeAll split: option.splits)

lemma length_eq_card_keys: "distinct (map fst d) \<Longrightarrow> length d = card (fst ` set d)"
  by (metis distinct_card length_map list.set_map)

lemma length_move_to_end: "distinct (map fst d) \<Longrightarrow> length (move_to_end k d) = length d"
  by (metis length_eq_card_keys distinct_move_to_end keys_move_to_end list.set_map)

section \<open>Registers that only move forward\<close>

text \<open>A register whose value an operation keeps or replaces by one with a larger stamp. The presence
  store (stamped by measurement time) and the session table (stamped by sequence number) are both
  such registers.\<close>

locale monotone_register =
  fixes step :: "'s \<Rightarrow> 'a \<Rightarrow> 's"
    and read :: "'s \<Rightarrow> 'k \<Rightarrow> 'v option"
    and stamp :: "'v \<Rightarrow> int"
    and ok :: "'s \<Rightarrow> bool"
  assumes step_ok: "ok s \<Longrightarrow> ok (step s a)"
    and step_mono:
      "ok s \<Longrightarrow> read s k = Some v \<Longrightarrow>
         \<exists>w. read (step s a) k = Some w \<and> (w = v \<or> stamp v < stamp w)"
begin

lemma run_ok: "ok s \<Longrightarrow> ok (foldl step s as)"
  by (induction as arbitrary: s) (auto intro: step_ok)

lemma run_mono:
  "ok s \<Longrightarrow> read s k = Some v \<Longrightarrow>
     \<exists>w. read (foldl step s as) k = Some w \<and> (w = v \<or> stamp v < stamp w)"
proof (induction as arbitrary: s v)
  case Nil
  then show ?case by simp
next
  case (Cons a as)
  then obtain w where w: "read (step s a) k = Some w" "w = v \<or> stamp v < stamp w"
    using step_mono by blast
  from Cons.IH[OF step_ok[OF Cons.prems(1)] w(1)] w(2) show ?case by fastforce
qed

lemma no_return:
  assumes "ok s" and "read s k = Some v" and "read (foldl step s as) k = Some w" and "w \<noteq> v"
  shows "read (foldl step s (as @ bs)) k \<noteq> Some v"
proof -
  from run_mono[OF assms(1,2), of as] assms(3,4) have "stamp v < stamp w" by auto
  with run_mono[OF run_ok[OF assms(1)] assms(3), of bs] show ?thesis by auto
qed

end

section \<open>Characters and strings\<close>

definition code_pt :: "char \<Rightarrow> nat" where
  "code_pt c = of_char c"

definition is_upper :: "char \<Rightarrow> bool" where "is_upper c \<longleftrightarrow> 65 \<le> code_pt c \<and> code_pt c \<le> 90"
definition is_lower :: "char \<Rightarrow> bool" where "is_lower c \<longleftrightarrow> 97 \<le> code_pt c \<and> code_pt c \<le> 122"
definition is_digit :: "char \<Rightarrow> bool" where "is_digit c \<longleftrightarrow> 48 \<le> code_pt c \<and> code_pt c \<le> 57"

definition is_alpha :: "char \<Rightarrow> bool" where "is_alpha c \<longleftrightarrow> is_upper c \<or> is_lower c"
definition is_alnum :: "char \<Rightarrow> bool" where "is_alnum c \<longleftrightarrow> is_alpha c \<or> is_digit c"

text \<open>\<open>str.isspace\<close> on the code points below 256.\<close>

definition is_space :: "char \<Rightarrow> bool" where
  "is_space c \<longleftrightarrow> (9 \<le> code_pt c \<and> code_pt c \<le> 13) \<or> (28 \<le> code_pt c \<and> code_pt c \<le> 32)
     \<or> code_pt c = 133 \<or> code_pt c = 160"

lemmas char_class_defs =
  code_pt_def is_upper_def is_lower_def is_digit_def is_alpha_def is_alnum_def is_space_def

definition lstrip :: "string \<Rightarrow> string" where "lstrip s = dropWhile is_space s"
definition rstrip :: "string \<Rightarrow> string" where "rstrip s = rev (dropWhile is_space (rev s))"
definition strip :: "string \<Rightarrow> string" where "strip s = rstrip (lstrip s)"

text \<open>\<open>str.split(sep)\<close> for one separator character.\<close>

fun split_on :: "char \<Rightarrow> string \<Rightarrow> string list" where
  "split_on sep [] = [[]]"
| "split_on sep (c # s) =
     (if c = sep then [] # split_on sep s
      else (case split_on sep s of [] \<Rightarrow> [[c]] | w # ws \<Rightarrow> (c # w) # ws))"

text \<open>\<open>str.split()\<close>: the maximal runs of characters that are not white space.\<close>

fun words_acc :: "string \<Rightarrow> string \<Rightarrow> string list" where
  "words_acc acc [] = (if acc = [] then [] else [rev acc])"
| "words_acc acc (c # s) =
     (if is_space c then (if acc = [] then words_acc [] s else rev acc # words_acc [] s)
      else words_acc (c # acc) s)"

definition words :: "string \<Rightarrow> string list" where
  "words s = words_acc [] s"

fun join :: "string \<Rightarrow> string list \<Rightarrow> string" where
  "join sep [] = []"
| "join sep [w] = w"
| "join sep (w # ws) = w @ sep @ join sep ws"

text \<open>\<open>str(n)\<close> for an integer.\<close>

fun show_nat :: "nat \<Rightarrow> string" where
  "show_nat n = (if n < 10 then [char_of (48 + n)] else show_nat (n div 10) @ [char_of (48 + n mod 10)])"

declare show_nat.simps [simp del]

definition show_int :: "int \<Rightarrow> string" where
  "show_int i = (if i < 0 then CHR ''-'' # show_nat (nat (- i)) else show_nat (nat i))"

definition digit_val :: "char \<Rightarrow> nat" where
  "digit_val c = code_pt c - 48"

definition nat_of_digits :: "string \<Rightarrow> nat" where
  "nat_of_digits s = foldl (\<lambda>n c. 10 * n + digit_val c) 0 s"

lemma split_on_not_Nil [simp]: "split_on sep s \<noteq> []"
  by (cases s) (auto split: list.splits)

lemma split_on_no_sep: "sep \<notin> set s \<Longrightarrow> split_on sep s = [s]"
  by (induction s) auto

lemma split_on_append:
  "sep \<notin> set s \<Longrightarrow> split_on sep (s @ sep # t) = s # split_on sep t"
  by (induction s) auto

lemma join_split_on: "join [sep] (split_on sep s) = s"
proof (induction s)
  case Nil
  then show ?case by simp
next
  case (Cons c s)
  obtain w ws where w: "split_on sep s = w # ws"
    by (cases "split_on sep s") auto
  with Cons show ?case by (cases ws) auto
qed

lemma is_digit_show_nat: "c \<in> set (show_nat n) \<Longrightarrow> is_digit c"
proof (induction n rule: show_nat.induct)
  case (1 n)
  then show ?case
    by (subst (asm) (2) show_nat.simps)
      (auto simp: is_digit_def code_pt_def split: if_splits)
qed

lemma show_nat_not_Nil [simp]: "show_nat n \<noteq> []"
  by (subst show_nat.simps) simp

lemma nat_of_digits_append:
  "nat_of_digits (s @ [c]) = 10 * nat_of_digits s + digit_val c"
  by (simp add: nat_of_digits_def)

lemma nat_of_digits_show_nat [simp]: "nat_of_digits (show_nat n) = n"
proof (induction n rule: show_nat.induct)
  case (1 n)
  show ?case
  proof (cases "n < 10")
    case True
    then show ?thesis
      by (subst show_nat.simps) (simp add: nat_of_digits_def digit_val_def code_pt_def)
  next
    case False
    with 1 have "nat_of_digits (show_nat (n div 10)) = n div 10" by simp
    with False show ?thesis
      by (subst show_nat.simps) (simp add: nat_of_digits_append digit_val_def code_pt_def)
  qed
qed

lemma show_nat_inject [simp]: "show_nat m = show_nat n \<longleftrightarrow> m = n"
  by (metis nat_of_digits_show_nat)

end
