(* ===== verification/PyVal.thy ===== *)
theory PyVal
  imports Prelude
begin

text \<open>
  Python's dynamic values as the program sees them (JSON documents, database rows and record
  identifiers) and binary64 floats. A finite float is the rational number it denotes; arithmetic
  rounds with \<open>fl\<close>, to nearest with ties to even, as IEEE 754 and CPython do. The sign of zero is
  not represented: no operation of the modelled code can observe it.
\<close>

section \<open>Floats\<close>

datatype pyfloat = Fin rat | PInf | NInf | NaN

definition pow2 :: "int \<Rightarrow> rat" where
  "pow2 e = (if 0 \<le> e then 2 ^ nat e else 1 / 2 ^ nat (- e))"

definition round_even :: "rat \<Rightarrow> int" where
  "round_even q = (let f = floor q; r = q - of_int f in
     if r < 1 / 2 then f else if r > 1 / 2 then f + 1 else if even f then f else f + 1)"

text \<open>The exponent \<open>e\<close> with \<open>2^e \<le> q < 2^(e+1)\<close> for a positive \<open>q\<close>.\<close>

definition ilog2 :: "rat \<Rightarrow> int" where
  "ilog2 q = (let (n, d) = quotient_of q; e = bitlen n - bitlen d in
     if q < pow2 e then e - 1 else e)"

definition fl :: "rat \<Rightarrow> pyfloat" where
  "fl q = (if q = 0 then Fin 0 else
     let m = \<bar>q\<bar>; s = max (ilog2 m - 52) (-1074); r = of_int (round_even (m / pow2 s)) * pow2 s in
     if r \<ge> pow2 1024 then (if q < 0 then NInf else PInf) else Fin (if q < 0 then - r else r))"

text \<open>\<open>float(i)\<close> for an integer: too large a magnitude raises.\<close>

definition float_of_int :: "int \<Rightarrow> rat res" where
  "float_of_int i = (case fl (of_int i) of Fin r \<Rightarrow> Inr r | _ \<Rightarrow> Inl OverflowError)"

lemma pow2_pos [simp]: "0 < pow2 e"
  by (simp add: pow2_def)

lemma round_even_nonneg: "0 \<le> q \<Longrightarrow> 0 \<le> round_even q"
  by (auto simp: round_even_def Let_def)

lemma scaled_round_nonneg: "0 \<le> q \<Longrightarrow> 0 \<le> of_int (round_even (q / pow2 s)) * pow2 s"
  by (intro mult_nonneg_nonneg) (simp_all add: round_even_nonneg less_imp_le)

lemma fl_nonneg: "0 \<le> q \<Longrightarrow> fl q = Fin r \<Longrightarrow> 0 \<le> r"
  using scaled_round_nonneg[of q "max (ilog2 q - 52) (-1074)"]
  by (auto simp: fl_def Let_def split: if_splits)

fun fle :: "pyfloat \<Rightarrow> pyfloat \<Rightarrow> bool" where
  "fle (Fin a) (Fin b) = (a \<le> b)"
| "fle NaN _ = False"
| "fle _ NaN = False"
| "fle NInf _ = True"
| "fle _ PInf = True"
| "fle _ _ = False"

lemma quotient_of_pos: "0 < q \<Longrightarrow> quotient_of q = (n, d) \<Longrightarrow> 0 < n \<and> 0 < d \<and> q = of_int n / of_int d"
  by (metis quotient_of_denom_pos quotient_of_div of_int_0_less_iff zero_less_divide_iff not_less_iff_gr_or_eq)

lemma pow2_add: "pow2 (a + b) = pow2 a * pow2 b"
proof -
  have "pow2 e = (2::rat) powi e" for e
    by (auto simp: pow2_def power_int_def field_simps)
  then show ?thesis by (simp add: power_int_add)
qed

lemma pow2_le: "pow2 (ilog2 q) \<le> q" if "0 < q"
proof -
  obtain n d where nd: "quotient_of q = (n, d)" by fastforce
  with that have q: "0 < n" "0 < d" "q = of_int n / of_int d" using quotient_of_pos by blast+
  have b: "2 ^ nat (bitlen n - 1) \<le> n" "d < 2 ^ nat (bitlen d)"
    using bitlen_bounds[of n] bitlen_bounds[of d] q by auto
  have p: "pow2 (bitlen n - 1) \<le> of_int n" "of_int d \<le> pow2 (bitlen d)"
  proof -
    have "1 \<le> bitlen n" using q(1) using bitlen_bounds[of n] q(1) bitlen_eq_zero_iff[of n] bitlen_nonneg[of n] by linarith
    moreover have "0 \<le> bitlen d" by (rule bitlen_nonneg)
    moreover have "(of_int (2 ^ nat (bitlen n - 1)) :: rat) \<le> of_int n" using b(1) by linarith
    moreover have "(of_int d :: rat) < of_int (2 ^ nat (bitlen d))" using b(2) by linarith
    ultimately show "pow2 (bitlen n - 1) \<le> of_int n" "of_int d \<le> pow2 (bitlen d)"
      by (auto simp: pow2_def)
  qed
  have "pow2 (bitlen n - bitlen d - 1) * of_int d \<le> pow2 (bitlen n - bitlen d - 1) * pow2 (bitlen d)"
    using p(2) by (simp add: mult_left_mono)
  also have "\<dots> = pow2 (bitlen n - 1)" by (simp flip: pow2_add)
  also have "\<dots> \<le> of_int n" by (rule p(1))
  finally have "pow2 (bitlen n - bitlen d - 1) \<le> q"
    unfolding q(3) using q(1,2) by (simp add: pos_le_divide_eq)
  then show ?thesis by (auto simp: ilog2_def nd Let_def)
qed


lemma pow2_mono: "a \<le> b \<Longrightarrow> pow2 a \<le> pow2 b"
  using pow2_add[of a "b - a"] by (auto simp: pow2_def mult_le_cancel_left1 split: if_splits)

lemma round_even_ge_1: "1 \<le> q \<Longrightarrow> 1 \<le> round_even q"
  by (auto simp: round_even_def Let_def le_floor_iff)

lemma scaled_round_pos:
  assumes "pow2 (-1074) \<le> m"
  shows "0 < of_int (round_even (m / pow2 (max (ilog2 m - 52) (-1074))))
           * pow2 (max (ilog2 m - 52) (-1074))" (is "0 < of_int (round_even (m / pow2 ?s)) * _")
proof -
  have "0 < m" using assms pow2_pos[of "-1074"] by linarith
  then have "pow2 (ilog2 m - 52) \<le> m"
    using pow2_le[of m] pow2_mono[of "ilog2 m - 52" "ilog2 m"] by linarith
  with assms have "pow2 ?s \<le> m" by (simp add: max_def)
  then have "1 \<le> m / pow2 ?s" by simp
  then have "1 \<le> round_even (m / pow2 ?s)" by (rule round_even_ge_1)
  then show ?thesis by (intro mult_pos_pos) simp_all
qed

lemma fl_neg:
  assumes "q \<le> - pow2 (-1074)"
  shows "\<not> fle (Fin 0) (fl q)" and "fl q \<noteq> NaN" and "fl q \<noteq> PInf"
proof -
  have q: "q < 0" "\<bar>q\<bar> = - q" using assms pow2_pos[of "-1074"] by linarith+
  show "\<not> fle (Fin 0) (fl q)" "fl q \<noteq> NaN" "fl q \<noteq> PInf"
    using scaled_round_pos[of "- q"] assms q by (auto simp: fl_def Let_def)
qed

lemma fl_ge0:
  assumes "0 \<le> q"
  shows "fle (Fin 0) (fl q)"
  using scaled_round_nonneg[OF assms] assms by (auto simp: fl_def Let_def)

lemma microsecond_ge: "pow2 (-1074) \<le> 1 / 1000000"
proof -
  have "pow2 (-1074) \<le> pow2 (-20)" by (rule pow2_mono) simp
  then show ?thesis by (simp add: pow2_def)
qed

lemma fl_0 [simp]: "fl 0 = Fin 0"
  by (simp add: fl_def)

section \<open>Values\<close>

datatype pyval =
    VNone
  | VBool bool
  | VInt int
  | VFloat pyfloat
  | VStr string
  | VList "pyval list"
  | VDict "(string \<times> pyval) list"
  | VRec string string

type_synonym fields = "(string \<times> pyval) list"

text \<open>The numeric value that Python compares: booleans are integers, and an integer and a float
  compare by their exact values.\<close>

fun num_of :: "pyval \<Rightarrow> pyfloat option" where
  "num_of (VBool b) = Some (Fin (if b then 1 else 0))"
| "num_of (VInt i) = Some (Fin (of_int i))"
| "num_of (VFloat f) = Some f"
| "num_of _ = None"

definition num_eq :: "pyfloat \<Rightarrow> pyval \<Rightarrow> bool" where
  "num_eq f y \<longleftrightarrow> f \<noteq> NaN \<and> num_of y = Some f"

text \<open>\<open>left == right\<close>: a mapping compares by its items, whatever their order.\<close>

fun py_eq :: "pyval \<Rightarrow> pyval \<Rightarrow> bool"
  and eq_list :: "pyval list \<Rightarrow> pyval list \<Rightarrow> bool"
  and eq_items :: "(string \<times> pyval) list \<Rightarrow> (string \<times> pyval) list \<Rightarrow> bool" where
  "py_eq VNone y = (y = VNone)"
| "py_eq (VBool b) y = num_eq (Fin (if b then 1 else 0)) y"
| "py_eq (VInt i) y = num_eq (Fin (of_int i)) y"
| "py_eq (VFloat f) y = num_eq f y"
| "py_eq (VStr s) y = (y = VStr s)"
| "py_eq (VList xs) y = (case y of VList ys \<Rightarrow> eq_list xs ys | _ \<Rightarrow> False)"
| "py_eq (VDict d) y = (case y of VDict e \<Rightarrow> length d = length e \<and> eq_items d e | _ \<Rightarrow> False)"
| "py_eq (VRec t k) y = (y = VRec t k)"
| "eq_list [] ys = (ys = [])"
| "eq_list (x # xs) ys = (case ys of [] \<Rightarrow> False | y # ys' \<Rightarrow> py_eq x y \<and> eq_list xs ys')"
| "eq_items [] e = True"
| "eq_items ((k, v) # d) e =
     (case map_of e k of None \<Rightarrow> False | Some w \<Rightarrow> py_eq v w \<and> eq_items d e)"

fun truthy :: "pyval \<Rightarrow> bool" where
  "truthy VNone = False"
| "truthy (VBool b) = b"
| "truthy (VInt i) = (i \<noteq> 0)"
| "truthy (VFloat f) = (f \<noteq> Fin 0)"
| "truthy (VStr s) = (s \<noteq> [])"
| "truthy (VList xs) = (xs \<noteq> [])"
| "truthy (VDict d) = (d \<noteq> [])"
| "truthy (VRec t k) = True"

text \<open>\<open>math.isfinite(x)\<close> on a number: an integer is converted to a float first.\<close>

fun isfinite :: "pyval \<Rightarrow> bool res" where
  "isfinite (VBool b) = Inr True"
| "isfinite (VInt i) = bind_res (float_of_int i) (\<lambda>_. Inr True)"
| "isfinite (VFloat f) = Inr (case f of Fin r \<Rightarrow> True | _ \<Rightarrow> False)"
| "isfinite _ = Inl TypeError"

text \<open>\<open>d.get(k)\<close> on a dictionary, with \<open>None\<close> for an absent key.\<close>

definition get_or_None :: "(string \<times> pyval) list \<Rightarrow> string \<Rightarrow> pyval" where
  "get_or_None d k = (case map_of d k of None \<Rightarrow> VNone | Some v \<Rightarrow> v)"

text \<open>Destructors: a branch that returned a value took the one case that can.\<close>

lemma case_VStr_Inr: "(case v of VStr s \<Rightarrow> f s | _ \<Rightarrow> Inl e) = Inr y \<longleftrightarrow> (\<exists>s. v = VStr s \<and> f s = Inr y)"
  by (cases v) auto

lemma case_VList_Inr: "(case v of VList s \<Rightarrow> f s | _ \<Rightarrow> Inl e) = Inr y \<longleftrightarrow> (\<exists>s. v = VList s \<and> f s = Inr y)"
  by (cases v) auto

lemma case_VDict_Inr: "(case v of VDict s \<Rightarrow> f s | _ \<Rightarrow> Inl e) = Inr y \<longleftrightarrow> (\<exists>s. v = VDict s \<and> f s = Inr y)"
  by (cases v) auto

lemma case_option_Inr: "(case v of None \<Rightarrow> Inl e | Some x \<Rightarrow> f x) = Inr y \<longleftrightarrow> (\<exists>x. v = Some x \<and> f x = Inr y)"
  by (cases v) auto

lemma case_sum_Inr: "(case v of Inl e \<Rightarrow> Inl (g e) | Inr x \<Rightarrow> f x) = Inr y \<longleftrightarrow> (\<exists>x. v = Inr x \<and> f x = Inr y)"
  by (cases v) auto

lemma if_Inl_Inr: "(if b then Inl e else x) = Inr y \<longleftrightarrow> \<not> b \<and> x = Inr y"
  "(if b then x else Inl e) = Inr y \<longleftrightarrow> b \<and> x = Inr y"
  by auto

lemmas Inr_iffs = bind_res_Inr_iff case_VStr_Inr case_VList_Inr case_VDict_Inr case_option_Inr
  case_sum_Inr if_Inl_Inr

end
