(* ===== verification/RecordIds.thy ===== *)
theory RecordIds
  imports PyVal
begin

text \<open>
  \<open>persistence/record_ids.py\<close>, \<open>common/identity.py\<close> and \<open>common/text.py\<close>: the syntax of graph
  identifiers, the identity map from trusted client metadata to a person, and the text helpers.
  The regular expressions are recognisers over the character classes they name.
\<close>

section \<open>Record identifiers\<close>

definition table_start :: "char \<Rightarrow> bool" where
  "table_start c \<longleftrightarrow> is_alpha c \<or> c = CHR ''_''"

definition table_char :: "char \<Rightarrow> bool" where
  "table_char c \<longleftrightarrow> is_alnum c \<or> c = CHR ''_''"

definition key_char :: "char \<Rightarrow> bool" where
  "key_char c \<longleftrightarrow> is_alnum c \<or> c = CHR ''_'' \<or> c = CHR ''-''"

definition table_name :: "string \<Rightarrow> bool" where
  "table_name s \<longleftrightarrow> (case s of [] \<Rightarrow> False | c # cs \<Rightarrow> table_start c \<and> list_all table_char cs)"

definition record_key :: "string \<Rightarrow> bool" where
  "record_key s \<longleftrightarrow> list_all (\<lambda>w. w \<noteq> [] \<and> list_all key_char w) (split_on CHR '':'' s)"

definition match_record_id :: "string \<Rightarrow> (string \<times> string) option" where
  "match_record_id s =
     (let t = takeWhile (\<lambda>c. c \<noteq> CHR '':'') s; r = dropWhile (\<lambda>c. c \<noteq> CHR '':'') s in
      case r of [] \<Rightarrow> None
      | _ # k \<Rightarrow> if table_name t \<and> record_key k then Some (t, k) else None)"

definition split_record_id :: "string \<Rightarrow> (string \<times> string) res" where
  "split_record_id s = (case match_record_id s of None \<Rightarrow> Inl ValueError | Some p \<Rightarrow> Inr p)"

text \<open>The same on a dynamic value: anything but a string is refused.\<close>

definition split_record_id_val :: "pyval \<Rightarrow> (string \<times> string) res" where
  "split_record_id_val v = (case v of VStr s \<Rightarrow> split_record_id s | _ \<Rightarrow> Inl ValueError)"

definition canonical :: "string \<times> string \<Rightarrow> string" where
  "canonical r = fst r @ CHR '':'' # snd r"

definition as_record_id :: "string \<Rightarrow> (string \<times> string) res" where
  "as_record_id s = split_record_id s"

section \<open>Base 64 with the URL alphabet\<close>

definition b64_alphabet :: string where
  "b64_alphabet =
     ''ABCDEFGHIJKLMNOPQRSTUVWXYZabcdefghijklmnopqrstuvwxyz0123456789-_''"

definition b64_char :: "nat \<Rightarrow> char" where
  "b64_char n = b64_alphabet ! (n mod 64)"

text \<open>\<open>urlsafe_b64encode(s).rstrip("=")\<close>: three bytes become four characters; one or two trailing
  bytes become two or three, and the padding is stripped.\<close>

fun b64_encode :: "string \<Rightarrow> string" where
  "b64_encode [] = []"
| "b64_encode [a] = [b64_char (code_pt a div 4), b64_char (code_pt a mod 4 * 16)]"
| "b64_encode [a, b] =
     [b64_char (code_pt a div 4), b64_char (code_pt a mod 4 * 16 + code_pt b div 16),
      b64_char (code_pt b mod 16 * 4)]"
| "b64_encode (a # b # c # s) =
     b64_char (code_pt a div 4) # b64_char (code_pt a mod 4 * 16 + code_pt b div 16)
     # b64_char (code_pt b mod 16 * 4 + code_pt c div 64) # b64_char (code_pt c mod 64) # b64_encode s"

definition implicit_edge_component :: "string \<times> string \<Rightarrow> string" where
  "implicit_edge_component r =
     (if CHR '':'' \<notin> set (snd r) then fst r @ CHR ''_'' # snd r
      else ''b64_'' @ b64_encode (canonical r))"

section \<open>Identity and text helpers\<close>

definition lower :: "char \<Rightarrow> char" where
  "lower c = (if is_upper c \<or> (192 \<le> code_pt c \<and> code_pt c \<le> 222 \<and> code_pt c \<noteq> 215)
     then char_of (code_pt c + 32) else c)"

text \<open>\<open>str.casefold\<close> below code point 256: the sharp s becomes two characters and the micro sign
  leaves the range, so it is excluded from the strings the model speaks of.\<close>

definition casefold :: "string \<Rightarrow> string" where
  "casefold s = concat (map (\<lambda>c. if code_pt c = 223 then ''ss'' else [lower c]) s)"

definition resolve_user_entity_id ::
  "string dict \<Rightarrow> string dict \<Rightarrow> string option \<Rightarrow> string option \<Rightarrow> string option" where
  "resolve_user_entity_id headers identity_map user_id email =
     (let pick = (\<lambda>name alt. case map_of headers name of
              None \<Rightarrow> alt | Some v \<Rightarrow> if v = [] then alt else Some v);
          by_email = (case pick ''X-OpenWebUI-User-Email'' email of
              None \<Rightarrow> None
            | Some m \<Rightarrow> if m = [] then None
                        else map_of identity_map (''email:'' @ casefold (strip m)))
      in case pick ''X-OpenWebUI-User-Id'' user_id of
           None \<Rightarrow> by_email
         | Some i \<Rightarrow> if i = [] then by_email
             else (case map_of identity_map (''id:'' @ strip i) of
                     None \<Rightarrow> by_email | Some p \<Rightarrow> if p = [] then by_email else Some p))"

definition is_user_text :: "(string \<times> pyval) list \<Rightarrow> bool" where
  "is_user_text m \<longleftrightarrow> map_of m ''role'' = Some (VStr ''user'')
     \<and> (case map_of m ''content'' of Some (VStr _) \<Rightarrow> True | _ \<Rightarrow> False)"

definition latest_user_message :: "(string \<times> pyval) list list \<Rightarrow> string" where
  "latest_user_message messages =
     (case find is_user_text (rev messages) of
        None \<Rightarrow> []
      | Some m \<Rightarrow> (case map_of m ''content'' of Some (VStr c) \<Rightarrow> c | _ \<Rightarrow> []))"

definition normalize_language_code :: "string \<Rightarrow> string" where
  "normalize_language_code language = hd (split_on CHR ''-'' (casefold language))"

definition safe_char :: "char \<Rightarrow> char" where
  "safe_char c = (if is_alnum c \<or> c \<in> set ''._-'' then c else CHR ''_'')"

definition safe_log_token :: "string \<Rightarrow> nat \<Rightarrow> string" where
  "safe_log_token value maximum_length =
     (let t = take maximum_length (map safe_char value) in if t = [] then ''-'' else t)"

section \<open>Facts\<close>

lemma takeWhile_dropWhile_sep:
  "dropWhile (\<lambda>c. c \<noteq> sep) s = x # k \<Longrightarrow> s = takeWhile (\<lambda>c. c \<noteq> sep) s @ sep # k"
  by (induction s) (auto split: if_splits)

lemma not_table_char_colon [simp]: "\<not> table_char CHR '':''" "\<not> table_start CHR '':''"
  by (simp_all add: table_char_def table_start_def char_class_defs)

lemma table_name_no_colon: "table_name t \<Longrightarrow> CHR '':'' \<notin> set t"
  by (auto simp: table_name_def list_all_iff split: list.splits)

lemma match_record_id_iff:
  "match_record_id s = Some (t, k) \<longleftrightarrow> s = canonical (t, k) \<and> table_name t \<and> record_key k"
  (is "?L \<longleftrightarrow> ?R")
proof
  assume ?L
  then show ?R
    by (auto simp: match_record_id_def Let_def canonical_def split: list.splits if_splits
        dest!: takeWhile_dropWhile_sep)
next
  assume r: ?R
  then have n: "\<forall>c \<in> set t. c \<noteq> CHR '':''"
    using table_name_no_colon by metis
  have "takeWhile (\<lambda>c. c \<noteq> CHR '':'') s = t" "dropWhile (\<lambda>c. c \<noteq> CHR '':'') s = CHR '':'' # k"
    using r n by (auto simp: canonical_def takeWhile_append2 dropWhile_append2)
  with r show ?L by (simp add: match_record_id_def)
qed

lemma split_record_id_Inr_iff:
  "split_record_id s = Inr (t, k) \<longleftrightarrow> s = canonical (t, k) \<and> table_name t \<and> record_key k"
  by (simp add: split_record_id_def match_record_id_iff[symmetric] split: option.split)

lemma split_record_id_cases:
  obtains "split_record_id s = Inl ValueError"
  | t k where "split_record_id s = Inr (t, k)"
  by (cases "match_record_id s") (auto simp: split_record_id_def)

lemma as_record_id_canonical: "as_record_id s = Inr r \<Longrightarrow> canonical r = s"
  by (cases r) (simp add: as_record_id_def split_record_id_Inr_iff)

text \<open>Exactly the well-formed identifiers are accepted, and splitting one and writing it back gives
  the same identifier: a table name and a key are the only two parts it can be read as.\<close>

theorem record_id_roundtrip:
  "as_record_id s = Inr r \<longleftrightarrow> canonical r = s \<and> table_name (fst r) \<and> record_key (snd r)"
  by (cases r) (auto simp: as_record_id_def split_record_id_Inr_iff)

end
