(* ===== verification/PyTime.thy ===== *)
theory PyTime
  imports RecordIds
begin

text \<open>
  The part of Python's \<open>datetime\<close> that the program uses: the proleptic Gregorian calendar between
  the years 1 and 9999, ordinals, ISO 8601 parsing as \<open>fromisoformat\<close> does it since Python 3.11,
  \<open>isoformat\<close>, and the conversion of an aware value to a UTC instant. An instant is the number of
  microseconds since the (non-existent) midnight that starts ordinal day 0.
\<close>

section \<open>Calendar\<close>

record date =
  yr :: int
  mo :: int
  dy :: int

definition is_leap :: "int \<Rightarrow> bool" where
  "is_leap y \<longleftrightarrow> y mod 4 = 0 \<and> (y mod 100 \<noteq> 0 \<or> y mod 400 = 0)"

definition days_in_month :: "int \<Rightarrow> int \<Rightarrow> int" where
  "days_in_month y m =
     (if m = 2 then (if is_leap y then 29 else 28) else if m \<in> {4, 6, 9, 11} then 30 else 31)"

definition days_before_year :: "int \<Rightarrow> int" where
  "days_before_year y = (let p = y - 1 in p * 365 + p div 4 - p div 100 + p div 400)"

definition month_offsets :: "int list" where
  "month_offsets = [0, 0, 31, 59, 90, 120, 151, 181, 212, 243, 273, 304, 334]"

definition days_before_month :: "int \<Rightarrow> int \<Rightarrow> int" where
  "days_before_month y m = month_offsets ! nat m + (if 2 < m \<and> is_leap y then 1 else 0)"

definition valid_date :: "int \<Rightarrow> int \<Rightarrow> int \<Rightarrow> bool" where
  "valid_date y m d \<longleftrightarrow> 1 \<le> y \<and> y \<le> 9999 \<and> 1 \<le> m \<and> m \<le> 12 \<and> 1 \<le> d \<and> d \<le> days_in_month y m"

definition mk_date :: "int \<Rightarrow> int \<Rightarrow> int \<Rightarrow> date res" where
  "mk_date y m d = (if valid_date y m d then Inr \<lparr>yr = y, mo = m, dy = d\<rparr> else Inl ValueError)"

definition wf_date :: "date \<Rightarrow> bool" where
  "wf_date d \<longleftrightarrow> valid_date (yr d) (mo d) (dy d)"

definition ymd2ord :: "int \<Rightarrow> int \<Rightarrow> int \<Rightarrow> int" where
  "ymd2ord y m d = days_before_year y + days_before_month y m + d"

definition toordinal :: "date \<Rightarrow> int" where
  "toordinal d = ymd2ord (yr d) (mo d) (dy d)"

definition max_ordinal :: int where
  "max_ordinal = 3652059"

definition ord2ymd :: "int \<Rightarrow> int \<times> int \<times> int" where
  "ord2ymd ord =
     (let n = ord - 1; n400 = n div 146097; n = n mod 146097;
          n100 = n div 36524; n = n mod 36524;
          n4 = n div 1461; n = n mod 1461;
          n1 = n div 365; n = n mod 365;
          year = n400 * 400 + 1 + n100 * 100 + n4 * 4 + n1
      in if n1 = 4 \<or> n100 = 4 then (year - 1, 12, 31)
         else let leap = (n1 = 3 \<and> (n4 \<noteq> 24 \<or> n100 = 3));
                  month = (n + 50) div 32;
                  preceding = month_offsets ! nat month + (if 2 < month \<and> leap then 1 else 0)
              in if preceding > n
                 then let m = month - 1;
                          p = preceding - ((if m = 2 then 28 else if m \<in> {4, 6, 9, 11} then 30 else 31)
                                + (if m = 2 \<and> leap then 1 else 0))
                      in (year, m, n - p + 1)
                 else (year, month, n - preceding + 1))"

definition fromordinal :: "int \<Rightarrow> date res" where
  "fromordinal n = (if 1 \<le> n \<and> n \<le> max_ordinal
     then (case ord2ymd n of (y, m, d) \<Rightarrow> mk_date y m d) else Inl OverflowError)"

definition date_lt :: "date \<Rightarrow> date \<Rightarrow> bool" where
  "date_lt a b \<longleftrightarrow> yr a < yr b \<or> yr a = yr b \<and> (mo a < mo b \<or> mo a = mo b \<and> dy a < dy b)"

section \<open>Date-times\<close>

record datetime =
  dt_date :: date
  dt_hour :: int
  dt_minute :: int
  dt_second :: int
  dt_micro :: int
  dt_off :: "int option"

definition day_us :: int where "day_us = 86400000000"

definition time_us :: "datetime \<Rightarrow> int" where
  "time_us t = ((dt_hour t * 60 + dt_minute t) * 60 + dt_second t) * 1000000 + dt_micro t"

text \<open>The wall clock as microseconds, and the instant of an aware value.\<close>

definition wall_us :: "datetime \<Rightarrow> int" where
  "wall_us t = toordinal (dt_date t) * day_us + time_us t"

definition from_wall :: "int \<Rightarrow> int option \<Rightarrow> datetime res" where
  "from_wall w off = bind_res (fromordinal (w div day_us)) (\<lambda>d. let r = w mod day_us in
     Inr \<lparr>dt_date = d, dt_hour = r div 3600000000, dt_minute = r div 60000000 mod 60,
          dt_second = r div 1000000 mod 60, dt_micro = r mod 1000000, dt_off = off\<rparr>)"

definition in_range_us :: "int \<Rightarrow> bool" where
  "in_range_us w \<longleftrightarrow> day_us \<le> w \<and> w < (max_ordinal + 1) * day_us"

text \<open>\<open>t.astimezone(timezone.utc)\<close> as an instant, for an aware value.\<close>

definition utc_instant :: "int \<Rightarrow> int \<Rightarrow> int res" where
  "utc_instant w off = (if in_range_us (w - off) then Inr (w - off) else Inl OverflowError)"

section \<open>Parsing\<close>

definition all_digits :: "string \<Rightarrow> bool" where
  "all_digits s \<longleftrightarrow> s \<noteq> [] \<and> list_all is_digit s"

definition num_field :: "nat \<Rightarrow> string \<Rightarrow> int res" where
  "num_field n s = (if length s = n \<and> all_digits s then Inr (int (nat_of_digits s)) else Inl ValueError)"

definition slice :: "nat \<Rightarrow> nat \<Rightarrow> string \<Rightarrow> string" where
  "slice i j s = take (j - i) (drop i s)"

definition isoweek1monday :: "int \<Rightarrow> int" where
  "isoweek1monday y = (let f = ymd2ord y 1 1; w = (f + 6) mod 7; m = f - w in
     if w > 3 then m + 7 else m)"

definition isoweek_to_gregorian :: "int \<Rightarrow> int \<Rightarrow> int \<Rightarrow> (int \<times> int \<times> int) res" where
  "isoweek_to_gregorian y w d =
     (let first = ymd2ord y 1 1 mod 7;
          week_ok = (0 < w \<and> w < 53) \<or> (w = 53 \<and> (first = 4 \<or> first = 3 \<and> is_leap y))
      in if 1 \<le> y \<and> y \<le> 9999 \<and> week_ok \<and> 0 < d \<and> d < 8
         then Inr (ord2ymd (isoweek1monday y + (w - 1) * 7 + (d - 1)))
         else Inl ValueError)"

definition parse_iso_date :: "string \<Rightarrow> (int \<times> int \<times> int) res" where
  "parse_iso_date s = bind_res (num_field 4 (slice 0 4 s)) (\<lambda>y.
     let sep = (slice 4 5 s = ''-''); pos = 4 + (if sep then 1 else 0) in
     if slice pos (pos + 1) s = ''W'' then
       bind_res (num_field 2 (slice (pos + 1) (pos + 3) s)) (\<lambda>w.
         let p = pos + 3 in
         if length s > p then
           if (slice p (p + 1) s = ''-'') \<noteq> sep then Inl ValueError
           else let p = p + (if sep then 1 else 0) in
             bind_res (num_field 1 (drop p s)) (\<lambda>d. isoweek_to_gregorian y w d)
         else isoweek_to_gregorian y w 1)
     else
       bind_res (num_field 2 (slice pos (pos + 2) s)) (\<lambda>m.
         let p = pos + 2 in
         if (slice p (p + 1) s = ''-'') \<noteq> sep then Inl ValueError
         else let p = p + (if sep then 1 else 0) in
           bind_res (num_field 2 (drop p s)) (\<lambda>d. Inr (y, m, d))))"

definition date_fromisoformat :: "string \<Rightarrow> date res" where
  "date_fromisoformat s =
     (if length s \<in> {7, 8, 10}
      then bind_res (parse_iso_date s) (\<lambda>(y, m, d). mk_date y m d) else Inl ValueError)"

definition iso_separator :: "string \<Rightarrow> nat res" where
  "iso_separator s =
     (let n = length s in
      if n = 7 then Inr 7
      else if slice 4 5 s = ''-'' then
        if slice 5 6 s = ''W'' then
          if n > 8 \<and> slice 8 9 s = ''-'' then
            if n = 9 then Inl ValueError
            else if n > 10 \<and> list_all is_digit (slice 10 11 s) then Inr 8 else Inr 10
          else Inr 8
        else Inr 10
      else if slice 4 5 s = ''W'' then
        let idx = 7 + length (takeWhile is_digit (drop 7 s)) in
        if idx < 9 then Inr idx else if even idx then Inr 7 else Inr 8
      else Inr 8)"

text \<open>\<open>HH[:?MM[:?SS[{.,}f+]]]\<close>; only the first six digits of the fraction count.\<close>

definition parse_fraction :: "string \<Rightarrow> int res" where
  "parse_fraction s =
     (if s = [] then Inr 0
      else if hd s \<in> set ''.,'' \<and> all_digits (tl s)
      then let f = take 6 (tl s) in Inr (int (nat_of_digits f) * 10 ^ (6 - length f))
      else Inl ValueError)"

fun parse_hms :: "nat \<Rightarrow> bool \<Rightarrow> string \<Rightarrow> (int list \<times> string) res" where
  "parse_hms 0 sep s = Inr ([], s)"
| "parse_hms (Suc n) sep s =
     bind_res (num_field 2 (take 2 s)) (\<lambda>v. let r = drop 2 s in
       if r = [] \<or> n = 0 then Inr ([v], r)
       else if n = 2 then
         let sep' = (hd r = CHR '':'') in
         bind_res (parse_hms n sep' (if sep' then tl r else r)) (\<lambda>(vs, r'). Inr (v # vs, r'))
       else if sep \<and> hd r \<noteq> CHR '':'' then Inl ValueError
       else bind_res (parse_hms n sep (if sep then tl r else r)) (\<lambda>(vs, r'). Inr (v # vs, r')))"

definition parse_hms_ff :: "string \<Rightarrow> (int \<times> int \<times> int \<times> int) res" where
  "parse_hms_ff s = bind_res (parse_hms 3 False s) (\<lambda>(vs, r).
     bind_res (parse_fraction r) (\<lambda>f.
       Inr (vs ! 0, if length vs > 1 then vs ! 1 else 0, if length vs > 2 then vs ! 2 else 0, f)))"

definition find_char :: "char \<Rightarrow> string \<Rightarrow> nat option" where
  "find_char c s = (if c \<in> set s then Some (length (takeWhile (\<lambda>x. x \<noteq> c) s)) else None)"

definition tz_position :: "string \<Rightarrow> nat option" where
  "tz_position s = (case find_char CHR ''-'' s of Some i \<Rightarrow> Some i
     | None \<Rightarrow> (case find_char CHR ''+'' s of Some i \<Rightarrow> Some i
     | None \<Rightarrow> find_char CHR ''Z'' s))"

definition parse_iso_time :: "string \<Rightarrow> (int \<times> int \<times> int \<times> int \<times> int option) res" where
  "parse_iso_time s =
     (if length s < 2 then Inl ValueError
      else case tz_position s of
        None \<Rightarrow> bind_res (parse_hms_ff s) (\<lambda>(h, m, x, f). Inr (h, m, x, f, None))
      | Some i \<Rightarrow> bind_res (parse_hms_ff (take i s)) (\<lambda>(h, m, x, f).
          if i + 1 = length s \<and> s ! i = CHR ''Z'' then Inr (h, m, x, f, Some 0)
          else let z = drop (i + 1) s in
            if length z \<in> {0, 1, 3} then Inl ValueError
            else bind_res (parse_hms_ff z) (\<lambda>(zh, zm, zs, zf).
              let td = ((zh * 60 + zm) * 60 + zs) * 1000000 + zf in
              if td \<ge> day_us then Inl ValueError
              else Inr (h, m, x, f, Some (if s ! i = CHR ''-'' then - td else td)))))"

definition mk_datetime ::
  "int \<times> int \<times> int \<Rightarrow> int \<times> int \<times> int \<times> int \<times> int option \<Rightarrow> datetime res" where
  "mk_datetime ymd t = (case (ymd, t) of ((y, m, d), (h, mn, s, f, off)) \<Rightarrow>
     bind_res (mk_date y m d) (\<lambda>dt.
       if 0 \<le> h \<and> h \<le> 23 \<and> 0 \<le> mn \<and> mn \<le> 59 \<and> 0 \<le> s \<and> s \<le> 59 \<and> 0 \<le> f \<and> f \<le> 999999
       then Inr \<lparr>dt_date = dt, dt_hour = h, dt_minute = mn, dt_second = s, dt_micro = f, dt_off = off\<rparr>
       else Inl ValueError))"

definition datetime_fromisoformat :: "string \<Rightarrow> datetime res" where
  "datetime_fromisoformat s =
     (if length s < 7 then Inl ValueError
      else bind_res (iso_separator s) (\<lambda>k.
        bind_res (if length (take k s) \<in> {7, 8, 10} then parse_iso_date (take k s) else Inl ValueError)
          (\<lambda>ymd. let t = drop (k + 1) s in
            if t = [] then mk_datetime ymd (0, 0, 0, 0, None)
            else bind_res (parse_iso_time t) (mk_datetime ymd))))"

text \<open>\<open>value.replace("Z", "+00:00")\<close>\<close>

definition replace_Z :: "string \<Rightarrow> string" where
  "replace_Z s = concat (map (\<lambda>c. if c = CHR ''Z'' then ''+00:00'' else [c]) s)"

section \<open>Printing\<close>

definition pad :: "nat \<Rightarrow> int \<Rightarrow> string" where
  "pad w i = (let s = show_int i in replicate (w - length s) CHR ''0'' @ s)"

definition date_isoformat :: "date \<Rightarrow> string" where
  "date_isoformat d = pad 4 (yr d) @ ''-'' @ pad 2 (mo d) @ ''-'' @ pad 2 (dy d)"

definition offset_isoformat :: "int \<Rightarrow> string" where
  "offset_isoformat off =
     (let a = \<bar>off\<bar>; s = a div 1000000; u = a mod 1000000 in
      (if off < 0 then ''-'' else ''+'') @ pad 2 (s div 3600) @ '':'' @ pad 2 (s div 60 mod 60)
      @ (if s mod 60 \<noteq> 0 \<or> u \<noteq> 0 then '':'' @ pad 2 (s mod 60) else '''')
      @ (if u \<noteq> 0 then ''.'' @ pad 6 u else ''''))"

definition datetime_isoformat :: "datetime \<Rightarrow> string" where
  "datetime_isoformat t =
     date_isoformat (dt_date t) @ ''T'' @ pad 2 (dt_hour t) @ '':'' @ pad 2 (dt_minute t) @ '':'' @ pad 2 (dt_second t)
     @ (if dt_micro t \<noteq> 0 then ''.'' @ pad 6 (dt_micro t) else '''')
     @ (case dt_off t of None \<Rightarrow> '''' | Some off \<Rightarrow> offset_isoformat off)"

text \<open>The printed form of an instant held as a UTC value.\<close>

definition instant_isoformat :: "int \<Rightarrow> string" where
  "instant_isoformat i = (case from_wall i (Some 0) of
     Inr t \<Rightarrow> datetime_isoformat t | Inl _ \<Rightarrow> '''')"

section \<open>Ordinals and dates\<close>

definition month_day :: "bool \<Rightarrow> int \<Rightarrow> int \<times> int" where
  "month_day leap n =
     (let month = (n + 50) div 32;
          preceding = month_offsets ! nat month + (if 2 < month \<and> leap then 1 else 0)
      in if preceding > n
         then let m = month - 1;
                  p = preceding - ((if m = 2 then 28 else if m \<in> {4, 6, 9, 11} then 30 else 31)
                        + (if m = 2 \<and> leap then 1 else 0))
              in (m, n - p + 1)
         else (month, n - preceding + 1))"

definition month_day_ok :: "bool \<Rightarrow> int \<Rightarrow> bool" where
  "month_day_ok leap n = (case month_day leap n of (m, d) \<Rightarrow>
     1 \<le> m \<and> m \<le> 12 \<and> 1 \<le> d
     \<and> d \<le> (if m = 2 then (if leap then 29 else 28) else if m \<in> {4, 6, 9, 11} then 30 else 31)
     \<and> month_offsets ! nat m + (if 2 < m \<and> leap then 1 else 0) + d = n + 1)"

lemma month_day_ok:
  assumes "0 \<le> n" and "n < 365"
  shows "month_day_ok leap n"
proof -
  define M where "M = (n + 50) div 32"
  have b: "32 * M \<le> n + 50" "n + 50 < 32 * M + 32" by (simp_all add: M_def)
  then have "1 \<le> M" "M \<le> 12" using assms by linarith+
  then have "M \<in> {1, 2, 3, 4, 5, 6, 7, 8, 9, 10, 11, 12}" unfolding insert_iff empty_iff by presburger
  then show ?thesis
    unfolding month_day_ok_def month_day_def Let_def M_def[symmetric]
    using assms b by (elim insertE emptyE) (simp_all add: month_offsets_def)
qed

lemma div_mod_parts: "0 \<le> r \<Longrightarrow> r < m \<Longrightarrow> n = m * a + r \<Longrightarrow> n div m = a \<and> n mod m = (r::int)"
  by simp

text \<open>The year of a day count split by the lengths of 400, 100, 4 and 1 years.\<close>

lemma year_parts:
  assumes "0 \<le> c" "c \<le> 3" "0 \<le> q" "q \<le> 24" "0 \<le> k" "k \<le> (3::int)"
  shows "days_before_year (400 * a + 100 * c + 4 * q + k + 1) = 146097 * a + 36524 * c + 1461 * q + 365 * k"
    and "is_leap (400 * a + 100 * c + 4 * q + k + 1) \<longleftrightarrow> k = 3 \<and> (q \<noteq> 24 \<or> c = 3)"
proof -
  let ?Y = "400 * a + 100 * c + 4 * q + k"
  have "?Y div 4 = 100 * a + 25 * c + q"
    using assms div_mod_parts[of k 4 ?Y "100 * a + 25 * c + q"] by simp
  moreover have "?Y div 100 = 4 * a + c"
    using assms div_mod_parts[of "4 * q + k" 100 ?Y "4 * a + c"] by simp
  moreover have "?Y div 400 = a"
    using assms div_mod_parts[of "100 * c + 4 * q + k" 400 ?Y a] by simp
  ultimately show "days_before_year (?Y + 1) = 146097 * a + 36524 * c + 1461 * q + 365 * k"
    by (simp add: days_before_year_def)
  have "(?Y + 1) mod 4 = (k + 1) mod 4"
    using mod_mult_self2[of "k + 1" 4 "100 * a + 25 * c + q"] by (simp add: algebra_simps)
  moreover have "(?Y + 1) mod 100 = (4 * q + k + 1) mod 100"
    using mod_mult_self2[of "4 * q + k + 1" 100 "4 * a + c"] by (simp add: algebra_simps)
  moreover have "(?Y + 1) mod 400 = (100 * c + 4 * q + k + 1) mod 400"
    using mod_mult_self2[of "100 * c + 4 * q + k + 1" 400 a] by (simp add: algebra_simps)
  moreover have "(k + 1) mod 4 = 0 \<longleftrightarrow> k = 3"
    using assms by (cases "k = 3") auto
  moreover have "(4 * q + k + 1) mod 100 = 0 \<longleftrightarrow> q = 24 \<and> k = 3"
  proof -
    have "(4 * q + k + 1) mod 100 = 0 \<longleftrightarrow> 4 * q + k = 99"
      using assms by (cases "4 * q + k = 99") auto
    also have "\<dots> \<longleftrightarrow> q = 24 \<and> k = 3"
    proof
      assume e: "4 * q + k = 99"
      then have "q = 24" using assms by linarith
      with e show "q = 24 \<and> k = 3" by simp
    qed simp
    finally show ?thesis .
  qed
  moreover have "(100 * c + 4 * q + k + 1) mod 400 = 0 \<longleftrightarrow> c = 3 \<and> q = 24 \<and> k = 3"
  proof -
    have "(100 * c + 4 * q + k + 1) mod 400 = 0 \<longleftrightarrow> 100 * c + 4 * q + k = 399"
      using assms by (cases "100 * c + 4 * q + k = 399") auto
    also have "\<dots> \<longleftrightarrow> c = 3 \<and> q = 24 \<and> k = 3"
    proof
      assume e: "100 * c + 4 * q + k = 399"
      then have "c = 3" using assms by linarith
      with e have "q = 24" using assms by linarith
      with e \<open>c = 3\<close> show "c = 3 \<and> q = 24 \<and> k = 3" by simp
    qed simp
    finally show ?thesis .
  qed
  ultimately show "is_leap (?Y + 1) \<longleftrightarrow> k = 3 \<and> (q \<noteq> 24 \<or> c = 3)"
    by (auto simp: is_leap_def)
qed

lemma ord2ymd_parts:
  assumes "n = 146097 * a + 36524 * c + 1461 * q + 365 * k + r"
    and "0 \<le> c" "c \<le> 3" "0 \<le> q" "q \<le> 24" "0 \<le> k" "k \<le> 3" "0 \<le> r" "r < (365::int)"
  shows "ord2ymd (n + 1) = (400 * a + 100 * c + 4 * q + k + 1,
     month_day (k = 3 \<and> (q \<noteq> 24 \<or> c = 3)) r)"
proof -
  have b1: "0 \<le> 365 * k + r" "365 * k + r < 1461" using assms by linarith+
  have b2: "0 \<le> 1461 * q + (365 * k + r)" "1461 * q + (365 * k + r) < 36524"
    using assms by linarith+
  have b3: "0 \<le> 36524 * c + (1461 * q + (365 * k + r))" "36524 * c + (1461 * q + (365 * k + r)) < 146097"
    using assms b2 by linarith+
  have d1: "n div 146097 = a" "n mod 146097 = 36524 * c + (1461 * q + (365 * k + r))"
    using div_mod_parts[OF b3, of n a] assms(1) by simp_all
  have d2: "(36524 * c + (1461 * q + (365 * k + r))) div 36524 = c"
    "(36524 * c + (1461 * q + (365 * k + r))) mod 36524 = 1461 * q + (365 * k + r)"
    using div_mod_parts[OF b2 refl, of c] by simp_all
  have d3: "(1461 * q + (365 * k + r)) div 1461 = q" "(1461 * q + (365 * k + r)) mod 1461 = 365 * k + r"
    using div_mod_parts[OF b1 refl, of q] by simp_all
  have d4: "(365 * k + r) div 365 = k" "(365 * k + r) mod 365 = r"
    using div_mod_parts[OF assms(8,9) refl, of k] by simp_all
  show ?thesis
    using assms(3,7) unfolding ord2ymd_def Let_def month_day_def add_diff_cancel_right' d1 d2 d3 d4
    by (simp add: algebra_simps)
qed


lemma ord2ymd_inverse:
  assumes "0 \<le> n" and "n < max_ordinal"
  shows "case ord2ymd (n + 1) of (y, m, d) \<Rightarrow> ymd2ord y m d = n + 1 \<and> valid_date y m d"
proof -
  define a c q k r where "a = n div 146097" and "c = n mod 146097 div 36524"
    and "q = n mod 146097 mod 36524 div 1461" and "k = n mod 146097 mod 36524 mod 1461 div 365"
    and "r = n mod 146097 mod 36524 mod 1461 mod 365"
  note parts = this
  have n: "n = 146097 * a + 36524 * c + 1461 * q + 365 * k + r"
    unfolding parts by (simp add: algebra_simps)
  have b: "0 \<le> a" "0 \<le> c" "0 \<le> q" "q \<le> 24" "0 \<le> k" "0 \<le> r" "r < 365" "c \<le> 4" "k \<le> 4"
    using assms unfolding parts by simp_all
  have a: "a \<le> 24" using assms n b by (simp add: max_ordinal_def)
  have y: "400 * a + 100 * c + 4 * q + k + 1 \<le> 9999" if "c \<le> 3" "k \<le> 3"
  proof (rule ccontr)
    assume "\<not> ?thesis"
    then have "c = 3" "4 * q + k = 99" "a = 24" using a b that by linarith+
    moreover from this have "q = 24" "k = 3" using b that by linarith+
    ultimately show False using assms(2) n b by (simp add: max_ordinal_def)
  qed
  have "c \<le> 3 \<and> k \<le> 3 \<or> k = 4 \<and> c \<le> 3 \<and> q \<le> 23 \<and> r = 0 \<or> c = 4 \<and> q = 0 \<and> k = 0 \<and> r = 0"
  proof -
    have "n mod 146097 < 146097" "n mod 146097 mod 36524 < 36524" "n mod 146097 mod 36524 mod 1461 < 1461"
      by simp_all
    moreover have "n mod 146097 = 36524 * c + 1461 * q + 365 * k + r"
      "n mod 146097 mod 36524 = 1461 * q + 365 * k + r" "n mod 146097 mod 36524 mod 1461 = 365 * k + r"
      unfolding parts by (simp_all add: algebra_simps)
    ultimately have lt: "36524 * c + 1461 * q + 365 * k + r < 146097" "1461 * q + 365 * k + r < 36524"
      "365 * k + r < 1461" by simp_all
    show ?thesis
    proof (cases "c = 4"; cases "k = 4")
      assume "c = 4" "k \<noteq> 4"
      with lt(1) b have "q = 0" "k = 0" "r = 0" by linarith+
      with \<open>c = 4\<close> show ?thesis by simp
    qed (use lt b in linarith)+
  qed
  then show ?thesis
  proof (elim disjE conjE)
    assume c: "c \<le> 3" "k \<le> 3"
    obtain m d where md: "month_day (k = 3 \<and> (q \<noteq> 24 \<or> c = 3)) r = (m, d)" by fastforce
    note yp = year_parts[OF b(2) c(1) b(3,4,5) c(2), of a]
    have o: "ord2ymd (n + 1) = (400 * a + 100 * c + 4 * q + k + 1, m, d)"
      using ord2ymd_parts[OF n b(2) c(1) b(3,4,5) c(2) b(6,7)] md by simp
    have i: "1 \<le> 400 * a + 100 * c + 4 * q + k + 1" using b by simp
    from month_day_ok[OF b(6,7), of "k = 3 \<and> (q \<noteq> 24 \<or> c = 3)"] y[OF c] i n
    show ?thesis
      unfolding o month_day_ok_def md valid_date_def ymd2ord_def days_before_month_def days_in_month_def
        prod.case yp
      by simp
  next
    assume c: "k = 4" "c \<le> 3" "q \<le> 23" "r = 0"
    have o: "ord2ymd (n + 1) = (400 * a + 100 * c + 4 * q + 3 + 1, 12, 31)"
      using c unfolding ord2ymd_def Let_def add_diff_cancel_right' parts[symmetric] by simp
    have y1: "1 \<le> 400 * a + 100 * c + 4 * q + 3 + 1" "400 * a + 100 * c + 4 * q + 3 + 1 \<le> 9999"
      using a b c by simp_all
    note yp = year_parts[OF b(2) c(2) b(3,4), of 3 a, simplified]
    have l: "is_leap (400 * a + 100 * c + 4 * q + 3 + 1)" using yp(2) c(3) by simp
    show ?thesis
      using y1 l yp(1) n c unfolding o valid_date_def ymd2ord_def days_before_month_def days_in_month_def prod.case
      by (simp add: month_offsets_def)
  next
    assume c: "c = 4" "q = 0" "k = 0" "r = 0"
    have o: "ord2ymd (n + 1) = (400 * a + 100 * 3 + 4 * 24 + 3 + 1, 12, 31)"
      using c unfolding ord2ymd_def Let_def add_diff_cancel_right' parts[symmetric] by simp
    have "a \<noteq> 24" using assms(2) n c by (auto simp: max_ordinal_def)
    then have y1: "1 \<le> 400 * a + 100 * 3 + 4 * 24 + 3 + (1::int)" "400 * a + 100 * 3 + 4 * 24 + 3 + 1 \<le> 9999"
      using a b by simp_all
    note yp = year_parts[of 3 24 3 a, simplified]
    show ?thesis
      using y1 yp n c unfolding o valid_date_def ymd2ord_def days_before_month_def days_in_month_def prod.case
      by (simp add: month_offsets_def)
  qed
qed

lemma fromordinal_inverse:
  assumes "1 \<le> n" and "n \<le> max_ordinal"
  obtains d where "fromordinal n = Inr d" and "toordinal d = n" and "wf_date d"
proof -
  obtain y m d where o: "ord2ymd n = (y, m, d)" by (metis prod_cases3)
  then have "ymd2ord y m d = n" "valid_date y m d"
    using ord2ymd_inverse[of "n - 1"] assms by auto
  with o assms that[of "\<lparr>yr = y, mo = m, dy = d\<rparr>"] show ?thesis
    by (simp add: fromordinal_def mk_date_def toordinal_def wf_date_def)
qed

section \<open>Printing and parsing\<close>

lemma length_show_nat: "n < 10 ^ Suc w \<Longrightarrow> length (show_nat n) \<le> Suc w"
proof (induction w arbitrary: n)
  case (Suc w)
  show ?case
  proof (cases "n < 10")
    case False
    have "n div 10 < 10 ^ Suc w" using Suc.prems by (simp add: less_mult_imp_div_less mult.commute)
    from Suc.IH[OF this] False show ?thesis by (subst show_nat.simps) simp
  qed (simp add: show_nat.simps)
qed (simp add: show_nat.simps)

lemma nat_of_digits_zeros: "nat_of_digits (replicate k CHR ''0'' @ s) = nat_of_digits s"
proof -
  have "nat_of_digits (replicate k CHR ''0'') = 0"
    by (induction k) (simp_all add: nat_of_digits_def digit_val_def code_pt_def)
  then show ?thesis by (simp add: nat_of_digits_def)
qed

lemma pad_digits:
  assumes "0 \<le> i" and "i < 10 ^ Suc w"
  shows "length (pad (Suc w) i) = Suc w" and "list_all is_digit (pad (Suc w) i)"
    and "nat_of_digits (pad (Suc w) i) = nat i"
proof -
  have s: "show_int i = show_nat (nat i)" using assms(1) by (simp add: show_int_def)
  have "nat i < 10 ^ Suc w"
    using assms by (simp add: nat_less_iff)
  from length_show_nat[OF this] show "length (pad (Suc w) i) = Suc w"
    by (simp add: pad_def s Let_def)
  show "nat_of_digits (pad (Suc w) i) = nat i"
    by (simp add: pad_def s Let_def nat_of_digits_zeros)
  show "list_all is_digit (pad (Suc w) i)"
    using is_digit_show_nat by (auto simp: pad_def s Let_def list_all_iff is_digit_def code_pt_def)
qed

lemma pad2E:
  assumes "0 \<le> i" and "i < 100"
  obtains a b where "pad 2 i = [a, b]" and "is_digit a" and "is_digit b" and "nat_of_digits [a, b] = nat i"
proof -
  have p: "length (pad 2 i) = 2" "list_all is_digit (pad 2 i)" "nat_of_digits (pad 2 i) = nat i"
    using pad_digits[of i 1] assms by (simp_all add: numeral_2_eq_2)
  then obtain a b where "pad 2 i = [a, b]" by (auto simp: length_Suc_conv numeral_2_eq_2)
  with p that show ?thesis by simp
qed

lemma pad4E:
  assumes "0 \<le> i" and "i < 10000"
  obtains a b c d where "pad 4 i = [a, b, c, d]" and "is_digit a" and "is_digit b" and "is_digit c"
    and "is_digit d" and "nat_of_digits [a, b, c, d] = nat i"
proof -
  have p: "length (pad 4 i) = 4" "list_all is_digit (pad 4 i)" "nat_of_digits (pad 4 i) = nat i"
    using pad_digits[of i 3] assms by (simp_all add: eval_nat_numeral)
  then obtain a b c d where "pad 4 i = [a, b, c, d]" by (auto simp: length_Suc_conv eval_nat_numeral)
  with p that show ?thesis by simp
qed

lemma pad6E:
  assumes "0 \<le> i" and "i < 1000000"
  obtains a b c d e f where "pad 6 i = [a, b, c, d, e, f]" and "list_all is_digit [a, b, c, d, e, f]"
    and "nat_of_digits [a, b, c, d, e, f] = nat i"
proof -
  have p: "length (pad 6 i) = 6" "list_all is_digit (pad 6 i)" "nat_of_digits (pad 6 i) = nat i"
    using pad_digits[of i 5] assms by (simp_all add: eval_nat_numeral)
  then obtain a b c d e f where "pad 6 i = [a, b, c, d, e, f]"
    by (auto simp: length_Suc_conv eval_nat_numeral)
  with p that show ?thesis by simp
qed

lemma not_digit [simp]:
  "\<not> is_digit CHR ''Z''" "\<not> is_digit CHR '':''" "\<not> is_digit CHR ''-''" "\<not> is_digit CHR ''+''"
  "\<not> is_digit CHR ''W''" "\<not> is_digit CHR ''.''" "is_digit CHR ''0''" "nat_of_digits ''00'' = 0"
  by (simp_all add: is_digit_def code_pt_def nat_of_digits_def digit_val_def)

lemma digit_not [simp]:
  "is_digit c \<Longrightarrow> c \<noteq> CHR ''Z''" "is_digit c \<Longrightarrow> c \<noteq> CHR '':''" "is_digit c \<Longrightarrow> c \<noteq> CHR ''-''"
  "is_digit c \<Longrightarrow> c \<noteq> CHR ''+''" "is_digit c \<Longrightarrow> c \<noteq> CHR ''W''" "is_digit c \<Longrightarrow> c \<noteq> CHR ''.''"
  "is_digit c \<Longrightarrow> CHR ''Z'' \<noteq> c" "is_digit c \<Longrightarrow> CHR ''-'' \<noteq> c" "is_digit c \<Longrightarrow> CHR ''+'' \<noteq> c"
  by (auto simp: is_digit_def code_pt_def)

definition wf_datetime :: "datetime \<Rightarrow> bool" where
  "wf_datetime t \<longleftrightarrow> wf_date (dt_date t) \<and> 0 \<le> dt_hour t \<and> dt_hour t \<le> 23 \<and> 0 \<le> dt_minute t
     \<and> dt_minute t \<le> 59 \<and> 0 \<le> dt_second t \<and> dt_second t \<le> 59 \<and> 0 \<le> dt_micro t \<and> dt_micro t \<le> 999999"

text \<open>The clock fields of a time of day.\<close>

lemma clock_fields:
  assumes "0 \<le> r" and "r < 86400000000"
  obtains h n s f where "r div 3600000000 = h" "r div 60000000 mod 60 = n" "r div 1000000 mod 60 = s"
    "r mod 1000000 = (f::int)" "0 \<le> h" "h \<le> 23" "0 \<le> n" "n \<le> 59" "0 \<le> s" "s \<le> 59" "0 \<le> f" "f \<le> 999999"
    "((h * 60 + n) * 60 + s) * 1000000 + f = r"
proof -
  define t f where "t = r div 1000000" and "f = r mod 1000000"
  define u s where "u = t div 60" and "s = t mod 60"
  define h n where "h = u div 60" and "n = u mod 60"
  have r: "r = t * 1000000 + f" by (simp add: t_def f_def)
  have t: "t = u * 60 + s" by (simp add: u_def s_def)
  have u: "u = h * 60 + n" by (simp add: h_def n_def)
  have b: "0 \<le> f" "f < 1000000" "0 \<le> s" "s < 60" "0 \<le> n" "n < 60"
    by (simp_all add: f_def s_def n_def)
  have "0 \<le> t" "0 \<le> u" using assms(1) by (simp_all add: t_def u_def pos_imp_zdiv_nonneg_iff)
  then have "0 \<le> h" by (simp add: h_def pos_imp_zdiv_nonneg_iff)
  moreover have "h \<le> 23" using assms(2) b r t u by linarith
  moreover have "r div 60000000 = u" "r div 3600000000 = h"
  proof -
    show "r div 60000000 = u" using zdiv_zmult2_eq[of 60 r 1000000] by (simp add: u_def t_def)
    then show "r div 3600000000 = h" using zdiv_zmult2_eq[of 60 r 60000000] by (simp add: h_def)
  qed
  moreover from this have "r div 60000000 mod 60 = n" by (simp only: n_def)
  moreover have "r div 1000000 mod 60 = s" "r mod 1000000 = f" by (simp_all only: s_def t_def f_def)
  moreover have "n \<le> 59" "s \<le> 59" "f \<le> 999999" using b by linarith+
  moreover have "((h * 60 + n) * 60 + s) * 1000000 + f = r" using r t u by simp
  ultimately show ?thesis using that[of h n s f] b by blast
qed

lemma from_wall_inverse:
  assumes "in_range_us w"
  obtains t where "from_wall w off = Inr t" and "wall_us t = w" and "wf_datetime t" and "dt_off t = off"
proof -
  have "1 \<le> w div day_us" "w div day_us \<le> max_ordinal"
    using assms by (auto simp: in_range_us_def day_us_def max_ordinal_def)
  then obtain d where d: "fromordinal (w div day_us) = Inr d" "toordinal d = w div day_us" "wf_date d"
    by (rule fromordinal_inverse)
  have r: "0 \<le> w mod day_us" "w mod day_us < 86400000000"
    using pos_mod_sign[of day_us w] pos_mod_bound[of day_us w] unfolding day_us_def by simp_all
  obtain h n s f where c: "w mod day_us div 3600000000 = h" "w mod day_us div 60000000 mod 60 = n"
    "w mod day_us div 1000000 mod 60 = s" "w mod day_us mod 1000000 = f" "0 \<le> h" "h \<le> 23" "0 \<le> n" "n \<le> 59"
    "0 \<le> s" "s \<le> 59" "0 \<le> f" "f \<le> 999999" "((h * 60 + n) * 60 + s) * 1000000 + f = w mod day_us"
    by (rule clock_fields[OF r])
  let ?t = "\<lparr>dt_date = d, dt_hour = h, dt_minute = n, dt_second = s, dt_micro = f, dt_off = off\<rparr>"
  have "from_wall w off = Inr ?t" by (simp add: from_wall_def d(1) Let_def c(1-4))
  moreover have "wall_us ?t = w" by (simp only: wall_us_def time_us_def datetime.simps d(2) c(13) div_mult_mod_eq)
  moreover have "wf_datetime ?t" using c(5-12) d(3) by (simp add: wf_datetime_def)
  ultimately show ?thesis using that by simp
qed

lemma replace_Z_id: "CHR ''Z'' \<notin> set s \<Longrightarrow> replace_Z s = s"
  by (induction s) (auto simp: replace_Z_def)

lemma year_bound: "wf_date d \<Longrightarrow> 0 \<le> yr d \<and> yr d < 10000 \<and> 0 \<le> mo d \<and> mo d < 100 \<and> 0 \<le> dy d \<and> dy d < 100"
  by (auto simp: wf_date_def valid_date_def days_in_month_def split: if_splits)

lemma parse_fraction_pad6:
  assumes "0 \<le> i" and "i < 1000000"
  shows "parse_fraction (CHR ''.'' # pad 6 i) = Inr i"
  by (rule pad6E[OF assms])
    (use assms in \<open>simp add: parse_fraction_def all_digits_def eval_nat_numeral\<close>)

lemma find_char_append: "c \<notin> set A \<Longrightarrow> find_char c (A @ c # r) = Some (length A)"
proof -
  assume "c \<notin> set A"
  then have "takeWhile (\<lambda>x. x \<noteq> c) (A @ c # r) = A" by (induction A) auto
  then show ?thesis by (simp add: find_char_def)
qed

lemma tz_position_plus:
  assumes "CHR ''-'' \<notin> set (A @ r)" and "CHR ''+'' \<notin> set A"
  shows "tz_position (A @ CHR ''+'' # r) = Some (length A)"
proof -
  have "find_char CHR ''-'' (A @ CHR ''+'' # r) = None" using assms(1) by (simp add: find_char_def)
  then show ?thesis by (simp add: tz_position_def find_char_append[OF assms(2)])
qed

lemma parse_iso_time_utc:
  assumes "CHR ''-'' \<notin> set A" and "CHR ''+'' \<notin> set A" and "parse_hms_ff A = Inr (h, m, x, f)"
  shows "parse_iso_time (A @ ''+00:00'') = Inr (h, m, x, f, Some 0)"
proof -
  have z: "parse_hms_ff ''00:00'' = Inr (0, 0, 0, 0)" by code_simp
  have "tz_position (A @ ''+00:00'') = Some (length A)"
    using tz_position_plus[of A "''00:00''"] assms(1,2) by simp
  then show ?thesis using assms(3) z by (simp add: parse_iso_time_def nth_append day_us_def)
qed

lemma parse_hms_ff_colons:
  assumes "is_digit h1" "is_digit h2" "is_digit n1" "is_digit n2" "is_digit s1" "is_digit s2"
  shows "parse_hms_ff ([h1, h2, CHR '':'', n1, n2, CHR '':'', s1, s2] @ F) =
    bind_res (parse_fraction F) (\<lambda>f. Inr (int (nat_of_digits [h1, h2]), int (nat_of_digits [n1, n2]),
      int (nat_of_digits [s1, s2]), f))"
  using assms
  by (simp add: parse_hms_ff_def numeral_3_eq_3 num_field_def all_digits_def numeral_2_eq_2)

lemma parse_iso_date_dashes:
  assumes "list_all is_digit [y1, y2, y3, y4, m1, m2, d1, d2]"
  shows "parse_iso_date [y1, y2, y3, y4, CHR ''-'', m1, m2, CHR ''-'', d1, d2] =
    Inr (int (nat_of_digits [y1, y2, y3, y4]), int (nat_of_digits [m1, m2]), int (nat_of_digits [d1, d2]))"
  using assms by (simp add: parse_iso_date_def slice_def num_field_def all_digits_def eval_nat_numeral)

lemma datetime_fromisoformat_T:
  assumes "length D = 10" and "slice 4 5 D = ''-''" and "slice 5 6 D \<noteq> ''W''" and "A \<noteq> []"
    and "parse_iso_date D = Inr ymd" and "parse_iso_time A = Inr hms"
  shows "datetime_fromisoformat (D @ CHR ''T'' # A) = mk_datetime ymd hms"
proof -
  have s: "slice 4 5 (D @ CHR ''T'' # A) = ''-''" "slice 5 6 (D @ CHR ''T'' # A) \<noteq> ''W''"
    using assms(1-3) by (simp_all add: slice_def)
  then have "iso_separator (D @ CHR ''T'' # A) = Inr 10"
    using assms(1,4) by (simp add: iso_separator_def Let_def)
  then show ?thesis using assms by (simp add: datetime_fromisoformat_def Let_def)
qed

lemma datetime_roundtrip:
  assumes "wf_datetime t" and "dt_off t = Some 0"
  shows "datetime_fromisoformat (replace_Z (datetime_isoformat t)) = Inr t"
proof -
  note b = assms(1)[unfolded wf_datetime_def]
  have d: "wf_date (dt_date t)" using b by simp
  note bounds = year_bound[OF d]
  obtain y1 y2 y3 y4 where y: "pad 4 (yr (dt_date t)) = [y1, y2, y3, y4]" "is_digit y1" "is_digit y2"
    "is_digit y3" "is_digit y4" "nat_of_digits [y1, y2, y3, y4] = nat (yr (dt_date t))"
    by (rule pad4E[of "yr (dt_date t)"]) (use bounds in auto)
  obtain m1 m2 where m: "pad 2 (mo (dt_date t)) = [m1, m2]" "is_digit m1" "is_digit m2"
    "nat_of_digits [m1, m2] = nat (mo (dt_date t))" by (rule pad2E[of "mo (dt_date t)"]) (use bounds in auto)
  obtain d1 d2 where dd: "pad 2 (dy (dt_date t)) = [d1, d2]" "is_digit d1" "is_digit d2"
    "nat_of_digits [d1, d2] = nat (dy (dt_date t))" by (rule pad2E[of "dy (dt_date t)"]) (use bounds in auto)
  obtain h1 h2 where h: "pad 2 (dt_hour t) = [h1, h2]" "is_digit h1" "is_digit h2"
    "nat_of_digits [h1, h2] = nat (dt_hour t)" by (rule pad2E[of "dt_hour t"]) (use b in auto)
  obtain n1 n2 where n: "pad 2 (dt_minute t) = [n1, n2]" "is_digit n1" "is_digit n2"
    "nat_of_digits [n1, n2] = nat (dt_minute t)" by (rule pad2E[of "dt_minute t"]) (use b in auto)
  obtain s1 s2 where s: "pad 2 (dt_second t) = [s1, s2]" "is_digit s1" "is_digit s2"
    "nat_of_digits [s1, s2] = nat (dt_second t)" by (rule pad2E[of "dt_second t"]) (use b in auto)
  note digits = y m dd h n s
  define F where "F = (if dt_micro t \<noteq> 0 then ''.'' @ pad 6 (dt_micro t) else [])"
  have "parse_fraction F = Inr (dt_micro t) \<and> (\<forall>c \<in> set F. is_digit c \<or> c = CHR ''.'')"
  proof (cases "dt_micro t = 0")
    case False
    have "list_all is_digit (pad (Suc 5) (dt_micro t))"
      by (rule pad_digits(2)) (use b in auto)
    then show ?thesis
      using parse_fraction_pad6[of "dt_micro t"] b False
      by (auto simp: F_def list_all_iff)
  qed (simp add: F_def parse_fraction_def)
  then have F: "parse_fraction F = Inr (dt_micro t)" "\<forall>c \<in> set F. is_digit c \<or> c = CHR ''.''" by simp_all
  let ?D = "[y1, y2, y3, y4, CHR ''-'', m1, m2, CHR ''-'', d1, d2]"
  let ?A = "[h1, h2, CHR '':'', n1, n2, CHR '':'', s1, s2] @ F"
  have off: "offset_isoformat 0 = ''+00:00''" by code_simp
  have str: "datetime_isoformat t = ?D @ CHR ''T'' # ?A @ ''+00:00''"
    by (simp add: datetime_isoformat_def date_isoformat_def digits F_def assms(2) off)
  have "CHR ''Z'' \<notin> set (datetime_isoformat t)"
    unfolding str using digits F(2) by auto
  from replace_Z_id[OF this] have r: "replace_Z (datetime_isoformat t) = datetime_isoformat t" .
  have date: "parse_iso_date ?D = Inr (yr (dt_date t), mo (dt_date t), dy (dt_date t))"
    using parse_iso_date_dashes[of y1 y2 y3 y4 m1 m2 d1 d2] bounds by (simp add: digits)
  have "parse_hms_ff ?A = Inr (dt_hour t, dt_minute t, dt_second t, dt_micro t)"
    using b by (subst parse_hms_ff_colons) (simp_all only: digits F(1) bind_res.simps, simp)
  moreover have "CHR ''-'' \<notin> set ?A" "CHR ''+'' \<notin> set ?A" using digits F(2) by auto
  ultimately have "parse_iso_time (?A @ ''+00:00'')
      = Inr (dt_hour t, dt_minute t, dt_second t, dt_micro t, Some 0)"
    by (intro parse_iso_time_utc)
  from datetime_fromisoformat_T[OF _ _ _ _ date this]
  have "datetime_fromisoformat (datetime_isoformat t)
      = mk_datetime (yr (dt_date t), mo (dt_date t), dy (dt_date t))
          (dt_hour t, dt_minute t, dt_second t, dt_micro t, Some 0)"
    using digits(6,7) by (simp add: str slice_def m(2))
  then show ?thesis
    using d b assms(2) by (simp add: r mk_datetime_def mk_date_def wf_date_def)
qed

lemma instant_roundtrip:
  assumes "in_range_us i"
  obtains t where "datetime_fromisoformat (replace_Z (instant_isoformat i)) = Inr t"
    and "dt_off t = Some 0" and "utc_instant (wall_us t) 0 = Inr i"
proof -
  obtain t where t: "from_wall i (Some 0) = Inr t" "wall_us t = i" "wf_datetime t" "dt_off t = Some 0"
    by (rule from_wall_inverse[OF assms])
  from datetime_roundtrip[OF t(3,4)] t assms that show ?thesis
    by (simp add: instant_isoformat_def utc_instant_def)
qed

end
