(* ===== verification/Embodiment.thy ===== *)
theory Embodiment
  imports PyTime
begin

text \<open>
  \<open>spatial/embodiment.py\<close> and the telemetry contract of \<open>spatial/telemetry.py\<close>: the persistent
  shape of a body, one measured physical estimate, and their translation from and to JSON
  documents. A constructor that validates (\<open>__post_init__\<close>) is a \<open>mk_\<close> function that returns the
  record or the exception, with the checks in the order of the source.
\<close>

section \<open>Validation helpers\<close>

text \<open>\<open>_object\<close>: a mapping with exactly the required keys and possibly the optional ones.\<close>

definition object_fields ::
  "pyval \<Rightarrow> string list \<Rightarrow> string list \<Rightarrow> (string \<times> pyval) list res" where
  "object_fields v required optional =
     (case v of
        VDict d \<Rightarrow>
          if list_all (\<lambda>k. map_of d k \<noteq> None) required
             \<and> list_all (\<lambda>k. k \<in> set required \<or> k \<in> set optional) (map fst d)
          then Inr d else Inl SpatialContractError
      | _ \<Rightarrow> Inl SpatialContractError)"

text \<open>\<open>item[key]\<close> for a key that \<open>_object\<close> has found.\<close>

definition item :: "(string \<times> pyval) list \<Rightarrow> string \<Rightarrow> pyval" where
  "item d k = get_or_None d k"

definition finite_num :: "pyval \<Rightarrow> bool \<Rightarrow> rat res" where
  "finite_num v positive =
     (case v of
        VInt i \<Rightarrow> bind_res (float_of_int i) (\<lambda>r.
          if positive \<and> i \<le> 0 then Inl SpatialContractError else Inr r)
      | VFloat (Fin r) \<Rightarrow> if positive \<and> r \<le> 0 then Inl SpatialContractError else Inr r
      | _ \<Rightarrow> Inl SpatialContractError)"

definition typed_id_val :: "pyval \<Rightarrow> string \<Rightarrow> string res" where
  "typed_id_val v table =
     (case v of
        VStr s \<Rightarrow> (case split_record_id s of
            Inl e \<Rightarrow> Inl SpatialContractError
          | Inr (parsed, _) \<Rightarrow> if parsed \<noteq> table then Inl SpatialContractError else Inr s)
      | _ \<Rightarrow> Inl SpatialContractError)"

definition typed_id :: "string \<Rightarrow> string \<Rightarrow> string res" where
  "typed_id s table = typed_id_val (VStr s) table"

text \<open>The identifiers that \<open>_typed_id\<close> accepts.\<close>

definition has_table :: "string \<Rightarrow> string \<Rightarrow> bool" where
  "has_table table s \<longleftrightarrow> (\<exists>k. split_record_id s = Inr (table, k))"

lemma typed_id_Inr_iff: "typed_id s table = Inr r \<longleftrightarrow> r = s \<and> has_table table s"
  by (auto simp: typed_id_def typed_id_val_def has_table_def split: sum.splits)

lemma typed_id_ok: "has_table table s \<Longrightarrow> typed_id s table = Inr s"
  by (simp add: typed_id_Inr_iff)

lemma typed_id_bad: "\<not> has_table table s \<Longrightarrow> typed_id s table = Inl SpatialContractError"
  by (auto simp: typed_id_def typed_id_val_def has_table_def split: sum.splits)

lemma typed_id_Inl_iff:
  "typed_id s table = Inl e \<longleftrightarrow> e = SpatialContractError \<and> \<not> has_table table s"
  by (cases "has_table table s") (auto simp: typed_id_ok typed_id_bad)

lemma typed_id_val_Inr_iff:
  "typed_id_val v table = Inr r \<longleftrightarrow> v = VStr r \<and> has_table table r"
  by (auto simp: typed_id_val_def has_table_def split: pyval.splits sum.splits if_splits)

section \<open>Positions, frames and geometry\<close>

record position =
  px :: rat
  py :: rat
  pz :: rat

definition position_from :: "pyval \<Rightarrow> position res" where
  "position_from v = bind_res (object_fields v [''x'', ''y'', ''z''] []) (\<lambda>d.
     bind_res (finite_num (item d ''x'') False) (\<lambda>x.
     bind_res (finite_num (item d ''y'') False) (\<lambda>y.
     bind_res (finite_num (item d ''z'') False) (\<lambda>z.
       Inr \<lparr>px = x, py = y, pz = z\<rparr>))))"

definition position_mapping :: "position \<Rightarrow> pyval" where
  "position_mapping p =
     VDict [(''x'', VFloat (Fin (px p))), (''y'', VFloat (Fin (py p))), (''z'', VFloat (Fin (pz p)))]"

type_synonym vec = "int \<times> int \<times> int"

definition AXES :: "vec dict" where
  "AXES = [(''+x'', (1, 0, 0)), (''-x'', (-1, 0, 0)), (''+y'', (0, 1, 0)),
           (''-y'', (0, -1, 0)), (''+z'', (0, 0, 1)), (''-z'', (0, 0, -1))]"

fun cross :: "vec \<Rightarrow> vec \<Rightarrow> vec" where
  "cross (f0, f1, f2) (l0, l1, l2) = (f1 * l2 - f2 * l1, f2 * l0 - f0 * l2, f0 * l1 - f1 * l0)"

record local_frame =
  forward :: string
  left :: string
  up :: string

definition mk_local_frame :: "pyval \<Rightarrow> pyval \<Rightarrow> pyval \<Rightarrow> local_frame res" where
  "mk_local_frame f l u =
     (case (f, l, u) of
        (VStr fs, VStr ls, VStr ws) \<Rightarrow>
          (case (map_of AXES fs, map_of AXES ls, map_of AXES ws) of
             (Some fv, Some lv, Some uv) \<Rightarrow>
               if cross fv lv \<noteq> uv then Inl SpatialContractError
               else Inr \<lparr>forward = fs, left = ls, up = ws\<rparr>
           | _ \<Rightarrow> Inl SpatialContractError)
      | _ \<Rightarrow> Inl SpatialContractError)"

definition frame_axis :: "local_frame \<Rightarrow> string \<Rightarrow> vec res" where
  "frame_axis fr direction =
     (let look = (\<lambda>a. case map_of AXES a of Some v \<Rightarrow> Inr v | None \<Rightarrow> Inl KeyError) in
      if direction = ''forward'' then look (forward fr)
      else if direction = ''left'' then look (left fr)
      else if direction = ''up'' then look (up fr)
      else Inl SpatialContractError)"

definition local_frame_from_mapping :: "pyval \<Rightarrow> local_frame res" where
  "local_frame_from_mapping v =
     bind_res (object_fields v [''forward'', ''left'', ''up''] []) (\<lambda>d.
       mk_local_frame (item d ''forward'') (item d ''left'') (item d ''up''))"

definition local_frame_as_mapping :: "local_frame \<Rightarrow> pyval" where
  "local_frame_as_mapping f =
     VDict [(''forward'', VStr (forward f)), (''left'', VStr (left f)), (''up'', VStr (up f))]"

record body_geometry =
  length_m :: rat
  width_m :: rat
  height_m :: rat
  center :: position

definition mk_body_geometry :: "pyval \<Rightarrow> pyval \<Rightarrow> pyval \<Rightarrow> position \<Rightarrow> body_geometry res" where
  "mk_body_geometry l w h c =
     bind_res (finite_num l True) (\<lambda>l.
     bind_res (finite_num w True) (\<lambda>w.
     bind_res (finite_num h True) (\<lambda>h.
     bind_res (position_from (position_mapping c)) (\<lambda>_.
       Inr \<lparr>length_m = l, width_m = w, height_m = h, center = c\<rparr>))))"

definition body_geometry_from_mapping :: "pyval \<Rightarrow> body_geometry res" where
  "body_geometry_from_mapping v =
     bind_res (object_fields v [''box''] []) (\<lambda>g.
     bind_res (object_fields (item g ''box'') [''length_m'', ''width_m'', ''height_m'', ''center''] [])
       (\<lambda>b. bind_res (position_from (item b ''center'')) (\<lambda>c.
         mk_body_geometry (item b ''length_m'') (item b ''width_m'') (item b ''height_m'') c)))"

definition body_geometry_as_mapping :: "body_geometry \<Rightarrow> pyval" where
  "body_geometry_as_mapping g =
     VDict [(''box'', VDict [(''length_m'', VFloat (Fin (length_m g))),
       (''width_m'', VFloat (Fin (width_m g))), (''height_m'', VFloat (Fin (height_m g))),
       (''center'', position_mapping (center g))])]"

section \<open>Embodiments\<close>

record embodiment =
  emb_id :: string
  emb_name :: string
  geometry :: "body_geometry option"
  local_frame :: "local_frame option"
  agent_id :: "string option"
  capabilities :: "string list"
  embodiment_type :: string

definition type_name :: "string \<Rightarrow> bool" where
  "type_name s \<longleftrightarrow> (case s of [] \<Rightarrow> False
     | c # cs \<Rightarrow> is_lower c \<and> list_all (\<lambda>x. is_lower x \<or> is_digit x \<or> x = CHR ''_'') cs)"

definition capability_name :: "string \<Rightarrow> bool" where
  "capability_name s \<longleftrightarrow>
     (let ws = split_on CHR ''.'' s in length ws \<ge> 2 \<and> list_all type_name ws)"

fun strs :: "pyval list \<Rightarrow> string list option" where
  "strs [] = Some []"
| "strs (VStr s # vs) = map_option ((#) s) (strs vs)"
| "strs (_ # vs) = None"

text \<open>\<open>Embodiment(...)\<close>. The geometry and the frame arrive as checked records.\<close>

definition mk_embodiment ::
  "pyval \<Rightarrow> pyval \<Rightarrow> body_geometry option \<Rightarrow> local_frame option \<Rightarrow> pyval \<Rightarrow> pyval list \<Rightarrow> pyval
   \<Rightarrow> embodiment res" where
  "mk_embodiment i n g f a caps t =
     bind_res (typed_id_val i ''embodiment'') (\<lambda>i.
     case n of VStr n \<Rightarrow>
       if strip n = [] then Inl SpatialContractError
       else (case t of VStr t \<Rightarrow>
         if \<not> type_name t then Inl SpatialContractError
         else bind_res (if a = VNone then Inr None
                        else bind_res (typed_id_val a ''agent'') (\<lambda>a. Inr (Some a))) (\<lambda>a.
           case strs caps of
             None \<Rightarrow> Inl SpatialContractError
           | Some cs \<Rightarrow>
               if \<not> list_all capability_name cs then Inl SpatialContractError
               else if \<not> distinct cs then Inl SpatialContractError
               else Inr \<lparr>emb_id = i, emb_name = n, geometry = g, local_frame = f, agent_id = a,
                         capabilities = sort cs, embodiment_type = t\<rparr>)
       | _ \<Rightarrow> Inl SpatialContractError)
     | _ \<Rightarrow> Inl SpatialContractError)"

definition embodiment_from_mapping :: "pyval \<Rightarrow> embodiment res" where
  "embodiment_from_mapping v =
     bind_res (object_fields v [''id'', ''name'']
        [''geometry'', ''local_frame'', ''agent_id'', ''capabilities'', ''embodiment_type'']) (\<lambda>d.
     case (case map_of d ''capabilities'' of None \<Rightarrow> VList [] | Some c \<Rightarrow> c) of
       VList caps \<Rightarrow>
         bind_res (case map_of d ''geometry'' of None \<Rightarrow> Inr None
             | Some g \<Rightarrow> bind_res (body_geometry_from_mapping g) (\<lambda>g. Inr (Some g))) (\<lambda>g.
         bind_res (case map_of d ''local_frame'' of None \<Rightarrow> Inr None
             | Some f \<Rightarrow> bind_res (local_frame_from_mapping f) (\<lambda>f. Inr (Some f))) (\<lambda>f.
           mk_embodiment (item d ''id'') (item d ''name'') g f (item d ''agent_id'') caps
             (case map_of d ''embodiment_type'' of None \<Rightarrow> VStr ''unspecified'' | Some t \<Rightarrow> t)))
     | _ \<Rightarrow> Inl SpatialContractError)"

definition opt_entry :: "string \<Rightarrow> ('a \<Rightarrow> pyval) \<Rightarrow> 'a option \<Rightarrow> (string \<times> pyval) list" where
  "opt_entry k f x = (case x of None \<Rightarrow> [] | Some y \<Rightarrow> [(k, f y)])"

definition embodiment_as_mapping :: "embodiment \<Rightarrow> pyval" where
  "embodiment_as_mapping b =
     VDict ([(''id'', VStr (emb_id b)), (''name'', VStr (emb_name b)),
             (''embodiment_type'', VStr (embodiment_type b))]
       @ opt_entry ''geometry'' body_geometry_as_mapping (geometry b)
       @ opt_entry ''local_frame'' local_frame_as_mapping (local_frame b)
       @ opt_entry ''agent_id'' VStr (agent_id b)
       @ [(''capabilities'', VList (map VStr (capabilities b)))])"

section \<open>Well-formed bodies\<close>

definition wf_geometry :: "body_geometry \<Rightarrow> bool" where
  "wf_geometry g \<longleftrightarrow> 0 < length_m g \<and> 0 < width_m g \<and> 0 < height_m g"

definition wf_frame :: "local_frame \<Rightarrow> bool" where
  "wf_frame f \<longleftrightarrow> (\<exists>a b c. map_of AXES (forward f) = Some a \<and> map_of AXES (left f) = Some b
     \<and> map_of AXES (up f) = Some c \<and> cross a b = c)"

definition wf_embodiment :: "embodiment \<Rightarrow> bool" where
  "wf_embodiment b \<longleftrightarrow> has_table ''embodiment'' (emb_id b) \<and> strip (emb_name b) \<noteq> []
     \<and> type_name (embodiment_type b)
     \<and> (\<forall>a. agent_id b = Some a \<longrightarrow> has_table ''agent'' a)
     \<and> list_all capability_name (capabilities b)
     \<and> distinct (capabilities b) \<and> sorted (capabilities b)
     \<and> (\<forall>g. geometry b = Some g \<longrightarrow> wf_geometry g) \<and> (\<forall>f. local_frame b = Some f \<longrightarrow> wf_frame f)"

lemma strs_map_VStr [simp]: "strs (map VStr cs) = Some cs"
  by (induction cs) auto

lemma typed_id_val_ok: "has_table t s \<Longrightarrow> typed_id_val (VStr s) t = Inr s"
  by (simp add: typed_id_val_Inr_iff)

lemma finite_num_float [simp]: "finite_num (VFloat (Fin r)) False = Inr r"
  by (simp add: finite_num_def)

lemma finite_num_float_pos: "0 < r \<Longrightarrow> finite_num (VFloat (Fin r)) True = Inr r"
  by (simp add: finite_num_def)

lemma position_roundtrip [simp]: "position_from (position_mapping p) = Inr p"
  by (simp add: position_from_def position_mapping_def object_fields_def item_def get_or_None_def)

lemma geometry_roundtrip:
  "wf_geometry g \<Longrightarrow> body_geometry_from_mapping (body_geometry_as_mapping g) = Inr g"
  by (simp add: body_geometry_from_mapping_def body_geometry_as_mapping_def mk_body_geometry_def
      object_fields_def item_def get_or_None_def finite_num_float_pos wf_geometry_def)

lemma frame_roundtrip:
  "wf_frame f \<Longrightarrow> local_frame_from_mapping (local_frame_as_mapping f) = Inr f"
  by (auto simp: local_frame_from_mapping_def local_frame_as_mapping_def mk_local_frame_def
      object_fields_def item_def get_or_None_def wf_frame_def)

subsection \<open>Construction\<close>

lemma float_of_int_pos:
  assumes "0 < i" and "float_of_int i = Inr r"
  shows "0 < r"
proof -
  have "pow2 (-1074) \<le> pow2 0" by (rule pow2_mono) simp
  also have "pow2 0 \<le> of_int i" using assms(1) by (simp add: pow2_def)
  finally have "0 < of_int (round_even (of_int i / pow2 (max (ilog2 (of_int i) - 52) (-1074))))
           * pow2 (max (ilog2 (of_int i) - 52) (-1074))" by (rule scaled_round_pos)
  with assms show ?thesis
    by (auto simp: float_of_int_def fl_def Let_def split: if_splits)
qed

lemma mk_body_geometry_wf: "mk_body_geometry l w h c = Inr g \<Longrightarrow> wf_geometry g"
proof -
  have p: "finite_num v True = Inr r \<Longrightarrow> 0 < r" for v r
    by (auto simp: finite_num_def bind_res_iff dest: float_of_int_pos[rotated]
        split: pyval.splits pyfloat.splits if_splits)
  assume "mk_body_geometry l w h c = Inr g"
  then show ?thesis by (auto simp: mk_body_geometry_def bind_res_iff wf_geometry_def dest: p)
qed

lemma geometry_from_mapping_wf: "body_geometry_from_mapping v = Inr g \<Longrightarrow> wf_geometry g"
  by (auto simp: body_geometry_from_mapping_def bind_res_iff dest: mk_body_geometry_wf)

lemma mk_local_frame_Inr:
  assumes "mk_local_frame a b c = Inr f"
  obtains u v w where "a = VStr (forward f)" "b = VStr (left f)" "c = VStr (up f)"
    "map_of AXES (forward f) = Some u" "map_of AXES (left f) = Some v" "map_of AXES (up f) = Some w"
    "cross u v = w"
  using assms that
  by (auto simp: mk_local_frame_def Inr_iffs simp del: cross.simps)

lemma frame_from_mapping_wf: "local_frame_from_mapping v = Inr f \<Longrightarrow> wf_frame f"
  unfolding local_frame_from_mapping_def wf_frame_def bind_res_iff
  by (elim exE conjE mk_local_frame_Inr) blast

lemma mk_embodiment_wf:
  assumes "mk_embodiment i n g f a caps t = Inr b"
    and "\<And>x. g = Some x \<Longrightarrow> wf_geometry x" and "\<And>x. f = Some x \<Longrightarrow> wf_frame x"
  shows "wf_embodiment b"
  using assms
  by (auto simp: mk_embodiment_def wf_embodiment_def Inr_iffs typed_id_val_Inr_iff list_all_iff
      split: if_splits)

lemma embodiment_from_mapping_wf:
  assumes "embodiment_from_mapping v = Inr b"
  shows "wf_embodiment b"
proof -
  from assms obtain d caps g f t where
    m: "mk_embodiment (item d ''id'') (item d ''name'') g f (item d ''agent_id'') caps t = Inr b"
    and g: "(case map_of d ''geometry'' of None \<Rightarrow> Inr None
             | Some g \<Rightarrow> bind_res (body_geometry_from_mapping g) (\<lambda>g. Inr (Some g))) = Inr g"
    and f: "(case map_of d ''local_frame'' of None \<Rightarrow> Inr None
             | Some f \<Rightarrow> bind_res (local_frame_from_mapping f) (\<lambda>f. Inr (Some f))) = Inr f"
    unfolding embodiment_from_mapping_def Inr_iffs by blast
  from g f show ?thesis
    by (intro mk_embodiment_wf[OF m])
      (auto simp: bind_res_Inr_iff dest: geometry_from_mapping_wf frame_from_mapping_wf split: option.splits)
qed

lemma embodiment_roundtrip:
  assumes "wf_embodiment b"
  shows "embodiment_from_mapping (embodiment_as_mapping b) = Inr b"
proof -
  have i: "has_table ''embodiment'' (emb_id b)" and a: "\<And>a. agent_id b = Some a \<Longrightarrow> has_table ''agent'' a"
    and g: "\<And>g. geometry b = Some g \<Longrightarrow> body_geometry_from_mapping (body_geometry_as_mapping g) = Inr g"
    and f: "\<And>f. local_frame b = Some f \<Longrightarrow> local_frame_from_mapping (local_frame_as_mapping f) = Inr f"
    and r: "strip (emb_name b) \<noteq> []" "type_name (embodiment_type b)"
      "list_all capability_name (capabilities b)" "distinct (capabilities b)" "sort (capabilities b) = capabilities b"
    using assms geometry_roundtrip frame_roundtrip by (auto simp: wf_embodiment_def sorted_sort_id)
  show ?thesis
    using i a g f r
    by (cases "agent_id b"; cases "geometry b"; cases "local_frame b")
      (simp_all add: embodiment_from_mapping_def embodiment_as_mapping_def opt_entry_def object_fields_def
        item_def get_or_None_def mk_embodiment_def typed_id_val_ok)
qed


text \<open>C9: every body that is read from a document satisfies the contract of the constructor:
  typed identifiers, a name that is not blank, sorted distinct capability names, a right-handed
  frame and a box with positive dimensions.\<close>

theorem embodiment_document_wf:
  assumes "embodiment_from_mapping v = Inr b"
  shows "wf_embodiment b"
  by (rule embodiment_from_mapping_wf[OF assms])

text \<open>Writing a body out as a document and reading it back gives the same body.\<close>

theorem embodiment_document_roundtrip:
  assumes "wf_embodiment b"
  shows "embodiment_from_mapping (embodiment_as_mapping b) = Inr b"
  by (rule embodiment_roundtrip[OF assms])

definition cart_document :: pyval where
  "cart_document = VDict [(''id'', VStr ''embodiment:cart''), (''name'', VStr ''Cart''),
     (''geometry'', VDict [(''box'', VDict [(''length_m'', VFloat (Fin 1)), (''width_m'', VFloat (Fin (1 / 2))),
        (''height_m'', VFloat (Fin 2)), (''center'', VDict [(''x'', VFloat (Fin 0)), (''y'', VFloat (Fin 0)), (''z'', VFloat (Fin 1))])])]),
     (''local_frame'', VDict [(''forward'', VStr ''+x''), (''left'', VStr ''+y''), (''up'', VStr ''+z'')]),
     (''capabilities'', VList [VStr ''speech.say'', VStr ''camera.look''])]"

definition cart :: embodiment where
  "cart = \<lparr>emb_id = ''embodiment:cart'', emb_name = ''Cart'',
     geometry = Some \<lparr>length_m = 1, width_m = 1 / 2, height_m = 2, center = \<lparr>px = 0, py = 0, pz = 1\<rparr>\<rparr>,
     local_frame = Some \<lparr>forward = ''+x'', left = ''+y'', up = ''+z''\<rparr>, agent_id = None,
     capabilities = [''camera.look'', ''speech.say''], embodiment_type = ''unspecified''\<rparr>"

lemma cart_document_read: "embodiment_from_mapping cart_document = Inr cart"
  by code_simp

theorem embodiment_document_wf_witness: "wf_embodiment cart"
  by (rule embodiment_document_wf[OF cart_document_read])

theorem embodiment_document_roundtrip_witness:
  "embodiment_from_mapping (embodiment_as_mapping cart) = Inr cart"
proof -
  have "wf_embodiment cart"
    by (simp add: wf_embodiment_def cart_def has_table_def split_record_id_def match_record_id_def
        table_name_def record_key_def table_start_def table_char_def key_char_def type_name_def
        capability_name_def strip_def lstrip_def rstrip_def is_space_def wf_geometry_def wf_frame_def
        AXES_def char_class_defs code_pt_def)
  then show ?thesis by (rule embodiment_document_roundtrip)
qed

end
