(* ===== verification/Telemetry.thy ===== *)
theory Telemetry
  imports Embodiment
begin

text \<open>
  The telemetry contract of \<open>spatial/telemetry.py\<close>: one measured estimate (or its explicit absence)
  for one body in one space, its validation and its JSON form. A measurement time is held as a UTC
  instant in microseconds.
\<close>

record physical_value =
  pv_value :: rat
  pv_p95 :: rat

definition mk_physical_value :: "pyval \<Rightarrow> pyval \<Rightarrow> physical_value res" where
  "mk_physical_value v p =
     bind_res (finite_num v False) (\<lambda>v.
     bind_res (finite_num p False) (\<lambda>p.
       if p < 0 then Inl SpatialContractError else Inr \<lparr>pv_value = v, pv_p95 = p\<rparr>))"

definition physical_value_from_mapping :: "pyval \<Rightarrow> physical_value res" where
  "physical_value_from_mapping v =
     bind_res (object_fields v [''value'', ''p95''] []) (\<lambda>d.
       mk_physical_value (item d ''value'') (item d ''p95''))"

definition physical_value_as_mapping :: "physical_value \<Rightarrow> pyval" where
  "physical_value_as_mapping v =
     VDict [(''value'', VFloat (Fin (pv_value v))), (''p95'', VFloat (Fin (pv_p95 v)))]"

record realtime_transform =
  tx :: physical_value
  ty :: physical_value
  tz :: physical_value
  tyaw :: physical_value
  tpitch :: physical_value
  troll :: physical_value

definition realtime_transform_from_mapping :: "pyval \<Rightarrow> realtime_transform res" where
  "realtime_transform_from_mapping v =
     bind_res (object_fields v [''x'', ''y'', ''z'', ''yaw'', ''pitch'', ''roll''] []) (\<lambda>d.
     bind_res (map_res (\<lambda>k. physical_value_from_mapping (item d k))
         [''x'', ''y'', ''z'', ''yaw'', ''pitch'', ''roll'']) (\<lambda>vs.
       Inr \<lparr>tx = vs ! 0, ty = vs ! 1, tz = vs ! 2, tyaw = vs ! 3, tpitch = vs ! 4, troll = vs ! 5\<rparr>))"

definition realtime_transform_as_mapping :: "realtime_transform \<Rightarrow> pyval" where
  "realtime_transform_as_mapping t =
     VDict [(''x'', physical_value_as_mapping (tx t)), (''y'', physical_value_as_mapping (ty t)),
       (''z'', physical_value_as_mapping (tz t)), (''yaw'', physical_value_as_mapping (tyaw t)),
       (''pitch'', physical_value_as_mapping (tpitch t)),
       (''roll'', physical_value_as_mapping (troll t))]"

section \<open>Measurement times\<close>

text \<open>\<open>_measured_at\<close> on a \<open>datetime\<close>, and on a dynamic value, where only a string can be one.\<close>

definition measured_at_dt :: "datetime \<Rightarrow> int res" where
  "measured_at_dt t = (case dt_off t of
     None \<Rightarrow> Inl SpatialContractError | Some off \<Rightarrow> utc_instant (wall_us t) off)"

definition measured_at :: "pyval \<Rightarrow> int res" where
  "measured_at v = (case v of
     VStr s \<Rightarrow> (case datetime_fromisoformat (replace_Z s) of
         Inl _ \<Rightarrow> Inl SpatialContractError | Inr t \<Rightarrow> measured_at_dt t)
   | _ \<Rightarrow> Inl SpatialContractError)"

text \<open>\<open>_measured_at(now if now is not None else datetime.now(timezone.utc))\<close>: the clock reading is an
  argument of the model.\<close>

definition observed :: "datetime option \<Rightarrow> int \<Rightarrow> int res" where
  "observed now clock = (case now of None \<Rightarrow> Inr clock | Some t \<Rightarrow> measured_at_dt t)"

section \<open>Samples\<close>

datatype validity = Valid | NoEstimate

record physical_telemetry =
  tl_embodiment :: string
  tl_space :: "string option"
  tl_measured :: int
  tl_validity :: validity
  tl_transform :: "realtime_transform option"

definition mk_physical_telemetry ::
  "pyval \<Rightarrow> pyval \<Rightarrow> pyval \<Rightarrow> pyval \<Rightarrow> realtime_transform option \<Rightarrow> physical_telemetry res" where
  "mk_physical_telemetry e s m v t =
     bind_res (typed_id_val e ''embodiment'') (\<lambda>e.
     bind_res (if s = VNone then Inr None
               else bind_res (typed_id_val s ''space'') (\<lambda>s. Inr (Some s))) (\<lambda>s.
     bind_res (measured_at m) (\<lambda>m.
       if v = VStr ''valid'' then
         if s = None \<or> t = None then Inl SpatialContractError
         else Inr \<lparr>tl_embodiment = e, tl_space = s, tl_measured = m, tl_validity = Valid,
                   tl_transform = t\<rparr>
       else if v = VStr ''no_estimate'' then
         if t \<noteq> None then Inl SpatialContractError
         else Inr \<lparr>tl_embodiment = e, tl_space = s, tl_measured = m, tl_validity = NoEstimate,
                   tl_transform = t\<rparr>
       else Inl SpatialContractError)))"

definition physical_telemetry_from_mapping :: "pyval \<Rightarrow> physical_telemetry res" where
  "physical_telemetry_from_mapping v =
     bind_res (object_fields v
        [''embodiment_id'', ''space_id'', ''measured_at'', ''validity'', ''transform''] []) (\<lambda>d.
     bind_res (if item d ''transform'' = VNone then Inr None
               else bind_res (realtime_transform_from_mapping (item d ''transform''))
                      (\<lambda>t. Inr (Some t))) (\<lambda>t.
       mk_physical_telemetry (item d ''embodiment_id'') (item d ''space_id'')
         (item d ''measured_at'') (item d ''validity'') t))"

definition opt_str :: "string option \<Rightarrow> pyval" where
  "opt_str s = (case s of None \<Rightarrow> VNone | Some x \<Rightarrow> VStr x)"

definition physical_telemetry_as_mapping :: "physical_telemetry \<Rightarrow> pyval" where
  "physical_telemetry_as_mapping t =
     VDict [(''embodiment_id'', VStr (tl_embodiment t)), (''space_id'', opt_str (tl_space t)),
       (''measured_at'', VStr (instant_isoformat (tl_measured t))),
       (''validity'', VStr (case tl_validity t of Valid \<Rightarrow> ''valid'' | NoEstimate \<Rightarrow> ''no_estimate'')),
       (''transform'', case tl_transform t of None \<Rightarrow> VNone
          | Some x \<Rightarrow> realtime_transform_as_mapping x)]"

text \<open>What the constructor guarantees of every sample.\<close>

definition wf_value :: "physical_value \<Rightarrow> bool" where
  "wf_value v \<longleftrightarrow> 0 \<le> pv_p95 v"

definition wf_transform :: "realtime_transform \<Rightarrow> bool" where
  "wf_transform t \<longleftrightarrow> wf_value (tx t) \<and> wf_value (ty t) \<and> wf_value (tz t)
     \<and> wf_value (tyaw t) \<and> wf_value (tpitch t) \<and> wf_value (troll t)"

definition wf_telemetry :: "physical_telemetry \<Rightarrow> bool" where
  "wf_telemetry t \<longleftrightarrow> has_table ''embodiment'' (tl_embodiment t)
     \<and> (\<forall>s. tl_space t = Some s \<longrightarrow> has_table ''space'' s)
     \<and> in_range_us (tl_measured t)
     \<and> (tl_validity t = Valid \<longleftrightarrow> tl_transform t \<noteq> None)
     \<and> (tl_validity t = Valid \<longrightarrow> tl_space t \<noteq> None)
     \<and> (\<forall>x. tl_transform t = Some x \<longrightarrow> wf_transform x)"

lemma mk_physical_value_wf: "mk_physical_value v p = Inr x \<Longrightarrow> wf_value x"
  by (auto simp: mk_physical_value_def wf_value_def bind_res_iff split: if_splits)

lemma physical_value_from_mapping_wf: "physical_value_from_mapping v = Inr x \<Longrightarrow> wf_value x"
  by (auto simp: physical_value_from_mapping_def bind_res_iff dest: mk_physical_value_wf)

lemma realtime_transform_from_mapping_wf:
  "realtime_transform_from_mapping v = Inr t \<Longrightarrow> wf_transform t"
  by (auto simp: realtime_transform_from_mapping_def wf_transform_def bind_res_iff
      dest: physical_value_from_mapping_wf)

lemma measured_at_dt_range: "measured_at_dt t = Inr i \<Longrightarrow> in_range_us i"
  by (auto simp: measured_at_dt_def utc_instant_def split: option.splits if_splits)

lemma measured_at_range: "measured_at v = Inr i \<Longrightarrow> in_range_us i"
  by (auto simp: measured_at_def measured_at_dt_range split: pyval.splits sum.splits)

lemma mk_physical_telemetry_wf:
  assumes "mk_physical_telemetry e s m v t = Inr x" and "\<And>y. t = Some y \<Longrightarrow> wf_transform y"
  shows "wf_telemetry x"
  using assms
  by (auto simp: mk_physical_telemetry_def wf_telemetry_def bind_res_iff typed_id_val_Inr_iff
      measured_at_range split: if_splits)

lemmas mk_physical_telemetry_wf_None = mk_physical_telemetry_wf[where t = None, simplified]
  and mk_physical_telemetry_wf_Some = mk_physical_telemetry_wf[where t = "Some y" for y, simplified]

lemma physical_telemetry_from_mapping_wf:
  "physical_telemetry_from_mapping v = Inr x \<Longrightarrow> wf_telemetry x"
  by (auto simp: physical_telemetry_from_mapping_def bind_res_iff split: if_splits
      dest: realtime_transform_from_mapping_wf mk_physical_telemetry_wf_None
        mk_physical_telemetry_wf_Some)

lemma value_roundtrip [simp]:
  "wf_value v \<Longrightarrow> physical_value_from_mapping (physical_value_as_mapping v) = Inr v"
  by (simp add: physical_value_from_mapping_def physical_value_as_mapping_def mk_physical_value_def
      object_fields_def item_def get_or_None_def wf_value_def)

lemma transform_roundtrip:
  "wf_transform t \<Longrightarrow> realtime_transform_from_mapping (realtime_transform_as_mapping t) = Inr t"
  by (simp add: realtime_transform_from_mapping_def realtime_transform_as_mapping_def
      object_fields_def item_def get_or_None_def wf_transform_def)

section \<open>The document round trip\<close>

text \<open>The program itself refuses identifiers that are not strings; the identifiers of a sample are
  accepted again.\<close>

text \<open>Writing a sample out as a JSON document and reading it back gives the same sample, whether or
  not it has an estimate: the measurement time, printed as an ISO 8601 timestamp, denotes the same
  instant to the microsecond.\<close>

theorem telemetry_document_roundtrip:
  assumes "wf_telemetry t"
  shows "physical_telemetry_from_mapping (physical_telemetry_as_mapping t) = Inr t"
proof -
  have r: "in_range_us (tl_measured t)" and e: "has_table ''embodiment'' (tl_embodiment t)"
    and s: "\<And>x. tl_space t = Some x \<Longrightarrow> has_table ''space'' x"
    and v: "tl_validity t = Valid \<longleftrightarrow> tl_transform t \<noteq> None" "tl_validity t = Valid \<Longrightarrow> tl_space t \<noteq> None"
    and x: "\<And>y. tl_transform t = Some y \<Longrightarrow> wf_transform y"
    using assms by (auto simp: wf_telemetry_def)
  obtain d where d: "datetime_fromisoformat (replace_Z (instant_isoformat (tl_measured t))) = Inr d"
    "dt_off d = Some 0" "utc_instant (wall_us d) 0 = Inr (tl_measured t)"
    by (rule instant_roundtrip[OF r])
  have m: "measured_at (VStr (instant_isoformat (tl_measured t))) = Inr (tl_measured t)"
    by (simp add: measured_at_def measured_at_dt_def d)
  have sp: "(if opt_str (tl_space t) = VNone then Inr None
      else bind_res (typed_id_val (opt_str (tl_space t)) ''space'') (\<lambda>s. Inr (Some s))) = Inr (tl_space t)"
    using s by (cases "tl_space t") (auto simp: opt_str_def typed_id_val_ok)
  have tr: "realtime_transform_as_mapping y \<noteq> VNone" for y by (simp add: realtime_transform_as_mapping_def)
  have mk: "mk_physical_telemetry (VStr (tl_embodiment t)) (opt_str (tl_space t))
      (VStr (instant_isoformat (tl_measured t)))
      (VStr (case tl_validity t of Valid \<Rightarrow> ''valid'' | NoEstimate \<Rightarrow> ''no_estimate'')) (tl_transform t) = Inr t"
    using v by (cases "tl_validity t") (auto simp: mk_physical_telemetry_def typed_id_val_ok[OF e] sp m)
  show ?thesis
    using mk transform_roundtrip[OF x] tr
    by (cases "tl_transform t")
      (auto simp: physical_telemetry_from_mapping_def physical_telemetry_as_mapping_def object_fields_def
        item_def get_or_None_def)
qed

theorem telemetry_document_roundtrip_witness:
  "physical_telemetry_from_mapping (physical_telemetry_as_mapping \<lparr>tl_embodiment = ''embodiment:lamp'',
      tl_space = None, tl_measured = 63902995200000001, tl_validity = NoEstimate, tl_transform = None\<rparr>)
    = Inr \<lparr>tl_embodiment = ''embodiment:lamp'',
      tl_space = None, tl_measured = 63902995200000001, tl_validity = NoEstimate, tl_transform = None\<rparr>"
  by (rule telemetry_document_roundtrip)
    (simp add: wf_telemetry_def in_range_us_def max_ordinal_def day_us_def has_table_def split_record_id_def
      match_record_id_def table_name_def record_key_def table_start_def table_char_def key_char_def
      char_class_defs code_pt_def)

end
