(* ===== verification/Presence.thy ===== *)
theory Presence
  imports Telemetry
begin

text \<open>
  \<open>spatial/presence.py\<close>: the latest sample of every registered body, the admission of a new sample,
  and the status that is derived from a sample, the observer's clock and the age window. An
  operation that may raise after it was given a state returns the state it leaves behind together
  with its result.
\<close>

section \<open>Derived status\<close>

record telemetry_status =
  st_valid :: bool
  st_unavailable :: bool
  st_fresh :: bool
  st_stale :: bool
  st_stale_after :: rat

definition mk_status :: "bool \<Rightarrow> bool \<Rightarrow> bool \<Rightarrow> bool \<Rightarrow> rat \<Rightarrow> telemetry_status res" where
  "mk_status valid unavailable fresh stale window =
     (if unavailable = valid \<or> fresh \<and> stale then Inl SpatialContractError
      else if (fresh \<or> stale) \<and> \<not> valid then Inl SpatialContractError
      else if window < 0 then Inl SpatialContractError
      else Inr \<lparr>st_valid = valid, st_unavailable = unavailable, st_fresh = fresh, st_stale = stale,
                st_stale_after = window\<rparr>)"

text \<open>\<open>timedelta.total_seconds()\<close> divides microseconds by a million and rounds to a float.\<close>

definition total_seconds :: "int \<Rightarrow> pyfloat" where
  "total_seconds d = fl (of_int d / 1000000)"

definition derive_telemetry_status ::
  "physical_telemetry option \<Rightarrow> int \<Rightarrow> rat \<Rightarrow> telemetry_status res" where
  "derive_telemetry_status telemetry now window =
     (if window < 0 then Inl SpatialContractError
      else case telemetry of
        None \<Rightarrow> mk_status False True False False window
      | Some t \<Rightarrow>
          if tl_validity t \<noteq> Valid \<or> tl_transform t = None
          then mk_status False True False False window
          else let age = total_seconds (now - tl_measured t);
                   fresh = fle (Fin 0) age \<and> fle age (Fin window)
               in mk_status True False fresh (\<not> fle age (Fin window)) window)"

record telemetry_state =
  ts_embodiment :: string
  ts_telemetry :: "physical_telemetry option"
  ts_status :: telemetry_status

datatype disposition = Accepted | Duplicate | Ignored

record admission =
  ad_disposition :: disposition
  ad_state :: telemetry_state

definition status_as_mapping :: "telemetry_status \<Rightarrow> pyval" where
  "status_as_mapping s =
     VDict [(''valid'', VBool (st_valid s)), (''unavailable'', VBool (st_unavailable s)),
       (''fresh'', VBool (st_fresh s)), (''stale'', VBool (st_stale s)),
       (''stale_after_s'', VFloat (Fin (st_stale_after s)))]"

definition telemetry_state_as_mapping :: "telemetry_state \<Rightarrow> pyval" where
  "telemetry_state_as_mapping s =
     VDict [(''embodiment_id'', VStr (ts_embodiment s)),
       (''telemetry'', case ts_telemetry s of None \<Rightarrow> VNone
          | Some t \<Rightarrow> physical_telemetry_as_mapping t),
       (''status'', status_as_mapping (ts_status s))]"

definition admission_as_mapping :: "admission \<Rightarrow> pyval" where
  "admission_as_mapping a =
     VDict [(''disposition'', VStr (case ad_disposition a of
          Accepted \<Rightarrow> ''accepted'' | Duplicate \<Rightarrow> ''duplicate'' | Ignored \<Rightarrow> ''ignored'')),
       (''state'', telemetry_state_as_mapping (ad_state a))]"

section \<open>The presence store\<close>

record presence =
  stale_after_s :: rat
  p_embodiments :: "string set"
  p_spaces :: "string set"
  p_current :: "physical_telemetry dict"

definition register_embodiment :: "presence \<Rightarrow> string \<Rightarrow> presence res" where
  "register_embodiment p i = bind_res (typed_id i ''embodiment'') (\<lambda>i.
     Inr (p\<lparr>p_embodiments := insert i (p_embodiments p)\<rparr>))"

definition register_space :: "presence \<Rightarrow> string \<Rightarrow> presence res" where
  "register_space p i = bind_res (typed_id i ''space'') (\<lambda>i.
     Inr (p\<lparr>p_spaces := insert i (p_spaces p)\<rparr>))"

fun fold_res :: "('s \<Rightarrow> 'a \<Rightarrow> 'e + 's) \<Rightarrow> 'a list \<Rightarrow> 's \<Rightarrow> 'e + 's" where
  "fold_res f [] s = Inr s"
| "fold_res f (x # xs) s = bind_res (f s x) (fold_res f xs)"

definition new_presence :: "string list \<Rightarrow> string list \<Rightarrow> pyval \<Rightarrow> presence res" where
  "new_presence embodiment_ids space_ids stale_after =
     bind_res (finite_num stale_after False) (\<lambda>window.
       if window < 0 then Inl SpatialContractError
       else bind_res (fold_res register_embodiment embodiment_ids
              \<lparr>stale_after_s = window, p_embodiments = {}, p_spaces = {}, p_current = []\<rparr>)
            (fold_res register_space space_ids))"

definition presence_state ::
  "presence \<Rightarrow> string \<Rightarrow> physical_telemetry option \<Rightarrow> int \<Rightarrow> telemetry_state res" where
  "presence_state p i t now = bind_res (derive_telemetry_status t now (stale_after_s p)) (\<lambda>st.
     Inr \<lparr>ts_embodiment = i, ts_telemetry = t, ts_status = st\<rparr>)"

definition require_embodiment :: "presence \<Rightarrow> string \<Rightarrow> string res" where
  "require_embodiment p i = bind_res (typed_id i ''embodiment'') (\<lambda>i.
     if i \<notin> p_embodiments p then Inl (TelemetryAdmissionError ''unknown_embodiment'') else Inr i)"

text \<open>The decision taken under the lock: the sample that stays current, and the disposition.\<close>

definition admit ::
  "physical_telemetry option \<Rightarrow> physical_telemetry \<Rightarrow> (disposition \<times> physical_telemetry) res" where
  "admit cur parsed =
     (case cur of
        None \<Rightarrow> Inr (Accepted, parsed)
      | Some c \<Rightarrow>
          if tl_measured parsed > tl_measured c then Inr (Accepted, parsed)
          else if parsed = c then Inr (Duplicate, c)
          else if tl_measured parsed = tl_measured c
          then Inl (TelemetryAdmissionError ''conflicting_sample'')
          else Inr (Ignored, c))"

definition submit ::
  "presence \<Rightarrow> physical_telemetry \<Rightarrow> datetime option \<Rightarrow> int \<Rightarrow> presence \<times> admission res" where
  "submit p parsed now clock =
     (case observed now clock of
        Inl e \<Rightarrow> (p, Inl e)
      | Inr obs \<Rightarrow>
      (case require_embodiment p (tl_embodiment parsed) of
        Inl e \<Rightarrow> (p, Inl e)
      | Inr i \<Rightarrow>
        if tl_space parsed \<noteq> None \<and> the (tl_space parsed) \<notin> p_spaces p
        then (p, Inl (TelemetryAdmissionError ''unknown_space''))
        else (case admit (map_of (p_current p) i) parsed of
            Inl e \<Rightarrow> (p, Inl e)
          | Inr (disposition, stored) \<Rightarrow>
              let p' = (if disposition = Accepted
                        then p\<lparr>p_current := AList.update i parsed (p_current p)\<rparr> else p)
              in (p', bind_res (presence_state p' i (Some stored) obs) (\<lambda>st.
                    Inr \<lparr>ad_disposition = disposition, ad_state = st\<rparr>)))))"

text \<open>\<open>submit\<close> on a JSON document.\<close>

definition submit_mapping ::
  "presence \<Rightarrow> pyval \<Rightarrow> datetime option \<Rightarrow> int \<Rightarrow> presence \<times> admission res" where
  "submit_mapping p v now clock =
     (case physical_telemetry_from_mapping v of
        Inl e \<Rightarrow> (p, Inl e) | Inr t \<Rightarrow> submit p t now clock)"

definition reading :: "presence \<Rightarrow> string \<Rightarrow> datetime option \<Rightarrow> int \<Rightarrow> telemetry_state res" where
  "reading p i now clock =
     bind_res (observed now clock) (\<lambda>obs.
     bind_res (typed_id i ''embodiment'') (\<lambda>i.
       if i \<notin> p_embodiments p then presence_state p i None obs
       else presence_state p i (map_of (p_current p) i) obs))"

definition latest :: "presence \<Rightarrow> string \<Rightarrow> datetime option \<Rightarrow> int \<Rightarrow> telemetry_state res" where
  "latest p i now clock =
     bind_res (observed now clock) (\<lambda>obs.
     bind_res (require_embodiment p i) (\<lambda>i. presence_state p i (map_of (p_current p) i) obs))"

section \<open>Facts\<close>

lemma total_seconds_sign:
  "fle (Fin 0) (total_seconds d) \<longleftrightarrow> 0 \<le> d"
proof (cases "0 \<le> d")
  case True
  then show ?thesis by (simp add: total_seconds_def fl_ge0)
next
  case False
  then have "of_int d / (1000000::rat) \<le> - (1 / 1000000)"
    by (simp add: field_simps)
  with microsecond_ge have "of_int d / (1000000::rat) \<le> - pow2 (-1074)" by linarith
  from fl_neg(1)[OF this] False show ?thesis by (simp add: total_seconds_def)
qed

definition usable :: "physical_telemetry option \<Rightarrow> bool" where
  "usable t \<longleftrightarrow> (\<exists>x. t = Some x \<and> tl_validity x = Valid \<and> tl_transform x \<noteq> None)"

lemma derive_unusable:
  "0 \<le> w \<Longrightarrow> \<not> usable t \<Longrightarrow> derive_telemetry_status t now w
     = Inr \<lparr>st_valid = False, st_unavailable = True, st_fresh = False, st_stale = False,
            st_stale_after = w\<rparr>"
  by (auto simp: derive_telemetry_status_def mk_status_def usable_def split: option.split)

lemma derive_usable:
  assumes "0 \<le> w" and "usable (Some t)"
  shows "derive_telemetry_status (Some t) now w
     = Inr \<lparr>st_valid = True, st_unavailable = False,
            st_fresh = (tl_measured t \<le> now \<and> fle (total_seconds (now - tl_measured t)) (Fin w)),
            st_stale = (\<not> fle (total_seconds (now - tl_measured t)) (Fin w)),
            st_stale_after = w\<rparr>"
  using assms
  by (simp add: derive_telemetry_status_def mk_status_def usable_def Let_def total_seconds_sign)

lemma derive_total: "0 \<le> w \<Longrightarrow> \<exists>s. derive_telemetry_status t now w = Inr s"
  by (cases "usable t"; cases t) (auto simp: derive_unusable derive_usable usable_def)

lemma presence_state_total: "0 \<le> stale_after_s p \<Longrightarrow> \<exists>s. presence_state p i t now = Inr s"
  using derive_total[of "stale_after_s p" t now] by (auto simp: presence_state_def)

lemma fle_negative: 
  assumes "d < 0" "0 \<le> w" shows "fle (total_seconds d) (Fin w)"
proof -
  have "of_int d / (1000000::rat) \<le> - (1 / 1000000)"
    using assms(1) by (simp add: field_simps)
  with microsecond_ge have le: "of_int d / (1000000::rat) \<le> - pow2 (-1074)" by linarith
  from fl_neg[OF le] assms(2) show ?thesis
    by (cases "fl (of_int d / 1000000)") (auto simp: total_seconds_def)
qed

lemma future_sample_status:
  assumes "0 \<le> w" and "usable (Some t)" and "now < tl_measured t"
  shows "derive_telemetry_status (Some t) now w
     = Inr \<lparr>st_valid = True, st_unavailable = False, st_fresh = False, st_stale = False,
            st_stale_after = w\<rparr>"
  using assms by (simp add: derive_usable fle_negative)

text \<open>Everything that \<open>submit\<close> can do to the state and return.\<close>

lemma submit_cases:
  obtains e where "submit p t now clock = (p, Inl e)"
  | obs where "observed now clock = Inr obs" and "tl_embodiment t \<in> p_embodiments p"
      and "has_table ''embodiment'' (tl_embodiment t)"
      and "\<forall>s. tl_space t = Some s \<longrightarrow> s \<in> p_spaces p"
      and "\<forall>c. map_of (p_current p) (tl_embodiment t) = Some c \<longrightarrow> tl_measured c < tl_measured t"
      and "submit p t now clock =
        (p\<lparr>p_current := AList.update (tl_embodiment t) t (p_current p)\<rparr>,
         bind_res (presence_state (p\<lparr>p_current := AList.update (tl_embodiment t) t (p_current p)\<rparr>)
            (tl_embodiment t) (Some t) obs)
           (\<lambda>st. Inr \<lparr>ad_disposition = Accepted, ad_state = st\<rparr>))"
  | obs where "observed now clock = Inr obs"
      and "map_of (p_current p) (tl_embodiment t) = Some t"
      and "submit p t now clock = (p, bind_res (presence_state p (tl_embodiment t) (Some t) obs)
           (\<lambda>st. Inr \<lparr>ad_disposition = Duplicate, ad_state = st\<rparr>))"
  | obs c where "observed now clock = Inr obs"
      and "map_of (p_current p) (tl_embodiment t) = Some c" and "tl_measured t < tl_measured c"
      and "submit p t now clock = (p, bind_res (presence_state p (tl_embodiment t) (Some c) obs)
           (\<lambda>st. Inr \<lparr>ad_disposition = Ignored, ad_state = st\<rparr>))"
proof (cases "observed now clock")
  case (Inl e)
  then show ?thesis using that(1)[of e] by (simp add: submit_def)
next
  case obs: (Inr obs)
  show ?thesis
  proof (cases "require_embodiment p (tl_embodiment t)")
    case (Inl e)
    with obs show ?thesis using that(1)[of e] by (simp add: submit_def)
  next
    case (Inr i)
    then have i: "i = tl_embodiment t" "tl_embodiment t \<in> p_embodiments p"
      "has_table ''embodiment'' (tl_embodiment t)"
      by (auto simp: require_embodiment_def bind_res_iff typed_id_Inr_iff split: if_splits)
    show ?thesis
    proof (cases "tl_space t \<noteq> None \<and> the (tl_space t) \<notin> p_spaces p")
      case True
      with obs Inr show ?thesis
        using that(1)[of "TelemetryAdmissionError ''unknown_space''"] by (simp add: submit_def)
    next
      case sp: False
      show ?thesis
      proof (cases "admit (map_of (p_current p) (tl_embodiment t)) t")
        case (Inl e)
        with obs Inr i sp show ?thesis using that(1)[of e] by (auto simp: submit_def)
      next
        case (Inr r)
        obtain d s where r: "r = (d, s)" by fastforce
        note sub = obs \<open>require_embodiment p (tl_embodiment t) = Inr i\<close> i(1) sp
        have sp': "\<forall>s. tl_space t = Some s \<longrightarrow> s \<in> p_spaces p" using sp by auto
        show ?thesis
          using Inr sub that(2)[OF obs i(2,3) sp'] that(3)[OF obs] that(4)[OF obs] unfolding r
          by (cases "map_of (p_current p) (tl_embodiment t)")
            (auto simp: admit_def submit_def Let_def split: if_splits)
      qed
    qed
  qed
qed

lemma submit_current:
  "map_of (p_current (fst (submit p t now clock))) k = map_of (p_current p) k
   \<or> k = tl_embodiment t \<and> map_of (p_current (fst (submit p t now clock))) k = Some t
     \<and> (\<forall>c. map_of (p_current p) k = Some c \<longrightarrow> tl_measured c < tl_measured t)"
  by (rule submit_cases[of p t now clock]) (auto simp: store_simps)

lemma submit_frame:
  "p_embodiments (fst (submit p t now clock)) = p_embodiments p"
  "p_spaces (fst (submit p t now clock)) = p_spaces p"
  "stale_after_s (fst (submit p t now clock)) = stale_after_s p"
  by (rule submit_cases[of p t now clock]; auto)+

interpretation samples: monotone_register
  "\<lambda>p (t, now, clock). fst (submit p t now clock)" "\<lambda>p k. map_of (p_current p) k" tl_measured
  "\<lambda>_. True"
proof unfold_locales
  fix p :: presence and k v and a :: "physical_telemetry \<times> datetime option \<times> int"
  assume v: "map_of (p_current p) k = Some v"
  obtain t now clock where a: "a = (t, now, clock)" by (cases a) auto
  show "\<exists>w. map_of (p_current (case a of (t, now, clock) \<Rightarrow> fst (submit p t now clock))) k = Some w
      \<and> (w = v \<or> tl_measured v < tl_measured w)"
    using submit_current[of p t now clock k] v unfolding a by auto
qed simp

definition presence_ok :: "presence \<Rightarrow> bool" where
  "presence_ok p \<longleftrightarrow> 0 \<le> stale_after_s p
     \<and> (\<forall>i \<in> p_embodiments p. has_table ''embodiment'' i)
     \<and> (\<forall>i t. map_of (p_current p) i = Some t \<longrightarrow> tl_embodiment t = i \<and> i \<in> p_embodiments p
          \<and> (\<forall>s. tl_space t = Some s \<longrightarrow> s \<in> p_spaces p) \<and> wf_telemetry t)"

lemma presence_ok_update:
  assumes "presence_ok p" and "wf_telemetry t" and "tl_embodiment t \<in> p_embodiments p"
    and "\<forall>s. tl_space t = Some s \<longrightarrow> s \<in> p_spaces p"
  shows "presence_ok (p\<lparr>p_current := AList.update (tl_embodiment t) t (p_current p)\<rparr>)"
  using assms unfolding presence_ok_def by (simp add: store_simps)

lemma submit_presence_ok [preserve]:
  assumes "presence_ok p" and "wf_telemetry t"
  shows "presence_ok (fst (submit p t now clock))"
  by (rule submit_cases[of p t now clock])
    (simp_all add: assms presence_ok_update)

lemma register_embodiment_ok [preserve]:
  "presence_ok p \<Longrightarrow> register_embodiment p i = Inr p' \<Longrightarrow> presence_ok p'"
  by (auto simp: presence_ok_def register_embodiment_def bind_res_iff typed_id_Inr_iff)

lemma register_space_ok [preserve]:
  "presence_ok p \<Longrightarrow> register_space p i = Inr p' \<Longrightarrow> presence_ok p'"
  by (auto simp: presence_ok_def register_space_def bind_res_iff typed_id_Inr_iff)

lemma fold_res_ok:
  assumes "\<And>s x s'. P s \<Longrightarrow> f s x = Inr s' \<Longrightarrow> P s'" and "P s" and "fold_res f xs s = Inr s'"
  shows "P s'"
  using assms(2,3)
proof (induction xs arbitrary: s)
  case (Cons x xs)
  then show ?case using assms(1) by (auto simp: bind_res_iff)
qed simp

lemma new_presence_ok: "new_presence es ss w = Inr p \<Longrightarrow> presence_ok p"
proof -
  assume "new_presence es ss w = Inr p"
  then obtain x q where x: "\<not> x < 0"
    and es: "fold_res register_embodiment es
      \<lparr>stale_after_s = x, p_embodiments = {}, p_spaces = {}, p_current = []\<rparr> = Inr q"
    and ss: "fold_res register_space ss q = Inr p"
    by (auto simp: new_presence_def bind_res_iff split: if_splits)
  from x have "presence_ok \<lparr>stale_after_s = x, p_embodiments = {}, p_spaces = {}, p_current = []\<rparr>"
    by (simp add: presence_ok_def)
  then have "presence_ok q" using es register_embodiment_ok fold_res_ok[where P = presence_ok] by blast
  then show ?thesis using ss register_space_ok fold_res_ok[where P = presence_ok] by blast
qed

section \<open>Refinement: the newest admissible sample wins\<close>

type_synonym submission = "physical_telemetry \<times> datetime option \<times> int"

definition submit_all :: "presence \<Rightarrow> submission list \<Rightarrow> presence" where
  "submit_all p xs = foldl (\<lambda>p (t, now, clock). fst (submit p t now clock)) p xs"

definition admissible :: "presence \<Rightarrow> submission \<Rightarrow> bool" where
  "admissible p x = (case x of (t, now, clock) \<Rightarrow>
     (case observed now clock of Inl _ \<Rightarrow> False | Inr _ \<Rightarrow> True)
     \<and> tl_embodiment t \<in> p_embodiments p \<and> has_table ''embodiment'' (tl_embodiment t)
     \<and> (case tl_space t of None \<Rightarrow> True | Some s \<Rightarrow> s \<in> p_spaces p))"

fun newer :: "physical_telemetry option \<Rightarrow> physical_telemetry \<Rightarrow> physical_telemetry option" where
  "newer None t = Some t"
| "newer (Some c) t = (if tl_measured c < tl_measured t then Some t else Some c)"

definition newest :: "physical_telemetry option \<Rightarrow> physical_telemetry list \<Rightarrow> physical_telemetry option" where
  "newest c ts = foldl newer c ts"

lemma require_embodiment_Inr_iff:
  "require_embodiment p i = Inr j \<longleftrightarrow> j = i \<and> i \<in> p_embodiments p \<and> has_table ''embodiment'' i"
  by (auto simp: require_embodiment_def bind_res_iff typed_id_Inr_iff)

lemma submit_inadmissible: "\<not> admissible p (t, now, clock) \<Longrightarrow> fst (submit p t now clock) = p"
  by (auto simp: admissible_def submit_def require_embodiment_Inr_iff
      split: sum.splits option.splits)

lemma submit_admissible:
  assumes "admissible p (t, now, clock)"
  shows "map_of (p_current (fst (submit p t now clock))) k =
     (if tl_embodiment t = k then newer (map_of (p_current p) k) t else map_of (p_current p) k)"
  using assms
  by (cases "map_of (p_current p) (tl_embodiment t)")
    (auto simp: admissible_def submit_def require_embodiment_def typed_id_ok admit_def Let_def
      store_simps split: sum.splits option.splits if_splits)

lemma admissible_frame:
  "p_embodiments q = p_embodiments p \<Longrightarrow> p_spaces q = p_spaces p \<Longrightarrow> admissible q x = admissible p x"
  by (cases x) (simp add: admissible_def split: option.split)

lemma submit_all_current:
  "map_of (p_current (submit_all p xs)) k =
     newest (map_of (p_current p) k)
       (filter (\<lambda>t. tl_embodiment t = k) (map fst (filter (admissible p) xs)))"
proof (induction xs arbitrary: p)
  case Nil
  then show ?case by (simp add: submit_all_def newest_def)
next
  case (Cons x xs)
  obtain t now clock where x: "x = (t, now, clock)" by (cases x) auto
  let ?q = "fst (submit p t now clock)"
  have adm: "admissible ?q = admissible p"
    by (rule ext, rule admissible_frame) (simp_all add: submit_frame)
  have "submit_all p (x # xs) = submit_all ?q xs" by (simp add: submit_all_def x)
  with Cons.IH[of ?q] show ?case
    by (cases "admissible p x")
      (auto simp: adm x submit_admissible submit_inadmissible newest_def)
qed

lemma newest_max:
  assumes "newest c ts = Some t"
  shows "(t \<in> set ts \<or> c = Some t) \<and> (\<forall>u \<in> set ts. tl_measured u \<le> tl_measured t)
    \<and> (\<forall>u. c = Some u \<longrightarrow> tl_measured u \<le> tl_measured t)"
  using assms
proof (induction ts arbitrary: c)
  case Nil
  then show ?case by (simp add: newest_def)
next
  case (Cons v ts)
  then have "newest (newer c v) ts = Some t" by (simp add: newest_def)
  from Cons.IH[OF this] show ?case
    by (cases c) (auto split: if_splits)
qed

lemma newest_None: "newest c ts = None \<longleftrightarrow> c = None \<and> ts = []"
proof (induction ts arbitrary: c)
  case (Cons v ts)
  show ?case using Cons.IH[of "newer c v"] by (cases c) (auto simp: newest_def)
qed (simp add: newest_def)

lemma newest_order_independent:
  assumes "set ts = set us"
    and "\<forall>t \<in> set ts \<union> set_option c. \<forall>u \<in> set ts \<union> set_option c.
           tl_measured t = tl_measured u \<longrightarrow> t = u"
  shows "newest c ts = newest c us"
proof (cases "newest c ts")
  case None
  with assms(1) show ?thesis by (auto simp: newest_None)
next
  case (Some t)
  then obtain u where u: "newest c us = Some u"
    using assms(1) newest_None[of c us] newest_None[of c ts] by fastforce
  have "tl_measured t = tl_measured u"
    using newest_max[OF Some] newest_max[OF u] assms(1) by (intro antisym) auto
  moreover have "t \<in> set ts \<union> set_option c" "u \<in> set ts \<union> set_option c"
    using newest_max[OF Some] newest_max[OF u] assms(1) by auto
  ultimately show ?thesis using assms(2) Some u by auto
qed

lemma submit_eq:
  assumes "admissible p (t, now, clock)" and "observed now clock = Inr obs"
  shows "submit p t now clock =
    (case admit (map_of (p_current p) (tl_embodiment t)) t of
       Inl e \<Rightarrow> (p, Inl e)
     | Inr (d, stored) \<Rightarrow>
         let p' = (if d = Accepted
                   then p\<lparr>p_current := AList.update (tl_embodiment t) t (p_current p)\<rparr> else p)
         in (p', bind_res (presence_state p' (tl_embodiment t) (Some stored) obs) (\<lambda>st.
               Inr \<lparr>ad_disposition = d, ad_state = st\<rparr>)))"
proof -
  have "require_embodiment p (tl_embodiment t) = Inr (tl_embodiment t)"
    using assms(1) by (simp add: require_embodiment_Inr_iff admissible_def)
  moreover have "\<not> (tl_space t \<noteq> None \<and> the (tl_space t) \<notin> p_spaces p)"
    using assms(1) by (auto simp: admissible_def split: option.splits)
  ultimately show ?thesis using assms(2) by (auto simp: submit_def)
qed

lemma accepted_admissible:
  assumes "submit p t now clock = (p', Inr a)"
  shows "admissible p (t, now, clock)"
  using assms
  by (auto simp: admissible_def submit_def require_embodiment_Inr_iff
      split: sum.splits option.splits if_splits)

text \<open>The exact error of a submission that passes the registration checks.\<close>

lemma submit_error_iff:
  assumes "presence_ok p" and "admissible p (t, now, clock)"
  shows "snd (submit p t now clock) = Inl e \<longleftrightarrow>
    e = TelemetryAdmissionError ''conflicting_sample''
    \<and> (\<exists>c. map_of (p_current p) (tl_embodiment t) = Some c \<and> tl_measured c = tl_measured t \<and> c \<noteq> t)"
proof -
  obtain obs where obs: "observed now clock = Inr obs"
    using assms(2) by (auto simp: admissible_def split: sum.splits)
  have tot: "presence_state q i x obs \<noteq> Inl e'" if "stale_after_s q = stale_after_s p" for q i x e'
    using assms(1) that presence_state_total[of q i x obs] by (auto simp: presence_ok_def)
  show ?thesis
    using tot by (cases "map_of (p_current p) (tl_embodiment t)")
      (auto simp: submit_eq[OF assms(2) obs] admit_def Let_def bind_res_iff)
qed

lemma submit_resubmit:
  assumes "submit p t now clock = (p', Inr a)" and "ad_disposition a = Accepted"
    and "0 \<le> stale_after_s p" and "observed now' clock' = Inr obs'"
  shows "fst (submit p' t now' clock') = p'
    \<and> (\<exists>b. snd (submit p' t now' clock') = Inr b \<and> ad_disposition b = Duplicate)"
proof -
  have adm: "admissible p (t, now, clock)" by (rule accepted_admissible[OF assms(1)])
  then obtain obs where obs: "observed now clock = Inr obs"
    by (auto simp: admissible_def split: sum.splits)
  have p': "p' = p\<lparr>p_current := AList.update (tl_embodiment t) t (p_current p)\<rparr>"
    using assms(1,2) unfolding submit_eq[OF adm obs]
    by (cases "map_of (p_current p) (tl_embodiment t)")
      (auto simp: admit_def Let_def bind_res_iff split: if_splits)
  have adm': "admissible p' (t, now', clock')"
    using adm assms(4) unfolding p' by (auto simp: admissible_def split: option.splits)
  have cur: "map_of (p_current p') (tl_embodiment t) = Some t"
    by (simp add: p' store_simps)
  obtain s where "presence_state p' (tl_embodiment t) (Some t) obs' = Inr s"
    using presence_state_total[of p' "tl_embodiment t" "Some t" obs'] assms(3) by (auto simp: p')
  with cur show ?thesis
    by (simp add: submit_eq[OF adm' assms(4)] admit_def)
qed

lemma register_embodiment_Inr_iff:
  "register_embodiment p e = Inr q \<longleftrightarrow>
     has_table ''embodiment'' e \<and> q = p\<lparr>p_embodiments := insert e (p_embodiments p)\<rparr>"
  by (auto simp: register_embodiment_def bind_res_iff typed_id_Inr_iff)

lemma register_embodiments_mono:
  "fold_res register_embodiment es p = Inr q \<Longrightarrow>
     p_embodiments p \<subseteq> p_embodiments q \<and> set es \<subseteq> p_embodiments q"
proof (induction es arbitrary: p)
  case (Cons e es)
  then obtain p' where "register_embodiment p e = Inr p'" "fold_res register_embodiment es p' = Inr q"
    by (auto simp: bind_res_iff)
  with Cons.IH[of p'] show ?case
    by (auto simp: register_embodiment_Inr_iff)
qed simp

lemma register_spaces_frame:
  "fold_res register_space ss p = Inr q \<Longrightarrow> p_embodiments q = p_embodiments p"
proof (induction ss arbitrary: p)
  case (Cons e es)
  then show ?case by (auto simp: bind_res_iff register_space_def)
qed simp

lemma new_presence_embodiments: "new_presence es ss w = Inr p \<Longrightarrow> set es \<subseteq> p_embodiments p"
  by (auto simp: new_presence_def bind_res_iff split: if_splits
      dest!: register_embodiments_mono register_spaces_frame)

section \<open>Properties\<close>

text \<open>Samples and a store for the witnesses.\<close>

definition still :: physical_value where
  "still = \<lparr>pv_value = 0, pv_p95 = 0\<rparr>"

definition hall_sample :: "int \<Rightarrow> physical_telemetry" where
  "hall_sample m = \<lparr>tl_embodiment = ''embodiment:lamp'', tl_space = Some ''space:hall'', tl_measured = 63902995200000000 + m,
     tl_validity = Valid, tl_transform = Some \<lparr>tx = still, ty = still, tz = still, tyaw = still,
       tpitch = still, troll = still\<rparr>\<rparr>"

definition hall_presence :: "physical_telemetry dict \<Rightarrow> presence" where
  "hall_presence ts = \<lparr>stale_after_s = 5, p_embodiments = {''embodiment:lamp''},
     p_spaces = {''space:hall''}, p_current = ts\<rparr>"

lemma hall_ids [simp]:
  "has_table ''embodiment'' ''embodiment:lamp''" "has_table ''space'' ''space:hall''"
  by (simp_all add: has_table_def split_record_id_def match_record_id_def table_name_def record_key_def
      table_start_def table_char_def key_char_def char_class_defs code_pt_def)

lemma hall_presence_new:
  "new_presence [''embodiment:lamp''] [''space:hall''] (VFloat (Fin 5)) = Inr (hall_presence [])"
  by (simp add: new_presence_def register_embodiment_def register_space_def typed_id_ok hall_presence_def)

lemma hall_presence_ok: "0 \<le> m \<Longrightarrow> m < 1000 \<Longrightarrow> presence_ok (hall_presence [(''embodiment:lamp'', hall_sample m)])"
  by (simp add: presence_ok_def hall_presence_def hall_sample_def wf_telemetry_def wf_transform_def
      wf_value_def still_def in_range_us_def max_ordinal_def day_us_def)

lemma new_presence_empty:
  assumes "new_presence es ss w = Inr p"
  shows "p_current p = []"
proof -
  have e: "fold_res register_embodiment es p = Inr q \<Longrightarrow> p_current q = p_current p" for p q
    by (induction es arbitrary: p) (auto simp: bind_res_iff register_embodiment_def)
  have s: "fold_res register_space ss p = Inr q \<Longrightarrow> p_current q = p_current p" for p q
    by (induction ss arbitrary: p) (auto simp: bind_res_iff register_space_def)
  from assms show ?thesis
    by (auto simp: new_presence_def bind_res_iff split: if_splits dest!: e s)
qed

text \<open>C4: whatever samples are submitted, in whatever order, the store holds for a body the sample of
  the latest measurement time among those that name registered entities, and nothing when there is
  none.\<close>

theorem latest_sample_wins:
  assumes "new_presence es ss w = Inr p"
  shows "case map_of (p_current (submit_all p xs)) k of
      None \<Rightarrow> \<not> (\<exists>x \<in> set xs. admissible p x \<and> tl_embodiment (fst x) = k)
    | Some t \<Rightarrow> (\<exists>x \<in> set xs. admissible p x \<and> tl_embodiment (fst x) = k \<and> fst x = t)
        \<and> (\<forall>x \<in> set xs. admissible p x \<and> tl_embodiment (fst x) = k \<longrightarrow> tl_measured (fst x) \<le> tl_measured t)"
proof -
  let ?ts = "filter (\<lambda>t. tl_embodiment t = k) (map fst (filter (admissible p) xs))"
  have "map_of (p_current p) k = None"
    using assms new_presence_empty by (auto)
  then have cur: "map_of (p_current (submit_all p xs)) k = newest None ?ts"
    by (simp add: submit_all_current)
  show ?thesis
  proof (cases "newest None ?ts")
    case None
    then have "?ts = []" by (simp add: newest_None)
    then have "\<forall>x \<in> set xs. admissible p x \<longrightarrow> tl_embodiment (fst x) \<noteq> k"
      unfolding filter_empty_conv set_map set_filter by blast
    then show ?thesis unfolding cur None by auto
  next
    case (Some t)
    from newest_max[OF Some] show ?thesis unfolding cur Some by auto
  qed
qed

theorem latest_sample_wins_witness:
  "map_of (p_current (submit_all (hall_presence []) [(hall_sample 7, None, 8), (hall_sample 3, None, 9)]))
     ''embodiment:lamp'' = Some (hall_sample 7)"
proof -
  have a: "admissible (hall_presence []) (hall_sample m, None, c)" for m c
    by (simp add: admissible_def hall_presence_def hall_sample_def observed_def)
  have e: "tl_embodiment (hall_sample m) = ''embodiment:lamp''" "tl_measured (hall_sample m) = 63902995200000000 + m" for m
    by (simp_all add: hall_sample_def)
  show ?thesis
    using latest_sample_wins[OF hall_presence_new, of "[(hall_sample 7, None, 8), (hall_sample 3, None, 9)]"
        "''embodiment:lamp''"]
    by (auto simp: a e split: option.splits)
qed

text \<open>The order in which samples arrive does not matter, as long as no two of them give one body
  different estimates at the same instant.\<close>

theorem sample_order_irrelevant:
  assumes "new_presence es ss w = Inr p" and "set xs = set ys"
    and "\<And>x y. x \<in> set xs \<Longrightarrow> y \<in> set xs \<Longrightarrow> tl_embodiment (fst x) = tl_embodiment (fst y) \<Longrightarrow>
           tl_measured (fst x) = tl_measured (fst y) \<Longrightarrow> fst x = fst y"
  shows "map_of (p_current (submit_all p xs)) k = map_of (p_current (submit_all p ys)) k"
proof -
  have c: "map_of (p_current p) k = None" using assms(1) new_presence_empty by auto
  let ?f = "\<lambda>xs. filter (\<lambda>t. tl_embodiment t = k) (map fst (filter (admissible p) xs))"
  have "set (?f xs) = set (?f ys)" using assms(2) by (auto simp: image_iff)
  moreover have "\<forall>t \<in> set (?f xs) \<union> set_option None. \<forall>u \<in> set (?f xs) \<union> set_option None.
      tl_measured t = tl_measured u \<longrightarrow> t = u"
    using assms(3) by fastforce
  ultimately show ?thesis unfolding submit_all_current c by (rule newest_order_independent)
qed

theorem sample_order_irrelevant_witness:
  "map_of (p_current (submit_all (hall_presence []) [(hall_sample 7, None, 8), (hall_sample 3, None, 9)]))
     ''embodiment:lamp''
   = map_of (p_current (submit_all (hall_presence []) [(hall_sample 3, None, 9), (hall_sample 7, None, 8)]))
     ''embodiment:lamp''"
  by (rule sample_order_irrelevant[OF hall_presence_new]) (auto simp: hall_sample_def)

text \<open>A sample for registered entities is refused exactly when another sample of the same instant is
  stored, as a conflict; a refused or ignored sample changes nothing, and an accepted sample that
  arrives again is reported as a duplicate and changes nothing.\<close>

theorem submit_conflict_exact:
  assumes "presence_ok p" and "admissible p (t, now, clock)" and "submit p t now clock = (p', res)"
  shows "(res = Inl e \<longleftrightarrow> e = TelemetryAdmissionError ''conflicting_sample''
      \<and> (\<exists>c. map_of (p_current p) (tl_embodiment t) = Some c \<and> tl_measured c = tl_measured t \<and> c \<noteq> t))
    \<and> (p' \<noteq> p \<longrightarrow> (\<exists>a. res = Inr a \<and> ad_disposition a = Accepted \<and> ts_telemetry (ad_state a) = Some t
         \<and> (\<exists>b. submit p' t now clock = (p', Inr b) \<and> ad_disposition b = Duplicate)))"
proof -
  obtain obs where obs: "observed now clock = Inr obs"
    using assms(2) by (auto simp: admissible_def split: sum.splits)
  have acc: "\<exists>a. res = Inr a \<and> ad_disposition a = Accepted \<and> ts_telemetry (ad_state a) = Some t"
    if "p' \<noteq> p"
  proof -
    obtain st where st: "presence_state (p\<lparr>p_current := AList.update (tl_embodiment t) t (p_current p)\<rparr>)
        (tl_embodiment t) (Some t) obs = Inr st" and "ts_telemetry st = Some t"
      using presence_state_total[of "p\<lparr>p_current := AList.update (tl_embodiment t) t (p_current p)\<rparr>"
          "tl_embodiment t" "Some t" obs] assms(1)
      by (auto simp: presence_ok_def presence_state_def bind_res_iff)
    with that assms(3) show ?thesis
      unfolding submit_eq[OF assms(2) obs]
      by (cases "map_of (p_current p) (tl_embodiment t)")
        (auto simp: admit_def Let_def split: if_splits)
  qed
  moreover have "\<exists>b. submit p' t now clock = (p', Inr b) \<and> ad_disposition b = Duplicate" if "p' \<noteq> p"
  proof -
    from acc[OF that] obtain a where "res = Inr a" "ad_disposition a = Accepted" by blast
    with submit_resubmit[of p t now clock p' a now clock obs] assms(1,3) obs show ?thesis
      by (cases "submit p' t now clock") (auto simp: presence_ok_def)
  qed
  ultimately show ?thesis using submit_error_iff[OF assms(1,2), of e] assms(3) by simp
qed

theorem submit_conflict_exact_witness:
  "\<exists>p'. submit (hall_presence [(''embodiment:lamp'', hall_sample 1)])
     ((hall_sample 1)\<lparr>tl_validity := NoEstimate, tl_transform := None\<rparr>) None 2
   = (p', Inl (TelemetryAdmissionError ''conflicting_sample''))"
proof -
  let ?p = "hall_presence [(''embodiment:lamp'', hall_sample 1)]"
    and ?t = "(hall_sample 1)\<lparr>tl_validity := NoEstimate, tl_transform := None\<rparr>"
  have "presence_ok ?p" by (rule hall_presence_ok) simp_all
  moreover have "admissible ?p (?t, None, 2)"
    by (simp add: admissible_def hall_presence_def hall_sample_def observed_def)
  moreover obtain p' res where r: "submit ?p ?t None 2 = (p', res)" by fastforce
  ultimately show ?thesis
    using submit_conflict_exact[of ?p ?t None 2 p' res "TelemetryAdmissionError ''conflicting_sample''"]
    by (auto simp: hall_presence_def hall_sample_def)
qed

text \<open>What a reading says of a stored sample. It is valid exactly when the sample has an estimate;
  fresh when the sample is neither in the observer's future nor older than the window; stale when
  it is older. A sample from the future is valid, and neither fresh nor stale.\<close>

theorem reading_status_exact:
  assumes "presence_ok p" and "map_of (p_current p) i = Some t" and "observed now clock = Inr obs"
  shows "\<exists>st. reading p i now clock = Inr st \<and> ts_telemetry st = Some t
    \<and> st_valid (ts_status st) = (tl_validity t = Valid)
    \<and> st_unavailable (ts_status st) = (tl_validity t \<noteq> Valid)
    \<and> st_fresh (ts_status st) = (tl_validity t = Valid \<and> tl_measured t \<le> obs
         \<and> fle (total_seconds (obs - tl_measured t)) (Fin (stale_after_s p)))
    \<and> st_stale (ts_status st) = (tl_validity t = Valid
         \<and> \<not> fle (total_seconds (obs - tl_measured t)) (Fin (stale_after_s p)))
    \<and> (obs < tl_measured t \<longrightarrow> \<not> st_fresh (ts_status st) \<and> \<not> st_stale (ts_status st))"
proof -
  have w: "0 \<le> stale_after_s p" and t: "i \<in> p_embodiments p" "has_table ''embodiment'' i" "wf_telemetry t"
    using assms(1,2) unfolding presence_ok_def by auto
  have u: "usable (Some t) \<longleftrightarrow> tl_validity t = Valid" using t(3) by (auto simp: usable_def wf_telemetry_def)
  have r: "reading p i now clock = presence_state p i (Some t) obs"
    using assms t by (simp add: reading_def typed_id_ok)
  show ?thesis
    using u w derive_unusable[of "stale_after_s p" "Some t" obs] derive_usable[of "stale_after_s p" t obs]
      fle_negative[of "obs - tl_measured t" "stale_after_s p"]
    by (cases "tl_validity t = Valid") (auto simp: r presence_state_def)
qed

theorem reading_status_exact_witness:
  "\<exists>st. reading (hall_presence [(''embodiment:lamp'', hall_sample 9)]) ''embodiment:lamp'' None 63902995200000004 = Inr st
     \<and> st_valid (ts_status st) \<and> \<not> st_fresh (ts_status st) \<and> \<not> st_stale (ts_status st)"
proof -
  have "presence_ok (hall_presence [(''embodiment:lamp'', hall_sample 9)])"
    by (rule hall_presence_ok) simp_all
  from reading_status_exact[OF this, of "''embodiment:lamp''" "hall_sample 9" None 63902995200000004
      63902995200000004]
  show ?thesis by (auto simp: hall_presence_def hall_sample_def observed_def)
qed

end
