(* ===== verification/Connections.thy ===== *)
theory Connections
  imports Presence
begin

text \<open>
  \<open>agents/embodiments.py\<close>: the cached read of persistent bodies, and one in-memory runtime session per
  body. The catalogue is shared with the session protocol, so the operations on connections take
  it as an argument.
\<close>

section \<open>The catalogue\<close>

record catalog =
  known_agent_ids :: "string set"
  bodies :: "embodiment dict"

fun add_body :: "string set \<Rightarrow> embodiment dict \<Rightarrow> embodiment \<Rightarrow> embodiment dict res" where
  "add_body agents recs b =
     (if map_of recs (emb_id b) \<noteq> None then Inl SpatialContractError
      else if agent_id b \<noteq> None \<and> the (agent_id b) \<notin> agents then Inl SpatialContractError
      else Inr (AList.update (emb_id b) b recs))"

definition new_catalog :: "embodiment list \<Rightarrow> string list \<Rightarrow> catalog res" where
  "new_catalog embodiments agents =
     bind_res (map_res (\<lambda>a. typed_id a ''agent'') agents) (\<lambda>ids.
     bind_res (fold_res (add_body (set ids)) embodiments []) (\<lambda>recs.
       Inr \<lparr>known_agent_ids = set ids, bodies = recs\<rparr>))"

definition catalog_get :: "catalog \<Rightarrow> string \<Rightarrow> embodiment res" where
  "catalog_get c i = bind_res (typed_id i ''embodiment'') (\<lambda>_.
     case map_of (bodies c) i of None \<Rightarrow> Inl SpatialContractError | Some b \<Rightarrow> Inr b)"

definition ordered :: "catalog \<Rightarrow> embodiment list" where
  "ordered c = map (\<lambda>k. the (map_of (bodies c) k)) (sort (map fst (bodies c)))"

definition require_agent :: "catalog \<Rightarrow> string \<Rightarrow> unit res" where
  "require_agent c a = bind_res (typed_id a ''agent'') (\<lambda>_.
     guard (a \<in> known_agent_ids c) SpatialContractError)"

definition bodies_for_agent :: "catalog \<Rightarrow> string \<Rightarrow> embodiment list res" where
  "bodies_for_agent c a = bind_res (require_agent c a) (\<lambda>_.
     Inr (filter (\<lambda>b. agent_id b = Some a) (ordered c)))"

definition with_capability :: "catalog \<Rightarrow> string \<Rightarrow> embodiment list" where
  "with_capability c cap = filter (\<lambda>b. cap \<in> set (capabilities b)) (ordered c)"

definition named :: "catalog \<Rightarrow> string \<Rightarrow> embodiment list" where
  "named c n = filter (\<lambda>b. emb_name b = n) (ordered c)"

definition cache_resolved :: "catalog \<Rightarrow> embodiment \<Rightarrow> catalog res" where
  "cache_resolved c b =
     bind_res (case agent_id b of
         None \<Rightarrow> Inr (known_agent_ids c)
       | Some a \<Rightarrow> bind_res (typed_id a ''agent'') (\<lambda>a. Inr (insert a (known_agent_ids c)))) (\<lambda>ids.
       Inr (c\<lparr>known_agent_ids := ids, bodies := AList.update (emb_id b) b (bodies c)\<rparr>))"

section \<open>Runtime sessions\<close>

record runtime_session =
  rs_embodiment :: string
  rs_id :: string
  rs_online :: bool
  rs_connected_at :: int
  rs_last_seen :: int
  rs_available :: "string set"

record connections =
  sessions :: "runtime_session dict"
  seqno :: nat
  instance_id :: string

record session_change =
  ch_disposition :: string
  ch_session :: runtime_session

definition new_connections :: "string \<Rightarrow> connections" where
  "new_connections inst = \<lparr>sessions = [], seqno = 0, instance_id = inst\<rparr>"

definition session_name :: "string \<Rightarrow> nat \<Rightarrow> string" where
  "session_name inst n = ''runtime-session:'' @ inst @ '':'' @ show_nat n"

text \<open>\<open>_subset\<close>: \<open>None\<close> stands for everything the body supports; a collection of names must be
  contained in it. An unhashable member makes \<open>frozenset\<close> raise.\<close>

definition hashable :: "pyval \<Rightarrow> bool" where
  "hashable v = (case v of VList _ \<Rightarrow> False | VDict _ \<Rightarrow> False | _ \<Rightarrow> True)"

definition capability_subset :: "embodiment \<Rightarrow> pyval \<Rightarrow> string set res" where
  "capability_subset b v =
     (let check = (\<lambda>vs.
        if \<not> list_all hashable vs then Inl TypeError
        else case strs vs of
          None \<Rightarrow> Inl (SessionProtocolError ''invalid_capabilities'')
        | Some ns \<Rightarrow>
            if set ns \<subseteq> set (capabilities b) then Inr (set ns)
            else Inl (SessionProtocolError ''capability_not_configured''))
      in case v of
           VNone \<Rightarrow> Inr (set (capabilities b))
         | VList vs \<Rightarrow> check vs
         | VDict d \<Rightarrow> check (map (VStr \<circ> fst) d)
         | _ \<Rightarrow> Inl (SessionProtocolError ''invalid_capabilities''))"

definition require_session :: "connections \<Rightarrow> string \<Rightarrow> runtime_session res" where
  "require_session k i = (case map_of (sessions k) i of
     None \<Rightarrow> Inl (SessionProtocolError ''session_offline'') | Some s \<Rightarrow> Inr s)"

definition put_session :: "connections \<Rightarrow> string \<Rightarrow> runtime_session \<Rightarrow> connections" where
  "put_session k i s = k\<lparr>sessions := AList.update i s (sessions k)\<rparr>"

definition connect ::
  "catalog \<Rightarrow> connections \<Rightarrow> string \<Rightarrow> pyval \<Rightarrow> datetime option \<Rightarrow> int
   \<Rightarrow> connections \<times> session_change res" where
  "connect c k i available now clock =
     (case bind_res (catalog_get c i) (\<lambda>b. bind_res (capability_subset b available) (\<lambda>act.
             bind_res (observed now clock) (\<lambda>obs. Inr (act, obs)))) of
        Inl e \<Rightarrow> (k, Inl e)
      | Inr (act, obs) \<Rightarrow>
          let previous = map_of (sessions k) i;
              disp = (if previous \<noteq> None \<and> rs_online (the previous) then ''replaced'' else ''connected'');
              n = Suc (seqno k);
              s = \<lparr>rs_embodiment = i, rs_id = session_name (instance_id k) n, rs_online = True,
                   rs_connected_at = obs, rs_last_seen = obs, rs_available = act\<rparr>
          in (put_session (k\<lparr>seqno := n\<rparr>) i s, Inr \<lparr>ch_disposition = disp, ch_session = s\<rparr>))"

definition touch ::
  "connections \<Rightarrow> string \<Rightarrow> datetime option \<Rightarrow> int \<Rightarrow> string \<Rightarrow> string set option
   \<Rightarrow> connections \<times> session_change res" where
  "touch k i now clock disp available =
     (case bind_res (observed now clock) (\<lambda>obs. bind_res (require_session k i) (\<lambda>s. Inr (obs, s))) of
        Inl e \<Rightarrow> (k, Inl e)
      | Inr (obs, previous) \<Rightarrow>
          if \<not> rs_online previous then (k, Inl (SessionProtocolError ''session_offline''))
          else let s = previous\<lparr>rs_last_seen := obs,
                         rs_available := (case available of None \<Rightarrow> rs_available previous | Some a \<Rightarrow> a)\<rparr>
               in (put_session k i s, Inr \<lparr>ch_disposition = disp, ch_session = s\<rparr>))"

definition update_capabilities ::
  "catalog \<Rightarrow> connections \<Rightarrow> string \<Rightarrow> pyval \<Rightarrow> datetime option \<Rightarrow> int
   \<Rightarrow> connections \<times> session_change res" where
  "update_capabilities c k i available now clock =
     (case bind_res (catalog_get c i) (\<lambda>b. capability_subset b available) of
        Inl e \<Rightarrow> (k, Inl e)
      | Inr act \<Rightarrow> touch k i now clock ''capabilities'' (Some act))"

definition heartbeat ::
  "catalog \<Rightarrow> connections \<Rightarrow> string \<Rightarrow> datetime option \<Rightarrow> int \<Rightarrow> connections \<times> session_change res" where
  "heartbeat c k i now clock =
     (case catalog_get c i of
        Inl e \<Rightarrow> (k, Inl e) | Inr _ \<Rightarrow> touch k i now clock ''heartbeat'' None)"

definition disconnect ::
  "catalog \<Rightarrow> connections \<Rightarrow> string \<Rightarrow> datetime option \<Rightarrow> int \<Rightarrow> connections \<times> session_change res" where
  "disconnect c k i now clock =
     (case bind_res (catalog_get c i) (\<lambda>_. bind_res (observed now clock) (\<lambda>obs.
             bind_res (require_session k i) (\<lambda>s. Inr (obs, s)))) of
        Inl e \<Rightarrow> (k, Inl e)
      | Inr (obs, previous) \<Rightarrow>
          if \<not> rs_online previous
          then (k, Inr \<lparr>ch_disposition = ''disconnected'', ch_session = previous\<rparr>)
          else let s = previous\<lparr>rs_online := False, rs_last_seen := obs, rs_available := {}\<rparr>
               in (put_session k i s, Inr \<lparr>ch_disposition = ''disconnected'', ch_session = s\<rparr>))"

definition current :: "connections \<Rightarrow> string \<Rightarrow> runtime_session option res" where
  "current k i = bind_res (typed_id i ''embodiment'') (\<lambda>i. Inr (map_of (sessions k) i))"

definition is_connected :: "connections \<Rightarrow> string \<Rightarrow> bool res" where
  "is_connected k i = bind_res (current k i) (\<lambda>s.
     Inr (case s of None \<Rightarrow> False | Some s \<Rightarrow> rs_online s))"

definition active_capabilities :: "connections \<Rightarrow> string \<Rightarrow> string set res" where
  "active_capabilities k i = bind_res (current k i) (\<lambda>s.
     Inr (case s of None \<Rightarrow> {} | Some s \<Rightarrow> if rs_online s then rs_available s else {}))"

definition active_bodies_for_agent :: "catalog \<Rightarrow> connections \<Rightarrow> string \<Rightarrow> embodiment list res" where
  "active_bodies_for_agent c k a = bind_res (bodies_for_agent c a) (\<lambda>bs.
     Inr (filter (\<lambda>b. case map_of (sessions k) (emb_id b) of
            None \<Rightarrow> False | Some s \<Rightarrow> rs_online s) bs))"

definition is_currently_embodied :: "catalog \<Rightarrow> connections \<Rightarrow> string \<Rightarrow> bool res" where
  "is_currently_embodied c k a = bind_res (active_bodies_for_agent c k a) (\<lambda>bs. Inr (bs \<noteq> []))"

end
