(* ===== verification/Sessions.thy ===== *)
theory Sessions
  imports Connections
begin

text \<open>
  \<open>agents/session.py\<close>, \<open>agents/registration.py\<close> and \<open>agents/presence.py\<close>: the session protocol of a
  client, its registration entry (which resolves the persistent body first), and the read
  projection with the gate for physical actions. The persistent reader is the database: a function
  \<open>reader\<close> from an identifier to the stored body or the exception it raises.
\<close>

record runtime =
  r_catalog :: catalog
  r_conn :: connections
  r_presence :: presence

section \<open>The session protocol\<close>

text \<open>\<open>EmbodimentSession.note_resolved\<close>\<close>

definition note_resolved :: "runtime \<Rightarrow> embodiment \<Rightarrow> runtime \<times> unit res" where
  "note_resolved r b =
     (case cache_resolved (r_catalog r) b of
        Inl e \<Rightarrow> (r, Inl e)
      | Inr c \<Rightarrow> let r1 = r\<lparr>r_catalog := c\<rparr> in
         (case register_embodiment (r_presence r) (emb_id b) of
            Inl e \<Rightarrow> (r1, Inl e) | Inr p \<Rightarrow> (r1\<lparr>r_presence := p\<rparr>, Inr ())))"

definition require_known :: "runtime \<Rightarrow> string \<Rightarrow> embodiment res" where
  "require_known r i = (case catalog_get (r_catalog r) i of
     Inl e \<Rightarrow> Inl (if is_spatial_error e then SessionProtocolError ''unknown_embodiment'' else e)
   | Inr b \<Rightarrow> Inr b)"

definition require_current :: "runtime \<Rightarrow> string \<Rightarrow> string option \<Rightarrow> bool \<Rightarrow> unit res" where
  "require_current r i sid allow_offline =
     bind_res (current (r_conn r) i) (\<lambda>s. case s of
       None \<Rightarrow> Inl (SessionProtocolError ''session_offline'')
     | Some s \<Rightarrow>
         if \<not> rs_online s \<and> \<not> allow_offline then Inl (SessionProtocolError ''session_offline'')
         else if sid \<noteq> Some (rs_id s) then Inl (SessionProtocolError ''stale_session'')
         else Inr ())"

definition session_mapping :: "runtime_session option \<Rightarrow> pyval" where
  "session_mapping x = (case x of None \<Rightarrow> VNone | Some s \<Rightarrow>
     VDict [(''session_id'', VStr (rs_id s)), (''online'', VBool (rs_online s)),
       (''connected_at'', VStr (instant_isoformat (rs_connected_at s))),
       (''last_seen'', VStr (instant_isoformat (rs_last_seen s))),
       (''available_capabilities'', VList (map VStr (sorted_list_of_set (rs_available s))))])"

definition view :: "runtime \<Rightarrow> string \<Rightarrow> session_change option \<Rightarrow> pyval res" where
  "view r i change = bind_res (require_known r i) (\<lambda>b.
     bind_res (current (r_conn r) i) (\<lambda>s.
       Inr (VDict ([(''embodiment_id'', VStr (emb_id b)), (''agent_id'', opt_str (agent_id b)),
          (''configured_capabilities'', VList (map VStr (capabilities b))),
          (''session'', session_mapping s)]
        @ (case change of None \<Rightarrow> [] | Some ch \<Rightarrow> [(''disposition'', VStr (ch_disposition ch))])))))"

text \<open>Running an operation on the connections and viewing its outcome.\<close>

definition after_change :: "runtime \<Rightarrow> string \<Rightarrow> connections \<times> session_change res \<Rightarrow> runtime \<times> pyval res" where
  "after_change r i out = (case out of (k, res) \<Rightarrow>
     let r' = r\<lparr>r_conn := k\<rparr> in (r', bind_res res (\<lambda>ch. view r' i (Some ch))))"

definition register :: "runtime \<Rightarrow> string \<Rightarrow> pyval \<Rightarrow> datetime option \<Rightarrow> int \<Rightarrow> runtime \<times> pyval res" where
  "register r i available now clock =
     (case require_known r i of
        Inl e \<Rightarrow> (r, Inl e)
      | Inr _ \<Rightarrow> after_change r i (connect (r_catalog r) (r_conn r) i available now clock))"

definition checked ::
  "runtime \<Rightarrow> string \<Rightarrow> string option \<Rightarrow> bool \<Rightarrow> (connections \<times> session_change res) \<Rightarrow> runtime \<times> pyval res" where
  "checked r i sid allow_offline out =
     (case bind_res (require_known r i) (\<lambda>_. require_current r i sid allow_offline) of
        Inl e \<Rightarrow> (r, Inl e) | Inr _ \<Rightarrow> after_change r i out)"

definition session_update_capabilities ::
  "runtime \<Rightarrow> string \<Rightarrow> pyval \<Rightarrow> string option \<Rightarrow> datetime option \<Rightarrow> int \<Rightarrow> runtime \<times> pyval res" where
  "session_update_capabilities r i available sid now clock =
     checked r i sid False (update_capabilities (r_catalog r) (r_conn r) i available now clock)"

definition session_heartbeat ::
  "runtime \<Rightarrow> string \<Rightarrow> string option \<Rightarrow> datetime option \<Rightarrow> int \<Rightarrow> runtime \<times> pyval res" where
  "session_heartbeat r i sid now clock =
     checked r i sid False (heartbeat (r_catalog r) (r_conn r) i now clock)"

definition session_disconnect ::
  "runtime \<Rightarrow> string \<Rightarrow> string option \<Rightarrow> datetime option \<Rightarrow> int \<Rightarrow> runtime \<times> pyval res" where
  "session_disconnect r i sid now clock =
     checked r i sid True (disconnect (r_catalog r) (r_conn r) i now clock)"

text \<open>\<open>EmbodimentSession.submit_telemetry\<close>. The two clock readings are those of the admission and of
  the heartbeat that follows it.\<close>

definition session_submit ::
  "runtime \<Rightarrow> physical_telemetry \<Rightarrow> string option \<Rightarrow> datetime option \<Rightarrow> int \<Rightarrow> int \<Rightarrow> runtime \<times> pyval res" where
  "session_submit r parsed sid now clock1 clock2 =
     (let i = tl_embodiment parsed in
      case bind_res (require_known r i) (\<lambda>_. require_current r i sid False) of
        Inl e \<Rightarrow> (r, Inl e)
      | Inr _ \<Rightarrow>
      (case submit (r_presence r) parsed now clock1 of
        (p, Inl e) \<Rightarrow> (r\<lparr>r_presence := p\<rparr>,
            Inl (case e of TelemetryAdmissionError code \<Rightarrow> SessionProtocolError code | _ \<Rightarrow> e))
      | (p, Inr adm) \<Rightarrow>
          let r1 = r\<lparr>r_presence := p\<rparr> in
          (case heartbeat (r_catalog r1) (r_conn r1) i now clock2 of
             (k, Inl e) \<Rightarrow> (r1\<lparr>r_conn := k\<rparr>, Inl e)
           | (k, Inr _) \<Rightarrow> let r2 = r1\<lparr>r_conn := k\<rparr> in
               (r2, bind_res (view r2 i None) (\<lambda>v.
                  Inr (VDict [(''telemetry'', admission_as_mapping adm), (''presence'', v)]))))))"

definition session_submit_mapping ::
  "runtime \<Rightarrow> pyval \<Rightarrow> string option \<Rightarrow> datetime option \<Rightarrow> int \<Rightarrow> int \<Rightarrow> runtime \<times> pyval res" where
  "session_submit_mapping r sample sid now clock1 clock2 =
     (case physical_telemetry_from_mapping sample of
        Inl e \<Rightarrow> (r, Inl e) | Inr t \<Rightarrow> session_submit r t sid now clock1 clock2)"

section \<open>Registration\<close>

type_synonym reader = "string \<Rightarrow> embodiment res"

definition admit_body :: "reader \<Rightarrow> runtime \<Rightarrow> string \<Rightarrow> runtime \<times> embodiment res" where
  "admit_body reader r i =
     (case reader i of
        Inl e \<Rightarrow> (r, Inl (if is_spatial_error e then SessionProtocolError ''unknown_embodiment'' else e))
      | Inr b \<Rightarrow> (case note_resolved r b of (r', res) \<Rightarrow> (r', bind_res res (\<lambda>_. Inr b))))"

text \<open>\<open>await self._admit(embodiment_id)\<close>, then the operation on the session.\<close>

definition after_admit ::
  "reader \<Rightarrow> runtime \<Rightarrow> string \<Rightarrow> (runtime \<Rightarrow> runtime \<times> pyval res) \<Rightarrow> runtime \<times> pyval res" where
  "after_admit reader r i f = (case admit_body reader r i of
     (r', Inl e) \<Rightarrow> (r', Inl e) | (r', Inr _) \<Rightarrow> f r')"

definition registration_connect ::
  "reader \<Rightarrow> runtime \<Rightarrow> string \<Rightarrow> pyval \<Rightarrow> datetime option \<Rightarrow> int \<Rightarrow> runtime \<times> pyval res" where
  "registration_connect reader r i available now clock =
     after_admit reader r i (\<lambda>r. register r i available now clock)"

definition registration_update_capabilities ::
  "reader \<Rightarrow> runtime \<Rightarrow> string \<Rightarrow> pyval \<Rightarrow> string option \<Rightarrow> datetime option \<Rightarrow> int \<Rightarrow> runtime \<times> pyval res" where
  "registration_update_capabilities reader r i available sid now clock =
     after_admit reader r i (\<lambda>r. session_update_capabilities r i available sid now clock)"

definition registration_heartbeat ::
  "reader \<Rightarrow> runtime \<Rightarrow> string \<Rightarrow> string option \<Rightarrow> datetime option \<Rightarrow> int \<Rightarrow> runtime \<times> pyval res" where
  "registration_heartbeat reader r i sid now clock =
     after_admit reader r i (\<lambda>r. session_heartbeat r i sid now clock)"

definition registration_disconnect ::
  "reader \<Rightarrow> runtime \<Rightarrow> string \<Rightarrow> string option \<Rightarrow> datetime option \<Rightarrow> int \<Rightarrow> runtime \<times> pyval res" where
  "registration_disconnect reader r i sid now clock =
     after_admit reader r i (\<lambda>r. session_disconnect r i sid now clock)"

definition registration_submit ::
  "reader \<Rightarrow> runtime \<Rightarrow> (string \<times> pyval) list \<Rightarrow> string option \<Rightarrow> datetime option \<Rightarrow> int \<Rightarrow> int
   \<Rightarrow> runtime \<times> pyval res" where
  "registration_submit reader r sample sid now clock1 clock2 =
     (case get_or_None sample ''embodiment_id'' of
        VStr i \<Rightarrow> after_admit reader r i
          (\<lambda>r. session_submit_mapping r (VDict sample) sid now clock1 clock2)
      | _ \<Rightarrow> (r, Inl (SessionProtocolError ''invalid_telemetry'')))"

definition registration_view :: "reader \<Rightarrow> runtime \<Rightarrow> string \<Rightarrow> runtime \<times> pyval res" where
  "registration_view reader r i = after_admit reader r i (\<lambda>r. (r, view r i None))"

text \<open>\<open>CatalogIdentityReader\<close>: the reader over a preloaded catalogue.\<close>

definition catalog_reader_get :: "catalog \<Rightarrow> reader" where
  "catalog_reader_get c = catalog_get c"

definition catalog_reader_list :: "catalog \<Rightarrow> embodiment list res" where
  "catalog_reader_list c = map_res (catalog_get c) (sort (map fst (bodies c)))"

text \<open>\<open>open_embodiment_runtime\<close> after the catalogue was read from the database.\<close>

definition open_runtime :: "catalog \<Rightarrow> string \<Rightarrow> string list \<Rightarrow> pyval \<Rightarrow> runtime res" where
  "open_runtime c inst space_ids stale_after =
     bind_res (new_presence (map fst (bodies c)) space_ids stale_after) (\<lambda>p.
       Inr \<lparr>r_catalog = c, r_conn = new_connections inst, r_presence = p\<rparr>)"

section \<open>The directory\<close>

record availability =
  av_available :: bool
  av_code :: string
  av_embodiment :: string
  av_agent :: string
  av_capability :: string

definition action_code :: "runtime \<Rightarrow> embodiment \<Rightarrow> string \<Rightarrow> string \<Rightarrow> string res" where
  "action_code r b agent cap =
     (if agent_id b \<noteq> Some agent then Inr ''embodiment_not_linked''
      else bind_res (is_connected (r_conn r) (emb_id b)) (\<lambda>on.
        if \<not> on then Inr ''embodiment_offline''
        else if cap \<notin> set (capabilities b) then Inr ''unsupported_capability''
        else bind_res (active_capabilities (r_conn r) (emb_id b)) (\<lambda>act.
          Inr (if cap \<notin> act then ''capability_unavailable'' else ''available''))))"

definition action_availability ::
  "reader \<Rightarrow> runtime \<Rightarrow> string \<Rightarrow> string \<Rightarrow> string \<Rightarrow> availability res" where
  "action_availability reader r agent i cap =
     bind_res (case reader i of
         Inl e \<Rightarrow> if is_spatial_error e then Inr ''unknown_embodiment'' else Inl e
       | Inr b \<Rightarrow> action_code r b agent cap) (\<lambda>code.
       Inr \<lparr>av_available = (code = ''available''), av_code = code, av_embodiment = i,
            av_agent = agent, av_capability = cap\<rparr>)"

definition validate_selection :: "reader \<Rightarrow> string \<Rightarrow> string \<Rightarrow> unit res" where
  "validate_selection reader agent i = bind_res (reader i) (\<lambda>b.
     if agent_id b \<noteq> Some agent then Inl SpatialContractError else Inr ())"

text \<open>\<open>_view\<close>; \<open>agents\<close> gives the display name of a registered agent entity.\<close>

definition directory_view ::
  "string dict \<Rightarrow> runtime \<Rightarrow> int \<Rightarrow> bool \<Rightarrow> embodiment \<Rightarrow> pyval res" where
  "directory_view agents r clock detail b =
     bind_res (current (r_conn r) (emb_id b)) (\<lambda>s.
     bind_res (reading (r_presence r) (emb_id b) None clock) (\<lambda>st.
     let on = (case s of None \<Rightarrow> False | Some x \<Rightarrow> rs_online x);
         advertised = (if on then rs_available (the s) else {});
         sample = ts_telemetry st;
         agent_value = (case agent_id b of None \<Rightarrow> VNone
           | Some a \<Rightarrow> VDict [(''id'', VStr a), (''name'', opt_str (map_of agents a))]);
         telemetry = [(''available'', VBool (on \<and> st_fresh (ts_status st))),
           (''valid'', VBool (st_valid (ts_status st))),
           (''fresh'', VBool (st_fresh (ts_status st))),
           (''space_id'', case sample of None \<Rightarrow> VNone | Some t \<Rightarrow> opt_str (tl_space t)),
           (''measured_at'', case sample of None \<Rightarrow> VNone
              | Some t \<Rightarrow> VStr (instant_isoformat (tl_measured t)))]
           @ (if detail then [(''estimate'', case sample of None \<Rightarrow> VNone
              | Some t \<Rightarrow> physical_telemetry_as_mapping t)] else [])
     in Inr (VDict ([(''id'', VStr (emb_id b)), (''name'', VStr (emb_name b)),
          (''embodiment_type'', VStr (embodiment_type b)), (''agent'', agent_value),
          (''linked'', VBool (agent_id b \<noteq> None)), (''connected'', VBool on),
          (''state'', VStr (if agent_id b = None then ''unlinked''
              else if on then ''linked_online'' else ''linked_offline'')),
          (''runtime'', VDict [
            (''connected_at'', case s of None \<Rightarrow> VNone
               | Some x \<Rightarrow> VStr (instant_isoformat (rs_connected_at x))),
            (''last_seen'', case s of None \<Rightarrow> VNone
               | Some x \<Rightarrow> VStr (instant_isoformat (rs_last_seen x)))]),
          (''telemetry'', VDict telemetry),
          (''capabilities'', VList (map (\<lambda>n. VDict [(''name'', VStr n), (''supported'', VBool True),
             (''available'', VBool (n \<in> advertised))]) (capabilities b)))]
        @ (if detail then
            [(''geometry'', case geometry b of None \<Rightarrow> VNone | Some g \<Rightarrow> body_geometry_as_mapping g),
             (''local_frame'', case local_frame b of None \<Rightarrow> VNone
                | Some f \<Rightarrow> local_frame_as_mapping f)] else [])))))"

definition directory_list ::
  "string dict \<Rightarrow> runtime \<Rightarrow> int \<Rightarrow> embodiment list \<Rightarrow> pyval list res" where
  "directory_list agents r clock stored = map_res (directory_view agents r clock False) stored"

definition directory_list_for_agent ::
  "string dict \<Rightarrow> runtime \<Rightarrow> int \<Rightarrow> embodiment list \<Rightarrow> string \<Rightarrow> pyval list res" where
  "directory_list_for_agent agents r clock stored agent =
     bind_res (typed_id agent ''agent'') (\<lambda>parsed.
       map_res (directory_view agents r clock False)
         (filter (\<lambda>b. agent_id b = Some parsed) stored))"

definition directory_get ::
  "string dict \<Rightarrow> reader \<Rightarrow> runtime \<Rightarrow> int \<Rightarrow> string \<Rightarrow> bool \<Rightarrow> pyval res" where
  "directory_get agents reader r clock i detail =
     bind_res (reader i) (directory_view agents r clock detail)"

section \<open>Requests\<close>

datatype request =
    RqConnect string pyval
  | RqUpdate string pyval "string option"
  | RqHeartbeat string "string option"
  | RqDisconnect string "string option"
  | RqTelemetry "(string \<times> pyval) list" "string option"
  | RqView string

text \<open>One request: what the database answers, the time argument and the two clock readings come with
  it.\<close>

type_synonym call = "reader \<times> datetime option \<times> int \<times> int \<times> request"

fun handle :: "runtime \<Rightarrow> call \<Rightarrow> runtime \<times> pyval res" where
  "handle r (reader, now, c1, c2, RqConnect i av) = registration_connect reader r i av now c1"
| "handle r (reader, now, c1, c2, RqUpdate i av sid) =
     registration_update_capabilities reader r i av sid now c1"
| "handle r (reader, now, c1, c2, RqHeartbeat i sid) = registration_heartbeat reader r i sid now c1"
| "handle r (reader, now, c1, c2, RqDisconnect i sid) = registration_disconnect reader r i sid now c1"
| "handle r (reader, now, c1, c2, RqTelemetry d sid) = registration_submit reader r d sid now c1 c2"
| "handle r (reader, now, c1, c2, RqView i) = registration_view reader r i"

end
