(* ===== verification/SessionFacts.thy ===== *)
theory SessionFacts
  imports Sessions
begin

text \<open>
  Facts about the session protocol of \<open>Sessions\<close>: the session table as a step relation with its
  invariant, the interface to the persistent bodies, the runtimes that requests reach, the
  requests that fail, and the properties of the protocol.
\<close>

section \<open>The session table as a state machine\<close>

text \<open>Every operation on the connections leaves the table alone, rewrites an online session under its
  own identifier, or opens a session under the next number.\<close>

inductive conn_step :: "connections \<Rightarrow> connections \<Rightarrow> bool" where
  stay: "conn_step k k"
| rewrite: "map_of (sessions k) i = Some s \<Longrightarrow> rs_online s \<Longrightarrow> rs_id s' = rs_id s \<Longrightarrow>
    rs_embodiment s' = rs_embodiment s \<Longrightarrow> rs_connected_at s' = rs_connected_at s \<Longrightarrow>
    (\<not> rs_online s' \<longrightarrow> rs_available s' = {}) \<Longrightarrow> conn_step k (put_session k i s')"
| open_new: "rs_embodiment s = i \<Longrightarrow> rs_online s \<Longrightarrow>
    rs_id s = session_name (instance_id k) (Suc (seqno k)) \<Longrightarrow>
    conn_step k (put_session (k\<lparr>seqno := Suc (seqno k)\<rparr>) i s)"

inductive_cases conn_stepE: "conn_step k k'"

lemma session_name_inject [simp]: "session_name inst m = session_name inst n \<longleftrightarrow> m = n"
  by (simp add: session_name_def)

lemma sessions_put [simp]:
  "sessions (put_session k i s) = AList.update i s (sessions k)"
  "seqno (put_session k i s) = seqno k"
  "instance_id (put_session k i s) = instance_id k"
  by (simp_all add: put_session_def)

lemma put_session_seqno:
  "put_session (k\<lparr>seqno := n\<rparr>) i s = (put_session k i s)\<lparr>seqno := n\<rparr>"
  by (simp add: put_session_def)

lemma connect_step: "conn_step k (fst (connect c k i av now clock))"
  by (auto simp: connect_def Let_def intro!: conn_step.stay conn_step.open_new split: sum.split)

lemma touch_step: "conn_step k (fst (touch k i now clock d av))"
proof -
  have *: "conn_step k (put_session k i (s\<lparr>rs_last_seen := obs, rs_available := a\<rparr>))"
    if "map_of (sessions k) i = Some s" "rs_online s" for s obs a
    using that by (intro conn_step.rewrite[of k i s]) auto
  have **: "conn_step k (put_session k i (s\<lparr>rs_last_seen := obs\<rparr>))"
    if "map_of (sessions k) i = Some s" "rs_online s" for s obs
    using that by (intro conn_step.rewrite[of k i s]) auto
  show ?thesis
    by (auto simp: touch_def Let_def require_session_def bind_res_iff
        intro!: conn_step.stay * ** split: sum.split option.splits)
qed

lemma update_capabilities_step: "conn_step k (fst (update_capabilities c k i av now clock))"
  by (auto simp: update_capabilities_def intro: conn_step.stay touch_step split: sum.split)

lemma heartbeat_step: "conn_step k (fst (heartbeat c k i now clock))"
  by (auto simp: heartbeat_def intro: conn_step.stay touch_step split: sum.split)

lemma disconnect_step: "conn_step k (fst (disconnect c k i now clock))"
proof -
  have *: "conn_step k (put_session k i (s\<lparr>rs_online := False, rs_last_seen := obs, rs_available := {}\<rparr>))"
    if "map_of (sessions k) i = Some s" "rs_online s" for s obs
    using that by (intro conn_step.rewrite[of k i s]) auto
  show ?thesis
    by (auto simp: disconnect_def Let_def require_session_def bind_res_iff
        intro!: conn_step.stay * split: sum.split option.splits)
qed

lemmas conn_steps =
  connect_step touch_step update_capabilities_step heartbeat_step disconnect_step

definition issued :: "connections \<Rightarrow> runtime_session \<Rightarrow> bool" where
  "issued k s \<longleftrightarrow> (\<exists>n. 1 \<le> n \<and> n \<le> seqno k \<and> rs_id s = session_name (instance_id k) n)"

definition conn_ok :: "connections \<Rightarrow> bool" where
  "conn_ok k \<longleftrightarrow>
     (\<forall>i s. map_of (sessions k) i = Some s \<longrightarrow>
        rs_embodiment s = i \<and> (\<not> rs_online s \<longrightarrow> rs_available s = {}) \<and> issued k s)
     \<and> (\<forall>i j s t. map_of (sessions k) i = Some s \<longrightarrow> map_of (sessions k) j = Some t \<longrightarrow>
          rs_id s = rs_id t \<longrightarrow> i = j)"

lemma new_connections_ok: "conn_ok (new_connections inst)"
  by (simp add: conn_ok_def new_connections_def)

lemma issued_mono: "issued k s \<Longrightarrow> seqno k \<le> seqno k' \<Longrightarrow> instance_id k' = instance_id k \<Longrightarrow> issued k' s"
  unfolding issued_def by (metis le_trans)

lemma fresh_not_issued: "issued k s \<Longrightarrow> rs_id s \<noteq> session_name (instance_id k) (Suc (seqno k))"
  by (auto simp: issued_def)

lemma conn_okD:
  assumes "conn_ok k" and "map_of (sessions k) i = Some s"
  shows "rs_embodiment s = i" and "\<not> rs_online s \<Longrightarrow> rs_available s = {}" and "issued k s"
  using assms unfolding conn_ok_def by blast+

lemma conn_ok_inj:
  assumes "conn_ok k" and "map_of (sessions k) i = Some s" and "map_of (sessions k) j = Some t"
    and "rs_id s = rs_id t"
  shows "i = j"
  using assms unfolding conn_ok_def by blast

lemma conn_ok_put:
  assumes ok: "conn_ok k" and ses: "sessions k' = AList.update i s (sessions k)"
    and s: "rs_embodiment s = i" "\<not> rs_online s \<Longrightarrow> rs_available s = {}" "issued k' s"
    and iss: "\<And>t. issued k t \<Longrightarrow> issued k' t"
    and inj: "\<And>j t. map_of (sessions k) j = Some t \<Longrightarrow> rs_id t = rs_id s \<Longrightarrow> j = i"
  shows "conn_ok k'"
proof -
  have old: "map_of (sessions k') j = Some t \<Longrightarrow> j \<noteq> i \<Longrightarrow> map_of (sessions k) j = Some t" for j t
    by (simp add: ses store_simps)
  have new: "map_of (sessions k') i = Some s"
    by (simp add: ses store_simps)
  have "rs_embodiment t = j \<and> (\<not> rs_online t \<longrightarrow> rs_available t = {}) \<and> issued k' t"
    if "map_of (sessions k') j = Some t" for j t
    using that new s old[OF that] conn_okD[OF ok, of j t] iss by (cases "j = i") auto
  moreover have "j = l"
    if "map_of (sessions k') j = Some t" "map_of (sessions k') l = Some u" "rs_id t = rs_id u" for j l t u
  proof (cases "j = i"; cases "l = i")
    assume c: "j = i" "l \<noteq> i"
    then have "rs_id u = rs_id s" using that new by simp
    then show ?thesis using inj[OF old[OF that(2) c(2)]] c by simp
  next
    assume c: "j \<noteq> i" "l = i"
    then have "rs_id t = rs_id s" using that new by simp
    then show ?thesis using inj[OF old[OF that(1) c(1)]] c by simp
  next
    assume c: "j \<noteq> i" "l \<noteq> i"
    then show ?thesis by (intro conn_ok_inj[OF ok old[OF that(1)] old[OF that(2)] that(3)])
  qed simp
  ultimately show ?thesis unfolding conn_ok_def by blast
qed

lemma conn_step_ok [preserve]:
  assumes "conn_step k k'" and "conn_ok k"
  shows "conn_ok k'"
  using assms(1)
proof cases
  case stay
  with assms(2) show ?thesis by simp
next
  case (rewrite i s s')
  note s = conn_okD[OF assms(2) rewrite(2)]
  have "issued k' s'" using s(3) rewrite(1,4) by (simp add: issued_def)
  moreover have "j = i" if "map_of (sessions k) j = Some t" "rs_id t = rs_id s'" for j t
    using conn_ok_inj[OF assms(2) that(1) rewrite(2)] that(2) rewrite(4) by simp
  moreover have "issued k' t" if "issued k t" for t
    using issued_mono[OF that] rewrite(1) by simp
  moreover have "sessions k' = AList.update i s' (sessions k)" "rs_embodiment s' = i"
    using rewrite(1,5) s(1) by simp_all
  ultimately show ?thesis
    using rewrite(7) conn_ok_put[OF assms(2)] by metis
next
  case (open_new s i)
  have "issued k' s" using open_new by (auto simp: issued_def intro: exI[of _ "Suc (seqno k)"])
  moreover have "rs_id t \<noteq> rs_id s" if "map_of (sessions k) j = Some t" for j t
    using conn_okD(3)[OF assms(2) that] fresh_not_issued open_new(4) by metis
  moreover have "issued k' t" if "issued k t" for t
    using issued_mono[OF that] open_new(1) by simp
  moreover have "sessions k' = AList.update i s (sessions k)"
    using open_new(1) by simp
  ultimately show ?thesis
    using open_new(2,3) conn_ok_put[OF assms(2)] by metis
qed

section \<open>The interface to the persistent bodies\<close>

text \<open>What registration relies on: a body is returned under the identifier asked for, and it has passed
  the validation of its constructor.\<close>

locale identity_reader =
  fixes read_body :: reader
  assumes read_id: "read_body i = Inr b \<Longrightarrow> emb_id b = i"
    and read_wf: "read_body i = Inr b \<Longrightarrow> wf_embodiment b"
begin

lemma read_table: "read_body i = Inr b \<Longrightarrow> has_table ''embodiment'' i"
  using read_id read_wf by (auto simp: wf_embodiment_def)

lemma read_typed: "read_body i = Inr b \<Longrightarrow> typed_id i ''embodiment'' = Inr i"
  by (rule typed_id_ok) (rule read_table)

end

section \<open>Reachable runtimes\<close>

definition call_ok :: "call \<Rightarrow> bool" where
  "call_ok a \<longleftrightarrow> identity_reader (fst a)"

definition runtime_ok :: "runtime \<Rightarrow> bool" where
  "runtime_ok r \<longleftrightarrow> conn_ok (r_conn r) \<and> presence_ok (r_presence r)
     \<and> (\<forall>i b. map_of (bodies (r_catalog r)) i = Some b \<longrightarrow>
          emb_id b = i \<and> wf_embodiment b \<and> i \<in> p_embodiments (r_presence r))
     \<and> (\<forall>i s. map_of (sessions (r_conn r)) i = Some s \<longrightarrow> map_of (bodies (r_catalog r)) i \<noteq> None)"

inductive reachable :: "runtime \<Rightarrow> runtime \<Rightarrow> bool" for r0 where
  start: "reachable r0 r0"
| request: "reachable r0 r \<Longrightarrow> call_ok a \<Longrightarrow> reachable r0 (fst (handle r a))"

inductive_cases reachableE: "reachable r0 r"

subsection \<open>Resolving a body\<close>

lemma wf_embodiment_ids:
  assumes "wf_embodiment b"
  shows "typed_id (emb_id b) ''embodiment'' = Inr (emb_id b)"
    and "agent_id b = Some a \<Longrightarrow> typed_id a ''agent'' = Inr a"
  using assms by (auto simp: wf_embodiment_def intro: typed_id_ok)

lemma cache_resolved_wf:
  assumes "wf_embodiment b"
  shows "cache_resolved c b = Inr (c\<lparr>known_agent_ids := (case agent_id b of
      None \<Rightarrow> known_agent_ids c | Some a \<Rightarrow> insert a (known_agent_ids c)),
    bodies := AList.update (emb_id b) b (bodies c)\<rparr>)"
  using wf_embodiment_ids(2)[OF assms] by (auto simp: cache_resolved_def split: option.split)

definition resolved :: "runtime \<Rightarrow> embodiment \<Rightarrow> runtime" where
  "resolved r b = r\<lparr>r_catalog := (r_catalog r)\<lparr>known_agent_ids := (case agent_id b of
        None \<Rightarrow> known_agent_ids (r_catalog r) | Some a \<Rightarrow> insert a (known_agent_ids (r_catalog r))),
      bodies := AList.update (emb_id b) b (bodies (r_catalog r))\<rparr>,
    r_presence := (r_presence r)\<lparr>p_embodiments := insert (emb_id b) (p_embodiments (r_presence r))\<rparr>\<rparr>"

lemma note_resolved_wf: "wf_embodiment b \<Longrightarrow> note_resolved r b = (resolved r b, Inr ())"
  by (simp add: note_resolved_def cache_resolved_wf register_embodiment_def wf_embodiment_ids
      resolved_def)

context identity_reader
begin

lemma admit_body_Inr:
  "read_body i = Inr b \<Longrightarrow> admit_body read_body r i = (resolved r b, Inr b)"
  using note_resolved_wf[OF read_wf] by (simp add: admit_body_def)

lemma admit_body_Inl:
  "read_body i = Inl e \<Longrightarrow> admit_body read_body r i
     = (r, Inl (if is_spatial_error e then SessionProtocolError ''unknown_embodiment'' else e))"
  by (simp add: admit_body_def)

lemma after_admit_eq:
  "after_admit read_body r i f = (case read_body i of
     Inl e \<Rightarrow> (r, Inl (if is_spatial_error e then SessionProtocolError ''unknown_embodiment'' else e))
   | Inr b \<Rightarrow> f (resolved r b))"
  by (auto simp: after_admit_def admit_body_Inr admit_body_Inl split: sum.split)

lemma require_known_resolved:
  assumes "read_body i = Inr b"
  shows "require_known (resolved r b) i = Inr b"
  using read_typed[OF assms] read_id[OF assms]
  by (simp add: require_known_def catalog_get_def resolved_def store_simps)

end

lemma resolved_conn [simp]: "r_conn (resolved r b) = r_conn r"
  by (simp add: resolved_def)

lemma resolved_samples [simp]: "p_current (r_presence (resolved r b)) = p_current (r_presence r)"
  by (simp add: resolved_def)

lemma resolved_ok [preserve]:
  assumes "runtime_ok r" and "wf_embodiment b"
  shows "runtime_ok (resolved r b)"
proof -
  have "presence_ok ((r_presence r)\<lparr>p_embodiments := insert (emb_id b) (p_embodiments (r_presence r))\<rparr>)"
    using assms register_embodiment_ok[of "r_presence r" "emb_id b"] wf_embodiment_ids(1)[OF assms(2)]
    by (simp add: runtime_ok_def register_embodiment_def)
  with assms show ?thesis
    unfolding runtime_ok_def resolved_def by (auto simp: store_simps)
qed

subsection \<open>Effects of the session protocol\<close>

lemma fst_after_change [simp]: "fst (after_change r i out) = r\<lparr>r_conn := fst out\<rparr>"
  by (simp add: after_change_def Let_def split: prod.split)

lemma fst_checked:
  "fst (checked r i sid off out) = r
   \<or> fst (checked r i sid off out) = r\<lparr>r_conn := fst out\<rparr> \<and> require_known r i = Inr (projr (require_known r i))
     \<and> require_current r i sid off = Inr ()"
  by (auto simp: checked_def bind_res_iff split: sum.split)

definition conn_moves :: "connections \<Rightarrow> string \<Rightarrow> connections \<Rightarrow> bool" where
  "conn_moves k i k' \<longleftrightarrow> conn_step k k'
     \<and> (\<forall>j. j \<noteq> i \<longrightarrow> map_of (sessions k') j = map_of (sessions k) j)"

lemma conn_moves_ops:
  "conn_moves k i (fst (connect c k i av now clock))"
  "conn_moves k i (fst (update_capabilities c k i av now clock))"
  "conn_moves k i (fst (heartbeat c k i now clock))"
  "conn_moves k i (fst (disconnect c k i now clock))"
proof -
  have t: "map_of (sessions (fst (touch k i now clock d x))) j = map_of (sessions k) j" if "j \<noteq> i" for j d x
    using that by (simp add: touch_def Let_def store_simps split: sum.split)
  show "conn_moves k i (fst (connect c k i av now clock))"
    unfolding conn_moves_def using connect_step
    by (auto simp: connect_def Let_def store_simps split: sum.split)
  show "conn_moves k i (fst (update_capabilities c k i av now clock))"
    unfolding conn_moves_def using update_capabilities_step t
    by (auto simp: update_capabilities_def split: sum.split)
  show "conn_moves k i (fst (heartbeat c k i now clock))"
    unfolding conn_moves_def using heartbeat_step t
    by (auto simp: heartbeat_def split: sum.split)
  show "conn_moves k i (fst (disconnect c k i now clock))"
    unfolding conn_moves_def using disconnect_step
    by (auto simp: disconnect_def Let_def store_simps split: sum.split)
qed

lemma require_known_body: "require_known r i = Inr b \<Longrightarrow> map_of (bodies (r_catalog r)) i = Some b"
  by (auto simp: require_known_def catalog_get_def bind_res_iff split: sum.splits option.splits)

lemma conn_moves_ok [preserve]:
  assumes "runtime_ok r" and "conn_moves (r_conn r) i k'" and "require_known r i = Inr b"
  shows "runtime_ok (r\<lparr>r_conn := k'\<rparr>)"
proof -
  have "conn_ok k'" using assms(1,2) conn_step_ok by (auto simp: runtime_ok_def conn_moves_def)
  moreover have "map_of (bodies (r_catalog r)) j \<noteq> None" if "map_of (sessions k') j = Some s" for j s
    using that assms require_known_body[OF assms(3)]
    by (cases "j = i") (auto simp: runtime_ok_def conn_moves_def)
  ultimately show ?thesis using assms(1) by (auto simp: runtime_ok_def)
qed

lemma presence_part_ok:
  assumes "runtime_ok r" and "presence_ok p" and "p_embodiments p = p_embodiments (r_presence r)"
  shows "runtime_ok (r\<lparr>r_presence := p\<rparr>)"
  using assms by (simp add: runtime_ok_def)

lemma register_ok [preserve]:
  assumes "runtime_ok r" shows "runtime_ok (fst (register r i av now clock))"
  using assms conn_moves_ok[OF assms conn_moves_ops(1)]
  by (auto simp: register_def split: sum.split)

lemma checked_ok:
  assumes "runtime_ok r" and "conn_moves (r_conn r) i (fst out)"
  shows "runtime_ok (fst (checked r i sid off out))"
  using fst_checked[of r i sid off out] conn_moves_ok[OF assms(1,2)] assms(1) by metis

lemma session_ops_ok [preserve]:
  assumes "runtime_ok r"
  shows "runtime_ok (fst (session_update_capabilities r i av sid now clock))"
    and "runtime_ok (fst (session_heartbeat r i sid now clock))"
    and "runtime_ok (fst (session_disconnect r i sid now clock))"
  unfolding session_update_capabilities_def session_heartbeat_def session_disconnect_def
  by (rule checked_ok[OF assms conn_moves_ops(2)] checked_ok[OF assms conn_moves_ops(3)]
      checked_ok[OF assms conn_moves_ops(4)])+

lemma session_submit_state:
  assumes "session_submit r t sid now c1 c2 = (r', res)"
  shows "r' = r
    \<or> (\<exists>b. require_known r (tl_embodiment t) = Inr b)
      \<and> require_current r (tl_embodiment t) sid False = Inr ()
      \<and> r_catalog r' = r_catalog r
      \<and> r_presence r' = fst (submit (r_presence r) t now c1)
      \<and> (r_conn r' = r_conn r
         \<or> r_conn r' = fst (heartbeat (r_catalog r) (r_conn r) (tl_embodiment t) now c2))"
  using assms
  by (auto simp: session_submit_def Let_def bind_res_iff split: sum.splits prod.splits)

lemma session_submit_ok [preserve]:
  assumes "runtime_ok r" and "wf_telemetry t"
  shows "runtime_ok (fst (session_submit r t sid now c1 c2))"
proof -
  obtain r' res where r': "session_submit r t sid now c1 c2 = (r', res)" by fastforce
  from session_submit_state[OF r'] show ?thesis
  proof
    assume "r' = r"
    with assms r' show ?thesis by simp
  next
    let ?p = "fst (submit (r_presence r) t now c1)"
    assume h: "(\<exists>b. require_known r (tl_embodiment t) = Inr b)
      \<and> require_current r (tl_embodiment t) sid False = Inr ()
      \<and> r_catalog r' = r_catalog r \<and> r_presence r' = ?p
      \<and> (r_conn r' = r_conn r
         \<or> r_conn r' = fst (heartbeat (r_catalog r) (r_conn r) (tl_embodiment t) now c2))"
    then obtain b where b: "require_known r (tl_embodiment t) = Inr b" by blast
    have "runtime_ok (r\<lparr>r_conn := r_conn r'\<rparr>)"
      using h assms(1) conn_moves_ok[OF assms(1) conn_moves_ops(3) b] by auto
    then have "runtime_ok (r\<lparr>r_conn := r_conn r'\<rparr>\<lparr>r_presence := ?p\<rparr>)"
      using assms by (intro presence_part_ok) (auto simp: runtime_ok_def submit_frame intro: submit_presence_ok)
    moreover have "r\<lparr>r_conn := r_conn r'\<rparr>\<lparr>r_presence := ?p\<rparr> = r'" using h by simp
    ultimately show ?thesis using r' by simp
  qed
qed

lemma session_submit_mapping_ok [preserve]:
  "runtime_ok r \<Longrightarrow> runtime_ok (fst (session_submit_mapping r d sid now c1 c2))"
  by (auto simp: session_submit_mapping_def physical_telemetry_from_mapping_wf
      intro: session_submit_ok split: sum.split)

context identity_reader
begin

lemma after_admit_ok:
  assumes "runtime_ok r" and "\<And>r. runtime_ok r \<Longrightarrow> runtime_ok (fst (f r))"
  shows "runtime_ok (fst (after_admit read_body r i f))"
  using assms resolved_ok read_wf by (auto simp: after_admit_eq split: sum.split)

lemma handle_ok:
  assumes "runtime_ok r"
  shows "runtime_ok (fst (handle r (read_body, now, c1, c2, rq)))"
  using assms
  by (cases rq)
    (auto simp: registration_connect_def registration_update_capabilities_def
      registration_heartbeat_def registration_disconnect_def registration_submit_def
      registration_view_def preserve intro!: after_admit_ok split: pyval.split)

end

lemma handle_call_ok [preserve]:
  assumes "call_ok a" and "runtime_ok r"
  shows "runtime_ok (fst (handle r a))"
proof -
  obtain reader now c1 c2 rq where a: "a = (reader, now, c1, c2, rq)" by (cases a) auto
  have "identity_reader reader" using assms(1) by (simp add: a call_ok_def)
  from identity_reader.handle_ok[OF this assms(2)] show ?thesis by (simp add: a)
qed

lemma open_runtime_ok:
  assumes "open_runtime c inst sp w = Inr r"
    and "\<And>i b. map_of (bodies c) i = Some b \<Longrightarrow> emb_id b = i \<and> wf_embodiment b"
  shows "runtime_ok r"
proof -
  obtain p where p: "new_presence (map fst (bodies c)) sp w = Inr p"
    and r: "r = \<lparr>r_catalog = c, r_conn = new_connections inst, r_presence = p\<rparr>"
    using assms(1) by (auto simp: open_runtime_def bind_res_iff)
  have "i \<in> p_embodiments p" if "map_of (bodies c) i = Some b" for i b
    using p that map_of_SomeD[OF that] new_presence_embodiments by force
  with assms(2) new_presence_ok[OF p] show ?thesis
    by (auto simp: runtime_ok_def r new_connections_ok) (simp add: new_connections_def)
qed

lemma reachable_ok:
  assumes "reachable r0 r" and "runtime_ok r0"
  shows "runtime_ok r"
  using assms by (induction rule: reachable.induct) (auto intro: handle_call_ok)

subsection \<open>What a request does to the session table\<close>

lemma conn_moves_refl [simp]: "conn_moves k i k"
  by (simp add: conn_moves_def conn_step.stay)

lemma conn_moves_step: "conn_moves k i k' \<Longrightarrow> conn_step k k'"
  by (simp add: conn_moves_def)

lemma note_resolved_conn: "r_conn (fst (note_resolved r b)) = r_conn r"
  "p_current (r_presence (fst (note_resolved r b))) = p_current (r_presence r)"
  by (auto simp: note_resolved_def register_embodiment_Inr_iff Let_def split: sum.split)

lemma admit_body_conn: "r_conn (fst (admit_body reader r i)) = r_conn r"
  "p_current (r_presence (fst (admit_body reader r i))) = p_current (r_presence r)"
  by (simp_all add: admit_body_def note_resolved_conn split: sum.split prod.split)
    (metis note_resolved_conn fst_conv)+

lemma after_admit_cases:
  obtains e r1 where "after_admit reader r i f = (r1, Inl e)" and "r_conn r1 = r_conn r"
      and "p_current (r_presence r1) = p_current (r_presence r)"
  | r1 where "after_admit reader r i f = f r1" and "r_conn r1 = r_conn r"
      and "p_current (r_presence r1) = p_current (r_presence r)"
proof -
  obtain r1 res where a: "admit_body reader r i = (r1, res)" by fastforce
  then have "r_conn r1 = r_conn r" "p_current (r_presence r1) = p_current (r_presence r)"
    using admit_body_conn[of reader r i] by simp_all
  then show ?thesis
    using that a by (cases res) (simp_all add: after_admit_def)
qed

lemma checked_moves: "conn_moves (r_conn r) i (fst out) \<Longrightarrow> conn_moves (r_conn r) i (r_conn (fst (checked r i sid off out)))"
  using fst_checked[of r i sid off out] by auto

lemma register_moves: "conn_moves (r_conn r) i (r_conn (fst (register r i av now clock)))"
  by (simp add: register_def conn_moves_ops split: sum.split)

lemma session_submit_moves: "conn_moves (r_conn r) (tl_embodiment t) (r_conn (fst (session_submit r t sid now c1 c2)))"
proof -
  obtain r' res where r': "session_submit r t sid now c1 c2 = (r', res)" by fastforce
  from session_submit_state[OF r'] show ?thesis using r' conn_moves_ops(3) by auto
qed

lemma session_ops_moves:
  "conn_moves (r_conn r) i (r_conn (fst (session_update_capabilities r i av sid now clock)))"
  "conn_moves (r_conn r) i (r_conn (fst (session_heartbeat r i sid now clock)))"
  "conn_moves (r_conn r) i (r_conn (fst (session_disconnect r i sid now clock)))"
  unfolding session_update_capabilities_def session_heartbeat_def session_disconnect_def
  by (rule checked_moves, rule conn_moves_ops)+

lemma handle_conn_step: "conn_step (r_conn r) (r_conn (fst (handle r a)))"
proof -
  obtain reader now c1 c2 rq where a: "a = (reader, now, c1, c2, rq)" by (cases a) auto
  have lift: "conn_step (r_conn r) (r_conn (fst (after_admit reader r i f)))"
    if "\<And>q. conn_step (r_conn q) (r_conn (fst (f q)))" for i f
    by (rule after_admit_cases[of reader r i f]) (use that conn_step.stay in auto, metis that)
  have m: "conn_step (r_conn q) (r_conn (fst (session_submit_mapping q d sid now c1 c2)))" for q d sid
    using conn_moves_step[OF session_submit_moves]
    by (simp add: session_submit_mapping_def conn_step.stay split: sum.split)
  note steps = conn_moves_step[OF register_moves] conn_moves_step[OF session_ops_moves(1)]
    conn_moves_step[OF session_ops_moves(2)] conn_moves_step[OF session_ops_moves(3)] m
  show ?thesis
    unfolding a
    by (cases rq)
      (simp_all add: registration_connect_def registration_update_capabilities_def
        registration_heartbeat_def registration_disconnect_def registration_submit_def
        registration_view_def lift steps conn_step.stay split: pyval.split)
qed

text \<open>The number in a session identifier.\<close>

definition id_number :: "string \<Rightarrow> nat" where
  "id_number x = nat_of_digits (rev (takeWhile is_digit (rev x)))"

lemma id_number_session_name [simp]: "id_number (session_name inst n) = n"
proof -
  have "\<not> is_digit CHR '':''" by (simp add: is_digit_def code_pt_def)
  moreover have "\<And>c. c \<in> set (rev (show_nat n)) \<Longrightarrow> is_digit c" using is_digit_show_nat by simp
  ultimately have "takeWhile is_digit (rev (show_nat n) @ CHR '':'' # rest) = rev (show_nat n)" for rest
    by (subst takeWhile_append2) auto
  then show ?thesis by (simp add: id_number_def session_name_def)
qed

definition current_id :: "runtime \<Rightarrow> string \<Rightarrow> string option" where
  "current_id r i = map_option rs_id (map_of (sessions (r_conn r)) i)"

lemma conn_step_id_mono:
  assumes "conn_step k k'" and "conn_ok k" and "map_of (sessions k) i = Some s"
  shows "\<exists>t. map_of (sessions k') i = Some t \<and> (rs_id t = rs_id s \<or> id_number (rs_id s) < id_number (rs_id t))"
  using assms(1)
proof cases
  case stay
  with assms(3) show ?thesis by auto
next
  case (rewrite j u u')
  with assms(3) show ?thesis by (cases "i = j") (auto simp: store_simps)
next
  case (open_new u j)
  have "id_number (rs_id s) \<le> seqno k"
    using conn_okD(3)[OF assms(2,3)] by (auto simp: issued_def)
  with open_new assms(3) show ?thesis by (cases "i = j") (auto simp: store_simps)
qed

interpretation ids: monotone_register
  "\<lambda>r a. fst (handle r a)" current_id "\<lambda>x. int (id_number x)" "\<lambda>r. conn_ok (r_conn r)"
proof unfold_locales
  fix r :: runtime and a :: call
  assume ok: "conn_ok (r_conn r)"
  then show "conn_ok (r_conn (fst (handle r a)))" by (rule conn_step_ok[OF handle_conn_step])
  fix i v
  assume "current_id r i = Some v"
  then obtain s where s: "map_of (sessions (r_conn r)) i = Some s" "v = rs_id s"
    by (auto simp: current_id_def)
  from conn_step_id_mono[OF handle_conn_step ok s(1), of a] s(2)
  show "\<exists>w. current_id (fst (handle r a)) i = Some w \<and> (w = v \<or> int (id_number v) < int (id_number w))"
    by (auto simp: current_id_def)
qed

subsection \<open>Requests that fail\<close>

lemma view_total:
  assumes "require_known r i = Inr b"
  shows "\<exists>v. view r i change = Inr v"
proof -
  have "has_table ''embodiment'' i"
    using assms by (auto simp: require_known_def catalog_get_def bind_res_iff typed_id_Inr_iff
        split: sum.splits)
  then show ?thesis using assms by (simp add: view_def current_def typed_id_ok)
qed

lemma require_known_frame:
  "r_catalog r' = r_catalog r \<Longrightarrow> require_known r' i = require_known r i"
  by (simp add: require_known_def)

lemma connect_error: "snd (connect c k i av now clock) = Inl e \<Longrightarrow> fst (connect c k i av now clock) = k"
  by (auto simp: connect_def Let_def split: sum.splits)

lemma touch_error: "snd (touch k i now clock d av) = Inl e \<Longrightarrow> fst (touch k i now clock d av) = k"
  by (auto simp: touch_def Let_def split: sum.splits if_splits)

lemma conn_op_errors:
  "snd (connect c k i av now clock) = Inl e \<Longrightarrow> fst (connect c k i av now clock) = k"
  "snd (update_capabilities c k i av now clock) = Inl e \<Longrightarrow> fst (update_capabilities c k i av now clock) = k"
  "snd (heartbeat c k i now clock) = Inl e \<Longrightarrow> fst (heartbeat c k i now clock) = k"
  "snd (disconnect c k i now clock) = Inl e \<Longrightarrow> fst (disconnect c k i now clock) = k"
  by (auto simp: connect_def update_capabilities_def heartbeat_def disconnect_def Let_def
      dest: touch_error split: sum.splits if_splits)

lemma after_change_error:
  assumes "require_known r i = Inr b" and "snd (after_change r i out) = Inl e"
  shows "snd out = Inl e"
proof (cases "snd out")
  case (Inr ch)
  let ?r = "r\<lparr>r_conn := fst out\<rparr>"
  have "require_known ?r i = Inr b" using assms(1) require_known_frame[of ?r r] by simp
  then obtain v where "view ?r i (Some ch) = Inr v" using view_total by blast
  with Inr assms(2) show ?thesis by (simp add: after_change_def Let_def split: prod.splits)
qed (use assms(2) in \<open>simp add: after_change_def Let_def split: prod.splits\<close>)

definition no_effect :: "runtime \<Rightarrow> runtime \<Rightarrow> bool" where
  "no_effect r r' \<longleftrightarrow> r_conn r' = r_conn r \<and> p_current (r_presence r') = p_current (r_presence r)"

lemma after_change_no_effect:
  assumes "require_known r i = Inr b" and "snd (after_change r i out) = Inl e"
    and "\<And>e. snd out = Inl e \<Longrightarrow> fst out = r_conn r"
  shows "no_effect r (r\<lparr>r_conn := fst out\<rparr>)"
  using assms(3)[OF after_change_error[OF assms(1,2)]] by (simp add: no_effect_def)

lemma no_effect_refl [simp]: "no_effect r r"
  by (simp add: no_effect_def)

lemma register_error:
  "snd (register r i av now clock) = Inl e \<Longrightarrow> no_effect r (fst (register r i av now clock))"
  by (auto simp: register_def conn_op_errors intro: after_change_no_effect split: sum.splits)

lemma checked_error:
  assumes "snd (checked r i sid off out) = Inl e" and "\<And>e. snd out = Inl e \<Longrightarrow> fst out = r_conn r"
  shows "no_effect r (fst (checked r i sid off out))"
proof (cases "require_known r i")
  case (Inr b)
  show ?thesis
  proof (cases "require_current r i sid off")
    case (Inr u)
    with \<open>require_known r i = Inr b\<close> assms show ?thesis
      by (auto simp: checked_def intro: after_change_no_effect)
  qed (simp add: checked_def Inr)
qed (simp add: checked_def)

lemma session_op_errors:
  "snd (session_update_capabilities r i av sid now clock) = Inl e \<Longrightarrow>
     no_effect r (fst (session_update_capabilities r i av sid now clock))"
  "snd (session_heartbeat r i sid now clock) = Inl e \<Longrightarrow>
     no_effect r (fst (session_heartbeat r i sid now clock))"
  "snd (session_disconnect r i sid now clock) = Inl e \<Longrightarrow>
     no_effect r (fst (session_disconnect r i sid now clock))"
  unfolding session_update_capabilities_def session_heartbeat_def session_disconnect_def
  by (auto intro: checked_error conn_op_errors)

text \<open>Once a sample was admitted, the heartbeat that follows cannot fail.\<close>

lemma submit_Inr_observed:
  "submit p t now clock = (p', Inr a) \<Longrightarrow> \<exists>obs. observed now clock' = Inr obs"
  by (cases now) (auto simp: submit_def observed_def split: sum.splits)

lemma require_current_Inr_iff:
  "require_current r i sid off = Inr () \<longleftrightarrow> has_table ''embodiment'' i \<and>
     (\<exists>s. map_of (sessions (r_conn r)) i = Some s \<and> (rs_online s \<or> off) \<and> sid = Some (rs_id s))"
  by (cases "has_table ''embodiment'' i"; cases "map_of (sessions (r_conn r)) i")
    (auto simp: require_current_def current_def typed_id_ok typed_id_bad bind_res_iff)

lemma heartbeat_after_submit:
  assumes "require_known r i = Inr b" and "require_current r i sid False = Inr ()"
    and "observed now clock = Inr obs"
  shows "\<exists>ch. snd (heartbeat (r_catalog r) (r_conn r) i now clock) = Inr ch"
proof -
  have g: "catalog_get (r_catalog r) i = Inr b"
    using assms(1) by (auto simp: require_known_def split: sum.splits)
  obtain s where "map_of (sessions (r_conn r)) i = Some s" "rs_online s"
    using assms(2) by (auto simp: require_current_Inr_iff)
  then show ?thesis
    using g assms(3) by (simp add: heartbeat_def touch_def require_session_def Let_def)
qed

lemma submit_error_samples:
  assumes "presence_ok p" and "snd (submit p t now clock) = Inl e"
  shows "fst (submit p t now clock) = p"
proof (rule submit_cases[of p t now clock])
  fix obs
  assume "submit p t now clock = (p\<lparr>p_current := AList.update (tl_embodiment t) t (p_current p)\<rparr>,
         bind_res (presence_state (p\<lparr>p_current := AList.update (tl_embodiment t) t (p_current p)\<rparr>)
            (tl_embodiment t) (Some t) obs)
           (\<lambda>st. Inr \<lparr>ad_disposition = Accepted, ad_state = st\<rparr>))"
  with assms presence_state_total[of "p\<lparr>p_current := AList.update (tl_embodiment t) t (p_current p)\<rparr>"
      "tl_embodiment t" "Some t" obs]
  show ?thesis by (auto simp: presence_ok_def)
qed auto

lemma session_submit_error:
  assumes "runtime_ok r" and "snd (session_submit r t sid now c1 c2) = Inl e"
  shows "no_effect r (fst (session_submit r t sid now c1 c2))"
proof -
  let ?i = "tl_embodiment t" and ?sub = "submit (r_presence r) t now c1"
  consider (rejected) e where "bind_res (require_known r ?i) (\<lambda>_. require_current r ?i sid False) = Inl e"
    | (current) b where "require_known r ?i = Inr b" "require_current r ?i sid False = Inr ()"
    by (cases "require_known r ?i"; cases "require_current r ?i sid False") auto
  then show ?thesis
  proof cases
    case rejected
    then show ?thesis by (simp add: session_submit_def Let_def)
  next
    case current
    have ok: "presence_ok (r_presence r)" using assms(1) by (simp add: runtime_ok_def)
    show ?thesis
    proof (cases "snd ?sub")
      case (Inl e')
      then have "?sub = (r_presence r, Inl e')" using submit_error_samples[OF ok] by (metis prod.collapse)
      with current show ?thesis by (simp add: session_submit_def Let_def no_effect_def)
    next
      case (Inr a)
      then obtain p where sub: "?sub = (p, Inr a)" by (metis prod.collapse)
      then obtain obs where "observed now c2 = Inr obs" using submit_Inr_observed by blast
      then obtain ch where "snd (heartbeat (r_catalog r) (r_conn r) ?i now c2) = Inr ch"
        using heartbeat_after_submit[OF current] by blast
      then obtain k where hb: "heartbeat (r_catalog r) (r_conn r) ?i now c2 = (k, Inr ch)"
        by (metis prod.collapse)
      have "require_known (r\<lparr>r_presence := p\<rparr>\<lparr>r_conn := k\<rparr>) ?i = Inr b"
        using current(1) require_known_frame[of "r\<lparr>r_presence := p\<rparr>\<lparr>r_conn := k\<rparr>" r] by simp
      then obtain v where "view (r\<lparr>r_presence := p\<rparr>\<lparr>r_conn := k\<rparr>) ?i None = Inr v"
        using view_total by blast
      then have "session_submit r t sid now c1 c2 = (r\<lparr>r_presence := p\<rparr>\<lparr>r_conn := k\<rparr>,
          Inr (VDict [(''telemetry'', admission_as_mapping a), (''presence'', v)]))"
        using current hb by (simp add: session_submit_def Let_def sub)
      with assms(2) show ?thesis by simp
    qed
  qed
qed

section \<open>Properties of the session protocol\<close>

text \<open>The body and the credential a request presents, for the requests that need a credential.\<close>

fun credential :: "request \<Rightarrow> (string \<times> string option) option" where
  "credential (RqUpdate i av sid) = Some (i, sid)"
| "credential (RqHeartbeat i sid) = Some (i, sid)"
| "credential (RqDisconnect i sid) = Some (i, sid)"
| "credential (RqTelemetry d sid) =
     (case get_or_None d ''embodiment_id'' of VStr i \<Rightarrow> Some (i, sid) | _ \<Rightarrow> None)"
| "credential _ = None"

definition current_session :: "runtime \<Rightarrow> string \<Rightarrow> runtime_session option" where
  "current_session r i = map_of (sessions (r_conn r)) i"

definition session_errors :: "exn set" where
  "session_errors = {SessionProtocolError ''stale_session'', SessionProtocolError ''session_offline''}"

lemma require_current_Inl:
  assumes "has_table ''embodiment'' i" and "\<forall>s. current_session r i = Some s \<longrightarrow> sid \<noteq> Some (rs_id s)"
  shows "\<exists>e \<in> session_errors. require_current r i sid off = Inl e"
  using assms
  by (cases "map_of (sessions (r_conn r)) i")
    (auto simp: require_current_def current_def typed_id_ok session_errors_def current_session_def)

lemma parsed_embodiment:
  "physical_telemetry_from_mapping (VDict d) = Inr t \<Longrightarrow> get_or_None d ''embodiment_id'' = VStr (tl_embodiment t)"
  by (auto simp: physical_telemetry_from_mapping_def mk_physical_telemetry_def object_fields_def
      bind_res_iff typed_id_val_Inr_iff item_def split: if_splits)

text \<open>The request carries the identifier of no session that admits it.\<close>

lemma refused_request:
  assumes "identity_reader reader" and "credential rq = Some (i, sid)" and "reader i = Inr b"
    and rc: "\<And>off. (off \<longrightarrow> rq = RqDisconnect i sid) \<Longrightarrow> \<exists>e \<in> session_errors. require_current (resolved r b) i sid off = Inl e"
  shows "no_effect r (fst (handle r (reader, now, c1, c2, rq)))
    \<and> (\<exists>e. snd (handle r (reader, now, c1, c2, rq)) = Inl e
         \<and> (e \<in> session_errors
            \<or> (\<exists>d. rq = RqTelemetry d sid \<and> physical_telemetry_from_mapping (VDict d) = Inl e)))"
proof -
  let ?r = "resolved r b"
  note rd = identity_reader.after_admit_eq[OF assms(1)] identity_reader.require_known_resolved[OF assms(1,3)]
  obtain e where e: "e \<in> session_errors" "require_current ?r i sid False = Inl e" using rc[of False] by blast
  have ne: "no_effect r ?r" by (simp add: no_effect_def)
  show ?thesis
  proof (cases rq)
    case (RqUpdate j av s)
    with e rd(2) ne assms(2,3) show ?thesis
      by (auto simp: registration_update_capabilities_def rd(1) session_update_capabilities_def checked_def)
  next
    case (RqHeartbeat j s)
    with e rd(2) ne assms(2,3) show ?thesis
      by (auto simp: registration_heartbeat_def rd(1) session_heartbeat_def checked_def)
  next
    case (RqDisconnect j s)
    then obtain e' where "e' \<in> session_errors" "require_current ?r i sid True = Inl e'" using rc[of True] assms(2) by auto
    with RqDisconnect rd(2) ne assms(2,3) show ?thesis
      by (auto simp: registration_disconnect_def rd(1) session_disconnect_def checked_def)
  next
    case (RqTelemetry d s)
    then have d: "get_or_None d ''embodiment_id'' = VStr i" "s = sid"
      using assms(2) by (auto split: pyval.splits)
    show ?thesis
    proof (cases "physical_telemetry_from_mapping (VDict d)")
      case (Inl e)
      with RqTelemetry d ne assms(3) show ?thesis
        by (simp add: registration_submit_def rd(1) session_submit_mapping_def)
    next
      case (Inr t)
      then have "tl_embodiment t = i" using parsed_embodiment[OF Inr] d(1) by simp
      with e rd(2) Inr RqTelemetry d ne assms(3) show ?thesis
        by (auto simp: registration_submit_def rd(1) session_submit_mapping_def session_submit_def Let_def)
    qed
  qed (use assms(2) in simp_all)
qed

text \<open>C1: a request that presents anything but the identifier of the body's current session is
  refused. The session table and every stored sample stay as they were, whatever the request
  carries; the error is one of the two session errors unless the sample itself does not parse.\<close>

theorem stale_credential_refused:
  assumes "identity_reader reader" and "credential rq = Some (i, sid)" and "reader i = Inr b"
    and "\<forall>s. current_session r i = Some s \<longrightarrow> sid \<noteq> Some (rs_id s)"
  shows "no_effect r (fst (handle r (reader, now, c1, c2, rq)))
    \<and> (\<exists>e. snd (handle r (reader, now, c1, c2, rq)) = Inl e
         \<and> (e \<in> session_errors
            \<or> (\<exists>d. rq = RqTelemetry d sid \<and> physical_telemetry_from_mapping (VDict d) = Inl e)))"
proof (rule refused_request[OF assms(1-3)])
  have ht: "has_table ''embodiment'' i" by (rule identity_reader.read_table[OF assms(1,3)])
  show "\<exists>e \<in> session_errors. require_current (resolved r b) i sid off = Inl e" for off
    using require_current_Inl[OF ht, of "resolved r b" sid off] assms(4) by (simp add: current_session_def)
qed


subsection \<open>A small installation for the witnesses\<close>

definition lamp_body :: embodiment where
  "lamp_body = \<lparr>emb_id = ''embodiment:lamp'', emb_name = ''Lamp'', geometry = None, local_frame = None,
     agent_id = Some ''agent:steward'', capabilities = [''camera.look'', ''speech.say''],
     embodiment_type = ''lamp''\<rparr>"

definition lamp_reader :: reader where
  "lamp_reader i = (if i = ''embodiment:lamp'' then Inr lamp_body else Inl SpatialContractError)"

definition lamp_session :: "nat \<Rightarrow> bool \<Rightarrow> runtime_session" where
  "lamp_session n on = \<lparr>rs_embodiment = ''embodiment:lamp'', rs_id = session_name ''a1'' n,
     rs_online = on, rs_connected_at = 0, rs_last_seen = 0,
     rs_available = (if on then {''speech.say''} else {})\<rparr>"

definition lamp_runtime :: "nat \<Rightarrow> runtime_session dict \<Rightarrow> runtime" where
  "lamp_runtime n ses =
     \<lparr>r_catalog = \<lparr>known_agent_ids = {''agent:steward''}, bodies = [(''embodiment:lamp'', lamp_body)]\<rparr>,
      r_conn = \<lparr>sessions = ses, seqno = n, instance_id = ''a1''\<rparr>,
      r_presence = \<lparr>stale_after_s = 5, p_embodiments = {''embodiment:lamp''}, p_spaces = {''space:hall''},
        p_current = []\<rparr>\<rparr>"

lemma lamp_ids [simp]: "has_table ''agent'' ''agent:steward''"
  by (simp_all add: has_table_def split_record_id_def match_record_id_def table_name_def record_key_def
      table_start_def table_char_def key_char_def char_class_defs code_pt_def)

lemma lamp_body_wf: "wf_embodiment lamp_body"
  by (simp add: wf_embodiment_def lamp_body_def type_name_def capability_name_def strip_def lstrip_def
      rstrip_def char_class_defs code_pt_def is_space_def) 

lemma lamp_identity_reader: "identity_reader lamp_reader"
  by unfold_locales (auto simp: lamp_reader_def lamp_body_wf split: if_splits, simp add: lamp_body_def)

theorem stale_credential_refused_witness:
  "no_effect (lamp_runtime 2 [(''embodiment:lamp'', lamp_session 2 True)])
     (fst (handle (lamp_runtime 2 [(''embodiment:lamp'', lamp_session 2 True)])
        (lamp_reader, None, 5, 6, RqHeartbeat ''embodiment:lamp'' (Some (session_name ''a1'' 1)))))"
  using stale_credential_refused[OF lamp_identity_reader, of
      "RqHeartbeat ''embodiment:lamp'' (Some (session_name ''a1'' 1))" "''embodiment:lamp''"
      "Some (session_name ''a1'' 1)" lamp_body
      "lamp_runtime 2 [(''embodiment:lamp'', lamp_session 2 True)]" None 5 6]
  by (simp add: lamp_reader_def lamp_runtime_def current_session_def lamp_session_def)

subsection \<open>Session identifiers\<close>

definition serve :: "runtime \<Rightarrow> call list \<Rightarrow> runtime" where
  "serve r calls = foldl (\<lambda>r a. fst (handle r a)) r calls"

text \<open>C7: once the current session of a body has another identifier, the old one never becomes current
  again, whatever requests follow, so a credential that was replaced stays refused.\<close>

theorem session_id_never_returns:
  assumes "conn_ok (r_conn r)" and "current_id r i = Some v"
    and "current_id (serve r as) i = Some w" and "w \<noteq> v"
  shows "current_id (serve r (as @ bs)) i \<noteq> Some v"
  using ids.no_return[OF assms(1,2) assms(3,4)[unfolded serve_def]] by (simp add: serve_def)

lemma lamp_runtime_ok: "runtime_ok (lamp_runtime 0 [])"
  by (simp add: runtime_ok_def lamp_runtime_def conn_ok_def presence_ok_def lamp_body_wf)
    (simp add: lamp_body_def)

lemma lamp_session_ok: "conn_ok (r_conn (lamp_runtime 1 [(''embodiment:lamp'', lamp_session 1 True)]))"
proof -
  have "issued \<lparr>sessions = ses, seqno = 1, instance_id = ''a1''\<rparr> (lamp_session 1 True)" for ses
    by (auto simp: issued_def lamp_session_def)
  then show ?thesis by (auto simp: conn_ok_def lamp_runtime_def) (simp_all add: lamp_session_def)
qed

theorem session_id_never_returns_witness:
  "current_id (serve (lamp_runtime 1 [(''embodiment:lamp'', lamp_session 1 True)])
      ([(lamp_reader, None, 5, 6, RqConnect ''embodiment:lamp'' VNone)]
       @ [(lamp_reader, None, 7, 8, RqConnect ''embodiment:lamp'' VNone)])) ''embodiment:lamp''
   \<noteq> Some (session_name ''a1'' 1)"
proof (rule session_id_never_returns[where w = "session_name ''a1'' 2"])
  show "conn_ok (r_conn (lamp_runtime 1 [(''embodiment:lamp'', lamp_session 1 True)]))" by (rule lamp_session_ok)
  show "current_id (lamp_runtime 1 [(''embodiment:lamp'', lamp_session 1 True)]) ''embodiment:lamp''
      = Some (session_name ''a1'' 1)"
    by (simp add: current_id_def lamp_runtime_def lamp_session_def)
  show "current_id (serve (lamp_runtime 1 [(''embodiment:lamp'', lamp_session 1 True)])
      [(lamp_reader, None, 5, 6, RqConnect ''embodiment:lamp'' VNone)]) ''embodiment:lamp''
      = Some (session_name ''a1'' 2)"
    by (simp add: serve_def registration_connect_def
        identity_reader.after_admit_eq[OF lamp_identity_reader] lamp_reader_def register_def
        require_known_def catalog_get_def resolved_def lamp_runtime_def lamp_body_def typed_id_ok
        connect_def capability_subset_def observed_def Let_def current_id_def numeral_2_eq_2)
qed simp

subsection \<open>What reaches the samples\<close>

definition sample_of :: "runtime \<Rightarrow> string \<Rightarrow> physical_telemetry option" where
  "sample_of r i = map_of (p_current (r_presence r)) i"

lemma ops_samples:
  "r_presence (fst (register r i av now c)) = r_presence r"
  "r_presence (fst (session_update_capabilities r i av sid now c)) = r_presence r"
  "r_presence (fst (session_heartbeat r i sid now c)) = r_presence r"
  "r_presence (fst (session_disconnect r i sid now c)) = r_presence r"
  by (auto simp: register_def session_update_capabilities_def session_heartbeat_def
      session_disconnect_def checked_def split: sum.split)

lemma session_submit_samples:
  assumes "sample_of (fst (session_submit r t sid now c1 c2)) k \<noteq> sample_of r k"
  shows "k = tl_embodiment t \<and> sample_of (fst (session_submit r t sid now c1 c2)) k = Some t
    \<and> (\<exists>s. current_session r k = Some s \<and> rs_online s \<and> sid = Some (rs_id s))"
proof -
  obtain r' res where r': "session_submit r t sid now c1 c2 = (r', res)" by fastforce
  from session_submit_state[OF r'] assms r'
  have h: "require_current r (tl_embodiment t) sid False = Inr ()"
    and p: "r_presence r' = fst (submit (r_presence r) t now c1)" by auto
  have "sample_of r' k \<noteq> sample_of r k" using assms r' by simp
  then have "k = tl_embodiment t \<and> sample_of r' k = Some t"
    unfolding sample_of_def p
    using submit_current[of "r_presence r" t now c1]
    by (auto simp: dict_lookup split: if_splits)
  with h r' show ?thesis by (auto simp: require_current_Inr_iff current_session_def)
qed

text \<open>C2: a stored sample changes only through a telemetry request for that body that presents the
  identifier of its current, online session, and what is then stored is the sample of the request.\<close>

theorem sample_needs_current_session:
  assumes "sample_of (fst (handle r (reader, now, c1, c2, rq))) k \<noteq> sample_of r k"
  shows "\<exists>d sid t s. rq = RqTelemetry d sid \<and> physical_telemetry_from_mapping (VDict d) = Inr t
    \<and> tl_embodiment t = k \<and> sample_of (fst (handle r (reader, now, c1, c2, rq))) k = Some t
    \<and> current_session r k = Some s \<and> rs_online s \<and> sid = Some (rs_id s)"
proof (cases rq)
  case (RqTelemetry d sid)
  then obtain i where i: "get_or_None d ''embodiment_id'' = VStr i"
    and h: "fst (handle r (reader, now, c1, c2, rq))
      = fst (after_admit reader r i (\<lambda>r. session_submit_mapping r (VDict d) sid now c1 c2))"
    using assms by (auto simp: registration_submit_def split: pyval.splits)
  show ?thesis
  proof (rule after_admit_cases[of reader r i "\<lambda>r. session_submit_mapping r (VDict d) sid now c1 c2"])
    fix e r1
    assume "after_admit reader r i (\<lambda>r. session_submit_mapping r (VDict d) sid now c1 c2) = (r1, Inl e)"
      "p_current (r_presence r1) = p_current (r_presence r)"
    with assms h show ?thesis by (simp add: sample_of_def)
  next
    fix r1
    assume a: "after_admit reader r i (\<lambda>r. session_submit_mapping r (VDict d) sid now c1 c2)
        = session_submit_mapping r1 (VDict d) sid now c1 c2"
      and c: "r_conn r1 = r_conn r" and p: "p_current (r_presence r1) = p_current (r_presence r)"
    then have ne: "sample_of (fst (session_submit_mapping r1 (VDict d) sid now c1 c2)) k \<noteq> sample_of r1 k"
      using assms h by (simp add: sample_of_def)
    then obtain t where t: "physical_telemetry_from_mapping (VDict d) = Inr t"
      "session_submit_mapping r1 (VDict d) sid now c1 c2 = session_submit r1 t sid now c1 c2"
      by (auto simp: session_submit_mapping_def split: sum.splits)
    from session_submit_samples[of r1 t sid now c1 c2 k] ne t a h c RqTelemetry show ?thesis
      by (auto simp: current_session_def)
  qed
next
  case (RqConnect i av)
  with assms show ?thesis
    by (auto simp: registration_connect_def sample_of_def ops_samples
        intro: after_admit_cases[of reader r i "\<lambda>r. register r i av now c1"])
next
  case (RqUpdate i av sid)
  with assms show ?thesis
    by (auto simp: registration_update_capabilities_def sample_of_def ops_samples
        intro: after_admit_cases[of reader r i "\<lambda>r. session_update_capabilities r i av sid now c1"])
next
  case (RqHeartbeat i sid)
  with assms show ?thesis
    by (auto simp: registration_heartbeat_def sample_of_def ops_samples
        intro: after_admit_cases[of reader r i "\<lambda>r. session_heartbeat r i sid now c1"])
next
  case (RqDisconnect i sid)
  with assms show ?thesis
    by (auto simp: registration_disconnect_def sample_of_def ops_samples
        intro: after_admit_cases[of reader r i "\<lambda>r. session_disconnect r i sid now c1"])
next
  case (RqView i)
  with assms show ?thesis
    by (auto simp: registration_view_def sample_of_def
        intro: after_admit_cases[of reader r i "\<lambda>r. (r, view r i None)"])
qed


definition lamp_sample :: "physical_telemetry" where
  "lamp_sample = \<lparr>tl_embodiment = ''embodiment:lamp'', tl_space = None, tl_measured = 63902995200000000,
     tl_validity = NoEstimate, tl_transform = None\<rparr>"

definition lamp_document :: "(string \<times> pyval) list" where
  "lamp_document = [(''embodiment_id'', VStr ''embodiment:lamp''), (''space_id'', VNone),
     (''measured_at'', VStr ''2026-01-02T00:00:00Z''), (''validity'', VStr ''no_estimate''),
     (''transform'', VNone)]"

lemma lamp_document_parses: "physical_telemetry_from_mapping (VDict lamp_document) = Inr lamp_sample"
  by code_simp


lemma lamp_document_id: "get_or_None lamp_document ''embodiment_id'' = VStr ''embodiment:lamp''"
  by (simp add: lamp_document_def get_or_None_def)

theorem sample_needs_current_session_witness:
  "\<exists>d sid t s. RqTelemetry lamp_document (Some (session_name ''a1'' 1)) = RqTelemetry d sid
    \<and> physical_telemetry_from_mapping (VDict d) = Inr t \<and> tl_embodiment t = ''embodiment:lamp''
    \<and> sample_of (fst (handle (lamp_runtime 1 [(''embodiment:lamp'', lamp_session 1 True)])
        (lamp_reader, None, 5, 6, RqTelemetry lamp_document (Some (session_name ''a1'' 1)))))
          ''embodiment:lamp'' = Some t
    \<and> current_session (lamp_runtime 1 [(''embodiment:lamp'', lamp_session 1 True)]) ''embodiment:lamp'' = Some s
    \<and> rs_online s \<and> sid = Some (rs_id s)"
proof (rule sample_needs_current_session)
  let ?r = "lamp_runtime 1 [(''embodiment:lamp'', lamp_session 1 True)]"
  have "sample_of (fst (handle ?r
      (lamp_reader, None, 5, 6, RqTelemetry lamp_document (Some (session_name ''a1'' 1)))))
      ''embodiment:lamp'' = Some lamp_sample"
    by (simp add: registration_submit_def lamp_document_parses session_submit_mapping_def
        identity_reader.after_admit_eq[OF lamp_identity_reader] lamp_document_id)
      (simp add: lamp_reader_def session_submit_def lamp_sample_def
        require_known_def catalog_get_def resolved_def lamp_runtime_def lamp_body_def typed_id_ok
        require_current_def current_def lamp_session_def submit_def observed_def require_embodiment_def
        admit_def Let_def heartbeat_def touch_def require_session_def sample_of_def
        presence_state_def derive_telemetry_status_def mk_status_def split: prod.split sum.split)
  then show "sample_of (fst (handle ?r
      (lamp_reader, None, 5, 6, RqTelemetry lamp_document (Some (session_name ''a1'' 1)))))
      ''embodiment:lamp'' \<noteq> sample_of ?r ''embodiment:lamp''"
    by (simp add: sample_of_def lamp_runtime_def)
qed

subsection \<open>Failing, connecting and disconnecting\<close>

lemma no_effect_trans: "no_effect r r1 \<Longrightarrow> no_effect r1 r2 \<Longrightarrow> no_effect r r2"
  by (simp add: no_effect_def)

lemma after_admit_error:
  assumes "identity_reader reader" and "runtime_ok r"
    and "\<And>q e. runtime_ok q \<Longrightarrow> snd (f q) = Inl e \<Longrightarrow> no_effect q (fst (f q))"
    and "snd (after_admit reader r i f) = Inl e"
  shows "no_effect r (fst (after_admit reader r i f))"
proof (cases "reader i")
  case (Inr b)
  have ok: "runtime_ok (resolved r b)"
    using resolved_ok[OF assms(2)] identity_reader.read_wf[OF assms(1) Inr] by simp
  have "no_effect r (resolved r b)" by (simp add: no_effect_def)
  with assms(3)[OF ok] assms(4) Inr show ?thesis
    by (auto simp: identity_reader.after_admit_eq[OF assms(1)] intro: no_effect_trans)
qed (simp add: identity_reader.after_admit_eq[OF assms(1)])

lemma submit_mapping_error:
  "runtime_ok r \<Longrightarrow> snd (session_submit_mapping r d sid now c1 c2) = Inl e \<Longrightarrow>
     no_effect r (fst (session_submit_mapping r d sid now c1 c2))"
  by (auto simp: session_submit_mapping_def intro: session_submit_error split: sum.splits)

text \<open>C6: a request that returns an error leaves the session table and the stored samples as they
  were; what a failed request may leave behind is only the body it resolved.\<close>

theorem failed_request_has_no_effect:
  assumes "identity_reader reader" and "runtime_ok r"
    and "snd (handle r (reader, now, c1, c2, rq)) = Inl e"
  shows "no_effect r (fst (handle r (reader, now, c1, c2, rq)))"
proof (cases rq)
  case (RqConnect i av)
  with assms(3) show ?thesis
    by (auto simp: registration_connect_def intro!: after_admit_error[OF assms(1,2)] register_error)
next
  case (RqUpdate i av sid)
  with assms(3) show ?thesis
    by (auto simp: registration_update_capabilities_def
        intro!: after_admit_error[OF assms(1,2)] session_op_errors)
next
  case (RqHeartbeat i sid)
  with assms(3) show ?thesis
    by (auto simp: registration_heartbeat_def intro!: after_admit_error[OF assms(1,2)] session_op_errors)
next
  case (RqDisconnect i sid)
  with assms(3) show ?thesis
    by (auto simp: registration_disconnect_def intro!: after_admit_error[OF assms(1,2)] session_op_errors)
next
  case (RqTelemetry d sid)
  show ?thesis
  proof (cases "\<exists>i. get_or_None d ''embodiment_id'' = VStr i")
    case True
    then obtain i where i: "get_or_None d ''embodiment_id'' = VStr i" by blast
    from assms(3) have "snd (after_admit reader r i
        (\<lambda>r. session_submit_mapping r (VDict d) sid now c1 c2)) = Inl e"
      by (simp add: RqTelemetry registration_submit_def i)
    from after_admit_error[OF assms(1,2) submit_mapping_error this] show ?thesis
      by (simp add: RqTelemetry registration_submit_def i)
  next
    case False
    then show ?thesis by (simp add: RqTelemetry registration_submit_def split: pyval.split)
  qed
next
  case (RqView i)
  with assms(3) show ?thesis
    by (auto simp: registration_view_def intro!: after_admit_error[OF assms(1,2)])
qed

theorem failed_request_has_no_effect_witness:
  "no_effect (lamp_runtime 0 []) (fst (handle (lamp_runtime 0 [])
     (lamp_reader, None, 5, 6, RqTelemetry [] None)))"
  by (rule failed_request_has_no_effect[OF lamp_identity_reader lamp_runtime_ok])
    (simp add: registration_submit_def get_or_None_def)

definition change_reply :: "embodiment \<Rightarrow> runtime_session \<Rightarrow> string \<Rightarrow> pyval" where
  "change_reply b s what =
     VDict [(''embodiment_id'', VStr (emb_id b)), (''agent_id'', opt_str (agent_id b)),
       (''configured_capabilities'', VList (map VStr (capabilities b))),
       (''session'', session_mapping (Some s)), (''disposition'', VStr what)]"

lemma after_change_Inr:
  assumes "require_known r i = Inr b" and "has_table ''embodiment'' i"
    and "map_of (sessions k) i = Some s" and "ch_disposition ch = what"
  shows "after_change r i (k, Inr ch) = (r\<lparr>r_conn := k\<rparr>, Inr (change_reply b s what))"
  using assms require_known_frame[of "r\<lparr>r_conn := k\<rparr>" r i]
  by (simp add: after_change_def Let_def view_def current_def typed_id_ok change_reply_def)

text \<open>C5: Connecting a stored body opens a session under the next number of this runtime, online, with
  exactly the advertised subset of the configured capabilities; the reply says whether an online
  session was replaced, and the sessions of the other bodies stay.\<close>

theorem connect_opens_session:
  assumes "identity_reader reader" and "reader i = Inr b"
    and "capability_subset b av = Inr act" and "observed now c1 = Inr obs"
  shows "\<exists>s r'. handle r (reader, now, c1, c2, RqConnect i av) = (r', Inr (change_reply b s
        (if \<exists>p. current_session r i = Some p \<and> rs_online p then ''replaced'' else ''connected'')))
    \<and> current_session r' i = Some s \<and> rs_online s \<and> rs_available s = act
    \<and> rs_id s = session_name (instance_id (r_conn r)) (Suc (seqno (r_conn r)))
    \<and> rs_connected_at s = obs \<and> rs_last_seen s = obs
    \<and> (\<forall>j. j \<noteq> i \<longrightarrow> current_session r' j = current_session r j)"
proof -
  let ?s = "\<lparr>rs_embodiment = i, rs_id = session_name (instance_id (r_conn r)) (Suc (seqno (r_conn r))),
      rs_online = True, rs_connected_at = obs, rs_last_seen = obs, rs_available = act\<rparr>"
  let ?k = "put_session ((r_conn r)\<lparr>seqno := Suc (seqno (r_conn r))\<rparr>) i ?s"
  have known: "require_known (resolved r b) i = Inr b"
    by (rule identity_reader.require_known_resolved[OF assms(1,2)])
  have ht: "has_table ''embodiment'' i" by (rule identity_reader.read_table[OF assms(1,2)])
  have get: "catalog_get (r_catalog (resolved r b)) i = Inr b"
    using known by (auto simp: require_known_def split: sum.splits)
  have "handle r (reader, now, c1, c2, RqConnect i av) = ((resolved r b)\<lparr>r_conn := ?k\<rparr>,
      Inr (change_reply b ?s
        (if \<exists>p. current_session r i = Some p \<and> rs_online p then ''replaced'' else ''connected'')))"
    using assms(2-4) after_change_Inr[OF known ht, of ?k ?s]
    by (auto simp: registration_connect_def identity_reader.after_admit_eq[OF assms(1)] register_def
        known connect_def get Let_def current_session_def store_simps)
  then show ?thesis by (auto simp: current_session_def store_simps)
qed

theorem connect_opens_session_witness:
  "\<exists>s r'. handle (lamp_runtime 0 []) (lamp_reader, None, 5, 6, RqConnect ''embodiment:lamp'' VNone)
       = (r', Inr (change_reply lamp_body s (if \<exists>p. current_session (lamp_runtime 0 [])
            ''embodiment:lamp'' = Some p \<and> rs_online p then ''replaced'' else ''connected'')))
    \<and> current_session r' ''embodiment:lamp'' = Some s \<and> rs_online s
    \<and> rs_available s = {''camera.look'', ''speech.say''} \<and> rs_id s = session_name ''a1'' 1"
proof -
  have "lamp_reader ''embodiment:lamp'' = Inr lamp_body" by (simp add: lamp_reader_def)
  moreover have "capability_subset lamp_body VNone = Inr {''camera.look'', ''speech.say''}"
    by (simp add: capability_subset_def lamp_body_def)
  moreover have "observed None 5 = Inr 5" by (simp add: observed_def)
  ultimately show ?thesis
    using connect_opens_session[OF lamp_identity_reader, of "''embodiment:lamp''" lamp_body VNone
        "{''camera.look'', ''speech.say''}" None 5 5 "lamp_runtime 0 []" 6]
    by (auto simp: lamp_runtime_def)
qed











text \<open>A physical action is available to an agent exactly when the stored body is linked to that
  agent, its session is online, and the capability is both configured and advertised; otherwise the
  code names the first of these that fails, and nothing but the reader's own failure is an error.\<close>

theorem action_availability_exact:
  assumes "reader i = Inr b" and "emb_id b = i" and "has_table ''embodiment'' i"
  shows "action_availability reader r agent i cap = Inr
    \<lparr>av_available = (agent_id b = Some agent \<and> cap \<in> set (capabilities b)
        \<and> (\<exists>s. current_session r i = Some s \<and> rs_online s \<and> cap \<in> rs_available s)),
     av_code = (if agent_id b \<noteq> Some agent then ''embodiment_not_linked''
       else if \<not> (\<exists>s. current_session r i = Some s \<and> rs_online s) then ''embodiment_offline''
       else if cap \<notin> set (capabilities b) then ''unsupported_capability''
       else if \<not> (\<exists>s. current_session r i = Some s \<and> cap \<in> rs_available s)
       then ''capability_unavailable'' else ''available''),
     av_embodiment = i, av_agent = agent, av_capability = cap\<rparr>"
  using assms
  by (auto simp: action_availability_def action_code_def is_connected_def active_capabilities_def
      current_def typed_id_ok current_session_def split: option.splits)

theorem action_availability_exact_witness:
  "\<exists>a. action_availability lamp_reader (lamp_runtime 1 [(''embodiment:lamp'', lamp_session 1 True)])
     ''agent:steward'' ''embodiment:lamp'' ''speech.say'' = Inr a \<and> av_available a"
  using action_availability_exact[of lamp_reader "''embodiment:lamp''" lamp_body
      "lamp_runtime 1 [(''embodiment:lamp'', lamp_session 1 True)]" "''agent:steward''" "''speech.say''"]
  by (simp add: lamp_reader_def lamp_body_def current_session_def lamp_runtime_def lamp_session_def)

subsection \<open>Every reachable runtime\<close>

lemma add_bodies_ok:
  assumes "fold_res (add_body agents) bs recs = Inr recs'"
    and "\<forall>b \<in> set bs. wf_embodiment b"
    and "\<And>i b. map_of recs i = Some b \<Longrightarrow> emb_id b = i \<and> wf_embodiment b"
    and "map_of recs' i = Some b"
  shows "emb_id b = i \<and> wf_embodiment b"
  using assms
proof (induction bs arbitrary: recs)
  case (Cons x bs)
  from Cons.prems(1) obtain m
    where m: "add_body agents recs x = Inr m" "fold_res (add_body agents) bs m = Inr recs'"
    by (auto simp: bind_res_iff simp del: add_body.simps)
  have "m = AList.update (emb_id x) x recs" using m(1) by (simp split: if_splits)
  then have "\<And>i b. map_of m i = Some b \<Longrightarrow> emb_id b = i \<and> wf_embodiment b"
    using Cons.prems(2,3) by (auto simp: store_simps split: if_splits)
  from Cons.IH[OF m(2) _ this] Cons.prems(2,4) show ?case by simp
qed simp

text \<open>C3: in every runtime that requests reach from the one the application opens, a session belongs to
  the body it is filed under, an offline session advertises nothing, every identifier was issued by
  this runtime, no two bodies share one, and every stored sample is well formed and belongs to a
  registered body.\<close>

theorem reachable_runtime_invariant:
  assumes "new_catalog bs agents = Inr c" and "\<forall>b \<in> set bs. wf_embodiment b"
    and "open_runtime c inst spaces window = Inr r0" and "reachable r0 r"
    and "current_session r i = Some s"
  shows "rs_embodiment s = i \<and> (\<not> rs_online s \<longrightarrow> rs_available s = {}) \<and> issued (r_conn r) s
    \<and> (\<forall>j t. current_session r j = Some t \<longrightarrow> rs_id t = rs_id s \<longrightarrow> j = i)
    \<and> (\<exists>b. map_of (bodies (r_catalog r)) i = Some b \<and> emb_id b = i \<and> wf_embodiment b)
    \<and> presence_ok (r_presence r)"
proof -
  have "emb_id b = i \<and> wf_embodiment b" if "map_of (bodies c) i = Some b" for i b
    using assms(1,2) that
    by (auto simp: new_catalog_def bind_res_iff dest!: add_bodies_ok[where recs = "[]" and i = i and b = b])
  then have "runtime_ok r" by (rule reachable_ok[OF assms(4) open_runtime_ok[OF assms(3)]])
  moreover note s = assms(5)[unfolded current_session_def]
  ultimately have ok: "conn_ok (r_conn r)" and p: "presence_ok (r_presence r)"
    and b: "\<exists>b. map_of (bodies (r_catalog r)) i = Some b \<and> emb_id b = i \<and> wf_embodiment b"
    unfolding runtime_ok_def by blast+
  have "j = i" if "current_session r j = Some t" "rs_id t = rs_id s" for j t
    using conn_ok_inj[OF ok _ s] that by (simp add: current_session_def)
  with conn_okD[OF ok s] p b show ?thesis by blast
qed

theorem reachable_runtime_invariant_witness:
  "\<exists>s r. reachable (lamp_runtime 0 []) r \<and> current_session r ''embodiment:lamp'' = Some s
     \<and> rs_embodiment s = ''embodiment:lamp'' \<and> issued (r_conn r) s"
proof -
  have c: "new_catalog [lamp_body] [''agent:steward''] = Inr (r_catalog (lamp_runtime 0 []))"
    by (simp add: new_catalog_def lamp_runtime_def typed_id_ok lamp_body_def)
  have o: "open_runtime (r_catalog (lamp_runtime 0 [])) ''a1'' [''space:hall''] (VFloat (Fin 5))
      = Inr (lamp_runtime 0 [])"
    by (simp add: open_runtime_def new_presence_def register_embodiment_def register_space_def typed_id_ok
        lamp_runtime_def new_connections_def)
  let ?call = "(lamp_reader, None, 5, 6, RqConnect ''embodiment:lamp'' VNone) :: call"
  have r: "reachable (lamp_runtime 0 []) (fst (handle (lamp_runtime 0 []) ?call))"
    by (rule reachable.request[OF reachable.start]) (simp add: call_ok_def lamp_identity_reader)
  obtain s r' where s: "handle (lamp_runtime 0 []) ?call = (r', s)"
    "\<exists>s. current_session r' ''embodiment:lamp'' = Some s"
    using connect_opens_session_witness by fastforce
  then obtain x where "current_session (fst (handle (lamp_runtime 0 []) ?call)) ''embodiment:lamp'' = Some x"
    by auto
  with reachable_runtime_invariant[OF c _ o r this] r show ?thesis using lamp_body_wf by auto
qed

end
