(* ===== verification/Surreal.thy ===== *)
theory Surreal
  imports Connections
begin

text \<open>
  The database as the services use it. SurrealDB itself is outside the program: an access record
  \<open>api\<close> of the queries that the source sends is a parameter of every service definition. A
  transaction is the list of its statements, one constructor per SurrealQL statement that occurs
  in the source. The locale \<open>surreal_db\<close> states what the services rely on: a read answers from the
  stored graph, and a transaction either commits as a whole or leaves the graph as it was. A
  reference store that keeps the graph itself satisfies it.
\<close>

section \<open>Graphs\<close>

type_synonym rid = "string \<times> string"

record edge =
  ed_id :: rid
  ed_in :: rid
  ed_out :: rid

record graph =
  g_nodes :: "(rid \<times> fields) list"
  g_edges :: "edge list"
  g_unique :: "string list"

definition rec_val :: "rid \<Rightarrow> pyval" where
  "rec_val r = VRec (fst r) (snd r)"

text \<open>\<open>canonical_record_id\<close> on a stored value. A stored endpoint is a record identifier; of the text of
  any other value all that matters is that it is no identifier, which holds of the texts below.\<close>

definition canonical_val :: "pyval \<Rightarrow> string" where
  "canonical_val v = (case v of VRec t k \<Rightarrow> canonical (t, k) | VStr s \<Rightarrow> s | VNone \<Rightarrow> ''None''
     | VBool b \<Rightarrow> (if b then ''True'' else ''False'') | VInt i \<Rightarrow> show_int i
     | VFloat f \<Rightarrow> ''float'' | VList vs \<Rightarrow> ''[]'' | VDict d \<Rightarrow> ''{}'')"

definition row_of_node :: "rid \<times> fields \<Rightarrow> pyval" where
  "row_of_node n = VDict ((''id'', rec_val (fst n)) # AList.delete ''id'' (snd n))"

definition row_of_edge :: "edge \<Rightarrow> pyval" where
  "row_of_edge e = VDict [(''id'', rec_val (ed_id e)), (''in'', rec_val (ed_in e)), (''out'', rec_val (ed_out e))]"

lemma canonical_rec_val: "canonical_val (rec_val r) = canonical r"
  by (simp add: canonical_val_def rec_val_def)

text \<open>What the queries of the source answer on a graph.\<close>

definition only_value :: "graph \<Rightarrow> rid \<Rightarrow> pyval" where
  "only_value g r = (case map_of (g_nodes g) r of None \<Rightarrow> VNone | Some f \<Rightarrow> row_of_node (r, f))"

definition edges_out :: "graph \<Rightarrow> string \<Rightarrow> rid \<Rightarrow> edge list" where
  "edges_out g table r = filter (\<lambda>e. fst (ed_id e) = table \<and> ed_in e = r) (g_edges g)"

definition edges_at :: "graph \<Rightarrow> string \<Rightarrow> rid \<Rightarrow> edge list" where
  "edges_at g table r = filter (\<lambda>e. fst (ed_id e) = table \<and> (ed_in e = r \<or> ed_out e = r)) (g_edges g)"

definition node_rows :: "graph \<Rightarrow> string \<Rightarrow> pyval list" where
  "node_rows g table = map row_of_node (filter (\<lambda>n. fst (fst n) = table) (g_nodes g))"

definition edge_rows :: "graph \<Rightarrow> string \<Rightarrow> pyval list" where
  "edge_rows g table = map row_of_edge (filter (\<lambda>e. fst (ed_id e) = table) (g_edges g))"

section \<open>Transactions\<close>

datatype stmt =
    ThrowIfMissing rid            \<comment> \<open>\<open>IF (SELECT VALUE id FROM ONLY $r) = NONE { THROW .. }\<close>\<close>
  | ThrowIfExists rid             \<comment> \<open>\<open>IF (SELECT VALUE id FROM ONLY $r) != NONE { THROW .. }\<close>\<close>
  | ThrowIfDiffers rid pyval      \<comment> \<open>\<open>IF (SELECT * FROM ONLY $r) != $expected { THROW .. }\<close>\<close>
  | ThrowIfMany string rid        \<comment> \<open>more than one edge of the table from the record\<close>
  | ThrowIfOther string rid rid   \<comment> \<open>one edge of the table from the record, to another target\<close>
  | Create rid fields
  | CreateIfMissing rid fields
  | Content rid fields            \<comment> \<open>\<open>UPDATE $r CONTENT ..\<close>\<close>
  | Merge rid fields              \<comment> \<open>\<open>UPDATE $r MERGE ..\<close>\<close>
  | Delete rid
  | DeleteOut string rid          \<comment> \<open>\<open>DELETE table WHERE in = $r\<close>\<close>
  | DeleteAt string rid           \<comment> \<open>\<open>DELETE table WHERE in = $r OR out = $r\<close>\<close>
  | Relate rid rid rid            \<comment> \<open>\<open>RELATE $in->$edge->$out CONTENT {}\<close>\<close>
  | RelateIfNone rid rid rid      \<comment> \<open>the same, when the table has no edge from the record\<close>
  | DefineUnique string           \<comment> \<open>\<open>DEFINE INDEX IF NOT EXISTS .. FIELDS in UNIQUE\<close>\<close>

text \<open>The fields that the services merge are flat, so that a merge of the fields is that of the database, which would
  also merge objects.\<close>

definition merge_fields :: "fields \<Rightarrow> fields \<Rightarrow> fields" where
  "merge_fields old new = foldl (\<lambda>d (k, v). AList.update k v d) old new"

text \<open>Deleting a record deletes the edges at it. A relation is refused when its identifier is taken, or
  when its table has a unique source index and the source already has an edge.\<close>

definition relate :: "rid \<Rightarrow> rid \<Rightarrow> rid \<Rightarrow> graph \<Rightarrow> graph option" where
  "relate e a b g =
     (if e \<in> set (map ed_id (g_edges g)) \<or> fst e \<in> set (g_unique g) \<and> edges_out g (fst e) a \<noteq> []
      then None else Some (g\<lparr>g_edges := g_edges g @ [\<lparr>ed_id = e, ed_in = a, ed_out = b\<rparr>]\<rparr>))"

fun run_stmt :: "stmt \<Rightarrow> graph \<Rightarrow> graph option" where
  "run_stmt (ThrowIfMissing r) g = (if map_of (g_nodes g) r = None then None else Some g)"
| "run_stmt (ThrowIfExists r) g = (if map_of (g_nodes g) r = None then Some g else None)"
| "run_stmt (ThrowIfDiffers r v) g = (if py_eq (only_value g r) v then Some g else None)"
| "run_stmt (ThrowIfMany t r) g = (if length (edges_out g t r) > 1 then None else Some g)"
| "run_stmt (ThrowIfOther t r b) g =
     (case edges_out g t r of [e] \<Rightarrow> if ed_out e = b then Some g else None | _ \<Rightarrow> Some g)"
| "run_stmt (Create r f) g =
     (if map_of (g_nodes g) r = None then Some (g\<lparr>g_nodes := AList.update r f (g_nodes g)\<rparr>) else None)"
| "run_stmt (CreateIfMissing r f) g =
     (if map_of (g_nodes g) r = None then Some (g\<lparr>g_nodes := AList.update r f (g_nodes g)\<rparr>) else Some g)"
| "run_stmt (Content r f) g =
     (if map_of (g_nodes g) r = None then Some g else Some (g\<lparr>g_nodes := AList.update r f (g_nodes g)\<rparr>))"
| "run_stmt (Merge r f) g =
     (case map_of (g_nodes g) r of None \<Rightarrow> Some g
      | Some old \<Rightarrow> Some (g\<lparr>g_nodes := AList.update r (merge_fields old f) (g_nodes g)\<rparr>))"
| "run_stmt (Delete r) g = Some (g\<lparr>g_nodes := AList.delete r (g_nodes g),
     g_edges := filter (\<lambda>e. ed_in e \<noteq> r \<and> ed_out e \<noteq> r) (g_edges g)\<rparr>)"
| "run_stmt (DeleteOut t r) g =
     Some (g\<lparr>g_edges := filter (\<lambda>e. \<not> (fst (ed_id e) = t \<and> ed_in e = r)) (g_edges g)\<rparr>)"
| "run_stmt (DeleteAt t r) g = Some (g\<lparr>g_edges :=
     filter (\<lambda>e. \<not> (fst (ed_id e) = t \<and> (ed_in e = r \<or> ed_out e = r))) (g_edges g)\<rparr>)"
| "run_stmt (Relate e a b) g = relate e a b g"
| "run_stmt (RelateIfNone e a b) g = (if edges_out g (fst e) a = [] then relate e a b g else Some g)"
| "run_stmt (DefineUnique t) g =
     (if t \<in> set (g_unique g) then Some g
      else if distinct (map ed_in (filter (\<lambda>e. fst (ed_id e) = t) (g_edges g)))
      then Some (g\<lparr>g_unique := t # g_unique g\<rparr>) else None)"

fun run_script :: "stmt list \<Rightarrow> graph \<Rightarrow> graph option" where
  "run_script [] g = Some g"
| "run_script (s # ss) g = (case run_stmt s g of None \<Rightarrow> None | Some h \<Rightarrow> run_script ss h)"

section \<open>The access record and its contract\<close>

record 'db surreal =
  q_only :: "'db \<Rightarrow> rid \<Rightarrow> pyval res"               \<comment> \<open>\<open>SELECT * FROM ONLY $record\<close>\<close>
  q_rows :: "'db \<Rightarrow> string \<Rightarrow> pyval res"            \<comment> \<open>\<open>SELECT * FROM type::table($table)\<close>\<close>
  q_out :: "'db \<Rightarrow> string \<Rightarrow> rid \<Rightarrow> pyval res"      \<comment> \<open>\<open>SELECT VALUE out FROM table WHERE in = $item\<close>\<close>
  q_count :: "'db \<Rightarrow> string \<Rightarrow> rid \<Rightarrow> pyval res"    \<comment> \<open>\<open>SELECT count() .. WHERE in = $item OR out = $item\<close>\<close>
  q_run :: "'db \<Rightarrow> stmt list \<Rightarrow> 'db \<times> unit res"     \<comment> \<open>a script\<close>

definition count_value :: "nat \<Rightarrow> pyval \<Rightarrow> bool" where
  "count_value n v \<longleftrightarrow> v = VList [VDict [(''count'', VInt (int n))]] \<or> n = 0 \<and> v = VList []"

locale surreal_db =
  fixes api :: "'db surreal" and content :: "'db \<Rightarrow> graph"
  assumes run_commit: "q_run api db ss = (db', Inr ()) \<Longrightarrow> run_script ss (content db) = Some (content db')"
    and run_abort: "q_run api db ss = (db', Inl e) \<Longrightarrow> content db' = content db"
    and only_reads: "q_only api db r = Inr v \<Longrightarrow> v = only_value (content db) r"
    and rows_reads: "q_rows api db t = Inr v \<Longrightarrow>
      v = VList (node_rows (content db) t @ edge_rows (content db) t)"
    and rows_missing: "q_rows api db t = Inl (NotFoundError m) \<Longrightarrow>
      node_rows (content db) t @ edge_rows (content db) t = []"
    and out_reads: "q_out api db t r = Inr v \<Longrightarrow>
      v = VList (map (\<lambda>e. rec_val (ed_out e)) (edges_out (content db) t r))"
    and out_missing: "q_out api db t r = Inl (NotFoundError m) \<Longrightarrow> edges_out (content db) t r = []"
    and count_reads: "q_count api db t r = Inr v \<Longrightarrow> count_value (length (edges_at (content db) t r)) v"
    and count_missing: "q_count api db t r = Inl (NotFoundError m) \<Longrightarrow> edges_at (content db) t r = []"
begin

lemma run_cases:
  obtains db' where "q_run api db ss = (db', Inr ())" "run_script ss (content db) = Some (content db')"
  | db' e where "q_run api db ss = (db', Inl e)" "content db' = content db"
  using run_commit run_abort by (cases "q_run api db ss"; cases "snd (q_run api db ss)") auto

end

text \<open>The reference store.\<close>

definition graph_api :: "graph surreal" where
  "graph_api = \<lparr>q_only = (\<lambda>g r. Inr (only_value g r)),
     q_rows = (\<lambda>g t. Inr (VList (node_rows g t @ edge_rows g t))),
     q_out = (\<lambda>g t r. Inr (VList (map (\<lambda>e. rec_val (ed_out e)) (edges_out g t r)))),
     q_count = (\<lambda>g t r. Inr (VList [VDict [(''count'', VInt (int (length (edges_at g t r))))]])),
     q_run = (\<lambda>g ss. case run_script ss g of None \<Rightarrow> (g, Inl DatabaseError) | Some h \<Rightarrow> (h, Inr ()))\<rparr>"

interpretation reference_store: surreal_db graph_api "\<lambda>g. g"
  by unfold_locales (auto simp: graph_api_def count_value_def split: option.splits)

lemma run_script_append:
  "run_script (ss @ ts) g = (case run_script ss g of None \<Rightarrow> None | Some h \<Rightarrow> run_script ts h)"
  by (induction ss arbitrary: g) (auto split: option.split)

end
