(* ===== verification/EmbodimentStore.thy ===== *)
theory EmbodimentStore
  imports SessionFacts Surreal
begin

text \<open>
  \<open>mutation/embodiments.py\<close>: the stored bodies and their single assignment edge, read from and written to
  the database. The database access \<open>api\<close> and its state \<open>db\<close> are arguments; an operation that writes
  returns the state it leaves. The registered agents of the configuration are an argument of
  \<open>ensure_registered_agents\<close>.
\<close>

section \<open>Reading\<close>

definition row_get :: "pyval \<Rightarrow> string \<Rightarrow> pyval res" where
  "row_get row k = (case row of
     VDict d \<Rightarrow> (case map_of d k of None \<Rightarrow> Inl KeyError | Some v \<Rightarrow> Inr v) | _ \<Rightarrow> Inl TypeError)"

fun contains_sub :: "string \<Rightarrow> string \<Rightarrow> bool" where
  "contains_sub s [] = (s = [])"
| "contains_sub s (c # t) = (take (length s) (c # t) = s \<or> contains_sub s t)"

definition rows :: "'db surreal \<Rightarrow> 'db \<Rightarrow> string \<Rightarrow> pyval list res" where
  "rows api db table = (case q_rows api db table of
     Inr (VList vs) \<Rightarrow> Inr vs
   | Inr v \<Rightarrow> if truthy v then Inl TypeError else Inr []
   | Inl (NotFoundError m) \<Rightarrow>
       if contains_sub (CHR 39 # table @ [CHR 39]) m then Inr [] else Inl (NotFoundError m)
   | Inl e \<Rightarrow> Inl e)"

fun read_assignments :: "pyval list \<Rightarrow> string dict \<Rightarrow> string dict res" where
  "read_assignments [] asg = Inr asg"
| "read_assignments (e # es) asg =
     bind_res (row_get e ''in'') (\<lambda>i. bind_res (row_get e ''out'') (\<lambda>a.
     let body = canonical_val i; agent = canonical_val a in
     bind_res (typed_id body ''embodiment'') (\<lambda>_. bind_res (typed_id agent ''agent'') (\<lambda>_.
       if map_of asg body \<noteq> None then Inl SpatialContractError
       else read_assignments es (AList.update body agent asg)))))"

text \<open>\<open>dataclasses.replace(body, agent_id=...)\<close> runs the checks of the constructor again.\<close>

definition replace_agent :: "embodiment \<Rightarrow> string option \<Rightarrow> embodiment res" where
  "replace_agent b a = mk_embodiment (VStr (emb_id b)) (VStr (emb_name b)) (geometry b) (local_frame b)
     (opt_str a) (map VStr (capabilities b)) (VStr (embodiment_type b))"

definition read_body :: "pyval \<Rightarrow> embodiment res" where
  "read_body node = (case node of
     VDict d \<Rightarrow> bind_res (row_get node ''id'') (\<lambda>i.
       let m = AList.update ''id'' (VStr (canonical_val i)) d in
       if map_of m ''agent_id'' \<noteq> None then Inl SpatialContractError
       else embodiment_from_mapping (VDict m))
   | _ \<Rightarrow> Inl TypeError)"

fun read_bodies :: "pyval list \<Rightarrow> string dict \<Rightarrow> (embodiment list \<times> string dict) res" where
  "read_bodies [] asg = Inr ([], asg)"
| "read_bodies (n # ns) asg =
     bind_res (read_body n) (\<lambda>b.
     bind_res (replace_agent b (map_of asg (emb_id b))) (\<lambda>b'.
     bind_res (read_bodies ns (AList.delete (emb_id b) asg)) (\<lambda>(bs, rest). Inr (b' # bs, rest))))"

definition list_of_rows :: "pyval list \<Rightarrow> pyval list \<Rightarrow> embodiment list res" where
  "list_of_rows nodes edges =
     bind_res (read_assignments edges []) (\<lambda>asg.
     bind_res (read_bodies nodes asg) (\<lambda>(bs, rest).
       if rest \<noteq> [] then Inl SpatialContractError else Inr (sort_key emb_id bs)))"

definition store_list :: "'db surreal \<Rightarrow> 'db \<Rightarrow> embodiment list res" where
  "store_list api db =
     bind_res (rows api db ''embodiment'') (\<lambda>nodes.
     bind_res (rows api db ''assigned_to'') (\<lambda>edges. list_of_rows nodes edges))"

definition find_body :: "string \<Rightarrow> embodiment list \<Rightarrow> embodiment res" where
  "find_body i bs = (case find (\<lambda>b. emb_id b = i) bs of
     None \<Rightarrow> Inl SpatialContractError | Some b \<Rightarrow> Inr b)"

definition store_get :: "'db surreal \<Rightarrow> 'db \<Rightarrow> string \<Rightarrow> embodiment res" where
  "store_get api db i =
     bind_res (typed_id i ''embodiment'') (\<lambda>_. bind_res (store_list api db) (find_body i))"

definition store_catalog :: "'db surreal \<Rightarrow> 'db \<Rightarrow> catalog res" where
  "store_catalog api db =
     bind_res (rows api db ''agent'') (\<lambda>rs.
     bind_res (map_res (\<lambda>r. bind_res (row_get r ''id'') (\<lambda>i. Inr (canonical_val i))) rs) (\<lambda>agents.
     bind_res (store_list api db) (\<lambda>bs. new_catalog bs agents)))"

section \<open>Writing\<close>

definition check_unassigned :: "embodiment \<Rightarrow> embodiment res" where
  "check_unassigned b =
     (if agent_id b \<noteq> None then Inl SpatialContractError
      else if embodiment_type b = ''unspecified'' then Inl SpatialContractError
      else Inr b)"

definition unassigned_body :: "pyval \<Rightarrow> embodiment res" where
  "unassigned_body v =
     (case v of
        VDict d \<Rightarrow> if map_of d ''agent_id'' \<noteq> None then Inl SpatialContractError
                   else bind_res (embodiment_from_mapping v) check_unassigned
      | _ \<Rightarrow> bind_res (embodiment_from_mapping v) check_unassigned)"

definition body_content :: "embodiment \<Rightarrow> fields" where
  "body_content b = (case embodiment_as_mapping b of
     VDict d \<Rightarrow> filter (\<lambda>(k, v). k \<noteq> ''id'') d | _ \<Rightarrow> [])"

text \<open>Running a script after checks that may raise.\<close>

definition after_checks :: "'db \<Rightarrow> 'a res \<Rightarrow> ('a \<Rightarrow> 'db \<times> 'b res) \<Rightarrow> 'db \<times> 'b res" where
  "after_checks db m f = (case m of Inl e \<Rightarrow> (db, Inl e) | Inr x \<Rightarrow> f x)"

definition run_then :: "'db surreal \<Rightarrow> 'db \<Rightarrow> stmt list \<Rightarrow> ('db \<Rightarrow> 'b res) \<Rightarrow> 'db \<times> 'b res" where
  "run_then api db ss f = (case q_run api db ss of
     (db', Inl e) \<Rightarrow> (db', Inl e) | (db', Inr u) \<Rightarrow> (db', f db'))"

definition store_create :: "'db surreal \<Rightarrow> 'db \<Rightarrow> pyval \<Rightarrow> 'db \<times> embodiment res" where
  "store_create api db v =
     after_checks db (bind_res (unassigned_body v) (\<lambda>b.
       bind_res (store_list api db) (\<lambda>bs.
       bind_res (guard (\<not> list_ex (\<lambda>x. emb_id x = emb_id b) bs) SpatialContractError) (\<lambda>_.
       bind_res (as_record_id (emb_id b)) (\<lambda>r. Inr (b, r)))))) (\<lambda>(b, r).
       run_then api db [ThrowIfExists r, Create r (body_content b)] (\<lambda>_. Inr b))"

definition store_update :: "'db surreal \<Rightarrow> 'db \<Rightarrow> pyval \<Rightarrow> 'db \<times> embodiment res" where
  "store_update api db v =
     after_checks db (bind_res (unassigned_body v) (\<lambda>b.
       bind_res (store_get api db (emb_id b)) (\<lambda>_.
       bind_res (as_record_id (emb_id b)) (\<lambda>r. Inr (b, r))))) (\<lambda>(b, r).
       run_then api db [ThrowIfMissing r, Content r (body_content b)]
         (\<lambda>db'. store_get api db' (emb_id b)))"

definition store_delete :: "'db surreal \<Rightarrow> 'db \<Rightarrow> string \<Rightarrow> 'db \<times> unit res" where
  "store_delete api db i =
     after_checks db (bind_res (typed_id i ''embodiment'') (\<lambda>_.
       bind_res (as_record_id i) (\<lambda>r.
       bind_res (store_get api db i) (\<lambda>_. Inr r)))) (\<lambda>r.
       run_then api db [ThrowIfMissing r, DeleteOut ''assigned_to'' r, Delete r] (\<lambda>_. Inr ()))"

definition assignment_edge :: "rid \<Rightarrow> rid" where
  "assignment_edge body = (''assigned_to'', implicit_edge_component body)"

fun agent_listed :: "string \<Rightarrow> pyval list \<Rightarrow> bool res" where
  "agent_listed a [] = Inr False"
| "agent_listed a (r # rs) = bind_res (row_get r ''id'') (\<lambda>i.
     if canonical_val i = a then Inr True else agent_listed a rs)"

definition known_agent :: "'db surreal \<Rightarrow> 'db \<Rightarrow> string \<Rightarrow> unit res" where
  "known_agent api db a = bind_res (rows api db ''agent'') (\<lambda>rs.
     bind_res (agent_listed a rs) (\<lambda>found. guard found SpatialContractError))"

definition store_assign :: "'db surreal \<Rightarrow> 'db \<Rightarrow> string \<Rightarrow> string \<Rightarrow> 'db \<times> embodiment res" where
  "store_assign api db i a =
     after_checks db (bind_res (typed_id i ''embodiment'') (\<lambda>_.
       bind_res (typed_id a ''agent'') (\<lambda>_.
       bind_res (as_record_id i) (\<lambda>body. bind_res (as_record_id a) (\<lambda>agent.
       bind_res (store_get api db i) (\<lambda>cur.
       bind_res (known_agent api db a) (\<lambda>_. Inr (body, agent, cur)))))))) (\<lambda>(body, agent, cur).
     case agent_id cur of
       Some other \<Rightarrow> (db, if other \<noteq> a then Inl SpatialContractError else Inr cur)
     | None \<Rightarrow> run_then api db
         [ThrowIfMissing body, ThrowIfMissing agent, ThrowIfMany ''assigned_to'' body,
          ThrowIfOther ''assigned_to'' body agent, RelateIfNone (assignment_edge body) body agent]
         (\<lambda>db'. store_get api db' i))"

definition store_unassign :: "'db surreal \<Rightarrow> 'db \<Rightarrow> string \<Rightarrow> 'db \<times> embodiment res" where
  "store_unassign api db i =
     after_checks db (bind_res (typed_id i ''embodiment'') (\<lambda>_. as_record_id i)) (\<lambda>r.
       run_then api db [ThrowIfMissing r, DeleteOut ''assigned_to'' r] (\<lambda>db'. store_get api db' i))"

definition ensure_constraints :: "'db surreal \<Rightarrow> 'db \<Rightarrow> 'db \<times> unit res" where
  "ensure_constraints api db = run_then api db [DefineUnique ''assigned_to''] (\<lambda>_. Inr ())"

record agent_entry =
  ag_entity :: string
  ag_display :: string
  ag_key :: string

definition agent_content :: "agent_entry \<Rightarrow> fields" where
  "agent_content a = [(''name'', VDict [(''en'', VStr (ag_display a))]), (''agent_type'', VStr (ag_key a))]"

fun ensure_registered_agents :: "'db surreal \<Rightarrow> 'db \<Rightarrow> agent_entry list \<Rightarrow> 'db \<times> unit res" where
  "ensure_registered_agents api db [] = (db, Inr ())"
| "ensure_registered_agents api db (a # as) =
     (case as_record_id (ag_entity a) of
        Inl e \<Rightarrow> (db, Inl e)
      | Inr r \<Rightarrow> (case q_run api db [CreateIfMissing r (agent_content a)] of
          (db', Inl e) \<Rightarrow> (db', Inl e)
        | (db', Inr u) \<Rightarrow> ensure_registered_agents api db' as))"

text \<open>\<open>open_embodiment_runtime\<close>: the constraint, the agents, then one read of the bodies.\<close>

definition open_embodiment_runtime ::
  "'db surreal \<Rightarrow> 'db \<Rightarrow> agent_entry list \<Rightarrow> string \<Rightarrow> string list \<Rightarrow> pyval \<Rightarrow> 'db \<times> runtime res" where
  "open_embodiment_runtime api db agents inst space_ids stale_after =
     (case ensure_constraints api db of
        (db1, Inl e) \<Rightarrow> (db1, Inl e)
      | (db1, Inr u) \<Rightarrow> (case ensure_registered_agents api db1 agents of
          (db2, Inl e) \<Rightarrow> (db2, Inl e)
        | (db2, Inr u) \<Rightarrow> (db2, bind_res (store_catalog api db2) (\<lambda>c. open_runtime c inst space_ids stale_after))))"

section \<open>The identity reader\<close>

lemma replace_agent_Inr:
  assumes "wf_embodiment b"
  shows "replace_agent b a = Inr c \<longleftrightarrow>
    c = b\<lparr>agent_id := a\<rparr> \<and> (\<forall>x. a = Some x \<longrightarrow> has_table ''agent'' x)"
  using assms
  by (cases a) (auto simp: replace_agent_def mk_embodiment_def opt_str_def wf_embodiment_def
      typed_id_val_ok sorted_sort_id bind_res_iff typed_id_val_Inr_iff)

lemma read_body_wf: "read_body n = Inr b \<Longrightarrow> wf_embodiment b"
  by (auto simp: read_body_def Inr_iffs Let_def if_Inl_Inr embodiment_from_mapping_wf)

lemma read_bodies_wf:
  "read_bodies ns asg = Inr (bs, rest) \<Longrightarrow> \<forall>b \<in> set bs. wf_embodiment b"
proof (induction ns asg arbitrary: bs rest rule: read_bodies.induct)
  case (2 n ns asg)
  then obtain b b' cs where b: "read_body n = Inr b" "replace_agent b (map_of asg (emb_id b)) = Inr b'"
    and cs: "read_bodies ns (AList.delete (emb_id b) asg) = Inr (cs, rest)" "bs = b' # cs"
    by (auto simp: bind_res_Inr_iff)
  have "wf_embodiment b'"
    using read_body_wf[OF b(1)] b(2) by (auto simp: replace_agent_Inr wf_embodiment_def)
  with 2(1)[OF cs(1)] cs(2) show ?case by simp
qed simp

lemma find_filter: "find P xs = (case filter P xs of [] \<Rightarrow> None | x # _ \<Rightarrow> Some x)"
  by (induction xs) auto

lemma find_body_sort: "find_body i (sort_key emb_id bs) = find_body i bs"
  by (simp add: find_body_def find_filter sort_key_stable)

lemma find_body_Inr: "find_body i bs = Inr b \<Longrightarrow> b \<in> set bs \<and> emb_id b = i"
  by (auto simp: find_body_def find_Some_iff split: option.splits)

lemma list_of_rows_wf: "list_of_rows ns es = Inr bs \<Longrightarrow> \<forall>b \<in> set bs. wf_embodiment b"
  unfolding list_of_rows_def Inr_iffs by (auto simp: if_Inl_Inr dest: read_bodies_wf)

lemma store_get_body:
  assumes "store_get api db i = Inr b"
  shows "emb_id b = i \<and> wf_embodiment b"
proof -
  obtain ns es bs where bs: "list_of_rows ns es = Inr bs" "find_body i bs = Inr b"
    using assms unfolding store_get_def store_list_def bind_res_Inr_iff by blast
  from list_of_rows_wf[OF bs(1)] find_body_Inr[OF bs(2)] show ?thesis by blast
qed

text \<open>The stored bodies are the bodies the session protocol resolves.\<close>

interpretation stored: identity_reader "store_get api db" for api db
  by unfold_locales (erule store_get_body[THEN conjunct1], erule store_get_body[THEN conjunct2])

section \<open>Reading rows\<close>

lemma read_bodies_append:
  "read_bodies (xs @ ys) asg = bind_res (read_bodies xs asg) (\<lambda>(bs, a).
     bind_res (read_bodies ys a) (\<lambda>(cs, rest). Inr (bs @ cs, rest)))"
proof (induction xs arbitrary: asg)
  case (Cons n ns)
  show ?case by (simp add: Cons.IH bind_res_assoc case_prod_beta)
qed simp

text \<open>What is left of the assignments, and which agent a body gets.\<close>

lemma read_bodies_Cons:
  assumes "read_bodies (n # ns) asg = Inr (bs, rest)"
  obtains b cs where "read_body n = Inr b" "bs = b\<lparr>agent_id := map_of asg (emb_id b)\<rparr> # cs"
    "\<forall>x. map_of asg (emb_id b) = Some x \<longrightarrow> has_table ''agent'' x"
    "read_bodies ns (AList.delete (emb_id b) asg) = Inr (cs, rest)"
  using assms
  by (auto simp: bind_res_Inr_iff replace_agent_Inr read_body_wf)

lemma read_bodies_rest:
  "read_bodies ns asg = Inr (bs, rest) \<Longrightarrow>
     map_of rest k = (if k \<in> emb_id ` set bs then None else map_of asg k)"
proof (induction ns arbitrary: asg bs)
  case (Cons n ns)
  from Cons.prems obtain b cs where b: "read_body n = Inr b"
    "bs = b\<lparr>agent_id := map_of asg (emb_id b)\<rparr> # cs"
    "read_bodies ns (AList.delete (emb_id b) asg) = Inr (cs, rest)"
    by (rule read_bodies_Cons)
  from Cons.IH[OF b(3)] b(2) show ?case by (auto simp: store_simps)
qed simp

lemma read_bodies_find:
  "read_bodies ns asg = Inr (bs, rest) \<Longrightarrow> find_body i bs = Inr b \<Longrightarrow> agent_id b = map_of asg i"
proof (induction ns arbitrary: asg bs)
  case Nil
  then show ?case by (simp add: find_body_def)
next
  case (Cons n ns)
  from Cons.prems(1) obtain c cs where c: "bs = c\<lparr>agent_id := map_of asg (emb_id c)\<rparr> # cs"
    "read_bodies ns (AList.delete (emb_id c) asg) = Inr (cs, rest)"
    by (rule read_bodies_Cons)
  show ?case
  proof (cases "emb_id c = i")
    case True
    with Cons.prems(2) c(1) show ?thesis by (auto simp: find_body_def)
  next
    case False
    then have "find_body i cs = Inr b" using Cons.prems(2) c(1) by (simp add: find_body_def)
    from Cons.IH[OF c(2) this] False show ?thesis by (simp add: store_simps)
  qed
qed

lemma read_assignments_append:
  "read_assignments (xs @ ys) asg = bind_res (read_assignments xs asg) (read_assignments ys)"
proof (induction xs arbitrary: asg)
  case (Cons e es)
  show ?case by (simp add: Cons.IH bind_res_assoc Let_def cong: if_cong)
      (intro arg_cong[where f = "bind_res _"] ext, simp)+
qed simp

lemma read_assignments_mono:
  "read_assignments es asg = Inr asg' \<Longrightarrow> map_of asg k = Some a \<Longrightarrow> map_of asg' k = Some a"
proof (induction es arbitrary: asg)
  case (Cons e es)
  from Cons.prems show ?case
    by (auto simp: Inr_iffs Let_def if_Inl_Inr intro!: Cons.IH simp: store_simps)
qed simp

lemma read_assignments_mem:
  assumes "read_assignments es asg = Inr asg'" and "e \<in> set es"
    and "row_get e ''in'' = Inr i" and "row_get e ''out'' = Inr a"
  shows "map_of asg' (canonical_val i) = Some (canonical_val a)"
  using assms
proof (induction es arbitrary: asg)
  case (Cons f es)
  from Cons.prems(1) obtain j c where f: "row_get f ''in'' = Inr j" "row_get f ''out'' = Inr c"
    "read_assignments es (AList.update (canonical_val j) (canonical_val c) asg) = Inr asg'"
    by (auto simp: Inr_iffs Let_def if_Inl_Inr)
  show ?case
  proof (cases "e = f")
    case True
    with f Cons.prems(3,4) read_assignments_mono[OF f(3)] show ?thesis by (simp add: store_simps)
  next
    case False
    with Cons.IH[OF f(3)] Cons.prems show ?thesis by simp
  qed
qed simp

lemma read_assignments_source:
  assumes "read_assignments es asg = Inr asg'" and "map_of asg' k = Some x"
  shows "map_of asg k = Some x
    \<or> (\<exists>e \<in> set es. \<exists>i a. row_get e ''in'' = Inr i \<and> row_get e ''out'' = Inr a \<and> canonical_val i = k
         \<and> canonical_val a = x)"
  using assms
proof (induction es arbitrary: asg)
  case (Cons f es)
  from Cons.prems(1) obtain j c where f: "row_get f ''in'' = Inr j" "row_get f ''out'' = Inr c"
    "read_assignments es (AList.update (canonical_val j) (canonical_val c) asg) = Inr asg'"
    by (auto simp: Inr_iffs Let_def if_Inl_Inr)
  from Cons.IH[OF f(3) Cons.prems(2)] f show ?case by (auto simp: store_simps split: if_splits)
qed simp

lemma list_of_rows_parts:
  assumes "list_of_rows ns es = Inr bs"
  obtains asg cs where "read_assignments es [] = Inr asg" "read_bodies ns asg = Inr (cs, [])"
    "bs = sort_key emb_id cs"
  using assms unfolding list_of_rows_def Inr_iffs by (auto simp: if_Inl_Inr)

section \<open>Writing and reading back\<close>

lemma as_record_id_table:
  assumes "has_table t s"
  obtains k where "as_record_id s = Inr (t, k)" "canonical (t, k) = s"
  using assms by (auto simp: has_table_def as_record_id_def split_record_id_Inr_iff)

lemma canonical_same_table: "canonical (t, k) = canonical (t, l) \<longleftrightarrow> k = l"
  by (simp add: canonical_def)

lemma edge_row_get [simp]:
  "row_get (row_of_edge e) ''in'' = Inr (rec_val (ed_in e))"
  "row_get (row_of_edge e) ''out'' = Inr (rec_val (ed_out e))"
  by (simp_all add: row_get_def row_of_edge_def)

lemma read_body_id: "read_body (row_of_node n) = Inr b \<Longrightarrow> emb_id b = canonical (fst n)"
proof -
  assume "read_body (row_of_node n) = Inr b"
  then have "embodiment_from_mapping (VDict ((''id'', VStr (canonical (fst n))) # AList.delete ''id'' (snd n))) = Inr b"
    by (auto simp: read_body_def row_of_node_def row_get_def Let_def canonical_rec_val if_Inl_Inr)
  then show "emb_id b = canonical (fst n)"
    unfolding embodiment_from_mapping_def Inr_iffs
    by (auto simp: object_fields_def item_def get_or_None_def mk_embodiment_def Inr_iffs
        typed_id_val_Inr_iff split: if_splits)
qed

lemma unassigned_body_Inr:
  assumes "unassigned_body v = Inr b"
  shows "wf_embodiment b \<and> agent_id b = None \<and> embodiment_type b \<noteq> ''unspecified''"
proof -
  have "bind_res (embodiment_from_mapping v) check_unassigned = Inr b"
    using assms by (cases v) (auto simp: unassigned_body_def split: if_splits)
  then show ?thesis
    by (auto simp: bind_res_Inr_iff check_unassigned_def if_Inl_Inr embodiment_from_mapping_wf)
qed

text \<open>The row of a stored body reads back as the body.\<close>

lemma read_body_content:
  assumes "wf_embodiment b" and "agent_id b = None" and "canonical r = emb_id b"
  shows "read_body (row_of_node (r, body_content b)) = Inr b"
proof -
  obtain d where d: "embodiment_as_mapping b = VDict ((''id'', VStr (emb_id b)) # d)"
    and k: "\<forall>x \<in> set d. fst x \<noteq> ''id'' \<and> fst x \<noteq> ''agent_id''"
    using assms(2)
    by (cases "geometry b"; cases "local_frame b") (auto simp: embodiment_as_mapping_def opt_entry_def)
  have "filter (\<lambda>(k, v). k \<noteq> ''id'') d = d"
    using k by (auto simp: filter_id_conv)
  then have c: "body_content b = d" by (simp add: body_content_def d)
  have n: "map_of d ''id'' = None" "map_of d ''agent_id'' = None"
    using k by (auto simp: map_of_eq_None_iff)
  then show ?thesis
    using embodiment_roundtrip[OF assms(1)] d
    by (simp add: read_body_def row_of_node_def row_get_def c delete_absent canonical_rec_val assms(3))
qed

lemma run_then_Inr_iff:
  "run_then api db ss f = (db', Inr x) \<longleftrightarrow> q_run api db ss = (db', Inr ()) \<and> f db' = Inr x"
  by (auto simp: run_then_def split: prod.splits sum.splits)

context surreal_db
begin

lemma rows_content: "rows api db t = Inr vs \<Longrightarrow> vs = node_rows (content db) t @ edge_rows (content db) t"
  using rows_reads[of db t] rows_missing[of db t]
  by (auto simp: rows_def split: sum.splits pyval.splits exn.splits if_splits)

lemma run_then_Inr:
  assumes "run_then api db ss f = (db', Inr x)"
  shows "run_script ss (content db) = Some (content db') \<and> f db' = Inr x"
  using assms run_commit by (simp add: run_then_Inr_iff)

lemma store_list_content:
  assumes "store_list api db = Inr bs"
  shows "list_of_rows (node_rows (content db) ''embodiment'' @ edge_rows (content db) ''embodiment'')
    (node_rows (content db) ''assigned_to'' @ edge_rows (content db) ''assigned_to'') = Inr bs"
  using assms rows_content unfolding store_list_def bind_res_Inr_iff by blast

end

lemma after_checks_Inr: "after_checks db m f = (db', Inr y) \<longleftrightarrow> (\<exists>x. m = Inr x \<and> f x = (db', Inr y))"
  by (auto simp: after_checks_def split: sum.split)

lemma find_append: "find P (xs @ ys) = (case find P xs of None \<Rightarrow> find P ys | Some x \<Rightarrow> Some x)"
  by (induction xs) auto

text \<open>Reading with one more node.\<close>

lemma list_of_rows_insert:
  assumes "list_of_rows (xs @ ys) es = Inr bs" and "read_body n = Inr b" and "agent_id b = None"
    and "emb_id b \<notin> emb_id ` set bs"
  shows "\<exists>cs. list_of_rows (xs @ n # ys) es = Inr cs \<and> find_body (emb_id b) cs = Inr b"
proof -
  obtain asg cs where asg: "read_assignments es [] = Inr asg" and cs: "read_bodies (xs @ ys) asg = Inr (cs, [])"
    and bs: "bs = sort_key emb_id cs"
    by (rule list_of_rows_parts[OF assms(1)])
  obtain c1 a1 c2 where c1: "read_bodies xs asg = Inr (c1, a1)" and c2: "read_bodies ys a1 = Inr (c2, [])"
    and c: "cs = c1 @ c2"
    using cs by (auto simp: read_bodies_append bind_res_Inr_iff)
  have nin: "emb_id b \<notin> emb_id ` set cs" using assms(4) bs by simp
  have "map_of asg (emb_id b) = None"
    using read_bodies_rest[OF cs, of "emb_id b"] nin by simp
  then have a1: "map_of a1 (emb_id b) = None" using read_bodies_rest[OF c1] by simp
  then have "read_bodies [n] a1 = Inr ([b], a1)"
    using assms(2,3) replace_agent_Inr[OF read_body_wf[OF assms(2)], of None b]
    by (simp add: delete_absent)
  then have "read_bodies (n # ys) a1 = Inr (b # c2, [])"
    using c2 read_bodies_append[of "[n]" ys a1] by simp
  then have "read_bodies (xs @ n # ys) asg = Inr (c1 @ b # c2, [])"
    by (simp add: read_bodies_append c1)
  then have "list_of_rows (xs @ n # ys) es = Inr (sort_key emb_id (c1 @ b # c2))"
    by (simp add: list_of_rows_def asg)
  moreover have "find_body (emb_id b) (c1 @ b # c2) = Inr b"
  proof -
    have "\<forall>x \<in> set c1. emb_id x \<noteq> emb_id b"
      using nin c by (metis UnI1 image_eqI set_append)
    then have "find (\<lambda>x. emb_id x = emb_id b) c1 = None" by (simp add: find_None_iff)
    then show ?thesis by (simp add: find_body_def find_append)
  qed
  ultimately show ?thesis by (auto simp: find_body_sort simp del: sort_key_simps)
qed

lemma node_rows_append: "node_rows (g\<lparr>g_nodes := xs @ [n]\<rparr>) t
    = map row_of_node (filter (\<lambda>n. fst (fst n) = t) xs) @ (if fst (fst n) = t then [row_of_node n] else [])"
  by (simp add: node_rows_def)

context surreal_db
begin

lemma create_run:
  assumes "store_create api db v = (db', Inr b)"
  obtains bs k where "unassigned_body v = Inr b" "store_list api db = Inr bs"
    "emb_id b \<notin> emb_id ` set bs" "canonical (''embodiment'', k) = emb_id b"
    "content db' = (content db)\<lparr>g_nodes := g_nodes (content db) @ [((''embodiment'', k), body_content b)]\<rparr>"
proof -
  from assms obtain bs r where u: "unassigned_body v = Inr b" and bs: "store_list api db = Inr bs"
    and n: "\<not> list_ex (\<lambda>x. emb_id x = emb_id b) bs" and r: "as_record_id (emb_id b) = Inr r"
    and run: "run_then api db [ThrowIfExists r, Create r (body_content b)] (\<lambda>_. Inr b) = (db', Inr b)"
    unfolding store_create_def after_checks_Inr bind_res_Inr_iff
    by (auto simp: run_then_Inr_iff)
  have "has_table ''embodiment'' (emb_id b)"
    using unassigned_body_Inr[OF u] by (simp add: wf_embodiment_def)
  then obtain k where "as_record_id (emb_id b) = Inr (''embodiment'', k)"
    and k: "canonical (''embodiment'', k) = emb_id b" by (rule as_record_id_table)
  with r have rk: "r = (''embodiment'', k)" by simp
  have "content db' = (content db)\<lparr>g_nodes := g_nodes (content db) @ [(r, body_content b)]\<rparr>"
    using run_then_Inr[OF run] by (auto simp: update_absent split: if_splits)
  with that u bs n k rk show ?thesis by (force simp: list_ex_iff)
qed

lemma created_body_read:
  assumes "store_create api db v = (db', Inr b)"
    and "rows api db' ''embodiment'' = Inr ns" and "rows api db' ''assigned_to'' = Inr es"
  shows "store_get api db' (emb_id b) = Inr b"
proof -
  obtain bs k where u: "unassigned_body v = Inr b" and bs: "store_list api db = Inr bs"
    and n: "emb_id b \<notin> emb_id ` set bs" and k: "canonical (''embodiment'', k) = emb_id b"
    and g: "content db' = (content db)\<lparr>g_nodes := g_nodes (content db) @ [((''embodiment'', k), body_content b)]\<rparr>"
    by (rule create_run[OF assms(1)])
  let ?new = "row_of_node ((''embodiment'', k), body_content b)"
  note w = unassigned_body_Inr[OF u]
  have new: "read_body ?new = Inr b" using read_body_content[of b] w k by blast
  have "ns = node_rows (content db) ''embodiment'' @ ?new # edge_rows (content db) ''embodiment''"
    using rows_content[OF assms(2)] by (simp add: g node_rows_def edge_rows_def)
  moreover have "es = node_rows (content db) ''assigned_to'' @ edge_rows (content db) ''assigned_to''"
    using rows_content[OF assms(3)] by (simp add: g node_rows_def edge_rows_def)
  ultimately have "\<exists>cs. list_of_rows ns es = Inr cs \<and> find_body (emb_id b) cs = Inr b"
    using list_of_rows_insert[OF store_list_content[OF bs] new] w n by simp
  then obtain cs where "list_of_rows ns es = Inr cs" "find_body (emb_id b) cs = Inr b" by blast
  moreover have "typed_id (emb_id b) ''embodiment'' = Inr (emb_id b)"
    using w by (simp add: wf_embodiment_ids)
  ultimately show ?thesis using assms(2,3) by (simp add: store_get_def store_list_def)
qed

lemma create_failed: "store_create api db v = (db', Inl e) \<Longrightarrow> content db' = content db"
  using run_abort
  by (auto simp: store_create_def after_checks_def run_then_def split: sum.splits prod.splits)

end

text \<open>C10: a body that was created is what reading its identifier returns afterwards, and a creation that
  fails leaves the stored graph as it was.\<close>

theorem created_body_is_stored:
  assumes "surreal_db api content" and "store_create api db v = (db', res)"
  shows "(\<forall>b ns es. res = Inr b \<longrightarrow> rows api db' ''embodiment'' = Inr ns \<longrightarrow> rows api db' ''assigned_to'' = Inr es
      \<longrightarrow> store_get api db' (emb_id b) = Inr b)
    \<and> (\<forall>e. res = Inl e \<longrightarrow> content db' = content db)"
  using surreal_db.created_body_read[OF assms(1)] surreal_db.create_failed[OF assms(1)] assms(2) by blast


section \<open>Assignments and removal\<close>

lemma store_get_parts:
  assumes "store_get api db i = Inr b"
  obtains ns es asg cs where "rows api db ''embodiment'' = Inr ns" "rows api db ''assigned_to'' = Inr es"
    "read_assignments es [] = Inr asg" "read_bodies ns asg = Inr (cs, [])" "find_body i cs = Inr b"
    "has_table ''embodiment'' i"
proof -
  obtain ns es bs where r: "rows api db ''embodiment'' = Inr ns" "rows api db ''assigned_to'' = Inr es"
    and l: "list_of_rows ns es = Inr bs" and f: "find_body i bs = Inr b" and t: "has_table ''embodiment'' i"
    using assms unfolding store_get_def store_list_def bind_res_Inr_iff typed_id_Inr_iff by blast
  from list_of_rows_parts[OF l] obtain asg cs where "read_assignments es [] = Inr asg"
    "read_bodies ns asg = Inr (cs, [])" "bs = sort_key emb_id cs" by blast
  with that r f t show ?thesis by (simp add: find_body_sort)
qed

lemma read_bodies_ids:
  "read_bodies ns asg = Inr (cs, rest) \<Longrightarrow>
     \<forall>c \<in> set cs. \<exists>n \<in> set ns. \<exists>b. read_body n = Inr b \<and> emb_id b = emb_id c"
proof (induction ns arbitrary: asg cs)
  case (Cons n ns)
  from Cons.prems obtain b ds where b: "read_body n = Inr b"
    "cs = b\<lparr>agent_id := map_of asg (emb_id b)\<rparr> # ds"
    "read_bodies ns (AList.delete (emb_id b) asg) = Inr (ds, rest)"
    by (rule read_bodies_Cons)
  from Cons.IH[OF b(3)] b(1,2) show ?case by auto
qed simp

lemma relate_edge: "relate e a b g = Some h \<Longrightarrow>
    g_edges h = g_edges g @ [\<lparr>ed_id = e, ed_in = a, ed_out = b\<rparr>]"
  by (auto simp: relate_def split: if_splits)

text \<open>After the assignment script the body has an edge to the agent.\<close>

lemma assign_script_edge:
  assumes "run_script [ThrowIfMissing body, ThrowIfMissing agent, ThrowIfMany t body,
      ThrowIfOther t body agent, RelateIfNone (t, k) body agent] g = Some h"
  shows "\<exists>e \<in> set (g_edges h). fst (ed_id e) = t \<and> ed_in e = body \<and> ed_out e = agent"
proof (cases "edges_out g t body")
  case Nil
  with assms have "relate (t, k) body agent g = Some h" by (auto split: if_splits option.splits)
  from relate_edge[OF this] show ?thesis by simp
next
  case (Cons e es)
  then have "es = []" "ed_out e = agent" "h = g"
    using assms by (auto split: if_splits list.splits)
  moreover have "e \<in> set (edges_out g t body)" using Cons by simp
  ultimately show ?thesis by (auto simp: edges_out_def)
qed

text \<open>When the body has no edge yet, the assignment script adds exactly one.\<close>

lemma assign_script_exact:
  assumes "run_script [ThrowIfMissing body, ThrowIfMissing agent, ThrowIfMany t body,
      ThrowIfOther t body agent, RelateIfNone (t, k) body agent] g = Some h" and "edges_out g t body = []"
  shows "map_of (g_nodes g) body \<noteq> None \<and> map_of (g_nodes g) agent \<noteq> None
    \<and> h = g\<lparr>g_edges := g_edges g @ [\<lparr>ed_id = (t, k), ed_in = body, ed_out = agent\<rparr>]\<rparr>"
  using assms by (auto simp: relate_def split: if_splits)

context surreal_db
begin

lemma assigned_agent:
  assumes "store_get api db i = Inr b" and "as_record_id i = Inr body" and "as_record_id a = Inr agent"
    and "e \<in> set (g_edges (content db))" "fst (ed_id e) = ''assigned_to''" "ed_in e = body" "ed_out e = agent"
  shows "agent_id b = Some a"
proof -
  obtain ns es asg cs where es: "rows api db ''assigned_to'' = Inr es"
    and asg: "read_assignments es [] = Inr asg" and bs: "read_bodies ns asg = Inr (cs, [])" "find_body i cs = Inr b"
    by (rule store_get_parts[OF assms(1)])
  have "row_of_edge e \<in> set es"
    using rows_content[OF es] assms(4,5) by (auto simp: edge_rows_def)
  from read_assignments_mem[OF asg this edge_row_get] have "map_of asg i = Some a"
    using assms(2,3,6,7) by (simp add: canonical_rec_val as_record_id_canonical)
  with read_bodies_find[OF bs] show ?thesis by simp
qed

lemma unlinked_body_edges:
  assumes "store_get api db i = Inr b" and "agent_id b = None" and "as_record_id i = Inr body"
  shows "edges_out (content db) ''assigned_to'' body = []"
proof -
  obtain ns es asg cs where es: "rows api db ''assigned_to'' = Inr es"
    and asg: "read_assignments es [] = Inr asg" and bs: "read_bodies ns asg = Inr (cs, [])" "find_body i cs = Inr b"
    by (rule store_get_parts[OF assms(1)])
  have False if e: "e \<in> set (g_edges (content db))" "fst (ed_id e) = ''assigned_to''" "ed_in e = body" for e
  proof -
    have "row_of_edge e \<in> set es" using rows_content[OF es] e by (auto simp: edge_rows_def)
    from read_assignments_mem[OF asg this edge_row_get] have "map_of asg i \<noteq> None"
      using assms(3) e(3) by (simp add: canonical_rec_val as_record_id_canonical)
    with read_bodies_find[OF bs] assms(2) show False by simp
  qed
  then show ?thesis by (auto simp: edges_out_def filter_empty_conv)
qed

lemma assign_links:
  assumes "store_assign api db i a = (db', Inr b)"
  shows "store_get api db' i = Inr b \<and> agent_id b = Some a
    \<and> (\<exists>cur body agent. store_get api db i = Inr cur \<and> as_record_id i = Inr body \<and> as_record_id a = Inr agent
        \<and> (agent_id cur = Some a \<and> db' = db
           \<or> agent_id cur = None \<and> map_of (g_nodes (content db)) body \<noteq> None
             \<and> map_of (g_nodes (content db)) agent \<noteq> None \<and> edges_out (content db) ''assigned_to'' body = []
             \<and> content db' = (content db)\<lparr>g_edges := g_edges (content db)
                 @ [\<lparr>ed_id = assignment_edge body, ed_in = body, ed_out = agent\<rparr>]\<rparr>))"
proof -
  from assms obtain body agent cur where r: "as_record_id i = Inr body" "as_record_id a = Inr agent"
    and cur: "store_get api db i = Inr cur"
    and rest: "(case agent_id cur of
       Some other \<Rightarrow> (db, if other \<noteq> a then Inl SpatialContractError else Inr cur)
     | None \<Rightarrow> run_then api db
         [ThrowIfMissing body, ThrowIfMissing agent, ThrowIfMany ''assigned_to'' body,
          ThrowIfOther ''assigned_to'' body agent, RelateIfNone (assignment_edge body) body agent]
         (\<lambda>db'. store_get api db' i)) = (db', Inr b)"
    unfolding store_assign_def after_checks_Inr bind_res_Inr_iff by auto
  show ?thesis
  proof (cases "agent_id cur")
    case (Some other)
    with rest have "db' = db" "b = cur" "other = a" by (auto split: if_splits)
    with Some cur r show ?thesis by blast
  next
    case None
    with rest have run: "run_then api db
         [ThrowIfMissing body, ThrowIfMissing agent, ThrowIfMany ''assigned_to'' body,
          ThrowIfOther ''assigned_to'' body agent, RelateIfNone (assignment_edge body) body agent]
         (\<lambda>db'. store_get api db' i) = (db', Inr b)" by simp
    note g = run_then_Inr[OF run]
    note no = unlinked_body_edges[OF cur None r(1)]
    note h = assign_script_exact[OF g[THEN conjunct1, unfolded assignment_edge_def] no]
    have "agent_id b = Some a"
      by (rule assigned_agent[OF g[THEN conjunct2] r, of "\<lparr>ed_id = assignment_edge body, ed_in = body, ed_out = agent\<rparr>"])
        (simp_all add: h assignment_edge_def)
    with g[THEN conjunct2] h no None cur r show ?thesis unfolding assignment_edge_def by blast
  qed
qed

end

lemma assign_conflict:
  assumes "store_get api db i = Inr cur" and "agent_id cur = Some other" and "other \<noteq> a"
  shows "\<exists>e. store_assign api db i a = (db, Inl e)"
  using assms by (auto simp: store_assign_def after_checks_def split: sum.split) (auto simp: bind_res_Inr_iff)

text \<open>C11: after a successful assignment, reading the body gives the body that was answered, linked to the
  agent. Either it was linked to that agent before and nothing was written, or it had no agent, both records
  exist, and the graph gained the one edge from the body to the agent and nothing else. A body that is linked
  to another agent is refused with nothing written.\<close>

theorem assignment_links_one_agent:
  assumes "surreal_db api content"
  shows "(store_assign api db i a = (db', Inr b) \<longrightarrow> store_get api db' i = Inr b \<and> agent_id b = Some a
      \<and> (\<exists>cur body agent. store_get api db i = Inr cur \<and> as_record_id i = Inr body \<and> as_record_id a = Inr agent
        \<and> (agent_id cur = Some a \<and> db' = db
           \<or> agent_id cur = None \<and> map_of (g_nodes (content db)) body \<noteq> None
             \<and> map_of (g_nodes (content db)) agent \<noteq> None \<and> edges_out (content db) ''assigned_to'' body = []
             \<and> content db' = (content db)\<lparr>g_edges := g_edges (content db)
                 @ [\<lparr>ed_id = assignment_edge body, ed_in = body, ed_out = agent\<rparr>]\<rparr>)))
    \<and> (\<forall>cur other. store_get api db i = Inr cur \<longrightarrow> agent_id cur = Some other \<longrightarrow> other \<noteq> a \<longrightarrow>
         (\<exists>e. store_assign api db i a = (db, Inl e)))"
  by (rule conjI, rule impI, rule surreal_db.assign_links[OF assms], assumption)
    (intro allI impI, rule assign_conflict)

lemma unassign_script:
  "run_script [ThrowIfMissing r, DeleteOut t r] g = Some h \<Longrightarrow>
     \<not> (\<exists>e \<in> set (g_edges h). fst (ed_id e) = t \<and> ed_in e = r)"
  by (auto split: if_splits)

lemma delete_script:
  "run_script [ThrowIfMissing r, DeleteOut t r, Delete r] g = Some h \<Longrightarrow> map_of (g_nodes h) r = None"
  by (auto simp: store_simps split: if_splits)

text \<open>What the two removals rely on: no edge is filed in the node table or the other way round, and
  the table of an edge's source has a plain name.\<close>

definition plain_graph :: "graph \<Rightarrow> bool" where
  "plain_graph g \<longleftrightarrow> (\<forall>e \<in> set (g_edges g). fst (ed_id e) \<noteq> ''embodiment'' \<and> table_name (fst (ed_in e)))
     \<and> (\<forall>n \<in> set (g_nodes g). fst (fst n) \<noteq> ''assigned_to'')"

lemma canonical_plain:
  assumes "table_name t" and "canonical (t, k) = canonical (''embodiment'', l)"
  shows "t = ''embodiment'' \<and> k = l"
proof -
  have e: "t @ CHR '':'' # k = ''embodiment'' @ CHR '':'' # l" using assms(2) by (simp add: canonical_def)
  have n: "CHR '':'' \<notin> set t" "CHR '':'' \<notin> set ''embodiment''"
    using table_name_no_colon[OF assms(1)] by auto
  have "takeWhile (\<lambda>c. c \<noteq> CHR '':'') (x @ CHR '':'' # y) = x" if "CHR '':'' \<notin> set x" for x y
    using that by (induction x) auto
  from this[OF n(1), of k] this[OF n(2), of l] have "t = ''embodiment''"
    unfolding e by simp
  with e show ?thesis by simp
qed

context surreal_db
begin

lemma read_source_edge:
  assumes "plain_graph (content db)" and "rows api db ''assigned_to'' = Inr es"
    and "read_assignments es [] = Inr asg" and "map_of asg (canonical (''embodiment'', k)) = Some x"
  shows "\<exists>e \<in> set (g_edges (content db)). fst (ed_id e) = ''assigned_to'' \<and> ed_in e = (''embodiment'', k)"
proof -
  obtain row j where row: "row \<in> set es" "row_get row ''in'' = Inr j"
    "canonical_val j = canonical (''embodiment'', k)"
    using read_assignments_source[OF assms(3,4)] by auto
  have "node_rows (content db) ''assigned_to'' = []"
    using assms(1) by (auto simp: plain_graph_def node_rows_def filter_empty_conv)
  then obtain e where e: "e \<in> set (g_edges (content db))" "fst (ed_id e) = ''assigned_to''" "row = row_of_edge e"
    using rows_content[OF assms(2)] row(1) by (auto simp: edge_rows_def)
  have "j = rec_val (ed_in e)" using row(2) e(3) by simp
  then have "canonical (fst (ed_in e), snd (ed_in e)) = canonical (''embodiment'', k)"
    using row(3) by (simp add: canonical_rec_val)
  then have "ed_in e = (''embodiment'', k)"
    using canonical_plain[of "fst (ed_in e)" "snd (ed_in e)" k] assms(1) e(1)
    by (auto simp: plain_graph_def prod_eq_iff)
  with e show ?thesis by blast
qed

lemma unassigned_agent:
  assumes "store_unassign api db i = (db', Inr b)" and "plain_graph (content db')"
  shows "emb_id b = i \<and> agent_id b = None"
proof -
  from assms(1) obtain r where t: "has_table ''embodiment'' i" and r: "as_record_id i = Inr r"
    and run: "run_then api db [ThrowIfMissing r, DeleteOut ''assigned_to'' r] (\<lambda>db'. store_get api db' i) = (db', Inr b)"
    unfolding store_unassign_def after_checks_Inr bind_res_Inr_iff typed_id_Inr_iff by blast
  obtain k where k: "as_record_id i = Inr (''embodiment'', k)" "canonical (''embodiment'', k) = i"
    using as_record_id_table[OF t] by blast
  note g = run_then_Inr[OF run]
  obtain ns es asg cs where p: "rows api db' ''assigned_to'' = Inr es" "read_assignments es [] = Inr asg"
    "read_bodies ns asg = Inr (cs, [])" "find_body i cs = Inr b"
    by (rule store_get_parts[OF g[THEN conjunct2]])
  have no: "\<not> (\<exists>e \<in> set (g_edges (content db')). fst (ed_id e) = ''assigned_to'' \<and> ed_in e = (''embodiment'', k))"
    using unassign_script[OF g[THEN conjunct1]] r k(1) by simp
  have "map_of asg i = None"
    using read_source_edge[OF assms(2) p(1,2), of k] no k(2) by (cases "map_of asg i") auto
  with read_bodies_find[OF p(3,4)] find_body_Inr[OF p(4)] show ?thesis by simp
qed

lemma deleted_body:
  assumes "store_delete api db i = (db', Inr u)" and "plain_graph (content db')"
  shows "store_get api db' i \<noteq> Inr b"
proof
  assume get: "store_get api db' i = Inr b"
  from assms(1) obtain r where t: "has_table ''embodiment'' i" and r: "as_record_id i = Inr r"
    and run: "run_then api db [ThrowIfMissing r, DeleteOut ''assigned_to'' r, Delete r] (\<lambda>_. Inr ()) = (db', Inr u)"
    unfolding store_delete_def after_checks_Inr bind_res_Inr_iff typed_id_Inr_iff by auto
  obtain k where k: "as_record_id i = Inr (''embodiment'', k)" "canonical (''embodiment'', k) = i"
    using as_record_id_table[OF t] by blast
  have gone: "map_of (g_nodes (content db')) (''embodiment'', k) = None"
    using delete_script[OF run_then_Inr[OF run, THEN conjunct1]] r k(1) by simp
  obtain ns asg cs where p: "rows api db' ''embodiment'' = Inr ns" "read_bodies ns asg = Inr (cs, [])"
    "find_body i cs = Inr b"
    by (rule store_get_parts[OF get])
  have "edge_rows (content db') ''embodiment'' = []"
    using assms(2) by (auto simp: plain_graph_def edge_rows_def filter_empty_conv)
  then have ns: "ns = node_rows (content db') ''embodiment''" using rows_content[OF p(1)] by simp
  have "\<forall>c \<in> set cs. emb_id c \<in> {canonical (fst n) | n. n \<in> set (g_nodes (content db')) \<and> fst (fst n) = ''embodiment''}"
  proof
    fix c assume "c \<in> set cs"
    then obtain row d where "row \<in> set ns" "read_body row = Inr d" "emb_id d = emb_id c"
      using read_bodies_ids[OF p(2)] by blast
    moreover from this obtain n where "row = row_of_node n" "n \<in> set (g_nodes (content db'))"
      "fst (fst n) = ''embodiment''"
      unfolding ns node_rows_def by auto
    ultimately show "emb_id c \<in> {canonical (fst n) | n. n \<in> set (g_nodes (content db')) \<and> fst (fst n) = ''embodiment''}"
      using read_body_id[of n d] by (intro CollectI exI[of _ n]) simp
  qed
  with find_body_Inr[OF p(3)] obtain n where n: "canonical (fst n) = i" "n \<in> set (g_nodes (content db'))"
    "fst (fst n) = ''embodiment''" by auto
  then have "fst n = (''embodiment'', k)"
    using k(2) canonical_same_table[of "''embodiment''" "snd (fst n)" k] by (cases "fst n") simp
  with n(2) gone show False by (metis map_of_eq_None_iff image_eqI)
qed

end

text \<open>After a body was unassigned it is stored without an agent, and after it was deleted reading its
  identifier never returns a body.\<close>

theorem removal_is_complete:
  assumes "surreal_db api content" and "plain_graph (content db')"
  shows "(store_unassign api db i = (db', Inr b) \<longrightarrow> emb_id b = i \<and> agent_id b = None)
    \<and> (store_delete api db i = (db', Inr ()) \<longrightarrow> \<not> (\<exists>c. store_get api db' i = Inr c))"
  using surreal_db.unassigned_agent[OF assms(1) _ assms(2), of db i b]
    surreal_db.deleted_body[OF assms(1) _ assms(2), of db i "()"] by simp


section \<open>A small database\<close>

definition agents_graph :: graph where
  "agents_graph = \<lparr>g_nodes = [((''agent'', ''steward''), []), ((''agent'', ''guest''), [])], g_edges = [],
     g_unique = [''assigned_to'']\<rparr>"

definition trolley_document :: pyval where
  "trolley_document = VDict [(''id'', VStr ''embodiment:trolley''), (''name'', VStr ''Trolley''),
     (''embodiment_type'', VStr ''cart''), (''capabilities'', VList [VStr ''speech.say''])]"

definition trolley :: embodiment where
  "trolley = \<lparr>emb_id = ''embodiment:trolley'', emb_name = ''Trolley'', geometry = None, local_frame = None,
     agent_id = None, capabilities = [''speech.say''], embodiment_type = ''cart''\<rparr>"

definition trolley_graph :: graph where
  "trolley_graph = agents_graph\<lparr>g_nodes := g_nodes agents_graph @
     [((''embodiment'', ''trolley''), body_content trolley)]\<rparr>"

definition linked_graph :: graph where
  "linked_graph = trolley_graph\<lparr>g_edges := [\<lparr>ed_id = (''assigned_to'', ''embodiment_trolley''),
     ed_in = (''embodiment'', ''trolley''), ed_out = (''agent'', ''steward'')\<rparr>]\<rparr>"

lemma trolley_created: "store_create graph_api agents_graph trolley_document = (trolley_graph, Inr trolley)"
  by code_simp

lemma trolley_assigned:
  "store_assign graph_api trolley_graph ''embodiment:trolley'' ''agent:steward''
     = (linked_graph, Inr (trolley\<lparr>agent_id := Some ''agent:steward''\<rparr>))"
  by code_simp

lemma trolley_unassigned:
  "store_unassign graph_api linked_graph ''embodiment:trolley'' = (trolley_graph, Inr trolley)"
  by code_simp

theorem created_body_is_stored_witness:
  "store_get graph_api trolley_graph ''embodiment:trolley'' = Inr trolley"
  using created_body_is_stored[OF reference_store.surreal_db_axioms trolley_created]
  by (simp add: rows_def graph_api_def trolley_def)

theorem assignment_links_one_agent_witness:
  "store_get graph_api linked_graph ''embodiment:trolley'' = Inr (trolley\<lparr>agent_id := Some ''agent:steward''\<rparr>)
   \<and> (\<exists>e. store_assign graph_api linked_graph ''embodiment:trolley'' ''agent:guest'' = (linked_graph, Inl e))"
proof -
  note use = assignment_links_one_agent[OF reference_store.surreal_db_axioms]
  from use trolley_assigned have "store_get graph_api linked_graph ''embodiment:trolley'' = Inr (trolley\<lparr>agent_id := Some ''agent:steward''\<rparr>)"
    by blast
  with use[of linked_graph "''embodiment:trolley''" "''agent:guest''" linked_graph trolley] show ?thesis by simp
qed

theorem removal_is_complete_witness: "agent_id trolley = None \<and> emb_id trolley = ''embodiment:trolley''"
proof -
  have "plain_graph trolley_graph"
    by (simp add: plain_graph_def trolley_graph_def agents_graph_def)
  from removal_is_complete[OF reference_store.surreal_db_axioms this] trolley_unassigned show ?thesis by blast
qed

section \<open>Starting up\<close>

lemma new_catalog_bodies:
  assumes "new_catalog bs agents = Inr c" and "\<forall>b \<in> set bs. wf_embodiment b"
    and "map_of (bodies c) i = Some b"
  shows "emb_id b = i \<and> wf_embodiment b"
  using assms by (auto simp: new_catalog_def bind_res_iff dest!: add_bodies_ok[where recs = "[]" and i = i and b = b])

lemma store_list_wf: "store_list api db = Inr bs \<Longrightarrow> \<forall>b \<in> set bs. wf_embodiment b"
  unfolding store_list_def bind_res_Inr_iff using list_of_rows_wf by blast

text \<open>The runtime the application opens from the database satisfies the invariant from which
  requests start, whatever the database holds: no body has a session and no sample is stored, and
  every cached body is well formed and filed under its identifier. So every runtime that is reached
  from it by requests that resolve bodies in a database satisfies the invariant too.\<close>

theorem opened_runtime_invariant:
  assumes "open_embodiment_runtime api db agents inst spaces window = (db', Inr r0)"
  shows "(\<forall>i. current_session r0 i = None) \<and> (\<forall>r. reachable r0 r \<longrightarrow> runtime_ok r)
    \<and> call_ok (store_get api db, now, c1, c2, rq)"
proof -
  from assms obtain c db2 bs ids where cat: "new_catalog bs ids = Inr c" and bs: "store_list api db2 = Inr bs"
    and o: "open_runtime c inst spaces window = Inr r0"
    by (auto simp: open_embodiment_runtime_def store_catalog_def bind_res_Inr_iff split: prod.splits sum.splits)
  have "runtime_ok r0"
    by (rule open_runtime_ok[OF o]) (rule new_catalog_bodies[OF cat store_list_wf[OF bs]])
  moreover have "current_session r0 i = None" for i
    using o by (auto simp: open_runtime_def bind_res_Inr_iff current_session_def new_connections_def)
  moreover have "call_ok (store_get api db, now, c1, c2, rq)"
    by (simp add: call_ok_def stored.identity_reader_axioms)
  ultimately show ?thesis using reachable_ok by blast
qed

theorem opened_runtime_invariant_witness:
  "\<exists>r0. snd (open_embodiment_runtime graph_api linked_graph
       [\<lparr>ag_entity = ''agent:steward'', ag_display = ''Steward'', ag_key = ''steward''\<rparr>] ''a1'' [''space:hall'']
       (VFloat (Fin 5))) = Inr r0
     \<and> (\<forall>i. current_session r0 i = None) \<and> (\<forall>r. reachable r0 r \<longrightarrow> runtime_ok r)"
proof -
  let ?o = "open_embodiment_runtime graph_api linked_graph
       [\<lparr>ag_entity = ''agent:steward'', ag_display = ''Steward'', ag_key = ''steward''\<rparr>] ''a1'' [''space:hall'']
       (VFloat (Fin 5))"
  have "case snd ?o of Inl _ \<Rightarrow> False | Inr _ \<Rightarrow> True" by code_simp
  then obtain r0 where "snd ?o = Inr r0" by (auto split: sum.splits)
  then show ?thesis using opened_runtime_invariant[of graph_api linked_graph _ _ _ _ "fst ?o" r0]
    by (metis prod.collapse)
qed

end
