(* ===== verification/EdgeSchema.thy ===== *)
theory EdgeSchema
  imports RecordIds
begin

text \<open>
  \<open>persistence/edge_schema.py\<close>: relationship schemas read from YAML documents, the registry that holds
  them under their identifiers and their inverse names, and the check of the endpoints of an edge.
  The YAML parser is outside: a schema file is its stem and the value the parser gives for it.
\<close>

record edge_schema =
  es_id :: string
  es_symmetric :: bool
  es_from :: "string list"
  es_to :: "string list"
  es_temporal :: bool
  es_inverse :: "string option"
  es_unique_from :: bool
  es_scope_parent :: bool

record registry =
  rg_schemas :: "edge_schema dict"
  rg_inverse :: "string dict"

section \<open>Parsing\<close>

definition schema_name :: "pyval \<Rightarrow> string res" where
  "schema_name v = (case v of
     VStr s \<Rightarrow> if table_name s then Inr s else Inl ValueError | _ \<Rightarrow> Inl ValueError)"

definition schema_names :: "pyval \<Rightarrow> string list res" where
  "schema_names v = (case v of
     VList vs \<Rightarrow> if vs = [] then Inl ValueError
       else bind_res (map_res schema_name vs) (\<lambda>ns. if distinct ns then Inr ns else Inl ValueError)
   | _ \<Rightarrow> Inl ValueError)"

definition schema_boolean :: "pyval \<Rightarrow> bool res" where
  "schema_boolean v = (case v of VBool b \<Rightarrow> Inr b | _ \<Rightarrow> Inl ValueError)"

definition get_default :: "(string \<times> pyval) list \<Rightarrow> string \<Rightarrow> pyval \<Rightarrow> pyval" where
  "get_default d k v = (case map_of d k of None \<Rightarrow> v | Some w \<Rightarrow> w)"

definition schema_fields :: "string set" where
  "schema_fields = {''id'', ''symmetric'', ''from_types'', ''to_types'', ''temporal'', ''inverse_name'',
     ''unique_from'', ''scope_parent''}"

definition parse_inverse :: "pyval \<Rightarrow> string \<Rightarrow> bool \<Rightarrow> string option res" where
  "parse_inverse v sid symmetric =
     (if v = VNone then Inr None
      else bind_res (schema_name v) (\<lambda>tab.
        if symmetric then Inl ValueError
        else if tab = sid then Inl ValueError else Inr (Some tab)))"

definition parse_schema :: "pyval \<Rightarrow> edge_schema res" where
  "parse_schema raw = (case raw of
     VDict d \<Rightarrow>
       if \<not> set (map fst d) \<subseteq> schema_fields then Inl ValueError
       else
         bind_res (schema_name (get_or_None d ''id'')) (\<lambda>sid.
         bind_res (schema_boolean (get_or_None d ''symmetric'')) (\<lambda>symmetric.
         bind_res (schema_names (get_or_None d ''from_types'')) (\<lambda>from_types.
         bind_res (schema_names (get_or_None d ''to_types'')) (\<lambda>to_types.
         bind_res (schema_boolean (get_or_None d ''temporal'')) (\<lambda>temporal.
         bind_res (schema_boolean (get_default d ''unique_from'' (VBool False))) (\<lambda>unique_from.
         bind_res (schema_boolean (get_default d ''scope_parent'' (VBool False))) (\<lambda>scope_parent.
         bind_res (parse_inverse (get_or_None d ''inverse_name'') sid symmetric) (\<lambda>inverse.
           if symmetric \<and> unique_from then Inl ValueError
           else Inr \<lparr>es_id = sid, es_symmetric = symmetric, es_from = from_types, es_to = to_types,
                     es_temporal = temporal, es_inverse = inverse, es_unique_from = unique_from,
                     es_scope_parent = scope_parent\<rparr>))))))))
   | _ \<Rightarrow> Inl ValueError)"

section \<open>The registry\<close>

fun inverse_table :: "edge_schema dict \<Rightarrow> edge_schema list \<Rightarrow> string dict \<Rightarrow> string dict res" where
  "inverse_table schemas [] tab = Inr tab"
| "inverse_table schemas (s # ss) tab =
     (case es_inverse s of
        None \<Rightarrow> inverse_table schemas ss tab
      | Some n \<Rightarrow>
          if map_of schemas n \<noteq> None then Inl ValueError
          else (case map_of tab n of
                  None \<Rightarrow> inverse_table schemas ss (AList.update n (es_id s) tab)
                | Some previous \<Rightarrow> if previous \<noteq> es_id s then Inl ValueError
                    else inverse_table schemas ss tab))"

definition new_registry :: "edge_schema dict \<Rightarrow> registry res" where
  "new_registry schemas =
     (if schemas = [] then Inl ValueError
      else bind_res (inverse_table schemas (map snd schemas) []) (\<lambda>tab.
        Inr \<lparr>rg_schemas = schemas, rg_inverse = tab\<rparr>))"

fun load_schemas :: "(string \<times> pyval) list \<Rightarrow> edge_schema dict \<Rightarrow> edge_schema dict res" where
  "load_schemas [] schemas = Inr schemas"
| "load_schemas ((stem, raw) # files) schemas =
     bind_res (parse_schema raw) (\<lambda>s.
       if es_id s \<noteq> stem then Inl ValueError
       else if map_of schemas (es_id s) \<noteq> None then Inl ValueError
       else load_schemas files (AList.update (es_id s) s schemas))"

text \<open>\<open>from_directory\<close>: the files of an existing directory, in the order of their paths.\<close>

definition from_directory :: "(string \<times> pyval) list option \<Rightarrow> registry res" where
  "from_directory files = (case files of
     None \<Rightarrow> Inl FileNotFoundError
   | Some fs \<Rightarrow> bind_res (load_schemas (sort_key (\<lambda>f. fst f @ ''.yaml'') fs) []) new_registry)"

text \<open>\<open>load_default\<close>: the first candidate that is a directory.\<close>

definition load_default :: "(string \<times> pyval) list option list \<Rightarrow> registry res" where
  "load_default candidates = (case find (\<lambda>c. c \<noteq> None) candidates of
     None \<Rightarrow> Inl FileNotFoundError | Some c \<Rightarrow> from_directory c)"

definition relationship_names :: "registry \<Rightarrow> string list" where
  "relationship_names r = sort (map fst (rg_schemas r))"

definition public_names :: "registry \<Rightarrow> string list" where
  "public_names r = sort (map fst (rg_schemas r) @ map fst (rg_inverse r))"

definition get_schema :: "registry \<Rightarrow> string \<Rightarrow> edge_schema res" where
  "get_schema r n = (case map_of (rg_schemas r) n of
     None \<Rightarrow> Inl UnknownEdgeSchemaError | Some s \<Rightarrow> Inr s)"

definition resolve :: "registry \<Rightarrow> string \<Rightarrow> (edge_schema \<times> bool) res" where
  "resolve r n = (case map_of (rg_schemas r) n of
     Some s \<Rightarrow> Inr (s, False)
   | None \<Rightarrow> (case map_of (rg_inverse r) n of
       Some c \<Rightarrow> (case map_of (rg_schemas r) c of Some s \<Rightarrow> Inr (s, True) | None \<Rightarrow> Inl KeyError)
     | None \<Rightarrow> bind_res (get_schema r n) (\<lambda>_. Inl AssertionError)))"

definition scope_parent_relations :: "registry \<Rightarrow> string \<Rightarrow> string list" where
  "scope_parent_relations r t =
     sort (map es_id (filter (\<lambda>s. es_scope_parent s \<and> t \<in> set (es_from s)) (map snd (rg_schemas r))))"

definition allowed_ends :: "edge_schema \<Rightarrow> string \<Rightarrow> string \<Rightarrow> bool" where
  "allowed_ends s a b \<longleftrightarrow> a \<in> set (es_from s) \<and> b \<in> set (es_to s)
     \<or> es_symmetric s \<and> a \<in> set (es_to s) \<and> b \<in> set (es_from s)"

definition validate_endpoints :: "registry \<Rightarrow> string \<Rightarrow> string \<Rightarrow> string \<Rightarrow> unit res" where
  "validate_endpoints r n a b = bind_res (get_schema r n) (\<lambda>s. guard (allowed_ends s a b) ValueError)"

section \<open>Well-formed registries\<close>

definition wf_schema :: "edge_schema \<Rightarrow> bool" where
  "wf_schema s \<longleftrightarrow> table_name (es_id s) \<and> es_from s \<noteq> [] \<and> es_to s \<noteq> []
     \<and> distinct (es_from s) \<and> distinct (es_to s)
     \<and> list_all table_name (es_from s) \<and> list_all table_name (es_to s)
     \<and> (es_symmetric s \<longrightarrow> es_inverse s = None \<and> \<not> es_unique_from s)
     \<and> (\<forall>n. es_inverse s = Some n \<longrightarrow> table_name n \<and> n \<noteq> es_id s)"

definition wf_registry :: "registry \<Rightarrow> bool" where
  "wf_registry r \<longleftrightarrow> rg_schemas r \<noteq> [] \<and> distinct (map fst (rg_schemas r))
     \<and> (\<forall>n s. map_of (rg_schemas r) n = Some s \<longrightarrow> es_id s = n \<and> wf_schema s)
     \<and> (\<forall>n c. map_of (rg_inverse r) n = Some c \<longleftrightarrow>
          (\<exists>s. map_of (rg_schemas r) c = Some s \<and> es_inverse s = Some n))
     \<and> (\<forall>n. map_of (rg_inverse r) n \<noteq> None \<longrightarrow> map_of (rg_schemas r) n = None)"

lemma schema_name_Inr: "schema_name v = Inr s \<longleftrightarrow> v = VStr s \<and> table_name s"
  by (auto simp: schema_name_def Inr_iffs)

lemma schema_boolean_Inr: "schema_boolean v = Inr b \<longleftrightarrow> v = VBool b"
  by (cases v) (auto simp: schema_boolean_def)

lemma schema_names_Inr:
  "schema_names v = Inr ns \<longleftrightarrow> v = VList (map VStr ns) \<and> ns \<noteq> [] \<and> distinct ns \<and> list_all table_name ns"
proof -
  have "map_res schema_name vs = Inr ns \<longleftrightarrow> vs = map VStr ns \<and> list_all table_name ns" for vs
  proof (induction vs arbitrary: ns)
    case (Cons v vs)
    then show ?case by (cases ns) (auto simp: bind_res_Inr_iff schema_name_Inr)
  qed auto
  then show ?thesis by (auto simp: schema_names_def Inr_iffs)
qed

lemma parse_inverse_Inr:
  "parse_inverse v sid b = Inr r \<longleftrightarrow>
     (case r of None \<Rightarrow> v = VNone | Some n \<Rightarrow> v = VStr n \<and> table_name n \<and> \<not> b \<and> n \<noteq> sid)"
  by (cases r) (auto simp: parse_inverse_def Inr_iffs schema_name_Inr)

lemma parse_schema_wf: "parse_schema v = Inr s \<Longrightarrow> wf_schema s"
  by (auto simp: parse_schema_def Inr_iffs wf_schema_def schema_name_Inr schema_names_Inr
      parse_inverse_Inr split: option.splits)

text \<open>The inverse table holds exactly the inverse names of the schemas that were visited.\<close>

lemma inverse_table_sound:
  assumes "inverse_table schemas ss tab = Inr tab'" and "map_of tab' n = Some c"
  shows "map_of tab n = Some c \<or> (\<exists>s \<in> set ss. es_id s = c \<and> es_inverse s = Some n \<and> map_of schemas n = None)"
  using assms
proof (induction schemas ss tab rule: inverse_table.induct)
  case (2 schemas s ss tab)
  then show ?case by (auto simp: store_simps split: option.splits if_splits)
qed simp

lemma inverse_table_complete:
  assumes "inverse_table schemas ss tab = Inr tab'"
  shows "(\<forall>n c. map_of tab n = Some c \<longrightarrow> map_of tab' n = Some c)
    \<and> (\<forall>s n. s \<in> set ss \<longrightarrow> es_inverse s = Some n \<longrightarrow> map_of tab' n = Some (es_id s) \<and> map_of schemas n = None)"
  using assms
proof (induction schemas ss tab rule: inverse_table.induct)
  case (2 schemas s ss tab)
  show ?case
  proof (cases "es_inverse s")
    case None
    with 2(1)[OF None] 2(4) show ?thesis by auto
  next
    case (Some n)
    show ?thesis
    proof (cases "map_of tab n")
      case None
      with Some 2(2)[OF Some _ None] 2(4) show ?thesis
        by (auto simp: store_simps split: if_splits) (metis map_of_update option.distinct(1))+
    next
      case (Some c)
      with \<open>es_inverse s = Some n\<close> 2(3)[OF \<open>es_inverse s = Some n\<close> _ Some] 2(4) show ?thesis
        by (auto split: if_splits)
    qed
  qed
qed simp

definition keyed_by_id :: "edge_schema dict \<Rightarrow> bool" where
  "keyed_by_id d \<longleftrightarrow> distinct (map fst d) \<and> (\<forall>n s. map_of d n = Some s \<longrightarrow> es_id s = n \<and> wf_schema s)"

lemma load_schemas_keyed:
  "keyed_by_id d \<Longrightarrow> load_schemas fs d = Inr d' \<Longrightarrow> keyed_by_id d'"
proof (induction fs d rule: load_schemas.induct)
  case (2 stem raw files d)
  then obtain s where "parse_schema raw = Inr s"
    "load_schemas files (AList.update (es_id s) s d) = Inr d'"
    by (auto simp: Inr_iffs)
  moreover have "keyed_by_id (AList.update (es_id s) s d)"
    using 2(2) parse_schema_wf[OF \<open>parse_schema raw = Inr s\<close>]
    by (auto simp: keyed_by_id_def store_simps distinct_update split: if_splits)
  ultimately show ?case using 2(1) 2(3) by (auto simp: Inr_iffs)
qed simp

lemma new_registry_wf:
  assumes "keyed_by_id d" and "new_registry d = Inr r"
  shows "wf_registry r"
proof -
  from assms(2) obtain tab where t: "inverse_table d (map snd d) [] = Inr tab"
    and r: "r = \<lparr>rg_schemas = d, rg_inverse = tab\<rparr>" and ne: "d \<noteq> []"
    by (auto simp: new_registry_def Inr_iffs)
  have vals: "s \<in> set (map snd d) \<longleftrightarrow> map_of d (es_id s) = Some s" for s
  proof
    assume "s \<in> set (map snd d)"
    then obtain k where "(k, s) \<in> set d" by auto
    then have "map_of d k = Some s" using assms(1) by (simp add: keyed_by_id_def)
    then show "map_of d (es_id s) = Some s" using assms(1) by (auto simp: keyed_by_id_def)
  qed (auto dest!: map_of_SomeD simp: image_iff intro!: bexI)
  have iff: "map_of tab n = Some c \<longleftrightarrow> (\<exists>s. map_of d c = Some s \<and> es_inverse s = Some n)" for n c
  proof
    assume "map_of tab n = Some c"
    then show "\<exists>s. map_of d c = Some s \<and> es_inverse s = Some n"
      using inverse_table_sound[OF t] vals by fastforce
  next
    assume "\<exists>s. map_of d c = Some s \<and> es_inverse s = Some n"
    then obtain s where s: "map_of d c = Some s" "es_inverse s = Some n" by blast
    then have "es_id s = c" using assms(1) by (simp add: keyed_by_id_def)
    then show "map_of tab n = Some c" using inverse_table_complete[OF t] vals[of s] s by simp
  qed
  moreover have apart: "map_of tab n \<noteq> None \<Longrightarrow> map_of d n = None" for n
    using inverse_table_sound[OF t, of n] by auto
  ultimately show ?thesis
    using assms(1) ne unfolding wf_registry_def keyed_by_id_def r registry.simps by blast
qed

text \<open>A registry that is loaded from a directory is well formed: every schema is filed under its
  own identifier, inverse names are exactly those the schemas declare, none is also the name of a
  schema, and symmetric relations have neither an inverse nor a unique source.\<close>

theorem loaded_registry_wf:
  assumes "from_directory files = Inr r"
  shows "wf_registry r"
proof -
  from assms obtain d fs where "load_schemas fs [] = Inr d" "new_registry d = Inr r"
    by (auto simp: from_directory_def Inr_iffs)
  moreover have "keyed_by_id []" by (simp add: keyed_by_id_def)
  ultimately show ?thesis using load_schemas_keyed new_registry_wf by blast
qed

text \<open>A relation name resolves to one schema and one direction: to the schema of that name
  forwards, to the schema that declares it as its inverse name backwards, and to an error exactly
  when it is neither.\<close>

theorem resolve_exact:
  assumes "wf_registry r"
  shows "(resolve r n = Inr (s, backwards) \<longleftrightarrow> map_of (rg_schemas r) (es_id s) = Some s
       \<and> (if backwards then es_inverse s = Some n else es_id s = n))
    \<and> (resolve r n = Inl e \<longleftrightarrow> e = UnknownEdgeSchemaError \<and> map_of (rg_schemas r) n = None
       \<and> \<not> (\<exists>c t. map_of (rg_schemas r) c = Some t \<and> es_inverse t = Some n))"
proof -
  have iff: "\<And>c. map_of (rg_inverse r) n = Some c \<longleftrightarrow>
      (\<exists>s. map_of (rg_schemas r) c = Some s \<and> es_inverse s = Some n)"
    and key: "\<And>c s. map_of (rg_schemas r) c = Some s \<Longrightarrow> es_id s = c"
    and apart: "map_of (rg_inverse r) n \<noteq> None \<Longrightarrow> map_of (rg_schemas r) n = None"
    using assms by (auto simp: wf_registry_def)
  show ?thesis
  proof (cases "map_of (rg_schemas r) n")
    case (Some t)
    have "map_of (rg_inverse r) n = None" using apart Some by fastforce
    then have "es_inverse s \<noteq> Some n" if "map_of (rg_schemas r) c = Some s" for c s
      using iff[of c] that by auto
    moreover have "resolve r n = Inr (t, False)" using Some by (simp add: resolve_def)
    ultimately show ?thesis using Some key[OF Some] by (cases backwards) auto
  next
    case None
    show ?thesis
    proof (cases "map_of (rg_inverse r) n")
      case (Some c)
      then obtain t where t: "map_of (rg_schemas r) c = Some t" "es_inverse t = Some n" using iff by blast
      have u: "map_of (rg_schemas r) (es_id s) = Some s \<and> es_inverse s = Some n \<longleftrightarrow> s = t"
      proof
        assume a: "map_of (rg_schemas r) (es_id s) = Some s \<and> es_inverse s = Some n"
        then have "map_of (rg_inverse r) n = Some (es_id s)" using iff by blast
        with Some t a show "s = t" by simp
      qed (use t key[OF t(1)] in simp)
      have e: "\<exists>c t. map_of (rg_schemas r) c = Some t \<and> es_inverse t = Some n" using t by blast
      have "resolve r n = Inr (t, True)" using None Some t by (simp add: resolve_def)
      then show ?thesis using u e None by (cases backwards) auto
    next
      case False: None
      then have "\<not> (\<exists>c t. map_of (rg_schemas r) c = Some t \<and> es_inverse t = Some n)" using iff by fastforce
      moreover have "resolve r n = Inl UnknownEdgeSchemaError"
        using None False by (simp add: resolve_def get_schema_def)
      ultimately show ?thesis using None by (cases backwards) auto
    qed
  qed
qed

text \<open>The endpoints of an edge are accepted exactly when they fit the declared types, in either
  direction for a symmetric relation, and an unknown relation is a lookup error.\<close>

theorem validate_endpoints_exact:
  "validate_endpoints r n a b =
    (case map_of (rg_schemas r) n of
       None \<Rightarrow> Inl UnknownEdgeSchemaError
     | Some s \<Rightarrow> if a \<in> set (es_from s) \<and> b \<in> set (es_to s)
           \<or> es_symmetric s \<and> b \<in> set (es_from s) \<and> a \<in> set (es_to s)
         then Inr () else Inl ValueError)"
  by (auto simp: validate_endpoints_def get_schema_def allowed_ends_def guard_def split: option.split)


text \<open>The location relation of the deployment.\<close>

definition located_in :: edge_schema where
  "located_in = \<lparr>es_id = ''located_in'', es_symmetric = False, es_from = [''item''],
     es_to = [''address'', ''space''], es_temporal = False, es_inverse = Some ''contains'',
     es_unique_from = True, es_scope_parent = True\<rparr>"

definition located_in_file :: "string \<times> pyval" where
  "located_in_file = (''located_in'', VDict [(''id'', VStr ''located_in''), (''symmetric'', VBool False),
     (''from_types'', VList [VStr ''item'']), (''to_types'', VList [VStr ''address'', VStr ''space'']),
     (''inverse_name'', VStr ''contains''), (''temporal'', VBool False), (''unique_from'', VBool True),
     (''scope_parent'', VBool True)])"

definition location_registry :: registry where
  "location_registry = \<lparr>rg_schemas = [(''located_in'', located_in)],
     rg_inverse = [(''contains'', ''located_in'')]\<rparr>"

lemma location_registry_loads: "from_directory (Some [located_in_file]) = Inr location_registry"
  by code_simp

lemma location_registry_wf: "wf_registry location_registry"
proof -
  obtain d where "load_schemas [located_in_file] [] = Inr d" "new_registry d = Inr location_registry"
    using location_registry_loads by (auto simp: from_directory_def Inr_iffs)
  moreover have "keyed_by_id []" by (simp add: keyed_by_id_def)
  ultimately show ?thesis using load_schemas_keyed new_registry_wf by blast
qed

theorem loaded_registry_wf_witness: "wf_registry location_registry"
  by (rule loaded_registry_wf[OF location_registry_loads])

theorem resolve_exact_witness:
  "resolve location_registry ''contains'' = Inr (located_in, True)
   \<and> resolve location_registry ''near'' = Inl UnknownEdgeSchemaError"
  using resolve_exact[OF location_registry_wf, of "''contains''" located_in True]
    resolve_exact[OF location_registry_wf, of "''near''" located_in True UnknownEdgeSchemaError]
  by (simp add: location_registry_def located_in_def)

end
