(* ===== verification/ItemWriting.thy ===== *)
theory ItemWriting
  imports Surreal EdgeSchema
begin

text \<open>
  \<open>mutation/writing.py\<close>: the one path from a semantic item mutation to a database transaction. The
  deployed schema of items, the relation registry, the location relation and the writable
  properties form the service record; the database access \<open>api\<close> and its state are arguments. The
  validation that pydantic derives from the request models is an argument too; what it
  guarantees is the predicate \<open>request_ok\<close>, which collects the field patterns and the validators of the
  models.
\<close>

section \<open>Requests and results\<close>

datatype mode = Commit | Preview

record mutation_source =
  so_type :: string
  so_session :: "string option"

datatype write_request =
    CreateItem string fields string mode "mutation_source option"
  | UpdateLocation string string mode "mutation_source option"
  | UpdateAttributes string fields mode "mutation_source option"
  | DeleteItem string mode "mutation_source option"

fun request_mode :: "write_request \<Rightarrow> mode" where
  "request_mode (CreateItem i p l m s) = m"
| "request_mode (UpdateLocation i l m s) = m"
| "request_mode (UpdateAttributes i p m s) = m"
| "request_mode (DeleteItem i m s) = m"

fun request_entity :: "write_request \<Rightarrow> string" where
  "request_entity (CreateItem i p l m s) = i"
| "request_entity (UpdateLocation i l m s) = i"
| "request_entity (UpdateAttributes i p m s) = i"
| "request_entity (DeleteItem i m s) = i"

fun request_source :: "write_request \<Rightarrow> mutation_source option" where
  "request_source (CreateItem i p l m s) = s"
| "request_source (UpdateLocation i l m s) = s"
| "request_source (UpdateAttributes i p m s) = s"
| "request_source (DeleteItem i m s) = s"

fun request_operation :: "write_request \<Rightarrow> string" where
  "request_operation (CreateItem i p l m s) = ''create''"
| "request_operation (UpdateLocation i l m s) = ''update_location''"
| "request_operation (UpdateAttributes i p m s) = ''update_attributes''"
| "request_operation (DeleteItem i m s) = ''delete''"

definition item_id :: "string \<Rightarrow> bool" where
  "item_id i \<longleftrightarrow> (case split_record_id i of Inr (t, k) \<Rightarrow> t = ''item'' | Inl e \<Rightarrow> False)"

definition source_ok :: "mutation_source option \<Rightarrow> bool" where
  "source_ok s = (case s of None \<Rightarrow> True | Some x \<Rightarrow>
     1 \<le> length (so_type x) \<and> length (so_type x) \<le> 64 \<and> is_alpha (hd (so_type x))
     \<and> list_all key_char (so_type x)
     \<and> (case so_session x of None \<Rightarrow> True | Some t \<Rightarrow> 1 \<le> length t \<and> length t \<le> 256))"

definition item_definition_ok :: "string \<Rightarrow> fields \<Rightarrow> bool" where
  "item_definition_ok i p \<longleftrightarrow> item_id i \<and> p \<noteq> []
     \<and> set (map fst p) \<inter> {''id'', ''in'', ''out''} = {}"

definition record_id_ok :: "string \<Rightarrow> bool" where
  "record_id_ok s \<longleftrightarrow> match_record_id s \<noteq> None"

fun request_ok :: "write_request \<Rightarrow> bool" where
  "request_ok (CreateItem i p l m s) = (item_definition_ok i p \<and> distinct (map fst p) \<and> record_id_ok l \<and> source_ok s)"
| "request_ok (UpdateLocation i l m s) = (item_id i \<and> record_id_ok l \<and> source_ok s)"
| "request_ok (UpdateAttributes i p m s) = (item_id i \<and> p \<noteq> [] \<and> distinct (map fst p) \<and> source_ok s)"
| "request_ok (DeleteItem i m s) = (item_id i \<and> source_ok s)"

record mutation_error =
  me_code :: string
  me_field :: "string option"

datatype mutation_status = APPLIED | PROPOSED | NO_CHANGE | REJECTED | NOT_FOUND | CONFLICT

record mutation_result =
  mr_status :: mutation_status
  mr_operation :: "string option"
  mr_entity :: "string option"
  mr_nodes :: int
  mr_edges :: int
  mr_previous :: pyval
  mr_resulting :: pyval
  mr_source :: "mutation_source option"
  mr_reason :: "string option"
  mr_errors :: "mutation_error list"

definition result :: "write_request \<Rightarrow> mutation_status \<Rightarrow> mutation_result" where
  "result q status = \<lparr>mr_status = status, mr_operation = Some (request_operation q),
     mr_entity = Some (request_entity q), mr_nodes = 0, mr_edges = 0, mr_previous = VNone,
     mr_resulting = VNone, mr_source = request_source q, mr_reason = None, mr_errors = []\<rparr>"

definition rejected :: "write_request \<Rightarrow> mutation_error \<Rightarrow> mutation_result" where
  "rejected q e = (result q REJECTED)\<lparr>mr_reason := Some (me_code e), mr_errors := [e]\<rparr>"

definition plain_error :: "string \<Rightarrow> mutation_error" where
  "plain_error code = \<lparr>me_code = code, me_field = None\<rparr>"

definition field_error :: "string \<Rightarrow> string \<Rightarrow> mutation_error" where
  "field_error code field = \<lparr>me_code = code, me_field = Some field\<rparr>"

definition database_rejected :: "write_request \<Rightarrow> pyval \<Rightarrow> mutation_result" where
  "database_rejected q previous =
     (rejected q (plain_error ''TRANSACTION_FAILED''))\<lparr>mr_previous := previous\<rparr>"

definition storage_rejected :: "write_request \<Rightarrow> mutation_result" where
  "storage_rejected q = rejected q (plain_error ''STORAGE_FAILURE'')"

text \<open>The answer to a request that the models refuse. An operation that is a list or an object cannot be looked
  up in the set of the four names: that lookup raises.\<close>

definition malformed_result :: "pyval \<Rightarrow> mutation_result res" where
  "malformed_result raw =
     (let getr = (\<lambda>k. case raw of VDict d \<Rightarrow> get_or_None d k | _ \<Rightarrow> VNone);
          entity = (case getr ''item'' of VDict d \<Rightarrow> get_or_None d ''id'' | _ \<Rightarrow> getr ''item_id'');
          entity_id = (case entity of
             VStr s \<Rightarrow> if take 5 s = ''item:'' then Some s else None | _ \<Rightarrow> None)
      in bind_res (case getr ''operation'' of
             VStr s \<Rightarrow> Inr (if s \<in> {''create'', ''update_location'', ''update_attributes'', ''delete''}
                          then Some s else None)
           | VList vs \<Rightarrow> Inl TypeError
           | VDict d \<Rightarrow> Inl TypeError
           | _ \<Rightarrow> Inr None) (\<lambda>operation.
         Inr \<lparr>mr_status = REJECTED, mr_operation = operation, mr_entity = entity_id, mr_nodes = 0, mr_edges = 0,
          mr_previous = VNone, mr_resulting = VNone, mr_source = None, mr_reason = Some ''INVALID_REQUEST'',
          mr_errors = [plain_error ''INVALID_REQUEST'']\<rparr>))"

section \<open>The service\<close>

record item_schema =
  is_properties :: "string list"
  is_types :: "string dict"

record writer =
  w_items :: "item_schema option"
  w_registry :: registry
  w_location :: string
  w_writable :: "string list"

text \<open>The constructor: the name of the location relation in the ontology, its registered schema, and the
  first field of every writable property of the ontology.\<close>

definition new_writer ::
  "item_schema option \<Rightarrow> registry \<Rightarrow> string option \<Rightarrow> (string list \<times> bool) list \<Rightarrow> writer res" where
  "new_writer items reg location_name props =
     (case location_name of
        None \<Rightarrow> Inl ValueError
      | Some n \<Rightarrow> bind_res (resolve reg n) (\<lambda>(s, backwards).
          if \<not> es_unique_from s then Inl ValueError
          else bind_res (validate_endpoints reg (es_id s) ''item'' ''space'') (\<lambda>_.
            Inr \<lparr>w_items = items, w_registry = reg, w_location = es_id s,
                 w_writable = map (\<lambda>p. hd (fst p)) (filter (\<lambda>p. snd p \<and> fst p \<noteq> []) props)\<rparr>)))"

section \<open>Reading authoritative state\<close>

fun json_value :: "pyval \<Rightarrow> pyval"
  and json_list :: "pyval list \<Rightarrow> pyval list"
  and json_items :: "fields \<Rightarrow> fields" where
  "json_value (VDict d) = VDict (json_items d)"
| "json_value (VList vs) = VList (json_list vs)"
| "json_value (VRec t k) = VStr (canonical (t, k))"
| "json_value v = v"
| "json_list [] = []"
| "json_list (v # vs) = json_value v # json_list vs"
| "json_items [] = []"
| "json_items ((k, v) # d) = (k, json_value v) # json_items d"

definition item_record :: "'db surreal \<Rightarrow> 'db \<Rightarrow> string \<Rightarrow> fields option res" where
  "item_record api db i =
     bind_res (as_record_id i) (\<lambda>r. bind_res (q_only api db r) (\<lambda>v.
       let w = (case v of VList (x # _) \<Rightarrow> x | VList [] \<Rightarrow> VNone | _ \<Rightarrow> v)
       in Inr (case w of VDict d \<Rightarrow> Some (json_items d) | _ \<Rightarrow> None)))"

definition current_locations :: "'db surreal \<Rightarrow> writer \<Rightarrow> 'db \<Rightarrow> string \<Rightarrow> string list res" where
  "current_locations api w db i =
     bind_res (as_record_id i) (\<lambda>r.
       case q_out api db (w_location w) r of
         Inl (NotFoundError m) \<Rightarrow> Inr []
       | Inl e \<Rightarrow> Inl e
       | Inr v \<Rightarrow> Inr (case v of VNone \<Rightarrow> [] | VList vs \<Rightarrow> sort (map canonical_val vs)
                       | _ \<Rightarrow> [canonical_val v]))"

definition item_relations :: "writer \<Rightarrow> string list res" where
  "item_relations w = bind_res (map_res (\<lambda>n. bind_res (get_schema (w_registry w) n) (\<lambda>s. Inr (n, s)))
       (relationship_names (w_registry w))) (\<lambda>ns.
     Inr (map fst (filter (\<lambda>(n, s). ''item'' \<in> set (es_from s) \<or> ''item'' \<in> set (es_to s)) ns)))"

text \<open>\<open>int(records[0].get("count", 0)) if records else 0\<close>; the driver returns the count as a number.\<close>

definition read_count :: "pyval \<Rightarrow> int res" where
  "read_count v =
     (let records = (case v of VList vs \<Rightarrow> vs | _ \<Rightarrow> if truthy v then [v] else []) in
      case records of [] \<Rightarrow> Inr 0
      | x # _ \<Rightarrow> (case x of VDict d \<Rightarrow>
            (case get_default d ''count'' (VInt 0) of VInt n \<Rightarrow> Inr n
             | VBool b \<Rightarrow> Inr (if b then 1 else 0)
             | VFloat (Fin q) \<Rightarrow> Inr (if q < 0 then - floor (- q) else floor q)
             | VFloat NaN \<Rightarrow> Inl ValueError
             | VFloat _ \<Rightarrow> Inl OverflowError
             | VStr s \<Rightarrow> Inl ValueError
             | _ \<Rightarrow> Inl TypeError)
          | _ \<Rightarrow> Inl AttributeError))"

fun incident_edges :: "'db surreal \<Rightarrow> 'db \<Rightarrow> rid \<Rightarrow> string list \<Rightarrow> (string \<times> int) list res" where
  "incident_edges api db r [] = Inr []"
| "incident_edges api db r (n # ns) =
     (case q_count api db n r of
        Inl (NotFoundError m) \<Rightarrow> incident_edges api db r ns
      | Inl e \<Rightarrow> Inl e
      | Inr v \<Rightarrow> bind_res (read_count v) (\<lambda>c.
          bind_res (incident_edges api db r ns) (\<lambda>rest.
            Inr (if c = 0 then rest else (n, c) # rest))))"

section \<open>Validation\<close>

definition valid_text :: "pyval \<Rightarrow> bool" where
  "valid_text v = (case v of VStr s \<Rightarrow> strip s \<noteq> [] | _ \<Rightarrow> False)"

definition valid_name :: "pyval \<Rightarrow> bool" where
  "valid_name v = (case v of
     VStr s \<Rightarrow> strip s \<noteq> []
   | VDict d \<Rightarrow> d \<noteq> [] \<and> list_all (\<lambda>x. valid_text (snd x)) d
   | VList vs \<Rightarrow> vs \<noteq> [] \<and> list_all valid_text vs \<and> distinct vs
   | _ \<Rightarrow> False)"

text \<open>A parser that raises \<open>ValueError\<close> means that the value is not of the kind.\<close>

definition parses :: "'a res \<Rightarrow> bool res" where
  "parses m = (case m of Inr x \<Rightarrow> Inr True | Inl e \<Rightarrow> if is_value_error e then Inr False else Inl e)"

definition matches_kind :: "pyval \<Rightarrow> string \<Rightarrow> bool res" where
  "matches_kind v kind =
     (if kind \<in> {''unknown'', ''any''} then Inr True
      else if kind = ''boolean'' then Inr (case v of VBool b \<Rightarrow> True | _ \<Rightarrow> False)
      else if kind = ''integer'' then Inr (case v of VInt i \<Rightarrow> True | _ \<Rightarrow> False)
      else if kind = ''number'' then (case v of VInt i \<Rightarrow> isfinite v | VFloat f \<Rightarrow> isfinite v | _ \<Rightarrow> Inr False)
      else if kind = ''string'' then Inr (case v of VStr s \<Rightarrow> True | _ \<Rightarrow> False)
      else if kind = ''object'' then Inr (case v of VDict d \<Rightarrow> True | _ \<Rightarrow> False)
      else if kind = ''collection'' then Inr (case v of VList vs \<Rightarrow> True | _ \<Rightarrow> False)
      else if kind = ''record'' then Inr (case v of VStr s \<Rightarrow> match_record_id s \<noteq> None | _ \<Rightarrow> False)
      else if kind = ''date'' then (case v of VStr s \<Rightarrow> parses (date_fromisoformat s) | _ \<Rightarrow> Inr False)
      else if kind = ''datetime'' then (case v of VStr s \<Rightarrow> parses (datetime_fromisoformat s) | _ \<Rightarrow> Inr False)
      else Inr False)"

fun validate_kinds :: "item_schema \<Rightarrow> fields \<Rightarrow> mutation_error option res" where
  "validate_kinds sch [] = Inr None"
| "validate_kinds sch ((n, v) # d) =
     (if n = ''item_type'' \<and> (case v of VStr s \<Rightarrow> strip s = [] | _ \<Rightarrow> False)
      then Inr (Some (plain_error ''ITEM_TYPE_REQUIRED''))
      else bind_res (matches_kind v (case map_of (is_types sch) n of None \<Rightarrow> ''unknown'' | Some k \<Rightarrow> k)) (\<lambda>ok.
        if \<not> ok then Inr (Some (field_error ''INVALID_ITEM_PROPERTY_TYPE'' (''item.properties.'' @ n)))
        else validate_kinds sch d))"

definition validate_item_properties :: "writer \<Rightarrow> fields \<Rightarrow> bool \<Rightarrow> mutation_error option res" where
  "validate_item_properties w p require_name =
     (case w_items w of
        None \<Rightarrow> Inr (Some (field_error ''ITEM_SCHEMA_UNAVAILABLE'' ''item.type''))
      | Some sch \<Rightarrow>
          if \<not> set (map fst p) \<subseteq> set (is_properties sch)
          then Inr (Some (field_error ''UNKNOWN_ITEM_PROPERTY'' ''item.properties''))
          else bind_res (validate_kinds sch p) (\<lambda>e. case e of
              Some x \<Rightarrow> Inr (Some x)
            | None \<Rightarrow> Inr (if require_name \<and> \<not> valid_name (get_or_None p ''name'')
                then Some (field_error ''ITEM_NAME_REQUIRED'' ''item.properties.name'') else None)))"

definition validate_location :: "'db surreal \<Rightarrow> writer \<Rightarrow> 'db \<Rightarrow> string \<Rightarrow> mutation_error option res" where
  "validate_location api w db l =
     bind_res (split_record_id l) (\<lambda>(t, k).
       case validate_endpoints (w_registry w) (w_location w) ''item'' t of
         Inl e \<Rightarrow> if is_value_error e then Inr (Some (field_error ''INVALID_LOCATION_TYPE'' ''location_id''))
                  else Inl e
       | Inr u \<Rightarrow> bind_res (item_record api db l) (\<lambda>r.
           Inr (if r = None then Some (field_error ''LOCATION_NOT_FOUND'' ''location_id'') else None)))"

section \<open>The four mutations\<close>

definition location_edge_id :: "writer \<Rightarrow> rid \<Rightarrow> rid \<Rightarrow> rid" where
  "location_edge_id w it loc =
     (w_location w, implicit_edge_component it @ ''__'' @ implicit_edge_component loc)"

text \<open>A handler returns the database state with its result, or the exception that \<open>mutate\<close> catches. The
  last step of a mutation that passed its checks: run the script, report success or the failed
  transaction.\<close>

definition commit ::
  "'db surreal \<Rightarrow> 'db \<Rightarrow> write_request \<Rightarrow> pyval \<Rightarrow> stmt list res \<Rightarrow> mutation_result \<Rightarrow> 'db \<times> mutation_result res" where
  "commit api db q previous script success =
     (case script of
        Inl e \<Rightarrow> (db, Inr (database_rejected q previous))
      | Inr ss \<Rightarrow> (case q_run api db ss of
          (db', Inl e) \<Rightarrow> (db', Inr (database_rejected q previous))
        | (db', Inr u) \<Rightarrow> (db', Inr success)))"

definition create_script :: "writer \<Rightarrow> string \<Rightarrow> string \<Rightarrow> fields \<Rightarrow> stmt list res" where
  "create_script w i l p = bind_res (as_record_id i) (\<lambda>it. bind_res (as_record_id l) (\<lambda>loc.
     Inr [ThrowIfExists it, ThrowIfMissing loc, Create it p,
          Relate (location_edge_id w it loc) it loc]))"

text \<open>\<open>{"item_type": "unknown", **properties}\<close>\<close>

definition with_item_type :: "fields \<Rightarrow> fields" where
  "with_item_type p = merge_fields [(''item_type'', VStr ''unknown'')] p"

definition mutate_create ::
  "'db surreal \<Rightarrow> writer \<Rightarrow> 'db \<Rightarrow> write_request \<Rightarrow> string \<Rightarrow> fields \<Rightarrow> string \<Rightarrow> 'db \<times> mutation_result res" where
  "mutate_create api w db q i p0 l =
     (let p = with_item_type p0 in
      case validate_item_properties w p True of
        Inl e \<Rightarrow> (db, Inl e)
      | Inr (Some err) \<Rightarrow> (db, Inr (rejected q err))
      | Inr None \<Rightarrow>
      (case item_record api db i of
        Inl e \<Rightarrow> (db, Inl e)
      | Inr (Some r) \<Rightarrow> (db, Inr ((result q CONFLICT)\<lparr>mr_reason := Some ''ENTITY_ALREADY_EXISTS''\<rparr>))
      | Inr None \<Rightarrow>
      (case current_locations api w db i of
        Inl e \<Rightarrow> (db, Inl e)
      | Inr (x # xs) \<Rightarrow> (db, Inr ((result q CONFLICT)\<lparr>mr_reason := Some ''ORPHANED_LOCATION_STATE''\<rparr>))
      | Inr [] \<Rightarrow>
      (case validate_location api w db l of
        Inl e \<Rightarrow> (db, Inl e)
      | Inr (Some err) \<Rightarrow> (db, Inr (rejected q err))
      | Inr None \<Rightarrow>
          let success = (result q APPLIED)\<lparr>mr_nodes := 1, mr_edges := 1,
                mr_resulting := VDict [(''entity'', VDict (merge_fields [(''id'', VStr i)] p)),
                                       (''location'', VStr l)]\<rparr>
          in if request_mode q = Preview then (db, Inr (success\<lparr>mr_status := PROPOSED\<rparr>))
             else commit api db q VNone (create_script w i l p) success))))"

definition location_script :: "writer \<Rightarrow> string \<Rightarrow> string \<Rightarrow> bool \<Rightarrow> stmt list res" where
  "location_script w i l moved = bind_res (as_record_id i) (\<lambda>it. bind_res (as_record_id l) (\<lambda>loc.
     Inr ([ThrowIfMissing it, ThrowIfMissing loc]
       @ (if moved then [DeleteOut (w_location w) it] else [])
       @ [Relate (location_edge_id w it loc) it loc])))"

definition mutate_update_location ::
  "'db surreal \<Rightarrow> writer \<Rightarrow> 'db \<Rightarrow> write_request \<Rightarrow> string \<Rightarrow> string \<Rightarrow> 'db \<times> mutation_result res" where
  "mutate_update_location api w db q i l =
     (case item_record api db i of
        Inl e \<Rightarrow> (db, Inl e)
      | Inr None \<Rightarrow> (db, Inr ((result q NOT_FOUND)\<lparr>mr_reason := Some ''ITEM_NOT_FOUND''\<rparr>))
      | Inr (Some r) \<Rightarrow>
      (case validate_location api w db l of
        Inl e \<Rightarrow> (db, Inl e)
      | Inr (Some err) \<Rightarrow> (db, Inr (rejected q err))
      | Inr None \<Rightarrow>
      (case current_locations api w db i of
        Inl e \<Rightarrow> (db, Inl e)
      | Inr cur \<Rightarrow>
        if length cur > 1
        then (db, Inr ((result q CONFLICT)\<lparr>mr_previous := VDict [(''locations'', VList (map VStr cur))],
                        mr_reason := Some ''MULTIPLE_CURRENT_LOCATIONS''\<rparr>))
        else
          let previous = (case cur of [] \<Rightarrow> None | x # _ \<Rightarrow> Some x);
              before = VDict [(''location'', opt_str previous)];
              success = (result q APPLIED)\<lparr>mr_edges := (if previous = None then 1 else 2),
                mr_previous := before, mr_resulting := VDict [(''location'', VStr l)]\<rparr>
          in if previous = Some l
             then (db, Inr (success\<lparr>mr_status := NO_CHANGE, mr_edges := 0,
                              mr_reason := Some ''LOCATION_UNCHANGED''\<rparr>))
             else if request_mode q = Preview then (db, Inr (success\<lparr>mr_status := PROPOSED\<rparr>))
             else commit api db q before (location_script w i l (previous \<noteq> None)) success)))"

definition attributes_script :: "string \<Rightarrow> fields \<Rightarrow> fields \<Rightarrow> stmt list res" where
  "attributes_script i entity p = bind_res (as_record_id i) (\<lambda>it.
     Inr [ThrowIfMissing it, ThrowIfDiffers it (VDict (AList.update ''id'' (rec_val it) entity)),
          Merge it p])"

definition mutate_update_attributes ::
  "'db surreal \<Rightarrow> writer \<Rightarrow> 'db \<Rightarrow> write_request \<Rightarrow> string \<Rightarrow> fields \<Rightarrow> 'db \<times> mutation_result res" where
  "mutate_update_attributes api w db q i p =
     (case item_record api db i of
        Inl e \<Rightarrow> (db, Inl e)
      | Inr None \<Rightarrow> (db, Inr ((result q NOT_FOUND)\<lparr>mr_reason := Some ''ITEM_NOT_FOUND''\<rparr>))
      | Inr (Some entity) \<Rightarrow>
        if \<not> set (map fst p) \<subseteq> set (w_writable w)
        then (db, Inr (rejected q (plain_error ''ATTRIBUTE_NOT_WRITABLE'')))
        else (case validate_item_properties w p False of
            Inl e \<Rightarrow> (db, Inl e)
          | Inr (Some err) \<Rightarrow> (db, Inr (rejected q err))
          | Inr None \<Rightarrow>
              let previous = VDict (map (\<lambda>(k, v). (k, get_or_None entity k)) p);
                  success = (result q APPLIED)\<lparr>mr_nodes := 1, mr_previous := previous,
                    mr_resulting := VDict p\<rparr>
              in if py_eq previous (VDict p)
                 then (db, Inr (success\<lparr>mr_status := NO_CHANGE, mr_nodes := 0\<rparr>))
                 else if request_mode q = Preview then (db, Inr (success\<lparr>mr_status := PROPOSED\<rparr>))
                 else commit api db q previous (attributes_script i entity p) success))"

definition delete_script :: "string \<Rightarrow> string list \<Rightarrow> stmt list res" where
  "delete_script i relations = bind_res (as_record_id i) (\<lambda>it.
     Inr ([ThrowIfMissing it] @ map (\<lambda>n. DeleteAt n it) relations @ [Delete it]))"

definition mutate_delete ::
  "'db surreal \<Rightarrow> writer \<Rightarrow> 'db \<Rightarrow> write_request \<Rightarrow> string \<Rightarrow> 'db \<times> mutation_result res" where
  "mutate_delete api w db q i =
     (case item_record api db i of
        Inl e \<Rightarrow> (db, Inl e)
      | Inr None \<Rightarrow> (db, Inr ((result q NOT_FOUND)\<lparr>mr_reason := Some ''ITEM_NOT_FOUND''\<rparr>))
      | Inr (Some r) \<Rightarrow>
      (case bind_res (item_relations w) (\<lambda>ns. bind_res (as_record_id i) (\<lambda>it. incident_edges api db it ns)) of
        Inl e \<Rightarrow> (db, Inl e)
      | Inr incident \<Rightarrow>
          let previous = VDict [(''entity'', VDict [(''id'', VStr i)]),
                (''incident_relationships'', VDict (map (\<lambda>(n, c). (n, VInt c)) incident))];
              success = (result q APPLIED)\<lparr>mr_nodes := 1, mr_edges := sum_list (map snd incident),
                mr_previous := previous,
                mr_resulting := VDict [(''entity'', VNone), (''incident_relationships'', VDict [])]\<rparr>
          in if request_mode q = Preview then (db, Inr (success\<lparr>mr_status := PROPOSED\<rparr>))
             else (case delete_script i (map fst incident) of
                 Inl e \<Rightarrow> (db, Inl e)
               | Inr ss \<Rightarrow> commit api db q previous (Inr ss) success)))"

fun mutate_unguarded ::
  "'db surreal \<Rightarrow> writer \<Rightarrow> 'db \<Rightarrow> write_request \<Rightarrow> 'db \<times> mutation_result res" where
  "mutate_unguarded api w db (CreateItem i p l m s) = mutate_create api w db (CreateItem i p l m s) i p l"
| "mutate_unguarded api w db (UpdateLocation i l m s) =
     mutate_update_location api w db (UpdateLocation i l m s) i l"
| "mutate_unguarded api w db (UpdateAttributes i p m s) =
     mutate_update_attributes api w db (UpdateAttributes i p m s) i p"
| "mutate_unguarded api w db (DeleteItem i m s) = mutate_delete api w db (DeleteItem i m s) i"

text \<open>\<open>mutate\<close> on a validated request: any exception becomes a rejected result.\<close>

definition mutate :: "'db surreal \<Rightarrow> writer \<Rightarrow> 'db \<Rightarrow> write_request \<Rightarrow> 'db \<times> mutation_result" where
  "mutate api w db q = (case mutate_unguarded api w db q of
     (db', Inl e) \<Rightarrow> (db', storage_rejected q) | (db', Inr r) \<Rightarrow> (db', r))"

text \<open>\<open>mutate\<close> on a raw value, with the validator of the request models.\<close>

definition mutate_raw ::
  "(pyval \<Rightarrow> write_request option) \<Rightarrow> 'db surreal \<Rightarrow> writer \<Rightarrow> 'db \<Rightarrow> pyval \<Rightarrow> 'db \<times> mutation_result res" where
  "mutate_raw validate api w db raw = (case validate raw of
     None \<Rightarrow> (db, malformed_result raw)
   | Some q \<Rightarrow> (case mutate api w db q of (db', r) \<Rightarrow> (db', Inr r)))"

end
