(* ===== verification/ItemWritingFacts.thy ===== *)
theory ItemWritingFacts
  imports ItemWriting
begin

text \<open>
  What the item writing service guarantees, under the contract of the database (the locale
  \<open>surreal_db\<close>): no partial write, the exact effect of every applied mutation on the stored
  graph, reading back what was created, and what each answer without a write says. The deployment at
  the end is the reference store with two rooms and one item.
\<close>

section \<open>Handlers that applied\<close>

lemma result_status [simp]:
  "mr_status (result q s) = s" "mr_status (rejected q e) = REJECTED"
  "mr_status (database_rejected q p) = REJECTED" "mr_status (storage_rejected q) = REJECTED"
  by (simp_all add: result_def rejected_def database_rejected_def storage_rejected_def)

lemma commit_success:
  "commit api db q p sc su = (db', Inr r) \<Longrightarrow> mr_status r = APPLIED \<Longrightarrow>
     \<exists>ss. sc = Inr ss \<and> q_run api db ss = (db', Inr ()) \<and> r = su"
  by (auto simp: commit_def split: sum.splits prod.splits)

lemma commit_status:
  "commit api db q p sc su = (db', Inr r) \<Longrightarrow> mr_status su = APPLIED \<Longrightarrow> mr_status r \<in> {APPLIED, REJECTED}"
  by (auto simp: commit_def split: sum.splits prod.splits)

lemma commit_returns: "\<exists>r. commit api db q p sc su = (db', r) \<Longrightarrow> \<exists>r. snd (commit api db q p sc su) = Inr r"
  by (auto simp: commit_def split: sum.splits prod.splits)

text \<open>What a successful run of each handler has checked and sent.\<close>

lemma create_applied:
  assumes "mutate_create api w db q i p l = (db', Inr r)" and "mr_status r = APPLIED"
  obtains it loc where "as_record_id i = Inr it" "as_record_id l = Inr loc" "request_mode q = Commit"
    "item_record api db i = Inr None" "current_locations api w db i = Inr []"
    "validate_item_properties w (with_item_type p) True = Inr None" "validate_location api w db l = Inr None"
    "q_run api db [ThrowIfExists it, ThrowIfMissing loc, Create it (with_item_type p),
       Relate (location_edge_id w it loc) it loc] = (db', Inr ())"
    "mr_resulting r = VDict [(''entity'', VDict (merge_fields [(''id'', VStr i)] (with_item_type p))),
                             (''location'', VStr l)]"
    "mr_nodes r = 1" "mr_edges r = 1"
  using assms
  by (auto simp: mutate_create_def Let_def create_script_def bind_res_Inr_iff dest!: commit_success
      split: sum.splits option.splits list.splits if_splits) (metis mode.exhaust)

lemma move_applied:
  assumes "mutate_update_location api w db q i l = (db', Inr r)" and "mr_status r = APPLIED"
  obtains it loc f cur where "as_record_id i = Inr it" "as_record_id l = Inr loc" "request_mode q = Commit"
    "item_record api db i = Inr (Some f)" "current_locations api w db i = Inr cur" "length cur \<le> 1"
    "cur \<noteq> [l]" "validate_location api w db l = Inr None"
    "q_run api db ([ThrowIfMissing it, ThrowIfMissing loc]
       @ (if cur \<noteq> [] then [DeleteOut (w_location w) it] else [])
       @ [Relate (location_edge_id w it loc) it loc]) = (db', Inr ())"
    "mr_edges r = (if cur = [] then 1 else 2)"
proof -
  from assms obtain f cur where f: "item_record api db i = Inr (Some f)" "validate_location api w db l = Inr None"
      "current_locations api w db i = Inr cur" "length cur \<le> 1" and rest:
      "(case cur of [] \<Rightarrow> None | x # _ \<Rightarrow> Some x) \<noteq> Some l" "request_mode q \<noteq> Preview"
      "mr_edges r = (if cur = [] then 1 else 2)"
      "\<exists>ss. location_script w i l (cur \<noteq> []) = Inr ss \<and> q_run api db ss = (db', Inr ())"
    by (auto simp: mutate_update_location_def Let_def dest!: commit_success
        split: sum.splits option.splits list.splits if_splits)
  from rest(4) obtain it loc where s: "as_record_id i = Inr it" "as_record_id l = Inr loc"
    "q_run api db ([ThrowIfMissing it, ThrowIfMissing loc]
       @ (if cur \<noteq> [] then [DeleteOut (w_location w) it] else [])
       @ [Relate (location_edge_id w it loc) it loc]) = (db', Inr ())"
    by (auto simp: location_script_def bind_res_Inr_iff)
  moreover from rest(1) f(4) have "cur \<noteq> [l]" by auto
  moreover from rest(2) have "request_mode q = Commit" by (cases "request_mode q") auto
  ultimately show thesis using that f rest(3) by blast
qed

lemma attributes_applied:
  assumes "mutate_update_attributes api w db q i p = (db', Inr r)" and "mr_status r = APPLIED"
  obtains it f where "as_record_id i = Inr it" "request_mode q = Commit"
    "item_record api db i = Inr (Some f)" "set (map fst p) \<subseteq> set (w_writable w)"
    "validate_item_properties w p False = Inr None"
    "q_run api db [ThrowIfMissing it, ThrowIfDiffers it (VDict (AList.update ''id'' (rec_val it) f)),
       Merge it p] = (db', Inr ())"
    "mr_previous r = VDict (map (\<lambda>(k, v). (k, get_or_None f k)) p)"
    "mr_resulting r = VDict p" "\<not> py_eq (mr_previous r) (mr_resulting r)"
proof -
  from assms obtain f where f: "item_record api db i = Inr (Some f)" "set (map fst p) \<subseteq> set (w_writable w)"
    "validate_item_properties w p False = Inr None"
    "mr_previous r = VDict (map (\<lambda>(k, v). (k, get_or_None f k)) p)" "mr_resulting r = VDict p"
    "\<not> py_eq (VDict (map (\<lambda>(k, v). (k, get_or_None f k)) p)) (VDict p)" "request_mode q \<noteq> Preview"
    "\<exists>ss. attributes_script i f p = Inr ss \<and> q_run api db ss = (db', Inr ())"
    by (auto simp: mutate_update_attributes_def Let_def dest!: commit_success simp del: py_eq.simps
        split: sum.splits option.splits if_splits)
  moreover from f(7) have "request_mode q = Commit" by (cases "request_mode q") auto
  moreover from f(8) obtain it where "as_record_id i = Inr it"
    "q_run api db [ThrowIfMissing it, ThrowIfDiffers it (VDict (AList.update ''id'' (rec_val it) f)),
       Merge it p] = (db', Inr ())"
    by (auto simp: attributes_script_def bind_res_Inr_iff)
  ultimately show thesis using that by simp
qed

lemma delete_applied:
  assumes "mutate_delete api w db q i = (db', Inr r)" and "mr_status r = APPLIED"
  obtains it f ns ics where "as_record_id i = Inr it" "request_mode q = Commit"
    "item_record api db i = Inr (Some f)" "item_relations w = Inr ns" "incident_edges api db it ns = Inr ics"
    "q_run api db ([ThrowIfMissing it] @ map (\<lambda>n. DeleteAt n it) (map fst ics) @ [Delete it]) = (db', Inr ())"
    "mr_edges r = sum_list (map snd ics)"
proof -
  from assms obtain f ics where f: "item_record api db i = Inr (Some f)"
    "bind_res (item_relations w) (\<lambda>ns. bind_res (as_record_id i) (\<lambda>it. incident_edges api db it ns)) = Inr ics"
    "mr_edges r = sum_list (map snd ics)" "request_mode q \<noteq> Preview"
    "\<exists>ss. delete_script i (map fst ics) = Inr ss \<and> q_run api db ss = (db', Inr ())"
    by (auto simp: mutate_delete_def Let_def dest!: commit_success
        split: sum.splits option.splits if_splits)
  moreover from f(4) have "request_mode q = Commit" by (cases "request_mode q") auto
  ultimately show thesis
    using that by (auto simp: bind_res_Inr_iff ItemWriting.delete_script_def)
qed

section \<open>Effect on the stored graph\<close>

context surreal_db
begin

lemma commit_aborted:
  assumes "commit api db q p sc su = (db', x)" and "mr_status su = APPLIED"
    and "\<not> (\<exists>r. x = Inr r \<and> mr_status r = APPLIED)"
  shows "content db' = content db"
  using assms by (auto simp: commit_def dest: run_abort split: sum.splits prod.splits)

lemma handlers_not_applied:
  assumes "mutate_unguarded api w db q = (db', x)" and "\<not> (\<exists>r. x = Inr r \<and> mr_status r = APPLIED)"
  shows "content db' = content db"
proof (cases q)
  case (CreateItem i p l m s)
  with assms show ?thesis
    by (auto simp: mutate_create_def Let_def dest!: commit_aborted
        split: sum.splits option.splits list.splits if_splits)
next
  case (UpdateLocation i l m s)
  with assms show ?thesis
    by (auto simp: mutate_update_location_def Let_def dest!: commit_aborted
        split: sum.splits option.splits list.splits if_splits)
next
  case (UpdateAttributes i p m s)
  with assms show ?thesis
    by (auto simp: mutate_update_attributes_def Let_def simp del: py_eq.simps dest!: commit_aborted
        split: sum.splits option.splits list.splits if_splits)
next
  case (DeleteItem i m s)
  with assms show ?thesis
    by (auto simp: mutate_delete_def Let_def dest!: commit_aborted
        split: sum.splits option.splits list.splits if_splits)
qed

lemma item_record_content:
  "item_record api db i = Inr x \<Longrightarrow> as_record_id i = Inr it \<Longrightarrow>
     x = map_option (\<lambda>f. json_items ((''id'', rec_val it) # AList.delete ''id'' f))
       (map_of (g_nodes (content db)) it)"
  by (auto simp: item_record_def bind_res_Inr_iff only_value_def row_of_node_def Let_def
      dest!: only_reads split: option.splits)

lemma current_locations_content:
  "current_locations api w db i = Inr ls \<Longrightarrow> as_record_id i = Inr it \<Longrightarrow>
     ls = sort (map (\<lambda>e. canonical (ed_out e)) (edges_out (content db) (w_location w) it))"
  by (auto simp: current_locations_def comp_def canonical_rec_val dest: out_reads out_missing
      split: sum.splits exn.splits dest!: out_reads)

end

lemma relate_edges_out:
  "relate e a b g = Some h \<Longrightarrow> g_nodes h = g_nodes g \<and> g_unique h = g_unique g
     \<and> g_edges h = g_edges g @ [\<lparr>ed_id = e, ed_in = a, ed_out = b\<rparr>]
     \<and> edges_out h t c = edges_out g t c @ (if fst e = t \<and> c = a then [\<lparr>ed_id = e, ed_in = a, ed_out = b\<rparr>] else [])"
  by (auto simp: relate_def edges_out_def split: if_splits)

lemma mutate_applied:
  "mutate api w db q = (db', r) \<Longrightarrow> mr_status r = APPLIED \<Longrightarrow> mutate_unguarded api w db q = (db', Inr r)"
  by (auto simp: mutate_def split: sum.splits prod.splits)

lemma location_edge_table [simp]: "fst (location_edge_id w a b) = w_location w"
  by (simp add: location_edge_id_def)

definition location_of :: "writer \<Rightarrow> graph \<Rightarrow> rid \<Rightarrow> rid list" where
  "location_of w g it = map ed_out (edges_out g (w_location w) it)"

lemma valid_location:
  "validate_location api w db l = Inr None \<Longrightarrow> as_record_id l = Inr loc \<Longrightarrow>
     validate_endpoints (w_registry w) (w_location w) ''item'' (fst loc) = Inr ()"
  by (cases loc) (auto simp: validate_location_def as_record_id_def split: sum.splits if_splits)

context surreal_db
begin

lemma create_effect:
  assumes "mutate api w db (CreateItem i p l m s) = (db', r)" and "mr_status r = APPLIED"
  obtains it loc where "as_record_id i = Inr it" "as_record_id l = Inr loc" "m = Commit"
    "map_of (g_nodes (content db)) it = None" "edges_out (content db) (w_location w) it = []"
    "validate_endpoints (w_registry w) (w_location w) ''item'' (fst loc) = Inr ()"
    "map_of (g_nodes (content db)) loc \<noteq> None"
    "content db' = (content db)\<lparr>g_nodes := AList.update it (with_item_type p) (g_nodes (content db)),
       g_edges := g_edges (content db) @ [\<lparr>ed_id = location_edge_id w it loc, ed_in = it, ed_out = loc\<rparr>]\<rparr>"
proof -
  from mutate_applied[OF assms] have "mutate_create api w db (CreateItem i p l m s) i p l = (db', Inr r)" by simp
  from this assms(2) obtain it loc where a: "as_record_id i = Inr it" "as_record_id l = Inr loc" "m = Commit"
      "item_record api db i = Inr None" "current_locations api w db i = Inr []"
      "validate_location api w db l = Inr None" and
    run: "q_run api db [ThrowIfExists it, ThrowIfMissing loc, Create it (with_item_type p),
       Relate (location_edge_id w it loc) it loc] = (db', Inr ())"
    by (rule create_applied) simp
  have e: "edges_out (content db) (w_location w) it = []"
    using arg_cong[OF current_locations_content[OF a(5,1)], of length] by simp
  have v: "validate_endpoints (w_registry w) (w_location w) ''item'' (fst loc) = Inr ()"
    by (rule valid_location[OF a(6,2)])
  from run_commit[OF run] have eff: "map_of (g_nodes (content db)) it = None"
      "map_of (g_nodes (content db)) loc \<noteq> None"
      "relate (location_edge_id w it loc) it loc
        ((content db)\<lparr>g_nodes := AList.update it (with_item_type p) (g_nodes (content db))\<rparr>) = Some (content db')"
    by (auto split: if_splits option.splits)
  from eff(3) have "content db' = (content db)\<lparr>g_nodes := AList.update it (with_item_type p) (g_nodes (content db)),
       g_edges := g_edges (content db) @ [\<lparr>ed_id = location_edge_id w it loc, ed_in = it, ed_out = loc\<rparr>]\<rparr>"
    by (auto simp: relate_def split: if_splits)
  with that a(1-3) eff(1,2) e v show thesis by blast
qed

lemma move_effect:
  assumes "mutate api w db (UpdateLocation i l m s) = (db', r)" and "mr_status r = APPLIED"
  obtains it loc where "as_record_id i = Inr it" "as_record_id l = Inr loc" "m = Commit"
    "map_of (g_nodes (content db)) it \<noteq> None" "map_of (g_nodes (content db)) loc \<noteq> None"
    "validate_endpoints (w_registry w) (w_location w) ''item'' (fst loc) = Inr ()"
    "location_of w (content db) it \<noteq> [loc]"
    "content db' = (content db)\<lparr>g_edges := filter (\<lambda>e. \<not> (fst (ed_id e) = w_location w \<and> ed_in e = it)) (g_edges (content db))
       @ [\<lparr>ed_id = location_edge_id w it loc, ed_in = it, ed_out = loc\<rparr>]\<rparr>"
    "mr_edges r = 1 + int (length (location_of w (content db) it))"
proof -
  from mutate_applied[OF assms] have "mutate_update_location api w db (UpdateLocation i l m s) i l = (db', Inr r)" by simp
  from this assms(2) obtain it loc f cur where a: "as_record_id i = Inr it" "as_record_id l = Inr loc" "m = Commit"
      "item_record api db i = Inr (Some f)" "current_locations api w db i = Inr cur" "length cur \<le> 1" "cur \<noteq> [l]"
      "validate_location api w db l = Inr None" "mr_edges r = (if cur = [] then 1 else 2)" and
    run: "q_run api db ([ThrowIfMissing it, ThrowIfMissing loc]
       @ (if cur \<noteq> [] then [DeleteOut (w_location w) it] else [])
       @ [Relate (location_edge_id w it loc) it loc]) = (db', Inr ())"
    by (rule move_applied) simp
  let ?o = "edges_out (content db) (w_location w) it"
  have cur: "cur = sort (map (\<lambda>e. canonical (ed_out e)) ?o)" by (rule current_locations_content[OF a(5,1)])
  have len: "length ?o = length cur" unfolding cur by simp
  have v: "validate_endpoints (w_registry w) (w_location w) ''item'' (fst loc) = Inr ()"
    by (rule valid_location[OF a(8,2)])
  have k: "filter (\<lambda>e. \<not> (fst (ed_id e) = w_location w \<and> ed_in e = it)) (g_edges (content db)) = g_edges (content db)"
    if "cur = []"
  proof (rule filter_True)
    show "\<forall>e \<in> set (g_edges (content db)). \<not> (fst (ed_id e) = w_location w \<and> ed_in e = it)"
      using that len by (auto simp: edges_out_def filter_empty_conv)
  qed
  have n: "location_of w (content db) it \<noteq> [loc]"
  proof
    assume "location_of w (content db) it = [loc]"
    then obtain e where "?o = [e]" "ed_out e = loc" by (auto simp: location_of_def)
    with cur a(2,7) show False by (simp add: as_record_id_canonical)
  qed
  from run_commit[OF run] have eff: "map_of (g_nodes (content db)) it \<noteq> None" "map_of (g_nodes (content db)) loc \<noteq> None"
      "relate (location_edge_id w it loc) it loc ((content db)\<lparr>g_edges :=
        filter (\<lambda>e. \<not> (fst (ed_id e) = w_location w \<and> ed_in e = it)) (g_edges (content db))\<rparr>) = Some (content db')"
    by (auto simp: k[simplified] split: if_splits option.splits)
  from eff(3) have "content db' = (content db)\<lparr>g_edges := filter (\<lambda>e. \<not> (fst (ed_id e) = w_location w \<and> ed_in e = it)) (g_edges (content db))
       @ [\<lparr>ed_id = location_edge_id w it loc, ed_in = it, ed_out = loc\<rparr>]\<rparr>"
    by (auto simp: relate_def split: if_splits)
  moreover have "mr_edges r = 1 + int (length (location_of w (content db) it))"
    using a(6,9) len by (cases cur) (auto simp: location_of_def)
  ultimately show thesis using that a(1-3) eff(1,2) v n by blast
qed

lemma attributes_effect:
  assumes "mutate api w db (UpdateAttributes i p m s) = (db', r)" and "mr_status r = APPLIED"
  obtains it f where "as_record_id i = Inr it" "m = Commit"
    "map_of (g_nodes (content db)) it = Some f" "set (map fst p) \<subseteq> set (w_writable w)"
    "validate_item_properties w p False = Inr None"
    "content db' = (content db)\<lparr>g_nodes := AList.update it (merge_fields f p) (g_nodes (content db))\<rparr>"
proof -
  from mutate_applied[OF assms] have "mutate_update_attributes api w db (UpdateAttributes i p m s) i p = (db', Inr r)"
    by simp
  from this assms(2) obtain it f where a: "as_record_id i = Inr it" "m = Commit"
    "set (map fst p) \<subseteq> set (w_writable w)" "validate_item_properties w p False = Inr None"
    "item_record api db i = Inr (Some f)" and
    run: "q_run api db [ThrowIfMissing it, ThrowIfDiffers it (VDict (AList.update ''id'' (rec_val it) f)),
       Merge it p] = (db', Inr ())"
    by (rule attributes_applied) simp
  from item_record_content[OF a(5,1)] obtain g where g: "map_of (g_nodes (content db)) it = Some g"
    by (cases "map_of (g_nodes (content db)) it") auto
  from run_commit[OF run] g have
    "content db' = (content db)\<lparr>g_nodes := AList.update it (merge_fields g p) (g_nodes (content db))\<rparr>"
    by (simp del: py_eq.simps split: if_splits)
  with that a(1-4) g show thesis by blast
qed

lemma count_value_read: "count_value n v \<Longrightarrow> read_count v = Inr (int n)"
  by (auto simp: count_value_def read_count_def get_default_def)

lemma incident_counts:
  assumes "incident_edges api db it ns = Inr ics"
  shows "ics = map (\<lambda>n. (n, int (length (edges_at (content db) n it))))
      (filter (\<lambda>n. edges_at (content db) n it \<noteq> []) ns)"
  using assms
proof (induction ns arbitrary: ics)
  case (Cons n ns)
  show ?case
  proof (cases "q_count api db n it")
    case (Inl e)
    with Cons show ?thesis by (auto dest: count_missing split: exn.splits)
  next
    case (Inr v)
    with Cons show ?thesis
      using count_value_read[OF count_reads[OF Inr]] by (auto simp: bind_res_Inr_iff)
  qed
qed simp

end

lemma delete_at_script:
  "run_script (map (\<lambda>n. DeleteAt n it) ns) g = Some (g\<lparr>g_edges :=
     filter (\<lambda>e. \<not> (fst (ed_id e) \<in> set ns \<and> (ed_in e = it \<or> ed_out e = it))) (g_edges g)\<rparr>)"
proof (induction ns arbitrary: g)
  case (Cons n ns)
  have "filter (\<lambda>e. \<not> (fst (ed_id e) \<in> set ns \<and> (ed_in e = it \<or> ed_out e = it)))
      (filter (\<lambda>e. \<not> (fst (ed_id e) = n \<and> (ed_in e = it \<or> ed_out e = it))) (g_edges g))
    = filter (\<lambda>e. \<not> (fst (ed_id e) \<in> set (n # ns) \<and> (ed_in e = it \<or> ed_out e = it))) (g_edges g)"
    unfolding filter_filter by (rule filter_cong) auto
  with Cons.IH show ?case by simp
qed simp

context surreal_db
begin

lemma delete_effect:
  assumes "mutate api w db (DeleteItem i m s) = (db', r)" and "mr_status r = APPLIED"
  obtains it ns where "as_record_id i = Inr it" "m = Commit" "map_of (g_nodes (content db)) it \<noteq> None"
    "item_relations w = Inr ns"
    "mr_edges r = sum_list (map (\<lambda>n. int (length (edges_at (content db) n it))) ns)"
    "content db' = (content db)\<lparr>g_nodes := AList.delete it (g_nodes (content db)),
       g_edges := filter (\<lambda>e. ed_in e \<noteq> it \<and> ed_out e \<noteq> it) (g_edges (content db))\<rparr>"
proof -
  from mutate_applied[OF assms] have "mutate_delete api w db (DeleteItem i m s) i = (db', Inr r)" by simp
  from this assms(2) obtain it f ns ics where a: "as_record_id i = Inr it" "m = Commit"
    "item_record api db i = Inr (Some f)" "item_relations w = Inr ns" "incident_edges api db it ns = Inr ics"
    "mr_edges r = sum_list (map snd ics)" and
    run: "q_run api db ([ThrowIfMissing it] @ map (\<lambda>n. DeleteAt n it) (map fst ics) @ [Delete it]) = (db', Inr ())"
    by (rule delete_applied) simp
  define rs where "rs = map fst ics"
  have f: "filter (\<lambda>e. ed_in e \<noteq> it \<and> ed_out e \<noteq> it)
      (filter (\<lambda>e. \<not> (fst (ed_id e) \<in> set rs \<and> (ed_in e = it \<or> ed_out e = it))) (g_edges (content db)))
    = filter (\<lambda>e. ed_in e \<noteq> it \<and> ed_out e \<noteq> it) (g_edges (content db))"
    unfolding filter_filter by (rule filter_cong) auto
  from run_commit[OF run, folded rs_def] have n: "map_of (g_nodes (content db)) it \<noteq> None"
    and "content db' = (content db)\<lparr>g_nodes := AList.delete it (g_nodes (content db)),
       g_edges := filter (\<lambda>e. ed_in e \<noteq> it \<and> ed_out e \<noteq> it) (g_edges (content db))\<rparr>"
    using f by (auto simp: run_script_append delete_at_script split: if_splits)
  moreover have "mr_edges r = sum_list (map (\<lambda>n. int (length (edges_at (content db) n it))) ns)"
    unfolding a(6) incident_counts[OF a(5)] by (induction ns) auto
  ultimately show thesis using that a(1,2,4) by blast
qed

end

section \<open>Reading back what was written\<close>

lemma merge_fields_simps:
  "merge_fields d [] = d" "merge_fields d ((k, v) # e) = merge_fields (AList.update k v d) e"
  by (simp_all add: merge_fields_def)

lemma map_of_merge_fields:
  "distinct (map fst new) \<Longrightarrow> map_of (merge_fields old new) k
     = (case map_of new k of Some v \<Rightarrow> Some v | None \<Rightarrow> map_of old k)"
proof (induction new arbitrary: old)
  case (Cons x new)
  obtain j v where x: "x = (j, v)" by (cases x)
  from Cons.prems x have "map_of new j = None" by (simp add: map_of_eq_None_iff)
  with Cons x show ?case by (simp add: merge_fields_simps map_of_update split: option.split)
qed (simp add: merge_fields_simps)

lemma merge_fields_append:
  "distinct (map fst new) \<Longrightarrow> fst ` set new \<inter> fst ` set old = {} \<Longrightarrow> merge_fields old new = old @ new"
proof (induction new arbitrary: old)
  case (Cons x new)
  obtain k v where x: "x = (k, v)" by (cases x)
  from Cons.prems x have "AList.update k v old = old @ [(k, v)]"
    by (intro update_absent) (auto simp: map_of_eq_None_iff)
  moreover have "merge_fields (old @ [(k, v)]) new = (old @ [(k, v)]) @ new"
    using Cons.prems x by (intro Cons.IH) auto
  ultimately show ?case by (simp add: x merge_fields_simps)
qed (simp add: merge_fields_simps)

lemma keys_merge_fields: "fst ` set (merge_fields old new) = fst ` set old \<union> fst ` set new"
proof (induction new arbitrary: old)
  case (Cons x new)
  then show ?case by (cases x) (auto simp: merge_fields_simps dom_update)
qed (simp add: merge_fields_simps)

lemma distinct_merge_fields: "distinct (map fst old) \<Longrightarrow> distinct (map fst (merge_fields old new))"
proof (induction new arbitrary: old)
  case (Cons x new)
  then show ?case by (cases x) (auto simp: merge_fields_simps intro!: Cons.IH distinct_update)
qed (simp add: merge_fields_simps)

lemma with_item_type_keys:
  "fst ` set (with_item_type p) = insert ''item_type'' (fst ` set p)"
  "distinct (map fst (with_item_type p))"
  by (simp_all add: with_item_type_def keys_merge_fields distinct_merge_fields)

lemma with_item_type_lookup:
  "distinct (map fst p) \<Longrightarrow> map_of (with_item_type p) k
     = (case map_of p k of Some v \<Rightarrow> Some v | None \<Rightarrow> if k = ''item_type'' then Some (VStr ''unknown'') else None)"
  by (auto simp: with_item_type_def map_of_merge_fields split: option.split)

text \<open>A JSON value holds no record identifier.\<close>

fun plain :: "pyval \<Rightarrow> bool"
  and plain_list :: "pyval list \<Rightarrow> bool"
  and plain_items :: "fields \<Rightarrow> bool" where
  "plain (VDict d) = plain_items d"
| "plain (VList vs) = plain_list vs"
| "plain (VRec t k) = False"
| "plain v = True"
| "plain_list [] = True"
| "plain_list (v # vs) = (plain v \<and> plain_list vs)"
| "plain_items [] = True"
| "plain_items ((k, v) # d) = (plain v \<and> plain_items d)"

lemma json_plain:
  "plain v \<Longrightarrow> json_value v = v" "plain_list vs \<Longrightarrow> json_list vs = vs" "plain_items d \<Longrightarrow> json_items d = d"
  by (induction v and vs and d rule: json_value_json_list_json_items.induct) auto

lemma plain_items_iff: "plain_items d \<longleftrightarrow> (\<forall>x \<in> set d. plain (snd x))"
proof (induction d)
  case (Cons x d)
  then show ?case by (cases x) auto
qed simp

lemma plain_update: "plain v \<Longrightarrow> plain_items d \<Longrightarrow> plain_items (AList.update k v d)"
proof (induction d)
  case (Cons x d)
  then show ?case by (cases x) auto
qed simp

lemma plain_merge: "plain_items old \<Longrightarrow> plain_items new \<Longrightarrow> plain_items (merge_fields old new)"
proof (induction new arbitrary: old)
  case (Cons x new)
  then show ?case by (cases x) (auto simp: merge_fields_simps intro!: Cons.IH plain_update)
qed (simp add: merge_fields_simps)

lemma delete_id_absent: "k \<notin> fst ` set d \<Longrightarrow> AList.delete k d = d"
  by (rule delete_absent) (simp add: map_of_eq_None_iff)

context surreal_db
begin

lemma created_entity:
  assumes "mutate api w db (CreateItem i p l m s) = (db', r)" and "mr_status r = APPLIED"
    and "item_definition_ok i p" "distinct (map fst p)" "plain_items p"
    and "item_record api db' i = Inr x" and "current_locations api w db' i = Inr ls"
  shows "ls = [l] \<and> (\<exists>f. x = Some f \<and> mr_resulting r = VDict [(''entity'', VDict f), (''location'', VStr l)])"
proof -
  obtain it loc where a: "as_record_id i = Inr it" "as_record_id l = Inr loc"
    and e: "edges_out (content db) (w_location w) it = []"
    and g: "content db' = (content db)\<lparr>g_nodes := AList.update it (with_item_type p) (g_nodes (content db)),
       g_edges := g_edges (content db) @ [\<lparr>ed_id = location_edge_id w it loc, ed_in = it, ed_out = loc\<rparr>]\<rparr>"
    by (rule create_effect[OF assms(1,2)])
  let ?q = "with_item_type p"
  have id: "''id'' \<notin> fst ` set ?q" using assms(3) by (auto simp: with_item_type_keys item_definition_ok_def)
  have "plain_items ?q" unfolding with_item_type_def using assms(5) by (intro plain_merge) simp_all
  then have x: "x = Some ((''id'', VStr i) # ?q)"
    using item_record_content[OF assms(6) a(1)] a(1) id
    by (simp add: g map_of_update delete_id_absent json_plain rec_val_def as_record_id_canonical)
  have "merge_fields [(''id'', VStr i)] ?q = (''id'', VStr i) # ?q"
    using id with_item_type_keys(2) by (subst merge_fields_append) auto
  moreover have "mr_resulting r = VDict [(''entity'', VDict (merge_fields [(''id'', VStr i)] ?q)), (''location'', VStr l)]"
    using mutate_applied[OF assms(1,2)] assms(2) by (auto elim!: create_applied)
  moreover have "edges_out (content db') (w_location w) it
      = [\<lparr>ed_id = location_edge_id w it loc, ed_in = it, ed_out = loc\<rparr>]"
    using e by (simp add: g edges_out_def)
  then have "ls = [l]"
    using current_locations_content[OF assms(7) a(1)] a(2) by (simp add: as_record_id_canonical)
  ultimately show ?thesis using x by simp
qed

lemma moved_location:
  assumes "mutate api w db (UpdateLocation i l m s) = (db', r)" and "mr_status r = APPLIED"
    and "current_locations api w db' i = Inr ls"
  shows "ls = [l]"
proof -
  obtain it loc where a: "as_record_id i = Inr it" "as_record_id l = Inr loc"
    and g: "content db' = (content db)\<lparr>g_edges := filter (\<lambda>e. \<not> (fst (ed_id e) = w_location w \<and> ed_in e = it)) (g_edges (content db))
       @ [\<lparr>ed_id = location_edge_id w it loc, ed_in = it, ed_out = loc\<rparr>]\<rparr>"
    by (rule move_effect[OF assms(1,2)])
  have "edges_out (content db') (w_location w) it
      = [\<lparr>ed_id = location_edge_id w it loc, ed_in = it, ed_out = loc\<rparr>]"
    by (auto simp: g edges_out_def filter_empty_conv)
  then show ?thesis
    using current_locations_content[OF assms(3) a(1)] a(2) by (simp add: as_record_id_canonical)
qed

end

lemma item_record_id: "item_record api db i = Inr x \<Longrightarrow> \<exists>it. as_record_id i = Inr it"
  by (auto simp: item_record_def bind_res_Inr_iff)

lemma commit_plain_status:
  "commit api db q p sc su = (db', Inr r) \<Longrightarrow> mr_status su = APPLIED \<Longrightarrow>
     mr_status r \<noteq> NOT_FOUND \<and> mr_status r \<noteq> CONFLICT \<and> mr_status r \<noteq> NO_CHANGE"
  by (auto dest: commit_status)

lemma create_refused:
  assumes "mutate_create api w db q i p l = (db', Inr r)"
  shows "mr_status r \<noteq> NOT_FOUND \<and> mr_status r \<noteq> NO_CHANGE
    \<and> (mr_status r = CONFLICT \<longrightarrow> (\<exists>f. item_record api db i = Inr (Some f))
         \<or> (\<exists>x xs. item_record api db i = Inr None \<and> current_locations api w db i = Inr (x # xs)))"
  using assms by (auto simp: mutate_create_def Let_def dest!: commit_plain_status
      split: sum.splits option.splits list.splits if_splits)

lemma move_refused:
  assumes "mutate_update_location api w db q i l = (db', Inr r)"
  shows "(mr_status r = NOT_FOUND \<longrightarrow> item_record api db i = Inr None)
    \<and> (mr_status r = CONFLICT \<longrightarrow> (\<exists>f ls. item_record api db i = Inr (Some f)
         \<and> current_locations api w db i = Inr ls \<and> length ls > 1))
    \<and> (mr_status r = NO_CHANGE \<longrightarrow> (\<exists>f. item_record api db i = Inr (Some f))
         \<and> current_locations api w db i = Inr [l])"
  using assms by (auto simp: mutate_update_location_def Let_def dest!: commit_plain_status
      split: sum.splits option.splits list.splits if_splits)

lemma attributes_refused:
  assumes "mutate_update_attributes api w db q i p = (db', Inr r)"
  shows "(mr_status r = NOT_FOUND \<longrightarrow> item_record api db i = Inr None) \<and> mr_status r \<noteq> CONFLICT
    \<and> (mr_status r = NO_CHANGE \<longrightarrow> (\<exists>f. item_record api db i = Inr (Some f)
         \<and> py_eq (VDict (map (\<lambda>(k, v). (k, get_or_None f k)) p)) (VDict p)))"
  using assms by (auto simp: mutate_update_attributes_def Let_def simp del: py_eq.simps dest!: commit_plain_status
      split: sum.splits option.splits list.splits if_splits)

lemma delete_refused:
  assumes "mutate_delete api w db q i = (db', Inr r)"
  shows "(mr_status r = NOT_FOUND \<longrightarrow> item_record api db i = Inr None) \<and> mr_status r \<noteq> CONFLICT
    \<and> mr_status r \<noteq> NO_CHANGE"
  using assms by (auto simp: mutate_delete_def Let_def dest!: commit_plain_status
      split: sum.splits option.splits list.splits if_splits)

context surreal_db
begin

lemma record_stored:
  assumes "item_record api db i = Inr x"
  shows "\<exists>it. as_record_id i = Inr it \<and> (map_of (g_nodes (content db)) it = None \<longleftrightarrow> x = None)"
proof -
  from item_record_id[OF assms] obtain it where it: "as_record_id i = Inr it" by blast
  from item_record_content[OF assms this] show ?thesis
    using it by (cases "map_of (g_nodes (content db)) it") auto
qed

lemma record_absent:
  "item_record api db i = Inr None \<Longrightarrow> \<exists>it. as_record_id i = Inr it \<and> map_of (g_nodes (content db)) it = None"
  by (drule record_stored) simp

lemma record_present:
  "item_record api db i = Inr (Some f) \<Longrightarrow> \<exists>it. as_record_id i = Inr it \<and> map_of (g_nodes (content db)) it \<noteq> None"
  by (drule record_stored) simp

lemma locations_length:
  assumes "current_locations api w db i = Inr ls" and "as_record_id i = Inr it"
  shows "length (location_of w (content db) it) = length ls"
  using arg_cong[OF current_locations_content[OF assms], of length] by (simp add: location_of_def)

lemma locations_one:
  assumes "current_locations api w db i = Inr [l]" and "as_record_id i = Inr it"
  shows "map canonical (location_of w (content db) it) = [l]"
proof -
  from locations_length[OF assms] obtain x where x: "location_of w (content db) it = [x]"
    by (auto simp: length_Suc_conv)
  then obtain e where "edges_out (content db) (w_location w) it = [e]" "ed_out e = x"
    by (auto simp: location_of_def)
  with current_locations_content[OF assms] x show ?thesis by simp
qed

end

text \<open>What each of the answers without a write says about the stored graph.\<close>

definition refusal_explained :: "writer \<Rightarrow> graph \<Rightarrow> write_request \<Rightarrow> rid \<Rightarrow> mutation_status \<Rightarrow> bool" where
  "refusal_explained w g q it st = (case st of
     NOT_FOUND \<Rightarrow> request_operation q \<noteq> ''create'' \<and> map_of (g_nodes g) it = None
   | CONFLICT \<Rightarrow> (case q of
        CreateItem i p l m s \<Rightarrow> map_of (g_nodes g) it \<noteq> None \<or> location_of w g it \<noteq> []
      | UpdateLocation i l m s \<Rightarrow> map_of (g_nodes g) it \<noteq> None \<and> 1 < length (location_of w g it)
      | _ \<Rightarrow> False)
   | NO_CHANGE \<Rightarrow> map_of (g_nodes g) it \<noteq> None \<and> (case q of
        UpdateLocation i l m s \<Rightarrow> map canonical (location_of w g it) = [l]
      | UpdateAttributes i p m s \<Rightarrow> True | _ \<Rightarrow> False)
   | _ \<Rightarrow> True)"

section \<open>Properties\<close>

text \<open>C20: no partial write: whatever a mutation answers, unless it answers that it was applied the stored graph
  is the one before the call; and a preview never touches the database, whatever its answer.\<close>

theorem mutation_atomic:
  assumes "surreal_db api content" and "mutate api w db q = (db', r)"
  shows "(mr_status r \<noteq> APPLIED \<longrightarrow> content db' = content db)
    \<and> (request_mode q = Preview \<longrightarrow> db' = db \<and> mr_status r \<noteq> APPLIED)"
proof (intro conjI impI)
  assume na: "mr_status r \<noteq> APPLIED"
  obtain x where x: "mutate_unguarded api w db q = (db', x)"
    and "\<not> (\<exists>y. x = Inr y \<and> mr_status y = APPLIED)"
    using assms(2) na by (auto simp: mutate_def split: sum.splits prod.splits)
  then show "content db' = content db" by (rule surreal_db.handlers_not_applied[OF assms(1)])
next
  assume p: "request_mode q = Preview"
  obtain x where x: "mutate_unguarded api w db q = (db', x)"
    and r: "r = (case x of Inl e \<Rightarrow> storage_rejected q | Inr y \<Rightarrow> y)"
    using assms(2) by (auto simp: mutate_def split: sum.splits prod.splits)
  have "db' = db \<and> \<not> (\<exists>y. x = Inr y \<and> mr_status y = APPLIED)"
    using x p
    by (cases q)
      (auto simp: mutate_create_def mutate_update_location_def mutate_update_attributes_def mutate_delete_def Let_def
        simp del: py_eq.simps split: sum.splits option.splits list.splits if_splits)
  with r show "db' = db" "mr_status r \<noteq> APPLIED" by (auto split: sum.splits)
qed

text \<open>C21: an applied creation was a commit of an unknown item at an existing location of an admitted type; it
  added exactly the item with its properties (and the default category) and one location edge, and it
  changed nothing else.\<close>

theorem creation_exact:
  assumes "surreal_db api content" and "mutate api w db (CreateItem i p l m s) = (db', r)"
    and "mr_status r = APPLIED"
  shows "\<exists>it loc. as_record_id i = Inr it \<and> as_record_id l = Inr loc \<and> m = Commit
    \<and> map_of (g_nodes (content db)) it = None \<and> edges_out (content db) (w_location w) it = []
    \<and> map_of (g_nodes (content db)) loc \<noteq> None
    \<and> validate_endpoints (w_registry w) (w_location w) ''item'' (fst loc) = Inr ()
    \<and> map_of (g_nodes (content db')) = (map_of (g_nodes (content db)))(it \<mapsto> with_item_type p)
    \<and> g_edges (content db') = g_edges (content db)
        @ [\<lparr>ed_id = location_edge_id w it loc, ed_in = it, ed_out = loc\<rparr>]"
  by (rule surreal_db.create_effect[OF assms]) (auto simp: update_conv')

text \<open>What a creation reports is what the database then answers: reading the item back gives the entity of the
  result, at the requested location and nowhere else.\<close>

theorem created_item_reads_back:
  assumes "surreal_db api content" and "mutate api w db (CreateItem i p l m s) = (db', r)"
    and "mr_status r = APPLIED" and "request_ok (CreateItem i p l m s)" and "plain_items p"
    and "item_record api db' i = Inr x" and "current_locations api w db' i = Inr ls"
  shows "ls = [l] \<and> (\<exists>f. x = Some f
    \<and> mr_resulting r = VDict [(''entity'', VDict f), (''location'', VStr l)])"
  using surreal_db.created_entity[OF assms(1-3) _ _ assms(5-7)] assms(4) by simp

text \<open>C22: an applied move leaves the item with the requested location as its only one, whatever it was before, and
  changes no other record or edge; the reported number of edges is the edges removed and added.\<close>

theorem move_exact:
  assumes "surreal_db api content" and "mutate api w db (UpdateLocation i l m s) = (db', r)"
    and "mr_status r = APPLIED"
  shows "\<exists>it loc. as_record_id i = Inr it \<and> as_record_id l = Inr loc \<and> m = Commit
    \<and> map_of (g_nodes (content db)) it \<noteq> None \<and> map_of (g_nodes (content db)) loc \<noteq> None
    \<and> location_of w (content db) it \<noteq> [loc] \<and> location_of w (content db') it = [loc]
    \<and> g_nodes (content db') = g_nodes (content db)
    \<and> filter (\<lambda>e. \<not> (fst (ed_id e) = w_location w \<and> ed_in e = it)) (g_edges (content db'))
      = filter (\<lambda>e. \<not> (fst (ed_id e) = w_location w \<and> ed_in e = it)) (g_edges (content db))
    \<and> mr_edges r = 1 + int (length (location_of w (content db) it))"
proof (rule surreal_db.move_effect[OF assms])
  fix it loc
  assume a: "as_record_id i = Inr it" "as_record_id l = Inr loc" "m = Commit"
    "map_of (g_nodes (content db)) it \<noteq> None" "map_of (g_nodes (content db)) loc \<noteq> None"
    "location_of w (content db) it \<noteq> [loc]"
    "mr_edges r = 1 + int (length (location_of w (content db) it))" and
    g: "content db' = (content db)\<lparr>g_edges := filter (\<lambda>e. \<not> (fst (ed_id e) = w_location w \<and> ed_in e = it)) (g_edges (content db))
       @ [\<lparr>ed_id = location_edge_id w it loc, ed_in = it, ed_out = loc\<rparr>]\<rparr>"
  have "location_of w (content db') it = [loc]"
    by (auto simp: g location_of_def edges_out_def filter_empty_conv)
  moreover have "filter (\<lambda>e. \<not> (fst (ed_id e) = w_location w \<and> ed_in e = it)) (g_edges (content db'))
      = filter (\<lambda>e. \<not> (fst (ed_id e) = w_location w \<and> ed_in e = it)) (g_edges (content db))"
    by (simp add: g)
  ultimately show ?thesis using a g by auto
qed

text \<open>C23: an applied attribute update wrote writable, declared and well-typed properties only: every key of the
  request reads as requested, every other key and every other record as before, and no edge changed.\<close>

theorem attributes_exact:
  assumes "surreal_db api content" and "mutate api w db (UpdateAttributes i p m s) = (db', r)"
    and "mr_status r = APPLIED" and "distinct (map fst p)"
  shows "\<exists>it f f'. as_record_id i = Inr it \<and> m = Commit \<and> set (map fst p) \<subseteq> set (w_writable w)
    \<and> validate_item_properties w p False = Inr None
    \<and> map_of (g_nodes (content db)) it = Some f
    \<and> map_of (g_nodes (content db')) = (map_of (g_nodes (content db)))(it \<mapsto> f')
    \<and> map_of f' = map_of f ++ map_of p \<and> g_edges (content db') = g_edges (content db)"
proof (rule surreal_db.attributes_effect[OF assms(1-3)])
  fix it f
  assume a: "as_record_id i = Inr it" "m = Commit" "map_of (g_nodes (content db)) it = Some f"
    "set (map fst p) \<subseteq> set (w_writable w)" "validate_item_properties w p False = Inr None"
    "content db' = (content db)\<lparr>g_nodes := AList.update it (merge_fields f p) (g_nodes (content db))\<rparr>"
  moreover have "map_of (merge_fields f p) = map_of f ++ map_of p"
    by (rule ext) (simp add: map_of_merge_fields[OF assms(4)] map_add_def)
  ultimately show ?thesis by (auto simp: update_conv')
qed

text \<open>C24: an applied deletion leaves neither the item nor any edge at it, and every other record and edge as
  before; the reported number of edges is the number that the item's relations had at it.\<close>

theorem deletion_exact:
  assumes "surreal_db api content" and "mutate api w db (DeleteItem i m s) = (db', r)"
    and "mr_status r = APPLIED"
  shows "\<exists>it ns. as_record_id i = Inr it \<and> m = Commit \<and> map_of (g_nodes (content db)) it \<noteq> None
    \<and> map_of (g_nodes (content db')) = (map_of (g_nodes (content db)))(it := None)
    \<and> g_edges (content db') = filter (\<lambda>e. ed_in e \<noteq> it \<and> ed_out e \<noteq> it) (g_edges (content db))
    \<and> item_relations w = Inr ns
    \<and> mr_edges r = sum_list (map (\<lambda>n. int (length (edges_at (content db) n it))) ns)"
  by (rule surreal_db.delete_effect[OF assms]) (auto simp: delete_conv')

text \<open>The answers without a write are truthful: "not found" means the item is not stored (and is never the
  answer to a creation), "conflict" that the item to create already exists or still has a location, or that
  the item to move has several, and "no change" that the item is where it should go.\<close>

theorem refusals_truthful:
  assumes "surreal_db api content" and "mutate api w db q = (db', r)"
    and "mr_status r \<in> {NOT_FOUND, CONFLICT, NO_CHANGE}"
  shows "\<exists>it. as_record_id (request_entity q) = Inr it
    \<and> refusal_explained w (content db) q it (mr_status r)"
proof -
  have u: "mutate_unguarded api w db q = (db', Inr r)"
    using assms(2,3) by (auto simp: mutate_def split: sum.splits prod.splits)
  note facts = surreal_db.record_absent[OF assms(1)] surreal_db.record_present[OF assms(1)]
    surreal_db.locations_length[OF assms(1)] surreal_db.locations_one[OF assms(1)]
  show ?thesis
  proof (cases q)
    case (CreateItem i p l m s)
    with u create_refused[of api w db q i p l db' r] assms(3) consider f where "mr_status r = CONFLICT" "item_record api db i = Inr (Some f)"
      | x xs where "mr_status r = CONFLICT" "item_record api db i = Inr None" "current_locations api w db i = Inr (x # xs)"
      by auto
    then show ?thesis
    proof cases
      case 1
      from facts(2)[OF this(2)] 1 CreateItem show ?thesis by (auto simp: refusal_explained_def)
    next
      case 2
      from item_record_id[OF 2(2)] obtain it where "as_record_id i = Inr it" by blast
      with facts(3)[OF 2(3) this] 2 CreateItem show ?thesis by (auto simp: refusal_explained_def)
    qed
  next
    case (UpdateLocation i l m s)
    with u move_refused[of api w db q i l db' r] assms(3) consider "mr_status r = NOT_FOUND" "item_record api db i = Inr None"
      | f ls where "mr_status r = CONFLICT" "item_record api db i = Inr (Some f)" "current_locations api w db i = Inr ls" "length ls > 1"
      | f where "mr_status r = NO_CHANGE" "item_record api db i = Inr (Some f)" "current_locations api w db i = Inr [l]"
      by auto
    then show ?thesis
    proof cases
      case 1
      from facts(1)[OF this(2)] 1 UpdateLocation show ?thesis by (auto simp: refusal_explained_def)
    next
      case 2
      from facts(2)[OF 2(2)] obtain it where "as_record_id i = Inr it" "map_of (g_nodes (content db)) it \<noteq> None" by blast
      with facts(3)[OF 2(3) this(1)] 2 UpdateLocation show ?thesis by (auto simp: refusal_explained_def)
    next
      case 3
      from facts(2)[OF 3(2)] obtain it where "as_record_id i = Inr it" "map_of (g_nodes (content db)) it \<noteq> None" by blast
      with facts(4)[OF 3(3) this(1)] 3 UpdateLocation show ?thesis by (auto simp: refusal_explained_def)
    qed
  next
    case (UpdateAttributes i p m s)
    with u attributes_refused[of api w db q i p db' r] assms(3) consider "mr_status r = NOT_FOUND" "item_record api db i = Inr None"
      | f where "mr_status r = NO_CHANGE" "item_record api db i = Inr (Some f)" by auto
    then show ?thesis
      by cases (use facts(1,2) UpdateAttributes in \<open>force simp: refusal_explained_def\<close>)+
  next
    case (DeleteItem i m s)
    with u delete_refused[of api w db q i db' r] assms(3) have "mr_status r = NOT_FOUND" "item_record api db i = Inr None"
      by auto
    with facts(1)[OF this(2)] DeleteItem show ?thesis by (auto simp: refusal_explained_def)
  qed
qed

section \<open>A deployment\<close>

definition keys_schema :: item_schema where
  "keys_schema = \<lparr>is_properties = [''name'', ''item_type'', ''color''],
     is_types = [(''name'', ''any''), (''item_type'', ''string''), (''color'', ''string'')]\<rparr>"

definition keys_writer :: writer where
  "keys_writer = \<lparr>w_items = Some keys_schema, w_registry = location_registry, w_location = ''located_in'',
     w_writable = [''color'']\<rparr>"

lemma keys_writer_made:
  "new_writer (Some keys_schema) location_registry (Some ''located_in'')
     [([''color''], True), ([''name''], False), ([], True)] = Inr keys_writer"
  by code_simp

definition rooms_graph :: graph where
  "rooms_graph = \<lparr>g_nodes = [((''space'', ''hall''), []), ((''space'', ''kitchen''), [])], g_edges = [],
     g_unique = [''located_in'']\<rparr>"

definition keys_request :: "mode \<Rightarrow> write_request" where
  "keys_request m = CreateItem ''item:keys'' [(''name'', VStr ''Keys'')] ''space:hall'' m None"

definition keys_graph :: graph where
  "keys_graph = fst (mutate graph_api keys_writer rooms_graph (keys_request Commit))"

lemmas keys_defs = keys_graph_def keys_request_def

lemma reference_db: "surreal_db graph_api (\<lambda>g. g)"
  by (rule reference_store.surreal_db_axioms)

lemma keys_created:
  "mutate graph_api keys_writer rooms_graph (keys_request Commit)
     = (keys_graph, snd (mutate graph_api keys_writer rooms_graph (keys_request Commit)))"
  by (simp add: keys_graph_def)

lemma keys_created_status:
  "mr_status (snd (mutate graph_api keys_writer rooms_graph (keys_request Commit))) = APPLIED"
  by code_simp

theorem mutation_atomic_witness:
  "fst (mutate graph_api keys_writer rooms_graph (keys_request Preview)) = rooms_graph"
  using mutation_atomic[OF reference_db, of keys_writer rooms_graph "keys_request Preview",
      OF prod.collapse[symmetric]]
  by (simp add: keys_request_def)

theorem creation_exact_witness:
  "\<exists>loc. g_edges keys_graph = [\<lparr>ed_id = location_edge_id keys_writer (''item'', ''keys'') loc,
      ed_in = (''item'', ''keys''), ed_out = loc\<rparr>] \<and> loc = (''space'', ''hall'')"
proof -
  have r: "as_record_id ''item:keys'' = Inr (''item'', ''keys'')" "as_record_id ''space:hall'' = Inr (''space'', ''hall'')"
    by code_simp+
  from creation_exact[OF reference_db keys_created[unfolded keys_request_def] keys_created_status[unfolded keys_request_def]]
  show ?thesis by (auto simp: r rooms_graph_def keys_request_def)
qed

theorem created_item_reads_back_witness:
  "current_locations graph_api keys_writer keys_graph ''item:keys'' = Inr [''space:hall'']"
proof -
  have ok: "request_ok (CreateItem ''item:keys'' [(''name'', VStr ''Keys'')] ''space:hall'' Commit None)"
    "plain_items [(''name'', VStr ''Keys'')]" by code_simp+
  obtain x ls where "item_record graph_api keys_graph ''item:keys'' = Inr x"
    and ls: "current_locations graph_api keys_writer keys_graph ''item:keys'' = Inr ls"
  proof -
    have "isl (item_record graph_api keys_graph ''item:keys'') = False"
      "isl (current_locations graph_api keys_writer keys_graph ''item:keys'') = False" by code_simp+
    with that show thesis by (metis sum.collapse(2))
  qed
  from created_item_reads_back[OF reference_db keys_created[unfolded keys_request_def]
      keys_created_status[unfolded keys_request_def] ok this[unfolded keys_request_def]] ls
  show ?thesis by simp
qed

definition moved_graph :: graph where
  "moved_graph = fst (mutate graph_api keys_writer keys_graph (UpdateLocation ''item:keys'' ''space:kitchen'' Commit None))"

theorem move_exact_witness:
  "\<exists>loc. location_of keys_writer moved_graph (''item'', ''keys'') = [loc] \<and> loc = (''space'', ''kitchen'')"
proof -
  have r: "as_record_id ''item:keys'' = Inr (''item'', ''keys'')" "as_record_id ''space:kitchen'' = Inr (''space'', ''kitchen'')"
    by code_simp+
  have st: "mr_status (snd (mutate graph_api keys_writer keys_graph
      (UpdateLocation ''item:keys'' ''space:kitchen'' Commit None))) = APPLIED" by code_simp
  from move_exact[OF reference_db prod.collapse[symmetric] st] show ?thesis by (auto simp: r moved_graph_def)
qed

theorem attributes_exact_witness:
  "\<exists>f. map_of (g_nodes (fst (mutate graph_api keys_writer keys_graph
      (UpdateAttributes ''item:keys'' [(''color'', VStr ''red'')] Commit None)))) (''item'', ''keys'') = Some f
     \<and> map_of f ''color'' = Some (VStr ''red'')"
proof -
  have r: "as_record_id ''item:keys'' = Inr (''item'', ''keys'')" by code_simp
  have st: "mr_status (snd (mutate graph_api keys_writer keys_graph
      (UpdateAttributes ''item:keys'' [(''color'', VStr ''red'')] Commit None))) = APPLIED" by code_simp
  have d: "distinct (map fst [(''color'', VStr ''red'')])" by simp
  from attributes_exact[OF reference_db prod.collapse[symmetric] st d] show ?thesis by (auto simp: r)
qed

theorem deletion_exact_witness:
  "g_edges (fst (mutate graph_api keys_writer keys_graph (DeleteItem ''item:keys'' Commit None))) = []
   \<and> mr_edges (snd (mutate graph_api keys_writer keys_graph (DeleteItem ''item:keys'' Commit None))) = 1"
proof -
  have r: "as_record_id ''item:keys'' = Inr (''item'', ''keys'')" by code_simp
  have st: "mr_status (snd (mutate graph_api keys_writer keys_graph (DeleteItem ''item:keys'' Commit None))) = APPLIED"
    by code_simp
  have n: "item_relations keys_writer = Inr [''located_in'']" "edges_at keys_graph ''located_in'' (''item'', ''keys'') = g_edges keys_graph"
    "length (g_edges keys_graph) = 1" "filter (\<lambda>e. ed_in e \<noteq> (''item'', ''keys'') \<and> ed_out e \<noteq> (''item'', ''keys'')) (g_edges keys_graph) = []"
    by code_simp+
  from deletion_exact[OF reference_db prod.collapse[symmetric] st] show ?thesis by (auto simp: r n)
qed

theorem refusals_truthful_witness:
  "\<exists>it. as_record_id ''item:keys'' = Inr it \<and> map_of (g_nodes rooms_graph) it = None"
proof -
  have st: "mr_status (snd (mutate graph_api keys_writer rooms_graph (DeleteItem ''item:keys'' Commit None))) = NOT_FOUND"
    by code_simp
  from refusals_truthful[OF reference_db prod.collapse[symmetric], of keys_writer rooms_graph
      "DeleteItem ''item:keys'' Commit None"] st
  show ?thesis by (auto simp: refusal_explained_def)
qed

section \<open>What the code does in corners\<close>

text \<open>Two different pairs of an item and a location get the same edge identifier, because the components are joined by
  underscores; the second creation is then refused as a failed transaction.\<close>

lemma location_edge_id_collides:
  "location_edge_id w (''item'', ''a'') (''space'', ''b__space_c'')
     = location_edge_id w (''item'', ''a__space_b'') (''space'', ''c'')"
  by (simp add: location_edge_id_def implicit_edge_component_def)

definition collision_graph :: graph where
  "collision_graph = \<lparr>g_nodes = [((''space'', ''b__space_c''), []), ((''space'', ''c''), [])], g_edges = [],
     g_unique = [''located_in'']\<rparr>"

lemma creation_blocked_by_collision:
  "let named = (\<lambda>i l. CreateItem i [(''name'', VStr ''x'')] l Commit None);
       (g1, r1) = mutate graph_api keys_writer collision_graph (named ''item:a'' ''space:b__space_c'');
       (g2, r2) = mutate graph_api keys_writer g1 (named ''item:a__space_b'' ''space:c'')
   in mr_status r1 = APPLIED \<and> mr_reason r2 = Some ''TRANSACTION_FAILED''"
  by code_simp

text \<open>An item with a record-valued field can never be updated: the check that nobody changed the item compares
  the stored row with the row read before, in which record identifiers have become strings.\<close>

definition owned_graph :: graph where
  "owned_graph = \<lparr>g_nodes = [((''item'', ''keys''), [(''name'', VStr ''Keys''), (''maker'', VRec ''organization'' ''abus'')])],
     g_edges = [], g_unique = []\<rparr>"

lemma record_field_blocks_update:
  "mr_reason (snd (mutate graph_api keys_writer owned_graph
     (UpdateAttributes ''item:keys'' [(''color'', VStr ''red'')] Commit None))) = Some ''TRANSACTION_FAILED''"
  by code_simp

text \<open>A malformed request whose operation is a list raises instead of being answered.\<close>

lemma malformed_operation_raises:
  "snd (mutate_raw (\<lambda>raw. None) api w db (VDict [(''operation'', VList [])])) = Inl TypeError"
  by (simp add: mutate_raw_def malformed_result_def get_or_None_def)

end
