(* ===== verification/GuiSession.thy ===== *)
theory GuiSession
  imports PyTime
begin

text \<open>
  \<open>conversation/session.py\<close>: the signed session token of the household interface. A text that the token
  carries (the identity value, the key) is represented by its UTF-8 bytes, the token itself by its
  characters. The keyed digest \<open>HMAC-SHA256\<close> in hexadecimal is an argument \<open>mac key payload\<close>, so every
  statement holds whatever it computes; the two readings of the clock are arguments.
\<close>

section \<open>Base 64 decoding\<close>

definition sextet :: "char \<Rightarrow> nat option" where
  "sextet c = (let n = code_pt c in
     if is_upper c then Some (n - 65) else if is_lower c then Some (n - 71) else if is_digit c then Some (n + 4)
     else if c = CHR ''-'' \<or> c = CHR ''+'' then Some 62
     else if c = CHR ''_'' \<or> c = CHR ''/'' then Some 63 else None)"

text \<open>\<open>binascii.a2b_base64\<close>, not strict: characters outside the alphabet are skipped, a complete padding ends
  the input. The state is the position in the group of four, the bits left over and the paddings seen.\<close>

fun a2b :: "nat \<Rightarrow> nat \<Rightarrow> nat \<Rightarrow> string \<Rightarrow> string res" where
  "a2b q l p [] = (if q = 0 then Inr [] else Inl ValueError)"
| "a2b q l p (c # cs) =
     (if c = CHR ''='' then
        if 2 \<le> q \<and> 4 \<le> q + p + 1 then Inr [] else a2b q l (if 2 \<le> q then p + 1 else p) cs
      else case sextet c of
          None \<Rightarrow> a2b q l p cs
        | Some v \<Rightarrow>
            if q = 0 then a2b 1 v 0 cs
            else if q = 1 then bind_res (a2b 2 (v mod 16) 0 cs) (\<lambda>r. Inr (char_of (l * 4 + v div 16) # r))
            else if q = 2 then bind_res (a2b 3 (v mod 4) 0 cs) (\<lambda>r. Inr (char_of (l * 16 + v div 4) # r))
            else bind_res (a2b 0 0 0 cs) (\<lambda>r. Inr (char_of (l * 64 + v) # r)))"

text \<open>UTF-8 as the strict codec accepts it: no overlong form, no surrogate, nothing above U+10FFFF.\<close>

definition cont_byte :: "char \<Rightarrow> bool" where
  "cont_byte c \<longleftrightarrow> 128 \<le> code_pt c \<and> code_pt c < 192"

fun utf8_ok :: "string \<Rightarrow> bool" where
  "utf8_ok [] = True"
| "utf8_ok (a # s) =
     (let n = code_pt a in
      if n < 128 then utf8_ok s
      else if 194 \<le> n \<and> n < 224 then (case s of b # t \<Rightarrow> cont_byte b \<and> utf8_ok t | _ \<Rightarrow> False)
      else if 224 \<le> n \<and> n < 240 then
        (case s of b # c # t \<Rightarrow> cont_byte b \<and> cont_byte c \<and> (n = 224 \<longrightarrow> 160 \<le> code_pt b)
             \<and> (n = 237 \<longrightarrow> code_pt b < 160) \<and> utf8_ok t
         | _ \<Rightarrow> False)
      else if 240 \<le> n \<and> n < 245 then
        (case s of b # c # d # t \<Rightarrow> cont_byte b \<and> cont_byte c \<and> cont_byte d \<and> (n = 240 \<longrightarrow> 144 \<le> code_pt b)
             \<and> (n = 244 \<longrightarrow> code_pt b < 144) \<and> utf8_ok t
         | _ \<Rightarrow> False)
      else False)"

definition ascii :: "string \<Rightarrow> bool" where
  "ascii s \<longleftrightarrow> list_all (\<lambda>c. code_pt c < 128) s"

definition unb64 :: "string \<Rightarrow> string res" where
  "unb64 s = (if \<not> ascii s then Inl ValueError
     else bind_res (a2b 0 0 0 (s @ replicate ((4 - length s mod 4) mod 4) CHR ''='')) (\<lambda>v.
       if utf8_ok v then Inr v else Inl ValueError))"

section \<open>The token\<close>

definition session_seconds :: int where
  "session_seconds = 12 * 60 * 60"

text \<open>\<open>int(text)\<close>: white space around it, a sign, digits with single underscores between them.\<close>

definition int_of_text :: "string \<Rightarrow> int res" where
  "int_of_text s =
     (let t = strip s; sign = (t \<noteq> [] \<and> hd t \<in> set ''+-''); d = (if sign then tl t else t) in
      if list_all (\<lambda>w. w \<noteq> [] \<and> list_all is_digit w) (split_on CHR ''_'' d)
         \<and> length (filter is_digit d) \<le> 4300
      then Inr ((if sign \<and> hd t = CHR ''-'' then - 1 else 1) * int (nat_of_digits (filter is_digit d)))
      else Inl ValueError)"

text \<open>\<open>str.split(sep, n)\<close>: at most \<open>n\<close> cuts.\<close>

fun split_most :: "nat \<Rightarrow> char \<Rightarrow> string \<Rightarrow> string list" where
  "split_most 0 sep s = [s]"
| "split_most (Suc n) sep s =
     (case dropWhile (\<lambda>c. c \<noteq> sep) s of [] \<Rightarrow> [s]
      | _ # rest \<Rightarrow> takeWhile (\<lambda>c. c \<noteq> sep) s # split_most n sep rest)"

definition session_token ::
  "(string \<Rightarrow> string \<Rightarrow> string) \<Rightarrow> string \<Rightarrow> string \<Rightarrow> string \<Rightarrow> int option \<Rightarrow> int \<Rightarrow> string" where
  "session_token mac key kind v expires now =
     (let expiry = show_int (case expires of None \<Rightarrow> now + session_seconds | Some e \<Rightarrow> e);
          payload = ''gui:'' @ kind @ '':'' @ v @ '':'' @ expiry
      in kind @ ''.'' @ b64_encode v @ ''.'' @ expiry @ ''.'' @ mac key payload)"

definition session_kinds :: "string list" where
  "session_kinds = [''email'', ''id'', ''none'']"

text \<open>The first component of the result is \<open>time.time()\<close> read for the lower bound, the second for the upper bound.\<close>

definition parse_session ::
  "(string \<Rightarrow> string \<Rightarrow> string) \<Rightarrow> int \<Rightarrow> int \<Rightarrow> string \<Rightarrow> string \<Rightarrow> (string \<times> string) option" where
  "parse_session mac t1 t2 token key =
     (case split_most 3 CHR ''.'' token of
        [kind, encoded, expiry_text, sig] \<Rightarrow>
          if kind \<notin> set session_kinds then None
          else (case unb64 encoded of
              Inl e \<Rightarrow> None
            | Inr v \<Rightarrow> (case int_of_text expiry_text of
                Inl e \<Rightarrow> None
              | Inr expiry \<Rightarrow>
                  if \<not> (t1 < expiry \<and> expiry \<le> t2 + session_seconds) then None
                  else if token \<noteq> session_token mac key kind v (Some expiry) t2 then None
                  else Some (kind, v)))
      | _ \<Rightarrow> None)"

definition valid_session :: "(string \<Rightarrow> string \<Rightarrow> string) \<Rightarrow> int \<Rightarrow> int \<Rightarrow> string \<Rightarrow> string \<Rightarrow> bool" where
  "valid_session mac t1 t2 token key \<longleftrightarrow> parse_session mac t1 t2 token key \<noteq> None"

section \<open>Decoding inverts encoding\<close>

lemma sextet_b64_char: "sextet (b64_char n) = Some (n mod 64)"
proof -
  have "map sextet b64_alphabet = map Some [0..<64]"
    by (simp add: sextet_def b64_alphabet_def char_class_defs upt_rec)
  then have "map sextet b64_alphabet ! (n mod 64) = map Some [0..<64] ! (n mod 64)" by simp
  moreover have "length b64_alphabet = 64" by (simp add: b64_alphabet_def)
  ultimately show ?thesis by (simp add: b64_char_def)
qed

lemma b64_char_not_pad [simp]: "b64_char n \<noteq> CHR ''=''"
proof
  assume "b64_char n = CHR ''=''"
  with sextet_b64_char[of n] have "sextet CHR ''='' \<noteq> None" by simp
  moreover have "sextet CHR ''='' = None" by (simp add: sextet_def char_class_defs)
  ultimately show False by simp
qed

lemma a2b_step [simp]:
  "a2b q l p (b64_char n # cs) =
     (if q = 0 then a2b 1 (n mod 64) 0 cs
      else if q = 1 then bind_res (a2b 2 (n mod 64 mod 16) 0 cs) (\<lambda>r. Inr (char_of (l * 4 + n mod 64 div 16) # r))
      else if q = 2 then bind_res (a2b 3 (n mod 64 mod 4) 0 cs) (\<lambda>r. Inr (char_of (l * 16 + n mod 64 div 4) # r))
      else bind_res (a2b 0 0 0 cs) (\<lambda>r. Inr (char_of (l * 64 + n mod 64) # r)))"
  by (simp add: sextet_b64_char)

lemma code_pt_bound: "code_pt c < 256"
  by (simp add: code_pt_def)

lemma char_of_code_pt [simp]: "char_of (code_pt c) = c"
  by (simp add: code_pt_def)

lemma regroup:
  fixes a b c :: nat
  assumes "a < 256" "b < 256" "c < 256"
  shows "a div 4 mod 64 * 4 + (a mod 4 * 16 + b div 16) mod 64 div 16 = a"
    "(a mod 4 * 16 + b div 16) mod 64 mod 16 * 16 + (b mod 16 * 4 + c div 64) mod 64 div 4 = b"
    "(b mod 16 * 4 + c div 64) mod 64 mod 4 * 64 + c mod 64 mod 64 = c"
proof -
  have "a div 4 < 64" "b div 16 < 16" "c div 64 < 4" "a mod 4 < 4" "b mod 16 < 16" using assms by auto
  then have s: "a mod 4 * 16 + b div 16 < 64" "b mod 16 * 4 + c div 64 < 64" by linarith+
  show "a div 4 mod 64 * 4 + (a mod 4 * 16 + b div 16) mod 64 div 16 = a"
    "(a mod 4 * 16 + b div 16) mod 64 mod 16 * 16 + (b mod 16 * 4 + c div 64) mod 64 div 4 = b"
    "(b mod 16 * 4 + c div 64) mod 64 mod 4 * 64 + c mod 64 mod 64 = c"
    using s \<open>a div 4 < 64\<close> \<open>b div 16 < 16\<close> \<open>c div 64 < 4\<close> by (simp_all add: mod_less)
qed

lemma first_char: "char_of (code_pt a div 4 * 4 + (code_pt a mod 4 * 16 + code_pt b div 16) mod 64 div 16) = a"
proof -
  have "code_pt a div 4 < 64" using code_pt_bound[of a] by linarith
  then show ?thesis using regroup(1)[of "code_pt a" "code_pt b" 0] by (simp add: code_pt_bound)
qed

lemma a2b_pads [simp]: "a2b 0 0 0 [] = Inr []" "a2b 2 l 0 ''==='' = Inr []" "a2b 2 l 0 ''=='' = Inr []" "a2b 3 l 0 ''='' = Inr []"
  by simp_all

definition b64_padded :: "string \<Rightarrow> string" where
  "b64_padded s = s @ replicate ((4 - length s mod 4) mod 4) CHR ''=''"

lemma replicate_2: "replicate 2 x = [x, x]"
  by (simp add: numeral_2_eq_2)

lemma padded_group: "b64_padded (a # b # c # d # s) = a # b # c # d # b64_padded s"
  by (simp add: b64_padded_def)

lemma a2b_encode: "a2b 0 0 0 (b64_padded (b64_encode v)) = Inr v"
proof (induction v rule: b64_encode.induct)
  case (4 a b c s)
  then show ?case
    using regroup[of "code_pt a" "code_pt b" "code_pt c"]
    by (simp add: padded_group code_pt_bound first_char del: a2b.simps(2))
next
  case (2 a)
  show ?case using regroup(1)[of "code_pt a" 0 0] by (simp add: b64_padded_def code_pt_bound replicate_2 first_char del: a2b.simps(2))
next
  case (3 a b)
  show ?case using regroup(1,2)[of "code_pt a" "code_pt b" 0]
    by (simp add: b64_padded_def code_pt_bound replicate_2 first_char del: a2b.simps(2))
qed (simp_all add: b64_padded_def)


lemma unb64_encode:
  assumes "utf8_ok v"
  shows "unb64 (b64_encode v) = Inr v"
proof -
  have a: "code_pt (b64_char n) < 128" for n
  proof -
    have "list_all (\<lambda>c. code_pt c < 128) b64_alphabet" by (simp add: b64_alphabet_def code_pt_def)
    moreover have "length b64_alphabet = 64" by (simp add: b64_alphabet_def)
    ultimately show ?thesis by (simp add: list_all_iff b64_char_def)
  qed
  have "ascii (b64_encode v)" by (induction v rule: b64_encode.induct) (auto simp: ascii_def a)
  with a2b_encode[of v] assms show ?thesis by (simp add: unb64_def b64_padded_def)
qed

lemma unb64_utf8: "unb64 s = Inr v \<Longrightarrow> utf8_ok v"
  by (auto simp: unb64_def bind_res_Inr_iff split: if_splits)

section \<open>Which tokens are accepted\<close>

lemma dropWhile_none: "list_all (\<lambda>c. \<not> P c) s \<Longrightarrow> dropWhile P s = s"
  by (cases s) auto

lemma strip_no_space: "list_all (\<lambda>c. \<not> is_space c) s \<Longrightarrow> strip s = s"
  by (simp add: strip_def lstrip_def rstrip_def dropWhile_none list_all_iff)

lemma digit_no_space: "is_digit c \<Longrightarrow> \<not> is_space c" "is_digit c \<Longrightarrow> c \<notin> set ''+-_.''"
  by (auto simp: char_class_defs)

lemma int_of_text_show:
  assumes "0 \<le> e" and "e < 10 ^ 13"
  shows "int_of_text (show_int e) = Inr e"
proof -
  let ?s = "show_nat (nat e)"
  have d: "list_all is_digit ?s" by (auto simp: list_all_iff dest: is_digit_show_nat)
  have "hd ?s \<in> set ?s" by simp
  then have h: "hd ?s \<notin> set ''+-''" using digit_no_space(2) is_digit_show_nat by fastforce
  have "CHR ''_'' \<notin> set ?s" using digit_no_space(2)[of "CHR ''_''"] d by (auto simp: list_all_iff)
  then have "split_on CHR ''_'' ?s = [?s]" by (rule split_on_no_sep)
  moreover have "filter is_digit ?s = ?s" using d by (simp add: list_all_iff filter_id_conv)
  moreover have "strip ?s = ?s" by (rule strip_no_space) (use d digit_no_space(1) in \<open>auto simp: list_all_iff\<close>)
  moreover have "length ?s \<le> 4300" using length_show_nat[of "nat e" 12] assms by (simp add: nat_less_iff)
  ultimately show ?thesis using h d assms(1) by (simp add: int_of_text_def show_int_def)
qed

lemma split_most_cut: "sep \<notin> set w \<Longrightarrow> split_most (Suc n) sep (w @ sep # rest) = w # split_most n sep rest"
proof -
  assume "sep \<notin> set w"
  then have "dropWhile (\<lambda>c. c \<noteq> sep) (w @ sep # rest) = sep # rest" "takeWhile (\<lambda>c. c \<noteq> sep) (w @ sep # rest) = w"
    by (induction w) auto
  then show ?thesis by simp
qed

lemma b64_no_dot: "CHR ''.'' \<notin> set (b64_encode v)"
proof -
  have a: "b64_char n \<noteq> CHR ''.''" for n
  proof
    assume "b64_char n = CHR ''.''"
    with sextet_b64_char[of n] show False by (simp add: sextet_def char_class_defs)
  qed
  then have "CHR ''.'' \<noteq> b64_char n" for n by metis
  then show ?thesis by (induction v rule: b64_encode.induct) auto
qed

lemma split_token:
  assumes "kind \<in> set session_kinds" and "0 \<le> e"
  shows "split_most 3 CHR ''.'' (session_token mac key kind v (Some e) now)
    = [kind, b64_encode v, show_int e, mac key (''gui:'' @ kind @ '':'' @ v @ '':'' @ show_int e)]"
proof -
  have "CHR ''.'' \<notin> set kind" using assms(1) by (auto simp: session_kinds_def)
  moreover have "CHR ''.'' \<notin> set (show_int e)"
    using assms(2) is_digit_show_nat[of "CHR ''.''" "nat e"] by (auto simp: show_int_def char_class_defs)
  ultimately show ?thesis
    by (simp add: session_token_def Let_def numeral_3_eq_3 b64_no_dot split_most_cut del: split_most.simps(2))
qed

text \<open>C28: a token is accepted for an identity exactly when it is the token that the service issues for that identity
  with this key and an expiry in the next twelve hours: nothing else, whatever lenient decoding would make of
  it, and no issued token in that window is refused.\<close>

theorem session_token_exact:
  assumes "0 \<le> t1" and "t2 < 10 ^ 12"
  shows "parse_session mac t1 t2 token key = Some (kind, v) \<longleftrightarrow>
    kind \<in> set session_kinds \<and> utf8_ok v
    \<and> (\<exists>e. t1 < e \<and> e \<le> t2 + session_seconds \<and> token = session_token mac key kind v (Some e) t2)"
  (is "?L \<longleftrightarrow> ?R")
proof
  assume ?L
  then show ?R
    by (auto simp: parse_session_def dest: unb64_utf8 split: list.splits sum.splits if_splits)
next
  assume ?R
  then obtain e where e: "kind \<in> set session_kinds" "utf8_ok v" "t1 < e" "e \<le> t2 + session_seconds"
    "token = session_token mac key kind v (Some e) t2" by blast
  have "(10::int) ^ 12 + session_seconds \<le> 10 ^ 13" by (simp add: session_seconds_def)
  then have "int_of_text (show_int e) = Inr e" using e(3,4) assms by (intro int_of_text_show) linarith+
  moreover have "split_most 3 CHR ''.'' token
      = [kind, b64_encode v, show_int e, mac key (''gui:'' @ kind @ '':'' @ v @ '':'' @ show_int e)]"
    unfolding e(5) using e(1,3) assms(1) by (intro split_token) simp_all
  ultimately show ?L using e unb64_encode[OF e(2)] by (simp add: parse_session_def)
qed

definition toy_mac :: "string \<Rightarrow> string \<Rightarrow> string" where
  "toy_mac key payload = rev key @ show_nat (length payload)"

theorem session_token_exact_witness:
  "parse_session toy_mac 100 100 (session_token toy_mac ''key'' ''email'' ''ada@home'' (Some 200) 100) ''key''
     = Some (''email'', ''ada@home'')"
proof -
  have "utf8_ok ''ada@home''" "''email'' \<in> set session_kinds" by (simp_all add: code_pt_def session_kinds_def)
  then show ?thesis by (subst session_token_exact) (auto simp: session_seconds_def intro!: exI[of _ 200])
qed

end
