(* ===== verification/Conversation.thy ===== *)
theory Conversation
  imports ItemWriting
begin

text \<open>
  \<open>conversation/store.py\<close>: the transcripts of the household interface. The bounded store in memory is a
  dictionary ordered by last use; the durable store keeps rows of two tables behind the queries of the
  record \<open>'db transcripts\<close>. Fresh identifiers and the time are arguments. The ellipsis that marks a cut
  title is outside the characters of the model, so it is an argument \<open>ell\<close> of length one.
\<close>

section \<open>Conversations\<close>

record message =
  ms_id :: string
  ms_role :: string
  ms_content :: string
  ms_created :: string

record conversation =
  cv_id :: string
  cv_agent :: "string option"
  cv_body :: "string option"
  cv_model :: string
  cv_person :: "string option"
  cv_language :: string
  cv_greeting :: "string option"
  cv_title :: string
  cv_created :: string
  cv_updated :: string
  cv_messages :: "message list"

definition title_max :: nat where
  "title_max = 80"

definition conversation_title :: "string \<Rightarrow> string \<Rightarrow> string" where
  "conversation_title ell text =
     (let collapsed = join '' '' (words text) in
      if length collapsed \<le> title_max then collapsed
      else rstrip (take (title_max - 1) collapsed) @ ell)"

definition new_message :: "string \<Rightarrow> string \<Rightarrow> string \<Rightarrow> string option \<Rightarrow> string \<Rightarrow> message" where
  "new_message uid role content created_at now = \<lparr>ms_id = uid, ms_role = role, ms_content = content,
     ms_created = (case created_at of None \<Rightarrow> now | Some t \<Rightarrow> if t = [] then now else t)\<rparr>"

text \<open>The conversation that both stores create: its only message is the greeting, when there is one.\<close>

definition first_conversation ::
  "string \<Rightarrow> string \<Rightarrow> string \<Rightarrow> string option \<Rightarrow> string \<Rightarrow> string option \<Rightarrow> string \<Rightarrow> string option \<Rightarrow> conversation" where
  "first_conversation uid mid now agent model person language greeting =
     \<lparr>cv_id = uid, cv_agent = agent, cv_body = None, cv_model = model, cv_person = person,
      cv_language = language, cv_greeting = greeting,
      cv_title = (case greeting of None \<Rightarrow> [] | Some g \<Rightarrow> g),
      cv_created = now, cv_updated = now,
      cv_messages = (case greeting of None \<Rightarrow> []
         | Some g \<Rightarrow> if g = [] then [] else [new_message mid ''assistant'' g (Some now) now])\<rparr>"

record summary =
  sm_id :: string
  sm_agent :: "string option"
  sm_body :: "string option"
  sm_model :: string
  sm_language :: string
  sm_greeting :: "string option"
  sm_title :: string
  sm_created :: string
  sm_updated :: string

definition summarize :: "conversation \<Rightarrow> summary" where
  "summarize c = \<lparr>sm_id = cv_id c, sm_agent = cv_agent c, sm_body = cv_body c, sm_model = cv_model c,
     sm_language = cv_language c, sm_greeting = cv_greeting c, sm_title = cv_title c,
     sm_created = cv_created c, sm_updated = cv_updated c\<rparr>"

section \<open>The store in memory\<close>

record memory =
  mem_maximum :: int
  mem_items :: "conversation dict"

definition new_memory :: "int \<Rightarrow> memory" where
  "new_memory maximum = \<lparr>mem_maximum = maximum, mem_items = []\<rparr>"

text \<open>\<open>while len(items) > maximum: items.popitem(last=False)\<close>; the oldest entries go first, and an empty
  dictionary raises.\<close>

fun evict :: "int \<Rightarrow> 'v dict \<Rightarrow> 'v dict \<times> unit res" where
  "evict maximum [] = ([], if maximum < 0 then Inl KeyError else Inr ())"
| "evict maximum (x # d) =
     (if maximum < int (length (x # d)) then evict maximum d else (x # d, Inr ()))"

definition memory_create ::
  "string \<Rightarrow> string \<Rightarrow> string \<Rightarrow> memory \<Rightarrow> string option \<Rightarrow> string \<Rightarrow> string option \<Rightarrow> string \<Rightarrow> string option
     \<Rightarrow> memory \<times> conversation res" where
  "memory_create uid mid now st agent model person language greeting =
     (let c = first_conversation uid mid now agent model person language greeting;
          (d, r) = evict (mem_maximum st) (AList.update uid c (mem_items st))
      in (st\<lparr>mem_items := d\<rparr>, bind_res r (\<lambda>u. Inr c)))"

definition memory_get :: "memory \<Rightarrow> string \<Rightarrow> conversation option" where
  "memory_get st i = map_of (mem_items st) i"

text \<open>\<open>sort(key, reverse=True)\<close> keeps equal elements in their order.\<close>

definition sort_down :: "('a \<Rightarrow> 'b::linorder) \<Rightarrow> 'a list \<Rightarrow> 'a list" where
  "sort_down f xs = rev (sort_key f (rev xs))"

definition memory_list :: "memory \<Rightarrow> string option \<Rightarrow> summary list" where
  "memory_list st person =
     sort_down sm_updated (map summarize (filter (\<lambda>c. cv_person c = person) (map snd (mem_items st))))"

definition memory_delete :: "memory \<Rightarrow> string \<Rightarrow> memory \<times> bool" where
  "memory_delete st i = (st\<lparr>mem_items := AList.delete i (mem_items st)\<rparr>, map_of (mem_items st) i \<noteq> None)"

text \<open>Writing a changed conversation in place and moving it to the end.\<close>

definition memory_touch :: "memory \<Rightarrow> string \<Rightarrow> conversation \<Rightarrow> memory" where
  "memory_touch st i c = st\<lparr>mem_items := move_to_end i (AList.update i c (mem_items st))\<rparr>"

definition memory_set_body :: "string \<Rightarrow> memory \<Rightarrow> string \<Rightarrow> string option \<Rightarrow> memory \<times> conversation option" where
  "memory_set_body now st i body =
     (case map_of (mem_items st) i of
        None \<Rightarrow> (st, None)
      | Some c \<Rightarrow> let c' = c\<lparr>cv_body := body, cv_updated := now\<rparr> in (memory_touch st i c', Some c'))"

definition first_user_message :: "bool option \<Rightarrow> message list \<Rightarrow> bool" where
  "first_user_message first earlier =
     (case first of Some b \<Rightarrow> b | None \<Rightarrow> \<not> list_ex (\<lambda>m. ms_role m = ''user'') earlier)"

definition memory_append ::
  "string \<Rightarrow> string \<Rightarrow> string \<Rightarrow> memory \<Rightarrow> string \<Rightarrow> string \<Rightarrow> string \<Rightarrow> bool option \<Rightarrow> memory \<times> message option" where
  "memory_append ell mid now st i role content first =
     (case map_of (mem_items st) i of
        None \<Rightarrow> (st, None)
      | Some c \<Rightarrow>
          let m = new_message mid role content None now;
              c' = c\<lparr>cv_messages := cv_messages c @ [m], cv_updated := ms_created m,
                     cv_title := (if role = ''user'' \<and> first_user_message first (cv_messages c)
                                  then conversation_title ell content else cv_title c)\<rparr>
          in (memory_touch st i c', Some m))"

section \<open>The durable store\<close>

record 'db transcripts =
  t_upsert :: "'db \<Rightarrow> rid \<Rightarrow> fields \<Rightarrow> 'db \<times> unit res"    \<comment> \<open>\<open>UPSERT $id CONTENT ..\<close>\<close>
  t_record :: "'db \<Rightarrow> rid \<Rightarrow> pyval res"                    \<comment> \<open>\<open>SELECT * FROM $id\<close>\<close>
  t_person :: "'db \<Rightarrow> string option \<Rightarrow> pyval res"         \<comment> \<open>the person's conversations, latest first\<close>
  t_messages :: "'db \<Rightarrow> string \<Rightarrow> pyval res"               \<comment> \<open>its messages, oldest first\<close>
  t_user_count :: "'db \<Rightarrow> string \<Rightarrow> pyval res"             \<comment> \<open>how many of them a user wrote\<close>
  t_delete_messages :: "'db \<Rightarrow> string \<Rightarrow> 'db \<times> unit res"
  t_delete :: "'db \<Rightarrow> rid \<Rightarrow> 'db \<times> unit res"

definition conversation_table :: string where "conversation_table = ''gui_conversation''"
definition message_table :: string where "message_table = ''gui_message''"

text \<open>\<open>to_json_value\<close> agrees with the conversion of the writing service on the values of the model.\<close>

definition to_json_value :: "pyval \<Rightarrow> pyval" where
  "to_json_value v = json_value v"

text \<open>\<open>_records\<close>: the dictionaries of an answer, through nested lists.\<close>

fun records_of :: "pyval \<Rightarrow> fields list"
  and records_in :: "pyval list \<Rightarrow> fields list" where
  "records_of (VDict d) = [d]"
| "records_of (VList vs) = records_in vs"
| "records_of v = []"
| "records_in [] = []"
| "records_in (VDict d # vs) = d # records_in vs"
| "records_in (VList us # vs) = records_in us @ records_in vs"
| "records_in (v # vs) = records_in vs"

definition answer_records :: "pyval \<Rightarrow> fields list" where
  "answer_records v = records_of (to_json_value v)"

definition or_empty :: "pyval \<Rightarrow> pyval" where
  "or_empty v = (if truthy v then v else VStr [])"

definition from_record :: "fields \<Rightarrow> string \<Rightarrow> fields" where
  "from_record r i =
     [(''id'', VStr i), (''agent_id'', get_or_None r ''agent_id''),
      (''active_embodiment_id'', get_or_None r ''active_embodiment_id''), (''model'', get_or_None r ''model''),
      (''person_id'', get_or_None r ''person_id''), (''language'', get_or_None r ''language''),
      (''greeting'', get_or_None r ''greeting''), (''title'', or_empty (get_or_None r ''title'')),
      (''created_at'', get_or_None r ''created_at''), (''updated_at'', get_or_None r ''updated_at'')]"

definition after_colon :: "string \<Rightarrow> string" where
  "after_colon s = (case dropWhile (\<lambda>c. c \<noteq> CHR '':'') s of [] \<Rightarrow> s | _ # r \<Rightarrow> r)"

definition summary_of :: "fields \<Rightarrow> fields" where
  "summary_of r = (let rid = get_or_None r ''id'';
       i = (if truthy rid then after_colon (canonical_val rid) else [])
     in from_record r i @ [(''object'', VStr ''conversation'')])"

definition transcript_load :: "'db transcripts \<Rightarrow> 'db \<Rightarrow> string \<Rightarrow> fields option res" where
  "transcript_load t db i =
     bind_res (as_record_id (conversation_table @ '':'' @ i)) (\<lambda>r. bind_res (t_record t db r) (\<lambda>v.
       Inr (case answer_records v of [] \<Rightarrow> None | x # _ \<Rightarrow> Some (from_record x i))))"

definition item_of :: "fields \<Rightarrow> string \<Rightarrow> pyval res" where
  "item_of r k = (case map_of r k of None \<Rightarrow> Inl KeyError | Some v \<Rightarrow> Inr v)"

definition message_of :: "fields \<Rightarrow> pyval res" where
  "message_of r =
     (let m = get_or_None r ''message_id'';
          i = canonical_val (if truthy m then m else get_or_None r ''id'')
      in bind_res (item_of r ''role'') (\<lambda>role. bind_res (item_of r ''content'') (\<lambda>content.
           bind_res (item_of r ''created_at'') (\<lambda>made.
             Inr (VDict [(''id'', VStr i), (''role'', role), (''content'', content), (''created_at'', made)])))))"

definition load_messages :: "'db transcripts \<Rightarrow> 'db \<Rightarrow> string \<Rightarrow> pyval list res" where
  "load_messages t db i = bind_res (t_messages t db i) (\<lambda>v. map_res message_of (answer_records v))"

definition transcript_get :: "'db transcripts \<Rightarrow> 'db \<Rightarrow> string \<Rightarrow> fields option res" where
  "transcript_get t db i = bind_res (transcript_load t db i) (\<lambda>x. case x of
       None \<Rightarrow> Inr None
     | Some c \<Rightarrow> bind_res (load_messages t db i) (\<lambda>ms. Inr (Some (AList.update ''messages'' (VList ms) c))))"

definition transcript_list :: "'db transcripts \<Rightarrow> 'db \<Rightarrow> string option \<Rightarrow> fields list res" where
  "transcript_list t db person = bind_res (t_person t db person) (\<lambda>v. Inr (map summary_of (answer_records v)))"

text \<open>\<open>while isinstance(x, list) and len(x) == 1: x = x[0]\<close>\<close>

fun unwrap :: "pyval \<Rightarrow> pyval" where
  "unwrap (VList [v]) = unwrap v"
| "unwrap v = v"

text \<open>\<open>isinstance(x, (int, float)) and x > 0\<close>; a boolean is an integer.\<close>

definition positive :: "pyval \<Rightarrow> bool" where
  "positive v = (case v of VBool b \<Rightarrow> b | VInt i \<Rightarrow> 0 < i | VFloat f \<Rightarrow> \<not> fle f (Fin 0) \<and> f \<noteq> NaN | _ \<Rightarrow> False)"

definition has_user_message :: "'db transcripts \<Rightarrow> 'db \<Rightarrow> string \<Rightarrow> bool res" where
  "has_user_message t db i = bind_res (t_user_count t db i) (\<lambda>v. Inr (positive (unwrap (to_json_value v))))"

definition message_fields :: "string \<Rightarrow> message \<Rightarrow> fields" where
  "message_fields i m = [(''conversation_id'', VStr i), (''message_id'', VStr (ms_id m)), (''role'', VStr (ms_role m)),
     (''content'', VStr (ms_content m)), (''created_at'', VStr (ms_created m))]"

definition write_message :: "'db transcripts \<Rightarrow> 'db \<Rightarrow> string \<Rightarrow> message \<Rightarrow> 'db \<times> unit res" where
  "write_message t db i m = (case as_record_id (message_table @ '':'' @ ms_id m) of
     Inl e \<Rightarrow> (db, Inl e) | Inr r \<Rightarrow> t_upsert t db r (message_fields i m))"

text \<open>Sequencing of the writes of one operation: the first exception ends it with what was written so far.\<close>

definition then_db :: "'db \<times> 'a res \<Rightarrow> ('db \<Rightarrow> 'a \<Rightarrow> 'db \<times> 'b res) \<Rightarrow> 'db \<times> 'b res" where
  "then_db m f = (case m of (db, Inl e) \<Rightarrow> (db, Inl e) | (db, Inr x) \<Rightarrow> f db x)"

definition pure_db :: "'db \<Rightarrow> 'a res \<Rightarrow> 'db \<times> 'a res" where
  "pure_db db m = (db, m)"

definition conversation_fields :: "conversation \<Rightarrow> fields" where
  "conversation_fields c = [(''agent_id'', opt_str (cv_agent c)), (''active_embodiment_id'', opt_str (cv_body c)),
     (''model'', VStr (cv_model c)), (''person_id'', opt_str (cv_person c)), (''language'', VStr (cv_language c)),
     (''greeting'', opt_str (cv_greeting c)), (''title'', VStr (cv_title c)), (''created_at'', VStr (cv_created c)),
     (''updated_at'', VStr (cv_updated c))]"

definition transcript_create ::
  "'db transcripts \<Rightarrow> string \<Rightarrow> string \<Rightarrow> string \<Rightarrow> 'db \<Rightarrow> string option \<Rightarrow> string \<Rightarrow> string option \<Rightarrow> string
     \<Rightarrow> string option \<Rightarrow> 'db \<times> conversation res" where
  "transcript_create t uid mid now db agent model person language greeting =
     (let c = first_conversation uid mid now agent model person language greeting in
      then_db (pure_db db (as_record_id (conversation_table @ '':'' @ uid))) (\<lambda>db r.
      then_db (t_upsert t db r (conversation_fields c)) (\<lambda>db u.
      then_db (case cv_messages c of [] \<Rightarrow> (db, Inr ()) | m # _ \<Rightarrow> write_message t db uid m) (\<lambda>db u.
      (db, Inr c)))))"

text \<open>The rest of an operation after the conversation was loaded: nothing when there is none.\<close>

definition when_loaded ::
  "'db transcripts \<Rightarrow> 'db \<Rightarrow> string \<Rightarrow> 'b \<Rightarrow> ('db \<Rightarrow> fields \<Rightarrow> 'db \<times> 'b res) \<Rightarrow> 'db \<times> 'b res" where
  "when_loaded t db i absent f = (case transcript_load t db i of
     Inl e \<Rightarrow> (db, Inl e) | Inr None \<Rightarrow> (db, Inr absent) | Inr (Some c) \<Rightarrow> f db c)"

definition put_conversation :: "'db transcripts \<Rightarrow> 'db \<Rightarrow> string \<Rightarrow> fields \<Rightarrow> 'db \<times> unit res" where
  "put_conversation t db i f = then_db (pure_db db (as_record_id (conversation_table @ '':'' @ i))) (\<lambda>db r. t_upsert t db r f)"

definition transcript_delete :: "'db transcripts \<Rightarrow> 'db \<Rightarrow> string \<Rightarrow> 'db \<times> bool res" where
  "transcript_delete t db i = when_loaded t db i False (\<lambda>db c.
     then_db (t_delete_messages t db i) (\<lambda>db u.
     then_db (pure_db db (as_record_id (conversation_table @ '':'' @ i))) (\<lambda>db r.
     then_db (t_delete t db r) (\<lambda>db u. (db, Inr True)))))"

definition transcript_set_body ::
  "'db transcripts \<Rightarrow> string \<Rightarrow> 'db \<Rightarrow> string \<Rightarrow> string option \<Rightarrow> 'db \<times> fields option res" where
  "transcript_set_body t now db i body = when_loaded t db i None (\<lambda>db c.
     then_db (put_conversation t db i (AList.delete ''id'' (AList.update ''updated_at'' (VStr now)
             (AList.update ''active_embodiment_id'' (opt_str body) c)))) (\<lambda>db u.
     (db, transcript_get t db i)))"

definition first_of_user :: "'db transcripts \<Rightarrow> 'db \<Rightarrow> string \<Rightarrow> string \<Rightarrow> bool option \<Rightarrow> bool res" where
  "first_of_user t db i role first =
     (if role \<noteq> ''user'' then Inr False
      else case first of Some b \<Rightarrow> Inr b | None \<Rightarrow> bind_res (has_user_message t db i) (\<lambda>b. Inr (\<not> b)))"

definition transcript_append ::
  "'db transcripts \<Rightarrow> string \<Rightarrow> string \<Rightarrow> string \<Rightarrow> 'db \<Rightarrow> string \<Rightarrow> string \<Rightarrow> string \<Rightarrow> bool option
     \<Rightarrow> 'db \<times> message option res" where
  "transcript_append t ell mid now db i role content first = when_loaded t db i None (\<lambda>db c.
     then_db (pure_db db (first_of_user t db i role first)) (\<lambda>db titled.
     let m = new_message mid role content None now in
     then_db (write_message t db i m) (\<lambda>db u.
     then_db (put_conversation t db i (AList.delete ''id'' (AList.update ''updated_at'' (VStr (ms_created m)) (if titled
         then AList.update ''title'' (VStr (conversation_title ell content)) c else c)))) (\<lambda>db u.
     (db, Inr (Some m))))))"

end
