(* ===== verification/ConversationFacts.thy ===== *)
theory ConversationFacts
  imports Conversation "HOL-Library.Multiset"
begin

text \<open>
  What the transcript stores guarantee: the store in memory is bounded, files conversations under their own
  identifiers and only appends to a transcript; the durable store refines it, under the contract of the
  queries (the locale \<open>transcripts_db\<close>), for every request of the interface.
\<close>

section \<open>The store in memory\<close>

text \<open>Bounded, keyed by the identifiers of the conversations, each key once.\<close>

definition own_ids :: "conversation dict \<Rightarrow> bool" where
  "own_ids d \<longleftrightarrow> (\<forall>k c. map_of d k = Some c \<longrightarrow> cv_id c = k)"

definition memory_ok :: "memory \<Rightarrow> bool" where
  "memory_ok st \<longleftrightarrow> distinct (map fst (mem_items st)) \<and> own_ids (mem_items st)
     \<and> 0 \<le> mem_maximum st \<and> int (length (mem_items st)) \<le> mem_maximum st"

lemma own_ids_D: "own_ids d \<Longrightarrow> map_of d k = Some c \<Longrightarrow> cv_id c = k"
  by (simp add: own_ids_def)

lemma own_ids_update: "own_ids d \<Longrightarrow> cv_id c = k \<Longrightarrow> own_ids (AList.update k c d)"
  unfolding own_ids_def map_of_update by auto

lemma own_ids_delete: "own_ids d \<Longrightarrow> own_ids (AList.delete k d)"
  unfolding own_ids_def map_of_delete by auto

lemma own_ids_move: "own_ids (move_to_end k d) \<longleftrightarrow> own_ids d"
  unfolding own_ids_def map_of_move_to_end ..

lemma own_ids_drop:
  assumes "own_ids d" and "distinct (map fst d)"
  shows "own_ids (drop n d)"
  unfolding own_ids_def
proof (intro allI impI)
  fix k c
  assume "map_of (drop n d) k = Some c"
  then have "map_of d k = Some c" using assms(2) by (metis in_set_dropD map_of_SomeD map_of_is_SomeI)
  with assms(1) show "cv_id c = k" by (rule own_ids_D)
qed

lemma evict_suffix:
  "0 \<le> m \<Longrightarrow> evict m d = (drop (length d - nat m) d, Inr ())"
proof (induction d)
  case (Cons x d)
  show ?case
  proof (cases "m < int (length (x # d))")
    case True
    then have "length (x # d) - nat m = Suc (length d - nat m)" by (simp add: Suc_diff_le nat_le_iff)
    with True Cons show ?thesis by simp
  next
    case False
    then have "length (x # d) - nat m = 0" by simp
    with False show ?thesis by simp
  qed
qed simp

lemma touch_items: "map_of (mem_items (memory_touch st i c)) = (map_of (mem_items st))(i \<mapsto> c)"
  by (simp add: memory_touch_def map_of_move_to_end update_conv')

lemma touch_ok:
  assumes "memory_ok st" and "map_of (mem_items st) i = Some c0" and "cv_id c = i"
  shows "memory_ok (memory_touch st i c)"
proof -
  let ?d = "AList.update i c (mem_items st)"
  have i: "i \<in> fst ` set (mem_items st)" using assms(2) map_of_eq_None_iff[of "mem_items st" i] by auto
  have d: "distinct (map fst ?d)" using assms(1) by (simp add: memory_ok_def distinct_update)
  have k: "map fst ?d = map fst (mem_items st)" using i by (simp add: update_keys)
  have "length ?d = length (mem_items st)" using arg_cong[OF k, of length] by simp
  then have "length (mem_items (memory_touch st i c)) = length (mem_items st)"
    by (simp add: memory_touch_def length_move_to_end[OF d])
  moreover have "own_ids (mem_items (memory_touch st i c))"
    using assms(1,3) by (simp add: memory_touch_def own_ids_move own_ids_update memory_ok_def)
  ultimately show ?thesis
    using assms(1) distinct_move_to_end[OF d] by (simp add: memory_touch_def memory_ok_def)
qed

lemma create_ok:
  assumes "memory_ok st" and "memory_create uid mid now st ag model person lang gr = (st', r)"
  shows "memory_ok st' \<and> r = Inr (first_conversation uid mid now ag model person lang gr)"
proof -
  let ?c = "first_conversation uid mid now ag model person lang gr"
  let ?d = "AList.update uid ?c (mem_items st)"
  have m: "0 \<le> mem_maximum st" using assms(1) by (simp add: memory_ok_def)
  have st': "st' = st\<lparr>mem_items := drop (length ?d - nat (mem_maximum st)) ?d\<rparr>" "r = Inr ?c"
    using assms(2) by (simp_all add: memory_create_def Let_def evict_suffix[OF m])
  have d: "distinct (map fst ?d)" using assms(1) by (simp add: memory_ok_def distinct_update)
  have "own_ids ?d"
    using assms(1) by (intro own_ids_update) (simp_all add: memory_ok_def first_conversation_def)
  from own_ids_drop[OF this d] show ?thesis
    using m d by (simp add: st' memory_ok_def drop_map[symmetric])
qed

text \<open>The requests of the interface, and the dictionaries that both stores answer with.\<close>

datatype conv_request =
    CreateConv string string string "string option" string "string option" string "string option"
  | GetConv string
  | SetBody string string "string option"
  | AppendMessage string string string string string "bool option"
  | DeleteConv string

datatype conv_answer =
    Shown "fields option"
  | Sent "message option"
  | Deleted bool

definition message_dict :: "message \<Rightarrow> pyval" where
  "message_dict m = VDict [(''id'', VStr (ms_id m)), (''role'', VStr (ms_role m)),
     (''content'', VStr (ms_content m)), (''created_at'', VStr (ms_created m))]"

definition conversation_dict :: "conversation \<Rightarrow> fields" where
  "conversation_dict c = (''id'', VStr (cv_id c)) # conversation_fields c
     @ [(''messages'', VList (map message_dict (cv_messages c)))]"

text \<open>One request in memory; \<open>ell\<close> is the ellipsis.\<close>

definition memory_step :: "string \<Rightarrow> memory \<Rightarrow> conv_request \<Rightarrow> memory \<times> conv_answer res" where
  "memory_step ell st q = (case q of
     CreateConv uid mid now agent model person language greeting \<Rightarrow>
       (case memory_create uid mid now st agent model person language greeting of
          (st', r) \<Rightarrow> (st', bind_res r (\<lambda>c. Inr (Shown (Some (conversation_dict c))))))
   | GetConv i \<Rightarrow> (st, Inr (Shown (map_option conversation_dict (memory_get st i))))
   | SetBody now i body \<Rightarrow>
       (case memory_set_body now st i body of (st', r) \<Rightarrow> (st', Inr (Shown (map_option conversation_dict r))))
   | AppendMessage mid now i role content first \<Rightarrow>
       (case memory_append ell mid now st i role content first of (st', r) \<Rightarrow> (st', Inr (Sent r)))
   | DeleteConv i \<Rightarrow> (case memory_delete st i of (st', r) \<Rightarrow> (st', Inr (Deleted r))))"

lemma delete_ok:
  assumes "memory_ok st"
  shows "memory_ok (fst (memory_delete st i))"
proof -
  have "length (AList.delete i (mem_items st)) \<le> length (mem_items st)" by (rule length_delete_le)
  moreover have "distinct (map fst (AList.delete i (mem_items st)))"
    using assms by (intro distinct_delete) (simp add: memory_ok_def)
  ultimately show ?thesis
    using assms by (simp add: memory_ok_def memory_delete_def own_ids_delete)
qed

lemma memory_step_ok: "memory_ok st \<Longrightarrow> memory_ok (fst (memory_step ell st q)) \<and> (\<exists>r. snd (memory_step ell st q) = Inr r)"
proof (cases q)
  case (CreateConv uid mid now agent model person language greeting)
  assume ok: "memory_ok st"
  obtain st' r where c: "memory_create uid mid now st agent model person language greeting = (st', r)" by (metis surj_pair)
  from create_ok[OF ok c] CreateConv c show ?thesis by (auto simp: memory_step_def)
next
  case (GetConv i)
  assume "memory_ok st"
  with GetConv show ?thesis by (simp add: memory_step_def)
next
  case (SetBody now i body)
  assume ok: "memory_ok st"
  then show ?thesis
    using SetBody touch_ok[OF ok, of i]
    by (auto simp: memory_step_def memory_set_body_def Let_def memory_ok_def dest: own_ids_D split: option.split)
next
  case (AppendMessage mid now i role content first)
  assume ok: "memory_ok st"
  then show ?thesis
    using AppendMessage touch_ok[OF ok, of i]
    by (auto simp: memory_step_def memory_append_def Let_def memory_ok_def dest: own_ids_D split: option.split)
next
  case (DeleteConv i)
  assume ok: "memory_ok st"
  from delete_ok[OF ok, of i] DeleteConv show ?thesis by (auto simp: memory_step_def split: prod.split)
qed

definition memory_run :: "string \<Rightarrow> memory \<Rightarrow> conv_request list \<Rightarrow> memory" where
  "memory_run ell st qs = foldl (\<lambda>s q. fst (memory_step ell s q)) st qs"

lemma memory_run_ok: "memory_ok st \<Longrightarrow> memory_ok (memory_run ell st qs)"
  unfolding memory_run_def by (induction qs arbitrary: st) (simp_all add: memory_step_ok)

lemma step_maximum: "mem_maximum (fst (memory_step ell st q)) = mem_maximum st"
  by (auto simp: memory_step_def memory_create_def memory_set_body_def memory_append_def memory_delete_def
      memory_touch_def Let_def split: conv_request.split option.split prod.split)

lemma run_maximum: "mem_maximum (memory_run ell st qs) = mem_maximum st"
  unfolding memory_run_def by (induction qs arbitrary: st) (simp_all add: step_maximum)

text \<open>Whether a request creates the conversation.\<close>

definition creates :: "conv_request \<Rightarrow> string \<Rightarrow> bool" where
  "creates q i = (case q of CreateConv uid mid now a m p l g \<Rightarrow> uid = i | _ \<Rightarrow> False)"

lemma step_keeps_messages:
  assumes "memory_ok st" and "memory_get st i = Some c" and "memory_get (fst (memory_step ell st q)) i = Some c'"
    and "\<not> creates q i"
  shows "\<exists>ms. cv_messages c' = cv_messages c @ ms \<and> cv_person c' = cv_person c \<and> cv_created c' = cv_created c"
proof (cases q)
  case (CreateConv uid mid now agent model person lang gr)
  let ?c = "first_conversation uid mid now agent model person lang gr"
  let ?d = "AList.update uid ?c (mem_items st)"
  have m: "0 \<le> mem_maximum st" "distinct (map fst ?d)" using assms(1) by (simp_all add: memory_ok_def distinct_update)
  have "map_of (drop (length ?d - nat (mem_maximum st)) ?d) i = Some c'"
    using assms(3) CreateConv by (simp add: memory_step_def memory_create_def Let_def evict_suffix[OF m(1)] memory_get_def)
  then have "map_of ?d i = Some c'" using m(2) by (metis in_set_dropD map_of_SomeD map_of_is_SomeI)
  with assms(2,4) CreateConv show ?thesis by (auto simp: map_of_update memory_get_def creates_def)
next
  case (GetConv j)
  with assms show ?thesis by (simp add: memory_step_def)
next
  case (SetBody now j body)
  with assms show ?thesis
    by (auto simp: memory_step_def memory_set_body_def memory_get_def touch_items Let_def split: option.splits if_splits)
next
  case (AppendMessage mid now j role content first)
  with assms show ?thesis
    by (auto simp: memory_step_def memory_append_def memory_get_def touch_items Let_def split: option.splits if_splits)
next
  case (DeleteConv j)
  with assms show ?thesis
    by (auto simp: memory_step_def memory_delete_def memory_get_def map_of_delete split: if_splits)
qed

text \<open>C30: whatever is asked of it, the store in memory answers without an error, never holds more conversations than
  its maximum, files each under its own identifier, and keeps the transcript of every conversation it still holds:
  a request other than its creation only appends to its messages and changes neither its owner nor its creation time.\<close>

theorem memory_transcripts_kept:
  assumes "0 \<le> maximum"
  shows "int (length (mem_items (memory_run ell (new_memory maximum) qs))) \<le> maximum
    \<and> own_ids (mem_items (memory_run ell (new_memory maximum) qs))
    \<and> (\<exists>a. snd (memory_step ell (memory_run ell (new_memory maximum) qs) q) = Inr a)
    \<and> (\<forall>c c'. memory_get (memory_run ell (new_memory maximum) qs) i = Some c \<and> \<not> creates q i
         \<and> memory_get (memory_run ell (new_memory maximum) (qs @ [q])) i = Some c'
       \<longrightarrow> (\<exists>ms. cv_messages c' = cv_messages c @ ms \<and> cv_person c' = cv_person c \<and> cv_created c' = cv_created c))"
proof -
  define st where "st = memory_run ell (new_memory maximum) qs"
  have "memory_ok (new_memory maximum)" using assms by (simp add: memory_ok_def new_memory_def own_ids_def)
  then have ok: "memory_ok st" unfolding st_def by (rule memory_run_ok)
  have m: "mem_maximum st = maximum" by (simp add: st_def run_maximum new_memory_def)
  have n: "memory_run ell (new_memory maximum) (qs @ [q]) = fst (memory_step ell st q)"
    by (simp add: memory_run_def st_def)
  show ?thesis
    unfolding n st_def[symmetric]
  proof (intro conjI allI impI)
    show "int (length (mem_items st)) \<le> maximum" "own_ids (mem_items st)"
      using ok m by (simp_all add: memory_ok_def)
    show "\<exists>a. snd (memory_step ell st q) = Inr a" using memory_step_ok[OF ok] by blast
    fix c c'
    assume "memory_get st i = Some c \<and> \<not> creates q i \<and> memory_get (fst (memory_step ell st q)) i = Some c'"
    then show "\<exists>ms. cv_messages c' = cv_messages c @ ms \<and> cv_person c' = cv_person c \<and> cv_created c' = cv_created c"
      by (elim conjE) (rule step_keeps_messages[OF ok])
  qed
qed

section \<open>The durable store refines the store in memory\<close>

record transcript_state =
  ts_conversations :: "fields dict"
  ts_messages :: "fields dict"

definition text_of :: "fields \<Rightarrow> string \<Rightarrow> string" where
  "text_of f k = (case map_of f k of Some (VStr s) \<Rightarrow> s | _ \<Rightarrow> [])"

definition messages_of :: "transcript_state \<Rightarrow> string \<Rightarrow> (string \<times> fields) list" where
  "messages_of g i = filter (\<lambda>m. text_of (snd m) ''conversation_id'' = i) (ts_messages g)"

definition message_row :: "string \<times> fields \<Rightarrow> pyval" where
  "message_row m = VDict ((''id'', VRec message_table (fst m)) # snd m)"

definition conversation_entry :: "string \<times> fields \<Rightarrow> pyval" where
  "conversation_entry x = VDict ((''id'', VRec conversation_table (fst x)) # snd x)"

text \<open>What the store relies on: each statement takes effect on the rows it names, and the queries answer from the
  stored rows, the messages in the order of their times, the conversations of a person latest first.\<close>

locale transcripts_db =
  fixes t :: "'db transcripts" and content :: "'db \<Rightarrow> transcript_state"
  assumes upsert_conversation: "t_upsert t db (conversation_table, k) f = (db', Inr ()) \<Longrightarrow>
      content db' = (content db)\<lparr>ts_conversations := AList.update k f (ts_conversations (content db))\<rparr>"
    and upsert_message: "t_upsert t db (message_table, k) f = (db', Inr ()) \<Longrightarrow>
      content db' = (content db)\<lparr>ts_messages := AList.update k f (ts_messages (content db))\<rparr>"
    and record_reads: "t_record t db (conversation_table, k) = Inr v \<Longrightarrow>
      v = VList (case map_of (ts_conversations (content db)) k of None \<Rightarrow> []
                 | Some f \<Rightarrow> [VDict ((''id'', VRec conversation_table k) # f)])"
    and messages_read: "t_messages t db i = Inr v \<Longrightarrow> \<exists>ms. v = VList (map message_row ms)
      \<and> mset ms = mset (messages_of (content db) i) \<and> sorted (map (\<lambda>m. text_of (snd m) ''created_at'') ms)"
    and person_reads: "t_person t db p = Inr v \<Longrightarrow> \<exists>rs. v = VList (map conversation_entry rs)
      \<and> mset rs = mset (filter (\<lambda>x. get_or_None (snd x) ''person_id'' = opt_str p) (ts_conversations (content db)))
      \<and> sorted (rev (map (\<lambda>x. text_of (snd x) ''updated_at'') rs))"
    and count_reads: "t_user_count t db i = Inr v \<Longrightarrow>
      (let n = length (filter (\<lambda>m. text_of (snd m) ''role'' = ''user'') (messages_of (content db) i)) in
       v = VList (if n = 0 then [] else [VInt (int n)]))"
    and delete_messages: "t_delete_messages t db i = (db', Inr ()) \<Longrightarrow> content db' = (content db)\<lparr>ts_messages :=
      filter (\<lambda>m. text_of (snd m) ''conversation_id'' \<noteq> i) (ts_messages (content db))\<rparr>"
    and delete_conversation: "t_delete t db (conversation_table, k) = (db', Inr ()) \<Longrightarrow>
      content db' = (content db)\<lparr>ts_conversations := AList.delete k (ts_conversations (content db))\<rparr>"

text \<open>The rows hold exactly the conversations in memory.\<close>

definition stores :: "transcript_state \<Rightarrow> memory \<Rightarrow> bool" where
  "stores g st \<longleftrightarrow> distinct (map fst (ts_conversations g))
     \<and> (\<forall>i. map_of (ts_conversations g) i = map_option conversation_fields (map_of (mem_items st) i))
     \<and> (\<forall>i. mset (messages_of g i) = mset (case map_of (mem_items st) i of None \<Rightarrow> []
          | Some c \<Rightarrow> map (\<lambda>m. (ms_id m, message_fields i m)) (cv_messages c)))
     \<and> (\<forall>i c. map_of (mem_items st) i = Some c \<longrightarrow> (\<forall>m \<in> set (cv_messages c). ms_id m \<noteq> []))
     \<and> (\<forall>m \<in> set (ts_messages g). \<exists>i c. text_of (snd m) ''conversation_id'' = i \<and> map_of (mem_items st) i = Some c)"

definition durable_step :: "'db transcripts \<Rightarrow> string \<Rightarrow> 'db \<Rightarrow> conv_request \<Rightarrow> 'db \<times> conv_answer res" where
  "durable_step t ell db q = (case q of
     CreateConv uid mid now agent model person language greeting \<Rightarrow>
       (case transcript_create t uid mid now db agent model person language greeting of
          (db', r) \<Rightarrow> (db', bind_res r (\<lambda>c. Inr (Shown (Some (conversation_dict c))))))
   | GetConv i \<Rightarrow> (db, bind_res (transcript_get t db i) (\<lambda>x. Inr (Shown x)))
   | SetBody now i body \<Rightarrow>
       (case transcript_set_body t now db i body of (db', r) \<Rightarrow> (db', bind_res r (\<lambda>x. Inr (Shown x))))
   | AppendMessage mid now i role content first \<Rightarrow>
       (case transcript_append t ell mid now db i role content first of (db', r) \<Rightarrow> (db', bind_res r (\<lambda>m. Inr (Sent m))))
   | DeleteConv i \<Rightarrow> (case transcript_delete t db i of (db', r) \<Rightarrow> (db', bind_res r (\<lambda>b. Inr (Deleted b)))))"

lemma table_record: "as_record_id (tab @ '':'' @ i) = Inr r \<Longrightarrow> CHR '':'' \<notin> set tab \<Longrightarrow> r = (tab, i) \<and> i \<noteq> []"
proof -
  assume r: "as_record_id (tab @ '':'' @ i) = Inr r" and n: "CHR '':'' \<notin> set tab"
  from r have c: "fst r @ CHR '':'' # snd r = tab @ CHR '':'' # i" "table_name (fst r)" "record_key (snd r)"
    by (auto simp: as_record_id_def canonical_def split_record_id_Inr_iff[of _ "fst r" "snd r", simplified])
  then have "CHR '':'' \<notin> set (fst r)" using table_name_no_colon by blast
  with c(1) n have "fst r = tab \<and> snd r = i"
    by (auto simp: append_eq_append_conv2 Cons_eq_append_conv append_eq_Cons_conv)
  moreover from c(3) have "snd r \<noteq> []" by (auto simp: record_key_def)
  ultimately show ?thesis by (metis prod.collapse)
qed

lemma no_colon_tables: "CHR '':'' \<notin> set conversation_table" "CHR '':'' \<notin> set message_table"
  by (simp_all add: conversation_table_def message_table_def)

lemma then_db_Inr: "then_db m f = (db', Inr y) \<longleftrightarrow> (\<exists>db x. m = (db, Inr x) \<and> f db x = (db', Inr y))"
  by (auto simp: then_db_def split: prod.splits sum.splits)

lemma conversation_row:
  "from_record (json_items ((''id'', VRec conversation_table i) # conversation_fields c)) i
     = (''id'', VStr i) # conversation_fields c"
  by (cases "cv_title c") (auto simp: from_record_def conversation_fields_def get_or_None_def opt_str_def or_empty_def
      split: option.splits)

context transcripts_db
begin

lemma load_content:
  assumes "transcript_load t db i = Inr x"
    and "map_of (ts_conversations (content db)) i = map_option conversation_fields (map_of d i)"
  shows "x = map_option (\<lambda>c. (''id'', VStr i) # conversation_fields c) (map_of d i)"
proof -
  from assms(1) obtain r v where r: "as_record_id (conversation_table @ '':'' @ i) = Inr r" "t_record t db r = Inr v"
    and x: "x = (case answer_records v of [] \<Rightarrow> None | y # _ \<Rightarrow> Some (from_record y i))"
    by (auto simp: transcript_load_def bind_res_Inr_iff)
  from table_record[OF r(1) no_colon_tables(1)] have "r = (conversation_table, i)" by simp
  with record_reads r(2) have v: "v = VList (case map_of (ts_conversations (content db)) i of None \<Rightarrow> []
                 | Some f \<Rightarrow> [VDict ((''id'', VRec conversation_table i) # f)])" by simp
  show ?thesis
    using conversation_row[of i] unfolding x v assms(2)
    by (cases "map_of d i") (simp_all add: answer_records_def to_json_value_def)
qed

end

lemma message_fields_text [simp]:
  "text_of (message_fields i m) ''conversation_id'' = i" "text_of (message_fields i m) ''role'' = ms_role m"
  "text_of (message_fields i m) ''created_at'' = ms_created m"
  by (simp_all add: message_fields_def text_of_def)

definition transcript_in :: "memory \<Rightarrow> string \<Rightarrow> message list" where
  "transcript_in st i = (case map_of (mem_items st) i of None \<Rightarrow> [] | Some c \<Rightarrow> cv_messages c)"

lemma stores_messages:
  assumes "stores g st"
  shows "mset (messages_of g i) = mset (map (\<lambda>m. (ms_id m, message_fields i m)) (transcript_in st i))"
proof -
  have "mset (messages_of g i) = mset (case map_of (mem_items st) i of None \<Rightarrow> []
          | Some c \<Rightarrow> map (\<lambda>m. (ms_id m, message_fields i m)) (cv_messages c))"
    using assms unfolding stores_def by blast
  then show ?thesis by (cases "map_of (mem_items st) i") (simp_all add: transcript_in_def)
qed

lemma stores_lookup:
  "stores g st \<Longrightarrow> map_of (ts_conversations g) i = map_option conversation_fields (map_of (mem_items st) i)"
  unfolding stores_def by blast

lemma stores_extend:
  assumes st: "stores g st" and c: "cv_messages c = transcript_in st i @ ms" and n: "\<forall>m \<in> set ms. ms_id m \<noteq> []"
    and st': "map_of (mem_items st') = (map_of (mem_items st))(i \<mapsto> c)"
    and g': "ts_conversations g' = AList.update i (conversation_fields c) (ts_conversations g)"
      "ts_messages g' = ts_messages g @ map (\<lambda>m. (ms_id m, message_fields i m)) ms"
  shows "stores g' st'"
  unfolding stores_def
proof (intro conjI allI ballI impI)
  show "distinct (map fst (ts_conversations g'))" using st by (simp add: stores_def g' distinct_update)
next
  fix j
  show "map_of (ts_conversations g') j = map_option conversation_fields (map_of (mem_items st') j)"
    using stores_lookup[OF st, of j] by (simp add: g' st' map_of_update)
next
  fix j
  have "messages_of g' j = messages_of g j @ (if j = i then map (\<lambda>m. (ms_id m, message_fields i m)) ms else [])"
    by (auto simp: messages_of_def g' filter_empty_conv filter_id_conv)
  moreover have "transcript_in st' j = (if j = i then transcript_in st i @ ms else transcript_in st j)"
    by (simp add: transcript_in_def st' c)
  ultimately have "mset (messages_of g' j) = mset (map (\<lambda>m. (ms_id m, message_fields j m)) (transcript_in st' j))"
    using stores_messages[OF st, of j] by simp
  then show "mset (messages_of g' j) = mset (case map_of (mem_items st') j of None \<Rightarrow> []
          | Some c \<Rightarrow> map (\<lambda>m. (ms_id m, message_fields j m)) (cv_messages c))"
    by (cases "map_of (mem_items st') j") (simp_all add: transcript_in_def)
next
  fix j d m
  assume d: "map_of (mem_items st') j = Some d" "m \<in> set (cv_messages d)"
  show "ms_id m \<noteq> []"
  proof (cases "j = i \<and> m \<in> set ms")
    case True
    with n show ?thesis by blast
  next
    case False
    then have "m \<in> set (transcript_in st j)"
      using d c by (auto simp: st' transcript_in_def split: if_splits)
    then obtain e where "map_of (mem_items st) j = Some e" "m \<in> set (cv_messages e)"
      by (cases "map_of (mem_items st) j") (auto simp: transcript_in_def)
    then show ?thesis using st unfolding stores_def by blast
  qed
next
  fix m
  assume "m \<in> set (ts_messages g')"
  then consider "m \<in> set (ts_messages g)" | "text_of (snd m) ''conversation_id'' = i" by (auto simp: g')
  then show "\<exists>j d. text_of (snd m) ''conversation_id'' = j \<and> map_of (mem_items st') j = Some d"
  proof cases
    case 1
    then obtain d where "map_of (mem_items st) (text_of (snd m) ''conversation_id'') = Some d"
      using st unfolding stores_def by blast
    then show ?thesis by (auto simp: st')
  qed (auto simp: st')
qed

lemma stores_remove:
  assumes st: "stores g st"
    and g': "ts_conversations g' = AList.delete i (ts_conversations g)"
      "ts_messages g' = filter (\<lambda>m. text_of (snd m) ''conversation_id'' \<noteq> i) (ts_messages g)"
  shows "stores g' (fst (memory_delete st i))"
  unfolding stores_def
proof (intro conjI allI ballI impI)
  have d: "map_of (mem_items (fst (memory_delete st i))) = (map_of (mem_items st))(i := None)"
    by (simp add: memory_delete_def delete_conv')
  show "distinct (map fst (ts_conversations g'))" using st by (simp add: stores_def g' distinct_delete)
  {
    fix j
    show "map_of (ts_conversations g') j = map_option conversation_fields (map_of (mem_items (fst (memory_delete st i))) j)"
      using stores_lookup[OF st, of j] by (simp add: g' d map_of_delete)
    have "messages_of g' j = (if j = i then [] else messages_of g j)"
      by (auto simp: messages_of_def g' filter_empty_conv intro!: filter_cong)
    then have "mset (messages_of g' j)
        = mset (if j = i then [] else map (\<lambda>m. (ms_id m, message_fields j m)) (transcript_in st j))"
      using stores_messages[OF st, of j] by simp
    then show "mset (messages_of g' j) = mset (case map_of (mem_items (fst (memory_delete st i))) j of None \<Rightarrow> []
          | Some c \<Rightarrow> map (\<lambda>m. (ms_id m, message_fields j m)) (cv_messages c))"
      by (cases "map_of (mem_items st) j") (auto simp: transcript_in_def d)
  }
  {
    fix j e m
    assume "map_of (mem_items (fst (memory_delete st i))) j = Some e" "m \<in> set (cv_messages e)"
    then have "map_of (mem_items st) j = Some e" "m \<in> set (cv_messages e)" by (auto simp: d split: if_splits)
    then show "ms_id m \<noteq> []" using st unfolding stores_def by blast
  }
  {
    fix m
    assume m: "m \<in> set (ts_messages g')"
    then obtain e where "map_of (mem_items st) (text_of (snd m) ''conversation_id'') = Some e"
      using st unfolding stores_def g' by auto
    with m show "\<exists>j e. text_of (snd m) ''conversation_id'' = j \<and> map_of (mem_items (fst (memory_delete st i))) j = Some e"
      by (auto simp: d g')
  }
qed

lemma first_user_role:
  assumes "stores g st"
  shows "(length (filter (\<lambda>m. text_of (snd m) ''role'' = ''user'') (messages_of g i)) = 0)
     \<longleftrightarrow> \<not> list_ex (\<lambda>m. ms_role m = ''user'') (transcript_in st i)"
proof -
  have "set (messages_of g i) = (\<lambda>m. (ms_id m, message_fields i m)) ` set (transcript_in st i)"
    using arg_cong[OF stores_messages[OF assms, of i], of set_mset] by simp
  then show ?thesis by (auto simp: filter_empty_conv list_ex_iff)
qed

context transcripts_db
begin

lemma write_effect:
  assumes "write_message t db i m = (db', Inr u)" and "ms_id m \<notin> fst ` set (ts_messages (content db))"
  shows "ms_id m \<noteq> [] \<and> content db' = (content db)\<lparr>ts_messages := ts_messages (content db) @ [(ms_id m, message_fields i m)]\<rparr>"
proof -
  from assms(1) obtain r where r: "as_record_id (message_table @ '':'' @ ms_id m) = Inr r"
    "t_upsert t db r (message_fields i m) = (db', Inr u)" by (auto simp: write_message_def split: sum.splits)
  note rr = table_record[OF r(1) no_colon_tables(2)]
  from r(2) rr have "t_upsert t db (message_table, ms_id m) (message_fields i m) = (db', Inr ())" by simp
  from upsert_message[OF this] assms(2) rr show ?thesis
    by (simp add: update_absent map_of_eq_None_iff)
qed

lemma upsert_effect:
  assumes "as_record_id (conversation_table @ '':'' @ i) = Inr r" and "t_upsert t db r f = (db', Inr u)"
  shows "content db' = (content db)\<lparr>ts_conversations := AList.update i f (ts_conversations (content db))\<rparr>"
proof -
  from table_record[OF assms(1) no_colon_tables(1)] assms(2)
  have "t_upsert t db (conversation_table, i) f = (db', Inr ())" by simp
  then show ?thesis by (rule upsert_conversation)
qed

lemma put_effect:
  "put_conversation t db i f = (db', Inr u) \<Longrightarrow>
     content db' = (content db)\<lparr>ts_conversations := AList.update i f (ts_conversations (content db))\<rparr>"
  by (auto simp: put_conversation_def then_db_Inr pure_db_def intro: upsert_effect)

lemma user_message_found:
  assumes "has_user_message t db i = Inr b" and "stores (content db) st"
  shows "b \<longleftrightarrow> list_ex (\<lambda>m. ms_role m = ''user'') (transcript_in st i)"
proof -
  from assms(1) obtain v where v: "t_user_count t db i = Inr v" "b = positive (unwrap (to_json_value v))"
    by (auto simp: has_user_message_def bind_res_Inr_iff)
  let ?n = "length (filter (\<lambda>m. text_of (snd m) ''role'' = ''user'') (messages_of (content db) i))"
  from count_reads[OF v(1)] have "v = VList (if ?n = 0 then [] else [VInt (int ?n)])" by (simp add: Let_def)
  then have "b \<longleftrightarrow> ?n \<noteq> 0" unfolding v(2) by (auto simp: to_json_value_def positive_def)
  with first_user_role[OF assms(2), of i] show ?thesis by blast
qed

end

lemma conversation_fields_update:
  "AList.delete ''id'' (AList.update ''updated_at'' (VStr now) ((''id'', VStr i) # conversation_fields c))
     = conversation_fields (c\<lparr>cv_updated := now\<rparr>)"
  "AList.delete ''id'' (AList.update ''updated_at'' (VStr now)
      (AList.update ''title'' (VStr ti) ((''id'', VStr i) # conversation_fields c)))
     = conversation_fields (c\<lparr>cv_updated := now, cv_title := ti\<rparr>)"
  "AList.delete ''id'' (AList.update ''updated_at'' (VStr now)
      (AList.update ''active_embodiment_id'' (opt_str body) ((''id'', VStr i) # conversation_fields c)))
     = conversation_fields (c\<lparr>cv_body := body, cv_updated := now\<rparr>)"
  by (simp_all add: conversation_fields_def)

lemma conversation_fields_messages [simp]:
  "conversation_fields (c\<lparr>cv_messages := ms\<rparr>) = conversation_fields c"
  by (simp add: conversation_fields_def)

context transcripts_db
begin

lemma loaded_none:
  assumes "stores (content db) st" and "map_of (mem_items st) i = None" and "when_loaded t db i a f = (db', Inr y)"
  shows "db' = db \<and> y = a"
  using assms(2,3) load_content[OF _ stores_lookup[OF assms(1)], of i]
  by (auto simp: when_loaded_def split: sum.splits option.splits)

lemma loaded_some:
  assumes "stores (content db) st" and "map_of (mem_items st) i = Some c" and "when_loaded t db i a f = (db', Inr y)"
  shows "f db ((''id'', VStr i) # conversation_fields c) = (db', Inr y)"
  using assms(2,3) load_content[OF _ stores_lookup[OF assms(1)], of i]
  by (auto simp: when_loaded_def split: sum.splits option.splits)

lemma append_refines:
  assumes st: "stores (content db) st" and new: "mid \<notin> fst ` set (ts_messages (content db))"
    and run: "transcript_append t ell mid now db i role text first = (db', Inr r)"
  shows "stores (content db') (fst (memory_append ell mid now st i role text first))
    \<and> r = snd (memory_append ell mid now st i role text first)"
proof -
  show ?thesis
  proof (cases "map_of (mem_items st) i")
    case None
    with loaded_none[OF st None run[unfolded transcript_append_def]] st show ?thesis by (simp add: memory_append_def)
  next
    case (Some cv)
    define m where "m = new_message mid role text None now"
    have mid: "ms_id m = mid" by (simp add: m_def new_message_def)
    from loaded_some[OF st Some run[unfolded transcript_append_def]] obtain titled db1 u where
      ti: "first_of_user t db i role first = Inr titled"
      and w: "write_message t db i m = (db1, Inr u)"
      and up: "put_conversation t db1 i (AList.delete ''id'' (AList.update ''updated_at'' (VStr (ms_created m)) (if titled
              then AList.update ''title'' (VStr (conversation_title ell text)) ((''id'', VStr i) # conversation_fields cv)
              else (''id'', VStr i) # conversation_fields cv))) = (db', Inr ())"
      and r: "r = Some m"
      by (auto simp: then_db_Inr pure_db_def Let_def m_def[symmetric])
    have tr: "transcript_in st i = cv_messages cv" using Some by (simp add: transcript_in_def)
    have titled: "titled \<longleftrightarrow> role = ''user'' \<and> first_user_message first (cv_messages cv)"
      using ti user_message_found[OF _ st, of i] tr
      by (auto simp: first_of_user_def first_user_message_def bind_res_Inr_iff split: if_splits option.splits)
    define cv' where "cv' = cv\<lparr>cv_messages := cv_messages cv @ [m], cv_updated := ms_created m,
                     cv_title := (if titled then conversation_title ell text else cv_title cv)\<rparr>"
    have eq: "memory_append ell mid now st i role text first = (memory_touch st i cv', Some m)"
      using Some titled by (simp add: memory_append_def Let_def m_def[symmetric] cv'_def)
    from write_effect[OF w] new mid have db1: "ms_id m \<noteq> []"
      "content db1 = (content db)\<lparr>ts_messages := ts_messages (content db) @ [(ms_id m, message_fields i m)]\<rparr>" by auto
    have f: "AList.delete ''id'' (AList.update ''updated_at'' (VStr (ms_created m)) (if titled
              then AList.update ''title'' (VStr (conversation_title ell text)) ((''id'', VStr i) # conversation_fields cv)
              else (''id'', VStr i) # conversation_fields cv)) = conversation_fields cv'"
      unfolding cv'_def by (cases titled) (simp_all only: conversation_fields_update if_True if_False,
        simp_all add: conversation_fields_def)
    from put_effect[OF up] f have "content db'
        = (content db1)\<lparr>ts_conversations := AList.update i (conversation_fields cv') (ts_conversations (content db1))\<rparr>" by simp
    then have "stores (content db') (memory_touch st i cv')"
      using db1 tr by (intro stores_extend[OF st, where ms = "[m]" and i = i and c = cv'])
        (simp_all add: cv'_def touch_items)
    then show ?thesis using eq r by simp
  qed
qed

lemma create_refines:
  assumes st: "stores (content db) st" and ok: "memory_ok st" and room: "int (length (mem_items st)) < mem_maximum st"
    and new: "mid \<notin> fst ` set (ts_messages (content db))" "map_of (mem_items st) uid = None"
    and run: "transcript_create t uid mid now db agent model person lang gr = (db', Inr c)"
  shows "stores (content db') (fst (memory_create uid mid now st agent model person lang gr))
    \<and> snd (memory_create uid mid now st agent model person lang gr) = Inr c"
proof -
  define cv where "cv = first_conversation uid mid now agent model person lang gr"
  from run obtain rr db1 u v where rr: "as_record_id (conversation_table @ '':'' @ uid) = Inr rr"
    and up: "t_upsert t db rr (conversation_fields cv) = (db1, Inr u)"
    and w: "(case cv_messages cv of [] \<Rightarrow> (db1, Inr ()) | m # _ \<Rightarrow> write_message t db1 uid m) = (db', Inr v)" and c: "c = cv"
    by (auto simp: transcript_create_def then_db_Inr pure_db_def Let_def cv_def[symmetric])
  note db1 = upsert_effect[OF rr up]
  let ?d = "AList.update uid cv (mem_items st)"
  have "length ?d = Suc (length (mem_items st))" by (simp add: update_absent[OF new(2)])
  then have mem: "memory_create uid mid now st agent model person lang gr = (st\<lparr>mem_items := ?d\<rparr>, Inr cv)"
    using ok room by (simp add: memory_create_def Let_def cv_def[symmetric] evict_suffix memory_ok_def)
  have tr: "transcript_in st uid = []" using new(2) by (simp add: transcript_in_def)
  have ms: "cv_messages cv = [] \<or> (\<exists>m. cv_messages cv = [m] \<and> ms_id m = mid)"
    by (auto simp: cv_def first_conversation_def new_message_def split: option.split)
  have final: "(\<forall>m \<in> set (cv_messages cv). ms_id m \<noteq> [])
    \<and> ts_messages (content db') = ts_messages (content db) @ map (\<lambda>m. (ms_id m, message_fields uid m)) (cv_messages cv)
    \<and> ts_conversations (content db') = AList.update uid (conversation_fields cv) (ts_conversations (content db))"
    using ms
  proof (elim disjE exE conjE)
    assume "cv_messages cv = []"
    with w have "db' = db1" "cv_messages cv = []" by simp_all
    then show ?thesis by (simp add: db1)
  next
    fix m assume m: "cv_messages cv = [m]" "ms_id m = mid"
    with w have "write_message t db1 uid m = (db', Inr ())" by simp
    from write_effect[OF this] new(1) m show ?thesis by (simp add: db1)
  qed
  have "stores (content db') (st\<lparr>mem_items := ?d\<rparr>)"
    using final by (intro stores_extend[OF st, where ms = "cv_messages cv" and i = uid and c = cv])
      (simp_all add: tr update_conv')
  with mem c show ?thesis by simp
qed

lemma delete_refines:
  assumes st: "stores (content db) st" and run: "transcript_delete t db i = (db', Inr b)"
  shows "stores (content db') (fst (memory_delete st i)) \<and> b = snd (memory_delete st i)"
proof -
  show ?thesis
  proof (cases "map_of (mem_items st) i")
    case None
    then have "AList.delete i (mem_items st) = mem_items st" by (rule delete_absent)
    with loaded_none[OF st None run[unfolded transcript_delete_def]] None st show ?thesis by (simp add: memory_delete_def)
  next
    case (Some cv)
    from loaded_some[OF st Some run[unfolded transcript_delete_def]] obtain db1 rr where
      d1: "t_delete_messages t db i = (db1, Inr ())"
      and rr: "as_record_id (conversation_table @ '':'' @ i) = Inr rr" and d2: "t_delete t db1 rr = (db', Inr ())" and b: "b"
      by (auto simp: then_db_Inr pure_db_def)
    from d2 table_record[OF rr no_colon_tables(1)] have "t_delete t db1 (conversation_table, i) = (db', Inr ())" by simp
    from delete_conversation[OF this] delete_messages[OF d1]
    have "stores (content db') (fst (memory_delete st i))" by (intro stores_remove[OF st]) simp_all
    with b Some show ?thesis by (simp add: memory_delete_def)
  qed
qed

end

definition in_time_order :: "message list \<Rightarrow> bool" where
  "in_time_order ms \<longleftrightarrow> sorted_wrt (<) (map ms_created ms)"

lemma sorted_permutation:
  assumes "mset ys = mset xs" and "sorted_wrt (<) (map f xs)" and "sorted (map f ys)"
  shows "ys = xs"
proof -
  have s: "sorted (map f xs)" "distinct (map f xs)" using assms(2) by (simp_all add: strict_sorted_iff)
  have "mset (map f ys) = mset (map f xs)" using assms(1) by simp
  then have "distinct (map f ys)" using s(2) mset_eq_imp_distinct_iff by blast
  moreover have "set ys = set xs" using assms(1) mset_eq_setD by blast
  moreover have "inj_on f (set ys \<union> set xs)" using s(2) \<open>set ys = set xs\<close> by (simp add: distinct_map)
  ultimately show ?thesis using s assms(3) by (intro map_sorted_distinct_set_unique)
qed

lemma records_in_rows:
  "records_in (json_list (map message_row ms))
     = map (\<lambda>m. (''id'', VStr (canonical (message_table, fst m))) # json_items (snd m)) ms"
  by (induction ms) (simp_all add: message_row_def)

lemma message_of_row:
  "ms_id m \<noteq> [] \<Longrightarrow> message_of ((''id'', VStr r) # json_items (message_fields i m)) = Inr (message_dict m)"
  by (simp add: message_of_def message_fields_def get_or_None_def item_of_def canonical_val_def message_dict_def)

lemma map_res_all: "(\<And>x. x \<in> set xs \<Longrightarrow> f (h x) = Inr (g x)) \<Longrightarrow> map_res f (map h xs) = Inr (map g xs)"
  by (induction xs) simp_all

context transcripts_db
begin

lemma load_messages_content:
  assumes st: "stores (content db) st" and c: "map_of (mem_items st) i = Some c" and o: "in_time_order (cv_messages c)"
    and run: "load_messages t db i = Inr vs"
  shows "vs = map message_dict (cv_messages c)"
proof -
  from run obtain v where v: "t_messages t db i = Inr v" "map_res message_of (answer_records v) = Inr vs"
    by (auto simp: load_messages_def bind_res_Inr_iff)
  from messages_read[OF v(1)] obtain ms where ms: "v = VList (map message_row ms)"
    "mset ms = mset (messages_of (content db) i)" "sorted (map (\<lambda>m. text_of (snd m) ''created_at'') ms)" by blast
  let ?xs = "map (\<lambda>m. (ms_id m, message_fields i m)) (cv_messages c)"
  have "mset ms = mset ?xs" using ms(2) stores_messages[OF st, of i] c by (simp add: transcript_in_def)
  then have eq: "ms = ?xs"
    by (rule sorted_permutation[OF _ _ ms(3)]) (use o in \<open>simp add: in_time_order_def comp_def\<close>)
  have nz: "\<forall>m \<in> set (cv_messages c). ms_id m \<noteq> []" using st c unfolding stores_def by blast
  have "answer_records v = map (\<lambda>m. (''id'', VStr (canonical (message_table, ms_id m))) # json_items (message_fields i m)) (cv_messages c)"
    unfolding ms(1) eq by (simp add: answer_records_def to_json_value_def records_in_rows del: map_map) (simp add: comp_def)
  moreover have "map_res message_of (map (\<lambda>m. (''id'', VStr (canonical (message_table, ms_id m))) # json_items (message_fields i m)) (cv_messages c))
      = Inr (map message_dict (cv_messages c))"
    by (rule map_res_all) (simp add: nz message_of_row)
  ultimately show ?thesis using v(2) by simp
qed

lemma get_refines:
  assumes st: "stores (content db) st" and ok: "memory_ok st" and o: "in_time_order (transcript_in st i)"
    and run: "transcript_get t db i = Inr x"
  shows "x = map_option conversation_dict (memory_get st i)"
proof -
  from run obtain y where y: "transcript_load t db i = Inr y" and rest: "(case y of None \<Rightarrow> Inr None
     | Some c \<Rightarrow> bind_res (load_messages t db i) (\<lambda>ms. Inr (Some (AList.update ''messages'' (VList ms) c)))) = Inr x"
    unfolding transcript_get_def bind_res_Inr_iff by blast
  have c: "y = map_option (\<lambda>c. (''id'', VStr i) # conversation_fields c) (map_of (mem_items st) i)"
    by (rule load_content[OF y stores_lookup[OF st]])
  show ?thesis
  proof (cases "map_of (mem_items st) i")
    case None
    with c rest show ?thesis by (simp add: memory_get_def)
  next
    case (Some cv)
    with c rest obtain vs where vs: "load_messages t db i = Inr vs"
      and x: "x = Some (AList.update ''messages'' (VList vs) ((''id'', VStr i) # conversation_fields cv))"
      by (auto simp: bind_res_Inr_iff)
    from load_messages_content[OF st Some _ vs] o Some have "vs = map message_dict (cv_messages cv)"
      by (simp add: transcript_in_def)
    moreover have "cv_id cv = i" using ok Some by (auto simp: memory_ok_def dest: own_ids_D)
    moreover have "map_of ((''id'', VStr i) # conversation_fields cv) ''messages'' = None"
      by (simp add: conversation_fields_def)
    ultimately show ?thesis using Some x by (simp only: update_absent) (simp add: memory_get_def conversation_dict_def)
  qed
qed

lemma set_body_refines:
  assumes st: "stores (content db) st" and ok: "memory_ok st" and o: "in_time_order (transcript_in st i)"
    and run: "transcript_set_body t now db i body = (db', Inr r)"
  shows "stores (content db') (fst (memory_set_body now st i body))
    \<and> r = map_option conversation_dict (snd (memory_set_body now st i body))"
proof (cases "map_of (mem_items st) i")
  case None
  with loaded_none[OF st None run[unfolded transcript_set_body_def]] st show ?thesis by (simp add: memory_set_body_def)
next
  case (Some cv)
  define cv' where "cv' = cv\<lparr>cv_body := body, cv_updated := now\<rparr>"
  from loaded_some[OF st Some run[unfolded transcript_set_body_def]] obtain u where
    up: "put_conversation t db i (conversation_fields cv') = (db', Inr u)" and r: "transcript_get t db' i = Inr r"
    unfolding then_db_Inr conversation_fields_update cv'_def[symmetric] by auto
  have eq: "memory_set_body now st i body = (memory_touch st i cv', Some cv')"
    using Some by (simp add: memory_set_body_def Let_def cv'_def)
  have id: "cv_id cv' = i" using ok Some by (auto simp: cv'_def memory_ok_def dest: own_ids_D)
  have st': "stores (content db') (memory_touch st i cv')"
    using Some by (intro stores_extend[OF st, where ms = "[]" and i = i and c = cv'])
      (simp_all add: cv'_def touch_items transcript_in_def put_effect[OF up])
  have "in_time_order (transcript_in (memory_touch st i cv') i)"
    using o Some by (simp add: transcript_in_def touch_items cv'_def)
  from get_refines[OF st' touch_ok[OF ok Some id] this r] have "r = Some (conversation_dict cv')"
    by (simp add: memory_get_def touch_items)
  with st' eq show ?thesis by simp
qed

end

section \<open>Listings\<close>

text \<open>The dictionary that the store in memory lists of a conversation.\<close>

definition summary_dict :: "summary \<Rightarrow> fields" where
  "summary_dict s = [(''id'', VStr (sm_id s)), (''object'', VStr ''conversation''), (''agent_id'', opt_str (sm_agent s)),
     (''active_embodiment_id'', opt_str (sm_body s)), (''model'', VStr (sm_model s)), (''language'', VStr (sm_language s)),
     (''greeting'', opt_str (sm_greeting s)), (''title'', VStr (sm_title s)), (''created_at'', VStr (sm_created s)),
     (''updated_at'', VStr (sm_updated s))]"

text \<open>The durable store lists the same, and the person.\<close>

definition listed_as :: "string option \<Rightarrow> fields \<Rightarrow> summary \<Rightarrow> bool" where
  "listed_as p d s \<longleftrightarrow> map_of d = (map_of (summary_dict s))(''person_id'' \<mapsto> opt_str p)"

lemma opt_str_eq [simp]: "opt_str a = opt_str b \<longleftrightarrow> a = b"
  by (simp add: opt_str_def split: option.splits)

lemma conversation_person [simp]: "get_or_None (conversation_fields c) ''person_id'' = opt_str (cv_person c)"
  by (simp add: conversation_fields_def get_or_None_def)

lemma after_table: "after_colon (canonical (conversation_table, i)) = i"
  by (simp add: after_colon_def canonical_def conversation_table_def)

lemma json_opt_str: "json_value (opt_str x) = opt_str x"
  by (simp add: opt_str_def split: option.split)

lemma or_empty_text: "or_empty (VStr s) = VStr s"
  by (simp add: or_empty_def)

lemma json_conversation: "json_items (conversation_fields c) = conversation_fields c"
  by (simp add: conversation_fields_def json_opt_str)

lemma summary_of_row:
  "summary_of ((''id'', VStr (canonical (conversation_table, i))) # json_items (conversation_fields c)) =
     [(''id'', VStr i), (''agent_id'', opt_str (cv_agent c)), (''active_embodiment_id'', opt_str (cv_body c)),
      (''model'', VStr (cv_model c)), (''person_id'', opt_str (cv_person c)), (''language'', VStr (cv_language c)),
      (''greeting'', opt_str (cv_greeting c)), (''title'', VStr (cv_title c)), (''created_at'', VStr (cv_created c)),
      (''updated_at'', VStr (cv_updated c)), (''object'', VStr ''conversation'')]"
proof -
  let ?r = "(''id'', VStr (canonical (conversation_table, i))) # conversation_fields c"
  have "get_or_None ?r ''id'' = VStr (canonical (conversation_table, i))" by (simp add: get_or_None_def)
  moreover have "truthy (VStr (canonical (conversation_table, i)))" by (simp add: canonical_def)
  moreover have "from_record ?r i = (''id'', VStr i) # conversation_fields c"
    by (simp add: from_record_def conversation_fields_def get_or_None_def or_empty_text)
  ultimately show ?thesis unfolding json_conversation summary_of_def Let_def
    by (simp add: canonical_val_def after_table conversation_fields_def)
qed

lemma summary_listed:
  "cv_person c = p \<Longrightarrow> cv_id c = i \<Longrightarrow>
     listed_as p (summary_of ((''id'', VStr (canonical (conversation_table, i))) # json_items (conversation_fields c))) (summarize c)"
  unfolding listed_as_def summary_of_row by (rule ext) (simp add: summary_dict_def summarize_def)

lemma entries_in_rows:
  "records_in (json_list (map conversation_entry rs))
     = map (\<lambda>x. (''id'', VStr (canonical (conversation_table, fst x))) # json_items (snd x)) rs"
  by (induction rs) (simp_all add: conversation_entry_def)

lemma mset_image_list: "mset rs = mset (map f xs) \<Longrightarrow> \<exists>ys. mset ys = mset xs \<and> rs = map f ys"
proof (induction rs arbitrary: xs)
  case (Cons r rs)
  then have "r \<in> set (map f xs)" by (metis mset_eq_setD list.set_intros(1))
  then obtain x where x: "x \<in> set xs" "r = f x" by auto
  then obtain a b where xs: "xs = a @ x # b" by (meson split_list)
  with Cons.prems x have "mset rs = mset (map f (a @ b))" by simp
  from Cons.IH[OF this] obtain ys where "mset ys = mset (a @ b)" "rs = map f ys" by blast
  with x xs show ?case by (intro exI[of _ "x # ys"]) simp
qed simp

lemma mset_of_maps:
  assumes "distinct (map fst xs)" and "distinct (map fst ys)" and "map_of xs = map_of ys"
  shows "mset xs = mset ys"
proof -
  have "set xs = set ys" using assms by (metis map_of_is_SomeI map_of_SomeD subrelI subset_antisym)
  then show ?thesis using assms(1,2) by (metis set_eq_iff_mset_eq_distinct distinct_map)
qed

lemma stores_rows:
  assumes "stores g st" and "memory_ok st"
  shows "mset (ts_conversations g) = mset (map (\<lambda>(i, c). (i, conversation_fields c)) (mem_items st))"
proof (rule mset_of_maps)
  have "map fst (map (\<lambda>(i, c). (i, conversation_fields c)) (mem_items st)) = map fst (mem_items st)" by auto
  then show "distinct (map fst (map (\<lambda>(i, c). (i, conversation_fields c)) (mem_items st)))"
    using assms(2) by (simp only: memory_ok_def)
  show "map_of (ts_conversations g) = map_of (map (\<lambda>(i, c). (i, conversation_fields c)) (mem_items st))"
    using stores_lookup[OF assms(1)] by (auto simp: map_of_map)
qed (use assms(1) in \<open>simp add: stores_def\<close>)

lemma memory_list_mset:
  "mset (memory_list st p) = mset (map (summarize \<circ> snd) (filter (\<lambda>x. cv_person (snd x) = p) (mem_items st)))"
  by (simp add: memory_list_def sort_down_def filter_map comp_def)

context transcripts_db
begin

lemma listing_refines:
  assumes st: "stores (content db) st" and ok: "memory_ok st" and run: "transcript_list t db p = Inr ds"
  shows "\<exists>ss. list_all2 (listed_as p) ds ss \<and> mset ss = mset (memory_list st p) \<and> sorted (rev (map sm_updated ss))"
proof -
  from run obtain v where v: "t_person t db p = Inr v" "ds = map summary_of (answer_records v)"
    by (auto simp: transcript_list_def bind_res_Inr_iff)
  from person_reads[OF v(1)] obtain rs where rs: "v = VList (map conversation_entry rs)"
    "mset rs = mset (filter (\<lambda>x. get_or_None (snd x) ''person_id'' = opt_str p) (ts_conversations (content db)))"
    "sorted (rev (map (\<lambda>x. text_of (snd x) ''updated_at'') rs))" by blast
  let ?f = "\<lambda>(i, c). (i, conversation_fields c)" and ?own = "filter (\<lambda>x. cv_person (snd x) = p) (mem_items st)"
  have "mset (filter (\<lambda>x. get_or_None (snd x) ''person_id'' = opt_str p) (ts_conversations (content db)))
      = mset (filter (\<lambda>x. get_or_None (snd x) ''person_id'' = opt_str p) (map ?f (mem_items st)))"
    using stores_rows[OF st ok] by (simp only: mset_filter)
  also have "filter (\<lambda>x. get_or_None (snd x) ''person_id'' = opt_str p) (map ?f (mem_items st)) = map ?f ?own"
    by (simp add: filter_map comp_def case_prod_beta)
  finally obtain ys where ys: "mset ys = mset ?own" "rs = map ?f ys" using mset_image_list[of rs ?f ?own] rs(2) by auto
  let ?ss = "map (summarize \<circ> snd) ys"
  have "ds = map (\<lambda>x. summary_of ((''id'', VStr (canonical (conversation_table, fst x))) # json_items (snd x))) rs"
    unfolding v(2) rs(1) by (simp add: answer_records_def to_json_value_def entries_in_rows del: map_map) (simp add: comp_def)
  moreover have "listed_as p (summary_of ((''id'', VStr (canonical (conversation_table, fst y))) # json_items (conversation_fields (snd y))))
      (summarize (snd y))" if "y \<in> set ys" for y
  proof (rule summary_listed)
    have "set ys = set ?own" using mset_eq_setD[OF ys(1)] .
    then have y: "y \<in> set (mem_items st)" "cv_person (snd y) = p" using that by auto
    show "cv_person (snd y) = p" by (rule y)
    have "map_of (mem_items st) (fst y) = Some (snd y)" "own_ids (mem_items st)"
      using y(1) ok unfolding memory_ok_def by (auto intro: map_of_is_SomeI)
    then show "cv_id (snd y) = fst y" by (blast intro: own_ids_D)
  qed
  ultimately have "list_all2 (listed_as p) ds ?ss"
    by (auto simp: ys(2) list_all2_conv_all_nth case_prod_beta)
  moreover have "mset ?ss = mset (memory_list st p)" using ys(1) by (simp add: memory_list_mset)
  moreover have "map (\<lambda>x. text_of (snd x) ''updated_at'') rs = map sm_updated ?ss"
    by (auto simp: ys(2) text_of_def conversation_fields_def summarize_def)
  then have "sorted (rev (map sm_updated ?ss))" using rs(3) by simp
  ultimately show ?thesis by blast
qed

end

text \<open>What a request needs for the two stores to answer alike: room for a new conversation, fresh identifiers, and for a
  read that the messages carry increasing times.\<close>

definition comparable :: "transcript_state \<Rightarrow> memory \<Rightarrow> conv_request \<Rightarrow> bool" where
  "comparable g st q = (case q of
     CreateConv uid mid now a m p l gr \<Rightarrow> int (length (mem_items st)) < mem_maximum st
       \<and> mid \<notin> fst ` set (ts_messages g) \<and> map_of (mem_items st) uid = None
   | GetConv i \<Rightarrow> in_time_order (transcript_in st i)
   | SetBody now i b \<Rightarrow> in_time_order (transcript_in st i)
   | AppendMessage mid now i role c f \<Rightarrow> mid \<notin> fst ` set (ts_messages g)
   | DeleteConv i \<Rightarrow> True)"

lemma durable_refines:
  assumes "transcripts_db t content" and "stores (content db) st" and "memory_ok st"
    and "comparable (content db) st q" and "durable_step t ell db q = (db', Inr a)"
  shows "snd (memory_step ell st q) = Inr a \<and> stores (content db') (fst (memory_step ell st q))"
proof (cases q)
  case (CreateConv uid mid now agent model person lang gr)
  with assms(4,5) obtain c where "transcript_create t uid mid now db agent model person lang gr = (db', Inr c)"
    "a = Shown (Some (conversation_dict c))"
    by (auto simp: durable_step_def bind_res_Inr_iff split: prod.splits)
  with transcripts_db.create_refines[OF assms(1-3) _ _ _ this(1)] assms(4) CreateConv show ?thesis
    by (auto simp: memory_step_def comparable_def split: prod.splits)
next
  case (GetConv i)
  with assms(4,5) transcripts_db.get_refines[OF assms(1-3)] assms(2) show ?thesis
    by (auto simp: durable_step_def memory_step_def comparable_def bind_res_Inr_iff)
next
  case (SetBody now i body)
  with assms(5) obtain r where "transcript_set_body t now db i body = (db', Inr r)" "a = Shown r"
    by (auto simp: durable_step_def bind_res_Inr_iff split: prod.splits)
  with transcripts_db.set_body_refines[OF assms(1-3) _ this(1)] assms(4) SetBody show ?thesis
    by (auto simp: memory_step_def comparable_def split: prod.splits)
next
  case (AppendMessage mid now i role words_in first)
  with assms(5) obtain r where "transcript_append t ell mid now db i role words_in first = (db', Inr r)" "a = Sent r"
    by (auto simp: durable_step_def bind_res_Inr_iff split: prod.splits)
  with transcripts_db.append_refines[OF assms(1,2) _ this(1)] assms(4) AppendMessage show ?thesis
    by (auto simp: memory_step_def comparable_def split: prod.splits)
next
  case (DeleteConv i)
  with assms(5) obtain r where "transcript_delete t db i = (db', Inr r)" "a = Deleted r"
    by (auto simp: durable_step_def bind_res_Inr_iff split: prod.splits)
  with transcripts_db.delete_refines[OF assms(1,2) this(1)] DeleteConv show ?thesis
    by (auto simp: memory_step_def split: prod.splits)
qed

text \<open>C29: the durable store refines the store in memory: from corresponding states every request that the database
  completes is answered exactly as the store in memory answers it, and the states correspond again; a person's
  conversations are then listed alike, latest first, up to the order of conversations with the same time and to
  the person, whom only the durable store names in the listing. The store in memory has room for a new
  conversation (a full one evicts, the durable one never does), new identifiers are fresh, and for a read the
  messages of the conversation carry increasing times.\<close>

theorem durable_store_refines_memory:
  assumes "transcripts_db t content" and "stores (content db) st" and "memory_ok st"
    and "comparable (content db) st q" and "durable_step t ell db q = (db', Inr a)"
  shows "snd (memory_step ell st q) = Inr a \<and> stores (content db') (fst (memory_step ell st q))
    \<and> (\<forall>p ds. transcript_list t db' p = Inr ds \<longrightarrow>
        (\<exists>ss. list_all2 (listed_as p) ds ss \<and> mset ss = mset (memory_list (fst (memory_step ell st q)) p)
          \<and> sorted (rev (map sm_updated ss))))"
proof -
  note r = durable_refines[OF assms]
  have "memory_ok (fst (memory_step ell st q))" using memory_step_ok[OF assms(3)] by blast
  with r transcripts_db.listing_refines[OF assms(1)] show ?thesis by blast
qed

text \<open>The reference store.\<close>

definition reference_transcripts :: "transcript_state transcripts" where
  "reference_transcripts = \<lparr>
     t_upsert = (\<lambda>g r f. if fst r = conversation_table
        then (g\<lparr>ts_conversations := AList.update (snd r) f (ts_conversations g)\<rparr>, Inr ())
        else (g\<lparr>ts_messages := AList.update (snd r) f (ts_messages g)\<rparr>, Inr ())),
     t_record = (\<lambda>g r. Inr (VList (case map_of (ts_conversations g) (snd r) of None \<Rightarrow> []
        | Some f \<Rightarrow> [VDict ((''id'', VRec conversation_table (snd r)) # f)]))),
     t_person = (\<lambda>g p. Inr (VList (map conversation_entry
        (sort_down (\<lambda>x. text_of (snd x) ''updated_at'')
          (filter (\<lambda>x. get_or_None (snd x) ''person_id'' = opt_str p) (ts_conversations g)))))),
     t_messages = (\<lambda>g i. Inr (VList (map message_row (sort_key (\<lambda>m. text_of (snd m) ''created_at'') (messages_of g i))))),
     t_user_count = (\<lambda>g i. let n = length (filter (\<lambda>m. text_of (snd m) ''role'' = ''user'') (messages_of g i)) in
        Inr (VList (if n = 0 then [] else [VInt (int n)]))),
     t_delete_messages = (\<lambda>g i. (g\<lparr>ts_messages :=
        filter (\<lambda>m. text_of (snd m) ''conversation_id'' \<noteq> i) (ts_messages g)\<rparr>, Inr ())),
     t_delete = (\<lambda>g r. (g\<lparr>ts_conversations := AList.delete (snd r) (ts_conversations g)\<rparr>, Inr ()))\<rparr>"

interpretation kept: transcripts_db reference_transcripts "\<lambda>g. g"
proof unfold_locales
  show "\<exists>ms. v = VList (map message_row ms) \<and> mset ms = mset (messages_of db i)
      \<and> sorted (map (\<lambda>m. text_of (snd m) ''created_at'') ms)"
    if "t_messages reference_transcripts db i = Inr v" for db i v
    using that by (intro exI[of _ "sort_key (\<lambda>m. text_of (snd m) ''created_at'') (messages_of db i)"])
      (auto simp: reference_transcripts_def)
  show "\<exists>rs. v = VList (map conversation_entry rs)
      \<and> mset rs = mset (filter (\<lambda>x. get_or_None (snd x) ''person_id'' = opt_str p) (ts_conversations db))
      \<and> sorted (rev (map (\<lambda>x. text_of (snd x) ''updated_at'') rs))"
    if "t_person reference_transcripts db p = Inr v" for db p v
  proof -
    let ?own = "filter (\<lambda>x. get_or_None (snd x) ''person_id'' = opt_str p) (ts_conversations db)"
    have "v = VList (map conversation_entry (sort_down (\<lambda>x. text_of (snd x) ''updated_at'') ?own))"
      using that by (simp add: reference_transcripts_def)
    then show ?thesis
      by (intro exI[of _ "sort_down (\<lambda>x. text_of (snd x) ''updated_at'') ?own"])
        (simp add: sort_down_def rev_map)
  qed
qed (auto simp: reference_transcripts_def Let_def conversation_table_def message_table_def
    cong: option.case_cong)

definition empty_transcripts :: transcript_state where
  "empty_transcripts = \<lparr>ts_conversations = [], ts_messages = []\<rparr>"

definition greeting_request :: conv_request where
  "greeting_request = CreateConv ''c1'' ''m1'' ''t1'' None ''gemma'' (Some ''person:ada'') ''en'' (Some ''Hello'')"

definition question_request :: conv_request where
  "question_request = AppendMessage ''m2'' ''t2'' ''c1'' ''user'' ''Where are my keys?'' None"

lemma empty_stores: "stores empty_transcripts (new_memory 5)" "memory_ok (new_memory 5)"
  by (simp_all add: stores_def empty_transcripts_def new_memory_def messages_of_def memory_ok_def own_ids_def)

theorem durable_store_refines_memory_witness:
  "\<exists>g ds ss. durable_step reference_transcripts ''.'' empty_transcripts greeting_request
       = (g, snd (memory_step ''.'' (new_memory 5) greeting_request))
     \<and> stores g (fst (memory_step ''.'' (new_memory 5) greeting_request))
     \<and> transcript_list reference_transcripts g (Some ''person:ada'') = Inr ds \<and> list_all2 (listed_as (Some ''person:ada'')) ds ss
     \<and> mset ss = mset (memory_list (fst (memory_step ''.'' (new_memory 5) greeting_request)) (Some ''person:ada''))"
proof -
  have c: "comparable empty_transcripts (new_memory 5) greeting_request" by code_simp
  obtain g a where d: "durable_step reference_transcripts ''.'' empty_transcripts greeting_request = (g, Inr a)"
  proof -
    have "\<not> isl (snd (durable_step reference_transcripts ''.'' empty_transcripts greeting_request))" by code_simp
    with that show thesis by (metis prod.collapse sum.collapse(2))
  qed
  have "\<exists>ds. transcript_list reference_transcripts g (Some ''person:ada'') = Inr ds"
    by (simp add: transcript_list_def reference_transcripts_def)
  with durable_store_refines_memory[OF kept.transcripts_db_axioms empty_stores c d] d show ?thesis
    by (simp add: ex_simps[symmetric] del: ex_simps) blast
qed

theorem memory_transcripts_kept_witness:
  "int (length (mem_items (memory_run ''.'' (new_memory 5) [greeting_request, question_request]))) \<le> 5"
  using memory_transcripts_kept[of 5 "''.''" "[greeting_request, question_request]"] by simp

lemma question_titled:
  "map_option cv_title (memory_get (memory_run ''.'' (new_memory 5) [greeting_request, question_request]) ''c1'')
     = Some ''Where are my keys?''"
  by code_simp

section \<open>Titles and listings\<close>

lemma length_rstrip: "length (rstrip s) \<le> length s"
  using length_dropWhile_le[of is_space "rev s"] by (simp add: rstrip_def)

text \<open>A title is at most 80 characters.\<close>

lemma title_bounded: "length ell = 1 \<Longrightarrow> length (conversation_title ell s) \<le> title_max"
  using length_rstrip[of "take (title_max - 1) (join '' '' (words s))"]
  by (auto simp: conversation_title_def Let_def title_max_def)

text \<open>The listing of a person shows exactly the conversations of that person, latest first.\<close>

lemma listing_exact:
  "set (memory_list st p) = summarize ` {c \<in> snd ` set (mem_items st). cv_person c = p}
   \<and> sorted (rev (map sm_updated (memory_list st p)))"
  by (auto simp: memory_list_def sort_down_def rev_map)

end
