(* ===== verification/PyArith.thy ===== *)
theory PyArith
  imports PyTime
begin

text \<open>
  Arithmetic and comparison on Python's dynamic values, as far as the fact operators and the
  calculator use them: binary64 addition, multiplication and division, exact integers, true division,
  \<open>sum\<close> with its compensated loop over floats, and the ordering of numbers, strings and lists.
\<close>

section \<open>Binary64\<close>

definition fneg :: "pyfloat \<Rightarrow> pyfloat" where
  "fneg f = (case f of Fin q \<Rightarrow> Fin (- q) | PInf \<Rightarrow> NInf | NInf \<Rightarrow> PInf | NaN \<Rightarrow> NaN)"

fun fadd :: "pyfloat \<Rightarrow> pyfloat \<Rightarrow> pyfloat" where
  "fadd (Fin a) (Fin b) = fl (a + b)"
| "fadd NaN _ = NaN"
| "fadd _ NaN = NaN"
| "fadd PInf NInf = NaN"
| "fadd NInf PInf = NaN"
| "fadd PInf _ = PInf"
| "fadd _ PInf = PInf"
| "fadd NInf _ = NInf"
| "fadd _ NInf = NInf"

definition fsub :: "pyfloat \<Rightarrow> pyfloat \<Rightarrow> pyfloat" where
  "fsub a b = fadd a (fneg b)"

definition finf :: "bool \<Rightarrow> pyfloat" where
  "finf negative = (if negative then NInf else PInf)"

definition fnegative :: "pyfloat \<Rightarrow> bool" where
  "fnegative f = (case f of Fin q \<Rightarrow> q < 0 | NInf \<Rightarrow> True | _ \<Rightarrow> False)"

fun fmul :: "pyfloat \<Rightarrow> pyfloat \<Rightarrow> pyfloat" where
  "fmul (Fin a) (Fin b) = fl (a * b)"
| "fmul a b = (if a = NaN \<or> b = NaN \<or> a = Fin 0 \<or> b = Fin 0 then NaN
     else finf (fnegative a \<noteq> fnegative b))"

text \<open>Division by a finite number other than zero, the only divisors of the program.\<close>

definition fdiv :: "pyfloat \<Rightarrow> rat \<Rightarrow> pyfloat" where
  "fdiv a b = (case a of Fin q \<Rightarrow> fl (q / b) | NaN \<Rightarrow> NaN | _ \<Rightarrow> finf (fnegative a \<noteq> (b < 0)))"

definition fabs_le :: "pyfloat \<Rightarrow> pyfloat \<Rightarrow> bool" where
  "fabs_le a b = (case (a, b) of (Fin x, Fin y) \<Rightarrow> \<bar>x\<bar> \<le> \<bar>y\<bar> | (NaN, _) \<Rightarrow> False | (_, NaN) \<Rightarrow> False
     | (_, Fin y) \<Rightarrow> False | _ \<Rightarrow> True)"

definition finite_float :: "pyfloat \<Rightarrow> bool" where
  "finite_float f = (case f of Fin q \<Rightarrow> True | _ \<Rightarrow> False)"

section \<open>Numbers\<close>

definition to_float :: "pyval \<Rightarrow> pyfloat res" where
  "to_float v = (case v of VFloat f \<Rightarrow> Inr f | VInt i \<Rightarrow> bind_res (float_of_int i) (\<lambda>r. Inr (Fin r))
     | VBool b \<Rightarrow> Inr (Fin (if b then 1 else 0)) | _ \<Rightarrow> Inl TypeError)"

text \<open>A boolean is the integer 0 or 1.\<close>

definition as_int :: "pyval \<Rightarrow> pyval" where
  "as_int v = (case v of VBool b \<Rightarrow> VInt (if b then 1 else 0) | _ \<Rightarrow> v)"

definition num_op :: "(int \<Rightarrow> int \<Rightarrow> int) \<Rightarrow> (pyfloat \<Rightarrow> pyfloat \<Rightarrow> pyfloat) \<Rightarrow> pyval \<Rightarrow> pyval \<Rightarrow> pyval res" where
  "num_op fi ff a b = (case (as_int a, as_int b) of
     (VInt i, VInt j) \<Rightarrow> Inr (VInt (fi i j))
   | _ \<Rightarrow> bind_res (to_float a) (\<lambda>x. bind_res (to_float b) (\<lambda>y. Inr (VFloat (ff x y)))))"

definition py_add :: "pyval \<Rightarrow> pyval \<Rightarrow> pyval res" where "py_add = num_op (+) fadd"
definition py_sub :: "pyval \<Rightarrow> pyval \<Rightarrow> pyval res" where "py_sub = num_op (-) fsub"
definition py_mul :: "pyval \<Rightarrow> pyval \<Rightarrow> pyval res" where "py_mul = num_op (*) fmul"

text \<open>True division: of two integers the quotient is rounded once.\<close>

definition py_div :: "pyval \<Rightarrow> pyval \<Rightarrow> pyval res" where
  "py_div a b = (case (as_int a, as_int b) of
     (VInt i, VInt j) \<Rightarrow> if j = 0 then Inl ZeroDivisionError
        else (case fl (of_int i / of_int j) of Fin q \<Rightarrow> Inr (VFloat (Fin q)) | _ \<Rightarrow> Inl OverflowError)
   | _ \<Rightarrow> bind_res (to_float a) (\<lambda>x. bind_res (to_float b) (\<lambda>y. case y of
        Fin q \<Rightarrow> if q = 0 then Inl ZeroDivisionError else Inr (VFloat (fdiv x q))
      | NaN \<Rightarrow> Inr (VFloat NaN)
      | _ \<Rightarrow> Inr (VFloat (if finite_float x then Fin 0 else NaN)))))"

text \<open>\<open>sum(xs)\<close> on integers and floats (CPython 3.12): machine integers are added exactly, an integer outside
  64 bits ends the fast loop, floats are added with Neumaier's compensation, an integer met there without.\<close>

definition in_long :: "int \<Rightarrow> bool" where
  "in_long i \<longleftrightarrow> - (2 ^ 63) \<le> i \<and> i < 2 ^ 63"

fun sum_plain :: "pyval \<Rightarrow> pyval list \<Rightarrow> pyval res" where
  "sum_plain a [] = Inr a"
| "sum_plain a (x # xs) = bind_res (py_add a x) (\<lambda>b. sum_plain b xs)"

definition compensated :: "pyfloat \<Rightarrow> pyfloat \<Rightarrow> pyfloat" where
  "compensated f c = (if c \<noteq> Fin 0 \<and> finite_float c then fadd f c else f)"

fun sum_floats :: "pyfloat \<Rightarrow> pyfloat \<Rightarrow> pyval list \<Rightarrow> pyval res" where
  "sum_floats f c [] = Inr (VFloat (compensated f c))"
| "sum_floats f c (v # vs) = (case v of
     VFloat x \<Rightarrow> let t = fadd f x;
         d = (if fabs_le x f then fadd (fsub f t) x else fadd (fsub x t) f)
       in sum_floats t (fadd c d) vs
   | VInt i \<Rightarrow> if in_long i then bind_res (to_float v) (\<lambda>x. sum_floats (fadd f x) c vs)
       else bind_res (py_add (VFloat (compensated f c)) v) (\<lambda>b. sum_plain b vs)
   | _ \<Rightarrow> bind_res (py_add (VFloat (compensated f c)) v) (\<lambda>b. sum_plain b vs))"

fun sum_ints :: "int \<Rightarrow> pyval list \<Rightarrow> pyval res" where
  "sum_ints i [] = Inr (VInt i)"
| "sum_ints i (v # vs) = (case v of
     VInt b \<Rightarrow> if in_long b \<and> in_long (i + b) then sum_ints (i + b) vs else sum_plain (VInt (i + b)) vs
   | _ \<Rightarrow> bind_res (py_add (VInt i) v) (\<lambda>r. case r of VFloat f \<Rightarrow> sum_floats f (Fin 0) vs | _ \<Rightarrow> sum_plain r vs))"

definition py_sum :: "pyval list \<Rightarrow> pyval res" where
  "py_sum vs = sum_ints 0 vs"

section \<open>Order\<close>

text \<open>\<open>left < right\<close>, or \<open>left <= right\<close> with the flag; \<open>left > right\<close> is \<open>right < left\<close>.\<close>

definition str_less :: "bool \<Rightarrow> string \<Rightarrow> string \<Rightarrow> bool" where
  "str_less le a b \<longleftrightarrow> (if le then map code_pt a \<le> map code_pt b else map code_pt a < map code_pt b)"

definition num_less :: "bool \<Rightarrow> pyfloat \<Rightarrow> pyfloat \<Rightarrow> bool" where
  "num_less le a b \<longleftrightarrow> fle a b \<and> (le \<or> a \<noteq> b)"

fun py_less :: "bool \<Rightarrow> pyval \<Rightarrow> pyval \<Rightarrow> bool res"
  and less_list :: "bool \<Rightarrow> pyval list \<Rightarrow> pyval list \<Rightarrow> bool res" where
  "py_less le (VStr a) y = (case y of VStr b \<Rightarrow> Inr (str_less le a b) | _ \<Rightarrow> Inl TypeError)"
| "py_less le (VList xs) y = (case y of VList ys \<Rightarrow> less_list le xs ys | _ \<Rightarrow> Inl TypeError)"
| "py_less le (VBool b) y = (case num_of y of
     Some g \<Rightarrow> Inr (num_less le (Fin (if b then 1 else 0)) g) | None \<Rightarrow> Inl TypeError)"
| "py_less le (VInt i) y = (case num_of y of Some g \<Rightarrow> Inr (num_less le (Fin (of_int i)) g) | None \<Rightarrow> Inl TypeError)"
| "py_less le (VFloat f) y = (case num_of y of Some g \<Rightarrow> Inr (num_less le f g) | None \<Rightarrow> Inl TypeError)"
| "py_less le x y = Inl TypeError"
| "less_list le [] ys = Inr (le \<or> ys \<noteq> [])"
| "less_list le (x # xs) ys = (case ys of [] \<Rightarrow> Inr False
     | y # ys' \<Rightarrow> if py_eq x y then less_list le xs ys' else py_less le x y)"

text \<open>\<open>min\<close> and \<open>max\<close> with a key: the first of the least, the first of the greatest.\<close>

fun extreme :: "bool \<Rightarrow> ('a \<Rightarrow> pyval) \<Rightarrow> 'a \<Rightarrow> 'a list \<Rightarrow> 'a res" where
  "extreme minimum f best [] = Inr best"
| "extreme minimum f best (x # xs) =
     bind_res (if minimum then py_less False (f x) (f best) else py_less False (f best) (f x)) (\<lambda>b.
       extreme minimum f (if b then x else best) xs)"

end
