(* ===== verification/Operators.thy ===== *)
theory Operators
  imports PyArith
begin

text \<open>
  \<open>facts/operators.py\<close>: the bounded computation protocol of household query plans: the registry of the
  operators with their type contracts, the validation of a proposed operation, the predicates, the
  collection and aggregation operators and the calendar transforms. The zone of the clock is a
  parameter (its data is not part of the program): \<open>zn_off\<close> gives the offset at an instant and
  \<open>zn_wall\<close> the offset of a wall time and fold.
\<close>

section \<open>Kinds\<close>

definition numeric_kinds :: "string list" where "numeric_kinds = [''integer'', ''number'']"
definition temporal_kinds :: "string list" where "temporal_kinds = [''date'', ''datetime'']"
definition ordered_kinds :: "string list" where "ordered_kinds = numeric_kinds @ temporal_kinds @ [''string'']"
definition extreme_kinds :: "string list" where "extreme_kinds = numeric_kinds @ temporal_kinds"

definition infer_value_kind :: "pyval \<Rightarrow> string" where
  "infer_value_kind v = (case v of
     VBool b \<Rightarrow> ''boolean''
   | VInt i \<Rightarrow> ''integer''
   | VFloat f \<Rightarrow> if finite_float f then ''number'' else ''unknown''
   | VStr s \<Rightarrow> (case date_fromisoformat s of Inr d \<Rightarrow> ''date''
       | Inl e \<Rightarrow> (case datetime_fromisoformat (replace_Z s) of Inr t \<Rightarrow> ''datetime'' | Inl e \<Rightarrow> ''string''))
   | VDict d \<Rightarrow> ''object''
   | VList vs \<Rightarrow> ''collection''
   | _ \<Rightarrow> ''unknown'')"

definition infer_field_kind :: "pyval list \<Rightarrow> string" where
  "infer_field_kind vs =
     (let kinds = remdups (map infer_value_kind (filter (\<lambda>v. v \<noteq> VNone) vs)) in
      if kinds = [] then ''unknown''
      else if set kinds \<subseteq> set numeric_kinds then (if ''number'' \<in> set kinds then ''number'' else ''integer'')
      else if length kinds = 1 then hd kinds else ''unknown'')"

definition validate_kind :: "string \<Rightarrow> string list \<Rightarrow> unit res" where
  "validate_kind actual accepted =
     (if actual \<in> {''unknown'', ''any''} \<or> ''any'' \<in> set accepted then Inr ()
      else if actual \<in> set accepted \<or> actual = ''integer'' \<and> ''number'' \<in> set accepted then Inr ()
      else Inl OperatorValidationError)"

section \<open>Inputs\<close>

record zone =
  zn_off :: "int \<Rightarrow> int"
  zn_wall :: "int \<Rightarrow> bool \<Rightarrow> int"

text \<open>The current time: its wall clock and fold, its zone when it has one, and the zone of the system, which
  Python takes for a naive value.\<close>

record clock =
  ck_wall :: int
  ck_fold :: bool
  ck_zone :: "zone option"
  ck_system :: zone

record op_input =
  oi_records :: "fields list"
  oi_field :: "string option"
  oi_order :: "string option"
  oi_mode :: "string option"
  oi_reference :: "string option"
  oi_from :: "string option"
  oi_to :: "string option"
  oi_now :: "clock option"
  oi_amount :: pyval

definition no_input :: op_input where
  "no_input = \<lparr>oi_records = [], oi_field = None, oi_order = None, oi_mode = None, oi_reference = None,
     oi_from = None, oi_to = None, oi_now = None, oi_amount = VNone\<rparr>"

definition source_values :: "op_input \<Rightarrow> pyval list" where
  "source_values x = (case oi_field x of None \<Rightarrow> []
     | Some k \<Rightarrow> filter (\<lambda>v. v \<noteq> VNone) (map (\<lambda>r. get_or_None r k) (oi_records x)))"

definition is_number :: "pyval \<Rightarrow> bool res" where
  "is_number v = (case v of VInt i \<Rightarrow> isfinite v | VFloat f \<Rightarrow> isfinite v | _ \<Rightarrow> Inr False)"

fun numeric_values :: "pyval list \<Rightarrow> pyval list res" where
  "numeric_values [] = Inr []"
| "numeric_values (v # vs) = bind_res (is_number v) (\<lambda>b. bind_res (numeric_values vs) (\<lambda>ns.
     Inr (if b then v # ns else ns)))"

definition only_value :: "op_input \<Rightarrow> pyval res" where
  "only_value x = (case source_values x of
     [v] \<Rightarrow> if length (oi_records x) = 1 then Inr v else Inl OperatorExecutionError
   | _ \<Rightarrow> Inl OperatorExecutionError)"

definition required_now :: "op_input \<Rightarrow> clock res" where
  "required_now x = (case oi_now x of None \<Rightarrow> Inl OperatorExecutionError | Some c \<Rightarrow> Inr c)"

definition project :: "fields \<Rightarrow> string option \<Rightarrow> pyval res" where
  "project r f = (case f of None \<Rightarrow> Inr (VDict r)
     | Some k \<Rightarrow> if get_or_None r k = VNone then Inl OperatorExecutionError else Inr (get_or_None r k))"

section \<open>Collections and aggregates\<close>

definition op_count :: "op_input \<Rightarrow> pyval res" where
  "op_count x = Inr (VInt (int (length (oi_records x))))"

text \<open>The guard of the four aggregates: a non-empty collection of numbers, none missing.\<close>

definition all_numeric :: "op_input \<Rightarrow> pyval list res" where
  "all_numeric x = bind_res (numeric_values (source_values x)) (\<lambda>ns.
     if ns = [] \<or> length ns \<noteq> length (oi_records x) then Inl OperatorExecutionError else Inr ns)"

definition op_sum :: "op_input \<Rightarrow> pyval res" where
  "op_sum x = bind_res (all_numeric x) py_sum"

definition op_average :: "op_input \<Rightarrow> pyval res" where
  "op_average x = bind_res (all_numeric x) (\<lambda>ns. bind_res (py_sum ns) (\<lambda>s. py_div s (VInt (int (length ns)))))"

definition op_minimum :: "op_input \<Rightarrow> pyval res" where
  "op_minimum x = bind_res (all_numeric x) (\<lambda>ns. extreme True (\<lambda>v. v) (hd ns) (tl ns))"

definition op_maximum :: "op_input \<Rightarrow> pyval res" where
  "op_maximum x = bind_res (all_numeric x) (\<lambda>ns. extreme False (\<lambda>v. v) (hd ns) (tl ns))"

definition op_first :: "op_input \<Rightarrow> pyval res" where
  "op_first x = (case oi_records x of [] \<Rightarrow> Inl OperatorExecutionError | r # _ \<Rightarrow> project r (oi_field x))"

definition op_last :: "op_input \<Rightarrow> pyval res" where
  "op_last x = (if oi_records x = [] then Inl OperatorExecutionError
     else project (last (oi_records x)) (oi_field x))"

definition arg_extreme :: "bool \<Rightarrow> op_input \<Rightarrow> pyval res" where
  "arg_extreme minimum x = (case oi_field x of
     None \<Rightarrow> Inl OperatorExecutionError
   | Some k \<Rightarrow>
       (case filter (\<lambda>r. get_or_None r k \<noteq> VNone) (oi_records x) of
          [] \<Rightarrow> Inl OperatorExecutionError
        | r # rs \<Rightarrow> (case extreme minimum (\<lambda>r. get_or_None r k) r rs of
              Inr s \<Rightarrow> Inr (VDict s)
            | Inl e \<Rightarrow> Inl (if e = TypeError then OperatorExecutionError else e))))"

definition op_argmin :: "op_input \<Rightarrow> pyval res" where "op_argmin x = arg_extreme True x"
definition op_argmax :: "op_input \<Rightarrow> pyval res" where "op_argmax x = arg_extreme False x"

section \<open>Calendar transforms\<close>

text \<open>A stored value is a date, an instant, or nothing temporal.\<close>

datatype temporal = TDate date | TInstant int | TNone

text \<open>A date-time with a zone is converted to UTC, which fails near the ends of the calendar.\<close>

definition temporal_value :: "pyval \<Rightarrow> temporal res" where
  "temporal_value v = (case v of
     VStr s \<Rightarrow> (case date_fromisoformat s of
         Inr d \<Rightarrow> Inr (TDate d)
       | Inl e \<Rightarrow> (case datetime_fromisoformat (replace_Z s) of
           Inr t \<Rightarrow> bind_res (utc_instant (wall_us t) (case dt_off t of None \<Rightarrow> 0 | Some off \<Rightarrow> off)) (\<lambda>i. Inr (TInstant i))
         | Inl e \<Rightarrow> Inr TNone))
   | _ \<Rightarrow> Inr TNone)"

text \<open>\<open>instant.astimezone(zone)\<close> as a wall clock.\<close>

definition to_zone :: "zone \<Rightarrow> int \<Rightarrow> int res" where
  "to_zone z i = (let w = i + zn_off z i in if in_range_us w then Inr w else Inl OverflowError)"

definition clock_date :: "clock \<Rightarrow> date res" where
  "clock_date c = fromordinal (ck_wall c div day_us)"

definition clock_instant :: "clock \<Rightarrow> int res" where
  "clock_instant c = utc_instant (ck_wall c)
     (zn_wall (case ck_zone c of None \<Rightarrow> ck_system c | Some z \<Rightarrow> z) (ck_wall c) (ck_fold c))"

text \<open>Year, month, day and time of day of a wall clock; a date has the time of day 0.\<close>

definition wall_parts :: "int \<Rightarrow> (date \<times> int) res" where
  "wall_parts w = bind_res (fromordinal (w div day_us)) (\<lambda>d. Inr (d, w mod day_us))"

definition tail_less :: "int list \<Rightarrow> int list \<Rightarrow> bool" where
  "tail_less a b \<longleftrightarrow> a < b"

definition whole_units :: "bool \<Rightarrow> date \<times> int \<Rightarrow> date \<times> int \<Rightarrow> int" where
  "whole_units years s e = (case (s, e) of ((d1, t1), (d2, t2)) \<Rightarrow>
     if years then yr d2 - yr d1 - (if tail_less [mo d2, dy d2, t2] [mo d1, dy d1, t1] then 1 else 0)
     else (yr d2 - yr d1) * 12 + mo d2 - mo d1 - (if tail_less [dy d2, t2] [dy d1, t1] then 1 else 0))"

definition signed_units :: "bool \<Rightarrow> date \<times> int \<Rightarrow> date \<times> int \<Rightarrow> bool \<Rightarrow> int" where
  "signed_units years s e forward = (if forward then whole_units years s e else - whole_units years e s)"

definition total_seconds :: "int \<Rightarrow> pyval" where
  "total_seconds us = VFloat (fl (of_int us / 1000000))"

definition op_date_difference :: "op_input \<Rightarrow> pyval res" where
  "op_date_difference x =
     bind_res (only_value x) (\<lambda>v. bind_res (required_now x) (\<lambda>now. bind_res (temporal_value v) (\<lambda>t.
     if oi_mode x \<notin> Some ` {''years'', ''months'', ''days'', ''seconds''} then Inl OperatorExecutionError
     else if oi_mode x \<in> Some ` {''years'', ''months''} then
       (case t of
          TDate d \<Rightarrow> bind_res (clock_date now) (\<lambda>e.
            Inr (VInt (signed_units (oi_mode x = Some ''years'') (d, 0) (e, 0) (\<not> date_lt e d))))
        | TInstant i \<Rightarrow> (case ck_zone now of
            None \<Rightarrow> bind_res (to_zone (ck_system now) i) (\<lambda>w. Inl TypeError)
          | Some z \<Rightarrow> bind_res (to_zone z i) (\<lambda>w. bind_res (wall_parts w) (\<lambda>s.
              bind_res (wall_parts (ck_wall now)) (\<lambda>e.
                Inr (VInt (signed_units (oi_mode x = Some ''years'') s e (w \<le> ck_wall now)))))))
        | TNone \<Rightarrow> Inl OperatorExecutionError)
     else
       (case t of
          TDate d \<Rightarrow> bind_res (clock_date now) (\<lambda>e.
            let n = toordinal e - toordinal d in
            Inr (if oi_mode x = Some ''days'' then VInt n else total_seconds (n * day_us)))
        | TInstant i \<Rightarrow> bind_res (clock_instant now) (\<lambda>e.
            Inr (if oi_mode x = Some ''days'' then VInt ((e - i) div day_us) else total_seconds (e - i)))
        | TNone \<Rightarrow> Inl OperatorExecutionError))))"

text \<open>\<open>target.isoformat()\<close> after the check that the wall time names exactly one instant: both folds have the
  same offset (so the fold that the target has does not matter), and the way back from UTC gives the wall
  time again.\<close>

definition unambiguous :: "zone \<Rightarrow> int \<Rightarrow> string res" where
  "unambiguous z w =
     (if zn_wall z w False \<noteq> zn_wall z w True then Inl OperatorExecutionError
      else bind_res (utc_instant w (zn_wall z w False)) (\<lambda>i. bind_res (to_zone z i) (\<lambda>w'.
        if w' \<noteq> w then Inl OperatorExecutionError
        else bind_res (from_wall w (Some (zn_wall z w False))) (\<lambda>t. Inr (datetime_isoformat t)))))"

text \<open>\<open>monthrange\<close> and \<open>replace\<close>: the month \<open>n\<close> months after a date, and the day of it that the date names; a
  day that the month does not have becomes the first of the next month.\<close>

definition month_target :: "date \<Rightarrow> int \<Rightarrow> date res" where
  "month_target d n =
     (let m = yr d * 12 + mo d - 1 + n; y = m div 12; mm = m mod 12 + 1; last_day = days_in_month y mm in
      bind_res (mk_date y mm (min (dy d) last_day)) (\<lambda>t.
        if dy d > last_day then fromordinal (toordinal t + 1) else Inr t))"

definition out_of_range :: "'a res \<Rightarrow> 'a res" where
  "out_of_range m = (case m of Inr x \<Rightarrow> Inr x
     | Inl e \<Rightarrow> Inl (if is_value_error e \<or> e = OverflowError then OperatorExecutionError else e))"

definition in_limit :: "pyval \<Rightarrow> bool" where
  "in_limit v = (case v of VInt i \<Rightarrow> \<bar>i\<bar> \<le> 120000 | _ \<Rightarrow> False)"

definition op_date_add :: "op_input \<Rightarrow> pyval res" where
  "op_date_add x =
     (case oi_amount x of
        VInt n \<Rightarrow>
          if \<bar>n\<bar> > 120000 \<or> oi_mode x \<notin> Some ` {''years'', ''months'', ''days''} then Inl OperatorExecutionError
          else bind_res (only_value x) (\<lambda>v. bind_res (temporal_value v) (\<lambda>t. bind_res (required_now x) (\<lambda>now.
            case ck_zone now of None \<Rightarrow> Inl OperatorExecutionError
            | Some z \<Rightarrow>
               let months = (if oi_mode x = Some ''years'' then n * 12 else n) in
               (case t of
                  TNone \<Rightarrow> Inl OperatorExecutionError
                | TDate d \<Rightarrow> out_of_range (bind_res
                    (if oi_mode x = Some ''days'' then fromordinal (toordinal d + n) else month_target d months)
                    (\<lambda>r. Inr (VStr (date_isoformat r))))
                | TInstant i \<Rightarrow> bind_res (to_zone z i) (\<lambda>w. out_of_range (bind_res
                    (if oi_mode x = Some ''days''
                     then (if in_range_us (w + n * day_us) then Inr (w + n * day_us) else Inl OverflowError)
                     else bind_res (wall_parts w) (\<lambda>(d, r). bind_res (month_target d months) (\<lambda>e.
                       Inr (toordinal e * day_us + r))))
                    (\<lambda>w'. bind_res (unambiguous z w') (\<lambda>s. Inr (VStr s)))))))))
      | _ \<Rightarrow> Inl OperatorExecutionError)"

fun next_occurrence :: "nat \<Rightarrow> int \<Rightarrow> date \<Rightarrow> date \<Rightarrow> date option" where
  "next_occurrence 0 y stored today = None"
| "next_occurrence (Suc n) y stored today =
     (case mk_date y (mo stored) (dy stored) of
        Inl e \<Rightarrow> next_occurrence n (y + 1) stored today
      | Inr d \<Rightarrow> if date_lt d today then next_occurrence n (y + 1) stored today else Some d)"

definition op_annual_occurrence :: "op_input \<Rightarrow> pyval res" where
  "op_annual_occurrence x =
     (if oi_mode x \<notin> {None, Some ''days''} then Inl OperatorExecutionError
      else bind_res (only_value x) (\<lambda>v. bind_res (required_now x) (\<lambda>now. bind_res (temporal_value v) (\<lambda>t.
        bind_res (case t of TDate d \<Rightarrow> Inr d | TInstant i \<Rightarrow> fromordinal (i div day_us)
                  | TNone \<Rightarrow> Inl OperatorExecutionError) (\<lambda>stored.
        bind_res (clock_date now) (\<lambda>today.
          (case next_occurrence 9 (yr today) stored today of
             None \<Rightarrow> Inl OperatorExecutionError
           | Some d \<Rightarrow> Inr (if oi_mode x = Some ''days'' then VInt (toordinal d - toordinal today)
                             else VStr (date_isoformat d)))))))))"

section \<open>Units\<close>

definition decimal :: "int \<Rightarrow> int \<Rightarrow> pyval" where
  "decimal n d = VFloat (fl (of_int n / of_int d))"

definition conversion :: "string \<Rightarrow> string \<Rightarrow> (pyval \<Rightarrow> pyval res) option" where
  "conversion s t = map_of
     [((''c'', ''f''), \<lambda>x. bind_res (py_mul x (VInt 9)) (\<lambda>a. bind_res (py_div a (VInt 5)) (\<lambda>b. py_add b (VInt 32)))),
      ((''f'', ''c''), \<lambda>x. bind_res (py_sub x (VInt 32)) (\<lambda>a. bind_res (py_mul a (VInt 5)) (\<lambda>b. py_div b (VInt 9)))),
      ((''kg'', ''lb''), \<lambda>x. py_mul x (decimal 22046226218 10000000000)),
      ((''lb'', ''kg''), \<lambda>x. py_div x (decimal 22046226218 10000000000)),
      ((''cm'', ''in''), \<lambda>x. py_div x (decimal 254 100)),
      ((''in'', ''cm''), \<lambda>x. py_mul x (decimal 254 100))] (s, t)"

definition op_unit_conversion :: "op_input \<Rightarrow> pyval res" where
  "op_unit_conversion x =
     bind_res (only_value x) (\<lambda>v. bind_res (is_number v) (\<lambda>b.
       if \<not> b then Inl OperatorExecutionError
       else let s = (case oi_from x of None \<Rightarrow> [] | Some u \<Rightarrow> casefold u);
                t = (case oi_to x of None \<Rightarrow> [] | Some u \<Rightarrow> casefold u)
            in if s = t \<and> s \<noteq> [] then bind_res (to_float v) (\<lambda>f. Inr (VFloat f))
               else (case conversion s t of None \<Rightarrow> Inl OperatorExecutionError | Some c \<Rightarrow> c v)))"

section \<open>The registry\<close>

record operator =
  od_name :: string
  od_family :: string
  od_shape :: string
  od_requirement :: string
  od_field_kinds :: "string list"
  od_order_required :: bool
  od_order_kinds :: "string list"
  od_parameters :: "string list"
  od_run :: "(op_input \<Rightarrow> pyval res) option"

definition plain_operator :: "string \<Rightarrow> string \<Rightarrow> string \<Rightarrow> operator" where
  "plain_operator name family shape = \<lparr>od_name = name, od_family = family, od_shape = shape,
     od_requirement = ''none'', od_field_kinds = [''any''], od_order_required = False, od_order_kinds = [''any''],
     od_parameters = [], od_run = None\<rparr>"

definition predicate_operator :: "string \<Rightarrow> string list \<Rightarrow> operator" where
  "predicate_operator name kinds = (plain_operator name ''predicate'' ''scalar'')\<lparr>
     od_requirement := ''required'', od_field_kinds := kinds\<rparr>"

definition collection_operator :: "string \<Rightarrow> string \<Rightarrow> (op_input \<Rightarrow> pyval res) \<Rightarrow> operator" where
  "collection_operator name requirement run = (plain_operator name ''collection'' ''collection'')\<lparr>
     od_requirement := requirement, od_run := Some run\<rparr>"

definition aggregate_operator :: "string \<Rightarrow> string list \<Rightarrow> (op_input \<Rightarrow> pyval res) \<Rightarrow> operator" where
  "aggregate_operator name kinds run = (plain_operator name ''aggregation'' ''collection'')\<lparr>
     od_requirement := ''required'', od_field_kinds := kinds, od_run := Some run\<rparr>"

definition transform_operator :: "string \<Rightarrow> string list \<Rightarrow> string list \<Rightarrow> (op_input \<Rightarrow> pyval res) \<Rightarrow> operator" where
  "transform_operator name kinds parameters run = (plain_operator name ''transform'' ''scalar'')\<lparr>
     od_requirement := ''required'', od_field_kinds := kinds, od_parameters := parameters, od_run := Some run\<rparr>"

definition temporal_order :: "operator \<Rightarrow> operator" where
  "temporal_order d = d\<lparr>od_order_required := True, od_order_kinds := temporal_kinds\<rparr>"

definition operator_definitions :: "operator list" where
  "operator_definitions =
     [transform_operator ''date_add'' temporal_kinds [''amount'', ''mode''] op_date_add]
     @ map (\<lambda>n. plain_operator n ''retrieval'' ''plan'') [''select'', ''resolve_reference'', ''inspect'', ''same_entity'']
     @ map (\<lambda>(n, k). predicate_operator n k)
         [(''eq'', [''any'']), (''ne'', [''any'']), (''gt'', ordered_kinds), (''gte'', ordered_kinds),
          (''lt'', ordered_kinds), (''lte'', ordered_kinds), (''in'', [''any'']), (''exists'', [''any'']),
          (''date_range'', temporal_kinds)]
     @ [collection_operator ''count'' ''none'' op_count, collection_operator ''first'' ''optional'' op_first,
        collection_operator ''last'' ''optional'' op_last,
        temporal_order (collection_operator ''latest'' ''required'' op_first),
        temporal_order (collection_operator ''earliest'' ''required'' op_first)]
     @ map (\<lambda>(n, f). aggregate_operator n numeric_kinds f)
         [(''sum'', op_sum), (''average'', op_average), (''min'', op_minimum), (''max'', op_maximum)]
     @ map (\<lambda>(n, f). aggregate_operator n extreme_kinds f) [(''argmin'', op_argmin), (''argmax'', op_argmax)]
     @ [transform_operator ''date_difference'' temporal_kinds [''mode'', ''reference''] op_date_difference,
        transform_operator ''annual_occurrence'' temporal_kinds [''reference''] op_annual_occurrence,
        transform_operator ''unit_conversion'' numeric_kinds [''from_unit'', ''to_unit''] op_unit_conversion]"

definition operators :: "operator dict" where
  "operators = map (\<lambda>d. (od_name d, d)) operator_definitions"

definition predicate_operators :: "string list" where
  "predicate_operators = map fst (filter (\<lambda>(n, d). od_family d = ''predicate'') operators)"

definition fact_operators :: "operator dict" where
  "fact_operators = filter (\<lambda>(n, d). od_family d \<noteq> ''predicate'') operators"

definition fact_operations :: "string list" where
  "fact_operations = [''inspect'', ''resolve_reference'', ''same_entity'', ''select'', ''count'', ''first'', ''last'',
     ''latest'', ''earliest'', ''sum'', ''average'', ''min'', ''max'', ''argmin'', ''argmax'', ''date_add'',
     ''date_difference'', ''annual_occurrence'', ''unit_conversion'']"

text \<open>\<open>x not in {..}\<close>: a list or an object cannot be looked up in a set.\<close>

definition mode_in :: "pyval \<Rightarrow> pyval list \<Rightarrow> bool res" where
  "mode_in v accepted = (case v of VList vs \<Rightarrow> Inl TypeError | VDict d \<Rightarrow> Inl TypeError
     | _ \<Rightarrow> Inr (list_ex (\<lambda>w. py_eq v w) accepted))"

definition check :: "bool \<Rightarrow> unit res" where
  "check b = guard b OperatorValidationError"

definition validate_operator ::
  "operator \<Rightarrow> string option \<Rightarrow> string \<Rightarrow> string option \<Rightarrow> string \<Rightarrow> fields \<Rightarrow> unit res" where
  "validate_operator d f fkind ord okind ps =
     (let mode = get_or_None ps ''mode'' in
      bind_res (check (\<not> (od_requirement d = ''required'' \<and> f = None))) (\<lambda>_.
      bind_res (check (\<not> (od_requirement d = ''none'' \<and> f \<noteq> None))) (\<lambda>_.
      bind_res (validate_kind fkind (od_field_kinds d)) (\<lambda>_.
      bind_res (check (\<not> (od_order_required d \<and> ord = None))) (\<lambda>_.
      bind_res (check (\<not> (\<not> od_order_required d \<and> ord \<noteq> None))) (\<lambda>_.
      bind_res (validate_kind okind (od_order_kinds d)) (\<lambda>_.
      bind_res (check (list_all (\<lambda>p. get_or_None ps p \<noteq> VNone) (od_parameters d))) (\<lambda>_.
      bind_res (if od_name d = ''date_difference''
        then bind_res (mode_in mode [VStr ''years'', VStr ''months'', VStr ''days'', VStr ''seconds'']) check else Inr ()) (\<lambda>_.
      bind_res (if od_name d = ''date_add''
        then if \<not> in_limit (get_or_None ps ''amount'') then Inl OperatorValidationError
             else bind_res (mode_in mode [VStr ''years'', VStr ''months'', VStr ''days'']) check else Inr ()) (\<lambda>_.
      if od_name d = ''annual_occurrence'' then bind_res (mode_in mode [VNone, VStr ''days'']) check else Inr ()))))))))))"

definition execute_operator :: "string \<Rightarrow> op_input \<Rightarrow> pyval res" where
  "execute_operator name x = (case map_of operators name of
     None \<Rightarrow> Inl OperatorValidationError
   | Some d \<Rightarrow> (case od_run d of None \<Rightarrow> Inl OperatorExecutionError | Some run \<Rightarrow> run x))"

section \<open>Predicates\<close>

fun prefix_of :: "string \<Rightarrow> string \<Rightarrow> bool" where
  "prefix_of [] t = True"
| "prefix_of (c # s) t = (case t of [] \<Rightarrow> False | d # u \<Rightarrow> c = d \<and> prefix_of s u)"

fun substring :: "string \<Rightarrow> string \<Rightarrow> bool" where
  "substring s [] = (s = [])"
| "substring s (c # t) = (prefix_of s (c # t) \<or> substring s t)"

text \<open>\<open>left in right\<close>\<close>

definition py_in :: "pyval \<Rightarrow> pyval \<Rightarrow> bool res" where
  "py_in left_value right_value = (case right_value of
     VStr t \<Rightarrow> (case left_value of VStr s \<Rightarrow> Inr (substring s t) | _ \<Rightarrow> Inl TypeError)
   | VList vs \<Rightarrow> Inr (list_ex (\<lambda>v. py_eq v left_value) vs)
   | VDict d \<Rightarrow> (case left_value of VStr s \<Rightarrow> Inr (map_of d s \<noteq> None)
        | VList us \<Rightarrow> Inl TypeError | VDict e \<Rightarrow> Inl TypeError | _ \<Rightarrow> Inr False)
   | _ \<Rightarrow> Inl TypeError)"

definition compare_values :: "string \<Rightarrow> pyval \<Rightarrow> pyval \<Rightarrow> bool res" where
  "compare_values name a b =
     (if name = ''eq'' then Inr (py_eq a b)
      else if name = ''ne'' then Inr (\<not> py_eq a b)
      else if name = ''lt'' then py_less False a b
      else if name = ''lte'' then py_less True a b
      else if name = ''gt'' then py_less False b a
      else if name = ''gte'' then py_less True b a
      else if name = ''in'' then py_in a b
      else if name = ''exists'' then Inr ((a \<noteq> VNone) = (if b = VNone then True else truthy b))
      else if name = ''date_range'' then (case b of
          VList [lo, hi] \<Rightarrow> bind_res (py_less True lo a) (\<lambda>p. if p then py_less False a hi else Inr False)
        | _ \<Rightarrow> Inr False)
      else Inr False)"

definition evaluate_predicate :: "string \<Rightarrow> pyval \<Rightarrow> pyval \<Rightarrow> bool res" where
  "evaluate_predicate name a b =
     (if name \<notin> set predicate_operators then Inl OperatorValidationError
      else case compare_values name a b of
          Inr r \<Rightarrow> Inr r
        | Inl e \<Rightarrow> if e = TypeError \<or> is_value_error e then Inr False else Inl e)"

end
