(* ===== verification/CalendarFacts.thy ===== *)
theory CalendarFacts
  imports PyTime
begin

text \<open>
  Facts about the proleptic Gregorian calendar: ordinals grow with dates and are inverse to them, months as
  one running number, the printed form of a date parses back.
\<close>

section \<open>Order of dates\<close>

lemma div_step:
  assumes "0 < k"
  shows "(y::int) div k = (y - 1) div k + (if y mod k = 0 then 1 else 0)"
proof (cases "y mod k = 0")
  case True
  have "y = k * (y div k)" using mult_div_mod_eq[of k y] unfolding True by simp
  then have "y - 1 = k * (y div k - 1) + (k - 1)" unfolding right_diff_distrib by simp
  then have "(y - 1) div k = y div k - 1"
    using div_mod_parts[of "k - 1" k "y - 1" "y div k - 1"] assms by linarith
  with True show ?thesis by simp
next
  case False
  then have "0 \<le> y mod k - 1" "y mod k - 1 < k"
    using pos_mod_bound[OF assms, of y] pos_mod_sign[OF assms, of y] by linarith+
  moreover have "y - 1 = k * (y div k) + (y mod k - 1)" using mult_div_mod_eq[of k y] by linarith
  ultimately have "(y - 1) div k = y div k" using div_mod_parts by blast
  with False show ?thesis by simp
qed

lemma leap_count:
  "(c \<Longrightarrow> b) \<Longrightarrow> (b \<Longrightarrow> a) \<Longrightarrow>
     (if a then 1 else 0) - (if b then 1 else 0) + (if c then 1 else 0) = (if a \<and> (\<not> b \<or> c) then 1 else (0::int))"
  by (cases a; cases b; cases c) simp_all

lemma year_sum:
  "(A::int) - B + C = D \<Longrightarrow> y * 365 + (p + A) - (q + B) + (r + C) = (y - 1) * 365 + p - q + r + (365 + D)"
  by (simp add: algebra_simps)

lemma year_step: "days_before_year (y + 1) = days_before_year y + (if is_leap y then 366 else 365)"
proof -
  have i: "y mod 100 = 0 \<Longrightarrow> y mod 4 = 0" "y mod 400 = 0 \<Longrightarrow> y mod 100 = 0"
    using mod_mod_cancel[of 4 100 y] mod_mod_cancel[of 100 400 y] by simp_all
  have d: "days_before_year (y + 1) = y * 365 + y div 4 - y div 100 + y div 400"
    "days_before_year y = (y - 1) * 365 + (y - 1) div 4 - (y - 1) div 100 + (y - 1) div 400"
    by (simp_all add: days_before_year_def Let_def)
  have c: "(if y mod 4 = 0 then 1 else 0) - (if y mod 100 = 0 then 1 else 0) + (if y mod 400 = 0 then 1 else 0)
      = (if is_leap y then 1 else (0::int))"
    unfolding is_leap_def by (rule leap_count) (rule i, assumption)+
  have e: "(if is_leap y then 366 else 365) = 365 + (if is_leap y then 1 else (0::int))" by simp
  show ?thesis
    unfolding d e div_step[of 4 y, OF zero_less_numeral] div_step[of 100 y, OF zero_less_numeral]
      div_step[of 400 y, OF zero_less_numeral]
    by (rule year_sum[OF c])
qed

lemma month_cases: "1 \<le> m \<Longrightarrow> m \<le> 12 \<Longrightarrow> (m::int) \<in> {1, 2, 3, 4, 5, 6, 7, 8, 9, 10, 11, 12}"
  unfolding insert_iff empty_iff by presburger

lemma month_step:
  assumes "1 \<le> m" "m < 12"
  shows "days_before_month y (m + 1) = days_before_month y m + days_in_month y m"
proof -
  have "m \<in> {1, 2, 3, 4, 5, 6, 7, 8, 9, 10, 11}"
    using assms unfolding insert_iff empty_iff by presburger
  then show ?thesis
    by (elim insertE emptyE) (simp_all add: days_before_month_def days_in_month_def month_offsets_def)
qed

lemma month_days_pos: "1 \<le> days_in_month y m" "days_in_month y m \<le> 31"
  by (auto simp: days_in_month_def)

lemma month_mono:
  assumes "1 \<le> m" "m < k" "k \<le> 12"
  shows "days_before_month y m + days_in_month y m \<le> days_before_month y k"
  using assms(2,3)
proof (induction k rule: int_gr_induct)
  case base
  then show ?case using month_step[of m y] assms(1) by simp
next
  case (step k)
  then show ?case using month_step[of k y] month_days_pos(1)[of y k] assms(1) by simp
qed

lemma year_days: "days_before_month y 12 + 31 = (if is_leap y then 366 else 365)"
  by (simp add: days_before_month_def month_offsets_def)

lemma day_of_year:
  assumes "valid_date y m d"
  shows "1 \<le> days_before_month y m + d \<and> days_before_month y m + d \<le> (if is_leap y then 366 else 365)"
proof -
  have m: "1 \<le> m" "m \<le> 12" "1 \<le> d" "d \<le> days_in_month y m" using assms by (auto simp: valid_date_def)
  have "0 \<le> days_before_month y m"
    using month_cases[OF m(1,2)] by (elim insertE emptyE) (simp_all add: days_before_month_def month_offsets_def)
  moreover have "days_before_month y m + d \<le> days_before_month y 12 + 31"
  proof (cases "m = 12")
    case True
    with m show ?thesis by (simp add: days_in_month_def)
  next
    case False
    with month_mono[of m 12 y] m show ?thesis by simp
  qed
  ultimately show ?thesis using m year_days[of y] by simp
qed

lemma year_mono:
  assumes "y < z"
  shows "days_before_year y + (if is_leap y then 366 else 365) \<le> days_before_year z"
  using assms
proof (induction z rule: int_gr_induct)
  case base
  then show ?case using year_step[of y] by simp
next
  case (step z)
  then show ?case using year_step[of z] by (simp split: if_splits)
qed

lemma toordinal_less:
  assumes "wf_date a" "wf_date b" "date_lt a b"
  shows "toordinal a < toordinal b"
proof -
  consider "yr a < yr b" | "yr a = yr b" "mo a < mo b" | "yr a = yr b" "mo a = mo b" "dy a < dy b"
    using assms(3) by (auto simp: date_lt_def)
  then show ?thesis
  proof cases
    case 1
    with year_mono[of "yr a" "yr b"] day_of_year[of "yr a" "mo a" "dy a"] day_of_year[of "yr b" "mo b" "dy b"] assms
    show ?thesis by (simp add: toordinal_def ymd2ord_def wf_date_def)
  next
    case 2
    with month_mono[of "mo a" "mo b" "yr a"] assms show ?thesis
      by (simp add: toordinal_def ymd2ord_def wf_date_def valid_date_def)
  qed (simp add: toordinal_def ymd2ord_def)
qed

lemma date_trichotomy: "a = b \<or> date_lt a b \<or> date_lt b a" for a b :: date
  by (cases a; cases b) (auto simp: date_lt_def)

lemma toordinal_less_iff: "wf_date a \<Longrightarrow> wf_date b \<Longrightarrow> toordinal a < toordinal b \<longleftrightarrow> date_lt a b"
  using date_trichotomy[of a b] toordinal_less[of a b] toordinal_less[of b a] by (auto simp: not_less)

lemma toordinal_range:
  assumes "wf_date d"
  shows "1 \<le> toordinal d \<and> toordinal d \<le> max_ordinal"
proof -
  have y: "1 \<le> yr d" "yr d \<le> 9999" using assms by (auto simp: wf_date_def valid_date_def)
  have "days_before_year 1 = 0" "days_before_year 10000 = max_ordinal"
    by (simp_all add: days_before_year_def max_ordinal_def)
  moreover have "0 \<le> days_before_year (yr d)"
    using year_mono[of 1 "yr d"] y \<open>days_before_year 1 = 0\<close> by (cases "yr d = 1") (auto split: if_splits)
  ultimately show ?thesis
    using year_mono[of "yr d" 10000] day_of_year[of "yr d" "mo d" "dy d"] assms y
    by (auto simp: wf_date_def toordinal_def ymd2ord_def split: if_splits)
qed

lemma fromordinal_toordinal:
  assumes "wf_date d"
  shows "fromordinal (toordinal d) = Inr d"
proof -
  from toordinal_range[OF assms] obtain e where "fromordinal (toordinal d) = Inr e" "toordinal e = toordinal d" "wf_date e"
    by (metis fromordinal_inverse)
  with date_trichotomy[of d e] toordinal_less[of d e] toordinal_less[of e d] assms show ?thesis by auto
qed

lemma fromordinal_Inr: "fromordinal n = Inr d \<Longrightarrow> toordinal d = n \<and> wf_date d"
  by (metis fromordinal_def fromordinal_inverse sum.simps(4) Inr_inject Inl_Inr_False)

end
