(* ===== verification/OperatorFacts.thy ===== *)
theory OperatorFacts
  imports Operators CalendarFacts
begin

text \<open>
  What the fact operators guarantee: predicates decide every pair of values, aggregates bound or sum exactly
  the values of the field, the calendar transforms agree with each other, and the next annual occurrence is the
  earliest one.
\<close>

section \<open>The registry and the predicates\<close>

lemma operators_registered:
  "set (map fst fact_operators) = set fact_operations \<and> distinct (map fst operators)
   \<and> set predicate_operators = {''eq'', ''ne'', ''gt'', ''gte'', ''lt'', ''lte'', ''in'', ''exists'', ''date_range''}"
  by (auto simp: fact_operators_def fact_operations_def operators_def operator_definitions_def predicate_operators_def
      plain_operator_def predicate_operator_def collection_operator_def aggregate_operator_def transform_operator_def
      temporal_order_def)

lemma less_errors:
  "py_less le x y = Inl e \<Longrightarrow> e = TypeError" "less_list le xs ys = Inl e \<Longrightarrow> e = TypeError"
  by (induction le x y and le xs ys rule: py_less_less_list.induct) (auto split: pyval.splits option.splits if_splits list.splits)

lemma compare_errors: "compare_values name a b = Inl e \<Longrightarrow> e = TypeError"
  by (auto simp: compare_values_def py_in_def bind_res_Inl_iff dest: less_errors
      split: if_splits pyval.splits list.splits)

text \<open>A predicate is decided for every pair of values: the only error is a name outside the allow-list; values that
  cannot be compared make it false.\<close>

theorem predicate_total:
  "evaluate_predicate name a b = Inl e \<longleftrightarrow> name \<notin> set predicate_operators \<and> e = OperatorValidationError"
  by (auto simp: evaluate_predicate_def dest: compare_errors split: sum.splits)

section \<open>Aggregates\<close>

lemma sum_plain_ints: "sum_plain (VInt i) (map VInt js) = Inr (VInt (i + sum_list js))"
  by (induction js arbitrary: i) (auto simp: py_add_def num_op_def as_int_def)

lemma sum_ints_exact: "sum_ints i (map VInt js) = Inr (VInt (i + sum_list js))"
  by (induction js arbitrary: i) (auto simp: sum_plain_ints)

text \<open>The numeric values of a field are finite numbers.\<close>

definition rat_of :: "pyval \<Rightarrow> rat" where
  "rat_of v = (case v of VInt i \<Rightarrow> of_int i | VFloat (Fin q) \<Rightarrow> q | _ \<Rightarrow> 0)"

definition finite_number :: "pyval \<Rightarrow> bool" where
  "finite_number v = (case v of VInt i \<Rightarrow> True | VFloat f \<Rightarrow> finite_float f | _ \<Rightarrow> False)"

lemma is_number_finite: "is_number v = Inr True \<Longrightarrow> finite_number v"
  by (auto simp: is_number_def finite_number_def finite_float_def split: pyval.splits pyfloat.splits)

lemma numeric_values_sound:
  "numeric_values vs = Inr ns \<Longrightarrow> set ns \<subseteq> set vs \<and> list_all finite_number ns \<and> length ns \<le> length vs
     \<and> (length ns = length vs \<longrightarrow> ns = vs)"
  by (induction vs arbitrary: ns) (auto simp: bind_res_Inr_iff is_number_finite split: if_splits)

lemma num_less_finite:
  "finite_number a \<Longrightarrow> finite_number b \<Longrightarrow> py_less False a b = Inr (rat_of a < rat_of b)"
  by (auto simp: finite_number_def finite_float_def rat_of_def num_less_def split: pyval.splits pyfloat.splits)

lemma extreme_finite:
  assumes "list_all finite_number (b # vs)"
  shows "\<exists>r. extreme m (\<lambda>v. v) b vs = Inr r \<and> r \<in> set (b # vs)
    \<and> (\<forall>v \<in> set (b # vs). if m then rat_of r \<le> rat_of v else rat_of v \<le> rat_of r)"
  using assms
proof (induction vs arbitrary: b)
  case (Cons v vs)
  let ?c = "if (if m then rat_of v < rat_of b else rat_of b < rat_of v) then v else b"
  have "extreme m (\<lambda>v. v) b (v # vs) = extreme m (\<lambda>v. v) ?c vs"
    using Cons.prems by (auto simp: num_less_finite)
  moreover have "list_all finite_number (?c # vs)" using Cons.prems by simp
  ultimately obtain r where r: "extreme m (\<lambda>v. v) b (v # vs) = Inr r" "r \<in> set (?c # vs)"
    "\<forall>x \<in> set (?c # vs). if m then rat_of r \<le> rat_of x else rat_of x \<le> rat_of r"
    using Cons.IH[of ?c] by auto
  then show ?case by (intro exI[of _ r]) (auto split: if_splits)
qed simp

lemma all_numeric_sound:
  assumes "all_numeric x = Inr ns"
  shows "ns = source_values x \<and> length ns = length (oi_records x) \<and> ns \<noteq> [] \<and> list_all finite_number ns"
proof -
  from assms have n: "numeric_values (source_values x) = Inr ns" "ns \<noteq> []" "length ns = length (oi_records x)"
    by (auto simp: all_numeric_def bind_res_Inr_iff split: if_splits)
  have "length (source_values x) \<le> length (oi_records x)"
    by (auto simp: source_values_def intro: le_trans[OF length_filter_le] split: option.splits)
  with n numeric_values_sound[OF n(1)] show ?thesis by auto
qed

text \<open>The values of the field in all records, when every record has a finite number there.\<close>

definition complete_numbers :: "op_input \<Rightarrow> pyval list \<Rightarrow> bool" where
  "complete_numbers x vs \<longleftrightarrow> (\<exists>k. oi_field x = Some k \<and> vs = map (\<lambda>d. get_or_None d k) (oi_records x)) \<and> vs \<noteq> []
     \<and> list_all finite_number vs"

lemma filter_full: "length (filter P xs) = length xs \<Longrightarrow> filter P xs = xs"
  by (metis filter_id_conv length_filter_less nat_less_le)

lemma all_numeric_complete:
  assumes "all_numeric x = Inr ns"
  shows "complete_numbers x ns"
proof -
  note s = all_numeric_sound[OF assms]
  then obtain k where k: "oi_field x = Some k" by (cases "oi_field x") (auto simp: source_values_def)
  then have "length (filter (\<lambda>v. v \<noteq> VNone) (map (\<lambda>d. get_or_None d k) (oi_records x))) = length (map (\<lambda>d. get_or_None d k) (oi_records x))"
    using s by (auto simp: source_values_def)
  from filter_full[OF this] s k show ?thesis by (auto simp: complete_numbers_def source_values_def)
qed

lemma extreme_answer:
  assumes "bind_res (all_numeric x) (\<lambda>ns. extreme m (\<lambda>v. v) (hd ns) (tl ns)) = Inr r"
  shows "\<exists>vs. complete_numbers x vs \<and> r \<in> set vs \<and> (\<forall>v \<in> set vs. if m then rat_of r \<le> rat_of v else rat_of v \<le> rat_of r)"
proof -
  from assms obtain ns where ns: "all_numeric x = Inr ns" "extreme m (\<lambda>v. v) (hd ns) (tl ns) = Inr r"
    by (auto simp: bind_res_Inr_iff)
  note c = all_numeric_complete[OF ns(1)]
  then obtain b vs where "ns = b # vs" by (cases ns) (auto simp: complete_numbers_def)
  with c ns(2) extreme_finite[of b vs m] show ?thesis by (intro exI[of _ ns]) (auto simp: complete_numbers_def)
qed

lemma sum_answer:
  assumes "op_sum x = Inr r"
  shows "\<exists>vs. complete_numbers x vs \<and> all_numeric x = Inr vs \<and> (\<forall>js. vs = map VInt js \<longrightarrow> r = VInt (sum_list js))"
  using assms all_numeric_complete by (auto simp: op_sum_def bind_res_Inr_iff py_sum_def sum_ints_exact)

lemma average_answer:
  assumes "op_average x = Inr r"
  shows "\<exists>s vs. op_sum x = Inr s \<and> complete_numbers x vs \<and> py_div s (VInt (int (length (oi_records x)))) = Inr r
    \<and> (\<forall>js. vs = map VInt js \<longrightarrow> r = VFloat (fl (of_int (sum_list js) / of_int (int (length (oi_records x))))))"
proof -
  from assms obtain ns s where ns: "all_numeric x = Inr ns" and s: "py_sum ns = Inr s" and r: "py_div s (VInt (int (length ns))) = Inr r"
    by (auto simp: op_average_def bind_res_Inr_iff)
  have n: "length ns = length (oi_records x)" using all_numeric_sound[OF ns] by blast
  have "op_sum x = Inr s" by (simp add: op_sum_def ns s)
  moreover have "r = VFloat (fl (of_int (sum_list js) / of_int (int (length (oi_records x)))))" if "ns = map VInt js" for js
    using s r n that by (auto simp: py_sum_def sum_ints_exact py_div_def as_int_def split: if_splits pyfloat.splits)
  ultimately show ?thesis using all_numeric_complete[OF ns] r n by auto
qed

text \<open>C27: the aggregates answer only for a non-empty collection in which every record has a finite number in the field.
  Then the minimum and the maximum are values of the field that bound all of them; the sum of integers is exact,
  however large; the average is the sum over the number of records, and of integers it is the exact mean rounded
  once.\<close>

theorem aggregates_correct:
  "(op_minimum x = Inr r \<longrightarrow> (\<exists>vs. complete_numbers x vs \<and> r \<in> set vs \<and> (\<forall>v \<in> set vs. rat_of r \<le> rat_of v)))
   \<and> (op_maximum x = Inr r \<longrightarrow> (\<exists>vs. complete_numbers x vs \<and> r \<in> set vs \<and> (\<forall>v \<in> set vs. rat_of v \<le> rat_of r)))
   \<and> (op_sum x = Inr r \<longrightarrow> (\<exists>vs. complete_numbers x vs \<and> (\<forall>js. vs = map VInt js \<longrightarrow> r = VInt (sum_list js))))
   \<and> (op_average x = Inr r \<longrightarrow> (\<exists>s vs. op_sum x = Inr s \<and> complete_numbers x vs
        \<and> py_div s (VInt (int (length (oi_records x)))) = Inr r
        \<and> (\<forall>js. vs = map VInt js \<longrightarrow> r = VFloat (fl (of_int (sum_list js) / of_int (int (length (oi_records x))))))))"
  using extreme_answer[of x True r] extreme_answer[of x False r] sum_answer[of x r] average_answer[of x r]
  unfolding op_minimum_def op_maximum_def by auto

section \<open>Calendar units\<close>

lemma mk_date_Inr: "mk_date y m d = Inr r \<longleftrightarrow> valid_date y m d \<and> r = \<lparr>yr = y, mo = m, dy = d\<rparr>"
  by (auto simp: mk_date_def)

text \<open>The months since year 0, as one number.\<close>

definition month_index :: "date \<Rightarrow> int" where
  "month_index d = yr d * 12 + mo d - 1"

lemma month_index_div: "wf_date d \<Longrightarrow> month_index d div 12 = yr d \<and> month_index d mod 12 = mo d - 1"
  by (rule div_mod_parts) (auto simp: month_index_def wf_date_def valid_date_def)

lemma date_lt_index: "wf_date a \<Longrightarrow> wf_date b \<Longrightarrow>
    date_lt a b \<longleftrightarrow> month_index a < month_index b \<or> month_index a = month_index b \<and> dy a < dy b"
  by (auto simp: date_lt_def month_index_def wf_date_def valid_date_def)

lemma first_of_next_month:
  assumes "wf_date t" and "dy t = days_in_month (yr t) (mo t)" and "mo t < 12"
  shows "fromordinal (toordinal t + 1) = Inr \<lparr>yr = yr t, mo = mo t + 1, dy = 1\<rparr>"
proof -
  let ?n = "\<lparr>yr = yr t, mo = mo t + 1, dy = 1\<rparr>"
  have "wf_date ?n" using assms month_days_pos(1)[of "yr t" "mo t + 1"] by (simp add: wf_date_def valid_date_def)
  moreover have "toordinal ?n = toordinal t + 1"
    using month_step[of "mo t" "yr t"] assms by (simp add: toordinal_def ymd2ord_def wf_date_def valid_date_def)
  ultimately show ?thesis using fromordinal_toordinal[of ?n] by simp
qed

lemma month_target_index:
  assumes "wf_date d" and "month_target d n = Inr t"
  shows "wf_date t \<and> (month_index t = month_index d + n \<and> dy t = dy d
      \<or> month_index t = month_index d + n + 1 \<and> dy t = 1
         \<and> days_in_month ((month_index d + n) div 12) ((month_index d + n) mod 12 + 1) < dy d)"
proof -
  define M where "M = month_index d + n"
  define y where "y = M div 12"
  define m where "m = M mod 12 + 1"
  have M: "M = y * 12 + m - 1" "1 \<le> m" "m \<le> 12" using mult_div_mod_eq[of 12 M] by (auto simp: y_def m_def)
  from assms(2) obtain u where u: "mk_date y m (min (dy d) (days_in_month y m)) = Inr u"
    and t: "(if dy d > days_in_month y m then fromordinal (toordinal u + 1) else Inr u) = Inr t"
    by (auto simp: month_target_def Let_def bind_res_Inr_iff M_def y_def m_def month_index_def)
  from u have v: "valid_date y m (min (dy d) (days_in_month y m))"
    and ud: "u = \<lparr>yr = y, mo = m, dy = min (dy d) (days_in_month y m)\<rparr>" by (auto simp: mk_date_Inr)
  have wu: "wf_date u" using v ud by (simp add: wf_date_def)
  show ?thesis
  proof (cases "dy d > days_in_month y m")
    case True
    have "m < 12" using True M(3) assms(1) month_days_pos(2)[of "yr d" "mo d"]
      by (cases "m = 12") (auto simp: days_in_month_def wf_date_def valid_date_def split: if_splits)
    with first_of_next_month[OF wu] ud True t
    have "t = \<lparr>yr = y, mo = m + 1, dy = 1\<rparr>" by simp
    moreover have "wf_date t" using t True fromordinal_Inr by simp
    ultimately show ?thesis using True M(1) unfolding M_def[symmetric] y_def[symmetric] m_def[symmetric]
      by (simp add: month_index_def)
  next
    case False
    with t ud have "t = \<lparr>yr = y, mo = m, dy = dy d\<rparr>" "t = u" by simp_all
    with wu M(1) show ?thesis unfolding M_def[symmetric] by (simp add: month_index_def)
  qed
qed

lemma units_less: "tail_less [a, b, t] [c, d, u] \<longleftrightarrow> a < c \<or> a = c \<and> (b < d \<or> b = d \<and> t < u)"
  "tail_less [b, t] [d, u] \<longleftrightarrow> b < d \<or> b = d \<and> t < u"
  by (auto simp: tail_less_def)

lemma whole_months: "whole_units False (d, 0) (e, 0) = month_index e - month_index d - (if dy e < dy d then 1 else 0)"
  by (auto simp: whole_units_def units_less month_index_def)

lemma whole_years_months:
  assumes "wf_date d" and "wf_date e"
  shows "n \<le> whole_units True (d, 0) (e, 0) \<longleftrightarrow> 12 * n \<le> whole_units False (d, 0) (e, 0)"
  using assms by (auto simp: whole_units_def units_less wf_date_def valid_date_def)

lemma units_reach_target:
  assumes "wf_date d" and "wf_date e" and "month_target d n = Inr t"
  shows "n \<le> whole_units False (d, 0) (e, 0) \<longleftrightarrow> \<not> date_lt e t"
proof -
  from month_target_index[OF assms(1,3)] have t: "wf_date t" "month_index t = month_index d + n \<and> dy t = dy d
      \<or> month_index t = month_index d + n + 1 \<and> dy t = 1
         \<and> days_in_month ((month_index d + n) div 12) ((month_index d + n) mod 12 + 1) < dy d" by blast+
  have "1 \<le> dy e" "dy e \<le> days_in_month (month_index e div 12) (month_index e mod 12 + 1)"
    using assms(2) month_index_div[OF assms(2)] by (auto simp: wf_date_def valid_date_def)
  moreover have "month_index e = month_index d + n \<or> month_index e < month_index d + n \<or> month_index d + n < month_index e"
    by linarith
  ultimately show ?thesis
    using t(2) unfolding date_lt_index[OF assms(2) t(1)] whole_months by (elim disjE) auto
qed

lemma date_roundtrip:
  assumes "wf_date d"
  shows "date_fromisoformat (date_isoformat d) = Inr d"
proof -
  note bounds = year_bound[OF assms]
  obtain y1 y2 y3 y4 where y: "pad 4 (yr d) = [y1, y2, y3, y4]" "is_digit y1" "is_digit y2"
    "is_digit y3" "is_digit y4" "nat_of_digits [y1, y2, y3, y4] = nat (yr d)"
    by (rule pad4E[of "yr d"]) (use bounds in auto)
  obtain m1 m2 where m: "pad 2 (mo d) = [m1, m2]" "is_digit m1" "is_digit m2"
    "nat_of_digits [m1, m2] = nat (mo d)" by (rule pad2E[of "mo d"]) (use bounds in auto)
  obtain d1 d2 where dd: "pad 2 (dy d) = [d1, d2]" "is_digit d1" "is_digit d2"
    "nat_of_digits [d1, d2] = nat (dy d)" by (rule pad2E[of "dy d"]) (use bounds in auto)
  have "parse_iso_date [y1, y2, y3, y4, CHR ''-'', m1, m2, CHR ''-'', d1, d2] = Inr (yr d, mo d, dy d)"
    using parse_iso_date_dashes[of y1 y2 y3 y4 m1 m2 d1 d2] bounds by (simp add: y m dd)
  then show ?thesis
    using assms by (simp add: date_fromisoformat_def date_isoformat_def y m dd mk_date_def wf_date_def)
qed

lemma date_parse_wf: "date_fromisoformat s = Inr d \<Longrightarrow> wf_date d"
  by (auto simp: date_fromisoformat_def bind_res_Inr_iff mk_date_Inr wf_date_def split: if_splits)

lemma only_value_update [simp]:
  "only_value (x\<lparr>oi_mode := m\<rparr>) = only_value x" "only_value (x\<lparr>oi_amount := a\<rparr>) = only_value x"
  "only_value (x\<lparr>oi_now := c\<rparr>) = only_value x"
  by (simp_all add: only_value_def source_values_def cong: option.case_cong list.case_cong)

lemma out_of_range_Inr [simp]: "out_of_range m = Inr r \<longleftrightarrow> m = Inr r"
  by (auto simp: out_of_range_def split: sum.splits)

lemma date_add_months:
  assumes "op_date_add (x\<lparr>oi_mode := Some u, oi_amount := VInt n\<rparr>) = Inr (VStr r)"
    and "u \<in> {''years'', ''months''}" and "only_value x = Inr (VStr s)" and "date_fromisoformat s = Inr d"
  shows "\<exists>t. month_target d (if u = ''years'' then n * 12 else n) = Inr t \<and> r = date_isoformat t"
proof -
  have "temporal_value (VStr s) = Inr (TDate d)" using assms(4) by (simp add: temporal_value_def)
  with assms(1-3) show ?thesis
    by (auto simp: op_date_add_def Let_def bind_res_Inr_iff split: if_splits option.splits)
qed

lemma date_difference_units:
  assumes "op_date_difference (x\<lparr>oi_mode := Some u, oi_now := Some c\<rparr>) = Inr (VInt k)"
    and "u \<in> {''years'', ''months''}" and "only_value x = Inr (VStr s)" and "date_fromisoformat s = Inr d"
  shows "\<exists>e. clock_date c = Inr e \<and> k = signed_units (u = ''years'') (d, 0) (e, 0) (\<not> date_lt e d)"
proof -
  have "temporal_value (VStr s) = Inr (TDate d)" using assms(4) by (simp add: temporal_value_def)
  with assms(1-3) show ?thesis
    by (auto simp: op_date_difference_def required_now_def bind_res_Inr_iff split: if_splits)
qed

text \<open>C25: the two calendar transforms agree: on a day not before a stored date the difference in years or months is
  at least n exactly when the day has reached the stored date plus n of these units, whatever the lengths of
  the months and leap years between them (the rule for a missing day or 29 February is the same in both).\<close>

theorem calendar_units_agree:
  assumes "op_date_add (x\<lparr>oi_mode := Some u, oi_amount := VInt n\<rparr>) = Inr (VStr r)"
    and "op_date_difference (x\<lparr>oi_mode := Some u, oi_now := Some c\<rparr>) = Inr (VInt k)"
    and "u \<in> {''years'', ''months''}" and "only_value x = Inr (VStr s)" and "date_fromisoformat s = Inr d"
    and "clock_date c = Inr today" and "\<not> date_lt today d"
  shows "\<exists>target. date_fromisoformat r = Inr target \<and> (n \<le> k \<longleftrightarrow> \<not> date_lt today target)"
proof -
  from date_add_months[OF assms(1,3,4,5)] obtain t where
    t: "month_target d (if u = ''years'' then n * 12 else n) = Inr t" "r = date_isoformat t" by blast
  have w: "wf_date d" "wf_date today"
    using assms(5,6) fromordinal_Inr by (auto simp: clock_date_def dest: date_parse_wf)
  have "wf_date t" using month_target_index[OF w(1) t(1)] by simp
  then have "date_fromisoformat r = Inr t" unfolding t(2) by (rule date_roundtrip)
  moreover from date_difference_units[OF assms(2-5)] assms(6,7)
  have "k = whole_units (u = ''years'') (d, 0) (today, 0)" by (simp add: signed_units_def)
  then have "n \<le> k \<longleftrightarrow> (if u = ''years'' then n * 12 else n) \<le> whole_units False (d, 0) (today, 0)"
    using whole_years_months[OF w, of n] by (auto simp: mult.commute)
  ultimately show ?thesis using units_reach_target[OF w t(1)] by auto
qed

section \<open>Annual occurrences\<close>

text \<open>The yearly recurrences of a stored date.\<close>

definition recurrence :: "date \<Rightarrow> date \<Rightarrow> bool" where
  "recurrence stored d \<longleftrightarrow> wf_date d \<and> mo d = mo stored \<and> dy d = dy stored"

lemma next_occurrence_least:
  assumes "next_occurrence n y stored today = Some d"
  shows "recurrence stored d \<and> \<not> date_lt d today \<and> y \<le> yr d
    \<and> (\<forall>c. recurrence stored c \<and> y \<le> yr c \<and> \<not> date_lt c today \<longrightarrow> \<not> date_lt c d)"
  using assms
proof (induction n arbitrary: y)
  case (Suc n)
  have later: "y + 1 \<le> yr c" if "recurrence stored c" "y \<le> yr c" "\<not> date_lt c today"
    "\<not> valid_date y (mo stored) (dy stored) \<or> date_lt \<lparr>yr = y, mo = mo stored, dy = dy stored\<rparr> today" for c
  proof (rule ccontr)
    assume "\<not> y + 1 \<le> yr c"
    with that(2) have "yr c = y" by simp
    with that(1) have "c = \<lparr>yr = y, mo = mo stored, dy = dy stored\<rparr>" "valid_date y (mo stored) (dy stored)"
      by (auto simp: recurrence_def wf_date_def)
    with that(3,4) show False by simp
  qed
  show ?case
  proof (cases "mk_date y (mo stored) (dy stored)")
    case (Inl e)
    with Suc.prems Suc.IH[of "y + 1"] later show ?thesis by (auto simp: mk_date_def split: if_splits)
  next
    case (Inr r)
    then have r: "valid_date y (mo stored) (dy stored)" "r = \<lparr>yr = y, mo = mo stored, dy = dy stored\<rparr>"
      by (auto simp: mk_date_Inr)
    show ?thesis
    proof (cases "date_lt r today")
      case True
      with Suc.prems Inr Suc.IH[of "y + 1"] later r show ?thesis by auto
    next
      case False
      with Suc.prems Inr have "d = r" by simp
      then show ?thesis using r False by (auto simp: recurrence_def wf_date_def date_lt_def)
    qed
  qed
qed simp

lemma next_occurrence_found:
  assumes "valid_date z (mo stored) (dy stored)" and "y \<le> z" and "z < y + int n" and "yr today < z"
  shows "next_occurrence n y stored today \<noteq> None"
  using assms
proof (induction n arbitrary: y)
  case (Suc n)
  show ?case
  proof (cases "z = y")
    case True
    with Suc.prems show ?thesis by (auto simp: mk_date_def date_lt_def)
  next
    case False
    with Suc.IH[of "y + 1"] Suc.prems show ?thesis by (auto split: sum.split)
  qed
qed simp

lemma leap_within_eight:
  fixes y :: int
  obtains z where "y < z" "z \<le> y + 8" "is_leap z"
proof -
  define z where "z = 4 * (y div 4 + 1)"
  have z: "y < z" "z \<le> y + 4" "z mod 4 = 0"
    using mult_div_mod_eq[of 4 y] pos_mod_bound[of 4 y] pos_mod_sign[of 4 y] by (simp_all add: z_def)
  show thesis
  proof (cases "z mod 100 = 0")
    case False
    with z that[of z] show ?thesis by (auto simp: is_leap_def)
  next
    case True
    then have "(z + 4) mod 100 \<noteq> 0" "(z + 4) mod 4 = 0" using z(3) by presburger+
    with z that[of "z + 4"] show ?thesis by (auto simp: is_leap_def)
  qed
qed

lemma occurrence_year:
  assumes "wf_date stored" and "1 \<le> y" and "y + 8 \<le> 9999"
  obtains z where "y < z" "z \<le> y + 8" "valid_date z (mo stored) (dy stored)"
proof -
  obtain z where z: "y < z" "z \<le> y + 8" "is_leap z" by (rule leap_within_eight)
  have "days_in_month (yr stored) (mo stored) \<le> days_in_month z (mo stored)" using z(3) by (simp add: days_in_month_def)
  with z assms that show thesis by (force simp: wf_date_def valid_date_def)
qed

text \<open>C26: the next annual occurrence of a stored date always exists while the calendar has eight more years, is today
  or later, has the stored month and day, and no earlier day has both; the number of days is the distance to it.\<close>

theorem annual_occurrence_next:
  assumes "only_value x = Inr (VStr s)" and "date_fromisoformat s = Inr stored" and "oi_now x = Some c"
    and "clock_date c = Inr today" and "yr today + 8 \<le> 9999"
  shows "\<exists>d. op_annual_occurrence (x\<lparr>oi_mode := None\<rparr>) = Inr (VStr (date_isoformat d))
    \<and> op_annual_occurrence (x\<lparr>oi_mode := Some ''days''\<rparr>) = Inr (VInt (toordinal d - toordinal today))
    \<and> recurrence stored d \<and> \<not> date_lt d today
    \<and> (\<forall>e. recurrence stored e \<and> \<not> date_lt e today \<longrightarrow> \<not> date_lt e d)"
proof -
  have w: "wf_date stored" "wf_date today"
    using assms(2,4) fromordinal_Inr by (auto simp: clock_date_def dest: date_parse_wf)
  then have y: "1 \<le> yr today" by (simp add: wf_date_def valid_date_def)
  obtain z where z: "yr today < z" "z \<le> yr today + 8" "valid_date z (mo stored) (dy stored)"
    by (rule occurrence_year[OF w(1) y assms(5)])
  then obtain d where d: "next_occurrence 9 (yr today) stored today = Some d"
    using next_occurrence_found[of z stored "yr today" 9 today] by auto
  note least = next_occurrence_least[OF d]
  have t: "temporal_value (VStr s) = Inr (TDate stored)" using assms(2) by (simp add: temporal_value_def)
  have "yr today \<le> yr e" if "\<not> date_lt e today" for e using that by (auto simp: date_lt_def)
  with least assms(1,3,4) d t show ?thesis
    by (intro exI[of _ d]) (auto simp: op_annual_occurrence_def required_now_def simp del: next_occurrence.simps)
qed

section \<open>Examples\<close>

definition leap_record :: op_input where
  "leap_record = no_input\<lparr>oi_records := [[(''born'', VStr ''2024-02-29'')]], oi_field := Some ''born''\<rparr>"

definition utc_zone :: zone where
  "utc_zone = \<lparr>zn_off = (\<lambda>i. 0), zn_wall = (\<lambda>w f. 0)\<rparr>"

definition clock_at :: "int \<Rightarrow> int \<Rightarrow> int \<Rightarrow> clock" where
  "clock_at y m d = \<lparr>ck_wall = ymd2ord y m d * day_us, ck_fold = False, ck_zone = Some utc_zone, ck_system = utc_zone\<rparr>"

theorem predicate_total_witness: "evaluate_predicate ''like'' VNone VNone = Inl OperatorValidationError"
  by (subst predicate_total) (simp add: predicate_operators_def operators_def operator_definitions_def
      plain_operator_def predicate_operator_def collection_operator_def aggregate_operator_def
      transform_operator_def temporal_order_def)

definition prices :: op_input where
  "prices = no_input\<lparr>oi_records := [[(''price'', VFloat (Fin 3))], [(''price'', VFloat (Fin 1))]], oi_field := Some ''price''\<rparr>"

theorem aggregates_correct_witness:
  "\<exists>r vs. op_minimum prices = Inr r \<and> complete_numbers prices vs \<and> (\<forall>v \<in> set vs. rat_of r \<le> rat_of v)"
proof -
  have "op_minimum prices = Inr (VFloat (Fin 1))"
    by (simp add: op_minimum_def all_numeric_def source_values_def prices_def no_input_def get_or_None_def is_number_def
        num_less_def)
  with aggregates_correct[of prices "VFloat (Fin 1)"] show ?thesis by auto
qed

lemma leap_facts:
  "only_value leap_record = Inr (VStr ''2024-02-29'')"
  "date_fromisoformat ''2024-02-29'' = Inr \<lparr>yr = 2024, mo = 2, dy = 29\<rparr>"
  "clock_date (clock_at 2025 3 1) = Inr \<lparr>yr = 2025, mo = 3, dy = 1\<rparr>"
  by (simp add: only_value_def source_values_def leap_record_def no_input_def get_or_None_def) code_simp+

lemma leap_target:
  "month_target \<lparr>yr = 2024, mo = 2, dy = 29\<rparr> 12 = Inr \<lparr>yr = 2025, mo = 3, dy = 1\<rparr>"
  "date_isoformat \<lparr>yr = 2025, mo = 3, dy = 1\<rparr> = ''2025-03-01''"
  by code_simp+

lemma leap_results:
  "op_date_add (leap_record\<lparr>oi_now := Some (clock_at 2025 3 1), oi_mode := Some ''years'', oi_amount := VInt 1\<rparr>) = Inr (VStr ''2025-03-01'')"
  "op_date_difference (leap_record\<lparr>oi_now := Some (clock_at 2025 3 1), oi_mode := Some ''years'', oi_now := Some (clock_at 2025 3 1)\<rparr>) = Inr (VInt 1)"
  by (simp_all add: op_date_add_def op_date_difference_def leap_facts leap_target temporal_value_def required_now_def
      signed_units_def date_lt_def whole_units_def tail_less_def)
    (simp add: clock_at_def leap_target)

theorem calendar_units_agree_witness:
  "\<exists>target. date_fromisoformat ''2025-03-01'' = Inr target \<and> \<not> date_lt \<lparr>yr = 2025, mo = 3, dy = 1\<rparr> target"
  using calendar_units_agree[OF leap_results _ _ leap_facts(2,3)] leap_facts(1) by (auto simp: date_lt_def)

theorem annual_occurrence_next_witness:
  "\<exists>d. recurrence \<lparr>yr = 2024, mo = 2, dy = 29\<rparr> d \<and> \<not> date_lt d \<lparr>yr = 2025, mo = 3, dy = 1\<rparr>"
  using annual_occurrence_next[of "leap_record\<lparr>oi_now := Some (clock_at 2025 3 1)\<rparr>", OF _ leap_facts(2) _ leap_facts(3)]
    leap_facts(1) by auto

end
