(* ===== verification/Calendar.thy ===== *)
theory Calendar
  imports PyArith Conversation
begin

text \<open>
  \<open>capabilities/calendar.py\<close>: read-only access to the calendars of the household. The service authorizes the
  caller, reads every authorized calendar through a provider and merges the answers; the Google provider
  follows the pages of the API under a time budget. Outside the program and therefore arguments: the
  time zone database \<open>tzdb\<close> (the offset of a wall time in a named zone, or why there is none), the
  clock and the network. A request to the network is kept as data, before it is percent-encoded. The
  calendars of one listing are read one after the other.
\<close>

section \<open>Times\<close>

datatype tz = Offset int | Named string

text \<open>A date-time by its wall clock, with or without a zone; its fold is 0, as the code never sets another.\<close>

record moment =
  mt_wall :: int
  mt_tz :: "tz option"

type_synonym tzdb = "string \<Rightarrow> (int \<Rightarrow> int) res"

definition tz_offset :: "tzdb \<Rightarrow> tz \<Rightarrow> int \<Rightarrow> int" where
  "tz_offset db z w = (case z of Offset o' \<Rightarrow> o' | Named n \<Rightarrow> (case db n of Inr f \<Rightarrow> f w | Inl e \<Rightarrow> 0))"

definition moment_instant :: "tzdb \<Rightarrow> moment \<Rightarrow> int" where
  "moment_instant db m = mt_wall m - (case mt_tz m of None \<Rightarrow> 0 | Some z \<Rightarrow> tz_offset db z (mt_wall m))"

text \<open>Comparison of aware values: by the wall clock in one zone, by the instant between zones.\<close>

definition moment_key :: "tzdb \<Rightarrow> moment \<Rightarrow> moment \<Rightarrow> int \<times> int" where
  "moment_key db a b = (if mt_tz a = mt_tz b then (mt_wall a, mt_wall b) else (moment_instant db a, moment_instant db b))"

definition moment_less :: "tzdb \<Rightarrow> moment \<Rightarrow> moment \<Rightarrow> bool" where
  "moment_less db a b = (case moment_key db a b of (x, y) \<Rightarrow> x < y)"

definition moment_equal :: "tzdb \<Rightarrow> moment \<Rightarrow> moment \<Rightarrow> bool" where
  "moment_equal db a b = (case moment_key db a b of (x, y) \<Rightarrow> x = y)"

definition moment_isoformat :: "tzdb \<Rightarrow> moment \<Rightarrow> string" where
  "moment_isoformat db m =
     (case from_wall (mt_wall m) (map_option (\<lambda>z. tz_offset db z (mt_wall m)) (mt_tz m)) of
        Inr t \<Rightarrow> datetime_isoformat t | Inl e \<Rightarrow> [])"

definition aware :: "string \<Rightarrow> moment \<Rightarrow> moment" where
  "aware zone m = (if mt_tz m = None then m\<lparr>mt_tz := Some (Named zone)\<rparr> else m)"

definition is_date_only :: "string \<Rightarrow> bool" where
  "is_date_only s \<longleftrightarrow> (case date_fromisoformat s of Inl e \<Rightarrow> False
     | Inr d \<Rightarrow> CHR ''T'' \<notin> set s \<and> CHR '' '' \<notin> set s)"

definition midnight :: "date \<Rightarrow> string \<Rightarrow> moment" where
  "midnight d zone = \<lparr>mt_wall = toordinal d * day_us, mt_tz = Some (Named zone)\<rparr>"

text \<open>\<open>text[:-1] + "+00:00" if text.endswith("Z") else text\<close>\<close>

definition zulu :: "string \<Rightarrow> string" where
  "zulu s = (if s \<noteq> [] \<and> last s = CHR ''Z'' then butlast s @ ''+00:00'' else s)"

definition parsed_moment :: "datetime \<Rightarrow> tz \<Rightarrow> moment" where
  "parsed_moment t z = \<lparr>mt_wall = wall_us t, mt_tz = Some (case dt_off t of None \<Rightarrow> z | Some off \<Rightarrow> Offset off)\<rparr>"

definition parse_calendar_datetime :: "string \<Rightarrow> string \<Rightarrow> moment res" where
  "parse_calendar_datetime s zone =
     (let text = strip s in
      if text = [] then Inl ValueError
      else if is_date_only text then bind_res (date_fromisoformat text) (\<lambda>d. Inr (midnight d zone))
      else bind_res (datetime_fromisoformat (zulu text)) (\<lambda>t. Inr (parsed_moment t (Named zone))))"

section \<open>Bindings and events\<close>

record binding =
  cb_id :: string
  cb_person :: string
  cb_provider :: string
  cb_readers :: "string list"

definition readable_by :: "binding \<Rightarrow> string \<Rightarrow> bool" where
  "readable_by b caller \<longleftrightarrow> caller = cb_person b \<or> caller \<in> set (cb_readers b)"

record provider_event =
  pe_id :: string
  pe_title :: string
  pe_start :: moment
  pe_end :: moment
  pe_timezone :: string
  pe_all_day :: bool
  pe_status :: string
  pe_location :: "string option"
  pe_busy :: bool

type_synonym batch = "provider_event list \<times> bool"

record calendar_event =
  ce_id :: string
  ce_calendar :: string
  ce_person :: string
  ce_title :: string
  ce_start :: string
  ce_end :: string
  ce_timezone :: string
  ce_all_day :: bool
  ce_status :: string
  ce_location :: "string option"
  ce_busy :: bool

definition cortex_event :: "tzdb \<Rightarrow> binding \<Rightarrow> provider_event \<Rightarrow> calendar_event" where
  "cortex_event db b e = \<lparr>ce_id = cb_id b @ '':'' @ pe_id e, ce_calendar = cb_id b, ce_person = cb_person b,
     ce_title = pe_title e, ce_start = moment_isoformat db (pe_start e), ce_end = moment_isoformat db (pe_end e),
     ce_timezone = pe_timezone e, ce_all_day = pe_all_day e, ce_status = pe_status e,
     ce_location = pe_location e, ce_busy = pe_busy e\<rparr>"

section \<open>The service\<close>

type_synonym 'w provider = "'w \<Rightarrow> string \<Rightarrow> moment \<Rightarrow> moment \<Rightarrow> int \<Rightarrow> 'w \<times> batch res"

record calendar_service =
  cs_bindings :: "binding list"
  cs_zone :: string

definition new_calendar_service :: "tzdb \<Rightarrow> binding list \<Rightarrow> string \<Rightarrow> pyfloat \<Rightarrow> calendar_service res" where
  "new_calendar_service db bindings zone timeout =
     (if fle timeout (Fin 0) then Inl ValueError
      else bind_res (db zone) (\<lambda>_. if distinct (map cb_id bindings)
        then Inr \<lparr>cs_bindings = bindings, cs_zone = zone\<rparr> else Inl ValueError))"

definition authorized_calendars ::
  "calendar_service \<Rightarrow> string option \<Rightarrow> string option \<Rightarrow> string option \<Rightarrow> binding list res" where
  "authorized_calendars s caller calendar_id person =
     (case caller of None \<Rightarrow> Inl CalendarAuthorizationError
      | Some c \<Rightarrow>
          let accessible = filter (\<lambda>b. readable_by b c) (cs_bindings s);
              accessible = (case calendar_id of None \<Rightarrow> accessible | Some i \<Rightarrow> filter (\<lambda>b. cb_id b = i) accessible);
              accessible = (case person of None \<Rightarrow> accessible | Some p \<Rightarrow> filter (\<lambda>b. cb_person b = p) accessible)
          in if accessible = [] then Inl CalendarAuthorizationError else Inr accessible)"

definition parse_window :: "tzdb \<Rightarrow> calendar_service \<Rightarrow> string \<Rightarrow> string \<Rightarrow> (moment \<times> moment) res" where
  "parse_window db s start_text end_text =
     bind_res (parse_calendar_datetime start_text (cs_zone s)) (\<lambda>a.
     bind_res (parse_calendar_datetime end_text (cs_zone s)) (\<lambda>b.
     bind_res (if \<not> moment_less db a b \<and> is_date_only (strip end_text)
         then (if in_range_us (mt_wall b + day_us) then Inr (b\<lparr>mt_wall := mt_wall b + day_us\<rparr>) else Inl OverflowError)
         else Inr b) (\<lambda>b.
       if moment_less db a b then Inr (a, b) else Inl ValueError)))"

definition is_timeout :: "exn \<Rightarrow> bool" where
  "is_timeout e \<longleftrightarrow> e = TimeoutError \<or> e = CalendarDeadlineExceeded"

text \<open>One calendar of a listing: its events, whether it could be read and whether it was read to its end.\<close>

record loaded =
  ld_binding :: binding
  ld_events :: "provider_event list"
  ld_failed :: bool
  ld_truncated :: bool

definition load_binding :: "'w provider \<Rightarrow> 'w \<Rightarrow> binding \<Rightarrow> moment \<Rightarrow> moment \<Rightarrow> int \<Rightarrow> 'w \<times> loaded res" where
  "load_binding provider w b a z n = (case provider w (cb_provider b) a z n of
     (w', Inl e) \<Rightarrow> (w', if e = CalendarUnavailableError \<or> is_timeout e
        then Inr \<lparr>ld_binding = b, ld_events = [], ld_failed = True, ld_truncated = False\<rparr> else Inl e)
   | (w', Inr (evs, whole)) \<Rightarrow>
        (w', Inr \<lparr>ld_binding = b, ld_events = evs, ld_failed = False, ld_truncated = \<not> whole\<rparr>))"

fun load_bindings :: "'w provider \<Rightarrow> 'w \<Rightarrow> binding list \<Rightarrow> moment \<Rightarrow> moment \<Rightarrow> int \<Rightarrow> 'w \<times> loaded list res" where
  "load_bindings provider w [] a z n = (w, Inr [])"
| "load_bindings provider w (b # bs) a z n =
     then_db (load_binding provider w b a z n) (\<lambda>w x.
     then_db (load_bindings provider w bs a z n) (\<lambda>w xs. (w, Inr (x # xs))))"

text \<open>\<open>keyed.sort()\<close> on triples of the start, the identifier and the record. Two events with the same start and
  identifier are compared by their records, which raises unless the records are equal.\<close>

type_synonym keyed_event = "moment \<times> string \<times> calendar_event"

definition same_key :: "tzdb \<Rightarrow> keyed_event \<Rightarrow> keyed_event \<Rightarrow> bool" where
  "same_key db x y \<longleftrightarrow> moment_equal db (fst x) (fst y) \<and> fst (snd x) = fst (snd y)"

definition keyed_less :: "tzdb \<Rightarrow> keyed_event \<Rightarrow> keyed_event \<Rightarrow> bool" where
  "keyed_less db x y \<longleftrightarrow> (if moment_equal db (fst x) (fst y) then str_less False (fst (snd x)) (fst (snd y))
     else moment_less db (fst x) (fst y))"

fun insert_keyed :: "tzdb \<Rightarrow> keyed_event \<Rightarrow> keyed_event list \<Rightarrow> keyed_event list" where
  "insert_keyed db x [] = [x]"
| "insert_keyed db x (y # ys) = (if keyed_less db x y then x # y # ys else y # insert_keyed db x ys)"

definition sort_keyed :: "tzdb \<Rightarrow> keyed_event list \<Rightarrow> keyed_event list res" where
  "sort_keyed db xs =
     (if list_ex (\<lambda>x. list_ex (\<lambda>y. same_key db x y \<and> snd (snd x) \<noteq> snd (snd y)) xs) xs then Inl TypeError
      else Inr (foldl (\<lambda>ys x. insert_keyed db x ys) [] xs))"

record listing =
  li_start :: string
  li_end :: string
  li_timezone :: string
  li_calendars :: "string list"
  li_events :: "calendar_event list"
  li_complete :: bool
  li_unavailable :: "string list"
  li_truncated :: "string list"

text \<open>\<open>xs[:n]\<close>\<close>

definition slice_to :: "int \<Rightarrow> 'a list \<Rightarrow> 'a list" where
  "slice_to n xs = (if 0 \<le> n then take (nat n) xs else take (length xs - nat (- n)) xs)"

definition default_event_limit :: int where "default_event_limit = 25"
definition max_event_limit :: int where "max_event_limit = 100"

definition keyed_events :: "tzdb \<Rightarrow> calendar_service \<Rightarrow> loaded list \<Rightarrow> keyed_event list" where
  "keyed_events db s loads = concat (map (\<lambda>x. map (\<lambda>e. let r = cortex_event db (ld_binding x) e in
       (aware (cs_zone s) (pe_start e), ce_id r, r)) (ld_events x)) (filter (\<lambda>x. \<not> ld_failed x) loads))"

definition merge_listing ::
  "tzdb \<Rightarrow> calendar_service \<Rightarrow> moment \<Rightarrow> moment \<Rightarrow> int \<Rightarrow> loaded list \<Rightarrow> listing res" where
  "merge_listing db s a z n loads =
     (let fetched = map (cb_id \<circ> ld_binding) (filter (\<lambda>x. \<not> ld_failed x) loads);
          unavailable = map (cb_id \<circ> ld_binding) (filter ld_failed loads);
          truncated = map (cb_id \<circ> ld_binding) (filter (\<lambda>x. \<not> ld_failed x \<and> ld_truncated x) loads);
          keyed = keyed_events db s loads
      in if fetched = [] \<and> unavailable \<noteq> [] then Inl CalendarUnavailableError
         else bind_res (sort_keyed db keyed) (\<lambda>ks.
           Inr \<lparr>li_start = moment_isoformat db a, li_end = moment_isoformat db z, li_timezone = cs_zone s,
             li_calendars = fetched, li_events = map (snd \<circ> snd) (slice_to n ks),
             li_complete = (unavailable = [] \<and> truncated = [] \<and> int (length keyed) \<le> n),
             li_unavailable = unavailable, li_truncated = truncated\<rparr>))"

definition list_calendar_events ::
  "tzdb \<Rightarrow> 'w provider \<Rightarrow> calendar_service \<Rightarrow> 'w \<Rightarrow> string \<Rightarrow> string \<Rightarrow> string option \<Rightarrow> string option
     \<Rightarrow> int option \<Rightarrow> string option \<Rightarrow> 'w \<times> listing res" where
  "list_calendar_events db provider s w start_text end_text calendar_id person limit caller =
     then_db (pure_db w (parse_window db s start_text end_text)) (\<lambda>w (a, z).
     then_db (pure_db w (authorized_calendars s caller calendar_id person)) (\<lambda>w selected.
     let n = (case limit of None \<Rightarrow> default_event_limit | Some k \<Rightarrow> k) in
     then_db (load_bindings provider w selected a z n) (\<lambda>w loads.
     (w, merge_listing db s a z n loads))))"

record calendar_availability =
  av_checked :: bool
  av_available :: bool
  av_conflicts :: "calendar_event list"
  av_listing :: listing

text \<open>A conflict shows the event without its status, location and busy flag; the record keeps the whole event.\<close>

definition check_availability ::
  "tzdb \<Rightarrow> 'w provider \<Rightarrow> calendar_service \<Rightarrow> 'w \<Rightarrow> string \<Rightarrow> string \<Rightarrow> string option \<Rightarrow> string option
     \<Rightarrow> string option \<Rightarrow> 'w \<times> calendar_availability res" where
  "check_availability db provider s w start_text end_text calendar_id person caller =
     then_db (list_calendar_events db provider s w start_text end_text calendar_id person (Some max_event_limit) caller)
       (\<lambda>w li. let conflicts = filter (\<lambda>e. ce_busy e \<and> ce_status e \<noteq> ''cancelled'') (li_events li) in
         (w, Inr \<lparr>av_checked = li_complete li, av_available = (li_complete li \<and> conflicts = []),
                   av_conflicts = conflicts, av_listing = li\<rparr>))"

definition unconfigured_provider :: "'w provider" where
  "unconfigured_provider w calendar a z n = (w, Inl CalendarUnavailableError)"

end
