(* ===== verification/GoogleCalendar.thy ===== *)
theory GoogleCalendar
  imports Calendar
begin

text \<open>
  The Google provider of \<open>capabilities/calendar.py\<close>: normalization of an event of the API, the access
  token with its cache, the time budget and the loop over the pages of an answer. The state is the token
  cache and the world, of which the provider reads the monotonic clock and to which it sends requests. The
  loop has fuel, since nothing but the budget bounds the number of empty pages.
\<close>

section \<open>Events of the API\<close>

definition text_or :: "pyval \<Rightarrow> string \<Rightarrow> string" where
  "text_or v d = (case v of VStr s \<Rightarrow> if s = [] then d else s | _ \<Rightarrow> d)"

definition stripped :: "pyval \<Rightarrow> string option" where
  "stripped v = (case v of VStr s \<Rightarrow> if strip s = [] then None else Some (strip s) | _ \<Rightarrow> None)"

definition google_boundary :: "tzdb \<Rightarrow> pyval \<Rightarrow> string \<Rightarrow> (moment \<times> string \<times> bool) option res" where
  "google_boundary db payload zone =
     (case payload of
        VDict p \<Rightarrow>
          let name = text_or (get_or_None p ''timeZone'') zone;
              moment_text = text_or (get_or_None p ''dateTime'') [];
              date_text = text_or (get_or_None p ''date'') []
          in if moment_text \<noteq> [] then
               (case datetime_fromisoformat (zulu moment_text) of
                  Inl e \<Rightarrow> if is_value_error e then Inr None else Inl e
                | Inr t \<Rightarrow>
                    if dt_off t \<noteq> None then Inr (Some (parsed_moment t (Named name), name, False))
                    else (case db name of
                        Inr f \<Rightarrow> Inr (Some (parsed_moment t (Named name), name, False))
                      | Inl e \<Rightarrow> if e = ZoneInfoNotFoundError
                          then bind_res (db zone) (\<lambda>f. Inr (Some (parsed_moment t (Named zone), zone, False)))
                          else Inl e))
             else if date_text \<noteq> [] then
               (case bind_res (date_fromisoformat date_text) (\<lambda>d. bind_res (db name) (\<lambda>f. Inr d)) of
                  Inr d \<Rightarrow> Inr (Some (midnight d name, name, True))
                | Inl e \<Rightarrow> if is_value_error e \<or> e = ZoneInfoNotFoundError then Inr None else Inl e)
             else Inr None
      | _ \<Rightarrow> Inr None)"

definition normalize_google_event :: "tzdb \<Rightarrow> fields \<Rightarrow> string \<Rightarrow> provider_event option res" where
  "normalize_google_event db it zone =
     (let i = text_or (get_or_None it ''id'') []; st = get_or_None it ''status'' in
      if i = [] \<or> st = VStr ''cancelled'' then Inr None
      else bind_res (google_boundary db (get_or_None it ''start'') zone) (\<lambda>a.
           bind_res (google_boundary db (get_or_None it ''end'') zone) (\<lambda>z.
           Inr (case (a, z) of
              (Some (start, start_tz, start_day), Some (stop, stop_tz, stop_day)) \<Rightarrow>
                Some \<lparr>pe_id = i,
                  pe_title = (case stripped (get_or_None it ''summary'') of None \<Rightarrow> ''(untitled)'' | Some x \<Rightarrow> x),
                  pe_start = start, pe_end = stop,
                  pe_timezone = (if start_tz \<noteq> [] then start_tz else if stop_tz \<noteq> [] then stop_tz else zone),
                  pe_all_day = (start_day \<or> stop_day), pe_status = text_or st ''confirmed'',
                  pe_location = stripped (get_or_None it ''location''),
                  pe_busy = (get_or_None it ''transparency'' \<noteq> VStr ''transparent'')\<rparr>
            | _ \<Rightarrow> None))))"

section \<open>The network\<close>

datatype http_request =
    TokenRequest "(string \<times> string) list"
  | EventsRequest string "(string \<times> string) list" string

datatype http_reply = Reply int string | HttpFailure int "string option" | NetworkFailure

text \<open>\<open>request_json\<close> on the reply of the server; \<open>loads\<close> decodes and parses the body.\<close>

definition request_json :: "(string \<Rightarrow> pyval res) \<Rightarrow> http_reply \<Rightarrow> (int \<times> pyval) res" where
  "request_json loads reply =
     (let decode = (\<lambda>status raw. if raw = [] then Inr (status, VNone) else (case loads raw of
            Inr v \<Rightarrow> Inr (status, v) | Inl e \<Rightarrow> Inl (if is_value_error e then CalendarUnavailableError else e)))
      in case reply of
           Reply status raw \<Rightarrow> decode status raw
         | HttpFailure status raw \<Rightarrow> decode status (case raw of None \<Rightarrow> [] | Some r \<Rightarrow> r)
         | NetworkFailure \<Rightarrow> Inl CalendarUnavailableError)"

record 'w net =
  nt_now :: "'w \<Rightarrow> 'w \<times> pyfloat"
  nt_send :: "'w \<Rightarrow> http_request \<Rightarrow> pyfloat \<Rightarrow> 'w \<times> (int \<times> pyval) res"

record google_config =
  gc_client_id :: string
  gc_client_secret :: string
  gc_refresh_token :: string
  gc_zone :: string
  gc_budget :: pyfloat

record 'w google =
  gs_world :: 'w
  gs_token :: "string option"
  gs_expires :: pyfloat

definition new_google :: "google_config \<Rightarrow> 'w \<Rightarrow> 'w google res" where
  "new_google cfg w = (if fle (gc_budget cfg) (Fin 0) then Inl ValueError
     else Inr \<lparr>gs_world = w, gs_token = None, gs_expires = Fin 0\<rparr>)"

definition http_timeout :: pyfloat where "http_timeout = Fin (3 / 2)"

definition monotonic :: "'w net \<Rightarrow> 'w google \<Rightarrow> 'w google \<times> pyfloat" where
  "monotonic net s = (case nt_now net (gs_world s) of (w, x) \<Rightarrow> (s\<lparr>gs_world := w\<rparr>, x))"

definition remaining :: "'w net \<Rightarrow> pyfloat \<Rightarrow> 'w google \<Rightarrow> 'w google \<times> pyfloat res" where
  "remaining net deadline s = (case monotonic net s of (s', now) \<Rightarrow>
     (s', if fle (fsub deadline now) (Fin 0) then Inl CalendarDeadlineExceeded else Inr (fsub deadline now)))"

definition flt :: "pyfloat \<Rightarrow> pyfloat \<Rightarrow> bool" where
  "flt a b \<longleftrightarrow> fle a b \<and> a \<noteq> b"

definition require_remaining :: "'w net \<Rightarrow> pyfloat \<Rightarrow> pyfloat \<Rightarrow> 'w google \<Rightarrow> 'w google \<times> unit res" where
  "require_remaining net deadline required s = (case monotonic net s of (s', now) \<Rightarrow>
     (s', if flt (fsub deadline now) required then Inl CalendarDeadlineExceeded else Inr ()))"

definition send_request ::
  "'w net \<Rightarrow> pyfloat \<Rightarrow> http_request \<Rightarrow> 'w google \<Rightarrow> 'w google \<times> (int \<times> pyval) res" where
  "send_request net deadline q s = then_db (remaining net deadline s) (\<lambda>s left_time.
     (case nt_send net (gs_world s) q left_time of (w, r) \<Rightarrow>
        (s\<lparr>gs_world := w\<rparr>, case r of Inr x \<Rightarrow> Inr x
          | Inl e \<Rightarrow> Inl (if is_timeout e then CalendarDeadlineExceeded else e))))"

section \<open>The access token\<close>

definition payload_get :: "pyval \<Rightarrow> string \<Rightarrow> pyval" where
  "payload_get v k = (case v of VDict d \<Rightarrow> get_or_None d k | _ \<Rightarrow> VNone)"

text \<open>\<open>max(lifetime - 60.0, 30.0)\<close>\<close>

definition token_lifetime :: "pyval \<Rightarrow> pyfloat res" where
  "token_lifetime v = bind_res (case v of VInt i \<Rightarrow> to_float v | VFloat f \<Rightarrow> Inr f | _ \<Rightarrow> Inr (Fin 3600)) (\<lambda>l.
     let d = fsub l (Fin 60) in Inr (if flt d (Fin 30) then Fin 30 else d))"

definition refresh_token :: "'w net \<Rightarrow> google_config \<Rightarrow> pyfloat \<Rightarrow> 'w google \<Rightarrow> 'w google \<times> string res" where
  "refresh_token net cfg deadline s =
     then_db (require_remaining net deadline http_timeout s) (\<lambda>s u.
     then_db (send_request net deadline (TokenRequest [(''client_id'', gc_client_id cfg),
         (''client_secret'', gc_client_secret cfg), (''refresh_token'', gc_refresh_token cfg),
         (''grant_type'', ''refresh_token'')]) s) (\<lambda>s (status, payload).
     let token = text_or (if status = 200 then payload_get payload ''access_token'' else VNone) [] in
     if token = [] then (s, Inl CalendarUnavailableError)
     else then_db (pure_db s (token_lifetime (payload_get payload ''expires_in''))) (\<lambda>s lifetime.
       (case monotonic net s of (s, now) \<Rightarrow>
          (s\<lparr>gs_token := Some token, gs_expires := fadd now lifetime\<rparr>, Inr token)))))"

text \<open>The lock is free: one listing runs at a time in the model. The cached token is used while the clock is
  before its expiry.\<close>

definition access_token ::
  "'w net \<Rightarrow> google_config \<Rightarrow> bool \<Rightarrow> pyfloat \<Rightarrow> 'w google \<Rightarrow> 'w google \<times> string res" where
  "access_token net cfg force deadline s = then_db (remaining net deadline s) (\<lambda>s left_time.
     (case (if force then None else gs_token s) of
        None \<Rightarrow> refresh_token net cfg deadline s
      | Some tok \<Rightarrow> (case monotonic net s of (s, now) \<Rightarrow>
          if flt now (gs_expires s) then (s, Inr tok) else refresh_token net cfg deadline s)))"

section \<open>Pages\<close>

definition rfc3339 :: "tzdb \<Rightarrow> moment \<Rightarrow> string" where
  "rfc3339 db m = moment_isoformat db (if mt_tz m = None then m\<lparr>mt_tz := Some (Offset 0)\<rparr> else m)"

definition events_request ::
  "tzdb \<Rightarrow> google_config \<Rightarrow> string \<Rightarrow> moment \<Rightarrow> moment \<Rightarrow> int \<Rightarrow> string option \<Rightarrow> string \<Rightarrow> http_request" where
  "events_request db cfg calendar a z limit page tok = EventsRequest calendar
     ([(''timeMin'', rfc3339 db a), (''timeMax'', rfc3339 db z), (''singleEvents'', ''true''),
       (''orderBy'', ''startTime''), (''maxResults'', show_int (min (max limit 1) max_event_limit)),
       (''timeZone'', gc_zone cfg)] @ (case page of None \<Rightarrow> [] | Some p \<Rightarrow> [(''pageToken'', p)])) tok"

definition get_page ::
  "'w net \<Rightarrow> pyfloat \<Rightarrow> http_request \<Rightarrow> 'w google \<Rightarrow> 'w google \<times> (int \<times> pyval) res" where
  "get_page net deadline q s = then_db (require_remaining net deadline http_timeout s) (\<lambda>s u.
     send_request net deadline q s)"

definition page_payload :: "int \<Rightarrow> pyval \<Rightarrow> fields res" where
  "page_payload status payload = (case payload of
     VDict d \<Rightarrow> if status = 200 then Inr d else Inl CalendarUnavailableError
   | _ \<Rightarrow> Inl CalendarUnavailableError)"

text \<open>A refused token is refreshed once.\<close>

definition get_events ::
  "tzdb \<Rightarrow> 'w net \<Rightarrow> google_config \<Rightarrow> string \<Rightarrow> moment \<Rightarrow> moment \<Rightarrow> int \<Rightarrow> string option \<Rightarrow> string
     \<Rightarrow> pyfloat \<Rightarrow> 'w google \<Rightarrow> 'w google \<times> fields res" where
  "get_events db net cfg calendar a z limit page tok deadline s =
     then_db (get_page net deadline (events_request db cfg calendar a z limit page tok) s) (\<lambda>s (status, payload).
     if status = 401 then
       then_db (require_remaining net deadline (Fin 3) s) (\<lambda>s u.
       then_db (access_token net cfg True deadline s) (\<lambda>s tok.
       then_db (get_page net deadline (events_request db cfg calendar a z limit page tok) s) (\<lambda>s (status, payload).
       pure_db s (page_payload status payload))))
     else pure_db s (page_payload status payload))"

text \<open>The events of a page, until the limit is reached.\<close>

fun add_items :: "tzdb \<Rightarrow> string \<Rightarrow> int \<Rightarrow> pyval list \<Rightarrow> provider_event list \<Rightarrow> provider_event list res" where
  "add_items db zone limit [] evs = Inr evs"
| "add_items db zone limit (v # vs) evs = (case v of
     VDict it \<Rightarrow> bind_res (normalize_google_event db it zone) (\<lambda>x. case x of
         None \<Rightarrow> add_items db zone limit vs evs
       | Some e \<Rightarrow> if limit \<le> int (length (evs @ [e])) then Inr (evs @ [e])
                   else add_items db zone limit vs (evs @ [e]))
   | _ \<Rightarrow> add_items db zone limit vs evs)"

datatype page_end = PageDone batch | PageNext "provider_event list" string

text \<open>What one pass through the loop makes of a page.\<close>

definition page_result ::
  "tzdb \<Rightarrow> string \<Rightarrow> int \<Rightarrow> provider_event list \<Rightarrow> string list \<Rightarrow> fields \<Rightarrow> page_end res" where
  "page_result db zone limit evs seen payload =
     bind_res (case get_or_None payload ''items'' of
         VList vs \<Rightarrow> add_items db zone limit vs evs | _ \<Rightarrow> Inr evs) (\<lambda>evs.
     let next_token = text_or (get_or_None payload ''nextPageToken'') [] in
     if next_token = [] then Inr (PageDone (evs, True))
     else if next_token \<in> set seen then Inl CalendarUnavailableError
     else if limit \<le> int (length evs) then Inr (PageDone (evs, False))
     else Inr (PageNext evs next_token))"

text \<open>One pass: the token, the page, and the exceptions that end the loop with what was read so far. Those of
  the page itself are outside the \<open>try\<close>.\<close>

definition read_page ::
  "tzdb \<Rightarrow> 'w net \<Rightarrow> google_config \<Rightarrow> string \<Rightarrow> moment \<Rightarrow> moment \<Rightarrow> int \<Rightarrow> pyfloat
     \<Rightarrow> provider_event list \<Rightarrow> string option \<Rightarrow> string list \<Rightarrow> 'w google \<Rightarrow> 'w google \<times> page_end res" where
  "read_page db net cfg calendar a z limit deadline evs page seen s =
     (case then_db (access_token net cfg False deadline s) (\<lambda>s tok.
        get_events db net cfg calendar a z (limit - int (length evs)) page tok deadline s) of
        (s, Inl e) \<Rightarrow> (s, if e = CalendarDeadlineExceeded then Inr (PageDone (evs, False))
            else if e = CalendarUnavailableError \<and> evs \<noteq> [] then Inr (PageDone (evs, False)) else Inl e)
      | (s, Inr payload) \<Rightarrow> (s, page_result db (gc_zone cfg) limit evs seen payload))"

fun page_loop ::
  "nat \<Rightarrow> tzdb \<Rightarrow> 'w net \<Rightarrow> google_config \<Rightarrow> string \<Rightarrow> moment \<Rightarrow> moment \<Rightarrow> int \<Rightarrow> pyfloat
     \<Rightarrow> provider_event list \<Rightarrow> string option \<Rightarrow> string list \<Rightarrow> 'w google \<Rightarrow> ('w google \<times> batch res) option" where
  "page_loop 0 db net cfg calendar a z limit deadline evs page seen s = None"
| "page_loop (Suc n) db net cfg calendar a z limit deadline evs page seen s =
     (if limit \<le> int (length evs) then Some (s, Inr (evs, True))
      else case read_page db net cfg calendar a z limit deadline evs page seen s of
          (s, Inl e) \<Rightarrow> Some (s, Inl e)
        | (s, Inr (PageDone b)) \<Rightarrow> Some (s, Inr b)
        | (s, Inr (PageNext evs tok)) \<Rightarrow>
            page_loop n db net cfg calendar a z limit deadline evs (Some tok) (tok # seen) s)"

definition google_list_events ::
  "nat \<Rightarrow> tzdb \<Rightarrow> 'w net \<Rightarrow> google_config \<Rightarrow> 'w google \<Rightarrow> string \<Rightarrow> moment \<Rightarrow> moment \<Rightarrow> int
     \<Rightarrow> ('w google \<times> batch res) option" where
  "google_list_events fuel db net cfg s calendar a z limit =
     (case monotonic net s of (s, now) \<Rightarrow>
        page_loop fuel db net cfg calendar a z limit (fadd now (gc_budget cfg)) [] None [] s)"

section \<open>The service of the settings\<close>

datatype secret = Secret pyval | Plain pyval

definition secret_value :: "secret \<Rightarrow> string option" where
  "secret_value v = (case (case v of Secret x \<Rightarrow> x | Plain x \<Rightarrow> x) of
     VStr s \<Rightarrow> if s = [] then None else Some s | _ \<Rightarrow> None)"

record calendar_settings =
  st_bindings :: "binding list"
  st_client_id :: "string option"
  st_client_secret :: secret
  st_refresh_token :: secret
  st_zone :: string

text \<open>The service with the configuration of the Google provider, or \<open>None\<close> for the unconfigured one.\<close>

definition calendar_service_from_settings ::
  "tzdb \<Rightarrow> calendar_settings \<Rightarrow> (calendar_service \<times> google_config option) res" where
  "calendar_service_from_settings db st =
     bind_res (new_calendar_service db (st_bindings st) (st_zone st) (Fin 4)) (\<lambda>s. Inr (s,
       case (st_client_id st, secret_value (st_client_secret st), secret_value (st_refresh_token st)) of
         (Some i, Some c, Some r) \<Rightarrow> if i = [] then None else
            Some \<lparr>gc_client_id = i, gc_client_secret = c, gc_refresh_token = r, gc_zone = st_zone st, gc_budget = Fin (7 / 2)\<rparr>
       | _ \<Rightarrow> None))"

end
