(* ===== verification/CalendarServiceFacts.thy ===== *)
theory CalendarServiceFacts
  imports GoogleCalendar ConversationFacts
begin

text \<open>
  What the calendar service guarantees: a listing shows a caller only the calendars of bindings the caller may
  read, "available" is only answered from complete readings, and the page loop of the Google provider ends.
\<close>

section \<open>Who sees what\<close>

lemma authorized_Inr:
  "authorized_calendars s caller i p = Inr bs \<longleftrightarrow> (\<exists>c. caller = Some c \<and> bs \<noteq> []
     \<and> bs = filter (\<lambda>b. readable_by b c \<and> (i = None \<or> i = Some (cb_id b)) \<and> (p = None \<or> p = Some (cb_person b)))
              (cs_bindings s))"
proof (cases caller)
  case (Some c)
  have "(case p of None \<Rightarrow> (case i of None \<Rightarrow> filter (\<lambda>b. readable_by b c) (cs_bindings s)
        | Some i \<Rightarrow> filter (\<lambda>b. cb_id b = i) (filter (\<lambda>b. readable_by b c) (cs_bindings s)))
      | Some p \<Rightarrow> filter (\<lambda>b. cb_person b = p) (case i of None \<Rightarrow> filter (\<lambda>b. readable_by b c) (cs_bindings s)
        | Some i \<Rightarrow> filter (\<lambda>b. cb_id b = i) (filter (\<lambda>b. readable_by b c) (cs_bindings s))))
     = filter (\<lambda>b. readable_by b c \<and> (i = None \<or> i = Some (cb_id b)) \<and> (p = None \<or> p = Some (cb_person b))) (cs_bindings s)"
    by (cases i; cases p) (auto intro!: filter_cong)
  then show ?thesis by (auto simp: authorized_calendars_def Let_def Some)
qed (simp add: authorized_calendars_def)

lemma load_binding_of: "load_binding pr w b a z n = (w', Inr x) \<Longrightarrow> ld_binding x = b"
  by (auto simp: load_binding_def split: prod.splits sum.splits if_splits)

lemma load_bindings_of: "load_bindings pr w bs a z n = (w', Inr xs) \<Longrightarrow> map ld_binding xs = bs"
  by (induction bs arbitrary: w xs) (auto simp: then_db_Inr dest: load_binding_of)

lemma load_bindings_cong:
  "\<forall>b \<in> set bs. \<forall>w a z n. pr w (cb_provider b) a z n = pr' w (cb_provider b) a z n \<Longrightarrow>
     load_bindings pr w bs a z n = load_bindings pr' w bs a z n"
  by (induction bs arbitrary: w) (auto simp: load_binding_def)

lemma insert_keyed_set: "set (insert_keyed db x ys) = insert x (set ys)" "length (insert_keyed db x ys) = Suc (length ys)"
  by (induction ys) auto

lemma sort_keyed_set:
  assumes "sort_keyed db xs = Inr ys"
  shows "set ys = set xs \<and> length ys = length xs"
proof -
  have "set (foldl (\<lambda>ys x. insert_keyed db x ys) acc xs) = set acc \<union> set xs
      \<and> length (foldl (\<lambda>ys x. insert_keyed db x ys) acc xs) = length acc + length xs" for acc
    by (induction xs arbitrary: acc) (auto simp: insert_keyed_set)
  from this[of "[]"] assms show ?thesis by (auto simp: sort_keyed_def split: if_splits)
qed

lemma slice_to_subset: "set (slice_to n xs) \<subseteq> set xs"
  by (auto simp: slice_to_def dest: in_set_takeD)

lemma merge_listing_Inr:
  assumes "merge_listing db s a z n loads = Inr li"
  shows "\<exists>ks. sort_keyed db (keyed_events db s loads) = Inr ks \<and> li_events li = map (snd \<circ> snd) (slice_to n ks)
    \<and> li_calendars li = map (cb_id \<circ> ld_binding) (filter (\<lambda>x. \<not> ld_failed x) loads)
    \<and> (li_complete li \<longleftrightarrow> (\<forall>x \<in> set loads. \<not> ld_failed x \<and> \<not> ld_truncated x)
         \<and> int (length (keyed_events db s loads)) \<le> n)"
proof -
  have none: "filter ld_failed loads = [] \<and> filter (\<lambda>x. \<not> ld_failed x \<and> ld_truncated x) loads = []
      \<longleftrightarrow> (\<forall>x \<in> set loads. \<not> ld_failed x \<and> \<not> ld_truncated x)" unfolding filter_empty_conv by blast
  from assms obtain ks where ks: "sort_keyed db (keyed_events db s loads) = Inr ks" and li: "li =
      \<lparr>li_start = moment_isoformat db a, li_end = moment_isoformat db z, li_timezone = cs_zone s,
       li_calendars = map (cb_id \<circ> ld_binding) (filter (\<lambda>x. \<not> ld_failed x) loads),
       li_events = map (snd \<circ> snd) (slice_to n ks),
       li_complete = (map (cb_id \<circ> ld_binding) (filter ld_failed loads) = []
         \<and> map (cb_id \<circ> ld_binding) (filter (\<lambda>x. \<not> ld_failed x \<and> ld_truncated x) loads) = []
         \<and> int (length (keyed_events db s loads)) \<le> n),
       li_unavailable = map (cb_id \<circ> ld_binding) (filter ld_failed loads),
       li_truncated = map (cb_id \<circ> ld_binding) (filter (\<lambda>x. \<not> ld_failed x \<and> ld_truncated x) loads)\<rparr>"
    unfolding merge_listing_def Let_def by (cases "sort_keyed db (keyed_events db s loads)") (simp_all split: if_splits)
  show ?thesis using ks none unfolding li map_is_Nil_conv by (intro exI[of _ ks]) (simp add: conj_assoc[symmetric])
qed

text \<open>What a listing is made of.\<close>

lemma listing_parts:
  assumes "list_calendar_events db pr s w st en i p limit caller = (w', Inr li)"
  obtains a z bs loads ks n where "parse_window db s st en = Inr (a, z)"
    "authorized_calendars s caller i p = Inr bs"
    "n = (case limit of None \<Rightarrow> default_event_limit | Some k \<Rightarrow> k)"
    "load_bindings pr w bs a z n = (w', Inr loads)"
    "sort_keyed db (keyed_events db s loads) = Inr ks" "li_events li = map (snd \<circ> snd) (slice_to n ks)"
    "li_calendars li = map (cb_id \<circ> ld_binding) (filter (\<lambda>x. \<not> ld_failed x) loads)"
    "li_complete li \<longleftrightarrow> (\<forall>x \<in> set loads. \<not> ld_failed x \<and> \<not> ld_truncated x) \<and> int (length (keyed_events db s loads)) \<le> n"
proof -
  from assms obtain a z bs loads where p: "parse_window db s st en = Inr (a, z)" "authorized_calendars s caller i p = Inr bs"
    and l: "load_bindings pr w bs a z (case limit of None \<Rightarrow> default_event_limit | Some k \<Rightarrow> k) = (w', Inr loads)"
    and m: "merge_listing db s a z (case limit of None \<Rightarrow> default_event_limit | Some k \<Rightarrow> k) loads = Inr li"
    by (auto simp: list_calendar_events_def then_db_Inr pure_db_def Let_def)
  let ?n = "case limit of None \<Rightarrow> default_event_limit | Some k \<Rightarrow> k"
  from merge_listing_Inr[OF m] obtain ks where "sort_keyed db (keyed_events db s loads) = Inr ks"
    "li_events li = map (snd \<circ> snd) (slice_to ?n ks)"
    "li_calendars li = map (cb_id \<circ> ld_binding) (filter (\<lambda>x. \<not> ld_failed x) loads)"
    "li_complete li \<longleftrightarrow> (\<forall>x \<in> set loads. \<not> ld_failed x \<and> \<not> ld_truncated x)
       \<and> int (length (keyed_events db s loads)) \<le> ?n" by blast
  with that p l show thesis by blast
qed

lemma keyed_event_origin:
  "k \<in> set (keyed_events db s loads) \<longleftrightarrow> (\<exists>x \<in> set loads. \<not> ld_failed x \<and> (\<exists>e \<in> set (ld_events x).
     k = (aware (cs_zone s) (pe_start e), ce_id (cortex_event db (ld_binding x) e), cortex_event db (ld_binding x) e)))"
  by (auto simp: keyed_events_def Let_def)

text \<open>C31: a listing is only made for an identified caller; every event and every calendar in it belongs to a binding that
  the caller may read and that the request selects, and what the provider would answer for any other calendar
  has no influence on the result.\<close>

theorem listing_authorized:
  assumes "list_calendar_events db pr s w st en i p limit caller = (w', Inr li)"
  shows "\<exists>c. caller = Some c
    \<and> (\<forall>e \<in> set (li_events li). \<exists>b \<in> set (cs_bindings s). readable_by b c \<and> ce_calendar e = cb_id b
         \<and> ce_person e = cb_person b \<and> (i = None \<or> i = Some (cb_id b)) \<and> (p = None \<or> p = Some (cb_person b)))
    \<and> set (li_calendars li) \<subseteq> cb_id ` {b \<in> set (cs_bindings s). readable_by b c}
    \<and> ((\<forall>b \<in> set (cs_bindings s). readable_by b c \<longrightarrow>
          (\<forall>w a z n. pr' w (cb_provider b) a z n = pr w (cb_provider b) a z n)) \<longrightarrow>
       list_calendar_events db pr' s w st en i p limit caller = (w', Inr li))"
proof (rule listing_parts[OF assms])
  fix a z bs loads ks n
  assume P: "parse_window db s st en = Inr (a, z)" "authorized_calendars s caller i p = Inr bs"
    "n = (case limit of None \<Rightarrow> default_event_limit | Some k \<Rightarrow> k)"
    "load_bindings pr w bs a z n = (w', Inr loads)"
    "sort_keyed db (keyed_events db s loads) = Inr ks" "li_events li = map (snd \<circ> snd) (slice_to n ks)"
    "li_calendars li = map (cb_id \<circ> ld_binding) (filter (\<lambda>x. \<not> ld_failed x) loads)"
  from P(2) obtain c where c: "caller = Some c" and bs: "bs = filter (\<lambda>b. readable_by b c
      \<and> (i = None \<or> i = Some (cb_id b)) \<and> (p = None \<or> p = Some (cb_person b))) (cs_bindings s)"
    unfolding authorized_Inr by blast
  have loads: "ld_binding x \<in> set bs" if "x \<in> set loads" for x
    using that load_bindings_of[OF P(4)] by auto
  have ev: "\<exists>x \<in> set loads. \<exists>y. e = cortex_event db (ld_binding x) y" if "e \<in> set (li_events li)" for e
  proof -
    from that P(6) obtain k where "k \<in> set (slice_to n ks)" "e = snd (snd k)" by auto
    with slice_to_subset[of n ks] sort_keyed_set[OF P(5)] have "k \<in> set (keyed_events db s loads)" "e = snd (snd k)" by auto
    then obtain x y where "x \<in> set loads" "e = cortex_event db (ld_binding x) y" unfolding keyed_event_origin by fastforce
    then show ?thesis by blast
  qed
  have "\<forall>e \<in> set (li_events li). \<exists>b \<in> set (cs_bindings s). readable_by b c \<and> ce_calendar e = cb_id b
         \<and> ce_person e = cb_person b \<and> (i = None \<or> i = Some (cb_id b)) \<and> (p = None \<or> p = Some (cb_person b))"
  proof
    fix e assume "e \<in> set (li_events li)"
    from ev[OF this] obtain x y where x: "x \<in> set loads" "e = cortex_event db (ld_binding x) y" by blast
    from loads[OF x(1)] show "\<exists>b \<in> set (cs_bindings s). readable_by b c \<and> ce_calendar e = cb_id b
         \<and> ce_person e = cb_person b \<and> (i = None \<or> i = Some (cb_id b)) \<and> (p = None \<or> p = Some (cb_person b))"
      unfolding bs x(2) by (intro bexI[of _ "ld_binding x"]) (auto simp: cortex_event_def)
  qed
  moreover have "set (li_calendars li) \<subseteq> cb_id ` {b \<in> set (cs_bindings s). readable_by b c}"
    using loads unfolding P(7) bs by auto
  moreover have "list_calendar_events db pr' s w st en i p limit caller = (w', Inr li)"
    if "\<forall>b \<in> set (cs_bindings s). readable_by b c \<longrightarrow> (\<forall>w a z n. pr' w (cb_provider b) a z n = pr w (cb_provider b) a z n)"
  proof -
    have "load_bindings pr' w bs a z n = load_bindings pr w bs a z n"
      by (rule load_bindings_cong) (use that in \<open>auto simp: bs\<close>)
    with assms P(1-3) show ?thesis by (simp add: list_calendar_events_def then_db_def pure_db_def Let_def)
  qed
  ultimately show ?thesis using c by blast
qed

text \<open>C32: "available" is only answered when every calendar that the caller may read and selected was read completely and
  holds no busy event that is not cancelled; in particular a calendar that could not be read, was read partly,
  or has more events than the limit never counts as free.\<close>

theorem availability_sound:
  assumes "check_availability db pr s w st en i p caller = (w', Inr av)" and "av_available av"
  shows "\<exists>bs a z loads. authorized_calendars s caller i p = Inr bs \<and> parse_window db s st en = Inr (a, z)
    \<and> load_bindings pr w bs a z max_event_limit = (w', Inr loads) \<and> map ld_binding loads = bs
    \<and> (\<forall>x \<in> set loads. \<not> ld_failed x \<and> \<not> ld_truncated x
         \<and> (\<forall>e \<in> set (ld_events x). pe_busy e \<longrightarrow> pe_status e = ''cancelled''))"
proof -
  from assms obtain li where li: "list_calendar_events db pr s w st en i p (Some max_event_limit) caller = (w', Inr li)"
    and c: "li_complete li" "filter (\<lambda>e. ce_busy e \<and> ce_status e \<noteq> ''cancelled'') (li_events li) = []"
    by (auto simp: check_availability_def then_db_Inr Let_def)
  show ?thesis
  proof (rule listing_parts[OF li])
    fix a z bs loads ks n
    assume P: "parse_window db s st en = Inr (a, z)" "authorized_calendars s caller i p = Inr bs"
      "n = (case Some max_event_limit of None \<Rightarrow> default_event_limit | Some k \<Rightarrow> k)"
      "load_bindings pr w bs a z n = (w', Inr loads)"
      "sort_keyed db (keyed_events db s loads) = Inr ks" "li_events li = map (snd \<circ> snd) (slice_to n ks)"
      "li_complete li \<longleftrightarrow> (\<forall>x \<in> set loads. \<not> ld_failed x \<and> \<not> ld_truncated x) \<and> int (length (keyed_events db s loads)) \<le> n"
    have n: "n = max_event_limit" using P(3) by simp
    note ks = sort_keyed_set[OF P(5)]
    have "slice_to n ks = ks" using c(1) P(7) ks n by (simp add: slice_to_def max_event_limit_def le_nat_iff)
    then have all: "snd (snd k) \<in> set (li_events li)" if "k \<in> set (keyed_events db s loads)" for k
      using that ks P(6) by auto
    have "pe_status e = ''cancelled''" if "x \<in> set loads" "\<not> ld_failed x" "e \<in> set (ld_events x)" "pe_busy e" for x e
    proof -
      have "cortex_event db (ld_binding x) e \<in> set (li_events li)"
        using all[of "(aware (cs_zone s) (pe_start e), ce_id (cortex_event db (ld_binding x) e), cortex_event db (ld_binding x) e)"]
          that by (auto simp: keyed_event_origin)
      with c(2) that(4) show ?thesis by (auto simp: filter_empty_conv cortex_event_def)
    qed
    then show ?thesis using P(1,2,4,7) c(1) n load_bindings_of[OF P(4)] by blast
  qed
qed

section \<open>The pages of the provider end\<close>

lemma add_items_bound:
  "add_items db zone limit vs evs = Inr evs' \<Longrightarrow> int (length evs) < limit \<Longrightarrow> int (length evs') \<le> limit"
  by (induction vs arbitrary: evs) (auto simp: bind_res_Inr_iff split: pyval.splits option.splits if_splits)

lemma page_result_Inr:
  assumes "page_result db zone limit evs seen payload = Inr r" and "int (length evs) < limit"
  shows "case r of PageDone (evs', whole) \<Rightarrow> int (length evs') \<le> limit
    | PageNext evs' tok \<Rightarrow> tok = text_or (get_or_None payload ''nextPageToken'') [] \<and> tok \<noteq> []
        \<and> tok \<notin> set seen \<and> int (length evs') < limit"
proof -
  from assms(1) obtain evs' where evs': "(case get_or_None payload ''items'' of
      VList vs \<Rightarrow> add_items db zone limit vs evs | _ \<Rightarrow> Inr evs) = Inr evs'"
    and r: "(let next_token = text_or (get_or_None payload ''nextPageToken'') [] in
     if next_token = [] then Inr (PageDone (evs', True))
     else if next_token \<in> set seen then Inl CalendarUnavailableError
     else if limit \<le> int (length evs') then Inr (PageDone (evs', False))
     else Inr (PageNext evs' next_token)) = Inr r"
    unfolding page_result_def bind_res_Inr_iff by blast
  have "int (length evs') \<le> limit"
    using evs' assms(2) by (auto split: pyval.splits dest: add_items_bound)
  with r show ?thesis by (auto simp: Let_def split: if_splits)
qed

definition sent :: "'w net \<Rightarrow> fields \<Rightarrow> bool" where
  "sent net d \<longleftrightarrow> (\<exists>w q t w' status. nt_send net w q t = (w', Inr (status, VDict d)))"

lemma send_request_sent:
  assumes "send_request net deadline q s = (s', Inr (status, VDict d))"
  shows "sent net d"
proof -
  from assms obtain s1 t where "(case nt_send net (gs_world s1) q t of (w, r) \<Rightarrow>
        (s1\<lparr>gs_world := w\<rparr>, case r of Inr x \<Rightarrow> Inr x
          | Inl e \<Rightarrow> Inl (if is_timeout e then CalendarDeadlineExceeded else e))) = (s', Inr (status, VDict d))"
    unfolding send_request_def then_db_Inr by blast
  then have "\<exists>w'. nt_send net (gs_world s1) q t = (w', Inr (status, VDict d))"
    by (simp split: prod.splits sum.splits)
  then show ?thesis unfolding sent_def by blast
qed

lemma get_page_sent: "get_page net deadline q s = (s', Inr (status, VDict d)) \<Longrightarrow> sent net d"
  by (auto simp: get_page_def then_db_Inr dest: send_request_sent)

lemma page_payload_Inr: "page_payload status p = Inr d \<longleftrightarrow> p = VDict d \<and> status = 200"
  by (auto simp: page_payload_def split: pyval.splits if_splits)

lemma get_events_sent:
  "get_events db net cfg calendar a z limit page tok deadline s = (s', Inr d) \<Longrightarrow> sent net d"
  unfolding get_events_def then_db_Inr
  by (auto simp: then_db_Inr pure_db_def page_payload_Inr split: if_splits dest!: get_page_sent)

lemma read_page_Inr:
  assumes "read_page db net cfg calendar a z limit deadline evs page seen s = (s', Inr r)"
    and "int (length evs) < limit"
  shows "case r of PageDone (evs', whole) \<Rightarrow> int (length evs') \<le> limit
    | PageNext evs' tok \<Rightarrow> (\<exists>d. sent net d \<and> tok = text_or (get_or_None d ''nextPageToken'') []) \<and> tok \<noteq> []
        \<and> tok \<notin> set seen \<and> int (length evs') < limit"
proof (cases "then_db (access_token net cfg False deadline s) (\<lambda>s tok.
        get_events db net cfg calendar a z (limit - int (length evs)) page tok deadline s)")
  case (Pair s1 x)
  show ?thesis
  proof (cases x)
    case (Inl e)
    with Pair assms show ?thesis by (auto simp: read_page_def split: if_splits)
  next
    case (Inr d)
    with Pair have "sent net d" by (auto simp: then_db_Inr dest: get_events_sent)
    moreover from Pair Inr assms(1) have "page_result db (gc_zone cfg) limit evs seen d = Inr r"
      by (simp add: read_page_def)
    ultimately show ?thesis using page_result_Inr[OF _ assms(2), of db "gc_zone cfg" seen d r]
      by (auto split: page_end.splits)
  qed
qed

text \<open>What bounds the loop: each pass but the last takes a new token out of the finite set of tokens in use.\<close>

lemma page_loop_returns:
  assumes T: "finite T" "\<And>d. sent net d \<Longrightarrow> text_or (get_or_None d ''nextPageToken'') [] \<in> insert [] T"
  shows "card (T - set seen) < n \<Longrightarrow> int (length evs) < limit \<Longrightarrow>
    \<exists>s' r. page_loop n db net cfg calendar a z limit deadline evs page seen s = Some (s', r)
      \<and> (case r of Inl e \<Rightarrow> True | Inr (evs', whole) \<Rightarrow> int (length evs') \<le> limit)"
proof (induction n arbitrary: evs page seen s)
  case (Suc n)
  obtain s1 x where rd: "read_page db net cfg calendar a z limit deadline evs page seen s = (s1, x)" by fastforce
  consider e where "x = Inl e" | b where "x = Inr (PageDone b)" | evs' tok where "x = Inr (PageNext evs' tok)"
    by (metis page_end.exhaust sum.exhaust)
  then show ?case
  proof cases
    case 3
    from read_page_Inr[OF rd[unfolded 3] Suc.prems(2)] T(2) have tok: "tok \<in> T - set seen" and len: "int (length evs') < limit"
      by auto
    then have "card (T - set (tok # seen)) < card (T - set seen)"
      using T(1) by (intro psubset_card_mono) auto
    with Suc.prems(1) have "card (T - set (tok # seen)) < n" by linarith
    from Suc.IH[OF this len] rd 3 Suc.prems(2) show ?thesis by simp
  qed (use rd Suc.prems(2) read_page_Inr[of db net cfg calendar a z limit deadline evs page seen s s1] in \<open>auto split: prod.splits\<close>)
qed simp

text \<open>C33: a listing of the Google provider returns: when the page tokens of the server come from a finite set of
  \<open>card T\<close> tokens, at most \<open>card T + 1\<close> pages are read, whatever the clock says and however many
  pages are empty, and the answer never holds more events than the limit asked for.\<close>

theorem pages_terminate:
  assumes "finite T"
    and "\<forall>w q t w' status d. nt_send net w q t = (w', Inr (status, VDict d)) \<longrightarrow>
           text_or (get_or_None d ''nextPageToken'') [] \<in> insert [] T"
    and "card T < fuel"
  shows "\<exists>s' r. google_list_events fuel db net cfg s calendar a z limit = Some (s', r)
    \<and> (case r of Inl e \<Rightarrow> True | Inr (evs, whole) \<Rightarrow> int (length evs) \<le> max limit 0)"
proof -
  obtain s1 now where m: "monotonic net s = (s1, now)" by fastforce
  have t: "text_or (get_or_None d ''nextPageToken'') [] \<in> insert [] T" if "sent net d" for d
    using that assms(2) unfolding sent_def by blast
  show ?thesis
  proof (cases "0 < limit")
    case True
    from page_loop_returns[OF assms(1) t, of net "[]" fuel "[]" limit db cfg calendar a z "fadd now (gc_budget cfg)" None s1] assms(3) True
    have "\<exists>s' r. google_list_events fuel db net cfg s calendar a z limit = Some (s', r)
        \<and> (case r of Inl e \<Rightarrow> True | Inr (evs', whole) \<Rightarrow> int (length evs') \<le> limit)"
      by (simp add: google_list_events_def m)
    moreover have "max limit 0 = limit" using True by simp
    ultimately show ?thesis by metis
  next
    case False
    with assms(3) show ?thesis by (cases fuel) (auto simp: google_list_events_def m)
  qed
qed


section \<open>A household with one calendar\<close>

definition utc_only :: tzdb where
  "utc_only n = (if n = ''UTC'' then Inr (\<lambda>w. 0) else Inl ZoneInfoNotFoundError)"

definition dinner :: provider_event where
  "dinner = \<lparr>pe_id = ''e1'', pe_title = ''Dinner'', pe_start = \<lparr>mt_wall = 738895 * day_us, mt_tz = Some (Named ''UTC'')\<rparr>,
     pe_end = \<lparr>mt_wall = 738895 * day_us + 3600000000, mt_tz = Some (Named ''UTC'')\<rparr>, pe_timezone = ''UTC'',
     pe_all_day = False, pe_status = ''confirmed'', pe_location = None, pe_busy = False\<rparr>"

definition one_calendar :: calendar_service where
  "one_calendar = \<lparr>cs_bindings = [\<lparr>cb_id = ''family'', cb_person = ''ana'', cb_provider = ''p1'', cb_readers = [''ben'']\<rparr>],
     cs_zone = ''UTC''\<rparr>"

definition dinner_provider :: "unit provider" where
  "dinner_provider w c a z n = (w, Inr ([dinner], True))"

text \<open>The server answers every request for events with an empty page and the token of the same next page.\<close>

definition looping_net :: "unit net" where
  "looping_net = \<lparr>nt_now = (\<lambda>w. (w, Fin 0)), nt_send = (\<lambda>w q t. (w, Inr (200, VDict (case q of
     TokenRequest ps \<Rightarrow> [(''access_token'', VStr ''t'')] | EventsRequest c ps tok \<Rightarrow> [(''nextPageToken'', VStr ''p'')]))))\<rparr>"

definition home_google :: google_config where
  "home_google = \<lparr>gc_client_id = ''id'', gc_client_secret = ''s'', gc_refresh_token = ''r'', gc_zone = ''UTC'', gc_budget = Fin 8\<rparr>"

theorem pages_terminate_witness:
  "\<exists>s r. google_list_events 2 utc_only looping_net home_google \<lparr>gs_world = (), gs_token = None, gs_expires = Fin 0\<rparr>
     ''p1'' \<lparr>mt_wall = 738900 * day_us, mt_tz = Some (Named ''UTC'')\<rparr>
     \<lparr>mt_wall = 738901 * day_us, mt_tz = Some (Named ''UTC'')\<rparr> 25 = Some (s, r)"
proof -
  have "\<forall>w q t w' status d. nt_send looping_net w q t = (w', Inr (status, VDict d)) \<longrightarrow>
           text_or (get_or_None d ''nextPageToken'') [] \<in> insert [] {''p''}"
    by (auto simp: looping_net_def get_or_None_def text_or_def split: http_request.splits)
  from pages_terminate[OF _ this, of 2] show ?thesis by simp blast
qed

theorem listing_authorized_witness:
  "\<exists>li. list_calendar_events utc_only dinner_provider one_calendar () ''2024-01-10'' ''2024-01-10'' None None None
     (Some ''ben'') = ((), Inr li) \<and> map ce_id (li_events li) = [''family:e1''] \<and> set (li_calendars li) \<subseteq> {''family''}"
proof -
  have "case list_calendar_events utc_only dinner_provider one_calendar () ''2024-01-10'' ''2024-01-10'' None None None
     (Some ''ben'') of (w, Inr li) \<Rightarrow> map ce_id (li_events li) = [''family:e1''] | _ \<Rightarrow> False"
    by code_simp
  then obtain li where li: "list_calendar_events utc_only dinner_provider one_calendar () ''2024-01-10'' ''2024-01-10'' None
     None None (Some ''ben'') = ((), Inr li)" "map ce_id (li_events li) = [''family:e1'']"
    by (auto split: prod.splits sum.splits)
  from listing_authorized[OF li(1)] li show ?thesis by (auto simp: one_calendar_def)
qed

theorem availability_sound_witness:
  "\<exists>av (loads :: loaded list). check_availability utc_only dinner_provider one_calendar () ''2024-01-11'' ''2024-01-11'' None None
     (Some ''ben'') = ((), Inr av) \<and> map (cb_id \<circ> ld_binding) loads = [''family''] \<and> (\<forall>x \<in> set loads. \<not> ld_failed x)"
proof -
  have "case check_availability utc_only dinner_provider one_calendar () ''2024-01-11'' ''2024-01-11'' None None
     (Some ''ben'') of (w, Inr av) \<Rightarrow> av_available av | _ \<Rightarrow> False"
    by code_simp
  then obtain av where av: "check_availability utc_only dinner_provider one_calendar () ''2024-01-11'' ''2024-01-11'' None None
     (Some ''ben'') = ((), Inr av)" "av_available av"
    by (auto split: prod.splits sum.splits)
  from availability_sound[OF av] obtain bs and loads :: "loaded list"
    where "authorized_calendars one_calendar (Some ''ben'') None None = Inr bs"
      "map ld_binding loads = bs" "\<forall>x \<in> set loads. \<not> ld_failed x \<and> \<not> ld_truncated x
        \<and> (\<forall>e \<in> set (ld_events x). pe_busy e \<longrightarrow> pe_status e = ''cancelled'')" by blast
  moreover have "authorized_calendars one_calendar (Some ''ben'') None None = Inr (cs_bindings one_calendar)"
    by (simp add: authorized_calendars_def one_calendar_def readable_by_def)
  ultimately show ?thesis using av(1) by (intro exI[of _ av] exI[of _ loads])
    (auto simp: one_calendar_def simp flip: list.map_comp)
qed

end
