(* ===== verification/Calculation.thy ===== *)
theory Calculation
  imports PyArith
begin

text \<open>
  \<open>capabilities/calculation.py\<close>: arithmetic for the model behind an allow-list. The expression is parsed by
  Python, its tree is checked, and \<open>simpleeval\<close> evaluates it over tables of wrapped operators and functions that
  keep every intermediate value within limits. Python's parser and \<open>simpleeval\<close> are arguments, and so are the
  functions of the C library with \<open>round\<close> (record \<open>libm\<close>), which see no sign of zero.
\<close>

definition max_expression_length :: nat where "max_expression_length = 256"
definition max_ast_nodes :: nat where "max_ast_nodes = 80"
definition max_abs_int :: int where "max_abs_int = 10 ^ 18"
definition max_abs_float :: rat where "max_abs_float = 10 ^ 15"
definition max_power_abs_exponent :: rat where "max_power_abs_exponent = 12"
definition max_factorial_argument :: int where "max_factorial_argument = 20"

section \<open>Limits\<close>

definition finite_number :: "pyval \<Rightarrow> pyval res" where
  "finite_number v = (case v of
     VInt i \<Rightarrow> if \<bar>i\<bar> > max_abs_int then Inl CalculationError else Inr v
   | VFloat (Fin q) \<Rightarrow> if \<bar>q\<bar> > max_abs_float then Inl CalculationError else Inr v
   | _ \<Rightarrow> Inl CalculationError)"

record libm =
  lm_pow :: "pyfloat \<Rightarrow> pyfloat \<Rightarrow> pyval res"
  lm_call :: "string \<Rightarrow> pyval list \<Rightarrow> pyval res"

text \<open>\<open>operator.pow\<close>: exact for integers with an exponent that is not negative, a power of floats otherwise.\<close>

definition py_pow :: "libm \<Rightarrow> pyval \<Rightarrow> pyval \<Rightarrow> pyval res" where
  "py_pow lm a b = (case (as_int a, as_int b) of
     (VInt i, VInt j) \<Rightarrow> if 0 \<le> j then Inr (VInt (i ^ nat j))
        else if i = 0 then Inl ZeroDivisionError
        else bind_res (to_float a) (\<lambda>x. bind_res (to_float b) (\<lambda>y. lm_pow lm x y))
   | _ \<Rightarrow> bind_res (to_float a) (\<lambda>x. bind_res (to_float b) (\<lambda>y. lm_pow lm x y)))"

text \<open>\<open>abs(exponent) > 12\<close>, on a number.\<close>

definition abs_above :: "rat \<Rightarrow> pyval \<Rightarrow> bool res" where
  "abs_above bound v = (case num_of v of None \<Rightarrow> Inl TypeError
     | Some f \<Rightarrow> Inr (case f of Fin q \<Rightarrow> bound < \<bar>q\<bar> | NaN \<Rightarrow> False | _ \<Rightarrow> True))"

definition checked_pow :: "libm \<Rightarrow> pyval \<Rightarrow> pyval \<Rightarrow> pyval res" where
  "checked_pow lm a b = bind_res (abs_above max_power_abs_exponent b) (\<lambda>above.
     if above then Inl CalculationError
     else case py_pow lm a b of Inl OverflowError \<Rightarrow> Inl CalculationError | r \<Rightarrow> r)"

definition checked_factorial :: "pyval \<Rightarrow> pyval res" where
  "checked_factorial v = (case v of
     VInt i \<Rightarrow> if i < 0 \<or> max_factorial_argument < i then Inl CalculationError else Inr (VInt (fact (nat i)))
   | _ \<Rightarrow> Inl CalculationError)"

section \<open>Operators\<close>

definition limited :: "pyval res \<Rightarrow> pyval res" where
  "limited r = (case r of Inr v \<Rightarrow> finite_number v
     | Inl e \<Rightarrow> Inl (if e = ZeroDivisionError \<or> e = OverflowError then CalculationError else e))"

text \<open>\<open>float.__floordiv__\<close> and \<open>float.__mod__\<close> by a divisor other than zero: the exact remainder of C, moved to the
  sign of the divisor.\<close>

definition c_fmod :: "pyfloat \<Rightarrow> pyfloat \<Rightarrow> pyfloat" where
  "c_fmod a b = (case (a, b) of
     (Fin x, Fin y) \<Rightarrow> Fin (let q = x / y in x - y * of_int (if 0 \<le> q then floor q else ceiling q))
   | (Fin x, NaN) \<Rightarrow> NaN | (Fin x, _) \<Rightarrow> a | _ \<Rightarrow> NaN)"

definition float_divmod :: "pyfloat \<Rightarrow> pyfloat \<Rightarrow> pyfloat \<times> pyfloat" where
  "float_divmod a b =
     (let m = c_fmod a b; d = (case b of Fin y \<Rightarrow> fdiv (fsub a m) y
            | NaN \<Rightarrow> NaN | _ \<Rightarrow> (case fsub a m of Fin z \<Rightarrow> Fin 0 | _ \<Rightarrow> NaN));
          (m, d) = (if m \<noteq> Fin 0 \<and> m \<noteq> NaN \<and> fnegative b \<noteq> fnegative m then (fadd m b, fsub d (Fin 1)) else (m, d));
          f = (case d of Fin q \<Rightarrow> let r = Fin (of_int (floor q)) in if q - of_int (floor q) > 1 / 2 then fadd r (Fin 1) else r
                 | _ \<Rightarrow> d)
      in (f, m))"

definition div_op :: "(int \<Rightarrow> int \<Rightarrow> int) \<Rightarrow> (pyfloat \<times> pyfloat \<Rightarrow> pyfloat) \<Rightarrow> pyval \<Rightarrow> pyval \<Rightarrow> pyval res" where
  "div_op fi part a b = (case (as_int a, as_int b) of
     (VInt i, VInt j) \<Rightarrow> if j = 0 then Inl ZeroDivisionError else Inr (VInt (fi i j))
   | _ \<Rightarrow> bind_res (to_float a) (\<lambda>x. bind_res (to_float b) (\<lambda>y.
       if y = Fin 0 then Inl ZeroDivisionError else Inr (VFloat (part (float_divmod x y))))))"

definition py_neg :: "pyval \<Rightarrow> pyval res" where
  "py_neg v = (case as_int v of VInt i \<Rightarrow> Inr (VInt (- i)) | VFloat f \<Rightarrow> Inr (VFloat (fneg f)) | _ \<Rightarrow> Inl TypeError)"

definition py_pos :: "pyval \<Rightarrow> pyval res" where
  "py_pos v = (case as_int v of VInt i \<Rightarrow> Inr (VInt i) | VFloat f \<Rightarrow> Inr (VFloat f) | _ \<Rightarrow> Inl TypeError)"

definition binary_operator :: "libm \<Rightarrow> string \<Rightarrow> (pyval \<Rightarrow> pyval \<Rightarrow> pyval res) option" where
  "binary_operator lm = map_of [(''Add'', py_add), (''Sub'', py_sub), (''Mult'', py_mul), (''Div'', py_div),
     (''FloorDiv'', div_op (div) fst), (''Mod'', div_op (mod) snd), (''Pow'', checked_pow lm)]"

definition unary_operator :: "string \<Rightarrow> (pyval \<Rightarrow> pyval res) option" where
  "unary_operator = map_of [(''UAdd'', py_pos), (''USub'', py_neg)]"

definition operator_names :: "string list" where
  "operator_names = [''Add'', ''Sub'', ''Mult'', ''Div'', ''FloorDiv'', ''Mod'', ''Pow'', ''UAdd'', ''USub'']"

section \<open>Functions\<close>

definition math_names :: "string list" where
  "math_names = [''acos'', ''asin'', ''atan'', ''atan2'', ''ceil'', ''cos'', ''cosh'', ''degrees'', ''exp'', ''fabs'', ''floor'',
     ''hypot'', ''log'', ''log10'', ''log2'', ''radians'', ''sin'', ''sinh'', ''sqrt'', ''tan'', ''tanh'', ''trunc'']"

definition py_abs :: "pyval \<Rightarrow> pyval res" where
  "py_abs v = (case as_int v of VInt i \<Rightarrow> Inr (VInt \<bar>i\<bar>)
     | VFloat f \<Rightarrow> Inr (VFloat (if fnegative f then fneg f else f)) | _ \<Rightarrow> Inl TypeError)"

text \<open>\<open>max(*args)\<close> on numbers: fewer than two arguments raise.\<close>

definition py_extreme :: "bool \<Rightarrow> pyval list \<Rightarrow> pyval res" where
  "py_extreme minimum args = (case args of x # y # r \<Rightarrow> extreme minimum (\<lambda>v. v) x (y # r) | _ \<Rightarrow> Inl TypeError)"

definition plain_function :: "libm \<Rightarrow> string \<Rightarrow> (pyval list \<Rightarrow> pyval res) option" where
  "plain_function lm name =
     (if name \<in> set (''round'' # math_names) then Some (lm_call lm name)
      else map_of [(''abs'', \<lambda>args. case args of [v] \<Rightarrow> py_abs v | _ \<Rightarrow> Inl TypeError),
        (''factorial'', \<lambda>args. case args of [v] \<Rightarrow> checked_factorial v | _ \<Rightarrow> Inl TypeError),
        (''max'', py_extreme False), (''min'', py_extreme True),
        (''pow'', \<lambda>args. case args of [a, b] \<Rightarrow> checked_pow lm a b | _ \<Rightarrow> Inl TypeError),
        (''sum'', py_sum)] name)"

definition called :: "pyval res \<Rightarrow> pyval res" where
  "called r = (case r of Inr v \<Rightarrow> finite_number v
     | Inl e \<Rightarrow> Inl (if e = CalculationError then CalculationError else if e = TypeError then ValueError
         else if is_value_error e \<or> e = OverflowError \<or> e = ZeroDivisionError then CalculationError else e))"

definition call_function :: "libm \<Rightarrow> string \<Rightarrow> pyval list \<Rightarrow> (string \<times> pyval) list \<Rightarrow> pyval res option" where
  "call_function lm name args kwargs = map_option (\<lambda>f. if kwargs \<noteq> [] then Inl ValueError else called (f args))
     (plain_function lm name)"

text \<open>The floats nearest to the three constants.\<close>

definition calculator_names :: "string \<Rightarrow> pyval option" where
  "calculator_names = map_of [(''pi'', VFloat (Fin (884279719003555 / 281474976710656))),
     (''e'', VFloat (Fin (6121026514868073 / 2251799813685248))),
     (''tau'', VFloat (Fin (884279719003555 / 140737488355328)))]"

section \<open>The tree\<close>

text \<open>A constant that is no number is any value of the model that is none; \<open>Other\<close> is any node of another class with
  its children.\<close>

datatype expr =
    Constant pyval
  | NameOf string
  | BinOp string expr expr
  | UnaryOp string expr
  | Call expr "expr list" "(string \<times> expr) list"
  | Other string "expr list"

text \<open>What \<open>ast.walk\<close> visits: operators, contexts and keywords are nodes too.\<close>

fun node_count :: "expr \<Rightarrow> nat" where
  "node_count (Constant v) = 1"
| "node_count (NameOf s) = 2"
| "node_count (BinOp p a b) = 2 + node_count a + node_count b"
| "node_count (UnaryOp p a) = 2 + node_count a"
| "node_count (Call f args kws) = 1 + node_count f + sum_list (map node_count args)
     + sum_list (map (\<lambda>(k, e). 1 + node_count e) kws)"
| "node_count (Other k es) = 1 + sum_list (map node_count es)"

fun allowed_expr :: "expr \<Rightarrow> bool" where
  "allowed_expr (Constant v) = (case v of VInt i \<Rightarrow> True | VFloat f \<Rightarrow> True | _ \<Rightarrow> False)"
| "allowed_expr (NameOf s) = True"
| "allowed_expr (BinOp p a b) = (p \<in> set operator_names \<and> allowed_expr a \<and> allowed_expr b)"
| "allowed_expr (UnaryOp p a) = (p \<in> set operator_names \<and> allowed_expr a)"
| "allowed_expr (Call f args kws) = (allowed_expr f \<and> list_all allowed_expr args \<and> kws = [])"
| "allowed_expr (Other k es) = False"

definition reject_disallowed :: "expr \<Rightarrow> unit res" where
  "reject_disallowed t = (if 1 + node_count t > max_ast_nodes \<or> \<not> allowed_expr t then Inl ValueError else Inr ())"

section \<open>Evaluation\<close>

text \<open>What the evaluator is given, and how it fails.\<close>

record calculator_tables =
  ct_binary :: "string \<Rightarrow> (pyval \<Rightarrow> pyval \<Rightarrow> pyval res) option"
  ct_unary :: "string \<Rightarrow> (pyval \<Rightarrow> pyval res) option"
  ct_function :: "string \<Rightarrow> pyval list \<Rightarrow> (string \<times> pyval) list \<Rightarrow> pyval res option"
  ct_constant :: "pyval \<Rightarrow> pyval res"
  ct_name :: "string \<Rightarrow> pyval res"

datatype eval_error = FunctionNotDefined string | InvalidExpression | Raised exn

definition arithmetic_tables :: "libm \<Rightarrow> calculator_tables" where
  "arithmetic_tables lm = \<lparr>ct_binary = (\<lambda>p. map_option (\<lambda>f a b. limited (f a b)) (binary_operator lm p)),
     ct_unary = (\<lambda>p. map_option (\<lambda>f a. limited (f a)) (unary_operator p)),
     ct_function = call_function lm, ct_constant = finite_number,
     ct_name = (\<lambda>n. case calculator_names n of Some v \<Rightarrow> Inr v | None \<Rightarrow> Inl ValueError)\<rparr>"

definition evaluate_expression ::
  "libm \<Rightarrow> (string \<Rightarrow> expr option) \<Rightarrow> (calculator_tables \<Rightarrow> expr \<Rightarrow> eval_error + pyval) \<Rightarrow> string \<Rightarrow> pyval res" where
  "evaluate_expression lm parse seval expression =
     (let source = strip expression in
      if source = [] \<or> max_expression_length < length source then Inl ValueError
      else case parse source of None \<Rightarrow> Inl ValueError
      | Some t \<Rightarrow> bind_res (reject_disallowed t) (\<lambda>_.
          case seval (arithmetic_tables lm) t of
            Inl (Raised e) \<Rightarrow> Inl e | Inl _ \<Rightarrow> Inl ValueError
          | Inr v \<Rightarrow> finite_number v))"

end
