(* ===== verification/Dispatcher.thy ===== *)
theory Dispatcher
  imports Calculation RecordIds Calendar
begin

text \<open>
  \<open>capabilities/dispatcher.py\<close> with the argument models of \<open>capabilities/catalog.py\<close>: the allow-list of tools that a
  model may call, the validation of their arguments and the call of the handler with every exception turned
  into an answer. The argument models are strict pydantic models that strip strings and forbid extra fields;
  the validator is written out here. Retrieval and the writing service, the report of a failed validation and
  the texts of exceptions are arguments; the calendar and the calculator are those of the model.
\<close>

section \<open>Argument models\<close>

text \<open>The white space that the validator strips, and its bounded, matched strings.\<close>

definition trim_space :: "char \<Rightarrow> bool" where
  "trim_space c \<longleftrightarrow> (9 \<le> code_pt c \<and> code_pt c \<le> 13) \<or> code_pt c \<in> {32, 133, 160}"

definition trim :: "string \<Rightarrow> string" where
  "trim s = rev (dropWhile trim_space (rev (dropWhile trim_space s)))"

datatype arg_kind = Text nat "nat option" "string \<Rightarrow> bool" | Count int int | Flag | Choice "string list"

definition person_id :: "string \<Rightarrow> bool" where
  "person_id s \<longleftrightarrow> take 7 s = ''person:'' \<and> drop 7 s \<noteq> [] \<and> list_all key_char (drop 7 s)"

definition calendar_id :: "string \<Rightarrow> bool" where
  "calendar_id s \<longleftrightarrow> s \<noteq> [] \<and> is_alpha (hd s) \<and> list_all key_char (tl s)"

text \<open>A field: its name, kind and, where it is optional, its default; only a default \<open>None\<close> admits \<open>None\<close>.\<close>

type_synonym arg_field = "string \<times> arg_kind \<times> pyval option"

definition valid_arg :: "arg_kind \<Rightarrow> pyval \<Rightarrow> pyval option" where
  "valid_arg k v = (case k of
     Text lo hi ok \<Rightarrow> (case v of VStr s \<Rightarrow>
         if lo \<le> length (trim s) \<and> (case hi of None \<Rightarrow> True | Some n \<Rightarrow> length (trim s) \<le> n) \<and> ok (trim s)
         then Some (VStr (trim s)) else None | _ \<Rightarrow> None)
   | Count lo hi \<Rightarrow> (case v of VInt i \<Rightarrow> if lo \<le> i \<and> i \<le> hi then Some v else None | _ \<Rightarrow> None)
   | Flag \<Rightarrow> (case v of VBool b \<Rightarrow> Some v | _ \<Rightarrow> None)
   | Choice xs \<Rightarrow> (case v of VStr s \<Rightarrow> if s \<in> set xs then Some v else None | _ \<Rightarrow> None))"

fun valid_fields :: "arg_field list \<Rightarrow> fields \<Rightarrow> fields option" where
  "valid_fields [] args = Some []"
| "valid_fields ((n, k, d) # fs) args =
     (case (case map_of args n of
          None \<Rightarrow> d
        | Some v \<Rightarrow> if v = VNone \<and> d = Some VNone then Some VNone else valid_arg k v) of
        None \<Rightarrow> None
      | Some v \<Rightarrow> map_option (\<lambda>r. (n, v) # r) (valid_fields fs args))"

definition validate_model :: "arg_field list \<Rightarrow> fields \<Rightarrow> fields option" where
  "validate_model fs args = (if set (map fst args) \<subseteq> set (map fst fs) then valid_fields fs args else None)"

definition any_text :: "string \<Rightarrow> bool" where "any_text s = True"

definition record_id_text :: "string \<Rightarrow> bool" where
  "record_id_text s \<longleftrightarrow> match_record_id s \<noteq> None"

definition optional :: "pyval option" where "optional = Some VNone"

definition resolve_alias_arguments :: "arg_field list" where
  "resolve_alias_arguments = [(''text'', Text 1 (Some 256) any_text, None), (''entity_type'', Text 0 None table_name, optional),
     (''limit'', Count 1 100, optional), (''speaker_id'', Text 0 None record_id_text, optional),
     (''household_id'', Text 0 None record_id_text, optional)]"

definition get_entity_arguments :: "arg_field list" where
  "get_entity_arguments = [(''entity_id'', Text 0 None record_id_text, None)]"

definition get_relationships_arguments :: "arg_field list" where
  "get_relationships_arguments = [(''entity_id'', Text 0 None record_id_text, None), (''relation'', Text 0 None table_name, optional),
     (''direction'', Choice [''out'', ''in'', ''both''], optional), (''include_ended'', Flag, Some (VBool False)),
     (''limit'', Count 1 100, optional)]"

definition calculate_arguments :: "arg_field list" where
  "calculate_arguments = [(''expression'', Text 1 (Some 256) any_text, None)]"

definition list_events_arguments :: "arg_field list" where
  "list_events_arguments = [(''start'', Text 1 None any_text, None), (''end'', Text 1 None any_text, None),
     (''calendar'', Text 0 None calendar_id, optional), (''person'', Text 0 None person_id, optional),
     (''limit'', Count 1 100, optional)]"

definition check_availability_arguments :: "arg_field list" where
  "check_availability_arguments = [(''start'', Text 1 None any_text, None), (''end'', Text 1 None any_text, None),
     (''calendar'', Text 0 None calendar_id, optional), (''person'', Text 0 None person_id, optional)]"

section \<open>Services\<close>

text \<open>The writing service holds the dispatcher: it resolves the names of a request through internal calls of the graph
  operations, which it gets as an argument.\<close>

type_synonym 's graph_tools = "string \<Rightarrow> pyval \<Rightarrow> 's \<Rightarrow> 's \<times> fields"

record ('c, 's) services =
  sv_alias :: "fields \<Rightarrow> 's \<Rightarrow> 's \<times> pyval list res"
  sv_entity :: "string \<Rightarrow> 's \<Rightarrow> 's \<times> fields option res"
  sv_relationships :: "fields \<Rightarrow> 's \<Rightarrow> 's \<times> pyval list res"
  sv_write_model :: "fields \<Rightarrow> fields option"
  sv_write :: "'s graph_tools \<Rightarrow> fields \<Rightarrow> 'c option \<Rightarrow> string option \<Rightarrow> 's \<Rightarrow> 's \<times> pyval res"
  sv_calendar :: "calendar_service option"
  sv_provider :: "'s provider"
  sv_zones :: tzdb
  sv_calculate :: "string \<Rightarrow> pyval res"
  sv_caller :: "'c \<Rightarrow> string option"
  sv_report :: "string \<Rightarrow> fields \<Rightarrow> pyval"
  sv_say :: "exn \<Rightarrow> string"

definition opt_text :: "string option \<Rightarrow> pyval" where
  "opt_text x = (case x of None \<Rightarrow> VNone | Some s \<Rightarrow> VStr s)"

definition arg_text :: "fields \<Rightarrow> string \<Rightarrow> string" where
  "arg_text args n = (case get_or_None args n of VStr s \<Rightarrow> s | _ \<Rightarrow> [])"

definition arg_option :: "fields \<Rightarrow> string \<Rightarrow> string option" where
  "arg_option args n = (case get_or_None args n of VStr s \<Rightarrow> Some s | _ \<Rightarrow> None)"

definition arg_limit :: "fields \<Rightarrow> int option" where
  "arg_limit args = (case get_or_None args ''limit'' of VInt i \<Rightarrow> Some i | _ \<Rightarrow> None)"

section \<open>Answers of the calendar\<close>

definition strings :: "string list \<Rightarrow> pyval" where
  "strings xs = VList (map VStr xs)"

definition event_mapping :: "calendar_event \<Rightarrow> fields" where
  "event_mapping e = [(''id'', VStr (ce_id e)), (''calendar_id'', VStr (ce_calendar e)), (''person_id'', VStr (ce_person e)),
     (''title'', VStr (ce_title e)), (''start'', VStr (ce_start e)), (''end'', VStr (ce_end e)),
     (''timezone'', VStr (ce_timezone e)), (''all_day'', VBool (ce_all_day e)), (''status'', VStr (ce_status e)),
     (''location'', opt_text (ce_location e)), (''busy'', VBool (ce_busy e))]"

definition listing_mapping :: "listing \<Rightarrow> fields" where
  "listing_mapping li = [(''start'', VStr (li_start li)), (''end'', VStr (li_end li)), (''timezone'', VStr (li_timezone li)),
     (''calendars'', strings (li_calendars li)), (''events'', VList (map (VDict \<circ> event_mapping) (li_events li))),
     (''complete'', VBool (li_complete li)), (''unavailable_calendars'', strings (li_unavailable li)),
     (''truncated_calendars'', strings (li_truncated li))]"

definition conflict_mapping :: "calendar_event \<Rightarrow> fields" where
  "conflict_mapping e = take 8 (event_mapping e)"

definition availability_mapping :: "calendar_availability \<Rightarrow> fields" where
  "availability_mapping av = (let li = av_listing av in
     [(''start'', VStr (li_start li)), (''end'', VStr (li_end li)), (''timezone'', VStr (li_timezone li)),
      (''calendars'', strings (li_calendars li)), (''checked'', VBool (av_checked av)), (''available'', VBool (av_available av)),
      (''conflicts'', VList (map (VDict \<circ> conflict_mapping) (av_conflicts av))),
      (''unavailable_calendars'', strings (li_unavailable li)), (''truncated_calendars'', strings (li_truncated li))])"

section \<open>Handlers\<close>

definition run_list_events :: "('c, 's) services \<Rightarrow> fields \<Rightarrow> string option \<Rightarrow> 's \<Rightarrow> 's \<times> pyval res" where
  "run_list_events sv args caller s = (case sv_calendar sv of None \<Rightarrow> (s, Inl CalendarUnavailableError)
     | Some c \<Rightarrow> then_db (list_calendar_events (sv_zones sv) (sv_provider sv) c s (arg_text args ''start'') (arg_text args ''end'')
         (arg_option args ''calendar'') (arg_option args ''person'') (arg_limit args) caller)
         (\<lambda>s li. (s, Inr (VDict (listing_mapping li)))))"

definition run_check_availability :: "('c, 's) services \<Rightarrow> fields \<Rightarrow> string option \<Rightarrow> 's \<Rightarrow> 's \<times> pyval res" where
  "run_check_availability sv args caller s = (case sv_calendar sv of None \<Rightarrow> (s, Inl CalendarUnavailableError)
     | Some c \<Rightarrow> then_db (check_availability (sv_zones sv) (sv_provider sv) c s (arg_text args ''start'') (arg_text args ''end'')
         (arg_option args ''calendar'') (arg_option args ''person'') caller)
         (\<lambda>s av. (s, Inr (VDict (availability_mapping av)))))"

definition argument_model :: "('c, 's) services \<Rightarrow> string \<Rightarrow> (fields \<Rightarrow> fields option) option" where
  "argument_model sv = map_of [(''resolve_entity_alias'', validate_model resolve_alias_arguments),
     (''get_entity'', validate_model get_entity_arguments), (''get_relationships'', validate_model get_relationships_arguments),
     (''calculate'', validate_model calculate_arguments), (''calendar.list_events'', validate_model list_events_arguments),
     (''calendar.check_availability'', validate_model check_availability_arguments), (''write_item'', sv_write_model sv)]"

text \<open>The handlers of the three graph operations.\<close>

definition graph_handle :: "('c, 's) services \<Rightarrow> string \<Rightarrow> fields \<Rightarrow> 's \<Rightarrow> 's \<times> pyval res" where
  "graph_handle sv tool args s =
     (if tool = ''resolve_entity_alias'' then then_db (sv_alias sv args s) (\<lambda>s xs. (s, Inr (VList xs)))
      else if tool = ''get_entity'' then then_db (sv_entity sv (arg_text args ''entity_id'') s)
        (\<lambda>s r. (s, Inr (VList (case r of None \<Rightarrow> [] | Some d \<Rightarrow> [VDict d]))))
      else then_db (sv_relationships sv args s) (\<lambda>s xs. (s, Inr (VList xs))))"

section \<open>The dispatcher\<close>

definition tool_names :: "string list" where
  "tool_names = [''resolve_entity_alias'', ''get_entity'', ''get_relationships'', ''calculate'', ''calendar.list_events'',
     ''calendar.check_availability'', ''write_item'']"

definition graph_operations :: "string list" where
  "graph_operations = [''resolve_entity_alias'', ''get_entity'', ''get_relationships'']"

definition mutation_operations :: "string list" where
  "mutation_operations = [''write_item'']"

text \<open>The public tools of a new dispatcher.\<close>

definition new_dispatcher :: "string list option \<Rightarrow> bool \<Rightarrow> string list res" where
  "new_dispatcher allowed writing =
     (let selected = (case allowed of Some xs \<Rightarrow> xs
            | None \<Rightarrow> filter (\<lambda>n. n \<notin> set graph_operations \<union> set mutation_operations) tool_names)
      in if \<exists>n \<in> set selected. n \<notin> set tool_names - set graph_operations then Inl ValueError
         else if ''write_item'' \<in> set selected \<and> \<not> writing then Inl ValueError
         else Inr selected)"

definition tool_error :: "string \<Rightarrow> string \<Rightarrow> string \<Rightarrow> fields \<Rightarrow> fields" where
  "tool_error tool code message extra =
     [(''ok'', VBool False), (''tool'', VStr tool), (''error'', VDict ([(''code'', VStr code), (''message'', VStr message)] @ extra))]"

definition failure_code :: "exn \<Rightarrow> string" where
  "failure_code e = (if e = CalculationError then ''calculation_error''
     else if e = CalendarAuthorizationError then ''unauthorized''
     else if e = CalendarUnavailableError then ''calendar_unavailable''
     else if is_value_error e then ''invalid_arguments'' else ''tool_execution_failed'')"

definition failure_message :: "('c, 's) services \<Rightarrow> string \<Rightarrow> exn \<Rightarrow> string" where
  "failure_message sv tool e =
     (if e = CalendarUnavailableError then ''The calendar service is temporarily unavailable''
      else if e = CalculationError \<or> e = CalendarAuthorizationError \<or> is_value_error e then sv_say sv e
      else if tool \<in> set mutation_operations then ''The tool could not complete its mutation''
      else ''The tool could not complete its read operation'')"

definition sorted_names :: "string list \<Rightarrow> string list" where
  "sorted_names xs = sort_key (map code_pt) (remdups xs)"

text \<open>\<open>_dispatch\<close> around a handler: a known and permitted tool, an object of valid arguments, and every exception of the
  handler as an answer. \<open>quote\<close> is Python's \<open>repr\<close> of a string.\<close>

definition guarded_call ::
  "('c, 's) services \<Rightarrow> (string \<Rightarrow> string) \<Rightarrow> string list \<Rightarrow> bool \<Rightarrow> (fields \<Rightarrow> 's \<Rightarrow> 's \<times> pyval res) \<Rightarrow> string \<Rightarrow> pyval
     \<Rightarrow> 's \<Rightarrow> 's \<times> fields" where
  "guarded_call sv quote public permitted handler tool args s =
     (case argument_model sv tool of
        None \<Rightarrow> (s, tool_error tool ''unknown_tool'' (''Tool '' @ quote tool @ '' is not available'')
          [(''available_tools'', strings (sorted_names public))])
      | Some model \<Rightarrow>
          if \<not> permitted then
            (s, tool_error tool ''unknown_tool'' (''Tool '' @ quote tool @ '' is not available'')
              [(''available_tools'', strings (sorted_names public))])
          else case args of
            VDict d \<Rightarrow> (case model d of
                None \<Rightarrow> (s, tool_error tool ''invalid_arguments'' ''Tool arguments failed validation'' [(''details'', sv_report sv tool d)])
              | Some valid \<Rightarrow> (case handler valid s of
                  (s', Inl e) \<Rightarrow> (s', tool_error tool (failure_code e) (failure_message sv tool e) [])
                | (s', Inr v) \<Rightarrow> (s', [(''ok'', VBool True), (''tool'', VStr tool), (''result'', v)])))
          | _ \<Rightarrow> (s, tool_error tool ''invalid_arguments'' ''Tool arguments must be a JSON object'' []))"

text \<open>\<open>dispatch_internal\<close> as the writing service uses it, for the graph operations; they do not look at the caller.\<close>

definition graph_call :: "('c, 's) services \<Rightarrow> (string \<Rightarrow> string) \<Rightarrow> string list \<Rightarrow> 's graph_tools" where
  "graph_call sv quote public tool =
     guarded_call sv quote public (tool \<in> set graph_operations) (graph_handle sv tool) tool"

text \<open>The handler of a tool; the caller is the one that \<open>tool_caller_scope\<close> binds around the call.\<close>

definition handle :: "('c, 's) services \<Rightarrow> 's graph_tools \<Rightarrow> string \<Rightarrow> fields \<Rightarrow> 'c option \<Rightarrow> string option \<Rightarrow> 's
    \<Rightarrow> 's \<times> pyval res" where
  "handle sv graph tool args context caller s =
     (if tool \<in> set graph_operations then graph_handle sv tool args s
      else if tool = ''calculate'' then
        (s, bind_res (sv_calculate sv (arg_text args ''expression'')) (\<lambda>v. Inr (VDict [(''result'', v)])))
      else if tool = ''calendar.list_events'' then run_list_events sv args caller s
      else if tool = ''calendar.check_availability'' then run_check_availability sv args caller s
      else sv_write sv graph args context caller s)"

text \<open>\<open>_dispatch\<close>. The caller that the surrounding task has bound is \<open>ambient\<close>.\<close>

definition dispatch_call ::
  "('c, 's) services \<Rightarrow> (string \<Rightarrow> string) \<Rightarrow> string list \<Rightarrow> string \<Rightarrow> pyval \<Rightarrow> 'c option \<Rightarrow> string option \<Rightarrow> bool
     \<Rightarrow> string option \<Rightarrow> 's \<Rightarrow> 's \<times> fields" where
  "dispatch_call sv quote public tool args context caller internal ambient s =
     guarded_call sv quote public (tool \<in> set public \<or> internal \<and> tool \<in> set graph_operations)
       (\<lambda>valid. handle sv (graph_call sv quote public) tool valid context (case caller of None \<Rightarrow> ambient | Some c \<Rightarrow> Some c))
       tool args s"

definition dispatch ::
  "('c, 's) services \<Rightarrow> (string \<Rightarrow> string) \<Rightarrow> string list \<Rightarrow> string \<Rightarrow> pyval \<Rightarrow> 'c option \<Rightarrow> string option
     \<Rightarrow> string option \<Rightarrow> 's \<Rightarrow> 's \<times> fields" where
  "dispatch sv quote public tool args context caller ambient s =
     dispatch_call sv quote public tool args context
       (case context of Some c \<Rightarrow> sv_caller sv c | None \<Rightarrow> caller) False ambient s"

definition dispatch_internal ::
  "('c, 's) services \<Rightarrow> (string \<Rightarrow> string) \<Rightarrow> string list \<Rightarrow> string \<Rightarrow> pyval \<Rightarrow> string option
     \<Rightarrow> string option \<Rightarrow> 's \<Rightarrow> 's \<times> fields" where
  "dispatch_internal sv quote public tool args caller ambient s =
     dispatch_call sv quote public tool args None caller True ambient s"

end
