(* ===== verification/Display.thy ===== *)
theory Display
  imports RecordIds
begin

text \<open>
  \<open>common/display.py\<close>: what the user sees instead of record identifiers. A resolver keeps the records it has
  seen, by identifier; \<open>render\<close> replaces every identifier in a text, and the display stream does so for a
  text that arrives in pieces. Chinese characters lie outside the code points of the model, so the tests for
  them are range checks that fail, and the phrases and patterns written in Chinese never match. What \<open>str\<close>
  makes of a value that is neither a string, a number nor \<open>None\<close> is an argument \<open>sh\<close>.
\<close>

section \<open>Identifiers in a text\<close>

text \<open>\<open>INTERNAL_ID_PATTERN\<close>: the text before the first colon and the segments after it are maximal runs, so the
  first way to match is the only one.\<close>

function id_segments :: "string \<Rightarrow> string \<times> string" where
  "id_segments s = (case s of
     c # k # t \<Rightarrow> if c = CHR '':'' \<and> key_char k
       then (case id_segments (dropWhile key_char t) of (m, r) \<Rightarrow> (c # k # takeWhile key_char t @ m, r))
       else ([], s)
   | _ \<Rightarrow> ([], s))"
  by pat_completeness auto
termination
  by (relation "measure length") (auto simp: le_imp_less_Suc length_dropWhile_le less_SucI)

declare id_segments.simps [simp del]

definition match_id :: "string \<Rightarrow> (string \<times> string) option" where
  "match_id s = (if s \<noteq> [] \<and> table_start (hd s)
     then (case id_segments (dropWhile table_char (tl s)) of
        (m, r) \<Rightarrow> if m = [] then None else Some (hd s # takeWhile table_char (tl s) @ m, r))
     else None)"

definition full_id :: "string \<Rightarrow> bool" where
  "full_id s \<longleftrightarrow> (case match_id s of None \<Rightarrow> False | Some (m, r) \<Rightarrow> r = [])"

lemma id_segments_parts: "id_segments s = (m, r) \<Longrightarrow> s = m @ r"
proof (induction s arbitrary: m r rule: id_segments.induct)
  case (1 s)
  show ?case
  proof (cases "\<exists>c k t. s = c # k # t \<and> c = CHR '':'' \<and> key_char k")
    case True
    then obtain k t where s: "s = CHR '':'' # k # t" "key_char k" by blast
    obtain m' r' where i: "id_segments (dropWhile key_char t) = (m', r')" by fastforce
    from 1(1)[of _ "k # t" k t, OF _ _ _ i] s have "dropWhile key_char t = m' @ r'" by simp
    with 1(2) i s show ?thesis
      by (subst (asm) id_segments.simps) (auto, metis takeWhile_dropWhile_id)
  next
    case False
    with 1(2) show ?thesis by (subst (asm) id_segments.simps) (auto split: list.splits if_splits)
  qed
qed

lemma match_id_parts: "match_id s = Some (m, r) \<Longrightarrow> s = m @ r \<and> m \<noteq> []"
  by (auto simp: match_id_def split: if_splits prod.splits dest!: id_segments_parts)
    (metis append.assoc append_Cons list.collapse takeWhile_dropWhile_id)

lemma match_id_shorter: "match_id s = Some (m, r) \<Longrightarrow> length r < length s"
  using match_id_parts[of s m r] by (cases m) auto

text \<open>\<open>INTERNAL_ID_PATTERN.sub\<close>: the character before the current position decides the look-behind.\<close>

definition may_start :: "char option \<Rightarrow> bool" where
  "may_start p = (case p of None \<Rightarrow> True | Some c \<Rightarrow> \<not> table_char c)"

function sub_ids :: "(string \<Rightarrow> string) \<Rightarrow> char option \<Rightarrow> string \<Rightarrow> string" where
  "sub_ids f p s = (case s of [] \<Rightarrow> []
     | c # t \<Rightarrow> (case (if may_start p then match_id s else None) of
          Some (m, r) \<Rightarrow> f m @ sub_ids f (Some (last m)) r
        | None \<Rightarrow> c # sub_ids f (Some c) t))"
  by pat_completeness auto
termination
  by (relation "measure (\<lambda>(f, p, s). length s)") (auto dest!: match_id_shorter split: if_splits)

declare sub_ids.simps [simp del]

section \<open>Records and names\<close>

definition py_str :: "(pyval \<Rightarrow> string) \<Rightarrow> pyval \<Rightarrow> string" where
  "py_str sh v = (case v of VStr s \<Rightarrow> s | VNone \<Rightarrow> ''None'' | VInt i \<Rightarrow> show_int i
     | VBool b \<Rightarrow> (if b then ''True'' else ''False'') | _ \<Rightarrow> sh v)"

definition is_chinese :: "string \<Rightarrow> bool" where
  "is_chinese s \<longleftrightarrow> list_ex (\<lambda>c. (0x3400 \<le> code_pt c \<and> code_pt c \<le> 0x4dbf) \<or> (0x4e00 \<le> code_pt c \<and> code_pt c \<le> 0x9fff)) s"

text \<open>A string with something to show, stripped.\<close>

definition shown :: "pyval \<Rightarrow> string option" where
  "shown v = (case v of VStr s \<Rightarrow> if strip s = [] then None else Some (strip s) | _ \<Rightarrow> None)"

fun first_some :: "'a option list \<Rightarrow> 'a option" where
  "first_some [] = None"
| "first_some (x # xs) = (case x of None \<Rightarrow> first_some xs | Some v \<Rightarrow> Some v)"

definition localized_value :: "pyval \<Rightarrow> string \<Rightarrow> string option" where
  "localized_value v language = (case v of
     VDict d \<Rightarrow> first_some (map (\<lambda>(k, x). if normalize_language_code k = language then shown x else None) d)
   | VList xs \<Rightarrow> first_some (map (\<lambda>x. case x of
        VStr s \<Rightarrow> if (language = ''zh'') = is_chinese s then shown x else None | _ \<Rightarrow> None) xs)
   | _ \<Rightarrow> None)"

definition first_shown :: "pyval list \<Rightarrow> pyval" where
  "first_shown xs = (case find (\<lambda>x. shown x \<noteq> None) xs of None \<Rightarrow> VNone | Some x \<Rightarrow> x)"

definition default_value :: "pyval \<Rightarrow> pyval" where
  "default_value v = (case v of
     VStr s \<Rightarrow> v
   | VDict d \<Rightarrow> (case get_or_None d ''default'' of VStr s \<Rightarrow> VStr s | _ \<Rightarrow> first_shown (map snd d))
   | VList xs \<Rightarrow> first_shown xs
   | _ \<Rightarrow> VNone)"

definition explicit_default_value :: "pyval \<Rightarrow> pyval" where
  "explicit_default_value v = (case v of
     VStr s \<Rightarrow> v
   | VDict d \<Rightarrow> (case get_or_None d ''default'' of VStr s \<Rightarrow> VStr s | _ \<Rightarrow> VNone)
   | _ \<Rightarrow> VNone)"

definition another_value :: "pyval \<Rightarrow> pyval" where
  "another_value v = (case v of
     VDict d \<Rightarrow> first_shown (map snd (filter (\<lambda>(k, x). casefold k \<noteq> ''default'') d))
   | VList xs \<Rightarrow> first_shown xs
   | _ \<Rightarrow> VNone)"

definition select_display_name :: "fields \<Rightarrow> string \<Rightarrow> string option" where
  "select_display_name e language =
     (let l = normalize_language_code language; name = get_or_None e ''name''; display = get_or_None e ''display_name'' in
      first_some [localized_value name l, localized_value display l, shown (get_or_None e ''default_display_name''),
        shown (default_value display), shown (default_value name)])"

definition select_address_as :: "fields \<Rightarrow> string \<Rightarrow> string option" where
  "select_address_as e language =
     (let l = normalize_language_code language; address = get_or_None e ''address_as'' in
      first_some [localized_value address l, shown (get_or_None e ''default_address_as''),
        shown (explicit_default_value address), shown (another_value address)])"

section \<open>The resolver\<close>

type_synonym entities = "fields dict"

text \<open>\<open>{**value, **existing}\<close>\<close>

definition merge_fields :: "fields \<Rightarrow> fields \<Rightarrow> fields" where
  "merge_fields v existing = foldl (\<lambda>d (k, x). AList.update k x d) v existing"

definition index_record :: "fields \<Rightarrow> entities \<Rightarrow> entities" where
  "index_record d es = (case get_or_None d ''id'' of
     VStr i \<Rightarrow> if full_id i
       then AList.update i (case map_of es i of None \<Rightarrow> d | Some old \<Rightarrow> merge_fields d old) es else es
   | _ \<Rightarrow> es)"

fun register_value :: "pyval \<Rightarrow> entities \<Rightarrow> entities"
  and register_list :: "pyval list \<Rightarrow> entities \<Rightarrow> entities"
  and register_items :: "fields \<Rightarrow> entities \<Rightarrow> entities" where
  "register_value (VDict d) es = register_items d (index_record d es)"
| "register_value (VList xs) es = register_list xs es"
| "register_value v es = es"
| "register_list [] es = es"
| "register_list (x # xs) es = register_list xs (register_value x es)"
| "register_items [] es = es"
| "register_items ((k, x) # d) es = register_items d (register_value x es)"

definition new_resolver :: "pyval list \<Rightarrow> entities" where
  "new_resolver values = register_list values []"

definition resolver_from_messages :: "(string \<Rightarrow> pyval res) \<Rightarrow> fields list \<Rightarrow> pyval list \<Rightarrow> entities" where
  "resolver_from_messages loads messages values =
     foldl (\<lambda>es m. if get_or_None m ''role'' \<noteq> VStr ''tool'' then es
       else case get_or_None m ''content'' of
          VStr c \<Rightarrow> (case loads c of Inr v \<Rightarrow> register_value v es | Inl e \<Rightarrow> es)
        | _ \<Rightarrow> es) (new_resolver values) messages"

datatype reference_mode = Address | Name | Id

definition starts_with :: "string \<Rightarrow> string \<Rightarrow> bool" where
  "starts_with p s \<longleftrightarrow> take (length p) s = p"

definition resolve_entity :: "(pyval \<Rightarrow> string) \<Rightarrow> fields option \<Rightarrow> pyval \<Rightarrow> string \<Rightarrow> reference_mode \<Rightarrow> string" where
  "resolve_entity sh e record_id language mode =
     (let i = py_str sh record_id in
      if mode = Id then i
      else case e of None \<Rightarrow> i
      | Some d \<Rightarrow> (case first_some [if mode = Address \<and> starts_with ''person:'' i then select_address_as d language else None,
            select_display_name d language] of None \<Rightarrow> i | Some n \<Rightarrow> n))"

definition resolve_name :: "(pyval \<Rightarrow> string) \<Rightarrow> entities \<Rightarrow> pyval \<Rightarrow> string \<Rightarrow> reference_mode \<Rightarrow> string" where
  "resolve_name sh es v language mode = (case v of
     VDict d \<Rightarrow> resolve_entity sh (Some d) (get_or_None d ''id'') language mode
   | _ \<Rightarrow> resolve_entity sh (map_of es (py_str sh v)) v language mode)"

definition reference_of :: "(pyval \<Rightarrow> string) \<Rightarrow> entities \<Rightarrow> string \<Rightarrow> reference_mode \<Rightarrow> string \<Rightarrow> string" where
  "reference_of sh es language person_mode i =
     resolve_name sh es (VStr i) language (if starts_with ''person:'' i then person_mode else Name)"

definition render_text :: "(pyval \<Rightarrow> string) \<Rightarrow> entities \<Rightarrow> string \<Rightarrow> bool \<Rightarrow> reference_mode \<Rightarrow> string \<Rightarrow> string" where
  "render_text sh es language expose person_mode s =
     (if expose then s else sub_ids (reference_of sh es language person_mode) None s)"

definition resolve_display_name :: "(pyval \<Rightarrow> string) \<Rightarrow> pyval \<Rightarrow> string \<Rightarrow> string" where
  "resolve_display_name sh v language = resolve_name sh [] v language Name"

definition resolve_person_reference :: "(pyval \<Rightarrow> string) \<Rightarrow> pyval \<Rightarrow> string \<Rightarrow> reference_mode \<Rightarrow> entities option \<Rightarrow> string" where
  "resolve_person_reference sh v language mode resolver =
     resolve_name sh (case resolver of Some es \<Rightarrow> es
       | None \<Rightarrow> new_resolver (case v of VDict d \<Rightarrow> [v] | _ \<Rightarrow> [])) v language mode"

section \<open>Streams\<close>

definition trailing_id :: "char \<Rightarrow> bool" where
  "trailing_id c \<longleftrightarrow> is_alnum c \<or> c \<in> set ''_:-''"

text \<open>The stream renders what stands before the trailing characters that may belong to an identifier, and keeps
  the rest. Its state is the pending text.\<close>

record display =
  dp_entities :: entities
  dp_language :: string
  dp_expose :: bool
  dp_mode :: reference_mode

definition trailing :: "string \<Rightarrow> string" where
  "trailing s = rev (takeWhile trailing_id (rev s))"

definition settled :: "string \<Rightarrow> string" where
  "settled s = rev (dropWhile trailing_id (rev s))"

definition display_feed :: "(pyval \<Rightarrow> string) \<Rightarrow> display \<Rightarrow> string \<Rightarrow> string \<Rightarrow> string \<times> string" where
  "display_feed sh dp pending s =
     (if dp_expose dp then (pending, s)
      else (trailing (pending @ s), render_text sh (dp_entities dp) (dp_language dp) False (dp_mode dp) (settled (pending @ s))))"

definition display_finish :: "(pyval \<Rightarrow> string) \<Rightarrow> display \<Rightarrow> string \<Rightarrow> string \<times> string" where
  "display_finish sh dp pending = ([], render_text sh (dp_entities dp) (dp_language dp) False (dp_mode dp) pending)"

text \<open>The pieces shown for a text that arrives in chunks, with the last piece at its end.\<close>

fun display_feeds :: "(pyval \<Rightarrow> string) \<Rightarrow> display \<Rightarrow> string \<Rightarrow> string list \<Rightarrow> string list" where
  "display_feeds sh dp pending [] = [snd (display_finish sh dp pending)]"
| "display_feeds sh dp pending (s # ss) =
     (case display_feed sh dp pending s of (pending', out) \<Rightarrow> out # display_feeds sh dp pending' ss)"

section \<open>What the user asked for\<close>

fun contains :: "string \<Rightarrow> string \<Rightarrow> bool" where
  "contains p [] = (p = [])"
| "contains p (c # s) = (starts_with p (c # s) \<or> contains p s)"

definition conversation_language :: "fields list \<Rightarrow> string" where
  "conversation_language messages =
     (let text = latest_user_message messages; lowered = casefold text in
      if contains ''in english'' lowered \<or> contains ''answer in english'' lowered then ''en''
      else if contains ''in chinese'' lowered \<or> contains ''answer in chinese'' lowered then ''zh''
      else if is_chinese text then ''zh'' else ''en'')"

text \<open>\<open>\w\<close> and \<open>\b\<close> below code point 256\<close>

definition word_char :: "char \<Rightarrow> bool" where
  "word_char c \<longleftrightarrow> table_char c \<or> code_pt c \<in> {170, 178, 179, 181, 185, 186, 188, 189, 190}
     \<or> (192 \<le> code_pt c \<and> code_pt c \<noteq> 215 \<and> code_pt c \<noteq> 247)"

definition word_end :: "string \<Rightarrow> bool" where
  "word_end s \<longleftrightarrow> s = [] \<or> \<not> word_char (hd s)"

text \<open>One of the words, at the start of a lower-case text, and what follows it.\<close>

definition after_words :: "string list \<Rightarrow> string \<Rightarrow> string list" where
  "after_words ws s = map (\<lambda>w. drop (length w) s) (filter (\<lambda>w. starts_with w s) ws)"

definition names_internal_id :: "string \<Rightarrow> bool" where
  "names_internal_id s \<longleftrightarrow>
     list_ex (\<lambda>r. r \<noteq> [] \<and> is_space (hd r) \<and>
         list_ex word_end (after_words [''id'', ''ids'', ''identifier'', ''identifiers''] (lstrip r)))
       (after_words [''internal'', ''database'', ''record'', ''object'', ''graph''] s)
     \<or> list_ex word_end (after_words [''debug'', ''debugging''] s)"

fun search_words :: "bool \<Rightarrow> string \<Rightarrow> bool" where
  "search_words inside [] = False"
| "search_words inside (c # s) = ((\<not> inside \<and> names_internal_id (c # s)) \<or> search_words (word_char c) s)"

definition internal_ids_requested :: "fields list \<Rightarrow> bool" where
  "internal_ids_requested messages \<longleftrightarrow> search_words False (map lower (latest_user_message messages))"

end
