(* ===== verification/ModelLoop.thy ===== *)
theory ModelLoop
  imports Display PyArith
begin

text \<open>
  \<open>runtime/model_loop.py\<close>: the bounded loop in which a language model answers or calls tools. The provider and the
  host of the tools are arguments: the provider maps the conversation to a response (or to the chunks of a
  streamed one, with the exception that ends the stream), the host maps a call to its result, or to \<open>None\<close>
  when the time limit of the call passed. A definition of a tool is reduced to its name and, where it has a
  limit, the maximum of it. The two full-width punctuation marks lie outside the code points of the model and
  are the argument \<open>wide\<close> (comma, colon); \<open>sh\<close> is what \<open>str\<close> and \<open>repr\<close> make of other values, as in
  the display, and the time limit written with \<open>:g\<close> is given with it.
\<close>

section \<open>JSON\<close>

definition hex_digit :: "nat \<Rightarrow> char" where
  "hex_digit n = (if n < 10 then char_of (48 + n) else char_of (87 + n))"

definition json_char :: "char \<Rightarrow> string" where
  "json_char c = (if c = CHR ''\"'' then [CHR 0x5C, CHR ''\"''] else if c = CHR 0x5C then [CHR 0x5C, CHR 0x5C]
     else if code_pt c = 10 then CHR 0x5C # ''n'' else if code_pt c = 13 then CHR 0x5C # ''r''
     else if code_pt c = 9 then CHR 0x5C # ''t'' else if code_pt c = 8 then CHR 0x5C # ''b''
     else if code_pt c = 12 then CHR 0x5C # ''f''
     else if code_pt c < 32 then CHR 0x5C # ''u00'' @ [hex_digit (code_pt c div 16), hex_digit (code_pt c mod 16)]
     else [c])"

definition json_string :: "string \<Rightarrow> string" where
  "json_string s = ''\"'' @ concat (map json_char s) @ ''\"''"

text \<open>\<open>json.dumps(value, ensure_ascii=False, separators=(",", ":"), default=str)\<close>\<close>

fun json_text :: "(pyval \<Rightarrow> string) \<Rightarrow> pyval \<Rightarrow> string"
  and json_list :: "(pyval \<Rightarrow> string) \<Rightarrow> pyval list \<Rightarrow> string list"
  and json_items :: "(pyval \<Rightarrow> string) \<Rightarrow> fields \<Rightarrow> string list" where
  "json_text sh VNone = ''null''"
| "json_text sh (VBool b) = (if b then ''true'' else ''false'')"
| "json_text sh (VInt i) = show_int i"
| "json_text sh (VFloat f) = (case f of PInf \<Rightarrow> ''Infinity'' | NInf \<Rightarrow> ''-Infinity'' | NaN \<Rightarrow> ''NaN'' | _ \<Rightarrow> sh (VFloat f))"
| "json_text sh (VStr s) = json_string s"
| "json_text sh (VList xs) = ''['' @ join '','' (json_list sh xs) @ '']''"
| "json_text sh (VDict d) = ''{'' @ join '','' (json_items sh d) @ ''}''"
| "json_text sh (VRec t k) = json_string (sh (VRec t k))"
| "json_list sh [] = []"
| "json_list sh (x # xs) = json_text sh x # json_list sh xs"
| "json_items sh [] = []"
| "json_items sh ((k, v) # d) = (json_string k @ '':'' @ json_text sh v) # json_items sh d"

text \<open>The length of the UTF-8 encoding.\<close>

definition byte_length :: "string \<Rightarrow> nat" where
  "byte_length s = sum_list (map (\<lambda>c. if code_pt c < 128 then 1 else 2) s)"

section \<open>The loop and its limits\<close>

definition max_agent_steps :: int where "max_agent_steps = 4"
definition max_tool_calls_per_step :: int where "max_tool_calls_per_step = 4"
definition max_tool_records :: int where "max_tool_records = 25"
definition max_tool_result_bytes :: int where "max_tool_result_bytes = 16384"
definition tool_timeout :: pyfloat where "tool_timeout = Fin 5"

definition hidden_fields :: "string list" where
  "hidden_fields = [''address_as'', ''first_name'', ''gender'', ''last_name'']"

record tool_def =
  td_name :: string
  td_limit :: "pyval option"

record model_loop =
  ml_prompt :: string
  ml_tools :: "tool_def list"
  ml_identity :: "string dict"
  ml_steps :: nat
  ml_calls :: nat
  ml_records :: nat
  ml_bytes :: nat
  ml_seconds :: string

definition bounded_limit :: "pyval \<Rightarrow> int \<Rightarrow> int \<Rightarrow> nat res" where
  "bounded_limit v hard least = (case v of
     VInt i \<Rightarrow> if least \<le> i \<and> i \<le> hard then Inr (nat i) else Inl ValueError
   | _ \<Rightarrow> Inl ValueError)"

definition localized_identity :: "pyval dict \<Rightarrow> string dict" where
  "localized_identity names = foldl (\<lambda>d (l, v). case shown v of None \<Rightarrow> d
     | Some n \<Rightarrow> AList.update (normalize_language_code l) n d) [] names"

definition new_model_loop ::
  "string \<Rightarrow> tool_def list \<Rightarrow> pyval \<Rightarrow> pyval \<Rightarrow> pyval \<Rightarrow> pyval \<Rightarrow> pyfloat \<Rightarrow> string \<Rightarrow> pyval dict \<Rightarrow> model_loop res" where
  "new_model_loop prompt tools steps calls records bytes timeout seconds identity =
     (if strip prompt = [] \<or> tools = [] then Inl ValueError
      else bind_res (bounded_limit steps max_agent_steps 1) (\<lambda>steps.
      bind_res (bounded_limit calls max_tool_calls_per_step 1) (\<lambda>calls.
      bind_res (bounded_limit records max_tool_records 1) (\<lambda>records.
      bind_res (bounded_limit bytes max_tool_result_bytes 256) (\<lambda>bytes.
      if fle timeout (Fin 0) \<or> \<not> fle timeout tool_timeout then Inl ValueError
      else Inr \<lparr>ml_prompt = strip prompt, ml_tools = tools, ml_identity = localized_identity identity, ml_steps = steps,
        ml_calls = calls, ml_records = records, ml_bytes = bytes, ml_seconds = seconds\<rparr>)))))"

definition limit_maximum :: "model_loop \<Rightarrow> string \<Rightarrow> pyval option" where
  "limit_maximum ml tool = map_of (rev (map (\<lambda>t. (td_name t, the (td_limit t))) (filter (\<lambda>t. td_limit t \<noteq> None) (ml_tools ml)))) tool"

definition bounded_arguments :: "model_loop \<Rightarrow> string \<Rightarrow> pyval \<Rightarrow> pyval res" where
  "bounded_arguments ml tool args = (case (args, limit_maximum ml tool) of
     (VDict d, Some most) \<Rightarrow> (case get_or_None d ''limit'' of
         VNone \<Rightarrow> Inr (VDict (AList.update ''limit'' (VInt (int (ml_records ml))) d))
       | VInt i \<Rightarrow> bind_res (py_less True (VInt i) most) (\<lambda>b.
           Inr (if b then VDict (AList.update ''limit'' (VInt (min i (int (ml_records ml)))) d) else args))
       | _ \<Rightarrow> Inr args)
   | _ \<Rightarrow> Inr args)"

section \<open>What the model sees of a tool result\<close>

definition named_fields :: "(pyval \<Rightarrow> string) \<Rightarrow> string \<Rightarrow> fields \<Rightarrow> fields \<Rightarrow> fields" where
  "named_fields sh language original prepared =
     (let name = resolve_display_name sh (VDict original) language in
      if map_of prepared ''name'' \<noteq> None \<and> name \<noteq> [] \<and> name \<noteq> py_str sh (get_or_None prepared ''id'')
      then AList.update ''name'' (VStr name) prepared else prepared)"

fun prepare_value :: "(pyval \<Rightarrow> string) \<Rightarrow> string \<Rightarrow> pyval \<Rightarrow> pyval"
  and prepare_list :: "(pyval \<Rightarrow> string) \<Rightarrow> string \<Rightarrow> pyval list \<Rightarrow> pyval list"
  and prepare_items :: "(pyval \<Rightarrow> string) \<Rightarrow> string \<Rightarrow> fields \<Rightarrow> fields" where
  "prepare_value sh l (VDict d) = VDict (named_fields sh l d (prepare_items sh l d))"
| "prepare_value sh l (VList xs) = VList (prepare_list sh l xs)"
| "prepare_value sh l v = v"
| "prepare_list sh l [] = []"
| "prepare_list sh l (x # xs) = prepare_value sh l x # prepare_list sh l xs"
| "prepare_items sh l [] = []"
| "prepare_items sh l ((k, v) # d) =
     (if k \<in> set hidden_fields then prepare_items sh l d else (k, prepare_value sh l v) # prepare_items sh l d)"

definition prepare_result :: "(pyval \<Rightarrow> string) \<Rightarrow> string \<Rightarrow> fields \<Rightarrow> fields" where
  "prepare_result sh l d = named_fields sh l d (prepare_items sh l d)"

text \<open>The list of a result that can be cut, and its key where it is a field of the result.\<close>

definition truncatable_items :: "pyval \<Rightarrow> (pyval list \<times> string option) option" where
  "truncatable_items v = (case v of
     VList xs \<Rightarrow> Some (xs, None)
   | VDict d \<Rightarrow> (case get_or_None d ''events'' of VList xs \<Rightarrow> Some (xs, Some ''events'')
       | _ \<Rightarrow> (case get_or_None d ''conflicts'' of VList xs \<Rightarrow> Some (xs, Some ''conflicts'') | _ \<Rightarrow> None))
   | _ \<Rightarrow> None)"

definition denied :: "fields \<Rightarrow> fields" where
  "denied payload = foldl (\<lambda>d k. if map_of d k = None then d else AList.update k (VBool False) d) payload
     [''complete'', ''checked'', ''available'']"

definition with_truncated_items :: "fields \<Rightarrow> string option \<Rightarrow> pyval list \<Rightarrow> nat \<Rightarrow> fields" where
  "with_truncated_items bounded key items available =
     (let cut = length items < available;
          updated = (case key of
              None \<Rightarrow> AList.update ''result'' (VList items) bounded
            | Some k \<Rightarrow>
                let payload = AList.update k (VList items) (case get_or_None bounded ''result'' of VDict d \<Rightarrow> d | _ \<Rightarrow> []) in
                AList.update ''result'' (VDict (if cut then denied payload else payload)) bounded)
      in if cut then AList.update ''meta'' (VDict [(''truncated'', VBool True), (''records_available'', VInt (int available)),
           (''records_returned'', VInt (int (length items)))]) updated else updated)"

definition too_large :: "string \<Rightarrow> nat \<Rightarrow> fields" where
  "too_large tool bytes = [(''ok'', VBool False), (''tool'', VStr tool), (''error'', VDict [(''code'', VStr ''tool_result_too_large''),
     (''message'', VStr (''Tool result exceeded the '' @ show_nat bytes @ '' byte limit''))])]"

definition smallest_error :: fields where
  "smallest_error = [(''ok'', VBool False), (''error'', VDict [(''code'', VStr ''tool_result_too_large'')])]"

text \<open>The first text within the limit.\<close>

definition first_fitting :: "nat \<Rightarrow> string list \<Rightarrow> string option" where
  "first_fitting bytes ts = find (\<lambda>t. byte_length t \<le> bytes) ts"

definition cut_result :: "model_loop \<Rightarrow> fields \<Rightarrow> fields \<times> (pyval list \<times> string option) option" where
  "cut_result ml bounded = (case truncatable_items (get_or_None bounded ''result'') of
     None \<Rightarrow> (bounded, None)
   | Some (items, key) \<Rightarrow> if get_or_None bounded ''ok'' = VBool True
       then (let b = with_truncated_items bounded key (take (ml_records ml) items) (length items) in
             (b, truncatable_items (get_or_None b ''result'')))
       else (bounded, Some (items, key)))"

definition serialize_tool_result :: "(pyval \<Rightarrow> string) \<Rightarrow> model_loop \<Rightarrow> string \<Rightarrow> fields \<Rightarrow> string \<Rightarrow> string" where
  "serialize_tool_result sh ml tool result language =
     (let prepared = prepare_result sh language result;
          available = (case truncatable_items (get_or_None prepared ''result'') of None \<Rightarrow> 0 | Some (xs, k) \<Rightarrow> length xs);
          (bounded, items) = cut_result ml prepared;
          shorter = (case items of
              Some (xs, key) \<Rightarrow> if get_or_None bounded ''ok'' = VBool True
                then map (\<lambda>n. json_text sh (VDict (with_truncated_items bounded key (take n xs) available))) (rev [0..<length xs])
                else []
            | None \<Rightarrow> [])
      in case first_fitting (ml_bytes ml) (json_text sh (VDict bounded) # shorter @ [json_text sh (VDict (too_large tool (ml_bytes ml)))]) of
           Some t \<Rightarrow> t | None \<Rightarrow> json_text sh (VDict smallest_error))"

section \<open>Calling the tools\<close>

record tool_call =
  tc_name :: string
  tc_args :: pyval
  tc_dump :: fields

type_synonym 'w host = "string \<Rightarrow> pyval \<Rightarrow> string option \<Rightarrow> 'w \<Rightarrow> 'w \<times> fields option"

definition refusal :: "string \<Rightarrow> string \<Rightarrow> string \<Rightarrow> fields" where
  "refusal tool code message =
     [(''ok'', VBool False), (''tool'', VStr tool), (''error'', VDict [(''code'', VStr code), (''message'', VStr message)])]"

definition loop_dispatch :: "'w host \<Rightarrow> model_loop \<Rightarrow> string \<Rightarrow> pyval \<Rightarrow> string option \<Rightarrow> 'w \<Rightarrow> 'w \<times> fields" where
  "loop_dispatch host ml tool args caller w =
     (if tool = ''write_item'' then
        (w, refusal tool ''unknown_tool'' ''Item mutations require a structured current-turn intent'')
      else case host tool args caller w of
        (w', Some r) \<Rightarrow> (w', r)
      | (w', None) \<Rightarrow> (w', refusal tool ''tool_timeout''
          (''Tool execution exceeded the '' @ ml_seconds ml @ '' second limit'')))"

datatype stop_reason = Answer | StepLimit | ToolError | Timeout

definition error_code :: "fields \<Rightarrow> pyval" where
  "error_code r = (case get_or_None r ''error'' of VDict e \<Rightarrow> get_or_None e ''code'' | _ \<Rightarrow> VNone)"

definition failure_reason :: "fields \<Rightarrow> stop_reason option \<Rightarrow> stop_reason option" where
  "failure_reason r now =
     (if get_or_None r ''ok'' = VBool True then now
      else if error_code r = VStr ''tool_timeout'' then Some Timeout
      else if now = Some Timeout then now else Some ToolError)"

text \<open>A turn: who speaks, in which language, and what may be shown; and the state of the loop.\<close>

record turn =
  tn_language :: string
  tn_expose :: bool
  tn_values :: "pyval list"
  tn_caller :: "string option"

record loop_state =
  lp_conversation :: "fields list"
  lp_total :: nat
  lp_failure :: "stop_reason option"

definition begin_loop :: "fields list \<Rightarrow> loop_state res" where
  "begin_loop messages = (if messages = [] then Inl ValueError
     else Inr \<lparr>lp_conversation = messages, lp_total = 0, lp_failure = None\<rparr>)"

definition tool_message :: "string \<Rightarrow> string \<Rightarrow> fields" where
  "tool_message tool content = [(''role'', VStr ''tool''), (''tool_name'', VStr tool), (''content'', VStr content)]"

fun call_tools ::
  "(pyval \<Rightarrow> string) \<Rightarrow> 'w host \<Rightarrow> model_loop \<Rightarrow> turn \<Rightarrow> tool_call list \<Rightarrow> loop_state \<Rightarrow> 'w \<Rightarrow> 'w \<times> loop_state res" where
  "call_tools sh host ml t [] st w = (w, Inr st)"
| "call_tools sh host ml t (c # cs) st w = (case bounded_arguments ml (tc_name c) (tc_args c) of
     Inl e \<Rightarrow> (w, Inl e)
   | Inr args \<Rightarrow> (case loop_dispatch host ml (tc_name c) args (tn_caller t) w of (w, r) \<Rightarrow>
       call_tools sh host ml t cs
         (st\<lparr>lp_failure := failure_reason r (lp_failure st),
             lp_conversation := lp_conversation st @
               [tool_message (tc_name c) (serialize_tool_result sh ml (tc_name c) r (tn_language t))]\<rparr>) w))"

definition append_tool_results ::
  "(pyval \<Rightarrow> string) \<Rightarrow> 'w host \<Rightarrow> model_loop \<Rightarrow> turn \<Rightarrow> tool_call list \<Rightarrow> loop_state \<Rightarrow> 'w \<Rightarrow> 'w \<times> loop_state res" where
  "append_tool_results sh host ml t calls st w = (case call_tools sh host ml t calls st w of
     (w, Inl e) \<Rightarrow> (w, Inl e)
   | (w, Inr st) \<Rightarrow> (w, Inr (st\<lparr>lp_total := lp_total st + length calls\<rparr>)))"

text \<open>Both limits raise \<open>AgentLimitError\<close>; \<open>left\<close> steps follow this one.\<close>

definition within_call_limits :: "model_loop \<Rightarrow> tool_call list \<Rightarrow> nat \<Rightarrow> bool" where
  "within_call_limits ml calls left_steps \<longleftrightarrow> length calls \<le> ml_calls ml \<and> left_steps \<noteq> 0"

section \<open>The salutation\<close>

definition vocative_prefixes :: "string \<times> string \<Rightarrow> string option \<Rightarrow> string list" where
  "vocative_prefixes wide agent = (case agent of None \<Rightarrow> [] | Some n \<Rightarrow>
     if n = [] then [] else map (\<lambda>p. n @ p) [fst wide, '','', snd wide, '':''])"

definition address_prefix :: "string \<times> string \<Rightarrow> string option \<Rightarrow> string \<Rightarrow> string" where
  "address_prefix wide speaker language = (case speaker of None \<Rightarrow> [] | Some s \<Rightarrow>
     if s = [] then [] else s @ (if language = ''zh'' then fst wide else '', ''))"

record vocative =
  vc_agent :: "string option"
  vc_speaker :: "string option"
  vc_language :: string

text \<open>The state of the stream: what it holds back, and whether the start of the answer is decided.\<close>

type_synonym vocative_state = "string \<times> bool"

definition vocative_start :: "vocative \<Rightarrow> vocative_state" where
  "vocative_start v = ([], vc_agent v = None)"

definition vocative_feed :: "string \<times> string \<Rightarrow> vocative \<Rightarrow> vocative_state \<Rightarrow> string \<Rightarrow> vocative_state \<times> string" where
  "vocative_feed wide v st text = (case st of (pending, resolved) \<Rightarrow>
     if resolved then (st, text)
     else let pending = pending @ text; folded = casefold pending; prefixes = vocative_prefixes wide (vc_agent v) in
       case find (\<lambda>p. starts_with (casefold p) folded) prefixes of
         Some p \<Rightarrow> (([], True), address_prefix wide (vc_speaker v) (vc_language v) @ lstrip (drop (length p) pending))
       | None \<Rightarrow> if list_ex (\<lambda>p. starts_with folded (casefold p)) prefixes then ((pending, False), [])
                 else (([], True), pending))"

definition vocative_finish :: "vocative_state \<Rightarrow> string" where
  "vocative_finish st = fst st"

definition repair_self_vocative :: "string \<times> string \<Rightarrow> vocative \<Rightarrow> string \<Rightarrow> string" where
  "repair_self_vocative wide v text = (case vocative_feed wide v (vocative_start v) text of
     (st, out) \<Rightarrow> out @ vocative_finish st)"

definition speaker_address :: "(pyval \<Rightarrow> string) \<Rightarrow> pyval list \<Rightarrow> string \<Rightarrow> string option" where
  "speaker_address sh values language =
     (case find (\<lambda>v. case v of VDict d \<Rightarrow> starts_with ''person:'' (case map_of d ''id'' of None \<Rightarrow> [] | Some i \<Rightarrow> py_str sh i)
          | _ \<Rightarrow> False) values of
        None \<Rightarrow> None
      | Some v \<Rightarrow> (let r = resolve_person_reference sh v language Address None in if r = [] then None else Some r))"

definition turn_vocative :: "(pyval \<Rightarrow> string) \<Rightarrow> model_loop \<Rightarrow> turn \<Rightarrow> vocative" where
  "turn_vocative sh ml t = \<lparr>vc_agent = map_of (ml_identity ml) (tn_language t),
     vc_speaker = speaker_address sh (tn_values t) (tn_language t), vc_language = tn_language t\<rparr>"

section \<open>Running to an answer\<close>

record response =
  rs_content :: "string option"
  rs_calls :: "tool_call list"
  rs_dump :: fields

record agent_result =
  ar_answer :: string
  ar_steps :: nat
  ar_calls :: nat
  ar_stop :: stop_reason
  ar_messages :: "fields list"

record 'w provider_api =
  pr_chat :: "fields list \<Rightarrow> 'w \<Rightarrow> 'w \<times> response res"
  pr_stream :: "fields list \<Rightarrow> 'w \<Rightarrow> 'w \<times> response list \<times> exn option"
  pr_loads :: "string \<Rightarrow> pyval res"

definition content_of :: "response \<Rightarrow> string" where
  "content_of r = (case rs_content r of None \<Rightarrow> [] | Some c \<Rightarrow> c)"

definition final_reason :: "loop_state \<Rightarrow> stop_reason" where
  "final_reason st = (case lp_failure st of None \<Rightarrow> Answer | Some r \<Rightarrow> r)"

definition final_answer ::
  "(pyval \<Rightarrow> string) \<Rightarrow> string \<times> string \<Rightarrow> 'w provider_api \<Rightarrow> model_loop \<Rightarrow> turn \<Rightarrow> loop_state \<Rightarrow> string \<Rightarrow> string" where
  "final_answer sh wide pr ml t st text = repair_self_vocative wide (turn_vocative sh ml t)
     (render_text sh (resolver_from_messages (pr_loads pr) (lp_conversation st) (tn_values t))
        (tn_language t) (tn_expose t) Address text)"

fun run_steps ::
  "(pyval \<Rightarrow> string) \<Rightarrow> string \<times> string \<Rightarrow> 'w provider_api \<Rightarrow> 'w host \<Rightarrow> model_loop \<Rightarrow> turn \<Rightarrow> nat \<Rightarrow> loop_state \<Rightarrow> 'w
     \<Rightarrow> 'w \<times> agent_result res" where
  "run_steps sh wide pr host ml t 0 st w = (w, Inl AgentLimitError)"
| "run_steps sh wide pr host ml t (Suc n) st w = (case pr_chat pr (lp_conversation st) w of
     (w, Inl e) \<Rightarrow> (w, Inl e)
   | (w, Inr r) \<Rightarrow>
       let st = st\<lparr>lp_conversation := lp_conversation st @ [rs_dump r]\<rparr> in
       if rs_calls r = [] then (w, Inr \<lparr>ar_answer = final_answer sh wide pr ml t st (content_of r), ar_steps = ml_steps ml - n,
           ar_calls = lp_total st, ar_stop = final_reason st, ar_messages = lp_conversation st\<rparr>)
       else if \<not> within_call_limits ml (rs_calls r) n then (w, Inl AgentLimitError)
       else (case append_tool_results sh host ml t (rs_calls r) st w of
           (w, Inl e) \<Rightarrow> (w, Inl e)
         | (w, Inr st) \<Rightarrow> run_steps sh wide pr host ml t n st w))"

definition run_loop ::
  "(pyval \<Rightarrow> string) \<Rightarrow> string \<times> string \<Rightarrow> 'w provider_api \<Rightarrow> 'w host \<Rightarrow> model_loop \<Rightarrow> turn \<Rightarrow> fields list \<Rightarrow> 'w
     \<Rightarrow> 'w \<times> agent_result res" where
  "run_loop sh wide pr host ml t messages w = (case begin_loop messages of
     Inl e \<Rightarrow> (w, Inl e) | Inr st \<Rightarrow> run_steps sh wide pr host ml t (ml_steps ml) st w)"

section \<open>Streaming an answer\<close>

record stream_step =
  ss_pending :: string
  ss_vocative :: vocative_state
  ss_content :: string
  ss_calls :: "tool_call list"
  ss_shown :: "string list"

definition turn_display :: "'w provider_api \<Rightarrow> turn \<Rightarrow> loop_state \<Rightarrow> display" where
  "turn_display pr t st = \<lparr>dp_entities = resolver_from_messages (pr_loads pr) (lp_conversation st) (tn_values t),
     dp_language = tn_language t, dp_expose = tn_expose t, dp_mode = Address\<rparr>"

text \<open>A rendered piece goes through the salutation; what comes out of it is shown.\<close>

definition show_piece :: "string \<times> string \<Rightarrow> vocative \<Rightarrow> string \<Rightarrow> stream_step \<Rightarrow> stream_step" where
  "show_piece wide v text x = (if text = [] then x
     else case vocative_feed wide v (ss_vocative x) text of (vs, out) \<Rightarrow>
       x\<lparr>ss_vocative := vs, ss_shown := ss_shown x @ (if out = [] then [] else [out])\<rparr>)"

fun read_chunks ::
  "(pyval \<Rightarrow> string) \<Rightarrow> string \<times> string \<Rightarrow> display \<Rightarrow> vocative \<Rightarrow> response list \<Rightarrow> stream_step \<Rightarrow> stream_step \<times> unit res" where
  "read_chunks sh wide dp v [] x = (x, Inr ())"
| "read_chunks sh wide dp v (c # cs) x =
     (if rs_calls c \<noteq> [] \<and> ss_shown x \<noteq> [] then (x, Inl AgentStreamingError)
      else let x = x\<lparr>ss_calls := ss_calls x @ rs_calls c, ss_content := ss_content x @ content_of c\<rparr> in
        read_chunks sh wide dp v cs
          (if content_of c \<noteq> [] \<and> ss_calls x = [] then
             (case display_feed sh dp (ss_pending x) (content_of c) of (pending, out) \<Rightarrow>
                show_piece wide v out (x\<lparr>ss_pending := pending\<rparr>))
           else x))"

definition stream_start :: "vocative \<Rightarrow> stream_step" where
  "stream_start v = \<lparr>ss_pending = [], ss_vocative = vocative_start v, ss_content = [], ss_calls = [], ss_shown = []\<rparr>"

definition stream_end :: "(pyval \<Rightarrow> string) \<Rightarrow> string \<times> string \<Rightarrow> display \<Rightarrow> vocative \<Rightarrow> stream_step \<Rightarrow> string list" where
  "stream_end sh wide dp v x =
     (let x = show_piece wide v (snd (display_finish sh dp (ss_pending x))) x; rest = vocative_finish (ss_vocative x)
      in ss_shown x @ (if rest = [] then [] else [rest]))"

definition assistant_message :: "string \<Rightarrow> tool_call list \<Rightarrow> fields" where
  "assistant_message content calls = [(''role'', VStr ''assistant''), (''content'', VStr content)]
     @ (if calls = [] then [] else [(''tool_calls'', VList (map (VDict \<circ> tc_dump) calls))])"

text \<open>The pieces shown, and how the stream ended: with the reason, or with an exception.\<close>

fun stream_steps ::
  "(pyval \<Rightarrow> string) \<Rightarrow> string \<times> string \<Rightarrow> 'w provider_api \<Rightarrow> 'w host \<Rightarrow> model_loop \<Rightarrow> turn \<Rightarrow> nat \<Rightarrow> loop_state \<Rightarrow> 'w
     \<Rightarrow> 'w \<times> string list \<times> stop_reason res" where
  "stream_steps sh wide pr host ml t 0 st w = (w, [], Inl AgentLimitError)"
| "stream_steps sh wide pr host ml t (Suc n) st w =
     (let dp = turn_display pr t st; v = turn_vocative sh ml t in
      case pr_stream pr (lp_conversation st) w of (w, chunks, err) \<Rightarrow>
      (case read_chunks sh wide dp v chunks (stream_start v) of
         (x, Inl e) \<Rightarrow> (w, ss_shown x, Inl e)
       | (x, Inr u) \<Rightarrow>
           case err of Some e \<Rightarrow> (w, ss_shown x, Inl e)
         | None \<Rightarrow>
             let st = st\<lparr>lp_conversation := lp_conversation st @ [assistant_message (ss_content x) (ss_calls x)]\<rparr> in
             if ss_calls x = [] then (w, stream_end sh wide dp v x, Inr (final_reason st))
             else if \<not> within_call_limits ml (ss_calls x) n then (w, ss_shown x, Inl AgentLimitError)
             else (case append_tool_results sh host ml t (ss_calls x) st w of
                 (w, Inl e) \<Rightarrow> (w, ss_shown x, Inl e)
               | (w, Inr st) \<Rightarrow> (case stream_steps sh wide pr host ml t n st w of
                     (w, later, r) \<Rightarrow> (w, ss_shown x @ later, r)))))"

definition stream_loop ::
  "(pyval \<Rightarrow> string) \<Rightarrow> string \<times> string \<Rightarrow> 'w provider_api \<Rightarrow> 'w host \<Rightarrow> model_loop \<Rightarrow> turn \<Rightarrow> fields list \<Rightarrow> 'w
     \<Rightarrow> 'w \<times> string list \<times> stop_reason res" where
  "stream_loop sh wide pr host ml t messages w = (case begin_loop messages of
     Inl e \<Rightarrow> (w, [], Inl e) | Inr st \<Rightarrow> stream_steps sh wide pr host ml t (ml_steps ml) st w)"

end
