(* ===== verification/DisplayFacts.thy ===== *)
theory DisplayFacts
  imports Display
begin

text \<open>
  Rendering a text in pieces is rendering it at once: a character that cannot belong to an identifier separates
  the text into parts that are rendered independently, and the stream cuts only there.
\<close>

lemma trailing_chars:
  "key_char c \<Longrightarrow> trailing_id c" "table_char c \<Longrightarrow> trailing_id c" "table_start c \<Longrightarrow> trailing_id c" "trailing_id CHR '':''"
  by (auto simp: key_char_def table_char_def table_start_def trailing_id_def is_alnum_def)

lemma id_segments_trailing: "id_segments s = (m, r) \<Longrightarrow> c \<in> set m \<Longrightarrow> trailing_id c"
proof (induction s arbitrary: m r rule: id_segments.induct)
  case (1 s)
  show ?case
  proof (cases "\<exists>k t. s = CHR '':'' # k # t \<and> key_char k")
    case True
    then obtain k t where s: "s = CHR '':'' # k # t" "key_char k" by blast
    obtain m' r' where i: "id_segments (dropWhile key_char t) = (m', r')" by fastforce
    from "1.prems"(1) s i have "m = CHR '':'' # k # takeWhile key_char t @ m'"
      by (subst (asm) id_segments.simps) simp
    with "1.IH"[of _ "k # t" k t, OF _ _ _ i] s "1.prems"(2) show ?thesis
      by (auto simp: trailing_chars dest!: set_takeWhileD)
  next
    case False
    with "1.prems" show ?thesis by (subst (asm) id_segments.simps) (auto split: list.splits if_splits)
  qed
qed

text \<open>A text that ends outside every identifier.\<close>

definition closed_text :: "string \<Rightarrow> bool" where
  "closed_text s \<longleftrightarrow> s \<noteq> [] \<and> \<not> trailing_id (last s)"

lemma closed_last: "closed_text s \<Longrightarrow> last s \<in> set s \<and> \<not> trailing_id (last s)"
  by (simp add: closed_text_def)

lemma closed_tl: "closed_text (c # s) \<Longrightarrow> trailing_id c \<Longrightarrow> closed_text s"
  by (auto simp: closed_text_def split: if_splits)

lemma closed_dropWhile: "closed_text s \<Longrightarrow> (\<And>c. P c \<Longrightarrow> trailing_id c) \<Longrightarrow> closed_text (dropWhile P s)"
  by (induction s) (auto dest: closed_tl)

lemma while_append:
  assumes "closed_text s" and "\<And>c. P c \<Longrightarrow> trailing_id c"
  shows "takeWhile P (s @ b) = takeWhile P s \<and> dropWhile P (s @ b) = dropWhile P s @ b"
  using closed_last[OF assms(1)] assms(2) by (metis takeWhile_append1 dropWhile_append1)

lemma closed_rest: "closed_text (m @ r) \<Longrightarrow> (\<And>c. c \<in> set m \<Longrightarrow> trailing_id c) \<Longrightarrow> closed_text r"
  by (induction m) (auto dest: closed_tl)

lemma id_segments_append:
  "closed_text s \<Longrightarrow> id_segments s = (m, r) \<Longrightarrow> id_segments (s @ b) = (m, r @ b)"
proof (induction s arbitrary: m r rule: id_segments.induct)
  case (1 s)
  show ?case
  proof (cases "\<exists>k t. s = CHR '':'' # k # t \<and> key_char k")
    case True
    then obtain k t where s: "s = CHR '':'' # k # t" "key_char k" by blast
    obtain m' r' where i: "id_segments (dropWhile key_char t) = (m', r')" by fastforce
    have t: "closed_text t" using "1.prems"(1) s by (auto simp: trailing_chars dest!: closed_tl)
    from "1.IH"[of _ "k # t" k t, OF _ _ _ closed_dropWhile[OF t] i] s
    have "id_segments (dropWhile key_char t @ b) = (m', r' @ b)" by (simp add: trailing_chars)
    with "1.prems"(2) s i while_append[OF t, of key_char b] show ?thesis
      by (subst id_segments.simps, subst (asm) id_segments.simps) (simp add: trailing_chars)
  next
    case False
    with "1.prems" have s: "m = []" "r = s"
      by (subst (asm) id_segments.simps, auto split: list.splits if_splits)+
    have "\<not> (c = CHR '':'' \<and> key_char k)" if "s @ b = c # k # t" for c k t
    proof -
      from "1.prems"(1) that obtain u where "s = [c] \<or> s = c # k # u"
        by (cases s; cases "tl s") (auto simp: closed_text_def)
      with False "1.prems"(1) show ?thesis by (auto simp: closed_text_def trailing_chars)
    qed
    then show ?thesis unfolding s by (subst id_segments.simps) (auto split: list.splits)
  qed
qed

lemma match_id_append:
  assumes "closed_text s"
  shows "match_id (s @ b) = map_option (\<lambda>(m, r). (m, r @ b)) (match_id s)"
proof (cases "table_start (hd s)")
  case True
  with assms have t: "closed_text (tl s)" by (cases s) (auto simp: trailing_chars dest: closed_tl closed_last)
  obtain m r where i: "id_segments (dropWhile table_char (tl s)) = (m, r)" by fastforce
  from id_segments_append[OF closed_dropWhile[OF t] i, of b] while_append[OF t, of table_char b] assms True i
  show ?thesis by (simp add: match_id_def closed_text_def trailing_chars hd_append)
next
  case False
  with assms show ?thesis by (simp add: match_id_def closed_text_def hd_append)
qed

lemma match_id_trailing:
  assumes "match_id s = Some (m, r)" and "c \<in> set m"
  shows "trailing_id c"
  using assms by (auto simp: match_id_def trailing_chars split: if_splits prod.splits
    dest!: set_takeWhileD dest: id_segments_trailing)

lemma sub_ids_start: "may_start p \<Longrightarrow> sub_ids f p s = sub_ids f None s"
  by (subst (1 2) sub_ids.simps) (simp add: may_start_def)

lemma sub_ids_Nil [simp]: "sub_ids f p [] = []"
  by (subst sub_ids.simps) simp

lemma sub_ids_append: "closed_text s \<Longrightarrow> sub_ids f p (s @ b) = sub_ids f p s @ sub_ids f None b"
proof (induction f p s rule: sub_ids.induct)
  case (1 f p s)
  from "1.prems" obtain c t where s: "s = c # t" by (cases s) (auto simp: closed_text_def)
  show ?case
  proof (cases "if may_start p then match_id s else None")
    case None
    then have n: "(if may_start p then match_id (s @ b) else None) = None"
      using match_id_append[OF "1.prems", of b] by (simp split: if_splits)
    have "sub_ids f (Some c) (t @ b) = sub_ids f (Some c) t @ sub_ids f None b"
    proof (cases "t = []")
      case True
      with "1.prems" s show ?thesis
        by (auto simp: closed_text_def may_start_def intro!: sub_ids_start dest: trailing_chars(2))
    next
      case False
      with "1.prems" s have "closed_text t" by (auto simp: closed_text_def)
      from "1.IH"(1)[OF s None this] show ?thesis .
    qed
    with n None s show ?thesis by (subst (1 2) sub_ids.simps) simp
  next
    case (Some x)
    obtain m r where x: "x = (m, r)" by (cases x)
    with Some have ps: "may_start p" and m: "match_id s = Some (m, r)" by (auto split: if_splits)
    from match_id_parts[OF m] "1.prems" match_id_trailing[OF m] have "closed_text r" by (metis closed_rest)
    from "1.IH"(2)[OF s Some x[symmetric] this] match_id_append[OF "1.prems", of b] m ps s
    show ?thesis by (subst (1 2) sub_ids.simps) simp
  qed
qed

lemma dropWhile_split: "b = [] \<or> \<not> P (hd b) \<Longrightarrow> dropWhile P (a @ b) = dropWhile P a @ b"
  by (induction a) (auto, cases b, auto)

lemma settled_trailing: "settled s @ trailing s = s"
  by (simp add: settled_def trailing_def flip: rev_append)

lemma settled_closed: "settled s = [] \<or> closed_text (settled s)"
  unfolding settled_def closed_text_def using hd_dropWhile[of trailing_id "rev s"] by (auto simp: last_rev)

lemma settled_closed_append: "u = [] \<or> closed_text u \<Longrightarrow> settled (u @ v) = u @ settled v"
  using dropWhile_split[of "rev u" trailing_id "rev v"] by (auto simp: settled_def closed_text_def hd_rev)

lemma settled_append: "settled (x @ s) = settled x @ settled (trailing x @ s)"
  using settled_closed_append[OF settled_closed[of x], of "trailing x @ s"] settled_trailing[of x]
  by (metis append.assoc)

lemma trailing_append: "trailing (x @ s) = trailing (trailing x @ s)"
  using settled_append[of x s] settled_trailing[of "x @ s"] settled_trailing[of "trailing x @ s"] settled_trailing[of x]
  by (metis append.assoc same_append_eq)

text \<open>What was shown after some chunks is the rendering of their settled part.\<close>

lemma display_feeds_settled:
  assumes "\<not> dp_expose dp"
  shows "sub_ids (reference_of sh (dp_entities dp) (dp_language dp) (dp_mode dp)) None (settled x)
      @ concat (display_feeds sh dp (trailing x) ss)
    = sub_ids (reference_of sh (dp_entities dp) (dp_language dp) (dp_mode dp)) None (x @ concat ss)"
    (is "?sub (settled x) @ _ = _")
proof (induction ss arbitrary: x)
  case Nil
  have "?sub (settled x @ trailing x) = ?sub (settled x) @ ?sub (trailing x)"
    using settled_closed[of x] sub_ids_append by auto
  then show ?case by (simp add: display_finish_def render_text_def settled_trailing)
next
  case (Cons s ss)
  have "?sub (settled (x @ s)) = ?sub (settled x) @ ?sub (settled (trailing x @ s))"
    using settled_closed[of x] sub_ids_append unfolding settled_append[of x s] by auto
  then show ?case using Cons[of "x @ s"] assms
    by (simp add: display_feed_def render_text_def trailing_append[of x s])
qed

lemma display_feeds_whole:
  "concat (display_feeds sh dp [] ss)
     = render_text sh (dp_entities dp) (dp_language dp) (dp_expose dp) (dp_mode dp) (concat ss)"
proof (cases "dp_expose dp")
  case True
  then show ?thesis
    by (induction ss) (simp_all add: display_finish_def display_feed_def render_text_def)
next
  case False
  from display_feeds_settled[OF this, of sh "[]" ss] False show ?thesis
    by (simp add: settled_def trailing_def render_text_def)
qed

text \<open>C36: the pieces that the display stream shows for a streamed answer, whatever its chunks, are together exactly
  the rendering of the whole answer: no identifier is missed because it was split between chunks, and none
  is found that only the cut made look like one.\<close>

theorem stream_renders_whole:
  "concat (display_feeds sh dp [] ss)
     = render_text sh (dp_entities dp) (dp_language dp) (dp_expose dp) (dp_mode dp) (concat ss)"
  by (rule display_feeds_whole)

end
