(* ===== verification/ModelLoopFacts.thy ===== *)
theory ModelLoopFacts
  imports ModelLoop DisplayFacts
begin

text \<open>
  The loop is bounded in steps, in tool calls and in what a tool may put into the conversation, it never lets the
  model write, and the streamed answer is the answer of the loop without streaming.
\<close>

section \<open>Bounds\<close>

lemma smallest_error_fits: "byte_length (json_text sh (VDict smallest_error)) \<le> 256"
  by (simp add: smallest_error_def json_string_def json_char_def code_pt_def byte_length_def)

lemma serialize_fits:
  assumes "256 \<le> ml_bytes ml"
  shows "byte_length (serialize_tool_result sh ml tool result language) \<le> ml_bytes ml"
  using le_trans[OF smallest_error_fits assms]
  by (auto simp: serialize_tool_result_def first_fitting_def Let_def find_Some_iff split: prod.splits option.splits)

definition loop_ok :: "model_loop \<Rightarrow> bool" where
  "loop_ok ml \<longleftrightarrow> 1 \<le> ml_steps ml \<and> ml_steps ml \<le> 4 \<and> ml_calls ml \<le> 4 \<and> ml_records ml \<le> 25
     \<and> 256 \<le> ml_bytes ml \<and> ml_bytes ml \<le> 16384"

lemma bounded_limit_Inr: "bounded_limit v hard least = Inr n \<longleftrightarrow> (\<exists>i. v = VInt i \<and> least \<le> i \<and> i \<le> hard \<and> n = nat i)"
  by (auto simp: bounded_limit_def split: pyval.splits)

lemma new_model_loop_ok:
  "new_model_loop prompt tools steps calls records bytes timeout seconds identity = Inr ml \<Longrightarrow> loop_ok ml"
  by (auto simp: new_model_loop_def bind_res_Inr_iff bounded_limit_Inr loop_ok_def max_agent_steps_def
    max_tool_calls_per_step_def max_tool_records_def max_tool_result_bytes_def split: if_splits)

text \<open>A counter that a step of the provider increases by at most \<open>a\<close> and a call of a tool by at most \<open>b\<close>.\<close>

definition counts :: "nat \<Rightarrow> nat \<Rightarrow> ('w \<Rightarrow> nat) \<Rightarrow> 'w provider_api \<Rightarrow> 'w host \<Rightarrow> bool" where
  "counts a b c pr host \<longleftrightarrow> (\<forall>m w. c (fst (pr_chat pr m w)) \<le> a + c w)
     \<and> (\<forall>tool args caller w. c (fst (host tool args caller w)) \<le> b + c w)"

lemma loop_dispatch_count:
  assumes "counts a b c pr host"
  shows "c (fst (loop_dispatch host ml tool args caller w)) \<le> b + c w"
proof -
  have "c (fst (host tool args caller w)) \<le> b + c w" using assms by (simp add: counts_def)
  then show ?thesis by (cases "host tool args caller w") (auto simp: loop_dispatch_def split: option.splits)
qed

lemma call_tools_count:
  assumes "counts a b c pr host"
  shows "c (fst (call_tools sh host ml t calls st w)) \<le> length calls * b + c w"
proof (induction calls arbitrary: st w)
  case (Cons x calls)
  show ?case
  proof (cases "bounded_arguments ml (tc_name x) (tc_args x)")
    case (Inr args)
    obtain w1 r where d: "loop_dispatch host ml (tc_name x) args (tn_caller t) w = (w1, r)" by fastforce
    have "c w1 \<le> b + c w"
      using loop_dispatch_count[OF assms, of ml "tc_name x" args "tn_caller t" w] d by simp
    then have "c (fst (call_tools sh host ml t calls st' w1)) \<le> b + length calls * b + c w" for st'
      using Cons.IH[of st' w1] by linarith
    with d Inr show ?thesis by simp
  qed simp
qed simp

lemma append_results_fst: "fst (append_tool_results sh host ml t calls st w) = fst (call_tools sh host ml t calls st w)"
  by (simp add: append_tool_results_def split: prod.splits sum.splits)

lemma run_steps_count:
  assumes "counts a b c pr host"
  shows "c (fst (run_steps sh wide pr host ml t n st w)) \<le> n * a + (n - 1) * (ml_calls ml * b) + c w"
proof (induction n arbitrary: st w)
  case (Suc n)
  obtain w1 x where ch: "pr_chat pr (lp_conversation st) w = (w1, x)" by fastforce
  with assms have w1: "c w1 \<le> a + c w" unfolding counts_def by (metis fst_conv)
  show ?case
  proof (cases "\<exists>r. x = Inr r \<and> rs_calls r \<noteq> [] \<and> within_call_limits ml (rs_calls r) n")
    case False
    with ch w1 show ?thesis by (cases x) (auto simp: Let_def)
  next
    case True
    then obtain r where r: "x = Inr r" "rs_calls r \<noteq> []" "within_call_limits ml (rs_calls r) n" by blast
    let ?st = "st\<lparr>lp_conversation := lp_conversation st @ [rs_dump r]\<rparr>"
    obtain w2 y where ap: "append_tool_results sh host ml t (rs_calls r) ?st w1 = (w2, y)" by fastforce
    from r(3) obtain k where k: "n = Suc k" and len: "length (rs_calls r) \<le> ml_calls ml"
      by (cases n) (auto simp: within_call_limits_def)
    have "c w2 \<le> length (rs_calls r) * b + c w1"
      using call_tools_count[OF assms, of sh ml t "rs_calls r" ?st w1] append_results_fst[of sh host ml t "rs_calls r" ?st w1] ap
      by simp
    also have "\<dots> \<le> ml_calls ml * b + (a + c w)" using w1 len by (intro add_mono mult_le_mono1)
    finally have w2: "c w2 \<le> ml_calls ml * b + (a + c w)" .
    show ?thesis
    proof (cases y)
      case (Inl e)
      with w2 ch r ap k show ?thesis by (simp add: Let_def)
    next
      case (Inr st')
      with Suc.IH[of st' w2] w2 ch r ap k show ?thesis by (simp add: Let_def)
    qed
  qed
qed simp

section \<open>What the conversation becomes\<close>

text \<open>A message from a tool is within the byte limit.\<close>

definition fits :: "model_loop \<Rightarrow> fields \<Rightarrow> bool" where
  "fits ml m \<longleftrightarrow> (get_or_None m ''role'' = VStr ''tool'' \<longrightarrow>
     (\<exists>c. get_or_None m ''content'' = VStr c \<and> byte_length c \<le> ml_bytes ml))"

lemma tool_message_fits: "256 \<le> ml_bytes ml \<Longrightarrow> fits ml (tool_message tool (serialize_tool_result sh ml tool r l))"
  by (simp add: fits_def tool_message_def get_or_None_def serialize_fits)

lemma call_tools_result:
  assumes "256 \<le> ml_bytes ml"
  shows "call_tools sh host ml t calls st w = (w', Inr st') \<Longrightarrow> lp_total st' = lp_total st
    \<and> (\<exists>rest. lp_conversation st' = lp_conversation st @ rest \<and> length rest = length calls \<and> (\<forall>m \<in> set rest. fits ml m))"
proof (induction calls arbitrary: st w)
  case (Cons x calls)
  from Cons.prems obtain args where args: "bounded_arguments ml (tc_name x) (tc_args x) = Inr args"
    by (auto split: sum.splits)
  obtain w1 r where d: "loop_dispatch host ml (tc_name x) args (tn_caller t) w = (w1, r)" by fastforce
  let ?m = "tool_message (tc_name x) (serialize_tool_result sh ml (tc_name x) r (tn_language t))"
  from Cons.IH[of "st\<lparr>lp_failure := failure_reason r (lp_failure st), lp_conversation := lp_conversation st @ [?m]\<rparr>" w1]
    Cons.prems args d obtain rest where "lp_total st' = lp_total st" "lp_conversation st' = (lp_conversation st @ [?m]) @ rest"
      "length rest = length calls" "\<forall>m \<in> set rest. fits ml m" by auto
  then show ?case using tool_message_fits[OF assms] by (intro conjI exI[of _ "?m # rest"]) auto
qed simp

definition assistant_role :: "'w provider_api \<Rightarrow> bool" where
  "assistant_role pr \<longleftrightarrow> (\<forall>m w w' r. pr_chat pr m w = (w', Inr r) \<longrightarrow> get_or_None (rs_dump r) ''role'' = VStr ''assistant'')"

lemma run_steps_result:
  assumes "256 \<le> ml_bytes ml" and "assistant_role pr"
  shows "run_steps sh wide pr host ml t n st w = (w', Inr r) \<Longrightarrow> ar_steps r \<le> ml_steps ml
    \<and> ar_calls r \<le> (n - 1) * ml_calls ml + lp_total st
    \<and> (\<exists>rest. ar_messages r = lp_conversation st @ rest \<and> (\<forall>m \<in> set rest. fits ml m))"
proof (induction n arbitrary: st w)
  case (Suc n)
  from Suc.prems obtain w1 x where ch: "pr_chat pr (lp_conversation st) w = (w1, Inr x)" by (auto split: prod.splits sum.splits)
  with assms(2) have dump: "fits ml (rs_dump x)" unfolding assistant_role_def fits_def by fastforce
  let ?st = "st\<lparr>lp_conversation := lp_conversation st @ [rs_dump x]\<rparr>"
  show ?case
  proof (cases "rs_calls x = []")
    case True
    with Suc.prems ch dump show ?thesis by (auto simp: Let_def)
  next
    case False
    with Suc.prems ch have lim: "within_call_limits ml (rs_calls x) n" by (auto simp: Let_def split: if_splits)
    with False Suc.prems ch obtain w2 st2 where ap: "append_tool_results sh host ml t (rs_calls x) ?st w1 = (w2, Inr st2)"
      and next_step: "run_steps sh wide pr host ml t n st2 w2 = (w', Inr r)"
      by (auto simp: Let_def split: prod.splits sum.splits)
    from lim obtain k where k: "n = Suc k" "length (rs_calls x) \<le> ml_calls ml" by (cases n) (auto simp: within_call_limits_def)
    from ap obtain st1 where "call_tools sh host ml t (rs_calls x) ?st w1 = (w2, Inr st1)"
      and st2: "st2 = st1\<lparr>lp_total := lp_total st1 + length (rs_calls x)\<rparr>"
      by (auto simp: append_tool_results_def split: prod.splits sum.splits)
    from call_tools_result[OF assms(1) this(1)] obtain rest where
      "lp_total st1 = lp_total st" "lp_conversation st1 = lp_conversation st @ rs_dump x # rest" "\<forall>m \<in> set rest. fits ml m"
      by auto
    with Suc.IH[OF next_step] k st2 dump show ?thesis by (auto simp: Ball_def) (fastforce+)?
  qed
qed simp

section \<open>The model never writes\<close>

lemma loop_dispatch_cong:
  assumes "\<And>tool. tool \<noteq> ''write_item'' \<Longrightarrow> host tool = host' tool"
  shows "loop_dispatch host = loop_dispatch host'"
proof (intro ext)
  fix ml tool args caller w
  show "loop_dispatch host ml tool args caller w = loop_dispatch host' ml tool args caller w"
    unfolding loop_dispatch_def by (rule if_cong[OF refl refl]) (simp only: assms not_False_eq_True)
qed

lemma call_tools_cong:
  "(\<And>tool. tool \<noteq> ''write_item'' \<Longrightarrow> host tool = host' tool) \<Longrightarrow> call_tools sh host ml t calls st w = call_tools sh host' ml t calls st w"
  using loop_dispatch_cong[of host host'] by (induction calls arbitrary: st w) (simp_all split: sum.splits prod.splits)

lemma run_steps_cong:
  assumes "\<And>tool. tool \<noteq> ''write_item'' \<Longrightarrow> host tool = host' tool"
  shows "run_steps sh wide pr host ml t n st w = run_steps sh wide pr host' ml t n st w"
  by (induction n arbitrary: st w)
    (simp_all add: append_tool_results_def call_tools_cong[of host host', OF assms] Let_def split: sum.splits prod.splits)

text \<open>C34: a turn of the loop ends after at most four answers of the model and twelve calls of tools, whatever the model
  asks for and however the tools answer; what a tool adds to the conversation never exceeds the byte limit of
  the loop, nothing that was there before is changed, and the writing tool is never called.\<close>

theorem loop_bounded:
  assumes "new_model_loop prompt tools steps calls records bytes timeout seconds identity = Inr ml"
    and "assistant_role pr" and "counts 1 0 chats pr host" and "counts 0 1 tool_calls pr host"
    and "run_loop sh wide pr host ml t messages w = (w', x)"
  shows "chats w' \<le> 4 + chats w \<and> tool_calls w' \<le> 12 + tool_calls w
    \<and> (\<forall>r. x = Inr r \<longrightarrow> ar_steps r \<le> 4 \<and> ar_calls r \<le> 12
         \<and> (\<exists>rest. ar_messages r = messages @ rest \<and> (\<forall>m \<in> set rest. fits ml m)))
    \<and> (\<forall>host'. (\<forall>tool. tool \<noteq> ''write_item'' \<longrightarrow> host' tool = host tool) \<longrightarrow>
         run_loop sh wide pr host' ml t messages w = (w', x))"
proof (cases "messages = []")
  case True
  with assms(5) show ?thesis by (auto simp: run_loop_def begin_loop_def)
next
  case False
  let ?st = "\<lparr>lp_conversation = messages, lp_total = 0, lp_failure = None\<rparr>"
  have ok: "ml_steps ml \<le> 4" "ml_calls ml \<le> 4" "256 \<le> ml_bytes ml"
    using new_model_loop_ok[OF assms(1)] by (auto simp: loop_ok_def)
  from False assms(5) have run: "run_steps sh wide pr host ml t (ml_steps ml) ?st w = (w', x)"
    by (simp add: run_loop_def begin_loop_def)
  have twelve: "(ml_steps ml - 1) * ml_calls ml \<le> 12" using mult_le_mono[of "ml_steps ml - 1" 3 "ml_calls ml" 4] ok by simp
  have "chats w' \<le> 4 + chats w"
    using run_steps_count[OF assms(3), of sh wide ml t "ml_steps ml" ?st w] run ok(1) by simp
  moreover have "tool_calls w' \<le> 12 + tool_calls w"
    using run_steps_count[OF assms(4), of sh wide ml t "ml_steps ml" ?st w] run twelve by simp
  moreover have "ar_steps r \<le> 4 \<and> ar_calls r \<le> 12 \<and> (\<exists>rest. ar_messages r = messages @ rest \<and> (\<forall>m \<in> set rest. fits ml m))"
    if "x = Inr r" for r
    using run_steps_result[OF ok(3) assms(2) run[unfolded that]] ok(1) twelve by auto
  moreover have "run_loop sh wide pr host' ml t messages w = (w', x)"
    if "\<forall>tool. tool \<noteq> ''write_item'' \<longrightarrow> host' tool = host tool" for host'
    using run_steps_cong[of host' host] that run False by (simp add: run_loop_def begin_loop_def)
  ultimately show ?thesis by blast
qed

section \<open>The streamed answer\<close>

text \<open>What comes out of the salutation for the pieces of an answer, with what is held back at the end.\<close>

fun spoken :: "string \<times> string \<Rightarrow> vocative \<Rightarrow> vocative_state \<Rightarrow> string list \<Rightarrow> string" where
  "spoken wide v st [] = vocative_finish st"
| "spoken wide v st (p # ps) = (if p = [] then spoken wide v st ps
     else case vocative_feed wide v st p of (st', out) \<Rightarrow> out @ spoken wide v st' ps)"

lemma spoken_resolved: "spoken wide v ([], True) ps = concat ps"
  by (induction ps) (simp_all add: vocative_finish_def vocative_feed_def)

lemma spoken_piece: "concat (ss_shown x) @ spoken wide v (ss_vocative x) (t # ps)
    = concat (ss_shown (show_piece wide v t x)) @ spoken wide v (ss_vocative (show_piece wide v t x)) ps"
  by (auto simp: show_piece_def split: prod.split)

lemma read_chunks_spoken:
  assumes "\<forall>c \<in> set chunks. rs_calls c = []"
  shows "ss_calls x = [] \<Longrightarrow> \<exists>x'. read_chunks sh wide dp v chunks x = (x', Inr ())
    \<and> ss_calls x' = [] \<and> ss_content x' = ss_content x @ concat (map content_of chunks)
    \<and> concat (stream_end sh wide dp v x') = concat (ss_shown x)
        @ spoken wide v (ss_vocative x) (display_feeds sh dp (ss_pending x) (filter (\<lambda>s. s \<noteq> []) (map content_of chunks)))"
  using assms
proof (induction chunks arbitrary: x)
  case Nil
  let ?t = "snd (display_finish sh dp (ss_pending x))"
  have "concat (stream_end sh wide dp v x) = concat (ss_shown (show_piece wide v ?t x)) @ spoken wide v (ss_vocative (show_piece wide v ?t x)) []"
    by (simp add: stream_end_def Let_def)
  also have "\<dots> = concat (ss_shown x) @ spoken wide v (ss_vocative x) [?t]"
    by (rule spoken_piece[symmetric])
  finally show ?case using Nil by simp
next
  case (Cons c cs)
  let ?x = "x\<lparr>ss_calls := [], ss_content := ss_content x @ content_of c\<rparr>"
  show ?case
  proof (cases "content_of c = []")
    case True
    from Cons.IH[of ?x] Cons.prems True show ?thesis by (simp add: Let_def)
  next
    case False
    obtain pending out where f: "display_feed sh dp (ss_pending x) (content_of c) = (pending, out)" by fastforce
    let ?y = "show_piece wide v out (?x\<lparr>ss_pending := pending\<rparr>)"
    have y: "ss_calls ?y = []" "ss_pending ?y = pending" "ss_content ?y = ss_content x @ content_of c"
      by (simp_all add: show_piece_def split: prod.split)
    have "read_chunks sh wide dp v (c # cs) x = read_chunks sh wide dp v cs ?y"
      using Cons.prems False f by (simp add: Let_def)
    moreover note Cons.IH[OF y(1)]
    moreover note spoken_piece[of "?x\<lparr>ss_pending := pending\<rparr>" wide v out]
    ultimately show ?thesis using Cons.prems False f y(2,3) by simp
  qed
qed

lemma casefold_append: "casefold (a @ b) = casefold a @ casefold b"
  by (simp add: casefold_def)

lemma casefold_longer: "length s \<le> length (casefold s)"
  by (induction s) (auto simp: casefold_def)

definition single_s :: "string \<Rightarrow> bool" where
  "single_s s \<longleftrightarrow> list_all (\<lambda>(a, b). \<not> (a = CHR ''s'' \<and> b = CHR ''s'')) (zip s (tl s))"

text \<open>Text that folds to something without a double s has at least as many characters.\<close>

lemma fold_prefix_length: "starts_with p (casefold s) \<Longrightarrow> single_s p \<Longrightarrow> length p \<le> length s"
proof (induction s arbitrary: p)
  case Nil
  then show ?case by (simp add: starts_with_def casefold_def)
next
  case (Cons c s)
  show ?case
  proof (cases p)
    case p: (Cons a p1)
    show ?thesis
    proof (cases "code_pt c = 223")
      case True
      with Cons.prems p show ?thesis
        by (cases p1) (auto simp: starts_with_def casefold_def single_s_def)
    next
      case False
      then have "starts_with p1 (casefold s)" "single_s p1"
        using Cons.prems p by (auto simp: starts_with_def casefold_def single_s_def) (cases p1; simp)
      with Cons.IH p show ?thesis by simp
    qed
  qed simp
qed

lemma lstrip_lstrip: "lstrip (lstrip a @ b) = lstrip (a @ b)"
  unfolding lstrip_def by (induction a) auto

text \<open>The name of an agent and the punctuation around it: single characters, and no double s.\<close>

definition plain_salutation :: "string \<times> string \<Rightarrow> string \<Rightarrow> bool" where
  "plain_salutation wide n \<longleftrightarrow> length (fst wide) = 1 \<and> length (snd wide) = 1
     \<and> list_all (\<lambda>p. single_s (casefold p)) (vocative_prefixes wide (Some n))"

definition salutes :: "string \<times> string \<Rightarrow> vocative \<Rightarrow> string \<Rightarrow> bool" where
  "salutes wide v s \<longleftrightarrow> list_ex (\<lambda>p. starts_with (casefold p) (casefold s)) (vocative_prefixes wide (vc_agent v))"

lemma starts_with_iff: "starts_with p s \<longleftrightarrow> (\<exists>r. s = p @ r)"
  unfolding starts_with_def by (metis append_eq_conv_conj)

lemma salutes_append: "salutes wide v s \<Longrightarrow> salutes wide v (s @ r)"
  by (fastforce simp: salutes_def list_ex_iff starts_with_iff casefold_append)

lemma spoken_whole:
  assumes n: "vc_agent v = Some n" "plain_salutation wide n"
  shows "\<not> salutes wide v held \<Longrightarrow>
    (if salutes wide v (held @ concat ps)
     then \<exists>r. spoken wide v (held, False) ps = address_prefix wide (vc_speaker v) (vc_language v) @ r
       \<and> lstrip r = lstrip (drop (Suc (length n)) (held @ concat ps))
     else spoken wide v (held, False) ps = held @ concat ps)"
proof (induction ps arbitrary: held)
  case (Cons p ps)
  let ?q = "held @ p" and ?pre = "vocative_prefixes wide (Some n)"
  have len: "length q = Suc (length n)" "single_s (casefold q)" if "q \<in> set ?pre" for q
    using that n(2) by (auto simp: plain_salutation_def vocative_prefixes_def list_all_iff split: if_splits)
  show ?case
  proof (cases "p = []")
    case True
    with Cons.IH[OF Cons.prems] show ?thesis by (simp del: drop_append)
  next
    case False
    show ?thesis
    proof (cases "find (\<lambda>q. starts_with (casefold q) (casefold ?q)) ?pre")
      case (Some q)
      then have q: "q \<in> set ?pre" "starts_with (casefold q) (casefold ?q)" by (auto simp: find_Some_iff)
      have "length q \<le> length ?q"
        using fold_prefix_length[OF q(2) len(2)[OF q(1)]] casefold_longer[of q] by simp
      then have d: "drop (Suc (length n)) (?q @ concat ps) = drop (length q) ?q @ concat ps" using len(1)[OF q(1)] by simp
      have "salutes wide v (?q @ concat ps)"
        by (rule salutes_append) (use q n in \<open>auto simp: salutes_def list_ex_iff\<close>)
      moreover have "spoken wide v (held, False) (p # ps)
          = address_prefix wide (vc_speaker v) (vc_language v) @ lstrip (drop (length q) ?q) @ concat ps"
        using False Some n by (simp add: vocative_feed_def Let_def spoken_resolved)
      ultimately show ?thesis using d by (auto simp: lstrip_lstrip)
    next
      case None
      then have no: "\<not> salutes wide v ?q" using n by (auto simp: salutes_def list_ex_iff find_None_iff)
      show ?thesis
      proof (cases "list_ex (\<lambda>q. starts_with (casefold ?q) (casefold q)) ?pre")
        case True
        then have "spoken wide v (held, False) (p # ps) = spoken wide v (?q, False) ps"
          using False None n by (simp add: vocative_feed_def Let_def)
        with Cons.IH[OF no] show ?thesis by (simp only: append_assoc concat.simps)
      next
        case out: False
        then have sp: "spoken wide v (held, False) (p # ps) = ?q @ concat ps"
          using False None n by (simp add: vocative_feed_def Let_def spoken_resolved)
        have "\<not> salutes wide v (?q @ concat ps)"
        proof
          assume "salutes wide v (?q @ concat ps)"
          then obtain q r where q: "q \<in> set ?pre" "casefold ?q @ casefold (concat ps) = casefold q @ r"
            using n by (auto simp: salutes_def list_ex_iff starts_with_iff casefold_append)
          then have "(\<exists>u. casefold ?q = casefold q @ u) \<or> (\<exists>u. casefold q = casefold ?q @ u)"
            by (metis append_eq_append_conv2)
          then show False
            using no out q(1) n by (auto simp: salutes_def list_ex_iff starts_with_iff)
        qed
        with sp show ?thesis by simp
      qed
    qed
  qed
qed (simp add: vocative_finish_def)

text \<open>The same answer, but for white space after a removed salutation: there the text that follows may keep what the
  answer without streaming drops.\<close>

definition same_speech :: "string \<times> string \<Rightarrow> vocative \<Rightarrow> string \<Rightarrow> string \<Rightarrow> bool" where
  "same_speech wide v streamed said \<longleftrightarrow> streamed = said \<or> vc_agent v \<noteq> None
     \<and> (\<exists>r. streamed = address_prefix wide (vc_speaker v) (vc_language v) @ r
          \<and> said = address_prefix wide (vc_speaker v) (vc_language v) @ lstrip r)"

lemma repair_spoken: "repair_self_vocative wide v s = (case vocative_feed wide v (vocative_start v) s of (st, out) \<Rightarrow> out @ vocative_finish st)"
  by (simp add: repair_self_vocative_def)

lemma lstrip_twice: "lstrip (lstrip s) = lstrip s"
  unfolding lstrip_def by (induction s) auto

lemma first_none: "vc_agent v = Some n \<Longrightarrow> plain_salutation wide n \<Longrightarrow> \<not> salutes wide v []"
  unfolding salutes_def list_ex_iff
proof (rule notI)
  assume n: "vc_agent v = Some n" "plain_salutation wide n"
    and "\<exists>p \<in> set (vocative_prefixes wide (vc_agent v)). starts_with (casefold p) (casefold [])"
  then obtain p where p: "p \<in> set (vocative_prefixes wide (Some n))" "casefold p = []"
    by (auto simp: starts_with_iff casefold_def)
  then have "p = []" using casefold_longer[of p] by simp
  with p(1) n(2) show False by (auto simp: vocative_prefixes_def plain_salutation_def split: if_splits)
qed

lemma spoken_same:
  assumes "\<And>n. vc_agent v = Some n \<Longrightarrow> plain_salutation wide n"
  shows "same_speech wide v (spoken wide v (vocative_start v) ps) (repair_self_vocative wide v (concat ps))"
proof (cases "vc_agent v")
  case None
  then show ?thesis
    by (simp add: same_speech_def vocative_start_def spoken_resolved repair_self_vocative_def vocative_feed_def vocative_finish_def)
next
  case (Some n)
  note n = Some assms[OF Some]
  have st: "vocative_start v = ([], False)" by (simp add: vocative_start_def Some)
  have "\<not> salutes wide v []" by (rule first_none[OF n])
  from spoken_whole[OF n this, of ps] have w: "if salutes wide v (concat ps)
     then \<exists>r. spoken wide v ([], False) ps = address_prefix wide (vc_speaker v) (vc_language v) @ r
       \<and> lstrip r = lstrip (drop (Suc (length n)) (concat ps))
     else spoken wide v ([], False) ps = concat ps" unfolding append_Nil .
  let ?a = "address_prefix wide (vc_speaker v) (vc_language v)"
  show ?thesis
  proof (cases "salutes wide v (concat ps)")
    case no: False
    then have "spoken wide v ([], False) ps = concat ps" using w by simp
    moreover have "repair_self_vocative wide v (concat ps) = concat ps"
      using no n unfolding repair_self_vocative_def st
      by (simp add: vocative_feed_def Let_def vocative_finish_def salutes_def list_ex_iff find_None_iff split: option.split)
        (auto simp: find_Some_iff)
    ultimately show ?thesis by (simp add: same_speech_def st)
  next
    case yes: True
    then obtain r where r: "spoken wide v ([], False) ps = ?a @ r" "lstrip r = lstrip (drop (Suc (length n)) (concat ps))"
      using w by auto
    obtain q where q: "find (\<lambda>q. starts_with (casefold q) (casefold (concat ps))) (vocative_prefixes wide (Some n)) = Some q"
      using yes n by (cases "find (\<lambda>q. starts_with (casefold q) (casefold (concat ps))) (vocative_prefixes wide (Some n))")
        (auto simp: salutes_def list_ex_iff find_None_iff)
    then have "length q = Suc (length n)"
      using n(2) by (auto simp: find_Some_iff plain_salutation_def vocative_prefixes_def list_all_iff split: if_splits)
        (auto simp: nth_Cons split: nat.splits)
    then have "repair_self_vocative wide v (concat ps) = ?a @ lstrip (drop (Suc (length n)) (concat ps))"
      using q n unfolding repair_self_vocative_def st by (simp add: vocative_feed_def Let_def vocative_finish_def)
    with r have "same_speech wide v (spoken wide v ([], False) ps) (repair_self_vocative wide v (concat ps))"
      unfolding same_speech_def Some by (auto simp: lstrip_twice)
    then show ?thesis by (simp add: st)
  qed
qed

lemma read_chunks_calls:
  "ss_calls x \<noteq> [] \<Longrightarrow> ss_shown x = [] \<Longrightarrow> \<exists>x'. read_chunks sh wide dp v chunks x = (x', Inr ())
    \<and> ss_shown x' = [] \<and> ss_calls x' = ss_calls x @ concat (map rs_calls chunks)
    \<and> ss_content x' = ss_content x @ concat (map content_of chunks)"
proof (induction chunks arbitrary: x)
  case (Cons c cs)
  from Cons.IH[of "x\<lparr>ss_calls := ss_calls x @ rs_calls c, ss_content := ss_content x @ content_of c\<rparr>"] Cons.prems
  show ?case by (simp add: Let_def)
qed simp

text \<open>A provider whose stream carries the response of its chat: the same text and the same calls, the calls first.\<close>

definition streams_chat :: "'w provider_api \<Rightarrow> bool" where
  "streams_chat pr \<longleftrightarrow> (\<forall>m w. case pr_chat pr m w of
     (w', Inl e) \<Rightarrow> pr_stream pr m w = (w', [], Some e)
   | (w', Inr r) \<Rightarrow> rs_dump r = assistant_message (content_of r) (rs_calls r)
       \<and> (\<exists>chunks. pr_stream pr m w = (w', chunks, None) \<and> content_of r = concat (map content_of chunks)
            \<and> rs_calls r = concat (map rs_calls chunks) \<and> (rs_calls r = [] \<or> rs_calls (hd chunks) \<noteq> [])))"

lemma read_chunks_calls_first:
  assumes "chunks \<noteq> []" and "rs_calls (hd chunks) \<noteq> []"
  shows "\<exists>x'. read_chunks sh wide dp v chunks (stream_start v) = (x', Inr ()) \<and> ss_shown x' = []
    \<and> ss_calls x' = concat (map rs_calls chunks) \<and> ss_content x' = concat (map content_of chunks)"
proof -
  from assms obtain c cs where c: "chunks = c # cs" "rs_calls c \<noteq> []" by (cases chunks) auto
  from read_chunks_calls[of "(stream_start v)\<lparr>ss_calls := rs_calls c, ss_content := content_of c\<rparr>" sh wide dp v cs] c
  show ?thesis by (simp add: Let_def stream_start_def)
qed

lemma resolver_assistant:
  "resolver_from_messages loads (m @ [assistant_message text calls]) values = resolver_from_messages loads m values"
  by (simp add: resolver_from_messages_def assistant_message_def get_or_None_def)

lemma concat_nonempty: "concat (filter (\<lambda>s. s \<noteq> []) xs) = concat xs"
  by (induction xs) auto

text \<open>One answer, streamed.\<close>

lemma answer_streamed:
  assumes "\<forall>n. vc_agent v = Some n \<longrightarrow> plain_salutation wide n" and "v = turn_vocative sh ml t" and "\<forall>c \<in> set chunks. rs_calls c = []"
    and "dump = assistant_message (concat (map content_of chunks)) []"
  shows "\<exists>x'. read_chunks sh wide (turn_display pr t st) v chunks (stream_start v) = (x', Inr ()) \<and> ss_calls x' = []
    \<and> ss_content x' = concat (map content_of chunks)
    \<and> same_speech wide v (concat (stream_end sh wide (turn_display pr t st) v x'))
        (final_answer sh wide pr ml t (st\<lparr>lp_conversation := lp_conversation st @ [dump]\<rparr>) (concat (map content_of chunks)))"
proof -
  let ?dp = "turn_display pr t st"
  let ?ps = "display_feeds sh ?dp [] (filter (\<lambda>s. s \<noteq> []) (map content_of chunks))"
  have w: "concat ?ps = render_text sh (dp_entities ?dp) (dp_language ?dp) (dp_expose ?dp) (dp_mode ?dp) (concat (map content_of chunks))"
    by (simp add: display_feeds_whole concat_nonempty)
  from read_chunks_spoken[OF assms(3), of "stream_start v" sh wide ?dp v]
  obtain x' where "read_chunks sh wide ?dp v chunks (stream_start v) = (x', Inr ())" "ss_calls x' = []"
    "ss_content x' = concat (map content_of chunks)" "concat (stream_end sh wide ?dp v x') = spoken wide v (vocative_start v) ?ps"
    by (auto simp: stream_start_def)
  moreover have "same_speech wide v (spoken wide v (vocative_start v) ?ps) (repair_self_vocative wide v (concat ?ps))"
    by (rule spoken_same) (use assms(1) in blast)
  ultimately show ?thesis using assms(2,4) w
    by (simp add: final_answer_def turn_display_def resolver_assistant)
qed

lemma streams_chat_steps:
  assumes "streams_chat pr" and "\<forall>n. map_of (ml_identity ml) (tn_language t) = Some n \<longrightarrow> plain_salutation wide n"
  shows "case run_steps sh wide pr host ml t n st w of
      (w', Inl e) \<Rightarrow> stream_steps sh wide pr host ml t n st w = (w', [], Inl e)
    | (w', Inr r) \<Rightarrow> (\<exists>pieces. stream_steps sh wide pr host ml t n st w = (w', pieces, Inr (ar_stop r))
        \<and> same_speech wide (turn_vocative sh ml t) (concat pieces) (ar_answer r))"
proof (induction n arbitrary: st w)
  case (Suc n)
  let ?v = "turn_vocative sh ml t" and ?dp = "turn_display pr t st"
  have agent: "\<forall>n. vc_agent ?v = Some n \<longrightarrow> plain_salutation wide n" using assms(2) by (simp add: turn_vocative_def)
  obtain w1 x where ch: "pr_chat pr (lp_conversation st) w = (w1, x)" by fastforce
  have link: "case (w1, x) of (w', Inl e) \<Rightarrow> pr_stream pr (lp_conversation st) w = (w', [], Some e)
    | (w', Inr r) \<Rightarrow> rs_dump r = assistant_message (content_of r) (rs_calls r)
       \<and> (\<exists>chunks. pr_stream pr (lp_conversation st) w = (w', chunks, None) \<and> content_of r = concat (map content_of chunks)
            \<and> rs_calls r = concat (map rs_calls chunks) \<and> (rs_calls r = [] \<or> rs_calls (hd chunks) \<noteq> []))"
    using assms(1)[unfolded streams_chat_def, THEN spec, THEN spec, of "lp_conversation st" w] unfolding ch .
  show ?case
  proof (cases x)
    case (Inl e)
    with ch link show ?thesis by (simp add: Let_def stream_start_def)
  next
    case (Inr r)
    with link obtain chunks where dump: "rs_dump r = assistant_message (content_of r) (rs_calls r)"
      and sm: "pr_stream pr (lp_conversation st) w = (w1, chunks, None)" and content: "content_of r = concat (map content_of chunks)"
      and calls: "rs_calls r = concat (map rs_calls chunks)" and first: "rs_calls r = [] \<or> rs_calls (hd chunks) \<noteq> []"
      by auto
    let ?st = "st\<lparr>lp_conversation := lp_conversation st @ [rs_dump r]\<rparr>"
    show ?thesis
    proof (cases "rs_calls r = []")
      case True
      with calls have "\<forall>c \<in> set chunks. rs_calls c = []" by auto
      from answer_streamed[OF agent refl this dump[unfolded True content], where pr = pr and st = st]
      obtain x' where "read_chunks sh wide ?dp ?v chunks (stream_start ?v) = (x', Inr ())" "ss_calls x' = []"
        "ss_content x' = concat (map content_of chunks)"
        "same_speech wide ?v (concat (stream_end sh wide ?dp ?v x')) (final_answer sh wide pr ml t ?st (concat (map content_of chunks)))"
        by auto
      with ch Inr sm True content dump show ?thesis by (simp add: Let_def final_reason_def)
    next
      case False
      with calls first have "chunks \<noteq> []" "rs_calls (hd chunks) \<noteq> []" by auto
      from read_chunks_calls_first[OF this, of sh wide ?dp ?v] obtain x' where
        rd: "read_chunks sh wide ?dp ?v chunks (stream_start ?v) = (x', Inr ())" "ss_shown x' = []" "ss_calls x' = rs_calls r"
          "ss_content x' = content_of r"
        using calls content by auto
      show ?thesis
      proof (cases "within_call_limits ml (rs_calls r) n")
        case lim: False
        with ch Inr sm rd False show ?thesis by (simp add: Let_def)
      next
        case lim: True
        obtain w2 y where ap: "append_tool_results sh host ml t (rs_calls r) ?st w1 = (w2, y)" by fastforce
        show ?thesis
        proof (cases y)
          case (Inl e)
          with ch Inr \<open>x = Inr r\<close> sm rd False lim ap dump show ?thesis by (simp add: Let_def)
        next
          case (Inr st2)
          have eq1: "run_steps sh wide pr host ml t (Suc n) st w = run_steps sh wide pr host ml t n st2 w2"
            using ch \<open>x = Inr r\<close> False lim ap Inr by (simp add: Let_def)
          have eq2: "stream_steps sh wide pr host ml t (Suc n) st w = stream_steps sh wide pr host ml t n st2 w2"
            using sm rd False lim ap Inr dump by (simp add: Let_def split: prod.splits)
          show ?thesis unfolding eq1 eq2 by (rule Suc.IH)
        qed
      qed
    qed
  qed
qed simp

text \<open>C35: for a provider whose stream carries what its chat answers, streaming and not streaming agree: the reason to
  stop is the same, and so is the exception when there is one, before which nothing has been shown. The pieces
  shown are together the answer, for an agent without a name in the language of the turn exactly, and for an agent
  with one whose spelling and punctuation fold character by character also when the model addresses itself:
  only the white space after a removed salutation may be shown although the answer without streaming drops
  it (it arrives in a later piece, which is not stripped).\<close>

theorem stream_agrees:
  assumes "streams_chat pr" and "\<forall>n. map_of (ml_identity ml) (tn_language t) = Some n \<longrightarrow> plain_salutation wide n"
  shows "case run_loop sh wide pr host ml t messages w of
      (w', Inl e) \<Rightarrow> stream_loop sh wide pr host ml t messages w = (w', [], Inl e)
    | (w', Inr r) \<Rightarrow> (\<exists>pieces. stream_loop sh wide pr host ml t messages w = (w', pieces, Inr (ar_stop r))
        \<and> same_speech wide (turn_vocative sh ml t) (concat pieces) (ar_answer r))"
proof (cases "messages = []")
  case True
  then show ?thesis by (simp add: run_loop_def stream_loop_def begin_loop_def)
next
  case False
  let ?st = "\<lparr>lp_conversation = messages, lp_total = 0, lp_failure = None\<rparr>"
  have eq: "run_loop sh wide pr host ml t messages w = run_steps sh wide pr host ml t (ml_steps ml) ?st w"
    "stream_loop sh wide pr host ml t messages w = stream_steps sh wide pr host ml t (ml_steps ml) ?st w"
    using False by (simp_all add: run_loop_def stream_loop_def begin_loop_def)
  show ?thesis unfolding eq by (rule streams_chat_steps[OF assms])
qed

end
