(* ===== verification/ToolHost.thy ===== *)
theory ToolHost
  imports Dispatcher ModelLoopFacts
begin

text \<open>
  The dispatcher as the host of the model loop. What a model can reach is what the allow-list names: the graph
  operations never, the writing service only where it is listed, and calendars only for an identified caller.
  The loop relies on the host through the locale \<open>tool_host\<close>: a call without an answer is one whose time limit
  passed, and no answer claims so itself.
\<close>

section \<open>What a model can reach\<close>

lemma public_no_graph:
  assumes "new_dispatcher allowed writing = Inr public" and "tool \<in> set graph_operations"
  shows "tool \<notin> set public"
proof -
  have "\<forall>n \<in> set public. n \<notin> set graph_operations"
    using assms(1) unfolding new_dispatcher_def Let_def if_Inl_Inr by auto
  with assms(2) show ?thesis by blast
qed

lemma graph_names: "tool \<in> set graph_operations \<longleftrightarrow> tool = ''resolve_entity_alias'' \<or> tool = ''get_entity'' \<or> tool = ''get_relationships''"
  by (simp only: graph_operations_def list.set insert_iff empty_iff simp_thms)

definition answer_code :: "fields \<Rightarrow> pyval" where
  "answer_code r = (case get_or_None r ''error'' of VDict e \<Rightarrow> get_or_None e ''code'' | _ \<Rightarrow> VNone)"

lemma tool_error_fields [simp]:
  "get_or_None (tool_error tool code message extra) ''ok'' = VBool False"
  "answer_code (tool_error tool code message extra) = VStr code"
  by (simp_all add: tool_error_def get_or_None_def answer_code_def)

text \<open>A call that is not an unknown tool runs the handler of a permitted tool on valid arguments, or reports that they
  are not valid.\<close>

lemma dispatch_call_cases:
  obtains (unknown) extra where "dispatch_call sv quote public tool args context caller internal ambient s
      = (s, tool_error tool ''unknown_tool'' (''Tool '' @ quote tool @ '' is not available'') extra)"
      "tool \<notin> set public \<or> argument_model sv tool = None"
  | (invalid) message extra where "dispatch_call sv quote public tool args context caller internal ambient s
      = (s, tool_error tool ''invalid_arguments'' message extra)"
  | (failed) valid s' e where "tool \<in> set public \<or> internal \<and> tool \<in> set graph_operations"
      "handle sv (graph_call sv quote public) tool valid context (case caller of None \<Rightarrow> ambient | Some c \<Rightarrow> Some c) s = (s', Inl e)"
      "dispatch_call sv quote public tool args context caller internal ambient s
      = (s', tool_error tool (failure_code e) (failure_message sv tool e) [])"
  | (answered) valid s' v where "tool \<in> set public \<or> internal \<and> tool \<in> set graph_operations"
      "handle sv (graph_call sv quote public) tool valid context (case caller of None \<Rightarrow> ambient | Some c \<Rightarrow> Some c) s = (s', Inr v)"
      "dispatch_call sv quote public tool args context caller internal ambient s
      = (s', [(''ok'', VBool True), (''tool'', VStr tool), (''result'', v)])"
proof (cases "argument_model sv tool")
  case None
  then show thesis by (intro unknown) (simp_all add: dispatch_call_def guarded_call_def)
next
  case (Some model)
  show thesis
  proof (cases "\<not> (tool \<in> set public \<or> internal \<and> tool \<in> set graph_operations)")
    case True
    with Some show thesis by (intro unknown) (simp_all add: dispatch_call_def guarded_call_def)
  next
    case ok: False
    show thesis
    proof (cases "\<exists>d valid. args = VDict d \<and> model d = Some valid")
      case False
      with Some ok show thesis by (cases args) (auto simp: dispatch_call_def guarded_call_def intro: invalid)
    next
      case True
      then obtain d valid where d: "args = VDict d" "model d = Some valid" by blast
      obtain s' r where h: "handle sv (graph_call sv quote public) tool valid context (case caller of None \<Rightarrow> ambient | Some c \<Rightarrow> Some c) s = (s', r)"
        by fastforce
      show thesis
      proof (cases r)
        case (Inl e)
        have "dispatch_call sv quote public tool args context caller internal ambient s
          = (s', tool_error tool (failure_code e) (failure_message sv tool e) [])"
          unfolding dispatch_call_def guarded_call_def Some d option.case pyval.case h[unfolded Inl] prod.case sum.case if_not_P[OF ok] ..
        with ok h Inl show thesis by (intro failed) auto
      next
        case (Inr v)
        have "dispatch_call sv quote public tool args context caller internal ambient s
          = (s', [(''ok'', VBool True), (''tool'', VStr tool), (''result'', v)])"
          unfolding dispatch_call_def guarded_call_def Some d option.case pyval.case h[unfolded Inr] prod.case sum.case if_not_P[OF ok] ..
        with ok h Inr show thesis by (intro answered) auto
      qed
    qed
  qed
qed

definition calendar_tools :: "string list" where
  "calendar_tools = [''calendar.list_events'', ''calendar.check_availability'']"

lemma then_db_Inl: "m = (s, Inl e) \<Longrightarrow> then_db m f = (s, Inl e)"
  by (simp add: then_db_def)

lemma listing_needs_caller: "\<exists>e. list_calendar_events db pr c s a b i p n None = (s, Inl e)"
  by (cases "parse_window db c a b") (auto simp: list_calendar_events_def then_db_def pure_db_def authorized_calendars_def)

lemma calendar_handlers:
  "handle sv graph ''calendar.list_events'' valid c k s = run_list_events sv valid k s"
  "handle sv graph ''calendar.check_availability'' valid c k s = run_check_availability sv valid k s"
  by (simp_all add: handle_def graph_names)

lemma calendar_needs_caller:
  assumes "tool \<in> set calendar_tools"
  shows "\<exists>e. handle sv graph tool valid context None s = (s, Inl e)"
proof (cases "sv_calendar sv")
  case None
  with assms show ?thesis
    by (auto simp: calendar_tools_def calendar_handlers run_list_events_def run_check_availability_def)
next
  case (Some c)
  obtain e where "list_calendar_events (sv_zones sv) (sv_provider sv) c s (arg_text valid ''start'') (arg_text valid ''end'')
      (arg_option valid ''calendar'') (arg_option valid ''person'') (arg_limit valid) None = (s, Inl e)"
    by (rule exE[OF listing_needs_caller])
  moreover obtain e' where "list_calendar_events (sv_zones sv) (sv_provider sv) c s (arg_text valid ''start'')
      (arg_text valid ''end'') (arg_option valid ''calendar'') (arg_option valid ''person'') (Some max_event_limit) None = (s, Inl e')"
    by (rule exE[OF listing_needs_caller])
  ultimately show ?thesis using assms Some
    by (auto simp: calendar_tools_def calendar_handlers run_list_events_def run_check_availability_def check_availability_def then_db_Inl)
qed

text \<open>Services that agree on the validation, and on the handler of every tool that may run.\<close>

lemma guarded_call_cong:
  assumes "argument_model sv' = argument_model sv" "sv_report sv' = sv_report sv" "sv_say sv' = sv_say sv"
    and "permitted \<Longrightarrow> h' = h"
  shows "guarded_call sv' quote public permitted h' tool args s = guarded_call sv quote public permitted h tool args s"
proof (cases permitted)
  case False
  then show ?thesis unfolding guarded_call_def assms(1) by (simp split: option.splits)
next
  case True
  show ?thesis unfolding guarded_call_def failure_message_def assms(1-3) assms(4)[OF True] ..
qed

lemma dispatch_call_cong:
  assumes "argument_model sv' = argument_model sv" "sv_report sv' = sv_report sv" "sv_say sv' = sv_say sv"
    and "tool \<in> set public \<or> internal \<and> tool \<in> set graph_operations \<Longrightarrow>
      handle sv' (graph_call sv' quote public) tool = handle sv (graph_call sv quote public) tool"
  shows "dispatch_call sv' quote public tool args context caller internal ambient s
    = dispatch_call sv quote public tool args context caller internal ambient s"
  unfolding dispatch_call_def by (rule guarded_call_cong) (use assms in auto)

lemma graph_call_internal:
  assumes "tool \<in> set graph_operations"
  shows "graph_call sv quote public tool args s = dispatch_internal sv quote public tool args caller ambient s"
proof -
  have "handle sv g tool valid c k = graph_handle sv tool valid" for g valid c k
    using assms by (intro ext) (simp add: handle_def)
  then show ?thesis using assms by (simp add: graph_call_def dispatch_internal_def dispatch_call_def)
qed

lemma handle_without_retrieval:
  assumes "tool \<notin> set graph_operations" and "tool \<in> set tool_names" and "tool \<noteq> ''write_item'' \<or> graph' = graph"
  shows "handle (sv\<lparr>sv_alias := a, sv_entity := b, sv_relationships := c\<rparr>) graph' tool = handle sv graph tool"
  using assms unfolding graph_names tool_names_def list.set insert_iff empty_iff
  by (intro ext) (auto simp: handle_def graph_names run_list_events_def run_check_availability_def cong: option.case_cong)

lemma handle_without_writing:
  assumes "tool \<in> set tool_names" and "tool \<noteq> ''write_item''"
  shows "handle (sv\<lparr>sv_write := d\<rparr>) graph' tool = handle sv graph tool"
  using assms unfolding tool_names_def list.set insert_iff empty_iff
  by (intro ext) (elim disjE; simp add: handle_def graph_handle_def graph_names run_list_events_def run_check_availability_def
      cong: option.case_cong)

lemma public_known: "new_dispatcher allowed writing = Inr public \<Longrightarrow> tool \<in> set public \<Longrightarrow> tool \<in> set tool_names"
  unfolding new_dispatcher_def Let_def if_Inl_Inr by auto

lemma argument_model_updates:
  "argument_model (sv\<lparr>sv_alias := a, sv_entity := b, sv_relationships := c\<rparr>) = argument_model sv"
  "argument_model (sv\<lparr>sv_write := d\<rparr>) = argument_model sv"
  by (simp_all add: argument_model_def)

text \<open>C38: what a model can reach through the dispatcher is confined to the allow-list: a graph operation or a tool that is
  not listed is answered as unknown with nothing done; what retrieval would answer has no influence on any
  tool but a listed \<open>write_item\<close>, and on that one only through the internal graph calls by which it resolves names;
  the writing service has none where \<open>write_item\<close> is not listed; and without an identified caller no call of a
  calendar tool succeeds.\<close>

theorem dispatch_confined:
  assumes "new_dispatcher allowed writing = Inr public"
  shows "(tool \<in> set graph_operations \<or> tool \<notin> set public \<longrightarrow>
        fst (dispatch sv quote public tool args context caller ambient s) = s
        \<and> answer_code (snd (dispatch sv quote public tool args context caller ambient s)) = VStr ''unknown_tool'')
    \<and> (tool \<noteq> ''write_item'' \<or> ''write_item'' \<notin> set public
         \<or> graph_call (sv\<lparr>sv_alias := a, sv_entity := b, sv_relationships := c\<rparr>) quote public = graph_call sv quote public \<longrightarrow>
        dispatch (sv\<lparr>sv_alias := a, sv_entity := b, sv_relationships := c\<rparr>) quote public tool args context caller ambient s
        = dispatch sv quote public tool args context caller ambient s)
    \<and> (''write_item'' \<notin> set public \<longrightarrow> dispatch (sv\<lparr>sv_write := d\<rparr>) quote public tool args context caller ambient s
        = dispatch sv quote public tool args context caller ambient s)
    \<and> (tool \<in> set calendar_tools \<longrightarrow>
        get_or_None (snd (dispatch sv quote public tool args None None None s)) ''ok'' = VBool False)"
proof (intro conjI impI)
  assume "tool \<in> set graph_operations \<or> tool \<notin> set public"
  with public_no_graph[OF assms] have out: "tool \<notin> set public" by blast
  have "dispatch sv quote public tool args context caller ambient s
    = (s, tool_error tool ''unknown_tool'' (''Tool '' @ quote tool @ '' is not available'') [(''available_tools'', strings (sorted_names public))])"
    using out by (simp add: dispatch_def dispatch_call_def guarded_call_def split: option.splits)
  then show "fst (dispatch sv quote public tool args context caller ambient s) = s"
    "answer_code (snd (dispatch sv quote public tool args context caller ambient s)) = VStr ''unknown_tool''" by simp_all
next
  let ?sv = "sv\<lparr>sv_alias := a, sv_entity := b, sv_relationships := c\<rparr>"
  assume "tool \<noteq> ''write_item'' \<or> ''write_item'' \<notin> set public \<or> graph_call ?sv quote public = graph_call sv quote public"
  then have h: "handle ?sv (graph_call ?sv quote public) tool = handle sv (graph_call sv quote public) tool"
    if "tool \<in> set public" using handle_without_retrieval public_no_graph[OF assms] public_known[OF assms] that by blast
  have eq: "dispatch_call ?sv quote public tool args context k False ambient s
      = dispatch_call sv quote public tool args context k False ambient s" for k
    by (rule dispatch_call_cong) (simp_all add: argument_model_updates h)
  show "dispatch ?sv quote public tool args context caller ambient s
      = dispatch sv quote public tool args context caller ambient s"
    by (simp add: dispatch_def eq cong: option.case_cong)
next
  assume "''write_item'' \<notin> set public"
  then have h: "handle (sv\<lparr>sv_write := d\<rparr>) (graph_call (sv\<lparr>sv_write := d\<rparr>) quote public) tool
      = handle sv (graph_call sv quote public) tool" if "tool \<in> set public"
    using handle_without_writing public_known[OF assms] that by blast
  have eq: "dispatch_call (sv\<lparr>sv_write := d\<rparr>) quote public tool args context k False ambient s
      = dispatch_call sv quote public tool args context k False ambient s" for k
    by (rule dispatch_call_cong) (simp_all add: argument_model_updates h)
  show "dispatch (sv\<lparr>sv_write := d\<rparr>) quote public tool args context caller ambient s
      = dispatch sv quote public tool args context caller ambient s"
    by (simp add: dispatch_def eq cong: option.case_cong)
next
  assume cal: "tool \<in> set calendar_tools"
  have no: "\<nexists>s' v. handle sv graph tool valid None None s = (s', Inr v)" for graph valid
    using calendar_needs_caller[OF cal, of sv graph valid None s] by auto
  show "get_or_None (snd (dispatch sv quote public tool args None None None s)) ''ok'' = VBool False"
    by (cases rule: dispatch_call_cases[of sv quote public tool args None None False None s])
      (use no in \<open>auto simp: dispatch_def\<close>)
qed

section \<open>The host of the loop\<close>

text \<open>What the loop relies on: whether some call exceeded its time limit so far can be told from the world, exactly the
  calls without an answer did, and no answer has the code of a passed limit.\<close>

locale tool_host =
  fixes host :: "'w host" and slow :: "'w \<Rightarrow> bool"
  assumes expired: "host tool args caller w = (w', x) \<Longrightarrow> slow w' \<longleftrightarrow> slow w \<or> x = None"
    and no_timeout_code: "host tool args caller w = (w', Some r) \<Longrightarrow> error_code r \<noteq> VStr ''tool_timeout''"
begin

lemma dispatch_slow:
  assumes "loop_dispatch host ml tool args caller w = (w', r)"
  shows "failure_reason r now = Some Timeout \<and> slow w' \<or> (failure_reason r now = Some Timeout \<longleftrightarrow> now = Some Timeout) \<and> slow w' = slow w"
proof (cases "tool = ''write_item''")
  case True
  with assms show ?thesis
    by (auto simp: loop_dispatch_def failure_reason_def refusal_def error_code_def get_or_None_def)
next
  case False
  obtain w1 x where h: "host tool args caller w = (w1, x)" by fastforce
  show ?thesis
  proof (cases x)
    case None
    with h assms False have "w' = w1" "r = refusal tool ''tool_timeout''
          (''Tool execution exceeded the '' @ ml_seconds ml @ '' second limit'')" by (simp_all add: loop_dispatch_def)
    with h None expired[OF h] show ?thesis
      by (simp add: failure_reason_def refusal_def error_code_def get_or_None_def)
  next
    case (Some y)
    with h assms False have "w' = w1" "r = y" by (simp_all add: loop_dispatch_def)
    with h Some expired[OF h] no_timeout_code[of tool args caller w w1 y] show ?thesis
      by (simp add: failure_reason_def)
  qed
qed

lemma call_tools_slow:
  "call_tools sh host ml t calls st w = (w', Inr st') \<Longrightarrow> (lp_failure st = Some Timeout \<longleftrightarrow> slow w)
    \<Longrightarrow> (lp_failure st' = Some Timeout \<longleftrightarrow> slow w')"
proof (induction calls arbitrary: st w)
  case (Cons x calls)
  from Cons.prems(1) obtain args where args: "bounded_arguments ml (tc_name x) (tc_args x) = Inr args"
    by (auto split: sum.splits)
  obtain w1 r where d: "loop_dispatch host ml (tc_name x) args (tn_caller t) w = (w1, r)" by fastforce
  let ?st = "st\<lparr>lp_failure := failure_reason r (lp_failure st), lp_conversation := lp_conversation st @
      [tool_message (tc_name x) (serialize_tool_result sh ml (tc_name x) r (tn_language t))]\<rparr>"
  have f: "lp_failure ?st = Some Timeout \<longleftrightarrow> slow w1"
    using dispatch_slow[OF d, of "lp_failure st"] Cons.prems(2) by auto
  have g: "call_tools sh host ml t calls ?st w1 = (w', Inr st')"
    using Cons.prems(1) args d by simp
  show ?case by (rule Cons.IH[OF g f])
qed simp

lemma run_steps_slow:
  assumes "\<And>m w. slow (fst (pr_chat pr m w)) = slow w"
  shows "run_steps sh wide pr host ml t n st w = (w', Inr r) \<Longrightarrow> (lp_failure st = Some Timeout \<longleftrightarrow> slow w)
    \<Longrightarrow> (ar_stop r = Timeout \<longleftrightarrow> slow w')"
proof (induction n arbitrary: st w)
  case (Suc n)
  from Suc.prems(1) obtain w1 x where ch: "pr_chat pr (lp_conversation st) w = (w1, Inr x)" by (auto split: prod.splits sum.splits)
  with assms have w1: "slow w1 = slow w" by (metis fst_conv)
  let ?st = "st\<lparr>lp_conversation := lp_conversation st @ [rs_dump x]\<rparr>"
  show ?case
  proof (cases "rs_calls x = []")
    case True
    from Suc.prems(1) ch True have stop: "ar_stop r = final_reason ?st" "w' = w1" by (auto simp: Let_def)
    show ?thesis using Suc.prems(2) w1 by (cases "lp_failure st") (auto simp: stop final_reason_def)
  next
    case False
    with Suc.prems(1) ch obtain w2 st2 where ap: "append_tool_results sh host ml t (rs_calls x) ?st w1 = (w2, Inr st2)"
      and next_step: "run_steps sh wide pr host ml t n st2 w2 = (w', Inr r)"
      by (auto simp: Let_def split: prod.splits sum.splits if_splits)
    from ap obtain st1 where "call_tools sh host ml t (rs_calls x) ?st w1 = (w2, Inr st1)" "lp_failure st2 = lp_failure st1"
      by (auto simp: append_tool_results_def split: prod.splits sum.splits)
    with call_tools_slow[OF this(1)] Suc.prems(2) w1 have "lp_failure st2 = Some Timeout \<longleftrightarrow> slow w2" by simp
    from Suc.IH[OF next_step this] show ?thesis .
  qed
qed simp

lemma timeout_exact:
  assumes "\<And>m w. slow (fst (pr_chat pr m w)) = slow w" and "\<not> slow w"
    and "run_loop sh wide pr host ml t messages w = (w', Inr r)"
  shows "ar_stop r = Timeout \<longleftrightarrow> slow w'"
proof -
  from assms(3) have "run_steps sh wide pr host ml t (ml_steps ml) \<lparr>lp_conversation = messages, lp_total = 0, lp_failure = None\<rparr> w
      = (w', Inr r)" by (simp add: run_loop_def begin_loop_def split: if_splits)
  from run_steps_slow[OF assms(1) this] assms(2) show ?thesis by simp
qed

end

text \<open>\<open>asyncio.wait_for\<close> around the dispatcher: \<open>late\<close> says of a call, in the state it starts in, that it takes longer than the
  limit; the flag of the world records that there was one.\<close>

definition timed_host ::
  "('c, 's) services \<Rightarrow> (string \<Rightarrow> string) \<Rightarrow> string list \<Rightarrow> (string \<Rightarrow> pyval \<Rightarrow> 's \<Rightarrow> bool) \<Rightarrow> ('s \<times> bool) host" where
  "timed_host sv quote public late tool args caller w = (case dispatch sv quote public tool args None caller None (fst w) of
     (s, r) \<Rightarrow> if late tool args (fst w) then ((s, True), None) else ((s, snd w), Some r))"

lemma failure_code_no_timeout: "failure_code e \<noteq> ''tool_timeout''"
  by (simp add: failure_code_def)

lemma dispatch_no_timeout:
  "error_code (snd (dispatch sv quote public tool args context caller ambient s)) \<noteq> VStr ''tool_timeout''"
  by (cases rule: dispatch_call_cases[of sv quote public tool args "context"
        "case context of Some c \<Rightarrow> sv_caller sv c | None \<Rightarrow> caller" False ambient s])
    (auto simp: dispatch_def error_code_def tool_error_def get_or_None_def failure_code_no_timeout)

interpretation dispatcher: tool_host "timed_host sv quote public late" snd
proof
  show "snd w' = (snd w \<or> r = None)" if "timed_host sv quote public late tool args caller w = (w', r)" for tool args caller w w' r
    using that by (auto simp: timed_host_def split: prod.splits if_splits)
  show "error_code r \<noteq> VStr ''tool_timeout''" if "timed_host sv quote public late tool args caller w = (w', Some r)"
    for tool args caller w w' r
    using that dispatch_no_timeout[of sv quote public tool args None caller None "fst w"]
    by (auto simp: timed_host_def split: prod.splits if_splits)
qed

text \<open>C37: over the dispatcher, a turn that comes to an answer stops for the reason "timeout" exactly when one of its tool calls
  exceeded the time limit: no later success and no other failure hides it, and no answer of a tool imitates it.\<close>

theorem timeout_reported:
  assumes "\<forall>m w. snd (fst (pr_chat pr m w)) = snd w" and "\<not> snd w"
    and "run_loop sh wide pr (timed_host sv quote public late) ml t messages w = (w', Inr r)"
  shows "ar_stop r = Timeout \<longleftrightarrow> snd w'"
  using dispatcher.timeout_exact[OF _ assms(2,3)] assms(1) by blast

end
