(* ===== verification/CalculationFacts.thy ===== *)
theory CalculationFacts
  imports Calculation
begin

text \<open>
  The calculator stays within its limits: every value that an evaluation can reach over the tables is a number
  within them, and an arithmetic error never leaves the tables as anything but the calculator's own.
\<close>

definition within_limits :: "pyval \<Rightarrow> bool" where
  "within_limits v \<longleftrightarrow> (case v of VInt i \<Rightarrow> \<bar>i\<bar> \<le> max_abs_int | VFloat (Fin q) \<Rightarrow> \<bar>q\<bar> \<le> max_abs_float | _ \<Rightarrow> False)"

lemma finite_number_Inr: "finite_number v = Inr w \<longleftrightarrow> w = v \<and> within_limits v"
  by (auto simp: finite_number_def within_limits_def split: pyval.splits pyfloat.splits if_splits)

lemma finite_number_Inl: "finite_number v = Inl e \<Longrightarrow> e = CalculationError"
  by (auto simp: finite_number_def split: pyval.splits pyfloat.splits if_splits)

lemma limited_Inr: "limited r = Inr w \<Longrightarrow> within_limits w"
  by (auto simp: limited_def finite_number_Inr split: sum.splits)

lemma called_Inr: "called r = Inr w \<Longrightarrow> within_limits w"
  by (auto simp: called_def finite_number_Inr split: sum.splits)

text \<open>The values of an evaluation: constants, names, and what operators and functions make of values.\<close>

inductive computed :: "libm \<Rightarrow> pyval \<Rightarrow> bool" for lm where
  of_constant: "ct_constant (arithmetic_tables lm) c = Inr v \<Longrightarrow> computed lm v"
| of_name: "ct_name (arithmetic_tables lm) n = Inr v \<Longrightarrow> computed lm v"
| of_binary: "computed lm a \<Longrightarrow> computed lm b \<Longrightarrow> ct_binary (arithmetic_tables lm) p = Some f \<Longrightarrow> f a b = Inr v \<Longrightarrow> computed lm v"
| of_unary: "computed lm a \<Longrightarrow> ct_unary (arithmetic_tables lm) p = Some f \<Longrightarrow> f a = Inr v \<Longrightarrow> computed lm v"
| of_function: "\<forall>a \<in> set args. computed lm a \<Longrightarrow> ct_function (arithmetic_tables lm) n args kws = Some (Inr v) \<Longrightarrow> computed lm v"

lemma names_within: "calculator_names n = Some v \<Longrightarrow> within_limits v"
  by (auto simp: calculator_names_def within_limits_def max_abs_float_def split: if_splits)

lemma computed_within: "computed lm v \<Longrightarrow> within_limits v"
proof (induction rule: computed.induct)
  case (of_function args n kws v)
  then show ?case
    by (auto simp: arithmetic_tables_def call_function_def split: if_splits dest: called_Inr)
qed (auto simp: arithmetic_tables_def finite_number_Inr split: option.splits dest: names_within limited_Inr)

definition numeric :: "pyval \<Rightarrow> bool" where
  "numeric v \<longleftrightarrow> (case v of VInt i \<Rightarrow> True | VFloat f \<Rightarrow> True | _ \<Rightarrow> False)"

lemma within_num: "within_limits v \<Longrightarrow> numeric v"
  by (auto simp: within_limits_def numeric_def split: pyval.splits)

lemma to_float_Inl: "to_float v = Inl e \<Longrightarrow> e = OverflowError \<or> e = TypeError"
  by (auto simp: to_float_def bind_res_iff float_of_int_def split: pyval.splits pyfloat.splits)

lemma to_float_num: "numeric v \<Longrightarrow> to_float v = Inl e \<Longrightarrow> e = OverflowError"
  by (auto simp: to_float_def numeric_def bind_res_iff float_of_int_def split: pyval.splits pyfloat.splits)

lemma num_op_Inl: "num_op fi ff a b = Inl e \<Longrightarrow> e = OverflowError \<or> e = TypeError"
  unfolding num_op_def by (auto simp: bind_res_iff split: pyval.splits dest: to_float_Inl)

lemma num_op_num: "numeric a \<Longrightarrow> numeric b \<Longrightarrow> num_op fi ff a b = Inl e \<Longrightarrow> e = OverflowError"
  unfolding num_op_def by (auto simp: bind_res_iff split: pyval.splits dest: to_float_num)

lemma float_quotient_Inl:
  "(case y of Fin q \<Rightarrow> if q = 0 then Inl ZeroDivisionError else Inr (g q) | NaN \<Rightarrow> Inr n | _ \<Rightarrow> Inr m) = Inl e \<Longrightarrow> e = ZeroDivisionError"
  by (cases y) (auto split: if_splits)

lemma py_div_num: "numeric a \<Longrightarrow> numeric b \<Longrightarrow> py_div a b = Inl e \<Longrightarrow> e = OverflowError \<or> e = ZeroDivisionError"
proof (cases "\<exists>i j. as_int a = VInt i \<and> as_int b = VInt j")
  case False
  assume n: "numeric a" "numeric b" and d: "py_div a b = Inl e"
  from False d have "bind_res (to_float a) (\<lambda>x. bind_res (to_float b) (\<lambda>y. case y of
        Fin q \<Rightarrow> if q = 0 then Inl ZeroDivisionError else Inr (VFloat (fdiv x q))
      | NaN \<Rightarrow> Inr (VFloat NaN)
      | _ \<Rightarrow> Inr (VFloat (if finite_float x then Fin 0 else NaN)))) = Inl e"
    unfolding py_div_def by (auto split: pyval.splits)
  then consider "to_float a = Inl e" | "to_float b = Inl e" | x y where "(case y of
        Fin q \<Rightarrow> if q = 0 then Inl ZeroDivisionError else Inr (VFloat (fdiv x q))
      | NaN \<Rightarrow> Inr (VFloat NaN)
      | _ \<Rightarrow> Inr (VFloat (if finite_float x then Fin 0 else NaN))) = Inl e"
    unfolding bind_res_Inl_iff by blast
  then show ?thesis using n by cases (auto dest: to_float_num float_quotient_Inl)
qed (auto simp: py_div_def split: if_splits pyfloat.splits)

lemma div_op_num: "numeric a \<Longrightarrow> numeric b \<Longrightarrow> div_op fi part a b = Inl e \<Longrightarrow> e = OverflowError \<or> e = ZeroDivisionError"
  unfolding div_op_def by (auto simp: bind_res_iff split: pyval.splits if_splits dest: to_float_num)

text \<open>What the C library may raise.\<close>

definition libm_ok :: "libm \<Rightarrow> bool" where
  "libm_ok lm \<longleftrightarrow> (\<forall>x y e. lm_pow lm x y = Inl e \<longrightarrow> e \<in> {OverflowError, ZeroDivisionError})
     \<and> (\<forall>n args e. lm_call lm n args = Inl e \<longrightarrow> e \<in> {TypeError, ValueError, OverflowError, ZeroDivisionError})"

lemma py_pow_Inl:
  "libm_ok lm \<Longrightarrow> py_pow lm a b = Inl e \<Longrightarrow> e \<in> {OverflowError, ZeroDivisionError} \<or> e = TypeError \<and> \<not> (numeric a \<and> numeric b)"
  unfolding py_pow_def libm_ok_def
  by (auto simp: bind_res_iff split: pyval.splits if_splits dest: to_float_num to_float_Inl)

lemma checked_pow_Inl:
  assumes "libm_ok lm" and "checked_pow lm a b = Inl e"
  shows "e \<in> {CalculationError, ZeroDivisionError} \<or> e = TypeError \<and> \<not> (numeric a \<and> numeric b)"
proof -
  from assms(2) consider "abs_above max_power_abs_exponent b = Inl e" | "e = CalculationError" | "py_pow lm a b = Inl e" "e \<noteq> OverflowError"
    by (auto simp: checked_pow_def bind_res_iff split: if_splits sum.splits exn.splits)
  then show ?thesis
  proof cases
    case 1
    then show ?thesis by (auto simp: abs_above_def numeric_def split: option.splits pyval.splits)
  next
    case 3
    with py_pow_Inl[OF assms(1) 3(1)] show ?thesis by auto
  qed simp
qed

lemma binary_Inl:
  assumes "libm_ok lm" and "binary_operator lm p = Some f" and "numeric a" "numeric b" and "f a b = Inl e"
  shows "e \<in> {CalculationError, OverflowError, ZeroDivisionError}"
proof -
  from assms(2) have "f \<in> {py_add, py_sub, py_mul, py_div, div_op (div) fst, div_op (mod) snd, checked_pow lm}"
    by (auto simp: binary_operator_def split: if_splits)
  with assms(3-5) checked_pow_Inl[OF assms(1), of a b e] show ?thesis
    by (auto simp: py_add_def py_sub_def py_mul_def dest: num_op_num py_div_num div_op_num)
qed

lemma sum_plain_Inl: "sum_plain a vs = Inl e \<Longrightarrow> e = OverflowError \<or> e = TypeError"
  by (induction vs arbitrary: a) (auto simp: bind_res_iff py_add_def dest: num_op_Inl)

lemma sum_floats_Inl: "sum_floats f c vs = Inl e \<Longrightarrow> e = OverflowError \<or> e = TypeError"
proof (induction vs arbitrary: f c)
  case (Cons v vs)
  then show ?case
    by (cases v) (auto simp: Let_def bind_res_iff py_add_def split: if_splits dest: num_op_Inl to_float_Inl sum_plain_Inl)
qed simp

lemma sum_next_Inl:
  assumes "bind_res (py_add a v) (\<lambda>r. case r of VFloat f \<Rightarrow> sum_floats f (Fin 0) vs | _ \<Rightarrow> sum_plain r vs) = Inl e"
  shows "e = OverflowError \<or> e = TypeError"
proof (cases "py_add a v")
  case (Inl x)
  with assms show ?thesis by (simp add: py_add_def num_op_Inl)
next
  case (Inr r)
  with assms show ?thesis by (cases r) (simp_all add: sum_plain_Inl sum_floats_Inl)
qed

lemma sum_ints_Inl: "sum_ints i vs = Inl e \<Longrightarrow> e = OverflowError \<or> e = TypeError"
proof (induction vs arbitrary: i)
  case (Cons v vs)
  show ?case
  proof (cases "\<exists>b. v = VInt b")
    case True
    with Cons show ?thesis by (auto split: if_splits dest: sum_plain_Inl)
  next
    case False
    with Cons.prems have "bind_res (py_add (VInt i) v)
        (\<lambda>r. case r of VFloat f \<Rightarrow> sum_floats f (Fin 0) vs | _ \<Rightarrow> sum_plain r vs) = Inl e" by (cases v) simp_all
    then show ?thesis by (rule sum_next_Inl)
  qed
qed simp

lemma py_less_Inl: "py_less le x y = Inl e \<Longrightarrow> e = TypeError" "less_list le xs ys = Inl e \<Longrightarrow> e = TypeError"
  by (induction le x y and le xs ys rule: py_less_less_list.induct) (auto split: pyval.splits option.splits list.splits if_splits)

lemma extreme_Inl: "extreme m f x xs = Inl e \<Longrightarrow> e = TypeError"
  by (induction xs arbitrary: x) (auto simp: bind_res_iff split: if_splits dest: py_less_Inl)

lemma plain_function_Inl:
  assumes "libm_ok lm" and "plain_function lm n = Some f" and "f args = Inl e"
  shows "e \<in> {CalculationError, TypeError, ValueError, OverflowError, ZeroDivisionError}"
proof (cases "n \<in> set (''round'' # math_names)")
  case True
  with assms(2) have "f = lm_call lm n" by (simp add: plain_function_def)
  with assms show ?thesis unfolding libm_ok_def by blast
next
  case False
  with assms(2) consider "f = (\<lambda>args. case args of [v] \<Rightarrow> py_abs v | _ \<Rightarrow> Inl TypeError)"
    | "f = (\<lambda>args. case args of [v] \<Rightarrow> checked_factorial v | _ \<Rightarrow> Inl TypeError)"
    | "f = py_extreme False" | "f = py_extreme True"
    | "f = (\<lambda>args. case args of [a, b] \<Rightarrow> checked_pow lm a b | _ \<Rightarrow> Inl TypeError)" | "f = py_sum"
    unfolding plain_function_def by (auto split: if_splits)
  then show ?thesis
    using assms(3) checked_pow_Inl[OF assms(1)]
    by cases (auto simp: py_abs_def checked_factorial_def py_extreme_def py_sum_def simp del: extreme.simps
        split: list.splits pyval.splits if_splits dest: extreme_Inl sum_ints_Inl)
qed

text \<open>C39: every value that an evaluation can reach over the tables of the calculator is a number within the limits, and
  so is every result; on such values an operator fails with the calculator's own error only, whatever Python
  raised, and a function with that or a \<open>ValueError\<close>. The evaluator itself may be any.\<close>

theorem calculator_bounded:
  assumes "libm_ok lm"
  shows "(\<forall>v. computed lm v \<longrightarrow> within_limits v)
    \<and> (\<forall>parse seval s v. evaluate_expression lm parse seval s = Inr v \<longrightarrow> within_limits v)
    \<and> (\<forall>p f a b e. ct_binary (arithmetic_tables lm) p = Some f \<and> computed lm a \<and> computed lm b \<and> f a b = Inl e
         \<longrightarrow> e = CalculationError)
    \<and> (\<forall>p f a e. ct_unary (arithmetic_tables lm) p = Some f \<and> computed lm a \<and> f a = Inl e \<longrightarrow> e = CalculationError)
    \<and> (\<forall>n args kws e. ct_function (arithmetic_tables lm) n args kws = Some (Inl e) \<longrightarrow> e = CalculationError \<or> e = ValueError)"
proof (intro conjI allI impI)
  fix parse seval s v assume "evaluate_expression lm parse seval s = Inr v"
  then show "within_limits v"
    by (auto simp: evaluate_expression_def Let_def bind_res_iff finite_number_Inr
        split: if_splits option.splits sum.splits eval_error.splits)
next
  fix p f a b e assume A: "ct_binary (arithmetic_tables lm) p = Some f \<and> computed lm a \<and> computed lm b \<and> f a b = Inl e"
  then obtain g where g: "binary_operator lm p = Some g" "limited (g a b) = Inl e" by (auto simp: arithmetic_tables_def)
  from A have "numeric a" "numeric b" by (auto dest: computed_within within_num)
  with g binary_Inl[OF assms g(1)] show "e = CalculationError"
    by (auto simp: limited_def split: sum.splits if_splits dest: finite_number_Inl)
next
  fix p f a e assume A: "ct_unary (arithmetic_tables lm) p = Some f \<and> computed lm a \<and> f a = Inl e"
  then have "numeric a" by (auto dest: computed_within within_num)
  with A show "e = CalculationError"
    by (auto simp: arithmetic_tables_def unary_operator_def limited_def py_neg_def py_pos_def numeric_def as_int_def
        split: if_splits sum.splits pyval.splits dest: finite_number_Inl)
next
  fix n args kws e assume "ct_function (arithmetic_tables lm) n args kws = Some (Inl e)"
  then obtain f where f: "plain_function lm n = Some f" "kws \<noteq> [] \<and> e = ValueError \<or> called (f args) = Inl e"
    by (auto simp: arithmetic_tables_def call_function_def split: if_splits)
  then show "e = CalculationError \<or> e = ValueError"
    using plain_function_Inl[OF assms f(1), of args]
    by (auto simp: called_def split: sum.splits if_splits dest: finite_number_Inl)
qed (rule computed_within)

text \<open>The guard of \<open>factorial\<close> admits 20, but the limit of integers then refuses the result: the largest argument
  with an answer is 19.\<close>

lemma factorial_answers:
  "ct_function (arithmetic_tables lm) ''factorial'' [VInt i] [] =
     Some (if 0 \<le> i \<and> i < max_factorial_argument then Inr (VInt (fact (nat i))) else Inl CalculationError)"
proof -
  have big: "fact (nat i) \<le> (10 ^ 18 :: int) \<longleftrightarrow> i \<noteq> 20" if "0 \<le> i" "i \<le> 20"
  proof -
    have "fact 20 > (10 ^ 18 :: int)" "fact 19 \<le> (10 ^ 18 :: int)" by (simp_all add: fact_numeral)
    moreover have "fact (nat i) \<le> (fact 19 :: int)" if "i \<noteq> 20"
      using that \<open>i \<le> 20\<close> by (intro fact_mono) auto
    ultimately show ?thesis by (cases "i = 20") auto
  qed
  show ?thesis
    using big by (auto simp: arithmetic_tables_def call_function_def plain_function_def math_names_def called_def
        checked_factorial_def finite_number_def max_factorial_argument_def max_abs_int_def split: if_splits)
qed

end
