(* ===== verification/SmallAgent.thy ===== *)
theory SmallAgent
  imports ToolHost CalculationFacts
begin

text \<open>
  A small agent: a calculator for its only tool and a model that calls it once. The properties of the loop, of the
  dispatcher and of the calculator are applied to it.
\<close>

section \<open>A small agent\<close>

definition failing_libm :: libm where
  "failing_libm = \<lparr>lm_pow = (\<lambda>x y. Inl OverflowError), lm_call = (\<lambda>n args. Inl ValueError)\<rparr>"

theorem calculator_bounded_witness:
  "within_limits (VInt 5) \<and> evaluate_expression failing_libm (\<lambda>s. Some (BinOp ''Add'' (Constant (VInt 2)) (Constant (VInt 3))))
     (\<lambda>T e. case ct_binary T ''Add'' of Some f \<Rightarrow> (case f (VInt 2) (VInt 3) of Inr v \<Rightarrow> Inr v | Inl x \<Rightarrow> Inl (Raised x))
        | None \<Rightarrow> Inl InvalidExpression) ''2 + 3'' = Inr (VInt 5)"
proof -
  have ok: "libm_ok failing_libm" by (simp add: libm_ok_def failing_libm_def)
  have e: "evaluate_expression failing_libm (\<lambda>s. Some (BinOp ''Add'' (Constant (VInt 2)) (Constant (VInt 3))))
     (\<lambda>T e. case ct_binary T ''Add'' of Some f \<Rightarrow> (case f (VInt 2) (VInt 3) of Inr v \<Rightarrow> Inr v | Inl x \<Rightarrow> Inl (Raised x))
        | None \<Rightarrow> Inl InvalidExpression) ''2 + 3'' = Inr (VInt 5)"
    by code_simp
  with calculator_bounded[OF ok] show ?thesis by blast
qed

definition quiet_services :: "(string option, unit) services" where
  "quiet_services = \<lparr>sv_alias = (\<lambda>a s. (s, Inr [])), sv_entity = (\<lambda>i s. (s, Inr None)), sv_relationships = (\<lambda>a s. (s, Inr [])),
     sv_write_model = (\<lambda>a. Some a), sv_write = (\<lambda>g a c p s. (s, Inr VNone)), sv_calendar = None,
     sv_provider = unconfigured_provider, sv_zones = (\<lambda>n. Inl ZoneInfoNotFoundError), sv_calculate = (\<lambda>s. Inr (VInt 5)),
     sv_caller = (\<lambda>c. c), sv_report = (\<lambda>n a. VNone), sv_say = (\<lambda>e. [])\<rparr>"

theorem dispatch_confined_witness:
  "answer_code (snd (dispatch quiet_services (\<lambda>s. s) [''calculate''] ''get_entity'' (VDict [(''entity_id'', VStr ''item:1'')]) None None None ()))
     = VStr ''unknown_tool''"
proof -
  have d: "new_dispatcher (Some [''calculate'']) False = Inr [''calculate'']" by code_simp
  have g: "''get_entity'' \<in> set graph_operations" by code_simp
  from dispatch_confined[OF d, of "''get_entity''" quiet_services "\<lambda>s. s"] g show ?thesis by blast
qed

definition home_loop :: model_loop where
  "home_loop = \<lparr>ml_prompt = ''Help'', ml_tools = [\<lparr>td_name = ''calculate'', td_limit = None\<rparr>], ml_identity = [], ml_steps = 4,
     ml_calls = 4, ml_records = 25, ml_bytes = 256, ml_seconds = ''5''\<rparr>"

definition sum_call :: tool_call where
  "sum_call = \<lparr>tc_name = ''calculate'', tc_args = VDict [(''expression'', VStr ''2+3'')], tc_dump = []\<rparr>"

text \<open>A model that calls the calculator once and then answers.\<close>

definition calling_response :: "fields list \<Rightarrow> response" where
  "calling_response m = (let calls = (if length m < 2 then [sum_call] else []); text = (if length m < 2 then [] else ''It is 5'') in
     \<lparr>rs_content = Some text, rs_calls = calls, rs_dump = assistant_message text calls\<rparr>)"

definition calling_provider :: "('w \<Rightarrow> 'w) \<Rightarrow> 'w provider_api" where
  "calling_provider tick = \<lparr>pr_chat = (\<lambda>m w. (tick w, Inr (calling_response m))),
     pr_stream = (\<lambda>m w. (tick w, [calling_response m], None)), pr_loads = (\<lambda>s. Inr VNone)\<rparr>"

definition english_turn :: turn where
  "english_turn = \<lparr>tn_language = ''en'', tn_expose = False, tn_values = [], tn_caller = None\<rparr>"

definition user_message :: "fields list" where
  "user_message = [[(''role'', VStr ''user''), (''content'', VStr ''2 + 3?'')]]"

definition counting_host :: "(nat \<times> nat) host" where
  "counting_host tool args caller w = ((fst w, Suc (snd w)), Some [(''ok'', VBool True), (''result'', VInt 5)])"

theorem loop_bounded_witness:
  "fst (fst (run_loop (\<lambda>v. []) ('','', '':'') (calling_provider (\<lambda>w. (Suc (fst w), snd w))) counting_host home_loop english_turn
     user_message (0, 0))) \<le> 4"
proof -
  let ?pr = "calling_provider (\<lambda>w. (Suc (fst w), snd w)) :: (nat \<times> nat) provider_api"
  have n: "new_model_loop ''Help'' [\<lparr>td_name = ''calculate'', td_limit = None\<rparr>] (VInt 4) (VInt 4) (VInt 25) (VInt 256) (Fin 5)
     ''5'' [] = Inr home_loop" by code_simp
  have c: "assistant_role ?pr" "counts 1 0 fst ?pr counting_host" "counts 0 1 snd ?pr counting_host"
    by (auto simp: assistant_role_def counts_def calling_provider_def calling_response_def counting_host_def
        assistant_message_def get_or_None_def Let_def)
  obtain w' x where r: "run_loop (\<lambda>v. []) ('','', '':'') ?pr counting_host home_loop english_turn user_message (0, 0) = (w', x)"
    by fastforce
  from loop_bounded[OF n c r] have "fst w' \<le> 4" by simp
  with r show ?thesis by simp
qed

text \<open>The same loop for the butler, and a model that streams the agent's own name as the salutation, cut in two.\<close>

definition butler_loop :: model_loop where
  "butler_loop = home_loop\<lparr>ml_identity := [(''en'', ''the butler'')]\<rparr>"

definition spoken_chunk :: "string \<Rightarrow> response" where
  "spoken_chunk s = \<lparr>rs_content = Some s, rs_calls = [], rs_dump = assistant_message s []\<rparr>"

definition self_addressing :: "'w provider_api" where
  "self_addressing = \<lparr>pr_chat = (\<lambda>m w. (w, Inr (spoken_chunk ''The butler, it is 5''))),
     pr_stream = (\<lambda>m w. (w, [spoken_chunk ''The but'', spoken_chunk ''ler,'', spoken_chunk '' it is 5''], None)),
     pr_loads = (\<lambda>s. Inr VNone)\<rparr>"

theorem stream_agrees_witness:
  "\<exists>w' r pieces. run_loop (\<lambda>v. []) (''|'', ''!'') self_addressing counting_host butler_loop english_turn user_message (0, 0)
       = (w', Inr r)
    \<and> stream_loop (\<lambda>v. []) (''|'', ''!'') self_addressing counting_host butler_loop english_turn user_message (0, 0)
       = (w', pieces, Inr (ar_stop r))
    \<and> ar_answer r = ''it is 5'' \<and> lstrip (concat pieces) = ''it is 5''"
proof -
  let ?run = "run_loop (\<lambda>v. []) (''|'', ''!'') self_addressing counting_host butler_loop english_turn user_message (0, 0)"
  let ?v = "turn_vocative (\<lambda>v. []) butler_loop english_turn"
  have s: "streams_chat (self_addressing :: (nat \<times> nat) provider_api)"
    by (simp add: streams_chat_def self_addressing_def spoken_chunk_def content_of_def)
  have "plain_salutation (''|'', ''!'') ''the butler''" by code_simp
  then have n: "\<forall>n. map_of (ml_identity butler_loop) (tn_language english_turn) = Some n \<longrightarrow> plain_salutation (''|'', ''!'') n"
    by (simp add: butler_loop_def english_turn_def)
  have "case ?run of (w, Inr r) \<Rightarrow> ar_answer r = ''it is 5'' | _ \<Rightarrow> False" by code_simp
  then obtain w' r where run: "?run = (w', Inr r)" "ar_answer r = ''it is 5''" by (auto split: prod.splits sum.splits)
  have a: "address_prefix (''|'', ''!'') (vc_speaker ?v) (vc_language ?v) = []" by code_simp
  have l: "lstrip ''it is 5'' = ''it is 5''" by code_simp
  from stream_agrees[OF s n, of "\<lambda>v. []" counting_host user_message "(0, 0)"] run obtain pieces where
    "stream_loop (\<lambda>v. []) (''|'', ''!'') self_addressing counting_host butler_loop english_turn user_message (0, 0)
       = (w', pieces, Inr (ar_stop r))" "same_speech (''|'', ''!'') ?v (concat pieces) ''it is 5''"
    by auto
  with run l show ?thesis unfolding same_speech_def a by auto
qed

theorem timeout_reported_witness:
  "\<exists>w' r. run_loop (\<lambda>v. []) ('','', '':'') (calling_provider (\<lambda>w. w))
      (timed_host quiet_services (\<lambda>s. s) [''calculate''] (\<lambda>n a s. True)) home_loop english_turn user_message ((), False) = (w', Inr r)
    \<and> snd w' \<and> ar_stop r = Timeout"
proof -
  let ?run = "run_loop (\<lambda>v. []) ('','', '':'') (calling_provider (\<lambda>w. w))
      (timed_host quiet_services (\<lambda>s. s) [''calculate''] (\<lambda>n a s. True)) home_loop english_turn user_message ((), False)"
  have "case ?run of (w, Inr r) \<Rightarrow> snd w | _ \<Rightarrow> False" by code_simp
  then obtain w' r where run: "?run = (w', Inr r)" "snd w'" by (auto split: prod.splits sum.splits)
  have "\<forall>m w. snd (fst (pr_chat (calling_provider (\<lambda>w. w)) m w)) = snd (w :: unit \<times> bool)" by (simp add: calling_provider_def)
  from timeout_reported[OF this _ run(1)] run show ?thesis by simp
qed

end
