(* ===== verification/Units.thy ===== *)
theory Units
  imports Calculation RecordIds
begin

text \<open>
  \<open>spatial/units.py\<close>: lengths and angles in SI units from structured values, and their display. A decimal literal
  is the float nearest to it; \<open>pi\<close> is the float of the calculator's table.
\<close>

section \<open>Tables\<close>

definition literal :: "int \<Rightarrow> int \<Rightarrow> pyfloat" where
  "literal n d = fl (of_int n / of_int d)"

definition inch_meters :: pyfloat where "inch_meters = literal 254 10000"
definition foot_meters :: pyfloat where "foot_meters = literal 3048 10000"
definition pi_float :: rat where "pi_float = 884279719003555 / 281474976710656"

definition length_to_meters :: "pyfloat dict" where
  "length_to_meters =
     map (\<lambda>u. (u, Fin 1)) [''m'', ''meter'', ''meters'', ''metre'', ''metres'']
     @ map (\<lambda>u. (u, literal 1 1000)) [''mm'', ''millimeter'', ''millimeters'', ''millimetre'', ''millimetres'']
     @ map (\<lambda>u. (u, literal 1 100)) [''cm'', ''centimeter'', ''centimeters'', ''centimetre'', ''centimetres'']
     @ map (\<lambda>u. (u, inch_meters)) [''in'', ''inch'', ''inches''] @ map (\<lambda>u. (u, foot_meters)) [''ft'', ''foot'', ''feet'']"

definition display_decimals :: "nat dict" where
  "display_decimals = [(''mm'', 3), (''cm'', 4), (''m'', 6), (''in'', 2), (''ft'', 4)]"

definition angle_to_radians :: "pyfloat dict" where
  "angle_to_radians = map (\<lambda>u. (u, Fin 1)) [''rad'', ''radian'', ''radians'']
     @ map (\<lambda>u. (u, fdiv (Fin pi_float) 180)) [''deg'', ''degree'', ''degrees'']"

section \<open>Normalization\<close>

text \<open>\<open>type(value) in {int, float}\<close> and finite; an integer beyond the floats raises out of \<open>isfinite\<close>.\<close>

definition unit_finite :: "pyval \<Rightarrow> rat res" where
  "unit_finite v = (case v of
     VInt i \<Rightarrow> float_of_int i
   | VFloat (Fin r) \<Rightarrow> Inr r
   | _ \<Rightarrow> Inl SpatialUnitError)"

definition length_factor :: "pyval \<Rightarrow> pyfloat res" where
  "length_factor unit = (case unit of
     VStr u \<Rightarrow> (case map_of length_to_meters (casefold u) of None \<Rightarrow> Inl SpatialUnitError | Some f \<Rightarrow> Inr f)
   | _ \<Rightarrow> Inl SpatialUnitError)"

definition first_present :: "fields \<Rightarrow> string list \<Rightarrow> pyval \<Rightarrow> pyval" where
  "first_present d ks dflt = (case find (\<lambda>k. map_of d k \<noteq> None) ks of None \<Rightarrow> dflt | Some k \<Rightarrow> get_or_None d k)"

definition normalize_feet_inches :: "fields \<Rightarrow> pyfloat res" where
  "normalize_feet_inches d =
     (if \<not> set (map fst d) \<subseteq> set [''ft'', ''foot'', ''feet'', ''in'', ''inch'', ''inches''] then Inl SpatialUnitError
      else bind_res (unit_finite (first_present d [''ft'', ''foot'', ''feet''] (VInt 0))) (\<lambda>ft.
           bind_res (unit_finite (first_present d [''in'', ''inch'', ''inches''] (VInt 0))) (\<lambda>inch.
           Inr (fadd (fmul (Fin ft) foot_meters) (fmul (Fin inch) inch_meters)))))"

definition normalize_length :: "pyval \<Rightarrow> pyval \<Rightarrow> pyfloat res" where
  "normalize_length v unit = (case v of
     VDict d \<Rightarrow> if unit = VNone then normalize_feet_inches d else Inl SpatialUnitError
   | _ \<Rightarrow> bind_res (unit_finite v) (\<lambda>x. bind_res (length_factor unit) (\<lambda>f. Inr (fmul (Fin x) f))))"

definition normalize_angle :: "pyval \<Rightarrow> pyval \<Rightarrow> pyfloat res" where
  "normalize_angle v unit = (case unit of
     VStr u \<Rightarrow> (case map_of angle_to_radians (casefold u) of
         None \<Rightarrow> Inl SpatialUnitError
       | Some f \<Rightarrow> bind_res (unit_finite v) (\<lambda>x. Inr (fmul (Fin x) f)))
   | _ \<Rightarrow> Inl SpatialUnitError)"

text \<open>The value and unit of a structured measurement.\<close>

definition structured :: "fields \<Rightarrow> string \<Rightarrow> (pyval \<times> pyval) res" where
  "structured d dflt =
     (if \<not> set (map fst d) \<subseteq> {''unit'', ''value''} then Inl SpatialUnitError
      else case map_of d ''value'' of None \<Rightarrow> Inl SpatialUnitError
      | Some v \<Rightarrow> Inr (v, case map_of d ''unit'' of None \<Rightarrow> VStr dflt | Some u \<Rightarrow> u))"

definition as_meters :: "pyval \<Rightarrow> string \<Rightarrow> pyfloat res" where
  "as_meters v dflt = (case v of
     VDict d \<Rightarrow> if map_of d ''value'' \<noteq> None \<or> map_of d ''unit'' \<noteq> None
       then bind_res (structured d dflt) (\<lambda>(x, unit). normalize_length x unit)
       else normalize_length v VNone
   | _ \<Rightarrow> normalize_length v (VStr dflt))"

definition as_radians :: "pyval \<Rightarrow> string \<Rightarrow> pyfloat res" where
  "as_radians v dflt = (case v of
     VDict d \<Rightarrow> bind_res (structured d dflt) (\<lambda>(x, unit). normalize_angle x unit)
   | _ \<Rightarrow> normalize_angle v (VStr dflt))"

section \<open>Display\<close>

text \<open>\<open>f"{value:.{decimals}f}"\<close>: the exact value, rounded half to even.\<close>

definition pad_left :: "nat \<Rightarrow> string \<Rightarrow> string" where
  "pad_left n s = replicate (n - length s) CHR ''0'' @ s"

definition fixed_text :: "nat \<Rightarrow> rat \<Rightarrow> string" where
  "fixed_text decimals q =
     (let n = nat (round_even (\<bar>q\<bar> * 10 ^ decimals)); whole = show_nat (n div 10 ^ decimals) in
      (if q < 0 then ''-'' else []) @ whole
        @ (if decimals = 0 then [] else ''.'' @ pad_left decimals (show_nat (n mod 10 ^ decimals))))"

definition strip_right :: "char \<Rightarrow> string \<Rightarrow> string" where
  "strip_right c s = rev (dropWhile (\<lambda>x. x = c) (rev s))"

definition format_number :: "rat \<Rightarrow> nat \<Rightarrow> string" where
  "format_number q decimals = (let t = strip_right CHR ''.'' (strip_right CHR ''0'' (fixed_text decimals q)) in
     if t = [] then ''0'' else t)"

text \<open>A float of the display is finite: infinite amounts are written as Python does.\<close>

definition format_float :: "pyfloat \<Rightarrow> nat \<Rightarrow> string" where
  "format_float f decimals = (case f of Fin q \<Rightarrow> format_number q decimals | PInf \<Rightarrow> ''inf'' | NInf \<Rightarrow> ''-inf'' | NaN \<Rightarrow> ''nan'')"

definition round_float :: "nat \<Rightarrow> rat \<Rightarrow> pyfloat" where
  "round_float decimals q = fl (of_int (round_even (q * 10 ^ decimals)) / 10 ^ decimals)"

definition format_feet_inches :: "rat \<Rightarrow> string res" where
  "format_feet_inches meters = (case (fdiv (Fin meters) (case inch_meters of Fin r \<Rightarrow> r | _ \<Rightarrow> 1)) of
     Fin inches \<Rightarrow>
       let sign = (if inches < 0 then ''-'' else []) in
       (case float_divmod (round_float 2 \<bar>inches\<bar>) (Fin 12) of
          (Fin feet, Fin rest) \<Rightarrow>
            let n = \<lfloor>feet\<rfloor> in
            Inr (if n \<noteq> 0 \<and> rest \<noteq> 0 then sign @ show_int n @ '' ft '' @ format_number rest 6 @ '' in''
                 else if n \<noteq> 0 then sign @ show_int n @ '' ft''
                 else sign @ format_number rest 6 @ '' in'')
        | _ \<Rightarrow> Inl ValueError)
   | PInf \<Rightarrow> Inl ValueError | NInf \<Rightarrow> Inl ValueError | NaN \<Rightarrow> Inl ValueError)"

definition format_length :: "pyval \<Rightarrow> string option \<Rightarrow> string option \<Rightarrow> string res" where
  "format_length meters unit unit_system =
     bind_res (unit_finite meters) (\<lambda>len.
     let shown = (\<lambda>u. case map_of display_decimals (casefold u) of
           None \<Rightarrow> Inl SpatialUnitError
         | Some n \<Rightarrow> (case map_of length_to_meters (casefold u) of
             Some (Fin f) \<Rightarrow> Inr (format_float (fdiv (Fin len) f) n @ '' '' @ casefold u)
           | _ \<Rightarrow> Inl KeyError))
     in case unit_system of
          Some system \<Rightarrow>
            if unit \<noteq> None then Inl SpatialUnitError
            else if casefold system = ''metric'' then shown ''m''
            else if casefold system = ''imperial'' then format_feet_inches len
            else Inl SpatialUnitError
        | None \<Rightarrow> shown (case unit of None \<Rightarrow> ''m'' | Some u \<Rightarrow> u))"

definition format_angle :: "pyval \<Rightarrow> string \<Rightarrow> string res" where
  "format_angle radians unit =
     bind_res (unit_finite radians) (\<lambda>a. let key = casefold unit in
       if key \<in> set [''rad'', ''radian'', ''radians''] then Inr (format_number a 6 @ '' rad'')
       else if key \<in> set [''deg'', ''degree'', ''degrees'']
       then Inr (format_float (fdiv (fmul (Fin a) (Fin 180)) pi_float) 6 @ '' deg'')
       else Inl SpatialUnitError)"

end
