(* ===== verification/RobotPose.thy ===== *)
theory RobotPose
  imports Units Embodiment
begin

text \<open>
  \<open>spatial/localization/pose.py\<close>: the runtime pose of an agent in a space, its document form and the checks that
  relate its quality to its coordinates; with \<open>pose\<close> of \<open>spatial/transforms.py\<close>.
\<close>

section \<open>Records\<close>

record orientation =
  or_yaw :: rat
  or_pitch :: rat
  or_roll :: rat

record pose =
  ps_position :: position
  ps_orientation :: orientation

record pose_uncertainty =
  x_sigma :: "rat option"
  y_sigma :: "rat option"
  z_sigma :: "rat option"
  yaw_sigma :: "rat option"
  pitch_sigma :: "rat option"
  roll_sigma :: "rat option"

record runtime_pose =
  rp_agent :: string
  rp_space :: string
  rp_quality :: string
  rp_estimate :: "pose option"
  rp_timestamp :: "string option"
  rp_source :: "string option"
  rp_uncertainty :: "pose_uncertainty option"

definition localization_quality :: "string list" where
  "localization_quality = [''unknown'', ''initializing'', ''localized'', ''degraded'', ''lost'']"

definition pose_quality :: "string list" where "pose_quality = [''localized'', ''degraded'']"

definition sigma_fields :: "string list" where
  "sigma_fields = [''x_sigma'', ''y_sigma'', ''z_sigma'', ''yaw_sigma'', ''pitch_sigma'', ''roll_sigma'']"

definition runtime_fields :: "string list" where
  "runtime_fields = [''agent'', ''orientation'', ''position'', ''quality'', ''source'', ''space'', ''timestamp'', ''uncertainty'']"

section \<open>Checks\<close>

text \<open>\<open>_object\<close>: a dictionary without unknown fields, or the error of the module.\<close>

definition known_fields :: "exn \<Rightarrow> string list \<Rightarrow> pyval \<Rightarrow> fields res" where
  "known_fields e allowed v = (case v of
     VDict d \<Rightarrow> if set (map fst d) \<subseteq> set allowed then Inr d else Inl e
   | _ \<Rightarrow> Inl e)"

text \<open>\<open>except SpatialUnitError\<close>: the module raises its own error instead; any other error passes.\<close>

definition reraised :: "exn \<Rightarrow> exn \<Rightarrow> 'a res \<Rightarrow> 'a res" where
  "reraised caught e r = (case r of Inl x \<Rightarrow> Inl (if x = caught then e else x) | Inr y \<Rightarrow> Inr y)"

definition measured3 :: "(pyval \<Rightarrow> pyfloat res) \<Rightarrow> string list \<Rightarrow> pyval \<Rightarrow> pyfloat list res" where
  "measured3 f names v = bind_res (known_fields SpatialContractError names v) (\<lambda>d.
     if \<not> list_all (\<lambda>k. map_of d k \<noteq> None) names then Inl SpatialContractError
     else reraised SpatialUnitError SpatialContractError (map_res (\<lambda>k. f (get_or_None d k)) names))"

definition measured_position :: "pyval \<Rightarrow> pyfloat list res" where
  "measured_position = measured3 (\<lambda>v. as_meters v ''m'') [''x'', ''y'', ''z'']"

definition measured_orientation :: "pyval \<Rightarrow> pyfloat list res" where
  "measured_orientation = measured3 (\<lambda>v. as_radians v ''rad'') [''yaw'', ''pitch'', ''roll'']"

definition transform_finite :: "pyfloat \<Rightarrow> rat res" where
  "transform_finite f = (case f of Fin r \<Rightarrow> Inr r | _ \<Rightarrow> Inl SpatialTransformError)"

definition mk_pose :: "pyfloat list \<Rightarrow> pyfloat list \<Rightarrow> pose res" where
  "mk_pose p q = bind_res (map_res transform_finite (p @ q)) (\<lambda>c.
     Inr \<lparr>ps_position = \<lparr>px = c ! 0, py = c ! 1, pz = c ! 2\<rparr>,
          ps_orientation = \<lparr>or_yaw = c ! 3, or_pitch = c ! 4, or_roll = c ! 5\<rparr>\<rparr>)"

definition pose_estimate :: "fields \<Rightarrow> pose res" where
  "pose_estimate d = (case (map_of d ''position'', map_of d ''orientation'') of
     (Some p, Some q) \<Rightarrow> bind_res (measured_position p) (\<lambda>p. bind_res (measured_orientation q) (\<lambda>q. mk_pose p q))
   | _ \<Rightarrow> Inl SpatialContractError)"

text \<open>A one-sigma term: finite and not negative.\<close>

definition sigma_term :: "exn \<Rightarrow> fields \<Rightarrow> string \<Rightarrow> rat option res" where
  "sigma_term e d name = (case map_of d name of
     None \<Rightarrow> Inr None
   | Some v \<Rightarrow> (case v of
       VInt i \<Rightarrow> bind_res (float_of_int i) (\<lambda>r. if i < 0 then Inl e else Inr (Some r))
     | VFloat (Fin r) \<Rightarrow> if r < 0 then Inl e else Inr (Some r)
     | _ \<Rightarrow> Inl e))"

definition uncertainty_of :: "exn \<Rightarrow> string list \<Rightarrow> pyval \<Rightarrow> pose_uncertainty res" where
  "uncertainty_of e names v = bind_res (known_fields e names v) (\<lambda>d.
     bind_res (map_res (sigma_term e d) names) (\<lambda>ss.
       let s = ss @ replicate (6 - length ss) None in
       Inr \<lparr>x_sigma = s ! 0, y_sigma = s ! 1, z_sigma = s ! 2,
            yaw_sigma = s ! 3, pitch_sigma = s ! 4, roll_sigma = s ! 5\<rparr>))"

definition pose_timestamp :: "pyval \<Rightarrow> string res" where
  "pose_timestamp v = (case v of
     VStr s \<Rightarrow> if strip s = [] then Inl SpatialContractError
       else reraised ValueError SpatialContractError (bind_res (datetime_fromisoformat s) (\<lambda>_. Inr s))
   | _ \<Rightarrow> Inl SpatialContractError)"

definition pose_source :: "pyval \<Rightarrow> string res" where
  "pose_source v = (case v of
     VStr s \<Rightarrow> if strip s = [] then Inl SpatialContractError else Inr s | _ \<Rightarrow> Inl SpatialContractError)"

definition if_present :: "(pyval \<Rightarrow> 'a res) \<Rightarrow> fields \<Rightarrow> string \<Rightarrow> 'a option res" where
  "if_present f d k = (case map_of d k of None \<Rightarrow> Inr None | Some v \<Rightarrow> bind_res (f v) (\<lambda>x. Inr (Some x)))"

section \<open>Documents\<close>

definition quality_of :: "fields \<Rightarrow> bool \<Rightarrow> string res" where
  "quality_of d has_pose =
     (let q = (case get_or_None d ''quality'' of VNone \<Rightarrow> VStr (if has_pose then ''localized'' else ''unknown'') | v \<Rightarrow> v) in
      case q of
        VStr s \<Rightarrow>
          if s \<notin> set localization_quality then Inl SpatialContractError
          else if s = ''unknown'' \<and> has_pose then Inl SpatialContractError
          else if s \<in> set pose_quality \<and> \<not> has_pose then Inl SpatialContractError
          else Inr s
      | _ \<Rightarrow> Inl SpatialContractError)"

definition parse_runtime_pose :: "pyval \<Rightarrow> runtime_pose option res" where
  "parse_runtime_pose v = (if v = VNone then Inr None else
     bind_res (known_fields SpatialContractError runtime_fields v) (\<lambda>d.
     bind_res (typed_id_val (get_or_None d ''agent'') ''agent'') (\<lambda>agent.
     bind_res (typed_id_val (get_or_None d ''space'') ''space'') (\<lambda>space.
     let has_pose = (map_of d ''position'' \<noteq> None \<or> map_of d ''orientation'' \<noteq> None) in
     bind_res (quality_of d has_pose) (\<lambda>quality.
     bind_res (if has_pose then bind_res (pose_estimate d) (\<lambda>p. Inr (Some p)) else Inr None) (\<lambda>estimate.
     bind_res (if_present pose_timestamp d ''timestamp'') (\<lambda>timestamp.
     bind_res (if_present pose_source d ''source'') (\<lambda>source.
     if estimate \<noteq> None \<and> (timestamp = None \<or> source = None) then Inl SpatialContractError
     else bind_res (if_present (uncertainty_of SpatialContractError sigma_fields) d ''uncertainty'') (\<lambda>u.
       Inr (Some \<lparr>rp_agent = agent, rp_space = space, rp_quality = quality, rp_estimate = estimate,
         rp_timestamp = timestamp, rp_source = source, rp_uncertainty = u\<rparr>))))))))))"

definition number :: "rat \<Rightarrow> pyval" where "number r = VFloat (Fin r)"

definition opt_item :: "string \<Rightarrow> pyval option \<Rightarrow> fields" where
  "opt_item k v = (case v of None \<Rightarrow> [] | Some x \<Rightarrow> [(k, x)])"

definition xyz_mapping :: "position \<Rightarrow> pyval" where
  "xyz_mapping p = VDict [(''x'', number (px p)), (''y'', number (py p)), (''z'', number (pz p))]"

definition orientation_mapping :: "orientation \<Rightarrow> pyval" where
  "orientation_mapping o' = VDict [(''yaw'', number (or_yaw o')), (''pitch'', number (or_pitch o')), (''roll'', number (or_roll o'))]"

definition sigmas :: "pose_uncertainty \<Rightarrow> (string \<times> rat option) list" where
  "sigmas u = zip sigma_fields [x_sigma u, y_sigma u, z_sigma u, yaw_sigma u, pitch_sigma u, roll_sigma u]"

definition uncertainty_mapping :: "string list \<Rightarrow> pose_uncertainty \<Rightarrow> pyval" where
  "uncertainty_mapping names u = VDict (concat (map (\<lambda>(k, s). opt_item k (map_option number s))
     (filter (\<lambda>p. fst p \<in> set names) (sigmas u))))"

definition runtime_pose_fields :: "runtime_pose \<Rightarrow> fields" where
  "runtime_pose_fields p =
     [(''agent'', VStr (rp_agent p)), (''space'', VStr (rp_space p)), (''quality'', VStr (rp_quality p))]
     @ (case rp_estimate p of None \<Rightarrow> [] | Some e \<Rightarrow>
          [(''position'', xyz_mapping (ps_position e)), (''orientation'', orientation_mapping (ps_orientation e))])
     @ opt_item ''timestamp'' (map_option VStr (rp_timestamp p))
     @ opt_item ''source'' (map_option VStr (rp_source p))
     @ opt_item ''uncertainty'' (map_option (uncertainty_mapping sigma_fields) (rp_uncertainty p))"

definition runtime_pose_as_mapping :: "runtime_pose \<Rightarrow> pyval" where
  "runtime_pose_as_mapping p = VDict (runtime_pose_fields p)"

end
