(* ===== verification/VisionContracts.thy ===== *)
theory VisionContracts
  imports RobotPose
begin

text \<open>
  \<open>vision/contracts.py\<close>: the documents of visual evidence (observation, track, candidate, clip, enrollment, artifact
  and producer profile), each with its parser and its document form. An optional field of a document is absent or
  null; unknown fields are refused.
\<close>

section \<open>Checks\<close>

abbreviation bad :: "exn + 'a" where "bad \<equiv> Inl VisionContractError"

definition artifact_kinds :: "string list" where
  "artifact_kinds = [''video_clip'', ''crop'', ''thumbnail'', ''frame'', ''embedding'']"
definition clip_states :: "string list" where "clip_states = [''pending'', ''available'', ''failed'']"
definition candidate_states :: "string list" where "candidate_states = [''active'', ''ignored'', ''merged'', ''expired'']"
definition enrollment_states :: "string list" where "enrollment_states = [''active'', ''revoked'']"

definition vision_object :: "string list \<Rightarrow> pyval \<Rightarrow> fields res" where
  "vision_object = known_fields VisionContractError"

definition vision_sequence :: "pyval \<Rightarrow> pyval list res" where
  "vision_sequence v = (case v of VList xs \<Rightarrow> Inr xs | _ \<Rightarrow> bad)"

definition vision_finite :: "pyval \<Rightarrow> rat res" where
  "vision_finite v = (case v of VInt i \<Rightarrow> float_of_int i | VFloat (Fin r) \<Rightarrow> Inr r | _ \<Rightarrow> bad)"

definition unit_interval :: "pyval \<Rightarrow> rat res" where
  "unit_interval v = bind_res (vision_finite v) (\<lambda>r. if r < 0 \<or> 1 < r then bad else Inr r)"

definition nonempty_text :: "pyval \<Rightarrow> string res" where
  "nonempty_text v = (case v of VStr s \<Rightarrow> if strip s = [] then bad else Inr (strip s) | _ \<Rightarrow> bad)"

definition one_of :: "string list \<Rightarrow> pyval \<Rightarrow> string res" where
  "one_of choices v = (case v of VStr s \<Rightarrow> if s \<in> set choices then Inr s else bad | _ \<Rightarrow> bad)"

definition vision_id :: "string \<Rightarrow> pyval \<Rightarrow> string res" where
  "vision_id table v = (case v of
     VStr s \<Rightarrow> (case split_record_id s of Inl e \<Rightarrow> bad | Inr (t, k) \<Rightarrow> if t \<noteq> table then bad else Inr s)
   | _ \<Rightarrow> bad)"

definition vision_ids :: "bool \<Rightarrow> string \<Rightarrow> pyval \<Rightarrow> string list res" where
  "vision_ids require_nonempty table v = bind_res (vision_sequence v) (\<lambda>xs.
     if require_nonempty \<and> xs = [] then bad
     else bind_res (map_res (vision_id table) xs) (\<lambda>ids. if distinct ids then Inr ids else bad))"

text \<open>\<open>_timestamp\<close>: an ISO 8601 date and time with an offset; the text is kept as it was.\<close>

definition vision_timestamp :: "pyval \<Rightarrow> string res" where
  "vision_timestamp v = (case v of
     VStr s \<Rightarrow> if strip s = [] then bad
       else (case datetime_fromisoformat s of
           Inl e \<Rightarrow> if is_value_error e then bad else Inl e
         | Inr t \<Rightarrow> if dt_off t = None then bad else Inr s)
   | _ \<Rightarrow> bad)"

text \<open>Aware values compare by their distance from UTC midnight, without range check.\<close>

definition aware_us :: "datetime \<Rightarrow> int" where
  "aware_us t = wall_us t - (case dt_off t of None \<Rightarrow> 0 | Some off \<Rightarrow> off)"

definition ordered_times :: "string \<Rightarrow> string \<Rightarrow> unit res" where
  "ordered_times start stop = bind_res (datetime_fromisoformat stop) (\<lambda>b. bind_res (datetime_fromisoformat start) (\<lambda>a.
     if aware_us b < aware_us a then bad else Inr ()))"

definition get_dflt :: "fields \<Rightarrow> string \<Rightarrow> pyval \<Rightarrow> pyval" where
  "get_dflt d k v = (case map_of d k of None \<Rightarrow> v | Some x \<Rightarrow> x)"

definition unless_null :: "(pyval \<Rightarrow> 'a res) \<Rightarrow> fields \<Rightarrow> string \<Rightarrow> 'a option res" where
  "unless_null f d k = (let v = get_or_None d k in
     if v = VNone then Inr None else bind_res (f v) (\<lambda>x. Inr (Some x)))"

section \<open>Parts\<close>

record bounding_box =
  x_min :: rat
  y_min :: rat
  x_max :: rat
  y_max :: rat

definition parse_bbox :: "pyval \<Rightarrow> bounding_box res" where
  "parse_bbox v = bind_res (vision_object [''x_max'', ''x_min'', ''y_max'', ''y_min''] v) (\<lambda>d.
     bind_res (unit_interval (get_or_None d ''x_min'')) (\<lambda>x0.
     bind_res (unit_interval (get_or_None d ''y_min'')) (\<lambda>y0.
     bind_res (unit_interval (get_or_None d ''x_max'')) (\<lambda>x1.
     bind_res (unit_interval (get_or_None d ''y_max'')) (\<lambda>y1.
       if x0 < x1 \<and> y0 < y1 then Inr \<lparr>x_min = x0, y_min = y0, x_max = x1, y_max = y1\<rparr> else bad)))))"

definition bbox_as_mapping :: "bounding_box \<Rightarrow> pyval" where
  "bbox_as_mapping b = VDict [(''x_min'', number (x_min b)), (''y_min'', number (y_min b)),
     (''x_max'', number (x_max b)), (''y_max'', number (y_max b))]"

record observation_source =
  device_id :: string
  camera_id :: string

definition parse_source :: "pyval \<Rightarrow> observation_source res" where
  "parse_source v = bind_res (vision_object [''camera_id'', ''device_id''] v) (\<lambda>d.
     bind_res (vision_id ''device'' (get_or_None d ''device_id'')) (\<lambda>dev.
     bind_res (vision_id ''camera'' (get_or_None d ''camera_id'')) (\<lambda>cam.
       Inr \<lparr>device_id = dev, camera_id = cam\<rparr>)))"

definition source_as_mapping :: "observation_source \<Rightarrow> pyval" where
  "source_as_mapping s = VDict [(''device_id'', VStr (device_id s)), (''camera_id'', VStr (camera_id s))]"

record detector_belief =
  db_category :: string
  db_confidence :: rat
  db_bbox :: bounding_box

definition parse_detector_belief :: "pyval \<Rightarrow> detector_belief res" where
  "parse_detector_belief v = bind_res (vision_object [''bbox'', ''category'', ''confidence''] v) (\<lambda>d.
     bind_res (nonempty_text (get_or_None d ''category'')) (\<lambda>c.
     bind_res (unit_interval (get_or_None d ''confidence'')) (\<lambda>p.
     bind_res (parse_bbox (get_or_None d ''bbox'')) (\<lambda>b.
       Inr \<lparr>db_category = c, db_confidence = p, db_bbox = b\<rparr>))))"

definition detector_belief_as_mapping :: "detector_belief \<Rightarrow> pyval" where
  "detector_belief_as_mapping b = VDict [(''category'', VStr (db_category b)),
     (''confidence'', number (db_confidence b)), (''bbox'', bbox_as_mapping (db_bbox b))]"

record track_reference =
  tr_session :: string
  tr_key :: string

definition parse_track_reference :: "pyval \<Rightarrow> track_reference res" where
  "parse_track_reference v = bind_res (vision_object [''session_id'', ''track_key''] v) (\<lambda>d.
     bind_res (vision_id ''perception'' (get_or_None d ''session_id'')) (\<lambda>s.
     bind_res (nonempty_text (get_or_None d ''track_key'')) (\<lambda>k. Inr \<lparr>tr_session = s, tr_key = k\<rparr>)))"

definition track_reference_as_mapping :: "track_reference \<Rightarrow> pyval" where
  "track_reference_as_mapping t = VDict [(''session_id'', VStr (tr_session t)), (''track_key'', VStr (tr_key t))]"

record candidate_hypothesis =
  ch_candidate :: string
  ch_confidence :: rat

definition parse_candidate_hypothesis :: "pyval \<Rightarrow> candidate_hypothesis res" where
  "parse_candidate_hypothesis v = bind_res (vision_object [''candidate_id'', ''confidence''] v) (\<lambda>d.
     bind_res (vision_id ''visual_candidate'' (get_or_None d ''candidate_id'')) (\<lambda>c.
     bind_res (unit_interval (get_or_None d ''confidence'')) (\<lambda>p. Inr \<lparr>ch_candidate = c, ch_confidence = p\<rparr>)))"

definition candidate_hypothesis_as_mapping :: "candidate_hypothesis \<Rightarrow> pyval" where
  "candidate_hypothesis_as_mapping h =
     VDict [(''candidate_id'', VStr (ch_candidate h)), (''confidence'', number (ch_confidence h))]"

record item_hypothesis =
  ih_item :: string
  ih_confidence :: rat
  ih_enrollments :: "string list"

definition parse_item_hypothesis :: "pyval \<Rightarrow> item_hypothesis res" where
  "parse_item_hypothesis v = bind_res (vision_object [''confidence'', ''item_id'', ''supporting_enrollment_ids''] v) (\<lambda>d.
     bind_res (vision_id ''item'' (get_or_None d ''item_id'')) (\<lambda>i.
     bind_res (unit_interval (get_or_None d ''confidence'')) (\<lambda>p.
     bind_res (vision_ids True ''visual_enrollment'' (get_or_None d ''supporting_enrollment_ids'')) (\<lambda>es.
       Inr \<lparr>ih_item = i, ih_confidence = p, ih_enrollments = es\<rparr>))))"

definition str_list :: "string list \<Rightarrow> pyval" where "str_list ss = VList (map VStr ss)"

definition item_hypothesis_as_mapping :: "item_hypothesis \<Rightarrow> pyval" where
  "item_hypothesis_as_mapping h = VDict [(''item_id'', VStr (ih_item h)), (''confidence'', number (ih_confidence h)),
     (''supporting_enrollment_ids'', str_list (ih_enrollments h))]"

record artifact_reference =
  af_ref :: string
  af_kind :: string
  af_media :: string
  af_length :: int

text \<open>\<open>^sha256:[0-9a-f]{64}(?:\.[A-Za-z0-9]+)?$\<close> and the two halves of a media type, matched in full.\<close>

definition artifact_ref :: "string \<Rightarrow> bool" where
  "artifact_ref s \<longleftrightarrow> take 7 s = ''sha256:'' \<and> length s \<ge> 71
     \<and> list_all (\<lambda>c. is_digit c \<or> c \<in> set ''abcdef'') (take 64 (drop 7 s))
     \<and> (case drop 71 s of [] \<Rightarrow> True | c # r \<Rightarrow> c = CHR ''.'' \<and> r \<noteq> [] \<and> list_all is_alnum r)"

definition media_char :: "char \<Rightarrow> bool" where
  "media_char c \<longleftrightarrow> is_alnum c \<or> c \<in> set ''!#$&^_.+-''"

definition media_type :: "string \<Rightarrow> bool" where
  "media_type s \<longleftrightarrow> length (split_on CHR ''/'' s) = 2
     \<and> list_all (\<lambda>w. w \<noteq> [] \<and> list_all media_char w) (split_on CHR ''/'' s)"

definition parse_artifact :: "pyval \<Rightarrow> artifact_reference res" where
  "parse_artifact v = bind_res (vision_object [''byte_length'', ''kind'', ''media_type'', ''ref''] v) (\<lambda>d.
     case get_or_None d ''ref'' of
       VStr r \<Rightarrow> if \<not> artifact_ref r then bad
         else bind_res (one_of artifact_kinds (get_or_None d ''kind'')) (\<lambda>k.
           case get_or_None d ''media_type'' of
             VStr m \<Rightarrow> if \<not> media_type m then bad
               else (case get_or_None d ''byte_length'' of
                   VInt n \<Rightarrow> if n < 0 then bad
                     else Inr \<lparr>af_ref = r, af_kind = k, af_media = map lower m, af_length = n\<rparr>
                 | _ \<Rightarrow> bad)
           | _ \<Rightarrow> bad)
     | _ \<Rightarrow> bad)"

definition artifact_as_mapping :: "artifact_reference \<Rightarrow> pyval" where
  "artifact_as_mapping a = VDict [(''ref'', VStr (af_ref a)), (''kind'', VStr (af_kind a)),
     (''media_type'', VStr (af_media a)), (''byte_length'', VInt (af_length a))]"

text \<open>\<open>_observer_pose\<close>: the pose contract, with every value error raised as the error of this module.\<close>

definition observer_pose :: "pyval \<Rightarrow> runtime_pose option res" where
  "observer_pose v = (if v = VNone then Inr None
     else case parse_runtime_pose v of
         Inl e \<Rightarrow> Inl (if is_value_error e then VisionContractError else e)
       | Inr p \<Rightarrow> Inr p)"

record position_estimate =
  oe_space :: string
  oe_position :: position
  oe_uncertainty :: "pose_uncertainty option"

definition position_sigmas :: "string list" where "position_sigmas = [''x_sigma'', ''y_sigma'', ''z_sigma'']"

definition parse_object_position :: "pyval \<Rightarrow> position_estimate res" where
  "parse_object_position v = bind_res (vision_object [''position'', ''space'', ''uncertainty''] v) (\<lambda>d.
     bind_res (vision_object [''x'', ''y'', ''z''] (get_or_None d ''position'')) (\<lambda>p.
     bind_res (vision_finite (get_or_None p ''x'')) (\<lambda>x.
     bind_res (vision_finite (get_or_None p ''y'')) (\<lambda>y.
     bind_res (vision_finite (get_or_None p ''z'')) (\<lambda>z.
     bind_res (unless_null (uncertainty_of VisionContractError position_sigmas) d ''uncertainty'') (\<lambda>u.
     bind_res (vision_id ''space'' (get_or_None d ''space'')) (\<lambda>s.
       Inr \<lparr>oe_space = s, oe_position = \<lparr>px = x, py = y, pz = z\<rparr>, oe_uncertainty = u\<rparr>)))))))"

definition or_null :: "('a \<Rightarrow> pyval) \<Rightarrow> 'a option \<Rightarrow> pyval" where
  "or_null f x = (case x of None \<Rightarrow> VNone | Some y \<Rightarrow> f y)"

definition object_position_as_mapping :: "position_estimate \<Rightarrow> pyval" where
  "object_position_as_mapping e = VDict [(''space'', VStr (oe_space e)), (''position'', xyz_mapping (oe_position e)),
     (''uncertainty'', or_null (uncertainty_mapping position_sigmas) (oe_uncertainty e))]"

section \<open>Observations\<close>

record visual_observation =
  vo_id :: string
  vo_captured :: string
  vo_observed :: string
  vo_source :: observation_source
  vo_belief :: detector_belief
  vo_producer :: string
  vo_track :: "track_reference option"
  vo_candidates :: "candidate_hypothesis list"
  vo_items :: "item_hypothesis list"
  vo_pose :: "runtime_pose option"
  vo_position :: "position_estimate option"
  vo_artifacts :: "artifact_reference list"

definition observation_fields :: "string list" where
  "observation_fields = [''artifacts'', ''captured_at'', ''detector_belief'', ''id'', ''object_position_estimate'',
     ''observed_at'', ''observer_pose'', ''producer_profile_id'', ''candidate_hypotheses'', ''item_hypotheses'',
     ''source'', ''track'']"

definition parse_visual_observation :: "pyval \<Rightarrow> visual_observation res" where
  "parse_visual_observation v = bind_res (vision_object observation_fields v) (\<lambda>d.
     bind_res (vision_sequence (get_dflt d ''candidate_hypotheses'' (VList []))) (\<lambda>cs.
     bind_res (vision_sequence (get_dflt d ''item_hypotheses'' (VList []))) (\<lambda>hs.
     bind_res (vision_sequence (get_dflt d ''artifacts'' (VList []))) (\<lambda>fs.
     bind_res (map_res parse_artifact fs) (\<lambda>artifacts.
     if list_ex (\<lambda>a. af_kind a = ''video_clip'') artifacts then bad else
     bind_res (vision_timestamp (get_or_None d ''captured_at'')) (\<lambda>captured.
     bind_res (vision_timestamp (get_or_None d ''observed_at'')) (\<lambda>seen.
     bind_res (ordered_times captured seen) (\<lambda>_.
     bind_res (map_res parse_candidate_hypothesis cs) (\<lambda>candidates.
     if \<not> distinct (map ch_candidate candidates) then bad else
     bind_res (map_res parse_item_hypothesis hs) (\<lambda>items.
     if \<not> distinct (map ih_item items) then bad else
     bind_res (vision_id ''visual_observation'' (get_or_None d ''id'')) (\<lambda>i.
     bind_res (parse_source (get_or_None d ''source'')) (\<lambda>src.
     bind_res (parse_detector_belief (get_or_None d ''detector_belief'')) (\<lambda>belief.
     bind_res (vision_id ''vision_producer'' (get_or_None d ''producer_profile_id'')) (\<lambda>producer.
     bind_res (unless_null parse_track_reference d ''track'') (\<lambda>track.
     bind_res (observer_pose (get_or_None d ''observer_pose'')) (\<lambda>ps.
     bind_res (unless_null parse_object_position d ''object_position_estimate'') (\<lambda>estimate.
       Inr \<lparr>vo_id = i, vo_captured = captured, vo_observed = seen, vo_source = src, vo_belief = belief,
         vo_producer = producer, vo_track = track, vo_candidates = candidates, vo_items = items, vo_pose = ps,
         vo_position = estimate, vo_artifacts = artifacts\<rparr>)))))))))))))))))"

definition visual_observation_as_mapping :: "visual_observation \<Rightarrow> pyval" where
  "visual_observation_as_mapping o' = VDict
     [(''id'', VStr (vo_id o')), (''captured_at'', VStr (vo_captured o')), (''observed_at'', VStr (vo_observed o')),
      (''source'', source_as_mapping (vo_source o')), (''detector_belief'', detector_belief_as_mapping (vo_belief o')),
      (''producer_profile_id'', VStr (vo_producer o')), (''track'', or_null track_reference_as_mapping (vo_track o')),
      (''candidate_hypotheses'', VList (map candidate_hypothesis_as_mapping (vo_candidates o'))),
      (''item_hypotheses'', VList (map item_hypothesis_as_mapping (vo_items o'))),
      (''observer_pose'', or_null runtime_pose_as_mapping (vo_pose o')),
      (''object_position_estimate'', or_null object_position_as_mapping (vo_position o')),
      (''artifacts'', VList (map artifact_as_mapping (vo_artifacts o')))]"

section \<open>Producers, tracks and candidates\<close>

record producer_profile =
  pp_id :: string
  pp_pipeline :: string
  pp_pipeline_version :: string
  pp_detector :: "(string \<times> string) option"
  pp_recognizer :: "(string \<times> string) option"

text \<open>\<open>_optional_pair\<close>: a name and its version appear together, and are held together.\<close>

definition optional_pair :: "fields \<Rightarrow> string \<Rightarrow> string \<Rightarrow> (string \<times> string) option res" where
  "optional_pair d n w = (let name = get_or_None d n; version = get_or_None d w in
     if (name = VNone) \<noteq> (version = VNone) then bad
     else if name = VNone then Inr None
     else bind_res (nonempty_text name) (\<lambda>a. bind_res (nonempty_text version) (\<lambda>b. Inr (Some (a, b)))))"

definition producer_fields :: "string list" where
  "producer_fields = [''detector_name'', ''detector_version'', ''id'', ''pipeline_name'', ''pipeline_version'',
     ''recognizer_name'', ''recognizer_version'']"

definition parse_producer_profile :: "pyval \<Rightarrow> producer_profile res" where
  "parse_producer_profile v = bind_res (vision_object producer_fields v) (\<lambda>d.
     bind_res (optional_pair d ''detector_name'' ''detector_version'') (\<lambda>det.
     bind_res (optional_pair d ''recognizer_name'' ''recognizer_version'') (\<lambda>rec'.
     bind_res (vision_id ''vision_producer'' (get_or_None d ''id'')) (\<lambda>i.
     bind_res (nonempty_text (get_or_None d ''pipeline_name'')) (\<lambda>n.
     bind_res (nonempty_text (get_or_None d ''pipeline_version'')) (\<lambda>w.
       Inr \<lparr>pp_id = i, pp_pipeline = n, pp_pipeline_version = w, pp_detector = det, pp_recognizer = rec'\<rparr>))))))"

definition producer_profile_as_mapping :: "producer_profile \<Rightarrow> pyval" where
  "producer_profile_as_mapping p = VDict
     [(''id'', VStr (pp_id p)), (''pipeline_name'', VStr (pp_pipeline p)),
      (''pipeline_version'', VStr (pp_pipeline_version p)),
      (''detector_name'', or_null (VStr \<circ> fst) (pp_detector p)),
      (''detector_version'', or_null (VStr \<circ> snd) (pp_detector p)),
      (''recognizer_name'', or_null (VStr \<circ> fst) (pp_recognizer p)),
      (''recognizer_version'', or_null (VStr \<circ> snd) (pp_recognizer p))]"

record visual_track =
  vt_session :: string
  vt_key :: string
  vt_source :: observation_source
  vt_started :: string
  vt_last :: string
  vt_observations :: "string list"
  vt_clips :: "string list"

definition track_fields :: "string list" where
  "track_fields = [''clip_ids'', ''last_observed_at'', ''observation_ids'', ''session_id'', ''source'', ''started_at'',
     ''track_key'']"

definition parse_visual_track :: "pyval \<Rightarrow> visual_track res" where
  "parse_visual_track v = bind_res (vision_object track_fields v) (\<lambda>d.
     bind_res (vision_timestamp (get_or_None d ''started_at'')) (\<lambda>started.
     bind_res (vision_timestamp (get_or_None d ''last_observed_at'')) (\<lambda>final.
     bind_res (ordered_times started final) (\<lambda>_.
     bind_res (vision_id ''perception'' (get_or_None d ''session_id'')) (\<lambda>s.
     bind_res (nonempty_text (get_or_None d ''track_key'')) (\<lambda>k.
     bind_res (parse_source (get_or_None d ''source'')) (\<lambda>src.
     bind_res (vision_ids False ''visual_observation'' (get_dflt d ''observation_ids'' (VList []))) (\<lambda>obs.
     bind_res (vision_ids False ''evidence_clip'' (get_dflt d ''clip_ids'' (VList []))) (\<lambda>clips.
       Inr \<lparr>vt_session = s, vt_key = k, vt_source = src, vt_started = started, vt_last = final,
         vt_observations = obs, vt_clips = clips\<rparr>)))))))))"

definition visual_track_as_mapping :: "visual_track \<Rightarrow> pyval" where
  "visual_track_as_mapping t = VDict
     [(''session_id'', VStr (vt_session t)), (''track_key'', VStr (vt_key t)),
      (''source'', source_as_mapping (vt_source t)), (''started_at'', VStr (vt_started t)),
      (''last_observed_at'', VStr (vt_last t)), (''observation_ids'', str_list (vt_observations t)),
      (''clip_ids'', str_list (vt_clips t))]"

record visual_candidate =
  vc_id :: string
  vc_created :: string
  vc_state :: string
  vc_seeds :: "string list"
  vc_merged :: "string option"

definition candidate_fields :: "string list" where
  "candidate_fields = [''created_at'', ''id'', ''merged_into_candidate_id'', ''seed_observation_ids'', ''state'']"

definition parse_visual_candidate :: "pyval \<Rightarrow> visual_candidate res" where
  "parse_visual_candidate v = bind_res (vision_object candidate_fields v) (\<lambda>d.
     bind_res (one_of candidate_states (get_or_None d ''state'')) (\<lambda>st.
     bind_res (vision_ids True ''visual_observation'' (get_or_None d ''seed_observation_ids'')) (\<lambda>seeds.
     bind_res (unless_null (vision_id ''visual_candidate'') d ''merged_into_candidate_id'') (\<lambda>merged.
     if (st = ''merged'') \<noteq> (merged \<noteq> None) then bad else
     bind_res (vision_id ''visual_candidate'' (get_or_None d ''id'')) (\<lambda>i.
     if merged = Some i then bad else
     bind_res (vision_timestamp (get_or_None d ''created_at'')) (\<lambda>created.
       Inr \<lparr>vc_id = i, vc_created = created, vc_state = st, vc_seeds = seeds, vc_merged = merged\<rparr>))))))"

definition visual_candidate_as_mapping :: "visual_candidate \<Rightarrow> pyval" where
  "visual_candidate_as_mapping c = VDict
     [(''id'', VStr (vc_id c)), (''created_at'', VStr (vc_created c)), (''state'', VStr (vc_state c)),
      (''seed_observation_ids'', str_list (vc_seeds c)),
      (''merged_into_candidate_id'', or_null VStr (vc_merged c))]"

section \<open>Clips and enrollments\<close>

record evidence_clip =
  ec_id :: string
  ec_state :: string
  ec_requested :: string
  ec_start :: string
  ec_end :: string
  ec_source :: observation_source
  ec_observations :: "string list"
  ec_artifact :: "artifact_reference option"
  ec_failure :: "string option"
  ec_resolved :: "string option"

definition clip_fields :: "string list" where
  "clip_fields = [''artifact'', ''end_time'', ''failure_code'', ''id'', ''observation_ids'', ''requested_at'',
     ''resolved_at'', ''source'', ''start_time'', ''state'']"

text \<open>What each state of a clip requires and forbids.\<close>

definition clip_refused :: "string \<Rightarrow> artifact_reference option \<Rightarrow> string option \<Rightarrow> string option \<Rightarrow> bool" where
  "clip_refused st artifact failure resolved =
     (if st = ''available''
      then (case artifact of None \<Rightarrow> True | Some a \<Rightarrow> af_kind a \<noteq> ''video_clip'') \<or> failure \<noteq> None \<or> resolved = None
      else if st = ''failed'' then failure = None \<or> artifact \<noteq> None \<or> resolved = None
      else artifact \<noteq> None \<or> failure \<noteq> None \<or> resolved \<noteq> None)"

definition ordered_if :: "string \<Rightarrow> string option \<Rightarrow> unit res" where
  "ordered_if start stop = (case stop of None \<Rightarrow> Inr () | Some t \<Rightarrow> ordered_times start t)"

definition parse_evidence_clip :: "pyval \<Rightarrow> evidence_clip res" where
  "parse_evidence_clip v = bind_res (vision_object clip_fields v) (\<lambda>d.
     bind_res (one_of clip_states (get_or_None d ''state'')) (\<lambda>st.
     bind_res (unless_null parse_artifact d ''artifact'') (\<lambda>artifact.
     bind_res (unless_null nonempty_text d ''failure_code'') (\<lambda>failure.
     bind_res (unless_null vision_timestamp d ''resolved_at'') (\<lambda>resolved.
     if clip_refused st artifact failure resolved then bad else
     bind_res (vision_timestamp (get_or_None d ''start_time'')) (\<lambda>start.
     bind_res (vision_timestamp (get_or_None d ''end_time'')) (\<lambda>stop.
     bind_res (ordered_times start stop) (\<lambda>_.
     bind_res (vision_timestamp (get_or_None d ''requested_at'')) (\<lambda>requested.
     bind_res (ordered_if requested resolved) (\<lambda>_.
     bind_res (vision_id ''evidence_clip'' (get_or_None d ''id'')) (\<lambda>i.
     bind_res (parse_source (get_or_None d ''source'')) (\<lambda>src.
     bind_res (vision_ids True ''visual_observation'' (get_or_None d ''observation_ids'')) (\<lambda>obs.
       Inr \<lparr>ec_id = i, ec_state = st, ec_requested = requested, ec_start = start, ec_end = stop, ec_source = src,
         ec_observations = obs, ec_artifact = artifact, ec_failure = failure, ec_resolved = resolved\<rparr>)))))))))))))"

definition evidence_clip_as_mapping :: "evidence_clip \<Rightarrow> pyval" where
  "evidence_clip_as_mapping c = VDict
     [(''id'', VStr (ec_id c)), (''state'', VStr (ec_state c)), (''requested_at'', VStr (ec_requested c)),
      (''start_time'', VStr (ec_start c)), (''end_time'', VStr (ec_end c)),
      (''source'', source_as_mapping (ec_source c)), (''observation_ids'', str_list (ec_observations c)),
      (''artifact'', or_null artifact_as_mapping (ec_artifact c)), (''failure_code'', or_null VStr (ec_failure c)),
      (''resolved_at'', or_null VStr (ec_resolved c))]"

record visual_enrollment =
  ve_id :: string
  ve_candidate :: string
  ve_item :: string
  ve_confirmed_at :: string
  ve_confirmed_by :: string
  ve_evidence :: "string list"
  ve_label :: "string option"
  ve_state :: string
  ve_revoked_at :: "string option"
  ve_revoked_by :: "string option"

definition enrollment_fields :: "string list" where
  "enrollment_fields = [''candidate_id'', ''confirmed_at'', ''confirmed_by'', ''evidence_observation_ids'', ''id'',
     ''item_id'', ''label_text'', ''revoked_at'', ''revoked_by'', ''state'']"

definition parse_visual_enrollment :: "pyval \<Rightarrow> visual_enrollment res" where
  "parse_visual_enrollment v = bind_res (vision_object enrollment_fields v) (\<lambda>d.
     bind_res (one_of enrollment_states (get_dflt d ''state'' (VStr ''active''))) (\<lambda>st.
     bind_res (unless_null vision_timestamp d ''revoked_at'') (\<lambda>rat'.
     bind_res (unless_null (vision_id ''person'') d ''revoked_by'') (\<lambda>rby.
     if (if st = ''revoked'' then rat' = None \<or> rby = None else rat' \<noteq> None \<or> rby \<noteq> None) then bad else
     bind_res (vision_timestamp (get_or_None d ''confirmed_at'')) (\<lambda>confirmed.
     bind_res (ordered_if confirmed rat') (\<lambda>_.
     bind_res (vision_id ''visual_enrollment'' (get_or_None d ''id'')) (\<lambda>i.
     bind_res (vision_id ''visual_candidate'' (get_or_None d ''candidate_id'')) (\<lambda>c.
     bind_res (vision_id ''item'' (get_or_None d ''item_id'')) (\<lambda>thing.
     bind_res (vision_id ''person'' (get_or_None d ''confirmed_by'')) (\<lambda>by'.
     bind_res (vision_ids True ''visual_observation'' (get_or_None d ''evidence_observation_ids'')) (\<lambda>obs.
     bind_res (unless_null nonempty_text d ''label_text'') (\<lambda>label.
       Inr \<lparr>ve_id = i, ve_candidate = c, ve_item = thing, ve_confirmed_at = confirmed, ve_confirmed_by = by',
         ve_evidence = obs, ve_label = label, ve_state = st, ve_revoked_at = rat', ve_revoked_by = rby\<rparr>))))))))))))"

definition visual_enrollment_as_mapping :: "visual_enrollment \<Rightarrow> pyval" where
  "visual_enrollment_as_mapping e = VDict
     [(''id'', VStr (ve_id e)), (''candidate_id'', VStr (ve_candidate e)), (''item_id'', VStr (ve_item e)),
      (''confirmed_at'', VStr (ve_confirmed_at e)), (''confirmed_by'', VStr (ve_confirmed_by e)),
      (''evidence_observation_ids'', str_list (ve_evidence e)), (''label_text'', or_null VStr (ve_label e)),
      (''state'', VStr (ve_state e)), (''revoked_at'', or_null VStr (ve_revoked_at e)),
      (''revoked_by'', or_null VStr (ve_revoked_by e))]"

end
