(* ===== verification/FloatFacts.thy ===== *)
theory FloatFacts
  imports PyArith
begin

text \<open>
  Facts on binary64 rounding: the exponent that \<open>ilog2\<close> computes brackets its argument, a multiple of a power of
  two with at most 53 significant bits is a float, and rounding a float changes nothing.
\<close>

lemma pow2_Suc: "pow2 (e + 1) = 2 * pow2 e"
  by (simp add: pow2_add) (simp add: pow2_def)

lemma pow2_nat: "pow2 (int n) = 2 ^ n"
  by (simp add: pow2_def)

lemma pow2_less_iff: "pow2 a < pow2 b \<longleftrightarrow> a < b"
proof -
  have "pow2 a < pow2 b" if "a < b" for a b
    using pow2_mono[of "a + 1" b] pow2_Suc[of a] pow2_pos[of a] that by linarith
  from this[of a b] this[of b a] show ?thesis by (cases a b rule: linorder_cases) auto
qed

lemma pow2_minus: "pow2 (a - b) * pow2 b = pow2 a"
  by (simp flip: pow2_add)

lemma ilog2_upper:
  assumes "0 < q"
  shows "q < pow2 (ilog2 q + 1)"
proof -
  obtain n d where nd: "quotient_of q = (n, d)" by fastforce
  with assms have q: "0 < n" "0 < d" "q = of_int n / of_int d" using quotient_of_pos by blast+
  have b: "n < 2 ^ nat (bitlen n)" "2 ^ nat (bitlen d - 1) \<le> d"
    using bitlen_bounds[of n] bitlen_bounds[of d] q by auto
  have d1: "1 \<le> bitlen d" using q(2) bitlen_eq_zero_iff[of d] bitlen_nonneg[of d] by linarith
  have "(of_int n :: rat) < of_int (2 ^ nat (bitlen n))" "(of_int (2 ^ nat (bitlen d - 1)) :: rat) \<le> of_int d"
    using b by linarith+
  then have p: "of_int n < pow2 (bitlen n)" "pow2 (bitlen d - 1) \<le> of_int d"
    using d1 bitlen_nonneg[of n] by (auto simp: pow2_def)
  have "pow2 (bitlen n) = pow2 (bitlen n - bitlen d + 1) * pow2 (bitlen d - 1)"
    by (simp flip: pow2_add)
  also have "\<dots> \<le> pow2 (bitlen n - bitlen d + 1) * of_int d"
    using p(2) by (simp add: mult_left_mono)
  finally have "of_int n < pow2 (bitlen n - bitlen d + 1) * of_int d" using p(1) by linarith
  then have "q < pow2 (bitlen n - bitlen d + 1)" unfolding q(3) using q(2) by (simp add: pos_divide_less_eq)
  then show ?thesis by (auto simp: ilog2_def nd Let_def)
qed

lemma round_even_int [simp]: "round_even (of_int n) = n"
  by (simp add: round_even_def)

lemma round_even_le: "q \<le> of_int n \<Longrightarrow> round_even q \<le> n"
proof -
  assume a: "q \<le> of_int n"
  show "round_even q \<le> n"
  proof (cases "q = of_int n")
    case False
    with a have "q < of_int n" by simp
    then have "floor q < n" by (simp add: floor_less_iff)
    then show ?thesis by (auto simp: round_even_def Let_def)
  qed simp
qed

text \<open>The spacing of the floats at a positive magnitude.\<close>

definition quantum :: "rat \<Rightarrow> int" where
  "quantum m = max (ilog2 m - 52) (-1074)"

lemma grid_mantissa:
  assumes "0 < m"
  shows "of_int (round_even (m / pow2 (quantum m))) \<le> (2 :: rat) ^ 53" and "0 \<le> round_even (m / pow2 (quantum m))"
proof -
  have "ilog2 m + 1 \<le> quantum m + 53" by (simp add: quantum_def)
  with ilog2_upper[OF assms] pow2_mono have "m < pow2 (quantum m + 53)" by (meson less_le_trans)
  then have "m / pow2 (quantum m) < pow2 53"
    by (simp add: pos_divide_less_eq pow2_add mult.commute)
  then have "m / pow2 (quantum m) \<le> of_int (2 ^ 53)" by (simp add: pow2_def)
  from round_even_le[OF this] have "(of_int (round_even (m / pow2 (quantum m))) :: rat) \<le> of_int (2 ^ 53)"
    by (simp only: of_int_le_iff)
  then show "of_int (round_even (m / pow2 (quantum m))) \<le> (2 :: rat) ^ 53" by simp
  show "0 \<le> round_even (m / pow2 (quantum m))" using assms
    by (intro round_even_nonneg divide_nonneg_nonneg) (simp_all add: less_imp_le)
qed

lemma grid_exact:
  assumes "0 < n" and "n \<le> 2 ^ 53" and "-1074 \<le> s" and "r = of_int n * pow2 s"
  shows "of_int (round_even (r / pow2 (quantum r))) * pow2 (quantum r) = r"
proof -
  have r0: "0 < r" using assms(1,4) by simp
  have lo: "pow2 (ilog2 r) \<le> r" by (rule pow2_le[OF r0])
  have "(of_int n :: rat) \<le> of_int (2 ^ 53)" using assms(2) by linarith
  then have "r \<le> pow2 53 * pow2 s" unfolding assms(4) by (intro mult_right_mono) (simp_all add: pow2_def less_imp_le)
  then have hi: "r \<le> pow2 (s + 53)" by (simp add: pow2_add mult.commute)
  have "ilog2 r \<le> s + 53"
    using order_trans[OF lo hi] pow2_less_iff[of "s + 53" "ilog2 r"] by linarith
  then have q: "quantum r \<le> s + 1" using assms(3) by (simp add: quantum_def)
  have "\<exists>k. r = of_int k * pow2 (quantum r)"
  proof (cases "quantum r \<le> s")
    case True
    define j where "j = nat (s - quantum r)"
    have "pow2 s = pow2 (int j) * pow2 (quantum r)" using True by (simp add: j_def flip: pow2_add)
    then have "r = of_int (n * 2 ^ j) * pow2 (quantum r)" by (simp add: assms(4) pow2_nat mult.assoc)
    then show ?thesis by blast
  next
    case False
    with q have qs: "quantum r = s + 1" by simp
    with assms(3) have "ilog2 r = s + 53" by (simp add: quantum_def max_def split: if_splits)
    with lo hi have "r = pow2 (52 + quantum r)" by (simp add: qs add.commute)
    also have "\<dots> = of_int (2 ^ 52) * pow2 (quantum r)" by (simp only: pow2_add) (simp add: pow2_def[of 52])
    finally have "r = of_int (2 ^ 52) * pow2 (quantum r)" .
    then show ?thesis by blast
  qed
  then obtain k where k: "r = of_int k * pow2 (quantum r)" by blast
  have "r / pow2 (quantum r) = of_int k" using k pow2_pos[of "quantum r"] by (metis nonzero_mult_div_cancel_right less_irrefl)
  then show ?thesis using k by (metis round_even_int)
qed

lemma fl_pos:
  assumes "0 < q"
  shows "fl q = (let r = of_int (round_even (q / pow2 (quantum q))) * pow2 (quantum q) in
    if r \<ge> pow2 1024 then PInf else Fin r)"
  using assms by (simp add: fl_def quantum_def Let_def)

lemma fl_minus: "fl (- q) = fneg (fl q)"
  by (auto simp: fl_def fneg_def Let_def)

lemma fl_idem_pos:
  assumes "0 < q" and "fl q = Fin r"
  shows "fl r = Fin r"
proof (cases "r = 0")
  case False
  let ?n = "round_even (q / pow2 (quantum q))"
  have r: "r = of_int ?n * pow2 (quantum q)" "\<not> r \<ge> pow2 1024"
    using assms by (auto simp: fl_pos Let_def split: if_splits)
  have n: "0 < ?n" "?n \<le> 2 ^ 53"
  proof -
    show "0 < ?n" using False r(1) grid_mantissa(2)[OF assms(1)] by (cases "?n = 0") auto
    have "of_int ?n \<le> (of_int (2 ^ 53) :: rat)" using grid_mantissa(1)[OF assms(1)] by simp
    then show "?n \<le> 2 ^ 53" by (simp only: of_int_le_iff)
  qed
  have "of_int (round_even (r / pow2 (quantum r))) * pow2 (quantum r) = r"
    by (rule grid_exact[OF n _ r(1)]) (simp add: quantum_def)
  moreover have "0 < r" using r(1) n(1) by simp
  ultimately show ?thesis using r(2) by (simp add: fl_pos)
qed simp

lemma fl_idem: "fl q = Fin r \<Longrightarrow> fl r = Fin r"
proof -
  assume a: "fl q = Fin r"
  consider "q = 0" | "0 < q" | "0 < - q" by linarith
  then show "fl r = Fin r"
  proof cases
    case 3
    from a have "fl (- q) = Fin (- r)" by (simp add: fl_minus fneg_def)
    from fl_idem_pos[OF 3 this] show ?thesis by (simp add: fl_minus fneg_def split: pyfloat.splits)
  qed (use a fl_idem_pos in auto)
qed

end
