(* ===== verification/VisionFacts.thy ===== *)
theory VisionFacts
  imports VisionContracts FloatFacts
begin

text \<open>
  Documents that read back: every value that a parser of the pose and vision contracts returns is returned again for
  its own document form. The interface \<open>document\<close> states this once; it is interpreted for each part, and the
  documents are built from their parts.
\<close>

section \<open>The interface\<close>

locale document =
  fixes parse :: "pyval \<Rightarrow> 'a res" and render :: "'a \<Rightarrow> pyval"
  assumes reparse: "parse v = Inr x \<Longrightarrow> parse (render x) = Inr x"
    and not_null: "render x \<noteq> VNone"
begin

lemma list_reparse: "map_res parse vs = Inr xs \<Longrightarrow> map_res parse (map render xs) = Inr xs"
  by (induction vs arbitrary: xs) (auto simp: bind_res_Inr_iff reparse)

lemma optional_reparse:
  assumes "unless_null parse d k = Inr x" and "get_or_None e j = or_null render x"
  shows "unless_null parse e j = Inr x"
proof (cases x)
  case None
  with assms(2) show ?thesis by (simp add: unless_null_def or_null_def)
next
  case (Some y)
  with assms(1) have "parse (get_or_None d k) = Inr y"
    by (auto simp: unless_null_def Let_def bind_res_Inr_iff split: if_splits)
  with assms(2) Some show ?thesis by (simp add: unless_null_def or_null_def not_null reparse)
qed

lemma render_inject: "parse v = Inr x \<Longrightarrow> parse w = Inr y \<Longrightarrow> render x = render y \<Longrightarrow> x = y"
  by (metis reparse sum.inject(2))

end

section \<open>Scalars\<close>

lemma dropWhile_head: "(case s of [] \<Rightarrow> True | c # _ \<Rightarrow> \<not> P c) \<Longrightarrow> dropWhile P s = s"
  by (cases s) auto

lemma rstrip_prefix: "\<exists>w. s = rstrip s @ w"
proof -
  have "rev s = takeWhile is_space (rev s) @ dropWhile is_space (rev s)" by simp
  then have "s = rev (dropWhile is_space (rev s)) @ rev (takeWhile is_space (rev s))"
    by (metis rev_append rev_rev_ident)
  then show ?thesis by (auto simp: rstrip_def)
qed

lemma lstrip_prefix: "lstrip s = t @ w \<Longrightarrow> lstrip t = t"
  using hd_dropWhile[of is_space s] by (cases t) (auto simp: lstrip_def)

lemma strip_idem: "strip (strip s) = strip s"
proof -
  obtain w where "lstrip s = strip s @ w" using rstrip_prefix[of "lstrip s"] by (auto simp: strip_def)
  from lstrip_prefix[OF this] have "strip (strip s) = rstrip (rstrip (lstrip s))" by (simp add: strip_def)
  then show ?thesis by (simp add: strip_def rstrip_def)
qed

interpretation text_doc: document nonempty_text VStr
  by unfold_locales (auto simp: nonempty_text_def strip_idem split: pyval.splits if_splits)

lemma vision_id_VStr: "vision_id t v = Inr s \<Longrightarrow> v = VStr s"
  by (auto simp: vision_id_def split: pyval.splits sum.splits if_splits)

interpretation id_doc: document "vision_id t" VStr for t
  by unfold_locales (use vision_id_VStr in auto)

lemma vision_timestamp_VStr: "vision_timestamp v = Inr s \<Longrightarrow> v = VStr s"
  by (auto simp: vision_timestamp_def split: pyval.splits sum.splits if_splits)

interpretation time_doc: document vision_timestamp VStr
  by unfold_locales (use vision_timestamp_VStr in auto)

lemma one_of_VStr: "one_of cs v = Inr s \<Longrightarrow> v = VStr s"
  by (auto simp: one_of_def split: pyval.splits if_splits)

interpretation choice_doc: document "one_of cs" VStr for cs
  by unfold_locales (use one_of_VStr in auto)

interpretation interval_doc: document unit_interval number
  by unfold_locales (auto simp: unit_interval_def vision_finite_def number_def bind_res_Inr_iff split: if_splits)

interpretation coordinate_doc: document vision_finite number
  by unfold_locales (auto simp: vision_finite_def number_def)

lemma vision_ids_strs: "map_res (vision_id t) vs = Inr ids \<Longrightarrow> vs = map VStr ids"
  by (induction vs arbitrary: ids) (auto simp: bind_res_Inr_iff dest: vision_id_VStr)

lemma vision_ids_str_list: "vision_ids b t v = Inr ids \<Longrightarrow> v = str_list ids"
  by (auto simp: vision_ids_def vision_sequence_def str_list_def bind_res_Inr_iff
      dest: vision_ids_strs split: pyval.splits if_splits)

interpretation ids_doc: document "vision_ids b t" str_list for b t
proof unfold_locales
  show "vision_ids b t (str_list x) = Inr x" if "vision_ids b t v = Inr x" for v x
    using that vision_ids_str_list[OF that] by simp
qed (simp add: str_list_def)


section \<open>Parts of a document\<close>

lemmas reading = vision_object_def known_fields_def get_or_None_def get_dflt_def

lemmas reparse_parts = id_doc.reparse time_doc.reparse choice_doc.reparse interval_doc.reparse
  coordinate_doc.reparse ids_doc.reparse text_doc.reparse

interpretation bbox_doc: document parse_bbox bbox_as_mapping
proof unfold_locales
  show "parse_bbox (bbox_as_mapping x) = Inr x" if "parse_bbox v = Inr x" for v x
  proof -
    from that obtain a b c d where "unit_interval a = Inr (x_min x)" "unit_interval b = Inr (y_min x)"
      "unit_interval c = Inr (x_max x)" "unit_interval d = Inr (y_max x)" "x_min x < x_max x" "y_min x < y_max x"
      by (auto simp: parse_bbox_def bind_res_Inr_iff split: if_splits)
    then show ?thesis by (simp add: parse_bbox_def bbox_as_mapping_def reading interval_doc.reparse)
  qed
qed (simp add: bbox_as_mapping_def)

interpretation source_doc: document parse_source source_as_mapping
proof unfold_locales
  show "parse_source (source_as_mapping x) = Inr x" if "parse_source v = Inr x" for v x
    using that by (auto simp: parse_source_def source_as_mapping_def bind_res_Inr_iff reading) (simp_all add: id_doc.reparse)
qed (simp add: source_as_mapping_def)

interpretation belief_doc: document parse_detector_belief detector_belief_as_mapping
proof unfold_locales
  show "parse_detector_belief (detector_belief_as_mapping x) = Inr x" if "parse_detector_belief v = Inr x" for v x
    using that by (auto simp: parse_detector_belief_def detector_belief_as_mapping_def bind_res_Inr_iff reading) (simp_all add: text_doc.reparse interval_doc.reparse bbox_doc.reparse)
qed (simp add: detector_belief_as_mapping_def)

interpretation track_ref_doc: document parse_track_reference track_reference_as_mapping
proof unfold_locales
  show "parse_track_reference (track_reference_as_mapping x) = Inr x" if "parse_track_reference v = Inr x" for v x
    using that by (auto simp: parse_track_reference_def track_reference_as_mapping_def bind_res_Inr_iff reading) (simp_all add: text_doc.reparse id_doc.reparse)
qed (simp add: track_reference_as_mapping_def)

interpretation candidate_hypothesis_doc: document parse_candidate_hypothesis candidate_hypothesis_as_mapping
proof unfold_locales
  show "parse_candidate_hypothesis (candidate_hypothesis_as_mapping x) = Inr x"
    if "parse_candidate_hypothesis v = Inr x" for v x
    using that by (auto simp: parse_candidate_hypothesis_def candidate_hypothesis_as_mapping_def bind_res_Inr_iff
      reading) (simp_all add: interval_doc.reparse id_doc.reparse)
qed (simp add: candidate_hypothesis_as_mapping_def)

interpretation item_hypothesis_doc: document parse_item_hypothesis item_hypothesis_as_mapping
proof unfold_locales
  show "parse_item_hypothesis (item_hypothesis_as_mapping x) = Inr x" if "parse_item_hypothesis v = Inr x" for v x
    using that by (auto simp: parse_item_hypothesis_def item_hypothesis_as_mapping_def bind_res_Inr_iff
      reading) (simp_all add: interval_doc.reparse id_doc.reparse ids_doc.reparse)
qed (simp add: item_hypothesis_as_mapping_def)


lemma media_char_lower: "media_char c \<Longrightarrow> media_char (lower c)"
proof -
  assume m: "media_char c"
  show "media_char (lower c)"
  proof (cases "is_upper c")
    case True
    then have "code_pt (lower c) = code_pt c + 32" by (simp add: lower_def is_upper_def code_pt_def)
    with True have "is_lower (lower c)" by (simp add: is_upper_def is_lower_def)
    then show ?thesis by (simp add: media_char_def is_alnum_def is_alpha_def)
  next
    case False
    with m have "code_pt c < 128" by (auto simp: media_char_def char_class_defs)
    with False have "lower c = c" by (simp add: lower_def)
    with m show ?thesis by simp
  qed
qed

lemma lower_idem: "lower (lower c) = lower c"
proof -
  have "\<not> is_upper (lower c) \<and> \<not> (192 \<le> code_pt (lower c) \<and> code_pt (lower c) \<le> 222 \<and> code_pt (lower c) \<noteq> 215)"
    by (auto simp: lower_def is_upper_def code_pt_def)
  then show ?thesis unfolding lower_def[of "lower c"] by auto
qed

lemma split_on_lower: "list_all (\<lambda>w. list_all media_char w) (split_on CHR ''/'' s) \<Longrightarrow>
    split_on CHR ''/'' (map lower s) = map (map lower) (split_on CHR ''/'' s)"
proof (induction s)
  case (Cons c s)
  obtain w ws where w: "split_on CHR ''/'' s = w # ws" by (cases "split_on CHR ''/'' s") auto
  have s: "lower CHR ''/'' = CHR ''/''" by code_simp
  show ?case
  proof (cases "c = CHR ''/''")
    case False
    with Cons.prems w have m: "media_char c" by simp
    have "\<not> media_char CHR ''/''" by code_simp
    with media_char_lower[OF m] have "lower c \<noteq> CHR ''/''" by auto
    with False Cons w show ?thesis by simp
  qed (use Cons s in simp)
qed simp

lemma media_type_lower:
  assumes "media_type m"
  shows "media_type (map lower m)"
proof -
  have a: "list_all (\<lambda>w. w \<noteq> [] \<and> list_all media_char w) (split_on CHR ''/'' m)" "length (split_on CHR ''/'' m) = 2"
    using assms by (simp_all add: media_type_def)
  then have "split_on CHR ''/'' (map lower m) = map (map lower) (split_on CHR ''/'' m)"
    by (intro split_on_lower) (auto simp: list_all_iff)
  with a show ?thesis by (auto simp: media_type_def list_all_iff media_char_lower)
qed

lemma case_VInt_Inr: "(case v of VInt i \<Rightarrow> f i | _ \<Rightarrow> Inl e) = Inr y \<longleftrightarrow> (\<exists>i. v = VInt i \<and> f i = Inr y)"
  by (cases v) auto

interpretation artifact_doc: document parse_artifact artifact_as_mapping
proof unfold_locales
  show "parse_artifact (artifact_as_mapping x) = Inr x" if "parse_artifact v = Inr x" for v x
  proof -
    from that obtain k m where "artifact_ref (af_ref x)" "one_of artifact_kinds k = Inr (af_kind x)"
      "media_type m" "af_media x = map lower m" "\<not> af_length x < 0"
      by (auto simp: parse_artifact_def Inr_iffs case_VInt_Inr)
    moreover from this have "map lower (af_media x) = af_media x" by (simp add: lower_idem)
    ultimately show ?thesis
      by (simp add: parse_artifact_def artifact_as_mapping_def reading choice_doc.reparse media_type_lower)
  qed
qed (simp add: artifact_as_mapping_def)

section \<open>Poses\<close>

lemma casefold_units: "casefold ''m'' = ''m''" "casefold ''rad'' = ''rad''"
  by code_simp+

lemma length_to_meters_m: "length_factor (VStr ''m'') = Inr (Fin 1)"
  by (simp add: length_factor_def length_to_meters_def casefold_units)

lemma angle_to_radians_rad: "map_of angle_to_radians (casefold ''rad'') = Some (Fin 1)"
  by (simp add: angle_to_radians_def casefold_units)

text \<open>A number that came out of a conversion is a float: converting it again changes nothing.\<close>

definition is_float :: "rat \<Rightarrow> bool" where
  "is_float r \<longleftrightarrow> fl r = Fin r"

lemma fl_is_float: "fl q = Fin r \<Longrightarrow> is_float r"
  unfolding is_float_def by (rule fl_idem)

lemma fmul_float: "fmul a b = Fin r \<Longrightarrow> is_float r"
  by (cases a; cases b) (auto simp: finf_def split: if_splits elim!: fl_is_float)

lemma fadd_float: "fadd a b = Fin r \<Longrightarrow> is_float r"
  by (cases a; cases b) (auto elim!: fl_is_float)

lemma as_meters_number: "is_float r \<Longrightarrow> as_meters (number r) ''m'' = Inr (Fin r)"
  by (simp add: as_meters_def number_def normalize_length_def unit_finite_def length_to_meters_m is_float_def)

lemma as_radians_number: "is_float r \<Longrightarrow> as_radians (number r) ''rad'' = Inr (Fin r)"
  by (simp add: as_radians_def number_def normalize_angle_def unit_finite_def angle_to_radians_rad is_float_def)

lemma normalize_length_float: "normalize_length v u = Inr (Fin r) \<Longrightarrow> is_float r"
  by (auto simp: normalize_length_def normalize_feet_inches_def bind_res_Inr_iff
      dest: fmul_float fadd_float split: pyval.splits if_splits)

lemma as_meters_float: "as_meters v u = Inr (Fin r) \<Longrightarrow> is_float r"
  by (auto simp: as_meters_def bind_res_Inr_iff split: pyval.splits if_splits dest: normalize_length_float)

lemma normalize_angle_float: "normalize_angle v u = Inr (Fin r) \<Longrightarrow> is_float r"
  by (auto simp: normalize_angle_def Inr_iffs dest: fmul_float)

lemma as_radians_float: "as_radians v u = Inr (Fin r) \<Longrightarrow> is_float r"
  by (auto simp: as_radians_def bind_res_Inr_iff split: pyval.splits dest: normalize_angle_float)

lemma measured3_Inr:
  assumes "measured3 f names v = Inr xs"
  obtains d where "list_all2 (\<lambda>k x. f (get_or_None d k) = Inr x) names xs"
  using assms by (auto simp: measured3_def bind_res_Inr_iff reraised_def map_res_Inr_iff split: sum.splits if_splits)

lemma mk_pose_Inr:
  assumes "mk_pose [a, b, c] [e, f, g] = Inr p"
  shows "a = Fin (px (ps_position p))" "b = Fin (py (ps_position p))" "c = Fin (pz (ps_position p))"
    "e = Fin (or_yaw (ps_orientation p))" "f = Fin (or_pitch (ps_orientation p))" "g = Fin (or_roll (ps_orientation p))"
  using assms by (auto simp: mk_pose_def bind_res_Inr_iff transform_finite_def split: pyfloat.splits)

definition float_pose :: "pose \<Rightarrow> bool" where
  "float_pose p \<longleftrightarrow> (let a = ps_position p; b = ps_orientation p in
     is_float (px a) \<and> is_float (py a) \<and> is_float (pz a)
     \<and> is_float (or_yaw b) \<and> is_float (or_pitch b) \<and> is_float (or_roll b))"

lemma pose_estimate_float:
  assumes "pose_estimate d = Inr p"
  shows "float_pose p"
proof -
  from assms obtain v w xs ys where m: "measured_position v = Inr xs" "measured_orientation w = Inr ys" "mk_pose xs ys = Inr p"
    by (auto simp: pose_estimate_def bind_res_Inr_iff split: option.splits)
  obtain d1 where "list_all2 (\<lambda>k x. as_meters (get_or_None d1 k) ''m'' = Inr x) [''x'', ''y'', ''z''] xs"
    using m(1) unfolding measured_position_def by (rule measured3_Inr)
  then obtain a b c where xs: "xs = [a, b, c]" "as_meters (get_or_None d1 ''x'') ''m'' = Inr a"
    "as_meters (get_or_None d1 ''y'') ''m'' = Inr b" "as_meters (get_or_None d1 ''z'') ''m'' = Inr c"
    by (auto simp: list_all2_Cons1)
  obtain d2 where "list_all2 (\<lambda>k x. as_radians (get_or_None d2 k) ''rad'' = Inr x) [''yaw'', ''pitch'', ''roll''] ys"
    using m(2) unfolding measured_orientation_def by (rule measured3_Inr)
  then obtain e f g where ys: "ys = [e, f, g]" "as_radians (get_or_None d2 ''yaw'') ''rad'' = Inr e"
    "as_radians (get_or_None d2 ''pitch'') ''rad'' = Inr f" "as_radians (get_or_None d2 ''roll'') ''rad'' = Inr g"
    by (auto simp: list_all2_Cons1)
  note mk = mk_pose_Inr[OF m(3)[unfolded xs(1) ys(1)]]
  show ?thesis
    using as_meters_float[OF xs(2)[unfolded mk(1)]] as_meters_float[OF xs(3)[unfolded mk(2)]]
      as_meters_float[OF xs(4)[unfolded mk(3)]] as_radians_float[OF ys(2)[unfolded mk(4)]]
      as_radians_float[OF ys(3)[unfolded mk(5)]] as_radians_float[OF ys(4)[unfolded mk(6)]]
    by (simp add: float_pose_def)
qed

lemma pose_estimate_mapping:
  assumes "float_pose p" and "map_of d ''position'' = Some (xyz_mapping (ps_position p))"
    and "map_of d ''orientation'' = Some (orientation_mapping (ps_orientation p))"
  shows "pose_estimate d = Inr p"
  using assms
  by (simp add: pose_estimate_def measured_position_def measured_orientation_def measured3_def xyz_mapping_def
      orientation_mapping_def reading reraised_def as_meters_number as_radians_number float_pose_def Let_def
      mk_pose_def transform_finite_def)

subsection \<open>Uncertainties\<close>

lemma map_of_opt_items:
  "distinct (map fst ps) \<Longrightarrow> map_of (concat (map (\<lambda>(k, s). opt_item k (map_option number s)) ps)) k
     = (case map_of ps k of Some (Some s) \<Rightarrow> Some (number s) | _ \<Rightarrow> None)"
proof (induction ps)
  case (Cons p ps)
  obtain j s where p: "p = (j, s)" by fastforce
  show ?case
  proof (cases "k = j")
    case True
    with Cons.prems p have "map_of ps k = None" by (simp add: map_of_eq_None_iff)
    with Cons True p show ?thesis by (cases s) (simp_all add: opt_item_def)
  next
    case False
    with Cons p show ?thesis by (cases s) (simp_all add: opt_item_def)
  qed
qed simp

lemma keys_opt_items: "fst ` set (concat (map (\<lambda>(k, s). opt_item k (map_option number s)) ps)) \<subseteq> fst ` set ps"
  by (force simp: opt_item_def split: option.splits)

lemma float_of_int_nonneg: "float_of_int i = Inr r \<Longrightarrow> 0 \<le> i \<Longrightarrow> 0 \<le> r"
  using fl_nonneg[of "of_int i" r] by (simp add: float_of_int_def split: pyfloat.splits)

lemma sigma_term_nonneg: "sigma_term e d k = Inr (Some r) \<Longrightarrow> 0 \<le> r"
  by (auto simp: sigma_term_def bind_res_Inr_iff dest: float_of_int_nonneg
      split: option.splits pyval.splits pyfloat.splits if_splits)

lemma sigma_term_number:
  assumes "\<And>r. s = Some r \<Longrightarrow> 0 \<le> r" and "map_of d k = map_option number s"
  shows "sigma_term e d k = Inr s"
  using assms by (cases s) (force simp: sigma_term_def number_def)+

definition names_ok :: "string list \<Rightarrow> bool" where
  "names_ok names \<longleftrightarrow> names = sigma_fields \<or> names = position_sigmas"

lemma named_sigmas:
  "filter (\<lambda>p. fst p \<in> set sigma_fields) (zip sigma_fields [a, b, c, e, f, g]) = zip sigma_fields [a, b, c, e, f, g]"
  "filter (\<lambda>p. fst p \<in> set position_sigmas) (zip sigma_fields [a, b, c, e, f, g]) = zip position_sigmas [a, b, c]"
  "distinct sigma_fields" "distinct position_sigmas" "length sigma_fields = 6" "length position_sigmas = 3"
  by (simp_all add: sigma_fields_def position_sigmas_def)

lemma lists_by_length:
  "length xs = 3 \<Longrightarrow> xs = [xs ! 0, xs ! 1, xs ! 2]"
  "length xs = 6 \<Longrightarrow> xs = [xs ! 0, xs ! 1, xs ! 2, xs ! 3, xs ! 4, xs ! 5]"
  by (rule nth_equalityI; auto simp: less_Suc_eq numeral_eq_Suc)+

lemma uncertainty_reparse:
  assumes "uncertainty_of e names v = Inr u" and "names_ok names"
  shows "uncertainty_of e names (uncertainty_mapping names u) = Inr u"
proof -
  obtain d ss where ss: "map_res (sigma_term e d) names = Inr ss"
    "u = (let s = ss @ replicate (6 - length ss) None in
       \<lparr>x_sigma = s ! 0, y_sigma = s ! 1, z_sigma = s ! 2, yaw_sigma = s ! 3, pitch_sigma = s ! 4, roll_sigma = s ! 5\<rparr>)"
    using assms(1) by (auto simp: uncertainty_of_def bind_res_Inr_iff Let_def)
  let ?ps = "filter (\<lambda>p. fst p \<in> set names) (sigmas u)"
  let ?d = "concat (map (\<lambda>(k, s). opt_item k (map_option number s)) ?ps)"
  have l: "list_all2 (\<lambda>k s. sigma_term e d k = Inr s) names ss" using ss(1) by (simp add: map_res_Inr_iff)
  have len: "length ss = length names" using l by (simp add: list_all2_lengthD)
  have ps: "?ps = zip names ss \<and> distinct names"
    using assms(2) unfolding names_ok_def
  proof
    assume n: "names = sigma_fields"
    with len obtain a b c f g h where s: "ss = [a, b, c, f, g, h]"
      using lists_by_length(2)[of ss] by (auto simp: named_sigmas)
    show ?thesis by (simp add: n s sigmas_def ss(2) named_sigmas)
  next
    assume n: "names = position_sigmas"
    with len obtain a b c where s: "ss = [a, b, c]"
      using lists_by_length(1)[of ss] by (auto simp: named_sigmas)
    show ?thesis by (simp add: n s sigmas_def ss(2) named_sigmas)
  qed
  from len have keys: "fst ` set ?ps = set names" "distinct (map fst ?ps)"
    using ps by (simp_all flip: set_map)
  have "sigma_term e ?d k = Inr s" if "(k, s) \<in> set (zip names ss)" for k s
  proof (rule sigma_term_number)
    have m: "map_of ?ps k = Some s" using that ps keys(2) by (simp add: map_of_eq_Some_iff)
    then show "map_of ?d k = map_option number s"
      using map_of_opt_items[OF keys(2)] by (simp split: option.split)
    show "0 \<le> r" if "s = Some r" for r
      using that \<open>(k, s) \<in> set (zip names ss)\<close> l by (auto simp: list_all2_iff intro: sigma_term_nonneg)
  qed
  with len have "map_res (sigma_term e ?d) names = Inr ss" by (auto simp: map_res_Inr_iff list_all2_iff)
  moreover have "known_fields e names (uncertainty_mapping names u) = Inr ?d"
    using keys_opt_items[of ?ps] keys(1) by (simp add: known_fields_def uncertainty_mapping_def)
  ultimately show ?thesis by (simp add: uncertainty_of_def ss(2) Let_def)
qed

interpretation uncertainty_doc: document "uncertainty_of e sigma_fields" "uncertainty_mapping sigma_fields" for e
proof unfold_locales
  show "uncertainty_of e sigma_fields (uncertainty_mapping sigma_fields x) = Inr x"
    if "uncertainty_of e sigma_fields v = Inr x" for v x
    by (rule uncertainty_reparse[OF that]) (simp add: names_ok_def)
qed (simp add: uncertainty_mapping_def)

interpretation position_uncertainty_doc:
  document "uncertainty_of e position_sigmas" "uncertainty_mapping position_sigmas" for e
proof unfold_locales
  show "uncertainty_of e position_sigmas (uncertainty_mapping position_sigmas x) = Inr x"
    if "uncertainty_of e position_sigmas v = Inr x" for v x
    by (rule uncertainty_reparse[OF that]) (simp add: names_ok_def)
qed (simp add: uncertainty_mapping_def)

subsection \<open>Runtime poses\<close>

lemma pose_timestamp_VStr: "pose_timestamp v = Inr s \<Longrightarrow> v = VStr s"
  by (auto simp: pose_timestamp_def reraised_def bind_res_Inr_iff split: pyval.splits sum.splits if_splits)

lemma pose_source_VStr: "pose_source v = Inr s \<Longrightarrow> v = VStr s"
  by (auto simp: pose_source_def split: pyval.splits if_splits)

lemma if_present_opt:
  assumes "if_present f d k = Inr x" and "\<And>v y. f v = Inr y \<Longrightarrow> f (g y) = Inr y" and "map_of e k = map_option g x"
  shows "if_present f e k = Inr x"
  using assms(1,3) by (cases x) (auto simp: if_present_def bind_res_Inr_iff assms(2) split: option.splits)

lemma typed_id_val_reparse: "typed_id_val v t = Inr s \<Longrightarrow> typed_id_val (VStr s) t = Inr s"
  by (simp add: typed_id_val_Inr_iff)

text \<open>The fields of a document, looked up.\<close>

lemma runtime_pose_lookup:
  "map_of (runtime_pose_fields p) ''agent'' = Some (VStr (rp_agent p))"
  "map_of (runtime_pose_fields p) ''space'' = Some (VStr (rp_space p))"
  "map_of (runtime_pose_fields p) ''quality'' = Some (VStr (rp_quality p))"
  "map_of (runtime_pose_fields p) ''position'' = map_option (xyz_mapping \<circ> ps_position) (rp_estimate p)"
  "map_of (runtime_pose_fields p) ''orientation'' = map_option (orientation_mapping \<circ> ps_orientation) (rp_estimate p)"
  "map_of (runtime_pose_fields p) ''timestamp'' = map_option VStr (rp_timestamp p)"
  "map_of (runtime_pose_fields p) ''source'' = map_option VStr (rp_source p)"
  "map_of (runtime_pose_fields p) ''uncertainty'' = map_option (uncertainty_mapping sigma_fields) (rp_uncertainty p)"
  "set (map fst (runtime_pose_fields p)) \<subseteq> set runtime_fields"
  by (simp_all add: runtime_pose_fields_def opt_item_def runtime_fields_def split: option.split) auto

lemma runtime_pose_reparse:
  assumes "parse_runtime_pose v = Inr (Some p)"
  shows "parse_runtime_pose (runtime_pose_as_mapping p) = Inr (Some p)"
proof -
  let ?d = "runtime_pose_fields p"
  let ?h = "\<lambda>d. map_of d ''position'' \<noteq> None \<or> map_of d ''orientation'' \<noteq> None"
  from assms obtain d where d: "typed_id_val (get_or_None d ''agent'') ''agent'' = Inr (rp_agent p)"
    "typed_id_val (get_or_None d ''space'') ''space'' = Inr (rp_space p)"
    "quality_of d (?h d) = Inr (rp_quality p)"
    "(if ?h d then bind_res (pose_estimate d) (\<lambda>p. Inr (Some p)) else Inr None) = Inr (rp_estimate p)"
    "if_present pose_timestamp d ''timestamp'' = Inr (rp_timestamp p)"
    "if_present pose_source d ''source'' = Inr (rp_source p)"
    "\<not> (rp_estimate p \<noteq> None \<and> (rp_timestamp p = None \<or> rp_source p = None))"
    "if_present (uncertainty_of SpatialContractError sigma_fields) d ''uncertainty'' = Inr (rp_uncertainty p)"
    by (auto simp: parse_runtime_pose_def Let_def bind_res_Inr_iff simp del: not_None_eq split: if_splits)
  have h: "?h ?d = ?h d" "\<And>e. rp_estimate p = Some e \<Longrightarrow> float_pose e"
  proof -
    have "?h ?d \<longleftrightarrow> rp_estimate p \<noteq> None" by (simp add: runtime_pose_lookup)
    also have "\<dots> \<longleftrightarrow> ?h d"
      using d(4) by (cases "rp_estimate p") (auto simp: bind_res_Inr_iff split: if_splits)
    finally show "?h ?d = ?h d" .
    show "float_pose e" if "rp_estimate p = Some e" for e
      using d(4) that by (auto simp: bind_res_Inr_iff intro: pose_estimate_float split: if_splits)
  qed
  have q: "quality_of ?d (?h ?d) = Inr (rp_quality p)"
    unfolding h(1) using d(3)
    by (auto simp: quality_of_def Let_def runtime_pose_lookup get_or_None_def split: option.splits pyval.splits if_splits)
  have e: "(if ?h ?d then bind_res (pose_estimate ?d) (\<lambda>p. Inr (Some p)) else Inr None) = Inr (rp_estimate p)"
    using h(2) by (cases "rp_estimate p") (simp_all add: runtime_pose_lookup pose_estimate_mapping)
  have t: "if_present pose_timestamp ?d ''timestamp'' = Inr (rp_timestamp p)"
    by (rule if_present_opt[OF d(5), where g = VStr]) (auto simp: runtime_pose_lookup dest: pose_timestamp_VStr)
  have s: "if_present pose_source ?d ''source'' = Inr (rp_source p)"
    by (rule if_present_opt[OF d(6), where g = VStr]) (auto simp: runtime_pose_lookup dest: pose_source_VStr)
  have u: "if_present (uncertainty_of SpatialContractError sigma_fields) ?d ''uncertainty'' = Inr (rp_uncertainty p)"
    by (rule if_present_opt[OF d(8), where g = "uncertainty_mapping sigma_fields"])
      (auto simp: runtime_pose_lookup intro: uncertainty_doc.reparse)
  have k: "known_fields SpatialContractError runtime_fields (runtime_pose_as_mapping p) = Inr ?d"
    by (simp add: known_fields_def runtime_pose_as_mapping_def runtime_pose_lookup(9)[simplified])
  have i: "typed_id_val (get_or_None ?d ''agent'') ''agent'' = Inr (rp_agent p)"
    "typed_id_val (get_or_None ?d ''space'') ''space'' = Inr (rp_space p)"
    using d(1,2) by (auto simp: get_or_None_def runtime_pose_lookup dest: typed_id_val_reparse)
  show ?thesis
    using d(7) unfolding parse_runtime_pose_def
    by (simp only: k i q e t s u bind_res.simps Let_def) (simp add: runtime_pose_as_mapping_def)
qed

end
