(* ===== verification/VisionDocuments.thy ===== *)
theory VisionDocuments
  imports VisionFacts
begin

text \<open>The documents of visual evidence read back, and what their parsers guarantee.\<close>

section \<open>Documents\<close>

interpretation estimate_doc: document parse_object_position object_position_as_mapping
proof unfold_locales
  show "parse_object_position (object_position_as_mapping x) = Inr x" if "parse_object_position v = Inr x" for v x
  proof -
    from that obtain d p a b c s where d: "vision_finite a = Inr (px (oe_position x))"
      "vision_finite b = Inr (py (oe_position x))" "vision_finite c = Inr (pz (oe_position x))"
      "unless_null (uncertainty_of VisionContractError position_sigmas) d ''uncertainty'' = Inr (oe_uncertainty x)"
      "vision_id ''space'' s = Inr (oe_space x)"
      by (auto simp: parse_object_position_def bind_res_Inr_iff)
    let ?e = "[(''space'', VStr (oe_space x)), (''position'', xyz_mapping (oe_position x)),
     (''uncertainty'', or_null (uncertainty_mapping position_sigmas) (oe_uncertainty x))]"
    have "unless_null (uncertainty_of VisionContractError position_sigmas) ?e ''uncertainty'' = Inr (oe_uncertainty x)"
      by (rule position_uncertainty_doc.optional_reparse[OF d(4)]) (simp add: get_or_None_def)
    with d show ?thesis
      by (simp add: parse_object_position_def object_position_as_mapping_def reading xyz_mapping_def
        coordinate_doc.reparse id_doc.reparse)
  qed
qed (simp add: object_position_as_mapping_def)

lemma observer_pose_reparse:
  assumes "observer_pose v = Inr p"
  shows "observer_pose (or_null runtime_pose_as_mapping p) = Inr p"
proof (cases p)
  case None
  then show ?thesis by (simp add: observer_pose_def or_null_def)
next
  case (Some q)
  with assms have "parse_runtime_pose v = Inr (Some q)" by (auto simp: observer_pose_def split: if_splits sum.splits)
  from runtime_pose_reparse[OF this] Some show ?thesis
    by (simp add: observer_pose_def or_null_def runtime_pose_as_mapping_def)
qed

lemma vision_sequence_list: "vision_sequence (VList vs) = Inr vs"
  by (simp add: vision_sequence_def)

interpretation producer_doc: document parse_producer_profile producer_profile_as_mapping
proof unfold_locales
  show "parse_producer_profile (producer_profile_as_mapping x) = Inr x" if "parse_producer_profile v = Inr x" for v x
  proof -
    have pair: "optional_pair e n w = Inr p" if "optional_pair d n' w' = Inr p"
      "get_or_None e n = or_null (VStr \<circ> fst) p" "get_or_None e w = or_null (VStr \<circ> snd) p" for d e n n' w w' p
      using that by (cases p) (auto simp: optional_pair_def or_null_def Let_def bind_res_Inr_iff text_doc.reparse split: if_splits)
    from that obtain d i n w where d: "optional_pair d ''detector_name'' ''detector_version'' = Inr (pp_detector x)"
      "optional_pair d ''recognizer_name'' ''recognizer_version'' = Inr (pp_recognizer x)"
      "vision_id ''vision_producer'' i = Inr (pp_id x)" "nonempty_text n = Inr (pp_pipeline x)"
      "nonempty_text w = Inr (pp_pipeline_version x)"
      by (auto simp: parse_producer_profile_def bind_res_Inr_iff)
    from d(3-5) show ?thesis
      by (simp add: parse_producer_profile_def producer_profile_as_mapping_def vision_object_def known_fields_def
        producer_fields_def pair[OF d(1)] pair[OF d(2)] get_or_None_def id_doc.reparse text_doc.reparse)
  qed
qed (simp add: producer_profile_as_mapping_def)

interpretation track_doc: document parse_visual_track visual_track_as_mapping
proof unfold_locales
  show "parse_visual_track (visual_track_as_mapping x) = Inr x" if "parse_visual_track v = Inr x" for v x
    using that by (auto simp: parse_visual_track_def visual_track_as_mapping_def bind_res_Inr_iff reading track_fields_def)
      (simp_all add: id_doc.reparse time_doc.reparse text_doc.reparse source_doc.reparse ids_doc.reparse)
qed (simp add: visual_track_as_mapping_def)

interpretation candidate_doc: document parse_visual_candidate visual_candidate_as_mapping
proof unfold_locales
  show "parse_visual_candidate (visual_candidate_as_mapping x) = Inr x" if "parse_visual_candidate v = Inr x" for v x
  proof -
    from that obtain d st seeds merged i created where raw: "one_of candidate_states (get_or_None d ''state'') = Inr st"
      "vision_ids True ''visual_observation'' (get_or_None d ''seed_observation_ids'') = Inr seeds"
      "unless_null (vision_id ''visual_candidate'') d ''merged_into_candidate_id'' = Inr merged"
      "\<not> ((st = ''merged'') \<noteq> (merged \<noteq> None))" "vision_id ''visual_candidate'' (get_or_None d ''id'') = Inr i"
      "merged \<noteq> Some i" "vision_timestamp (get_or_None d ''created_at'') = Inr created"
      and x: "Inr \<lparr>vc_id = i, vc_created = created, vc_state = st, vc_seeds = seeds, vc_merged = merged\<rparr> = Inr x"
      unfolding parse_visual_candidate_def Inr_iffs by blast
    from x have "st = vc_state x" "seeds = vc_seeds x" "merged = vc_merged x" "i = vc_id x" "created = vc_created x"
      by auto
    note d = raw[unfolded this]
    let ?e = "[(''id'', VStr (vc_id x)), (''created_at'', VStr (vc_created x)), (''state'', VStr (vc_state x)),
      (''seed_observation_ids'', str_list (vc_seeds x)), (''merged_into_candidate_id'', or_null VStr (vc_merged x))]"
    have "unless_null (vision_id ''visual_candidate'') ?e ''merged_into_candidate_id'' = Inr (vc_merged x)"
      by (rule id_doc.optional_reparse[OF d(3)]) (simp add: get_or_None_def)
    with d show ?thesis
      by (simp add: parse_visual_candidate_def visual_candidate_as_mapping_def reading candidate_fields_def
        choice_doc.reparse id_doc.reparse ids_doc.reparse time_doc.reparse)
  qed
qed (simp add: visual_candidate_as_mapping_def)

lemma parse_evidence_clip_Inr:
  assumes "parse_evidence_clip v = Inr x"
  obtains d where "one_of clip_states (get_or_None d ''state'') = Inr (ec_state x)"
    "unless_null parse_artifact d ''artifact'' = Inr (ec_artifact x)"
    "unless_null nonempty_text d ''failure_code'' = Inr (ec_failure x)"
    "unless_null vision_timestamp d ''resolved_at'' = Inr (ec_resolved x)"
    "\<not> clip_refused (ec_state x) (ec_artifact x) (ec_failure x) (ec_resolved x)"
    "vision_timestamp (get_or_None d ''start_time'') = Inr (ec_start x)"
    "vision_timestamp (get_or_None d ''end_time'') = Inr (ec_end x)"
    "ordered_times (ec_start x) (ec_end x) = Inr ()"
    "vision_timestamp (get_or_None d ''requested_at'') = Inr (ec_requested x)"
    "ordered_if (ec_requested x) (ec_resolved x) = Inr ()"
    "vision_id ''evidence_clip'' (get_or_None d ''id'') = Inr (ec_id x)"
    "parse_source (get_or_None d ''source'') = Inr (ec_source x)"
    "vision_ids True ''visual_observation'' (get_or_None d ''observation_ids'') = Inr (ec_observations x)"
  using assms by (auto simp: parse_evidence_clip_def bind_res_Inr_iff split: if_splits)

interpretation clip_doc: document parse_evidence_clip evidence_clip_as_mapping
proof unfold_locales
  show "parse_evidence_clip (evidence_clip_as_mapping x) = Inr x" if "parse_evidence_clip v = Inr x" for v x
  proof -
    obtain e where e: "evidence_clip_as_mapping x = VDict e" by (simp add: evidence_clip_as_mapping_def)
    have k: "vision_object clip_fields (VDict e) = Inr e" "get_or_None e ''id'' = VStr (ec_id x)"
      "get_or_None e ''state'' = VStr (ec_state x)" "get_or_None e ''requested_at'' = VStr (ec_requested x)"
      "get_or_None e ''start_time'' = VStr (ec_start x)" "get_or_None e ''end_time'' = VStr (ec_end x)"
      "get_or_None e ''source'' = source_as_mapping (ec_source x)"
      "get_or_None e ''observation_ids'' = str_list (ec_observations x)"
      "get_or_None e ''artifact'' = or_null artifact_as_mapping (ec_artifact x)"
      "get_or_None e ''failure_code'' = or_null VStr (ec_failure x)"
      "get_or_None e ''resolved_at'' = or_null VStr (ec_resolved x)"
      using e by (auto simp: evidence_clip_as_mapping_def reading clip_fields_def)
    from that show ?thesis
    proof (rule parse_evidence_clip_Inr)
      fix d assume d: "one_of clip_states (get_or_None d ''state'') = Inr (ec_state x)"
        "unless_null parse_artifact d ''artifact'' = Inr (ec_artifact x)"
        "unless_null nonempty_text d ''failure_code'' = Inr (ec_failure x)"
        "unless_null vision_timestamp d ''resolved_at'' = Inr (ec_resolved x)"
        "\<not> clip_refused (ec_state x) (ec_artifact x) (ec_failure x) (ec_resolved x)"
        "vision_timestamp (get_or_None d ''start_time'') = Inr (ec_start x)"
        "vision_timestamp (get_or_None d ''end_time'') = Inr (ec_end x)"
        "ordered_times (ec_start x) (ec_end x) = Inr ()"
        "vision_timestamp (get_or_None d ''requested_at'') = Inr (ec_requested x)"
        "ordered_if (ec_requested x) (ec_resolved x) = Inr ()"
        "vision_id ''evidence_clip'' (get_or_None d ''id'') = Inr (ec_id x)"
        "parse_source (get_or_None d ''source'') = Inr (ec_source x)"
        "vision_ids True ''visual_observation'' (get_or_None d ''observation_ids'') = Inr (ec_observations x)"
      note o = artifact_doc.optional_reparse[OF d(2) k(9)] text_doc.optional_reparse[OF d(3) k(10)]
        time_doc.optional_reparse[OF d(4) k(11)]
      note r = choice_doc.reparse[OF d(1)] time_doc.reparse[OF d(6)] time_doc.reparse[OF d(7)] time_doc.reparse[OF d(9)]
        id_doc.reparse[OF d(11)] source_doc.reparse[OF d(12)] ids_doc.reparse[OF d(13)]
      show ?thesis using d(5,8,10) by (simp add: e parse_evidence_clip_def k o r)
    qed
  qed
qed (simp add: evidence_clip_as_mapping_def)

interpretation enrollment_doc: document parse_visual_enrollment visual_enrollment_as_mapping
proof unfold_locales
  show "parse_visual_enrollment (visual_enrollment_as_mapping x) = Inr x" if "parse_visual_enrollment v = Inr x" for v x
  proof -
    obtain e where e: "visual_enrollment_as_mapping x = VDict e" by (simp add: visual_enrollment_as_mapping_def)
    have k: "vision_object enrollment_fields (VDict e) = Inr e" "get_or_None e ''id'' = VStr (ve_id x)"
      "get_dflt e ''state'' (VStr ''active'') = VStr (ve_state x)" "get_or_None e ''candidate_id'' = VStr (ve_candidate x)"
      "get_or_None e ''item_id'' = VStr (ve_item x)" "get_or_None e ''confirmed_at'' = VStr (ve_confirmed_at x)"
      "get_or_None e ''confirmed_by'' = VStr (ve_confirmed_by x)"
      "get_or_None e ''evidence_observation_ids'' = str_list (ve_evidence x)"
      "get_or_None e ''label_text'' = or_null VStr (ve_label x)"
      "get_or_None e ''revoked_at'' = or_null VStr (ve_revoked_at x)"
      "get_or_None e ''revoked_by'' = or_null VStr (ve_revoked_by x)"
      using e by (auto simp: visual_enrollment_as_mapping_def reading enrollment_fields_def)
    from that obtain d where d: "one_of enrollment_states (get_dflt d ''state'' (VStr ''active'')) = Inr (ve_state x)"
      "unless_null vision_timestamp d ''revoked_at'' = Inr (ve_revoked_at x)"
      "unless_null (vision_id ''person'') d ''revoked_by'' = Inr (ve_revoked_by x)"
      "\<not> (if ve_state x = ''revoked'' then ve_revoked_at x = None \<or> ve_revoked_by x = None
          else ve_revoked_at x \<noteq> None \<or> ve_revoked_by x \<noteq> None)"
      "vision_timestamp (get_or_None d ''confirmed_at'') = Inr (ve_confirmed_at x)"
      "ordered_if (ve_confirmed_at x) (ve_revoked_at x) = Inr ()"
      "vision_id ''visual_enrollment'' (get_or_None d ''id'') = Inr (ve_id x)"
      "vision_id ''visual_candidate'' (get_or_None d ''candidate_id'') = Inr (ve_candidate x)"
      "vision_id ''item'' (get_or_None d ''item_id'') = Inr (ve_item x)"
      "vision_id ''person'' (get_or_None d ''confirmed_by'') = Inr (ve_confirmed_by x)"
      "vision_ids True ''visual_observation'' (get_or_None d ''evidence_observation_ids'') = Inr (ve_evidence x)"
      "unless_null nonempty_text d ''label_text'' = Inr (ve_label x)"
      by (auto simp: parse_visual_enrollment_def bind_res_Inr_iff simp del: not_None_eq split: if_splits)
    note o = time_doc.optional_reparse[OF d(2) k(10)] id_doc.optional_reparse[OF d(3) k(11)]
      text_doc.optional_reparse[OF d(12) k(9)]
    note r = choice_doc.reparse[OF d(1)] time_doc.reparse[OF d(5)] id_doc.reparse[OF d(7)] id_doc.reparse[OF d(8)]
      id_doc.reparse[OF d(9)] id_doc.reparse[OF d(10)] ids_doc.reparse[OF d(11)]
    show ?thesis
      by (simp only: e parse_visual_enrollment_def k o r d(4,6) bind_res.simps if_False)
        simp
  qed
qed (simp add: visual_enrollment_as_mapping_def)

section \<open>Observations\<close>

lemma parse_visual_observation_Inr:
  assumes "parse_visual_observation v = Inr x"
  obtains d cs hs fs where "map_res parse_artifact fs = Inr (vo_artifacts x)"
    "\<not> list_ex (\<lambda>a. af_kind a = ''video_clip'') (vo_artifacts x)"
    "vision_timestamp (get_or_None d ''captured_at'') = Inr (vo_captured x)"
    "vision_timestamp (get_or_None d ''observed_at'') = Inr (vo_observed x)"
    "ordered_times (vo_captured x) (vo_observed x) = Inr ()"
    "map_res parse_candidate_hypothesis cs = Inr (vo_candidates x)" "distinct (map ch_candidate (vo_candidates x))"
    "map_res parse_item_hypothesis hs = Inr (vo_items x)" "distinct (map ih_item (vo_items x))"
    "vision_id ''visual_observation'' (get_or_None d ''id'') = Inr (vo_id x)"
    "parse_source (get_or_None d ''source'') = Inr (vo_source x)"
    "parse_detector_belief (get_or_None d ''detector_belief'') = Inr (vo_belief x)"
    "vision_id ''vision_producer'' (get_or_None d ''producer_profile_id'') = Inr (vo_producer x)"
    "unless_null parse_track_reference d ''track'' = Inr (vo_track x)"
    "observer_pose (get_or_None d ''observer_pose'') = Inr (vo_pose x)"
    "unless_null parse_object_position d ''object_position_estimate'' = Inr (vo_position x)"
proof -
  from assms obtain d cs hs fs artifacts captured seen u candidates items i src belief producer track ps estimate where
    raw: "map_res parse_artifact fs = Inr artifacts" "\<not> list_ex (\<lambda>a. af_kind a = ''video_clip'') artifacts"
      "vision_timestamp (get_or_None d ''captured_at'') = Inr captured"
      "vision_timestamp (get_or_None d ''observed_at'') = Inr seen" "ordered_times captured seen = Inr u"
      "map_res parse_candidate_hypothesis cs = Inr candidates" "\<not> \<not> distinct (map ch_candidate candidates)"
      "map_res parse_item_hypothesis hs = Inr items" "\<not> \<not> distinct (map ih_item items)"
      "vision_id ''visual_observation'' (get_or_None d ''id'') = Inr i" "parse_source (get_or_None d ''source'') = Inr src"
      "parse_detector_belief (get_or_None d ''detector_belief'') = Inr belief"
      "vision_id ''vision_producer'' (get_or_None d ''producer_profile_id'') = Inr producer"
      "unless_null parse_track_reference d ''track'' = Inr track"
      "observer_pose (get_or_None d ''observer_pose'') = Inr ps"
      "unless_null parse_object_position d ''object_position_estimate'' = Inr estimate"
    and x: "Inr \<lparr>vo_id = i, vo_captured = captured, vo_observed = seen, vo_source = src, vo_belief = belief,
         vo_producer = producer, vo_track = track, vo_candidates = candidates, vo_items = items, vo_pose = ps,
         vo_position = estimate, vo_artifacts = artifacts\<rparr> = Inr x"
    unfolding parse_visual_observation_def Inr_iffs by blast
  from x have "artifacts = vo_artifacts x" "captured = vo_captured x" "seen = vo_observed x" "candidates = vo_candidates x"
    "items = vo_items x" "i = vo_id x" "src = vo_source x" "belief = vo_belief x" "producer = vo_producer x"
    "track = vo_track x" "ps = vo_pose x" "estimate = vo_position x" "u = ()" by auto
  from that[of fs d cs hs] raw[unfolded this not_not] show ?thesis by blast
qed

text \<open>C40: an accepted visual observation, written as a document, is read back as the same observation: its identifiers,
  times, boxes, hypotheses, pose, position and artifacts.\<close>

theorem observation_reads_back:
  assumes "parse_visual_observation v = Inr x"
  shows "parse_visual_observation (visual_observation_as_mapping x) = Inr x"
proof -
  obtain e where e: "visual_observation_as_mapping x = VDict e" by (simp add: visual_observation_as_mapping_def)
  have k: "vision_object observation_fields (VDict e) = Inr e" "get_or_None e ''id'' = VStr (vo_id x)"
    "get_or_None e ''captured_at'' = VStr (vo_captured x)" "get_or_None e ''observed_at'' = VStr (vo_observed x)"
    "get_or_None e ''source'' = source_as_mapping (vo_source x)"
    "get_or_None e ''detector_belief'' = detector_belief_as_mapping (vo_belief x)"
    "get_or_None e ''producer_profile_id'' = VStr (vo_producer x)"
    "get_or_None e ''track'' = or_null track_reference_as_mapping (vo_track x)"
    "get_dflt e ''candidate_hypotheses'' (VList []) = VList (map candidate_hypothesis_as_mapping (vo_candidates x))"
    "get_dflt e ''item_hypotheses'' (VList []) = VList (map item_hypothesis_as_mapping (vo_items x))"
    "get_or_None e ''observer_pose'' = or_null runtime_pose_as_mapping (vo_pose x)"
    "get_or_None e ''object_position_estimate'' = or_null object_position_as_mapping (vo_position x)"
    "get_dflt e ''artifacts'' (VList []) = VList (map artifact_as_mapping (vo_artifacts x))"
    using e by (auto simp: visual_observation_as_mapping_def reading observation_fields_def)
  obtain d cs hs fs where d: "map_res parse_artifact fs = Inr (vo_artifacts x)"
    "\<not> list_ex (\<lambda>a. af_kind a = ''video_clip'') (vo_artifacts x)"
    "vision_timestamp (get_or_None d ''captured_at'') = Inr (vo_captured x)"
    "vision_timestamp (get_or_None d ''observed_at'') = Inr (vo_observed x)"
    "ordered_times (vo_captured x) (vo_observed x) = Inr ()"
    "map_res parse_candidate_hypothesis cs = Inr (vo_candidates x)" "distinct (map ch_candidate (vo_candidates x))"
    "map_res parse_item_hypothesis hs = Inr (vo_items x)" "distinct (map ih_item (vo_items x))"
    "vision_id ''visual_observation'' (get_or_None d ''id'') = Inr (vo_id x)"
    "parse_source (get_or_None d ''source'') = Inr (vo_source x)"
    "parse_detector_belief (get_or_None d ''detector_belief'') = Inr (vo_belief x)"
    "vision_id ''vision_producer'' (get_or_None d ''producer_profile_id'') = Inr (vo_producer x)"
    "unless_null parse_track_reference d ''track'' = Inr (vo_track x)"
    "observer_pose (get_or_None d ''observer_pose'') = Inr (vo_pose x)"
    "unless_null parse_object_position d ''object_position_estimate'' = Inr (vo_position x)"
    by (rule parse_visual_observation_Inr[OF assms])
  note o = track_ref_doc.optional_reparse[OF d(14) k(8)] estimate_doc.optional_reparse[OF d(16) k(12)]
  note r = artifact_doc.list_reparse[OF d(1)] time_doc.reparse[OF d(3)] time_doc.reparse[OF d(4)]
    candidate_hypothesis_doc.list_reparse[OF d(6)] item_hypothesis_doc.list_reparse[OF d(8)] id_doc.reparse[OF d(10)]
    source_doc.reparse[OF d(11)] belief_doc.reparse[OF d(12)] id_doc.reparse[OF d(13)] observer_pose_reparse[OF d(15)]
  show ?thesis
    by (simp only: e parse_visual_observation_def k o r d(2,5,7,9) vision_sequence_list bind_res.simps if_False
      not_True_eq_False) simp
qed

text \<open>Sample documents.\<close>

definition sample_source :: pyval where
  "sample_source = VDict [(''camera_id'', VStr ''camera:front''), (''device_id'', VStr ''device:rover'')]"

definition sample_artifact :: "string \<Rightarrow> pyval" where
  "sample_artifact kind = VDict [(''ref'', VStr (''sha256:'' @ replicate 64 (CHR ''a''))),
     (''kind'', VStr kind), (''media_type'', VStr ''Image/PNG''), (''byte_length'', VInt 12)]"

definition sample_observation :: pyval where
  "sample_observation = VDict [(''id'', VStr ''visual_observation:1''), (''captured_at'', VStr ''2026-01-02T03:04:05Z''),
     (''observed_at'', VStr ''2026-01-02T05:04:06+02:00''), (''source'', sample_source),
     (''detector_belief'', VDict [(''category'', VStr '' mug ''), (''confidence'', VFloat (Fin 1)),
        (''bbox'', VDict [(''x_min'', VFloat (Fin 0)), (''y_min'', VFloat (Fin 0)), (''x_max'', VFloat (Fin 1)), (''y_max'', VFloat (Fin 1))])]),
     (''producer_profile_id'', VStr ''vision_producer:a''),
     (''item_hypotheses'', VList [VDict [(''item_id'', VStr ''item:mug''), (''confidence'', VFloat (Fin 1)),
        (''supporting_enrollment_ids'', VList [VStr ''visual_enrollment:1''])]]),
     (''observer_pose'', VDict [(''agent'', VStr ''agent:rover''), (''space'', VStr ''space:hall''),
        (''quality'', VStr ''lost''), (''uncertainty'', VDict [(''x_sigma'', VInt 2)])]),
     (''artifacts'', VList [sample_artifact ''crop''])]"

definition sample_clip :: pyval where
  "sample_clip = VDict [(''id'', VStr ''evidence_clip:1''), (''state'', VStr ''failed''),
     (''requested_at'', VStr ''2026-01-02T03:04:05Z''), (''start_time'', VStr ''2026-01-02T03:04:00Z''),
     (''end_time'', VStr ''2026-01-02T03:04:04Z''), (''source'', sample_source),
     (''observation_ids'', VList [VStr ''visual_observation:1'']), (''failure_code'', VStr ''timeout''),
     (''resolved_at'', VStr ''2026-01-02T03:05:05Z'')]"

theorem observation_reads_back_witness:
  "case parse_visual_observation sample_observation of
     Inr x \<Rightarrow> db_category (vo_belief x) = ''mug'' \<and> parse_visual_observation (visual_observation_as_mapping x) = Inr x
   | Inl _ \<Rightarrow> False"
proof -
  have "case parse_visual_observation sample_observation of Inr x \<Rightarrow> db_category (vo_belief x) = ''mug'' | Inl _ \<Rightarrow> False"
    by code_simp
  then obtain x where x: "parse_visual_observation sample_observation = Inr x" "db_category (vo_belief x) = ''mug''"
    by (cases "parse_visual_observation sample_observation") auto
  from observation_reads_back[OF x(1)] x show ?thesis by simp
qed

section \<open>The life of a clip\<close>

text \<open>Neither time precedes the other's instant.\<close>

definition not_before :: "string \<Rightarrow> string \<Rightarrow> bool" where
  "not_before start stop \<longleftrightarrow> (case (datetime_fromisoformat start, datetime_fromisoformat stop) of
     (Inr a, Inr b) \<Rightarrow> aware_us a \<le> aware_us b | _ \<Rightarrow> False)"

lemma ordered_times_iff: "ordered_times a b = Inr () \<longleftrightarrow> not_before a b"
  by (cases "datetime_fromisoformat a"; cases "datetime_fromisoformat b") (auto simp: ordered_times_def not_before_def)

lemma vision_ids_Inr: "vision_ids True t v = Inr ids \<Longrightarrow> ids \<noteq> [] \<and> distinct ids"
  by (auto simp: vision_ids_def bind_res_Inr_iff map_res_Inr_iff split: if_splits)

text \<open>An accepted clip holds a video artifact exactly when it is available, a failure code exactly when it has
  failed, and a time of resolution exactly when it is no longer pending; it does not end before it starts, is not
  resolved before it was requested, and names at least one observation, none twice.\<close>

theorem clip_lifecycle:
  assumes "parse_evidence_clip v = Inr c"
  shows "ec_state c \<in> {''pending'', ''available'', ''failed''}
    \<and> (case ec_artifact c of None \<Rightarrow> ec_state c \<noteq> ''available''
        | Some a \<Rightarrow> ec_state c = ''available'' \<and> af_kind a = ''video_clip'')
    \<and> (ec_failure c \<noteq> None \<longleftrightarrow> ec_state c = ''failed'')
    \<and> (case ec_resolved c of None \<Rightarrow> ec_state c = ''pending''
        | Some t \<Rightarrow> ec_state c \<noteq> ''pending'' \<and> not_before (ec_requested c) t)
    \<and> not_before (ec_start c) (ec_end c)
    \<and> ec_observations c \<noteq> [] \<and> distinct (ec_observations c)"
proof -
  obtain d where d: "one_of clip_states (get_or_None d ''state'') = Inr (ec_state c)"
    "\<not> clip_refused (ec_state c) (ec_artifact c) (ec_failure c) (ec_resolved c)"
    "ordered_times (ec_start c) (ec_end c) = Inr ()" "ordered_if (ec_requested c) (ec_resolved c) = Inr ()"
    "vision_ids True ''visual_observation'' (get_or_None d ''observation_ids'') = Inr (ec_observations c)"
    using assms by (rule parse_evidence_clip_Inr)
  have s: "ec_state c \<in> {''pending'', ''available'', ''failed''}"
    using d(1) by (auto simp: one_of_def clip_states_def split: pyval.splits if_splits)
  moreover have "(case ec_artifact c of None \<Rightarrow> ec_state c \<noteq> ''available''
        | Some a \<Rightarrow> ec_state c = ''available'' \<and> af_kind a = ''video_clip'')
    \<and> (ec_failure c \<noteq> None \<longleftrightarrow> ec_state c = ''failed'') \<and> (ec_resolved c = None \<longleftrightarrow> ec_state c = ''pending'')"
    using s d(2) by (cases "ec_artifact c") (auto simp: clip_refused_def split: if_splits)
  ultimately show ?thesis
    using d(3,4) vision_ids_Inr[OF d(5)]
    by (cases "ec_resolved c") (auto simp: ordered_times_iff ordered_if_def)
qed


theorem clip_lifecycle_witness:
  "case parse_evidence_clip sample_clip of
     Inr c \<Rightarrow> ec_failure c = Some ''timeout'' \<and> ec_state c = ''failed'' | Inl _ \<Rightarrow> False"
proof -
  have "case parse_evidence_clip sample_clip of Inr c \<Rightarrow> ec_failure c = Some ''timeout'' | Inl _ \<Rightarrow> False"
    by code_simp
  then obtain c where c: "parse_evidence_clip sample_clip = Inr c" "ec_failure c = Some ''timeout''"
    by (cases "parse_evidence_clip sample_clip") auto
  from clip_lifecycle[OF c(1)] c show ?thesis by simp
qed

end
