(* ===== verification/SemanticIR.thy ===== *)
theory SemanticIR
  imports Operators Display
begin

text \<open>
  \<open>semantic/ir.py\<close>: the request that the interpreter may pass to the fact engine, the trusted context it is executed
  in, and the results. The pydantic models are records; what their validators guarantee is the predicate
  \<open>valid_request\<close>. Identifiers and values are the dynamic values of the store.
\<close>

section \<open>Requests\<close>

text \<open>\<open>^[A-Za-z_][A-Za-z0-9_]*$\<close>, as pydantic matches it, is \<open>table_name\<close>.\<close>

record semantic_filter =
  sf_property :: "string option"
  sf_predicate :: "string option"
  sf_operator :: string
  sf_value :: pyval
  sf_source :: string
  sf_value_from :: "string option"
  sf_value_property :: "string option"
  sf_transform :: "string option"
  sf_mode :: "string option"

record relation_step =
  st_relation :: string
  st_filters :: "semantic_filter list"

record semantic_reference =
  rf_kind :: string
  rf_value :: "string option"
  rf_type :: "string option"
  rf_path :: "relation_step list"
  rf_offset :: "int option"
  rf_cardinality :: string

record fact_request =
  rq_operation :: string
  rq_subject :: semantic_reference
  rq_property :: "string option"
  rq_source :: string
  rq_filters :: "semantic_filter list"
  rq_projection :: string
  rq_exclude :: "semantic_reference list"
  rq_amount :: "int option"
  rq_other :: "semantic_reference option"
  rq_mode :: "string option"
  rq_from :: "string option"
  rq_to :: "string option"

definition opt_name :: "string option \<Rightarrow> bool" where
  "opt_name x = (case x of None \<Rightarrow> True | Some s \<Rightarrow> table_name s)"

definition scalar_value :: "pyval \<Rightarrow> bool" where
  "scalar_value v = (case v of VNone \<Rightarrow> True | VBool b \<Rightarrow> True | VInt i \<Rightarrow> True | VFloat f \<Rightarrow> True | VStr s \<Rightarrow> True
     | VList vs \<Rightarrow> list_all (\<lambda>w. case w of VInt i \<Rightarrow> True | VFloat f \<Rightarrow> True | VStr s \<Rightarrow> True | _ \<Rightarrow> False) vs
     | _ \<Rightarrow> False)"

text \<open>\<open>SemanticFilter.validate_dynamic_value\<close>, with the constraints of the fields.\<close>

definition valid_filter :: "semantic_filter \<Rightarrow> bool" where
  "valid_filter f \<longleftrightarrow>
     opt_name (sf_property f) \<and> opt_name (sf_predicate f) \<and> opt_name (sf_value_property f)
     \<and> sf_operator f \<in> set predicate_operators \<and> scalar_value (sf_value f)
     \<and> sf_source f \<in> {''entity'', ''relation''} \<and> sf_value_from f \<in> {None, Some ''anchor''}
     \<and> sf_transform f \<in> {None, Some ''date_difference''}
     \<and> sf_mode f \<in> {None, Some ''years'', Some ''months'', Some ''days''}
     \<and> (sf_property f = None) \<noteq> (sf_predicate f = None)
     \<and> (sf_predicate f = None \<or> sf_operator f = ''eq'' \<and> sf_value f = VNone \<and> sf_source f = ''entity''
          \<and> sf_value_from f = None \<and> sf_value_property f = None \<and> sf_transform f = None \<and> sf_mode f = None)
     \<and> (if sf_transform f = None then sf_mode f = None
        else sf_mode f \<noteq> None \<and> sf_operator f \<in> {''gt'', ''gte'', ''lt'', ''lte'', ''eq''}
          \<and> (case sf_value f of VInt i \<Rightarrow> 0 \<le> i \<and> i \<le> 120 | _ \<Rightarrow> False)
          \<and> sf_value_from f = None \<and> sf_source f = ''entity'')
     \<and> (sf_value_from f = None \<or> sf_value f = VNone)
     \<and> (sf_value_property f = None \<or> sf_value_from f \<noteq> None)
     \<and> (sf_value_from f = None \<or> sf_source f = ''entity'')
     \<and> (sf_value_from f = None \<or> sf_operator f \<notin> {''in'', ''exists'', ''date_range''})"

definition reference_kinds :: "string list" where
  "reference_kinds = [''self'', ''assistant'', ''current_household'', ''named_entity'', ''discourse'', ''unresolved'', ''entity_id'']"

definition context_entity_types :: "string dict" where
  "context_entity_types = [(''self'', ''person''), (''assistant'', ''person''), (''current_household'', ''address'')]"

text \<open>\<open>[A-Za-z_][A-Za-z0-9_]*:[A-Za-z0-9_-]+\<close>, matched in full.\<close>

definition plain_id :: "string \<Rightarrow> bool" where
  "plain_id s \<longleftrightarrow> (case match_record_id s of None \<Rightarrow> False | Some (t, k) \<Rightarrow> list_all key_char k)"

definition valid_reference :: "semantic_reference \<Rightarrow> bool" where
  "valid_reference r \<longleftrightarrow>
     rf_kind r \<in> set reference_kinds \<and> opt_name (rf_type r) \<and> rf_cardinality r \<in> {''single'', ''collection''}
     \<and> (case rf_value r of None \<Rightarrow> True | Some s \<Rightarrow> length s \<le> 256)
     \<and> length (rf_path r) \<le> 8 \<and> list_all (\<lambda>s. table_name (st_relation s) \<and> list_all valid_filter (st_filters s)) (rf_path r)
     \<and> (case rf_offset r of None \<Rightarrow> True | Some n \<Rightarrow> 1 \<le> n \<and> n \<le> 8)
     \<and> (rf_kind r \<noteq> ''unresolved'' \<or> rf_value r = None \<and> rf_path r = [])
     \<and> (if rf_kind r = ''discourse'' then rf_value r = None \<and> rf_offset r \<noteq> None \<and> rf_type r \<noteq> None
        else rf_offset r = None \<and> rf_cardinality r = ''single'')
     \<and> (map_of context_entity_types (rf_kind r) = None \<or> rf_value r = None)
     \<and> (rf_kind r \<notin> {''named_entity'', ''entity_id''} \<or> (case rf_value r of None \<Rightarrow> False | Some s \<Rightarrow> s \<noteq> []))
     \<and> (rf_kind r \<noteq> ''entity_id'' \<or> (case rf_value r of None \<Rightarrow> True | Some s \<Rightarrow> plain_id s))"

definition valid_request :: "fact_request \<Rightarrow> bool" where
  "valid_request q \<longleftrightarrow>
     rq_operation q \<in> set fact_operations \<and> valid_reference (rq_subject q) \<and> opt_name (rq_property q)
     \<and> rq_source q \<in> {''entity'', ''relationship''} \<and> list_all valid_filter (rq_filters q)
     \<and> rq_projection q \<in> {''scalar'', ''each''}
     \<and> length (rq_exclude q) \<le> 8 \<and> list_all valid_reference (rq_exclude q)
     \<and> (case rq_amount q of None \<Rightarrow> True | Some n \<Rightarrow> -120000 \<le> n \<and> n \<le> 120000)
     \<and> (case rq_other q of None \<Rightarrow> True | Some r \<Rightarrow> valid_reference r)
     \<and> rq_mode q \<in> {None, Some ''years'', Some ''months'', Some ''days'', Some ''seconds''}
     \<and> (case rq_from q of None \<Rightarrow> True | Some s \<Rightarrow> length s \<le> 16)
     \<and> (case rq_to q of None \<Rightarrow> True | Some s \<Rightarrow> length s \<le> 16)"

section \<open>Context\<close>

text \<open>The turns of the discourse, oldest first.\<close>

record discourse_context =
  dc_conversation :: string
  dc_caller :: "string option"
  dc_household :: "string option"
  dc_assistant :: string
  dc_turns :: "string list list"

record request_context =
  cx_caller :: "string option"
  cx_assistant :: string
  cx_assistant_name :: string
  cx_household :: "string option"
  cx_now :: clock
  cx_conversation :: "string option"
  cx_discourse :: "discourse_context option"

section \<open>Results\<close>

datatype fact_status =
    Found | DiscourseContextMissing | CallerContextMissing | EntityNotFound | RelationshipNotFound
  | PropertyUnavailable | RelationPropertyUnavailable | FilterInputMissing | FilterUnsupported | OperatorUnsupported
  | SemanticPlanUnsupported | MultiIntentUnsupported | Ambiguous | ComputationInputMissing | ComputationImpossible
  | CollectionIncomplete

record relationship_evidence =
  re_relation :: string
  re_source :: "string option"
  re_target :: "string option"
  re_start :: pyval
  re_end :: pyval

record evidence =
  ev_entities :: "string list"
  ev_relationship :: "string option"
  ev_property :: "string option"
  ev_relationships :: "relationship_evidence list"
  ev_concept :: "string option"

definition no_evidence :: evidence where
  "no_evidence = \<lparr>ev_entities = [], ev_relationship = None, ev_property = None, ev_relationships = [], ev_concept = None\<rparr>"

record fact_row =
  rw_entity :: fields
  rw_status :: fact_status
  rw_value :: pyval
  rw_unit :: "string option"
  rw_evidence :: evidence
  rw_missing :: "string list"

record content_group =
  cg_space :: fields
  cg_entities :: "fields list"

datatype shape = Scalar | Entity | Entities | Rows

record fact_result =
  fr_status :: fact_status
  fr_value :: pyval
  fr_evidence :: evidence
  fr_missing :: "string list"
  fr_candidates :: "fields list"
  fr_unit :: "string option"
  fr_shape :: shape
  fr_rows :: "fact_row list"
  fr_focus :: "string list"
  fr_groups :: "content_group list"

definition fact_result_of :: "fact_status \<Rightarrow> fact_result" where
  "fact_result_of s = \<lparr>fr_status = s, fr_value = VNone, fr_evidence = no_evidence, fr_missing = [], fr_candidates = [],
     fr_unit = None, fr_shape = Scalar, fr_rows = [], fr_focus = [], fr_groups = []\<rparr>"

text \<open>\<open>_FactFailure\<close>: a status with what is known about its cause.\<close>

record fact_failure =
  ff_status :: fact_status
  ff_evidence :: evidence
  ff_missing :: "string list"
  ff_candidates :: "fields list"

definition failure :: "fact_status \<Rightarrow> fact_failure" where
  "failure s = \<lparr>ff_status = s, ff_evidence = no_evidence, ff_missing = [], ff_candidates = []\<rparr>"

definition missing :: "fact_status \<Rightarrow> string list \<Rightarrow> fact_failure" where
  "missing s m = (failure s)\<lparr>ff_missing := m\<rparr>"

definition failed_result :: "fact_failure \<Rightarrow> fact_result" where
  "failed_result f = (fact_result_of (ff_status f))\<lparr>fr_evidence := ff_evidence f, fr_missing := ff_missing f,
     fr_candidates := ff_candidates f\<rparr>"

section \<open>Helpers\<close>

fun unique_from :: "string list \<Rightarrow> fields list \<Rightarrow> fields list" where
  "unique_from seen [] = []"
| "unique_from seen (e # es) = (case map_of e ''id'' of
     Some (VStr i) \<Rightarrow> if i \<in> set seen then unique_from seen es else e # unique_from (i # seen) es
   | _ \<Rightarrow> unique_from seen es)"

definition unique_entities :: "fields list \<Rightarrow> fields list" where
  "unique_entities es = unique_from [] es"

definition before_colon :: "string \<Rightarrow> string" where
  "before_colon s = takeWhile (\<lambda>c. c \<noteq> CHR '':'') s"

text \<open>\<open>sh\<close> is Python's \<open>str\<close> on the values that no identifier is.\<close>

definition entity_type :: "(pyval \<Rightarrow> string) \<Rightarrow> fields \<Rightarrow> string" where
  "entity_type sh e = before_colon (case map_of e ''id'' of None \<Rightarrow> [] | Some v \<Rightarrow> py_str sh v)"

definition string_or_none :: "(pyval \<Rightarrow> string) \<Rightarrow> pyval \<Rightarrow> string option" where
  "string_or_none sh v = (if v = VNone then None else Some (py_str sh v))"

definition related_entity_id :: "(pyval \<Rightarrow> string) \<Rightarrow> fields \<Rightarrow> string option" where
  "related_entity_id sh edge = (case get_or_None edge ''related_entity'' of
     VDict d \<Rightarrow> string_or_none sh (get_or_None d ''id'') | _ \<Rightarrow> None)"

definition last_relation :: "semantic_reference \<Rightarrow> string option" where
  "last_relation r = (if rf_path r = [] then None else Some (st_relation (last (rf_path r))))"

definition entity_id :: "fields \<Rightarrow> string option" where
  "entity_id e = (case map_of e ''id'' of Some (VStr i) \<Rightarrow> Some i | _ \<Rightarrow> None)"

definition entity_ids :: "fields list \<Rightarrow> string list" where
  "entity_ids es = List.map_filter entity_id es"

end
