(* ===== verification/SemanticContract.thy ===== *)
theory SemanticContract
  imports SemanticIR
begin

text \<open>
  \<open>semantic/contracts.py\<close>: the declared type of a property, the contract that binds a property to its owners, its
  filter operators and its closed values, and the checks of stored values and of literals in a request.
  The JSON schemas generated for the model and the fingerprint are left out.
\<close>

section \<open>Types\<close>

datatype semantic_type = Atom string | CollectionOf semantic_type | AnyOf "semantic_type list"

definition atomic_kinds :: "string list" where
  "atomic_kinds = [''string'', ''boolean'', ''integer'', ''number'', ''date'', ''datetime'']"

text \<open>A set of keys, compared with \<open>set(raw)\<close>.\<close>

definition has_keys :: "fields \<Rightarrow> string list \<Rightarrow> bool" where
  "has_keys d ks \<longleftrightarrow> set (map fst d) = set ks"

definition parse_atom :: "fields \<Rightarrow> semantic_type res" where
  "parse_atom d = (case (has_keys d [''kind''], get_or_None d ''kind'') of
     (True, VStr k) \<Rightarrow> if k \<in> set atomic_kinds \<or> k = ''object'' then Inr (Atom k) else Inl ValueError
   | (True, VList vs) \<Rightarrow> Inl TypeError
   | (True, VDict e) \<Rightarrow> Inl TypeError
   | _ \<Rightarrow> Inl ValueError)"

text \<open>The items of a collection are atoms; any other collection is refused.\<close>

definition parse_nested :: "pyval \<Rightarrow> semantic_type res" where
  "parse_nested v = (case v of
     VDict d \<Rightarrow>
       if get_or_None d ''kind'' = VStr ''collection'' \<and> has_keys d [''kind'', ''items'']
       then (case get_or_None d ''items'' of
           VDict e \<Rightarrow>
             if get_or_None e ''kind'' = VStr ''collection'' then Inl ValueError
             else bind_res (parse_atom e) (\<lambda>t. if t = Atom ''object'' then Inl ValueError else Inr (CollectionOf t))
         | _ \<Rightarrow> Inl ValueError)
       else parse_atom d
   | _ \<Rightarrow> Inl ValueError)"

definition parse_type :: "pyval \<Rightarrow> semantic_type res" where
  "parse_type v = (case v of
     VDict d \<Rightarrow>
       if has_keys d [''any_of'']
       then (case get_or_None d ''any_of'' of
           VList vs \<Rightarrow> if length vs < 2 then Inl ValueError
             else bind_res (map_res parse_nested vs) (\<lambda>ts. if distinct ts then Inr (AnyOf ts) else Inl ValueError)
         | _ \<Rightarrow> Inl ValueError)
       else parse_nested v
   | _ \<Rightarrow> Inl ValueError)"

definition type_kind :: "semantic_type \<Rightarrow> string" where
  "type_kind t = (case t of Atom k \<Rightarrow> k | CollectionOf u \<Rightarrow> ''collection'' | AnyOf ts \<Rightarrow> ''union'')"

definition kinds :: "semantic_type \<Rightarrow> string list" where
  "kinds t = remdups (case t of AnyOf ts \<Rightarrow> map type_kind ts | _ \<Rightarrow> [type_kind t])"

definition execution_kind :: "semantic_type \<Rightarrow> string" where
  "execution_kind t = (if length (kinds t) = 1 then hd (kinds t) else ''unknown'')"

text \<open>\<open>\d{4}-\d{2}-\d{2}\<close>, and the same followed by \<open>T.+(?:Z|[+-]\d{2}:\d{2})\<close>, both matched in full.\<close>

definition date_shape :: "string \<Rightarrow> bool" where
  "date_shape s \<longleftrightarrow> length s = 10 \<and> list_all is_digit (slice 0 4 s) \<and> slice 4 5 s = ''-'' \<and> list_all is_digit (slice 5 7 s)
     \<and> slice 7 8 s = ''-'' \<and> list_all is_digit (slice 8 10 s)"

definition offset_shape :: "string \<Rightarrow> bool" where
  "offset_shape s \<longleftrightarrow> length s = 6 \<and> hd s \<in> set ''+-'' \<and> list_all is_digit (slice 1 3 s) \<and> slice 3 4 s = '':''
     \<and> list_all is_digit (slice 4 6 s)"

definition line_text :: "string \<Rightarrow> bool" where
  "line_text s \<longleftrightarrow> s \<noteq> [] \<and> CHR 0x0A \<notin> set s"

definition datetime_shape :: "string \<Rightarrow> bool" where
  "datetime_shape s \<longleftrightarrow> date_shape (take 10 s) \<and> slice 10 11 s = ''T''
     \<and> (let r = drop 11 s; n = length r in
          (n > 1 \<and> last r = CHR ''Z'' \<and> line_text (butlast r))
          \<or> (n > 6 \<and> offset_shape (drop (n - 6) r) \<and> line_text (take (n - 6) r)))"

fun accepts_atom :: "string \<Rightarrow> pyval \<Rightarrow> bool" where
  "accepts_atom k v =
     (if k = ''string'' then (case v of VStr s \<Rightarrow> True | _ \<Rightarrow> False)
      else if k = ''boolean'' then (case v of VBool b \<Rightarrow> True | _ \<Rightarrow> False)
      else if k = ''integer'' then (case v of VInt i \<Rightarrow> True | _ \<Rightarrow> False)
      else if k = ''number'' then (case v of VInt i \<Rightarrow> True | VFloat f \<Rightarrow> finite_float f | _ \<Rightarrow> False)
      else if k = ''object'' then (case v of VDict d \<Rightarrow> True | _ \<Rightarrow> False)
      else (case v of
          VStr s \<Rightarrow>
            if k = ''date'' then date_shape s \<and> (case date_fromisoformat s of Inr d \<Rightarrow> True | Inl e \<Rightarrow> False)
            else datetime_shape s \<and> (case datetime_fromisoformat s of Inr t \<Rightarrow> dt_off t \<noteq> None | Inl e \<Rightarrow> False)
        | _ \<Rightarrow> False))"

fun accepts_type :: "semantic_type \<Rightarrow> pyval \<Rightarrow> bool" where
  "accepts_type (Atom k) v = accepts_atom k v"
| "accepts_type (CollectionOf t) v = (case v of VList vs \<Rightarrow> list_all (accepts_type t) vs | _ \<Rightarrow> False)"
| "accepts_type (AnyOf ts) v = list_ex (\<lambda>t. accepts_type t v) ts"

section \<open>Contracts\<close>

record property_contract =
  pc_type :: semantic_type
  pc_entities :: "string list"
  pc_relationships :: "string list"
  pc_operators :: "string list"
  pc_values :: "(string \<times> string list) list"

definition unique_strings :: "pyval \<Rightarrow> string list res" where
  "unique_strings v = (case v of
     VList vs \<Rightarrow> bind_res (map_res (\<lambda>x. case x of VStr s \<Rightarrow> if s = [] then Inl ValueError else Inr s | _ \<Rightarrow> Inl ValueError) vs)
       (\<lambda>ss. if distinct ss then Inr ss else Inl ValueError)
   | _ \<Rightarrow> Inl ValueError)"

text \<open>The closed values in order, with the spelling that each folded alias stands for.\<close>

fun claim_aliases :: "string \<Rightarrow> string list \<Rightarrow> string dict \<Rightarrow> string dict res" where
  "claim_aliases v [] seen = Inr seen"
| "claim_aliases v (a # as) seen =
     (let f = casefold a in
      if map_of seen f \<noteq> None \<and> map_of seen f \<noteq> Some v then Inl ValueError
      else claim_aliases v as (AList.update f v seen))"

fun parse_values :: "fields \<Rightarrow> string dict \<Rightarrow> (string \<times> string list) list res" where
  "parse_values [] seen = Inr []"
| "parse_values ((v, d) # ds) seen = (case d of
     VDict e \<Rightarrow>
       if \<not> set (map fst e) \<subseteq> {''aliases'', ''label''} then Inl ValueError
       else bind_res (unique_strings (case map_of e ''aliases'' of None \<Rightarrow> VList [] | Some x \<Rightarrow> x)) (\<lambda>aliases.
            bind_res (claim_aliases v (v # aliases) seen) (\<lambda>seen'.
            bind_res (parse_values ds seen') (\<lambda>r. Inr ((v, aliases) # r))))
   | _ \<Rightarrow> Inl ValueError)"

definition operator_fits :: "semantic_type \<Rightarrow> bool \<Rightarrow> string \<Rightarrow> bool" where
  "operator_fits t closing n \<longleftrightarrow> n \<in> set predicate_operators
     \<and> (case map_of operators n of None \<Rightarrow> False
        | Some d \<Rightarrow> ''any'' \<in> set (od_field_kinds d) \<or> set (kinds t) \<subseteq> set (od_field_kinds d))
     \<and> (n = ''exists'' \<or> set (kinds t) \<inter> {''collection'', ''object''} = {})
     \<and> (\<not> closing \<or> n \<in> {''eq'', ''ne'', ''in'', ''exists''})"

definition parse_contract :: "fields \<Rightarrow> property_contract res" where
  "parse_contract raw =
     bind_res (parse_type (get_or_None raw ''type'')) (\<lambda>t.
     case get_or_None raw ''applies_to'' of
       VDict applies \<Rightarrow>
         if \<not> has_keys applies [''entity'', ''relationship''] then Inl ValueError
         else bind_res (unique_strings (get_or_None applies ''entity'')) (\<lambda>entities.
         bind_res (unique_strings (get_or_None applies ''relationship'')) (\<lambda>relationships.
         if entities = [] \<and> relationships = [] then Inl ValueError
         else bind_res (unique_strings (get_or_None raw ''filter_operators'')) (\<lambda>ops.
         case (case map_of raw ''values'' of None \<Rightarrow> VDict [] | Some x \<Rightarrow> x) of
           VDict values \<Rightarrow>
             if map_of raw ''values'' \<noteq> None \<and> values = [] \<or> values \<noteq> [] \<and> t \<noteq> Atom ''string'' then Inl ValueError
             else bind_res (parse_values values []) (\<lambda>parsed.
               if list_all (operator_fits t (values \<noteq> [])) ops
               then Inr \<lparr>pc_type = t, pc_entities = entities, pc_relationships = relationships, pc_operators = ops, pc_values = parsed\<rparr>
               else Inl ValueError)
         | _ \<Rightarrow> Inl ValueError)))
     | _ \<Rightarrow> Inl ValueError)"

definition closed_value :: "property_contract \<Rightarrow> pyval \<Rightarrow> bool" where
  "closed_value c v \<longleftrightarrow> (case v of VStr s \<Rightarrow> s \<in> set (map fst (pc_values c)) | _ \<Rightarrow> False)"

definition contract_accepts :: "property_contract \<Rightarrow> pyval \<Rightarrow> bool" where
  "contract_accepts c v \<longleftrightarrow> accepts_type (pc_type c) v \<and> (pc_values c = [] \<or> closed_value c v)"

text \<open>The two ends of a date range: both dates, or both date-times, in strict order.\<close>

definition range_end :: "pyval \<Rightarrow> (date + datetime) option" where
  "range_end v = (case v of
     VStr s \<Rightarrow> if CHR ''T'' \<in> set s
       then (case datetime_fromisoformat s of Inr t \<Rightarrow> Some (Inr t) | Inl e \<Rightarrow> None)
       else (case date_fromisoformat s of Inr d \<Rightarrow> Some (Inl d) | Inl e \<Rightarrow> None)
   | _ \<Rightarrow> None)"

definition range_ordered :: "pyval \<Rightarrow> pyval \<Rightarrow> bool" where
  "range_ordered a b = (case (range_end a, range_end b) of
     (Some (Inl d), Some (Inl e)) \<Rightarrow> date_lt d e
   | (Some (Inr s), Some (Inr t)) \<Rightarrow> (case (dt_off s, dt_off t) of
         (Some p, Some q) \<Rightarrow> wall_us s - p < wall_us t - q
       | (None, None) \<Rightarrow> wall_us s < wall_us t
       | _ \<Rightarrow> False)
   | _ \<Rightarrow> False)"

definition operands :: "string \<Rightarrow> pyval \<Rightarrow> pyval list option" where
  "operands name v = (if name \<in> {''in'', ''date_range''}
     then (case v of VList vs \<Rightarrow> if vs = [] then None else Some vs | _ \<Rightarrow> None) else Some [v])"

definition literal_error :: "property_contract \<Rightarrow> string \<Rightarrow> pyval \<Rightarrow> bool \<Rightarrow> string option" where
  "literal_error c name v anchor =
     (if name \<notin> set (pc_operators c) then Some ''OPERATOR_NOT_APPLICABLE''
      else if anchor then (if name \<in> {''eq'', ''ne'', ''gt'', ''gte'', ''lt'', ''lte''} then None else Some ''INVALID_OPERAND'')
      else if name = ''exists'' then (case v of VNone \<Rightarrow> None | VBool b \<Rightarrow> None | _ \<Rightarrow> Some ''INVALID_LITERAL_TYPE'')
      else case operands name v of
        None \<Rightarrow> Some ''INVALID_OPERAND''
      | Some vs \<Rightarrow>
          if name = ''date_range'' \<and> length vs \<noteq> 2 then Some ''INVALID_OPERAND''
          else if \<not> list_all (accepts_type (pc_type c)) vs then Some ''INVALID_LITERAL_TYPE''
          else if (case pc_type c of AnyOf ts \<Rightarrow> \<not> list_ex (\<lambda>t. list_all (accepts_type t) vs) ts | _ \<Rightarrow> False)
          then Some ''INVALID_LITERAL_TYPE''
          else if pc_values c \<noteq> [] \<and> \<not> list_all (closed_value c) vs then Some ''VALUE_OUT_OF_DOMAIN''
          else if name = ''date_range'' \<and> \<not> range_ordered (vs ! 0) (vs ! 1) then Some ''INVALID_RANGE''
          else None)"

text \<open>\<open>_check_kind\<close>: the kind that the catalog observed must fit the declared type.\<close>

definition kind_compatible :: "property_contract \<Rightarrow> string \<Rightarrow> bool" where
  "kind_compatible c observed \<longleftrightarrow> observed = ''unknown'' \<or> observed \<in> set (kinds (pc_type c))
     \<or> observed = ''integer'' \<and> ''number'' \<in> set (kinds (pc_type c))
     \<or> ''string'' \<in> set (kinds (pc_type c)) \<and> observed \<in> {''date'', ''datetime''}"

end
