(* ===== verification/SemanticSchema.thy ===== *)
theory SemanticSchema
  imports SemanticContract EdgeSchema
begin

text \<open>
  \<open>semantic/schema.py\<close> over the data of \<open>semantic/ontology.py\<close> and \<open>persistence/schema_catalog.py\<close>: the binding of the
  declared vocabulary to the fields and relations of this deployment, and the validation of a request before it
  is executed. Sets are lists whose order is not used. Labels, aliases and what is shown to the model are left out.
\<close>

section \<open>Catalog and ontology\<close>

record entity_schema =
  en_properties :: "string list"
  en_types :: "string dict"

record relation_schema =
  rl_from :: "string list"
  rl_to :: "string list"
  rl_properties :: "string list"
  rl_types :: "string dict"

record schema_catalog =
  ca_entities :: "entity_schema dict"
  ca_relations :: "relation_schema dict"

definition field_type :: "string dict option \<Rightarrow> string \<Rightarrow> string" where
  "field_type types f = (case types of None \<Rightarrow> ''unknown''
     | Some ts \<Rightarrow> (case map_of ts f of None \<Rightarrow> ''unknown'' | Some k \<Rightarrow> k))"

definition entity_field_type :: "schema_catalog \<Rightarrow> string \<Rightarrow> string \<Rightarrow> string" where
  "entity_field_type c t f = field_type (map_option en_types (map_of (ca_entities c) t)) f"

text \<open>The relation is the table of a resolved one, so that the registry need not be asked for its canonical name.\<close>

definition relation_field_type :: "schema_catalog \<Rightarrow> string \<Rightarrow> string \<Rightarrow> string" where
  "relation_field_type c r f = field_type (map_option rl_types (map_of (ca_relations c) r)) f"

record ontology_filter =
  of_property :: string
  of_operator :: string
  of_value :: pyval
  of_source :: string
  of_value_from :: "string option"
  of_value_property :: "string option"

record ontology_property =
  on_fields :: "string list"
  on_contract :: property_contract

record computed_filter =
  cf_source :: string
  cf_transform :: string
  cf_mode :: string
  cf_past :: bool
  cf_minimum :: int
  cf_maximum :: int
  cf_contract :: property_contract

record predicate_fallback =
  fb_property :: string
  fb_transform :: string
  fb_operator :: string
  fb_policy :: string
  fb_mode :: "string option"
  fb_past :: bool

record collection_predicate =
  cp_entities :: "string list"
  cp_relation_property :: string
  cp_recognized :: "string list"
  cp_matching :: "string list"
  cp_fallback :: predicate_fallback
  cp_disjoint :: "string list"

text \<open>A computed filter is declared over a stored property and has a name of its own: the parser of the ontology
  refuses any other.\<close>

record ontology =
  ot_properties :: "ontology_property dict"
  ot_computed :: "computed_filter dict"
  ot_relations :: "string dict"
  ot_concepts :: "((string \<times> ontology_filter list) list) dict"
  ot_policy :: "pyval dict"
  ot_predicates :: "collection_predicate dict"

record semantic_schema =
  sc_catalog :: schema_catalog
  sc_ontology :: ontology
  sc_edges :: registry
  sc_entity_bindings :: "((string \<times> string) \<times> string) list"
  sc_relation_bindings :: "((string \<times> string) \<times> string) list"
  sc_computed :: "string list"
  sc_predicates :: "string list"

section \<open>Bindings\<close>

definition resolver_metadata :: "string list" where
  "resolver_metadata = [''aliases'', ''appellations'', ''collapse'']"

definition property_candidates :: "ontology \<Rightarrow> string \<Rightarrow> string list" where
  "property_candidates o' name = (if name \<in> set resolver_metadata then []
     else case map_of (ot_properties o') name of None \<Rightarrow> [] | Some p \<Rightarrow> on_fields p)"

definition stored_property :: "schema_catalog \<Rightarrow> ontology \<Rightarrow> string \<Rightarrow> string \<Rightarrow> string option" where
  "stored_property c o' t name = (case map_of (ot_properties o') name of
     None \<Rightarrow> None
   | Some p \<Rightarrow> if t \<notin> set (pc_entities (on_contract p)) then None
       else (let available = (case map_of (ca_entities c) t of None \<Rightarrow> [] | Some e \<Rightarrow> en_properties e) in
             find (\<lambda>f. f \<in> set available) (property_candidates o' name)))"

definition relation_candidate :: "schema_catalog \<Rightarrow> ontology \<Rightarrow> string \<Rightarrow> string \<Rightarrow> string option" where
  "relation_candidate c o' r name =
     (let available = (case map_of (ca_relations c) r of None \<Rightarrow> [] | Some s \<Rightarrow> rl_properties s) in
      find (\<lambda>f. f \<in> set available) (property_candidates o' name))"

text \<open>A public relation: its table and the direction in which it is followed, none for a symmetric one.\<close>

definition resolve_relation :: "schema_catalog \<Rightarrow> ontology \<Rightarrow> registry \<Rightarrow> string \<Rightarrow> (string \<times> string option) option" where
  "resolve_relation c o' g name = (case map_of (ot_relations o') name of
     None \<Rightarrow> None
   | Some public \<Rightarrow> (case resolve g public of
       Inl e \<Rightarrow> None
     | Inr (s, inverted) \<Rightarrow> if map_of (ca_relations c) (es_id s) = None then None
         else Some (es_id s, if es_symmetric s then None else Some (if inverted then ''in'' else ''out''))))"

text \<open>\<open>ResolvedSemanticContract.__init__\<close>: the bindings of every declared owner, whose observed kinds must fit.\<close>

definition bind_entity :: "schema_catalog \<Rightarrow> ontology \<Rightarrow> string \<Rightarrow> property_contract \<Rightarrow> string
    \<Rightarrow> ((string \<times> string) \<times> string) list res" where
  "bind_entity c o' name k t = (case stored_property c o' t name of
     None \<Rightarrow> Inr []
   | Some f \<Rightarrow> if kind_compatible k (entity_field_type c t f) then Inr [((t, name), f)] else Inl ValueError)"

definition bind_relation :: "schema_catalog \<Rightarrow> ontology \<Rightarrow> registry \<Rightarrow> string \<Rightarrow> property_contract \<Rightarrow> string
    \<Rightarrow> ((string \<times> string) \<times> string) list res" where
  "bind_relation c o' g name k r = (case resolve_relation c o' g r of
     None \<Rightarrow> Inr []
   | Some (tab, dir) \<Rightarrow> (case relation_candidate c o' tab name of
       None \<Rightarrow> Inr []
     | Some f \<Rightarrow> if kind_compatible k (relation_field_type c tab f) then Inr [((r, name), f)] else Inl ValueError))"

definition bindings_of :: "(string \<Rightarrow> property_contract \<Rightarrow> string \<Rightarrow> ((string \<times> string) \<times> string) list res)
    \<Rightarrow> (property_contract \<Rightarrow> string list) \<Rightarrow> ontology \<Rightarrow> ((string \<times> string) \<times> string) list res" where
  "bindings_of f owners o' =
     bind_res (map_res (\<lambda>(name, p). bind_res (map_res (f name (on_contract p)) (owners (on_contract p))) (\<lambda>bs. Inr (concat bs)))
         (ot_properties o')) (\<lambda>bs. Inr (concat bs))"

definition bound :: "((string \<times> string) \<times> string) list \<Rightarrow> string \<Rightarrow> string \<Rightarrow> bool" where
  "bound bs owner name \<longleftrightarrow> map_of bs (owner, name) \<noteq> None"

definition new_schema :: "schema_catalog \<Rightarrow> ontology \<Rightarrow> registry \<Rightarrow> semantic_schema res" where
  "new_schema c o' g =
     bind_res (bindings_of (bind_entity c o') pc_entities o') (\<lambda>es.
     bind_res (bindings_of (bind_relation c o' g) pc_relationships o') (\<lambda>rs.
       Inr \<lparr>sc_catalog = c, sc_ontology = o', sc_edges = g, sc_entity_bindings = es, sc_relation_bindings = rs,
         sc_computed = map fst (filter (\<lambda>(n, d). list_all (\<lambda>t. bound es t (cf_source d)) (pc_entities (cf_contract d)))
           (ot_computed o')),
         sc_predicates = map fst (filter (\<lambda>(n, d). list_all (\<lambda>t. bound es t (fb_property (cp_fallback d))) (cp_entities d))
           (ot_predicates o'))\<rparr>))"

definition computed_of :: "semantic_schema \<Rightarrow> string option \<Rightarrow> computed_filter option" where
  "computed_of s name = (case name of None \<Rightarrow> None | Some n \<Rightarrow> map_of (ot_computed (sc_ontology s)) n)"

definition contract_of :: "semantic_schema \<Rightarrow> string option \<Rightarrow> property_contract option" where
  "contract_of s name = (case name of None \<Rightarrow> None
     | Some n \<Rightarrow> map_option on_contract (map_of (ot_properties (sc_ontology s)) n))"

definition physical_property :: "semantic_schema \<Rightarrow> string \<Rightarrow> string \<Rightarrow> string option" where
  "physical_property s t name = (case computed_of s (Some name) of
     Some d \<Rightarrow> if name \<in> set (sc_computed s) \<and> t \<in> set (pc_entities (cf_contract d))
       then stored_property (sc_catalog s) (sc_ontology s) t (cf_source d) else None
   | None \<Rightarrow> stored_property (sc_catalog s) (sc_ontology s) t name)"

definition physical_relation :: "semantic_schema \<Rightarrow> string \<Rightarrow> (string \<times> string option) option" where
  "physical_relation s name = resolve_relation (sc_catalog s) (sc_ontology s) (sc_edges s) name"

definition relation_property :: "semantic_schema \<Rightarrow> string \<Rightarrow> string \<Rightarrow> string option" where
  "relation_property s r name = relation_candidate (sc_catalog s) (sc_ontology s) r name"

definition value_valid :: "semantic_schema \<Rightarrow> string \<Rightarrow> pyval \<Rightarrow> bool" where
  "value_valid s name v \<longleftrightarrow> (case contract_of s (Some name) of None \<Rightarrow> False | Some c \<Rightarrow> contract_accepts c v)"

text \<open>\<open>validate_filter_value\<close>: the failure it raises, if any.\<close>

definition filter_value_failure :: "semantic_schema \<Rightarrow> string \<Rightarrow> pyval \<Rightarrow> fact_failure option" where
  "filter_value_failure s name v =
     (let n = (case computed_of s (Some name) of Some d \<Rightarrow> cf_source d | None \<Rightarrow> name) in
      if v = VNone then Some (missing FilterInputMissing [n])
      else if \<not> value_valid s n v then Some (missing FilterUnsupported [n]) else None)"

definition semantic_properties :: "semantic_schema \<Rightarrow> string \<Rightarrow> string list" where
  "semantic_properties s t = (if map_of (ca_entities (sc_catalog s)) t = None then []
     else filter (\<lambda>n. physical_property s t n \<noteq> None) (map fst (ot_properties (sc_ontology s))))"

section \<open>Types of a traversal\<close>

definition meets :: "string list \<Rightarrow> string list \<Rightarrow> bool" where
  "meets a b \<longleftrightarrow> list_ex (\<lambda>x. x \<in> set b) a"

definition traversal_target_types :: "semantic_schema \<Rightarrow> string \<Rightarrow> string list \<Rightarrow> string list option" where
  "traversal_target_types s name sources = (case physical_relation s name of
     None \<Rightarrow> None
   | Some (r, dir) \<Rightarrow> (case map_of (ca_relations (sc_catalog s)) r of
       None \<Rightarrow> None
     | Some q \<Rightarrow> (case dir of
         Some d \<Rightarrow>
           if d = ''out'' then (if meets sources (rl_from q) then Some (rl_to q) else None)
           else (let hosts = (if name \<noteq> ''contents'' then []
                   else case physical_relation s ''hosted_space'' of None \<Rightarrow> []
                     | Some (h, _) \<Rightarrow> (case map_of (ca_relations (sc_catalog s)) h of None \<Rightarrow> [] | Some w \<Rightarrow> rl_to w))
                 in if meets sources (rl_to q @ hosts) then Some (rl_from q) else None)
       | None \<Rightarrow>
           (let ts = (if meets sources (rl_from q) then rl_to q else []) @ (if meets sources (rl_to q) then rl_from q else [])
            in if ts = [] then None else Some ts))))"

definition base_entity_types :: "semantic_schema \<Rightarrow> semantic_reference \<Rightarrow> string list" where
  "base_entity_types s r = (case map_of context_entity_types (rf_kind r) of
     Some t \<Rightarrow> [t]
   | None \<Rightarrow> (case (rf_kind r = ''entity_id'', rf_value r) of
       (True, Some v) \<Rightarrow> [before_colon v]
     | _ \<Rightarrow> (case rf_type r of Some t \<Rightarrow> [t] | None \<Rightarrow> map fst (ca_entities (sc_catalog s)))))"

fun follow_types :: "semantic_schema \<Rightarrow> relation_step list \<Rightarrow> string list \<Rightarrow> string list option" where
  "follow_types s [] ts = Some ts"
| "follow_types s (p # ps) ts = (case traversal_target_types s (st_relation p) ts of
     None \<Rightarrow> None | Some us \<Rightarrow> if us = [] then None else follow_types s ps us)"

definition reference_entity_types :: "semantic_schema \<Rightarrow> semantic_reference \<Rightarrow> string list option" where
  "reference_entity_types s r = (let ts = base_entity_types s r in
     if ts = [] \<or> \<not> list_all (\<lambda>t. map_of (ca_entities (sc_catalog s)) t \<noteq> None) ts then None
     else follow_types s (rf_path r) ts)"

definition semantic_kind :: "semantic_schema \<Rightarrow> string list \<Rightarrow> string option \<Rightarrow> string option" where
  "semantic_kind s ts name = (case name of None \<Rightarrow> None
   | Some n \<Rightarrow> (case computed_of s name of
       Some d \<Rightarrow> if n \<in> set (sc_computed s) \<and> ts \<noteq> [] \<and> set ts \<subseteq> set (pc_entities (cf_contract d))
         then Some (execution_kind (pc_type (cf_contract d))) else None
     | None \<Rightarrow> if ts = [] \<or> \<not> list_all (\<lambda>t. bound (sc_entity_bindings s) t n) ts then None
         else map_option (\<lambda>c. execution_kind (pc_type c)) (contract_of s name)))"

definition final_relation_kind :: "semantic_schema \<Rightarrow> semantic_reference \<Rightarrow> string option \<Rightarrow> string option" where
  "final_relation_kind s r name = (case (last_relation r, name) of
     (Some rel, Some n) \<Rightarrow> if bound (sc_relation_bindings s) rel n
       then map_option (\<lambda>c. execution_kind (pc_type c)) (contract_of s name) else None
   | _ \<Rightarrow> None)"

section \<open>Validation of a request\<close>

text \<open>The first of the answers that there is.\<close>

definition orelse :: "'a option \<Rightarrow> 'a option \<Rightarrow> 'a option" where
  "orelse a b = (case a of Some x \<Rightarrow> Some x | None \<Rightarrow> b)"

fun first_error :: "('a \<Rightarrow> 'b option) \<Rightarrow> 'a list \<Rightarrow> 'b option" where
  "first_error f [] = None"
| "first_error f (x # xs) = orelse (f x) (first_error f xs)"

definition refuse :: "bool \<Rightarrow> string \<Rightarrow> string option" where
  "refuse b code = (if b then Some code else None)"

definition all_bound :: "((string \<times> string) \<times> string) list \<Rightarrow> string list \<Rightarrow> string option \<Rightarrow> bool" where
  "all_bound bs owners name \<longleftrightarrow> (case name of None \<Rightarrow> owners = [] | Some n \<Rightarrow> list_all (\<lambda>t. bound bs t n) owners)"

definition value_names :: "property_contract \<Rightarrow> string set" where
  "value_names c = set (map fst (pc_values c))"

definition filter_target :: "semantic_filter \<Rightarrow> string option" where
  "filter_target f = (case sf_value_property f of Some p \<Rightarrow> Some p | None \<Rightarrow> sf_property f)"

definition contract_filter_error ::
  "semantic_schema \<Rightarrow> semantic_filter \<Rightarrow> string list \<Rightarrow> string option \<Rightarrow> string list \<Rightarrow> string option" where
  "contract_filter_error s f ts rel anchors =
     (case computed_of s (sf_property f) of
        Some d \<Rightarrow>
          if sf_property f \<notin> Some ` set (sc_computed s) \<or> sf_source f \<noteq> ''entity'' \<or> sf_transform f \<noteq> None
             \<or> sf_value_from f \<noteq> None \<or> sf_value_property f \<noteq> None \<or> ts = [] \<or> \<not> set ts \<subseteq> set (pc_entities (cf_contract d))
          then Some ''PROPERTY_NOT_APPLICABLE''
          else (case sf_value f of
              VInt i \<Rightarrow> if cf_minimum d \<le> i \<and> i \<le> cf_maximum d then literal_error (cf_contract d) (sf_operator f) (sf_value f) False
                else Some ''INVALID_LITERAL_TYPE''
            | _ \<Rightarrow> Some ''INVALID_LITERAL_TYPE'')
      | None \<Rightarrow> (case contract_of s (sf_property f) of
          None \<Rightarrow> Some ''UNKNOWN_PROPERTY''
        | Some c \<Rightarrow>
            if sf_transform f = Some ''date_difference'' then
              (if set (kinds (pc_type c)) \<inter> {''date'', ''datetime''} = {} then Some ''INVALID_LITERAL_TYPE''
               else if sf_source f \<noteq> ''entity'' \<or> \<not> all_bound (sc_entity_bindings s) ts (sf_property f)
               then Some ''PROPERTY_NOT_APPLICABLE'' else None)
            else if sf_source f = ''entity'' \<and> (ts = [] \<or> \<not> all_bound (sc_entity_bindings s) ts (sf_property f))
            then Some ''PROPERTY_NOT_APPLICABLE''
            else if sf_source f \<noteq> ''entity'' \<and> (case (rel, sf_property f) of (Some r, Some n) \<Rightarrow> \<not> bound (sc_relation_bindings s) r n | _ \<Rightarrow> True)
            then Some ''PROPERTY_NOT_APPLICABLE''
            else if sf_value_from f \<noteq> None \<and>
              (anchors = [] \<or> (case contract_of s (filter_target f) of
                 None \<Rightarrow> True
               | Some k \<Rightarrow> pc_type k \<noteq> pc_type c \<or> value_names c \<noteq> value_names k)
               \<or> \<not> all_bound (sc_entity_bindings s) anchors (filter_target f))
            then Some ''INVALID_ANCHOR_TYPE''
            else literal_error c (sf_operator f) (sf_value f) (sf_value_from f \<noteq> None)))"

text \<open>The references of a request: subject, other and the excluded ones.\<close>

definition references :: "fact_request \<Rightarrow> semantic_reference list" where
  "references q = rq_subject q # (case rq_other q of None \<Rightarrow> [] | Some r \<Rightarrow> [r]) @ rq_exclude q"

fun path_contract_error :: "semantic_schema \<Rightarrow> string list \<Rightarrow> relation_step list \<Rightarrow> string list \<Rightarrow> string option" where
  "path_contract_error s anchors [] ts = None"
| "path_contract_error s anchors (p # ps) ts =
     (case traversal_target_types s (st_relation p) ts of
        None \<Rightarrow> Some ''INVALID_PATH''
      | Some us \<Rightarrow> if us = [] then Some ''INVALID_PATH''
          else orelse (first_error (\<lambda>f. contract_filter_error s f us (Some (st_relation p)) anchors) (st_filters p))
            (path_contract_error s anchors ps us))"

definition contradictory :: "semantic_schema \<Rightarrow> semantic_filter list \<Rightarrow> bool" where
  "contradictory s fs \<longleftrightarrow> (let names = List.map_filter sf_predicate fs in
     list_ex (\<lambda>n. case map_of (ot_predicates (sc_ontology s)) n of None \<Rightarrow> False
       | Some d \<Rightarrow> meets names (cp_disjoint d)) names)"

definition contract_error :: "semantic_schema \<Rightarrow> fact_request \<Rightarrow> string option" where
  "contract_error s q =
     (if contradictory s (rq_filters q) then Some ''CONTRADICTORY_PREDICATES''
      else orelse (first_error (\<lambda>r. path_contract_error s (base_entity_types s r) (rf_path r) (base_entity_types s r)) (references q))
        (first_error (\<lambda>f. if sf_predicate f \<noteq> None then None
           else contract_filter_error s f (case reference_entity_types s (rq_subject q) of None \<Rightarrow> [] | Some ts \<Rightarrow> ts)
             (last_relation (rq_subject q)) []) (rq_filters q)))"

definition valid_filter_kind :: "semantic_schema \<Rightarrow> semantic_filter \<Rightarrow> string \<Rightarrow> bool" where
  "valid_filter_kind s f kind = (case computed_of s (sf_property f) of
     Some d \<Rightarrow> contract_filter_error s f (pc_entities (cf_contract d)) None [] = None
   | None \<Rightarrow> if sf_transform f = Some ''date_difference'' then kind \<in> {''date'', ''datetime''}
       else (case contract_of s (sf_property f) of None \<Rightarrow> False
         | Some c \<Rightarrow> literal_error c (sf_operator f) (sf_value f) (sf_value_from f \<noteq> None) = None))"

text \<open>The walk that looks for unknown properties stops where the path cannot be followed.\<close>

fun unknown_in_path :: "semantic_schema \<Rightarrow> relation_step list \<Rightarrow> string list \<Rightarrow> bool" where
  "unknown_in_path s [] ts = False"
| "unknown_in_path s (p # ps) ts = (case traversal_target_types s (st_relation p) ts of
     None \<Rightarrow> False
   | Some us \<Rightarrow>
       list_ex (\<lambda>f. case sf_property f of None \<Rightarrow> False
         | Some n \<Rightarrow> if sf_source f = ''entity'' then semantic_kind s us (Some n) = None
             else (case physical_relation s (st_relation p) of None \<Rightarrow> False
               | Some (r, _) \<Rightarrow> relation_property s r n = None)) (st_filters p)
       \<or> unknown_in_path s ps us)"

definition step_filter_invalid :: "semantic_schema \<Rightarrow> string \<Rightarrow> string list \<Rightarrow> string list \<Rightarrow> semantic_filter \<Rightarrow> bool" where
  "step_filter_invalid s rel us anchors f \<longleftrightarrow>
     (if sf_source f = ''entity''
      then (case semantic_kind s us (sf_property f) of None \<Rightarrow> True
        | Some k \<Rightarrow> \<not> valid_filter_kind s f k
            \<or> sf_value_from f = Some ''anchor'' \<and> semantic_kind s anchors (filter_target f) \<noteq> Some k)
      else (case (physical_relation s rel, sf_property f) of
          (Some (r, _), Some n) \<Rightarrow> (case relation_property s r n of None \<Rightarrow> True
            | Some p \<Rightarrow> \<not> valid_filter_kind s f (relation_field_type (sc_catalog s) r p))
        | _ \<Rightarrow> True))"

fun path_invalid :: "semantic_schema \<Rightarrow> string list \<Rightarrow> relation_step list \<Rightarrow> string list \<Rightarrow> bool" where
  "path_invalid s anchors [] ts = False"
| "path_invalid s anchors (p # ps) ts = (case traversal_target_types s (st_relation p) ts of
     None \<Rightarrow> True
   | Some us \<Rightarrow> list_ex (step_filter_invalid s (st_relation p) us anchors) (st_filters p) \<or> path_invalid s anchors ps us)"

definition reference_invalid :: "semantic_schema \<Rightarrow> semantic_reference \<Rightarrow> bool" where
  "reference_invalid s r \<longleftrightarrow>
     (case (map_of context_entity_types (rf_kind r), rf_type r) of (Some t, Some u) \<Rightarrow> u \<noteq> t | _ \<Rightarrow> False)
     \<or> (rf_kind r = ''entity_id'' \<and> (case (rf_value r, rf_type r) of (Some v, Some t) \<Rightarrow> t \<noteq> before_colon v | _ \<Rightarrow> False))
     \<or> (rf_kind r = ''assistant'' \<and> rf_path r \<noteq> [])
     \<or> reference_entity_types s r = None
     \<or> path_invalid s (base_entity_types s r) (rf_path r) (base_entity_types s r)"

definition request_property_kind :: "semantic_schema \<Rightarrow> fact_request \<Rightarrow> string list \<Rightarrow> string option" where
  "request_property_kind s q ts = (if rq_source q = ''relationship'' then final_relation_kind s (rq_subject q) (rq_property q)
     else semantic_kind s ts (rq_property q))"

definition filter_invalid :: "semantic_schema \<Rightarrow> fact_request \<Rightarrow> string list \<Rightarrow> semantic_filter \<Rightarrow> bool" where
  "filter_invalid s q ts f \<longleftrightarrow> sf_value_from f \<noteq> None
     \<or> (case sf_predicate f of
          Some p \<Rightarrow> (case map_of (ot_predicates (sc_ontology s)) p of None \<Rightarrow> True
            | Some d \<Rightarrow> p \<notin> set (sc_predicates s) \<or> \<not> set ts \<subseteq> set (cp_entities d))
        | None \<Rightarrow> (case (if sf_source f = ''entity'' then semantic_kind s ts (sf_property f)
              else final_relation_kind s (rq_subject q) (sf_property f)) of
            None \<Rightarrow> True | Some k \<Rightarrow> \<not> valid_filter_kind s f k))"

definition opt_val :: "('a \<Rightarrow> pyval) \<Rightarrow> 'a option \<Rightarrow> pyval" where
  "opt_val f x = (case x of None \<Rightarrow> VNone | Some y \<Rightarrow> f y)"

definition parameters :: "fact_request \<Rightarrow> fields" where
  "parameters q = [(''reference'', VStr ''household_now''), (''mode'', opt_val VStr (rq_mode q)), (''amount'', opt_val VInt (rq_amount q)),
     (''from_unit'', opt_val VStr (rq_from q)), (''to_unit'', opt_val VStr (rq_to q))]"

definition collection_input :: "fact_request \<Rightarrow> bool" where
  "collection_input q \<longleftrightarrow> rf_path (rq_subject q) \<noteq> [] \<or> rq_other q \<noteq> None \<or> rf_cardinality (rq_subject q) = ''collection''"

text \<open>What an operation other than a retrieval requires of its property and parameters.\<close>

definition computation_valid :: "semantic_schema \<Rightarrow> fact_request \<Rightarrow> operator \<Rightarrow> string list \<Rightarrow> bool" where
  "computation_valid s q d ts \<longleftrightarrow>
     (let k = (if rq_property q = None then Some ''unknown'' else request_property_kind s q ts) in
      case k of None \<Rightarrow> False
      | Some kind \<Rightarrow>
          \<not> (rq_property q \<noteq> None \<and> kind = ''unknown'' \<and> ''any'' \<notin> set (od_field_kinds d))
          \<and> (case rq_other q of None \<Rightarrow> True
              | Some r \<Rightarrow> (case reference_entity_types s r of None \<Rightarrow> False
                  | Some us \<Rightarrow> semantic_kind s us (rq_property q) = Some kind))
          \<and> validate_operator d (rq_property q) kind
              (if rq_operation q \<in> {''latest'', ''earliest''} then rq_property q else None) kind (parameters q) = Inr ())"

definition shape_valid :: "semantic_schema \<Rightarrow> fact_request \<Rightarrow> operator \<Rightarrow> string list \<Rightarrow> bool" where
  "shape_valid s q d ts \<longleftrightarrow>
     (let subject = rq_subject q; plain = (rq_property q = None \<and> rq_filters q = [] \<and> rq_source q = ''entity'') in
      \<not> (rq_other q \<noteq> None \<and> rq_filters q \<noteq> [])
      \<and> \<not> (rq_filters q \<noteq> [] \<and> rf_path subject = [] \<and> rf_cardinality subject \<noteq> ''collection'')
      \<and> \<not> list_ex (filter_invalid s q ts) (rq_filters q)
      \<and> \<not> (rq_source q = ''relationship'' \<and> (rq_other q \<noteq> None \<or> rf_path subject = [] \<or> rq_property q = None))
      \<and> \<not> (rq_amount q \<noteq> None \<and> rq_operation q \<noteq> ''date_add'')
      \<and> \<not> (rq_projection q = ''each'' \<and> (\<not> collection_input q \<or> rq_other q \<noteq> None \<or> rq_property q = None
            \<or> \<not> (od_shape d = ''scalar'' \<or> rq_operation q = ''select'')))
      \<and> \<not> (rq_exclude q \<noteq> [] \<and> (\<not> collection_input q \<or> rq_other q \<noteq> None
            \<or> \<not> (rq_projection q = ''each'' \<or> od_shape d = ''collection'' \<or> rq_operation q = ''select'' \<and> rq_property q = None)))
      \<and> \<not> (od_shape d = ''collection'' \<and> \<not> collection_input q)
      \<and> (if rq_operation q \<in> {''resolve_reference'', ''inspect''} then plain \<and> rq_other q = None
         else if rq_operation q = ''same_entity'' then plain \<and> rq_other q \<noteq> None
         else if rq_operation q = ''select'' then rq_other q = None
           \<and> (if rq_property q = None then collection_input q else request_property_kind s q ts \<noteq> None)
         else computation_valid s q d ts))"

definition unknown_property :: "semantic_schema \<Rightarrow> fact_request \<Rightarrow> bool" where
  "unknown_property s q \<longleftrightarrow> rq_property q \<noteq> None
     \<and> (if rq_source q = ''relationship'' then final_relation_kind s (rq_subject q) (rq_property q) = None
        else (case reference_entity_types s (rq_subject q) of None \<Rightarrow> False
          | Some ts \<Rightarrow> semantic_kind s ts (rq_property q) = None))"

definition unknown_filter :: "semantic_schema \<Rightarrow> fact_request \<Rightarrow> semantic_filter \<Rightarrow> bool" where
  "unknown_filter s q f \<longleftrightarrow> sf_property f \<noteq> None
     \<and> (if sf_source f = ''entity'' then (case reference_entity_types s (rq_subject q) of None \<Rightarrow> True
            | Some ts \<Rightarrow> semantic_kind s ts (sf_property f) = None)
        else final_relation_kind s (rq_subject q) (sf_property f) = None)"

definition closed_order :: "semantic_schema \<Rightarrow> fact_request \<Rightarrow> bool" where
  "closed_order s q \<longleftrightarrow> (case contract_of s (rq_property q) of None \<Rightarrow> False
     | Some c \<Rightarrow> pc_values c \<noteq> [] \<and> rq_operation q \<in> {''argmin'', ''argmax'', ''min'', ''max'', ''latest'', ''earliest''})"

definition validation_code :: "semantic_schema \<Rightarrow> fact_request \<Rightarrow> string" where
  "validation_code s q = (case map_of fact_operators (rq_operation q) of
     None \<Rightarrow> ''UNSUPPORTED_OPERATION''
   | Some d \<Rightarrow>
       if contract_error s q \<noteq> None then ''INVALID_PLAN''
       else if list_ex (\<lambda>r. list_ex (\<lambda>p. physical_relation s (st_relation p) = None) (rf_path r)) (references q)
       then ''UNKNOWN_RELATION''
       else if closed_order s q then ''INVALID_PLAN''
       else if unknown_property s q then ''UNKNOWN_PROPERTY''
       else if list_ex (\<lambda>r. unknown_in_path s (rf_path r) (base_entity_types s r)) (references q) then ''UNKNOWN_PROPERTY''
       else if list_ex (unknown_filter s q) (rq_filters q) then ''UNKNOWN_PROPERTY''
       else if list_ex (reference_invalid s) (references q) then ''INVALID_PLAN''
       else (case reference_entity_types s (rq_subject q) of
           None \<Rightarrow> ''INVALID_PLAN''
         | Some ts \<Rightarrow> if shape_valid s q d ts then ''VALID'' else ''INVALID_PLAN''))"

definition validates :: "semantic_schema \<Rightarrow> fact_request \<Rightarrow> bool" where
  "validates s q \<longleftrightarrow> validation_code s q = ''VALID''"

end
