(* ===== verification/Resolver.thy ===== *)
theory Resolver
  imports SemanticSchema
begin

text \<open>
  \<open>facts/resolver.py\<close>: the execution of one request, which counts its queries and remembers the entities and edges it
  has seen, and the resolver that grounds a reference in stored entities. The tools are called through the
  dispatcher, an argument of the model with a state of its own. A step either returns, fails with a status, or
  raises; the loop over hosted spaces carries a budget of steps.
\<close>

section \<open>Execution\<close>

datatype fact_error = Failed fact_failure | Raised exn | Exhausted

record 's execution =
  ex_state :: 's
  ex_queries :: nat
  ex_cache :: "fields dict"
  ex_evidence :: "relationship_evidence list"

type_synonym ('s, 'a) fx = "'s execution \<Rightarrow> 's execution \<times> (fact_error + 'a)"

definition return :: "'a \<Rightarrow> ('s, 'a) fx" where "return a x = (x, Inr a)"
definition raise :: "fact_failure \<Rightarrow> ('s, 'a) fx" where "raise f x = (x, Inl (Failed f))"
definition throw :: "fact_error \<Rightarrow> ('s, 'a) fx" where "throw e x = (x, Inl e)"

definition andthen :: "('s, 'a) fx \<Rightarrow> ('a \<Rightarrow> ('s, 'b) fx) \<Rightarrow> ('s, 'b) fx" where
  "andthen m k x = (case m x of (y, Inl e) \<Rightarrow> (y, Inl e) | (y, Inr a) \<Rightarrow> k a y)"

definition lift :: "'a res \<Rightarrow> ('s, 'a) fx" where
  "lift r x = (x, case r of Inl e \<Rightarrow> Inl (Raised e) | Inr a \<Rightarrow> Inr a)"

definition refused :: "fact_failure option \<Rightarrow> ('s, unit) fx" where
  "refused f = (case f of None \<Rightarrow> return () | Some g \<Rightarrow> raise g)"

fun each :: "('a \<Rightarrow> ('s, 'b) fx) \<Rightarrow> 'a list \<Rightarrow> ('s, 'b list) fx" where
  "each f [] = return []"
| "each f (a # as) = andthen (f a) (\<lambda>b. andthen (each f as) (\<lambda>bs. return (b # bs)))"

text \<open>A loop that carries a value.\<close>

fun loop :: "('a \<Rightarrow> 'b \<Rightarrow> ('s, 'b) fx) \<Rightarrow> 'a list \<Rightarrow> 'b \<Rightarrow> ('s, 'b) fx" where
  "loop f [] b = return b"
| "loop f (a # as) b = andthen (f a b) (loop f as)"

text \<open>Loops that stop at the first that holds, and at the first that does not.\<close>

fun any :: "('a \<Rightarrow> ('s, bool) fx) \<Rightarrow> 'a list \<Rightarrow> ('s, bool) fx" where
  "any f [] = return False"
| "any f (a # as) = andthen (f a) (\<lambda>b. if b then return True else any f as)"

fun every :: "('a \<Rightarrow> ('s, bool) fx) \<Rightarrow> 'a list \<Rightarrow> ('s, bool) fx" where
  "every f [] = return True"
| "every f (a # as) = andthen (f a) (\<lambda>b. if b then every f as else return False)"

record 's fact_env =
  fe_call :: "string \<Rightarrow> fields \<Rightarrow> 's \<Rightarrow> 's \<times> pyval res"
  fe_schema :: semantic_schema
  fe_str :: "pyval \<Rightarrow> string"
  fe_max :: nat
  fe_steps :: nat

definition new_execution :: "'s \<Rightarrow> 's execution" where
  "new_execution s = \<lparr>ex_state = s, ex_queries = 0, ex_cache = [], ex_evidence = []\<rparr>"

definition evidence_eq :: "relationship_evidence \<Rightarrow> relationship_evidence \<Rightarrow> bool" where
  "evidence_eq a b \<longleftrightarrow> re_relation a = re_relation b \<and> re_source a = re_source b \<and> re_target a = re_target b
     \<and> py_eq (re_start a) (re_start b) \<and> py_eq (re_end a) (re_end b)"

text \<open>\<open>a or b\<close> on two fields.\<close>

definition or_field :: "fields \<Rightarrow> string \<Rightarrow> string \<Rightarrow> pyval" where
  "or_field d a b = (if truthy (get_or_None d a) then get_or_None d a else get_or_None d b)"

definition edge_evidence :: "(pyval \<Rightarrow> string) \<Rightarrow> string \<Rightarrow> fields \<Rightarrow> relationship_evidence" where
  "edge_evidence sh rel edge = \<lparr>re_relation = rel, re_source = string_or_none sh (or_field edge ''in'' ''from''),
     re_target = string_or_none sh (or_field edge ''out'' ''to''), re_start = get_or_None edge ''start'',
     re_end = get_or_None edge ''end''\<rparr>"

definition remember_relationship :: "'s fact_env \<Rightarrow> string \<Rightarrow> fields \<Rightarrow> ('s, unit) fx" where
  "remember_relationship v rel edge x = (let e = edge_evidence (fe_str v) rel edge in
     (if list_ex (evidence_eq e) (ex_evidence x) then x else x\<lparr>ex_evidence := ex_evidence x @ [e]\<rparr>, Inr ()))"

fun mappings :: "pyval list \<Rightarrow> fields list" where
  "mappings [] = []"
| "mappings (v # vs) = (case v of VDict d \<Rightarrow> d # mappings vs | _ \<Rightarrow> mappings vs)"

text \<open>The records in a response of the dispatcher: only an answer \<open>ok\<close> with a list counts.\<close>

definition response_records :: "pyval res \<Rightarrow> fields list option" where
  "response_records r = (case r of
     Inr (VDict d) \<Rightarrow> if get_or_None d ''ok'' = VBool True
       then (case get_or_None d ''result'' of VList vs \<Rightarrow> Some (mappings vs) | _ \<Rightarrow> None) else None
   | _ \<Rightarrow> None)"

definition query :: "'s fact_env \<Rightarrow> string \<Rightarrow> fields \<Rightarrow> ('s, fields list) fx" where
  "query v tool args x = (case fe_call v tool args (ex_state x) of
     (s, r) \<Rightarrow> (x\<lparr>ex_state := s, ex_queries := ex_queries x + 1\<rparr>,
       case response_records r of None \<Rightarrow> Inl (Failed (failure ComputationImpossible)) | Some ds \<Rightarrow> Inr ds))"

definition fx_records :: "'s fact_env \<Rightarrow> string \<Rightarrow> fields \<Rightarrow> ('s, fields list) fx" where
  "fx_records v tool args x =
     (case (tool = ''get_entity'', get_or_None args ''entity_id'') of
        (True, VStr i) \<Rightarrow>
          (case map_of (ex_cache x) i of
             Some d \<Rightarrow> (x, Inr [d])
           | None \<Rightarrow> (case query v tool args x of
               (y, Inr (d # ds)) \<Rightarrow> (y\<lparr>ex_cache := AList.update i d (ex_cache y)\<rparr>, Inr (d # ds))
             | r \<Rightarrow> r))
      | _ \<Rightarrow> query v tool args x)"

definition load :: "'s fact_env \<Rightarrow> fields \<Rightarrow> ('s, fields) fx" where
  "load v e = (case entity_id e of
     None \<Rightarrow> raise (failure EntityNotFound)
   | Some i \<Rightarrow> if CHR '':'' \<notin> set i then return e
       else andthen (fx_records v ''get_entity'' [(''entity_id'', VStr i)]) (\<lambda>ds. case ds of
         [] \<Rightarrow> raise (failure EntityNotFound) | d # _ \<Rightarrow> return d))"

definition named_entity :: "fields \<Rightarrow> bool" where
  "named_entity e \<longleftrightarrow> list_ex (\<lambda>k. truthy (get_or_None e k)) [''display_name'', ''name'', ''full_name'']"

definition load_if_unnamed :: "'s fact_env \<Rightarrow> fields \<Rightarrow> ('s, fields) fx" where
  "load_if_unnamed v e = (if named_entity e then return e else load v e)"

section \<open>Dates derived at the time of the request\<close>

definition value_input :: "pyval \<Rightarrow> clock \<Rightarrow> op_input" where
  "value_input raw now = no_input\<lparr>oi_records := [[(''value'', raw)]], oi_field := Some ''value'', oi_now := Some now\<rparr>"

definition is_past :: "pyval \<Rightarrow> clock \<Rightarrow> unit res" where
  "is_past raw now = bind_res (execute_operator ''date_difference'' ((value_input raw now)\<lparr>oi_mode := Some ''seconds''\<rparr>)) (\<lambda>d.
     bind_res (py_less False d (VInt 0)) (\<lambda>b. guard (\<not> b) OperatorExecutionError))"

definition derived_value :: "pyval \<Rightarrow> clock \<Rightarrow> string \<Rightarrow> string option \<Rightarrow> bool \<Rightarrow> pyval res" where
  "derived_value raw now transform mode past =
     bind_res (if past then is_past raw now else Inr ()) (\<lambda>_.
     case map_of operators transform of
       None \<Rightarrow> Inl KeyError
     | Some d \<Rightarrow>
         bind_res (validate_operator d (Some ''value'') (infer_field_kind [raw]) None ''unknown''
           [(''reference'', VStr ''household_now''), (''mode'', opt_val VStr mode)]) (\<lambda>_.
         execute_operator transform ((value_input raw now)\<lparr>oi_reference := Some ''household_now'', oi_mode := mode\<rparr>)))"

text \<open>\<open>except (OperatorValidationError, OperatorExecutionError, TypeError, ValueError, KeyError)\<close>\<close>

definition input_error :: "exn \<Rightarrow> bool" where
  "input_error e \<longleftrightarrow> is_value_error e \<or> e \<in> {OperatorValidationError, OperatorExecutionError, TypeError, KeyError}"

definition derived_date_matches ::
  "pyval \<Rightarrow> clock \<Rightarrow> string \<Rightarrow> string option \<Rightarrow> string \<Rightarrow> pyval \<Rightarrow> bool \<Rightarrow> string list \<Rightarrow> ('s, bool) fx" where
  "derived_date_matches raw now transform mode name compare past miss =
     (case derived_value raw now transform mode past of
        Inl e \<Rightarrow> if input_error e then raise (missing FilterInputMissing miss) else throw (Raised e)
      | Inr d \<Rightarrow> lift (evaluate_predicate name d compare))"

section \<open>Edges\<close>

text \<open>One more edge than the maximum is asked for: an answer that long is not complete.\<close>

definition complete_edges :: "'s fact_env \<Rightarrow> string \<Rightarrow> fields \<Rightarrow> ('s, fields list) fx" where
  "complete_edges v rel args = andthen (fx_records v ''get_relationships'' args)
     (\<lambda>edges. if length edges > fe_max v then raise (missing CollectionIncomplete [rel]) else return edges)"

definition edge_limit :: "'s fact_env \<Rightarrow> pyval" where
  "edge_limit v = VInt (int (fe_max v) + 1)"

definition relation_edges :: "'s fact_env \<Rightarrow> string \<Rightarrow> string \<Rightarrow> string option \<Rightarrow> ('s, fields list) fx" where
  "relation_edges v i rel dir = complete_edges v rel
       ([(''entity_id'', VStr i), (''relation'', VStr rel), (''include_ended'', VBool False), (''limit'', edge_limit v)]
         @ (case dir of None \<Rightarrow> [] | Some d \<Rightarrow> [(''direction'', VStr d)]))"

definition parent_edges :: "'s fact_env \<Rightarrow> string \<Rightarrow> string \<Rightarrow> ('s, fields list) fx" where
  "parent_edges v i rel = complete_edges v rel [(''entity_id'', VStr i), (''relation'', VStr rel), (''direction'', VStr ''out''),
     (''include_ended'', VBool False), (''limit'', edge_limit v)]"

definition unavailable :: "fact_status \<Rightarrow> string \<Rightarrow> fact_failure" where
  "unavailable s name = (missing s [name])\<lparr>ff_evidence := no_evidence\<lparr>ev_property := Some name\<rparr>\<rparr>"

text \<open>A filter without a property names a predicate, which a path may not hold; validated requests have none.\<close>

definition filter_name :: "semantic_filter \<Rightarrow> string" where
  "filter_name f = (case sf_property f of None \<Rightarrow> [] | Some n \<Rightarrow> n)"

definition edge_matches :: "'s fact_env \<Rightarrow> fields \<Rightarrow> string \<Rightarrow> semantic_filter list \<Rightarrow> ('s, bool) fx" where
  "edge_matches v edge rel fs = every (\<lambda>f.
     case relation_property (fe_schema v) rel (filter_name f) of
       None \<Rightarrow> raise (unavailable PropertyUnavailable (filter_name f))
     | Some p \<Rightarrow> andthen (refused (filter_value_failure (fe_schema v) (filter_name f) (get_or_None edge p))) (\<lambda>_.
         lift (evaluate_predicate (sf_operator f) (get_or_None edge p) (sf_value f))))
     (filter (\<lambda>f. sf_source f = ''relation'') fs)"

section \<open>Hosted spaces\<close>

text \<open>The children of a space: the related entities of its edges that are spaces. The stack holds what is still to be
  entered, and what is to be left again, the next one first.\<close>

definition space_child :: "'s fact_env \<Rightarrow> fields \<Rightarrow> fields option" where
  "space_child v edge = (case get_or_None edge ''related_entity'' of
     VDict d \<Rightarrow> if entity_type (fe_str v) d = ''space'' then Some d else None | _ \<Rightarrow> None)"

definition remember_children :: "'s fact_env \<Rightarrow> fields list \<Rightarrow> ('s, fields list) fx" where
  "remember_children v edges = loop (\<lambda>edge ds. case space_child v edge of
     None \<Rightarrow> return ds
   | Some d \<Rightarrow> andthen (remember_relationship v ''hosted_space'' edge) (\<lambda>_. return (ds @ [d]))) edges []"

fun hosted_loop :: "'s fact_env \<Rightarrow> string \<times> string option \<Rightarrow> nat \<Rightarrow> (fields \<times> bool) list \<Rightarrow> string list \<Rightarrow> string list
    \<Rightarrow> fields list \<Rightarrow> ('s, fields list) fx" where
  "hosted_loop v h n [] visited active ds = return ds"
| "hosted_loop v h 0 (t # stack) visited active ds = throw Exhausted"
| "hosted_loop v h (Suc n) ((e, leaving) # stack) visited active ds =
     (case map_of e ''id'' of
        None \<Rightarrow> throw (Raised KeyError)
      | Some w \<Rightarrow> let i = py_str (fe_str v) w in
          if leaving then hosted_loop v h n stack visited (removeAll i active) ds
          else if i \<in> set active then raise (missing ComputationImpossible [''hosting_cycle''])
          else if i \<in> set visited then hosted_loop v h n stack visited active ds
          else andthen (relation_edges v i (fst h) (snd h)) (\<lambda>edges.
               andthen (remember_children v edges) (\<lambda>kids.
                 hosted_loop v h n (rev (map (\<lambda>k. (k, False)) kids) @ (e, True) # stack) (i # visited) (i # active) (ds @ kids))))"

definition hosted_descendants :: "'s fact_env \<Rightarrow> fields \<Rightarrow> ('s, fields list) fx" where
  "hosted_descendants v parent = (case physical_relation (fe_schema v) ''hosted_space'' of
     None \<Rightarrow> return []
   | Some h \<Rightarrow> andthen (hosted_loop v h (fe_steps v) [(parent, False)] [] [] []) (\<lambda>ds. return (unique_entities ds)))"

section \<open>The household of a name\<close>

text \<open>\<open>_belongs_to_household\<close>: twelve entities may be passed on the way; \<open>n\<close> is how many are left.\<close>

primrec belongs_to_household :: "nat \<Rightarrow> 's fact_env \<Rightarrow> string \<Rightarrow> string \<Rightarrow> string list \<Rightarrow> ('s, bool) fx" where
  "belongs_to_household 0 v i home visited = return (i = home)"
| "belongs_to_household (Suc n) v i home visited =
     (if i = home then return True
      else if i \<in> set visited then return False
      else any (\<lambda>rel. andthen (parent_edges v i rel) (\<lambda>edges.
             any (\<lambda>edge. case get_or_None edge ''related_entity'' of
                 VDict d \<Rightarrow> (case entity_id d of None \<Rightarrow> return False
                   | Some p \<Rightarrow> belongs_to_household n v p home (i # visited))
               | _ \<Rightarrow> return False) edges))
           (scope_parent_relations (sc_edges (fe_schema v)) (before_colon i)))"

definition scope_depth :: nat where "scope_depth = 12"

definition in_scope :: "'s fact_env \<Rightarrow> string \<Rightarrow> fields \<Rightarrow> ('s, bool) fx" where
  "in_scope v home r =
     (if scope_parent_relations (sc_edges (fe_schema v)) (entity_type (fe_str v) r) = [] then return True
      else case entity_id r of None \<Rightarrow> return False
        | Some i \<Rightarrow> belongs_to_household scope_depth v i home [])"

definition scope_named_records :: "'s fact_env \<Rightarrow> fields list \<Rightarrow> string option \<Rightarrow> ('s, fields list) fx" where
  "scope_named_records v rs home = (case home of None \<Rightarrow> return rs
     | Some h \<Rightarrow> loop (\<lambda>r acc. andthen (in_scope v h r) (\<lambda>b. return (if b then acc @ [r] else acc))) rs [])"

section \<open>Filters of a path\<close>

definition anchor_property :: "'s fact_env \<Rightarrow> fields list \<Rightarrow> string \<Rightarrow> ('s, pyval) fx" where
  "anchor_property v anchors name = (case anchors of
     [a] \<Rightarrow> andthen (load v a) (\<lambda>d. case physical_property (fe_schema v) (entity_type (fe_str v) d) name of
         None \<Rightarrow> raise (unavailable PropertyUnavailable name)
       | Some p \<Rightarrow> if get_or_None d p = VNone then raise (unavailable PropertyUnavailable name)
           else andthen (refused (filter_value_failure (fe_schema v) name (get_or_None d p))) (\<lambda>_. return (get_or_None d p)))
   | _ \<Rightarrow> raise ((failure Ambiguous)\<lparr>ff_candidates := anchors\<rparr>))"

definition entity_predicate :: "'s fact_env \<Rightarrow> clock \<Rightarrow> fields list \<Rightarrow> fields \<Rightarrow> semantic_filter \<times> string \<Rightarrow> ('s, bool) fx" where
  "entity_predicate v now anchors r fp = (case fp of (f, p) \<Rightarrow>
     andthen (refused (filter_value_failure (fe_schema v) (filter_name f) (get_or_None r p))) (\<lambda>_.
     case computed_of (fe_schema v) (sf_property f) of
       Some d \<Rightarrow> derived_date_matches (get_or_None r p) now (cf_transform d) (Some (cf_mode d)) (sf_operator f) (sf_value f)
         (cf_past d) [filter_name f]
     | None \<Rightarrow> (case sf_transform f of
         Some t \<Rightarrow> derived_date_matches (get_or_None r p) now t (sf_mode f) (sf_operator f) (sf_value f) True [filter_name f]
       | None \<Rightarrow> andthen (if sf_value_from f = Some ''anchor''
             then anchor_property v anchors (case filter_target f of None \<Rightarrow> [] | Some n \<Rightarrow> n) else return (sf_value f)) (\<lambda>expected.
           lift (evaluate_predicate (sf_operator f) (get_or_None r p) expected)))))"

definition entity_record :: "'s fact_env \<Rightarrow> clock \<Rightarrow> fields list \<Rightarrow> semantic_filter list \<Rightarrow> fields \<Rightarrow> ('s, fields option) fx" where
  "entity_record v now anchors fs e =
     (let t = entity_type (fe_str v) e; mapped = map (\<lambda>f. (f, physical_property (fe_schema v) t (filter_name f))) fs in
      case find (\<lambda>m. snd m = None) mapped of
        Some (f, _) \<Rightarrow> raise (unavailable PropertyUnavailable (filter_name f))
      | None \<Rightarrow>
          andthen (if list_ex (\<lambda>(f, p). map_of e (the p) = None) mapped then load v e else return e) (\<lambda>r.
          andthen (each (entity_predicate v now anchors r) (map (\<lambda>(f, p). (f, the p)) mapped)) (\<lambda>bs.
            return (if list_all (\<lambda>b. b) bs then Some r else None))))"

definition filter_entities :: "'s fact_env \<Rightarrow> clock \<Rightarrow> fields list \<Rightarrow> semantic_filter list \<Rightarrow> fields list \<Rightarrow> ('s, fields list) fx" where
  "filter_entities v now anchors fs es =
     (let fs' = filter (\<lambda>f. sf_source f = ''entity'') fs in
      if fs' = [] then return es
      else andthen (each (entity_record v now anchors fs') es) (\<lambda>rs. return (List.map_filter (\<lambda>r. r) rs)))"

section \<open>Grounding a reference\<close>

text \<open>The entities a reference starts from.\<close>

definition discourse_entities :: "'s fact_env \<Rightarrow> semantic_reference \<Rightarrow> request_context \<Rightarrow> ('s, fields list) fx" where
  "discourse_entities v r c =
     (let lost = raise (missing DiscourseContextMissing [''discourse_antecedent'']) in
      case (cx_discourse c, cx_conversation c, rf_offset r) of
        (Some d, Some conversation, Some k) \<Rightarrow>
          if dc_conversation d \<noteq> conversation \<or> dc_caller d \<noteq> cx_caller c \<or> dc_household d \<noteq> cx_household c
             \<or> dc_assistant d \<noteq> cx_assistant c \<or> k > int (length (dc_turns d))
             \<or> dc_turns d ! (length (dc_turns d) - nat k) = [] then lost
          else andthen (each (\<lambda>i. load v [(''id'', VStr i)]) (dc_turns d ! (length (dc_turns d) - nat k))) (\<lambda>es.
            let found = filter (\<lambda>e. Some (entity_type (fe_str v) e) = rf_type r) es in
            if found = [] then lost
            else if rf_cardinality r = ''single'' \<and> length found \<noteq> 1
            then raise ((missing Ambiguous [''discourse_antecedent''])\<lparr>ff_candidates := found\<rparr>)
            else return found)
      | _ \<Rightarrow> lost)"

definition named_entities :: "'s fact_env \<Rightarrow> semantic_reference \<Rightarrow> request_context \<Rightarrow> ('s, fields list) fx" where
  "named_entities v r c =
     andthen (fx_records v ''resolve_entity_alias''
       [(''text'', opt_val VStr (rf_value r)), (''entity_type'', opt_val VStr (rf_type r)), (''limit'', VInt (int (fe_max v))),
        (''speaker_id'', opt_val VStr (cx_caller c)), (''household_id'', opt_val VStr (cx_household c))]) (\<lambda>rs.
     andthen (scope_named_records v rs (cx_household c)) (\<lambda>es.
       if es = [] then raise (failure EntityNotFound)
       else if length es > 1 then raise ((failure Ambiguous)\<lparr>ff_evidence := no_evidence\<lparr>ev_entities := entity_ids es\<rparr>, ff_candidates := es\<rparr>)
       else return es))"

definition base_entities :: "'s fact_env \<Rightarrow> semantic_reference \<Rightarrow> request_context \<Rightarrow> ('s, fields list) fx" where
  "base_entities v r c =
     (if rf_kind r = ''unresolved'' then raise (missing Ambiguous [''semantic_reference''])
      else if rf_kind r = ''discourse'' then discourse_entities v r c
      else if rf_kind r = ''assistant'' then
        return [[(''id'', VStr (cx_assistant c)), (''display_name'', VStr (cx_assistant_name c))]]
      else if rf_kind r = ''self'' then
        (case cx_caller c of None \<Rightarrow> raise (failure CallerContextMissing) | Some i \<Rightarrow> return [[(''id'', VStr i)]])
      else if rf_kind r = ''current_household'' then
        (case cx_household c of None \<Rightarrow> raise (failure EntityNotFound) | Some i \<Rightarrow> return [[(''id'', VStr i)]])
      else if rf_kind r = ''entity_id'' then return [[(''id'', opt_val VStr (rf_value r))]]
      else if rf_kind r = ''named_entity'' then named_entities v r c
      else raise (failure ComputationImpossible))"

text \<open>What one step of a path has collected: the related entities, the edges to them, the contents of each space and
  whether a space was looked into with all that it hosts.\<close>

record collected =
  co_related :: "fields list"
  co_edges :: "fields list"
  co_groups :: "(string \<times> content_group) list"
  co_collapsed :: bool

definition nothing_collected :: collected where
  "nothing_collected = \<lparr>co_related = [], co_edges = [], co_groups = [], co_collapsed = False\<rparr>"

definition into_group :: "string \<Rightarrow> fields \<Rightarrow> fields \<Rightarrow> (string \<times> content_group) list \<Rightarrow> (string \<times> content_group) list" where
  "into_group i space e gs = (case map_of gs i of
     None \<Rightarrow> gs @ [(i, \<lparr>cg_space = space, cg_entities = [e]\<rparr>)]
   | Some g \<Rightarrow> AList.update i (g\<lparr>cg_entities := cg_entities g @ [e]\<rparr>) gs)"

definition collect_edge :: "'s fact_env \<Rightarrow> relation_step \<Rightarrow> string \<Rightarrow> string \<times> fields \<Rightarrow> fields \<Rightarrow> collected \<Rightarrow> ('s, collected) fx" where
  "collect_edge v p rel src edge acc =
     andthen (edge_matches v edge rel (st_filters p)) (\<lambda>ok. if \<not> ok then return acc
     else andthen (remember_relationship v (st_relation p) edge) (\<lambda>_. return (case get_or_None edge ''related_entity'' of
         VDict d \<Rightarrow> acc\<lparr>co_related := co_related acc @ [d], co_edges := co_edges acc @ [edge],
           co_groups := (if st_relation p = ''contents'' then into_group (fst src) (snd src) d (co_groups acc) else co_groups acc)\<rparr>
       | _ \<Rightarrow> acc)))"

definition collect_source :: "'s fact_env \<Rightarrow> relation_step \<Rightarrow> string \<Rightarrow> string option \<Rightarrow> fields \<Rightarrow> collected \<Rightarrow> ('s, collected) fx" where
  "collect_source v p rel dir src acc = (case map_of src ''id'' of
     None \<Rightarrow> throw (Raised KeyError)
   | Some w \<Rightarrow> andthen (relation_edges v (py_str (fe_str v) w) rel dir)
       (\<lambda>edges. loop (collect_edge v p rel (py_str (fe_str v) w, src)) edges acc))"

definition collect_entity :: "'s fact_env \<Rightarrow> relation_step \<Rightarrow> string \<Rightarrow> string option \<Rightarrow> fields \<Rightarrow> collected \<Rightarrow> ('s, collected) fx" where
  "collect_entity v p rel dir e acc = (if entity_id e = None then return acc
     else if st_relation p = ''contents''
     then andthen (load v e) (\<lambda>stored.
        if get_or_None stored ''collapse'' = VBool True
        then andthen (hosted_descendants v stored) (\<lambda>ds. loop (collect_source v p rel dir) (e # ds) (acc\<lparr>co_collapsed := True\<rparr>))
        else collect_source v p rel dir e acc)
     else collect_source v p rel dir e acc)"

definition keep_ids :: "string list \<Rightarrow> fields list \<Rightarrow> fields list" where
  "keep_ids ids es = filter (\<lambda>e. case entity_id e of None \<Rightarrow> False | Some i \<Rightarrow> i \<in> set ids) es"

definition edges_to :: "string list \<Rightarrow> fields list \<Rightarrow> fields list" where
  "edges_to ids edges = filter (\<lambda>edge. case get_or_None edge ''related_entity'' of
     VDict d \<Rightarrow> (case entity_id d of None \<Rightarrow> False | Some i \<Rightarrow> i \<in> set ids) | _ \<Rightarrow> False) edges"

type_synonym grounding = "fields list \<times> fields list \<times> content_group list"

definition take_step :: "'s fact_env \<Rightarrow> clock \<Rightarrow> fields list \<Rightarrow> relation_step \<Rightarrow> fields list \<Rightarrow> ('s, grounding) fx" where
  "take_step v now anchors p es = (case physical_relation (fe_schema v) (st_relation p) of
     None \<Rightarrow> raise ((failure RelationshipNotFound)\<lparr>ff_evidence := no_evidence\<lparr>ev_relationship := Some (st_relation p)\<rparr>\<rparr>)
   | Some (rel, dir) \<Rightarrow>
       andthen (loop (collect_entity v p rel dir) es nothing_collected) (\<lambda>acc.
       andthen (filter_entities v now anchors (st_filters p) (unique_entities (co_related acc))) (\<lambda>kept.
       let ids = entity_ids kept in
       return (kept, edges_to ids (co_edges acc),
         if co_collapsed acc
         then map (\<lambda>(i, g). g\<lparr>cg_entities := unique_entities (keep_ids ids (cg_entities g))\<rparr>) (co_groups acc) else []))))"

fun follow_path :: "'s fact_env \<Rightarrow> clock \<Rightarrow> bool \<Rightarrow> fields list \<Rightarrow> relation_step list \<Rightarrow> grounding \<Rightarrow> ('s, grounding) fx" where
  "follow_path v now allow anchors [] g = return g"
| "follow_path v now allow anchors (p # ps) g =
     andthen (take_step v now anchors p (fst g)) (\<lambda>h.
       if fst h = [] then
         (if allow then return ([], [], [])
          else raise ((failure RelationshipNotFound)\<lparr>ff_evidence := no_evidence\<lparr>ev_relationship := Some (st_relation p)\<rparr>\<rparr>))
       else follow_path v now allow anchors ps h)"

definition resolve_entities :: "'s fact_env \<Rightarrow> semantic_reference \<Rightarrow> request_context \<Rightarrow> bool \<Rightarrow> ('s, grounding) fx" where
  "resolve_entities v r c allow = andthen (base_entities v r c) (\<lambda>es. follow_path v (cx_now c) allow es (rf_path r) (es, [], []))"

record resolved_entities =
  rv_entities :: "fields list"
  rv_ids :: "string list"
  rv_evidence :: evidence
  rv_edges :: "fields list"
  rv_groups :: "content_group list"

definition nothing_resolved :: resolved_entities where
  "nothing_resolved = \<lparr>rv_entities = [], rv_ids = [], rv_evidence = no_evidence, rv_edges = [], rv_groups = []\<rparr>"

text \<open>\<open>except _FactFailure\<close>: the failure becomes a result; an exception passes.\<close>

definition catch_failure :: "(fact_failure \<Rightarrow> 'a) \<Rightarrow> ('s, 'a) fx \<Rightarrow> ('s, 'a) fx" where
  "catch_failure h m x = (case m x of (y, Inl (Failed f)) \<Rightarrow> (y, Inr (h f)) | r \<Rightarrow> r)"

definition resolution :: "'s fact_env \<Rightarrow> semantic_reference \<Rightarrow> grounding \<Rightarrow> ('s, fact_result + resolved_entities) fx" where
  "resolution v r g x = (let ids = entity_ids (fst g) in
     (x, Inr (Inr \<lparr>rv_entities = fst g, rv_ids = ids,
       rv_evidence = no_evidence\<lparr>ev_entities := ids, ev_relationship := last_relation r, ev_relationships := ex_evidence x\<rparr>,
       rv_edges = fst (snd g), rv_groups = snd (snd g)\<rparr>)))"

definition resolve_reference ::
  "'s fact_env \<Rightarrow> semantic_reference \<Rightarrow> request_context \<Rightarrow> bool \<Rightarrow> bool \<Rightarrow> ('s, fact_result + resolved_entities) fx" where
  "resolve_reference v r c allow many = catch_failure (Inl \<circ> failed_result)
     (andthen (resolve_entities v r c allow) (\<lambda>g.
        if length (fst g) > 1 \<and> \<not> many
        then andthen (each (load_if_unnamed v) (fst g)) (\<lambda>es. return (Inl ((fact_result_of Ambiguous)\<lparr>fr_candidates := es\<rparr>)))
        else resolution v r g))"

end
