(* ===== verification/FactEngine.thy ===== *)
theory FactEngine
  imports Resolver
begin

text \<open>
  \<open>facts/engine.py\<close>: the execution of a validated request over the entities that the resolver grounds: filters of the
  collection, projection per entity, and the operation. The times that the engine measures are left out of its result.
\<close>

section \<open>Single entities and stored values\<close>

definition with_evidence :: "evidence \<Rightarrow> fact_result \<Rightarrow> fact_result" where
  "with_evidence ev r = r\<lparr>fr_evidence := ev\<rparr>"

definition found :: "pyval \<Rightarrow> evidence \<Rightarrow> fact_result" where
  "found v ev = (fact_result_of Found)\<lparr>fr_value := v, fr_evidence := ev\<rparr>"

definition singular_relationship :: "fields list \<Rightarrow> evidence \<Rightarrow> fact_result + fields" where
  "singular_relationship rs ev = (case rs of
     [] \<Rightarrow> Inl (with_evidence ev (fact_result_of RelationshipNotFound))
   | [r] \<Rightarrow> Inr r
   | _ \<Rightarrow> Inl (with_evidence ev (fact_result_of Ambiguous)))"

definition singular :: "'s fact_env \<Rightarrow> fact_request \<Rightarrow> bool \<Rightarrow> fields list \<Rightarrow> ('s, fact_result + fields) fx" where
  "singular v q full es = (case es of
     [] \<Rightarrow> return (Inl (fact_result_of (if rf_path (rq_subject q) \<noteq> [] then RelationshipNotFound else EntityNotFound)))
   | [e] \<Rightarrow> andthen (if full then load v e else load_if_unnamed v e) (\<lambda>r. return (Inr r))
   | _ \<Rightarrow> andthen (each (load_if_unnamed v) es) (\<lambda>rs. return (Inl ((fact_result_of Ambiguous)\<lparr>fr_candidates := rs\<rparr>))))"

text \<open>A request that takes a property of the relationship has a path and a property: the validation asks for both.\<close>

definition subject_relation :: "fact_request \<Rightarrow> string" where
  "subject_relation q = (case last_relation (rq_subject q) of None \<Rightarrow> [] | Some r \<Rightarrow> r)"

definition property_name :: "fact_request \<Rightarrow> string" where
  "property_name q = (case rq_property q of None \<Rightarrow> [] | Some n \<Rightarrow> n)"

definition stored_value :: "semantic_schema \<Rightarrow> string \<Rightarrow> string option \<Rightarrow> fields \<Rightarrow> pyval option" where
  "stored_value s name p d = (case p of None \<Rightarrow> None
     | Some f \<Rightarrow> if get_or_None d f = VNone \<or> \<not> value_valid s name (get_or_None d f) then None else Some (get_or_None d f))"

definition relationship_value :: "'s fact_env \<Rightarrow> fact_request \<Rightarrow> evidence \<Rightarrow> fields \<Rightarrow> fact_result + pyval" where
  "relationship_value v q ev edge =
     (case stored_value (fe_schema v) (property_name q)
         (case physical_relation (fe_schema v) (subject_relation q) of None \<Rightarrow> None
          | Some (r, _) \<Rightarrow> relation_property (fe_schema v) r (property_name q)) edge of
        None \<Rightarrow> Inl ((fact_result_of RelationPropertyUnavailable)\<lparr>fr_evidence := ev, fr_missing := [property_name q]\<rparr>)
      | Some x \<Rightarrow> Inr x)"

text \<open>\<open>str(id) if id else nothing\<close>\<close>

definition shown_id :: "'s fact_env \<Rightarrow> fields \<Rightarrow> string option" where
  "shown_id v e = (if truthy (get_or_None e ''id'') then Some (py_str (fe_str v) (get_or_None e ''id'')) else None)"

definition entity_value :: "'s fact_env \<Rightarrow> string \<Rightarrow> fields \<Rightarrow> fact_result + pyval" where
  "entity_value v name e =
     (case stored_value (fe_schema v) name (physical_property (fe_schema v) (entity_type (fe_str v) e) name) e of
        None \<Rightarrow> Inl ((fact_result_of PropertyUnavailable)\<lparr>fr_missing := [name],
          fr_evidence := no_evidence\<lparr>ev_entities := (case shown_id v e of None \<Rightarrow> [] | Some i \<Rightarrow> [i]), ev_property := Some name\<rparr>\<rparr>)
      | Some x \<Rightarrow> Inr x)"

definition result_unit :: "fact_request \<Rightarrow> string option" where
  "result_unit q = (if rq_operation q \<in> {''date_difference'', ''annual_occurrence''} then rq_mode q
     else if rq_operation q = ''unit_conversion'' then rq_to q else None)"

section \<open>Filters of the collection\<close>

definition known_or_load :: "'s fact_env \<Rightarrow> string \<Rightarrow> fields \<Rightarrow> ('s, fields) fx" where
  "known_or_load v p e = (if map_of e p \<noteq> None then return e else load v e)"

definition entity_filter_matches :: "'s fact_env \<Rightarrow> clock \<Rightarrow> semantic_filter \<Rightarrow> fields \<Rightarrow> ('s, bool) fx" where
  "entity_filter_matches v now f e =
     (case physical_property (fe_schema v) (entity_type (fe_str v) e) (filter_name f) of
        None \<Rightarrow> raise (missing FilterUnsupported [filter_name f])
      | Some p \<Rightarrow> andthen (known_or_load v p e) (\<lambda>r. let x = get_or_None r p in
          if x = VNone then raise (missing FilterInputMissing [filter_name f])
          else andthen (refused (filter_value_failure (fe_schema v) (filter_name f) x)) (\<lambda>_.
            case computed_of (fe_schema v) (sf_property f) of
              Some d \<Rightarrow> derived_date_matches x now (cf_transform d) (Some (cf_mode d)) (sf_operator f) (sf_value f) (cf_past d) [filter_name f]
            | None \<Rightarrow> (case sf_transform f of
                Some t \<Rightarrow> derived_date_matches x now t (sf_mode f) (sf_operator f) (sf_value f) True [filter_name f]
              | None \<Rightarrow> lift (evaluate_predicate (sf_operator f) x (sf_value f))))))"

text \<open>An edge condition holds when one of the edges meets it; every value is checked first.\<close>

fun any_predicate :: "string \<Rightarrow> pyval \<Rightarrow> pyval list \<Rightarrow> bool res" where
  "any_predicate name w [] = Inr False"
| "any_predicate name w (x # xs) = bind_res (evaluate_predicate name x w) (\<lambda>b. if b then Inr True else any_predicate name w xs)"

definition relation_filter_matches :: "'s fact_env \<Rightarrow> fact_request \<Rightarrow> semantic_filter \<Rightarrow> fields list \<Rightarrow> ('s, bool) fx" where
  "relation_filter_matches v q f edges =
     (case (case physical_relation (fe_schema v) (subject_relation q) of None \<Rightarrow> None
         | Some (r, _) \<Rightarrow> relation_property (fe_schema v) r (filter_name f)) of
        None \<Rightarrow> raise (missing FilterUnsupported [filter_name f])
      | Some p \<Rightarrow> (let xs = filter (\<lambda>x. x \<noteq> VNone) (map (\<lambda>edge. get_or_None edge p) edges) in
          if xs = [] then raise (missing FilterInputMissing [filter_name f])
          else andthen (each (\<lambda>x. refused (filter_value_failure (fe_schema v) (filter_name f) x)) xs) (\<lambda>_.
            lift (any_predicate (sf_operator f) (sf_value f) xs))))"

text \<open>The roles among the edges that the predicate knows decide, when they agree; else its fallback over a date does.\<close>

definition recognized_roles :: "collection_predicate \<Rightarrow> string \<Rightarrow> fields list \<Rightarrow> string list" where
  "recognized_roles d p edges = List.map_filter (\<lambda>edge. case get_or_None edge p of
     VStr r \<Rightarrow> if r \<in> set (cp_recognized d) then Some r else None | _ \<Rightarrow> None) edges"

definition role_property :: "'s fact_env \<Rightarrow> fact_request \<Rightarrow> collection_predicate \<Rightarrow> string option" where
  "role_property v q d = (case last_relation (rq_subject q) of None \<Rightarrow> None
     | Some rel \<Rightarrow> (case physical_relation (fe_schema v) rel of None \<Rightarrow> None
       | Some (r, _) \<Rightarrow> relation_property (fe_schema v) r (cp_relation_property d)))"

definition semantic_predicate_matches ::
  "'s fact_env \<Rightarrow> clock \<Rightarrow> fact_request \<Rightarrow> string \<Rightarrow> fields \<Rightarrow> fields list \<Rightarrow> ('s, bool) fx" where
  "semantic_predicate_matches v now q name e edges =
     (case map_of (ot_predicates (sc_ontology (fe_schema v))) name of
        None \<Rightarrow> raise (missing FilterUnsupported [name])
      | Some d \<Rightarrow>
          let rp = role_property v q d;
              roles = (case rp of None \<Rightarrow> [] | Some p \<Rightarrow> recognized_roles d p edges);
              checked = (case rp of None \<Rightarrow> []
                | Some p \<Rightarrow> filter (\<lambda>x. x \<noteq> VNone) (map (\<lambda>edge. get_or_None edge p) edges));
              decisions = remdups (map (\<lambda>r. r \<in> set (cp_matching d)) roles);
              fb = cp_fallback d
          in andthen (each (\<lambda>x. refused (filter_value_failure (fe_schema v) (cp_relation_property d) x)) checked) (\<lambda>_.
             if roles \<noteq> [] then
               (if length decisions \<noteq> 1 then raise (missing FilterInputMissing [name]) else return (hd decisions))
             else (case physical_property (fe_schema v) (entity_type (fe_str v) e) (fb_property fb) of
                 None \<Rightarrow> raise (missing FilterUnsupported [name])
               | Some p \<Rightarrow> andthen (known_or_load v p e) (\<lambda>r. let x = get_or_None r p in
                   if x = VNone then raise (missing FilterInputMissing [name, fb_property fb])
                   else andthen (refused (filter_value_failure (fe_schema v) (fb_property fb) x)) (\<lambda>_.
                     case map_of (ot_policy (sc_ontology (fe_schema v))) (fb_policy fb) of
                       None \<Rightarrow> throw (Raised KeyError)
                     | Some w \<Rightarrow> derived_date_matches x now (fb_transform fb) (fb_mode fb) (fb_operator fb) w (fb_past fb) [name, fb_property fb])))))"

definition filter_matches :: "'s fact_env \<Rightarrow> clock \<Rightarrow> fact_request \<Rightarrow> fields \<Rightarrow> fields list \<Rightarrow> semantic_filter \<Rightarrow> ('s, bool) fx" where
  "filter_matches v now q e edges f = (case sf_predicate f of
     Some p \<Rightarrow> semantic_predicate_matches v now q p e edges
   | None \<Rightarrow> if sf_source f = ''relation'' then relation_filter_matches v q f edges else entity_filter_matches v now f e)"

definition edges_of :: "'s fact_env \<Rightarrow> fields \<Rightarrow> fields list \<Rightarrow> fields list" where
  "edges_of v e edges = filter (\<lambda>edge. related_entity_id (fe_str v) edge = entity_id e) edges"

text \<open>One entity of the collection: kept, dropped, or a row that says why it cannot be decided.\<close>

datatype verdict = Keep fields | Drop | Undecided fact_row

definition failure_row :: "fact_request \<Rightarrow> fields \<Rightarrow> fields \<Rightarrow> fact_failure \<Rightarrow> fact_row" where
  "failure_row q e visible f = \<lparr>rw_entity = visible, rw_status = ff_status f, rw_value = VNone, rw_unit = result_unit q,
     rw_evidence = no_evidence\<lparr>ev_entities := (case entity_id e of None \<Rightarrow> [] | Some i \<Rightarrow> [i]),
       ev_relationship := last_relation (rq_subject q), ev_property := rq_property q\<rparr>,
     rw_missing = ff_missing f\<rparr>"

definition judge :: "'s fact_env \<Rightarrow> clock \<Rightarrow> fact_request \<Rightarrow> semantic_filter list \<Rightarrow> fields list \<Rightarrow> fields \<Rightarrow> ('s, verdict) fx" where
  "judge v now q fs edges e x =
     (case every (filter_matches v now q e (edges_of v e edges)) fs x of
        (y, Inl (Failed f)) \<Rightarrow>
          if rq_projection q \<noteq> ''each'' then (y, Inl (Failed f))
          else andthen (load_if_unnamed v e) (\<lambda>visible. return (Undecided (failure_row q e visible f))) y
      | (y, Inl err) \<Rightarrow> (y, Inl err)
      | (y, Inr b) \<Rightarrow> (y, Inr (if b then Keep e else Drop)))"

definition kept :: "verdict list \<Rightarrow> fields list" where
  "kept vs = List.map_filter (\<lambda>w. case w of Keep e \<Rightarrow> Some e | _ \<Rightarrow> None) vs"

definition undecided :: "verdict list \<Rightarrow> fact_row list" where
  "undecided vs = List.map_filter (\<lambda>w. case w of Undecided r \<Rightarrow> Some r | _ \<Rightarrow> None) vs"

text \<open>Relationship projections have a row per edge: all conditions on edges bind the same one.\<close>

definition edge_bound :: "fact_request \<Rightarrow> bool" where
  "edge_bound q \<longleftrightarrow> rq_projection q = ''each'' \<and> rq_source q = ''relationship''
     \<and> list_ex (\<lambda>f. sf_source f = ''relation'') (rq_filters q)"

definition select_edges :: "'s fact_env \<Rightarrow> fact_request \<Rightarrow> fields list \<Rightarrow> ('s, fields list) fx" where
  "select_edges v q edges = andthen (each (\<lambda>edge. andthen
      (every (\<lambda>f. relation_filter_matches v q f [edge]) (filter (\<lambda>f. sf_source f = ''relation'') (rq_filters q)))
      (\<lambda>b. return (if b then Some edge else None))) edges) (\<lambda>rs. return (List.map_filter (\<lambda>r. r) rs))"

definition edges_to_kept :: "'s fact_env \<Rightarrow> fields list \<Rightarrow> fields list \<Rightarrow> fields list" where
  "edges_to_kept v es edges = filter (\<lambda>edge. case related_entity_id (fe_str v) edge of None \<Rightarrow> False
     | Some i \<Rightarrow> i \<in> set (entity_ids es)) edges"

definition filter_collection ::
  "'s fact_env \<Rightarrow> clock \<Rightarrow> fact_request \<Rightarrow> fields list \<Rightarrow> fields list \<Rightarrow> ('s, fields list \<times> fields list \<times> fact_row list) fx" where
  "filter_collection v now q es edges =
     andthen (if edge_bound q then select_edges v q edges else return edges) (\<lambda>edges'.
     let es' = (if edge_bound q then filter (\<lambda>e. list_ex (\<lambda>edge. related_entity_id (fe_str v) edge = entity_id e) edges') es else es);
         fs = (if edge_bound q then filter (\<lambda>f. sf_source f \<noteq> ''relation'') (rq_filters q) else rq_filters q)
     in andthen (each (judge v now q fs edges') es') (\<lambda>vs.
        return (kept vs, edges_to_kept v (kept vs) edges', undecided vs)))"

section \<open>Operations\<close>

definition shown_ids :: "'s fact_env \<Rightarrow> fields list \<Rightarrow> string list" where
  "shown_ids v es = List.map_filter (shown_id v) es"

text \<open>\<open>list.sort\<close> by the value: stable, with an exception for values that cannot be compared.\<close>

fun insert_value :: "fields \<Rightarrow> fields list \<Rightarrow> fields list res" where
  "insert_value x [] = Inr [x]"
| "insert_value x (y # ys) = bind_res (py_less False (get_or_None y ''value'') (get_or_None x ''value'')) (\<lambda>b.
     if b then bind_res (insert_value x ys) (\<lambda>zs. Inr (y # zs)) else Inr (x # y # ys))"

fun sort_values :: "fields list \<Rightarrow> fields list res" where
  "sort_values [] = Inr []"
| "sort_values (x # xs) = bind_res (sort_values xs) (insert_value x)"

definition order_records :: "string \<Rightarrow> fields list \<Rightarrow> fields list res" where
  "order_records name rs = (if name = ''latest'' then bind_res (sort_values (rev rs)) (\<lambda>xs. Inr (rev xs))
     else if name = ''earliest'' then sort_values rs else Inr rs)"

definition record_value :: "'s fact_env \<Rightarrow> fact_request \<Rightarrow> evidence \<Rightarrow> fields \<Rightarrow> fact_result + pyval" where
  "record_value v q ev r = (if rq_source q = ''relationship'' then relationship_value v q ev r
     else case rq_property q of Some n \<Rightarrow> entity_value v n r | None \<Rightarrow> Inr (VDict r))"

fun normalized :: "'s fact_env \<Rightarrow> fact_request \<Rightarrow> evidence \<Rightarrow> fields list \<Rightarrow> fact_result + fields list" where
  "normalized v q ev [] = Inr []"
| "normalized v q ev (r # rs) = (case record_value v q ev r of
     Inl e \<Rightarrow> Inl ((fact_result_of (if fr_status e = PropertyUnavailable then ComputationInputMissing else fr_status e))
       \<lparr>fr_evidence := ev, fr_missing := fr_missing e, fr_candidates := fr_candidates e\<rparr>)
   | Inr x \<Rightarrow> (case normalized v q ev rs of Inl e \<Rightarrow> Inl e | Inr ys \<Rightarrow> Inr ([(''value'', x), (''entity'', VDict r)] # ys)))"

definition computed_value :: "fact_request \<Rightarrow> operator \<Rightarrow> clock \<Rightarrow> fields list \<Rightarrow> pyval res" where
  "computed_value q d now rs =
     (let field = (if rq_property q = None then None else Some ''value'');
          order = (if rq_operation q \<in> {''latest'', ''earliest''} then field else None);
          kind = (if field = None then ''unknown'' else infer_field_kind (map (\<lambda>r. get_or_None r ''value'') rs))
      in bind_res (validate_operator d field kind order kind (parameters q)) (\<lambda>_.
         execute_operator (rq_operation q) \<lparr>oi_records = rs, oi_field = field, oi_order = order, oi_mode = rq_mode q,
           oi_reference = Some ''household_now'', oi_from = rq_from q, oi_to = rq_to q, oi_now = Some now,
           oi_amount = opt_val VInt (rq_amount q)\<rparr>))"

definition computation_error :: "exn \<Rightarrow> bool" where
  "computation_error e \<longleftrightarrow> is_value_error e \<or> e \<in> {OperatorValidationError, OperatorExecutionError, TypeError}"

definition same_values :: "fact_result + pyval \<Rightarrow> fact_result + pyval \<Rightarrow> bool" where
  "same_values a b \<longleftrightarrow> (case (a, b) of (Inr x, Inr y) \<Rightarrow> py_eq x y | (Inl p, Inl q) \<Rightarrow> p = q | _ \<Rightarrow> False)"

text \<open>The answer of a computation: an operator that selects gives the record it took the value from.\<close>

definition computed_result :: "'s fact_env \<Rightarrow> fact_request \<Rightarrow> evidence \<Rightarrow> fields list \<Rightarrow> pyval \<Rightarrow> fact_result" where
  "computed_result v q ev records x =
     (case (case x of VDict d \<Rightarrow> (case get_or_None d ''entity'' of VDict e \<Rightarrow> Some e | _ \<Rightarrow> None) | _ \<Rightarrow> None) of
        Some selected \<Rightarrow>
          if rq_other q \<noteq> None then
            (let others = filter (\<lambda>r. \<not> py_eq (get_or_None r ''id'') (get_or_None selected ''id'')) records;
                 other = (if others = [] then hd records else hd others) in
             found (VDict [(''selected'', VDict selected), (''other'', VDict other),
               (''equal'', VBool (same_values (entity_value v (property_name q) selected) (entity_value v (property_name q) other)))]) ev)
          else (found (VDict selected) ev)\<lparr>fr_unit := result_unit q,
            fr_shape := (if rq_source q = ''entity'' \<and> truthy (get_or_None selected ''id'') then Entity else Scalar)\<rparr>
      | None \<Rightarrow> (found x ev)\<lparr>fr_unit := result_unit q,
          fr_shape := (case x of VDict d \<Rightarrow> if rq_source q = ''entity'' \<and> truthy (get_or_None d ''id'') then Entity else Scalar
            | _ \<Rightarrow> Scalar)\<rparr>)"

definition compute :: "'s fact_env \<Rightarrow> clock \<Rightarrow> fact_request \<Rightarrow> operator \<Rightarrow> evidence \<Rightarrow> fields list \<Rightarrow> ('s, fact_result) fx" where
  "compute v now q d ev records =
     (case normalized v q ev records of
        Inl r \<Rightarrow> return r
      | Inr [] \<Rightarrow> return (with_evidence ev (fact_result_of ComputationImpossible))
      | Inr rs \<Rightarrow> andthen (lift (order_records (rq_operation q) rs)) (\<lambda>rs'.
          case computed_value q d now rs' of
            Inl e \<Rightarrow> if computation_error e
              then return ((fact_result_of ComputationImpossible)\<lparr>fr_evidence := ev,
                fr_missing := (case rq_property q of None \<Rightarrow> [] | Some n \<Rightarrow> [n])\<rparr>)
              else throw (Raised e)
          | Inr x \<Rightarrow> return (computed_result v q ev records x)))"

text \<open>Kinship from the speaker to the person of a reference: the most specific declared concept, if there is one.\<close>

definition concept_filter :: "ontology_filter \<Rightarrow> semantic_filter" where
  "concept_filter f = \<lparr>sf_property = Some (of_property f), sf_predicate = None, sf_operator = of_operator f, sf_value = of_value f,
     sf_source = of_source f, sf_value_from = (if of_value_from f = Some ''anchor'' then Some ''anchor'' else None),
     sf_value_property = of_value_property f, sf_transform = None, sf_mode = None\<rparr>"

definition concept_reference :: "(string \<times> ontology_filter list) list \<Rightarrow> semantic_reference" where
  "concept_reference path = \<lparr>rf_kind = ''self'', rf_value = None, rf_type = Some ''person'',
     rf_path = map (\<lambda>(r, fs). \<lparr>st_relation = r, st_filters = map concept_filter fs\<rparr>) path, rf_offset = None,
     rf_cardinality = ''single''\<rparr>"

definition kinship :: "string list" where "kinship = [''spouse'', ''parent'', ''child'']"

definition concept_match ::
  "'s fact_env \<Rightarrow> request_context \<Rightarrow> string \<Rightarrow> string \<times> (string \<times> ontology_filter list) list
     \<Rightarrow> ('s, (nat \<times> nat \<times> string) option) fx" where
  "concept_match v c target np = (case np of (name, path) \<Rightarrow>
     if path = [] \<or> \<not> list_all (\<lambda>(r, fs). r \<in> set kinship) path \<or> \<not> valid_reference (concept_reference path) then return None
     else andthen (resolve_reference v (concept_reference path) c True True) (\<lambda>r. return (case r of
         Inl e \<Rightarrow> None
       | Inr g \<Rightarrow> if target \<in> set (rv_ids g) then Some (length path, sum_list (map (\<lambda>(r, fs). length fs) path), name) else None)))"

definition most_specific :: "(nat \<times> nat \<times> string) list \<Rightarrow> string option" where
  "most_specific ms =
     (let best = filter (\<lambda>(a, b, n). list_all (\<lambda>(a', b', n'). a' < a \<or> a' = a \<and> b' \<le> b) ms) ms in
      case best of [(a, b, n)] \<Rightarrow> Some n | _ \<Rightarrow> None)"

definition speaker_relative_concept :: "'s fact_env \<Rightarrow> fact_request \<Rightarrow> request_context \<Rightarrow> string \<Rightarrow> ('s, string option) fx" where
  "speaker_relative_concept v q c target =
     (if rq_property q \<noteq> None \<or> rf_path (rq_subject q) \<noteq> [] \<or> rq_filters q \<noteq> [] \<or> rq_other q \<noteq> None
         \<or> rf_kind (rq_subject q) \<notin> {''named_entity'', ''entity_id''}
         \<or> target = [] \<or> cx_caller c \<in> {None, Some [], Some target}
      then return None
      else andthen (each (concept_match v c target) (ot_concepts (sc_ontology (fe_schema v))))
        (\<lambda>ms. return (most_specific (List.map_filter (\<lambda>m. m) ms))))"

definition inspected :: "'s fact_env \<Rightarrow> fields \<Rightarrow> pyval" where
  "inspected v e = (let t = entity_type (fe_str v) e in
     VDict (map (\<lambda>n. (n, case physical_property (fe_schema v) t n of None \<Rightarrow> VNone | Some p \<Rightarrow> get_or_None e p))
       (sort_key (map code_pt) (semantic_properties (fe_schema v) t))))"

definition on_single :: "('s, fact_result + fields) fx \<Rightarrow> (fields \<Rightarrow> ('s, fact_result) fx) \<Rightarrow> ('s, fact_result) fx" where
  "on_single m k = andthen m (\<lambda>r. case r of Inl e \<Rightarrow> return e | Inr d \<Rightarrow> k d)"

definition value_result :: "evidence \<Rightarrow> fact_result + pyval \<Rightarrow> fact_result" where
  "value_result ev r = (case r of Inl e \<Rightarrow> e | Inr x \<Rightarrow> found x ev)"

definition both_single :: "'s fact_env \<Rightarrow> fact_request \<Rightarrow> bool \<Rightarrow> fields list \<Rightarrow> fields list
    \<Rightarrow> (fields \<Rightarrow> fields \<Rightarrow> ('s, fact_result) fx) \<Rightarrow> ('s, fact_result) fx" where
  "both_single v q full es os k = andthen (singular v q full es) (\<lambda>l. andthen (singular v q full os) (\<lambda>r.
     case l of Inl e \<Rightarrow> return e | Inr a \<Rightarrow> (case r of Inl e \<Rightarrow> return e | Inr b \<Rightarrow> k a b)))"

definition operate_with ::
  "'s fact_env \<Rightarrow> fact_request \<Rightarrow> fields list \<Rightarrow> fields list \<Rightarrow> fields list \<Rightarrow> request_context \<Rightarrow> evidence \<Rightarrow> ('s, fact_result) fx" where
  "operate_with v q es os edges c ev =
     (if rq_operation q = ''count'' then
        andthen (lift (execute_operator ''count'' (no_input\<lparr>oi_records := es\<rparr>))) (\<lambda>x. return (found x ev))
      else if rq_operation q = ''select'' \<and> rq_property q = None then
        andthen (each (load_if_unnamed v) es) (\<lambda>vs. return ((found (VList (map VDict vs)) ev)\<lparr>fr_shape := Entities\<rparr>))
      else if rq_operation q = ''inspect'' then on_single (singular v q True es) (\<lambda>e. return (found (inspected v e) ev))
      else if rq_operation q = ''resolve_reference'' then on_single (singular v q False es) (\<lambda>e.
        andthen (speaker_relative_concept v q c (case shown_id v e of None \<Rightarrow> [] | Some i \<Rightarrow> i)) (\<lambda>n.
          return ((found (VDict e) (case n of None \<Rightarrow> ev | Some m \<Rightarrow> ev\<lparr>ev_concept := Some m\<rparr>))\<lparr>fr_shape := Entity\<rparr>)))
      else if rq_operation q = ''same_entity'' then both_single v q False es os (\<lambda>a b. return
        (case (entity_id a, entity_id b) of
           (Some i, Some j) \<Rightarrow> found (VBool (i = j)) ev
         | _ \<Rightarrow> with_evidence ev (fact_result_of ComputationImpossible)))
      else if rq_operation q = ''select'' then
        (if rq_source q = ''relationship'' then
           on_single (return (singular_relationship edges ev)) (\<lambda>edge. return (value_result ev (relationship_value v q ev edge)))
         else on_single (singular v q True es) (\<lambda>e. return (value_result ev (entity_value v (property_name q) e))))
      else (case map_of fact_operators (rq_operation q) of
          None \<Rightarrow> throw (Raised KeyError)
        | Some d \<Rightarrow>
            if rq_other q \<noteq> None then both_single v q True es os (\<lambda>a b. compute v (cx_now c) q d ev [a, b])
            else if od_shape d = ''scalar'' then
              on_single (if rq_source q = ''relationship'' then return (singular_relationship edges ev) else singular v q True es)
                (\<lambda>r. compute v (cx_now c) q d ev [r])
            else if rq_source q = ''relationship'' then compute v (cx_now c) q d ev edges
            else andthen (each (load v) es) (compute v (cx_now c) q d ev)))"

definition operate ::
  "'s fact_env \<Rightarrow> fact_request \<Rightarrow> fields list \<Rightarrow> fields list \<Rightarrow> fields list \<Rightarrow> request_context \<Rightarrow> ('s, fact_result) fx" where
  "operate v q es os edges c x = operate_with v q es os edges c
     (no_evidence\<lparr>ev_entities := shown_ids v (es @ os), ev_relationship := last_relation (rq_subject q),
       ev_property := rq_property q, ev_relationships := ex_evidence x\<rparr>) x"

section \<open>Projection\<close>

definition scalar_request :: "fact_request \<Rightarrow> fact_request" where
  "scalar_request q = q\<lparr>rq_projection := ''scalar'', rq_exclude := []\<rparr>"

text \<open>A row has an execution of its own, which shares the loaded records and knows only the edges of the row.\<close>

definition row_execution :: "'s execution \<Rightarrow> 's execution" where
  "row_execution x = x\<lparr>ex_queries := 0, ex_evidence := []\<rparr>"

definition after_row :: "'s execution \<Rightarrow> 's execution \<Rightarrow> 's execution" where
  "after_row x y = y\<lparr>ex_queries := ex_queries x + ex_queries y, ex_evidence := ex_evidence x\<rparr>"

definition row_value :: "'s fact_env \<Rightarrow> fact_request \<Rightarrow> request_context \<Rightarrow> fields \<Rightarrow> fields list \<Rightarrow> ('s, fields \<times> fact_result) fx" where
  "row_value v q c e grp = catch_failure (\<lambda>f. (e, (fact_result_of (ff_status f))\<lparr>fr_missing := ff_missing f\<rparr>))
     (andthen (load_if_unnamed v e) (\<lambda>visible. andthen (operate v (scalar_request q) [e] [] grp c) (\<lambda>r. return (visible, r))))"

definition row_evidence :: "'s fact_env \<Rightarrow> fact_request \<Rightarrow> string \<Rightarrow> relationship_evidence list \<Rightarrow> evidence" where
  "row_evidence v q i es = no_evidence\<lparr>ev_entities := [i], ev_relationship := last_relation (rq_subject q),
     ev_property := rq_property q, ev_relationships := es\<rparr>"

definition project_row :: "'s fact_env \<Rightarrow> fact_request \<Rightarrow> request_context \<Rightarrow> fields \<Rightarrow> fields list \<Rightarrow> ('s, fact_row) fx" where
  "project_row v q c e grp x =
     (case each (remember_relationship v (subject_relation q)) grp (row_execution x) of
        (y, Inl err) \<Rightarrow> (after_row x y, Inl err)
      | (y, Inr _) \<Rightarrow> (case map_of e ''id'' of
          None \<Rightarrow> (after_row x y, Inl (Raised KeyError))
        | Some w \<Rightarrow> (case row_value v q c e grp y of
            (z, Inl err) \<Rightarrow> (after_row x z, Inl err)
          | (z, Inr (visible, r)) \<Rightarrow> (after_row x z, Inr \<lparr>rw_entity = visible, rw_status = fr_status r, rw_value = fr_value r,
              rw_unit = result_unit q, rw_evidence = row_evidence v q (py_str (fe_str v) w) (ex_evidence y),
              rw_missing = fr_missing r\<rparr>))))"

definition row_groups :: "'s fact_env \<Rightarrow> fact_request \<Rightarrow> fields list \<Rightarrow> fields \<Rightarrow> fields list list" where
  "row_groups v q edges e = (let es = edges_of v e edges in
     if rq_source q = ''relationship'' then (if es = [] then [[]] else map (\<lambda>edge. [edge]) es) else [es])"

definition project_each ::
  "'s fact_env \<Rightarrow> fact_request \<Rightarrow> fields list \<Rightarrow> fields list \<Rightarrow> request_context \<Rightarrow> fact_row list \<Rightarrow> ('s, fact_result) fx" where
  "project_each v q es edges c initial = andthen
     (each (\<lambda>(e, grp). project_row v q c e grp) (concat (map (\<lambda>e. map (\<lambda>g. (e, g)) (row_groups v q edges e)) es)))
     (\<lambda>rows. return ((fact_result_of Found)\<lparr>fr_shape := Rows, fr_rows := initial @ rows\<rparr>))"

section \<open>The engine\<close>

definition new_engine :: "(string \<Rightarrow> fields \<Rightarrow> 's \<Rightarrow> 's \<times> pyval res) \<Rightarrow> semantic_schema \<Rightarrow> (pyval \<Rightarrow> string) \<Rightarrow> int \<Rightarrow> nat
    \<Rightarrow> 's fact_env res" where
  "new_engine call s sh maximum steps = (if \<not> (1 \<le> maximum \<and> maximum < 100) then Inl ValueError
     else Inr \<lparr>fe_call = call, fe_schema = s, fe_str = sh, fe_max = nat maximum, fe_steps = steps\<rparr>)"

definition allow_empty :: "fact_request \<Rightarrow> bool" where
  "allow_empty q \<longleftrightarrow> rq_operation q \<in> {''count'', ''select''} \<or> rq_projection q = ''each''"

definition expect_many :: "fact_request \<Rightarrow> bool" where
  "expect_many q \<longleftrightarrow> rq_other q = None
     \<and> (rq_projection q = ''each'' \<or> map_option od_shape (map_of fact_operators (rq_operation q)) = Some ''collection''
        \<or> rq_operation q = ''select'' \<and> rq_property q = None \<or> rq_filters q \<noteq> [])"

text \<open>Subject, other and exclusions are all grounded; the first that failed is the answer.\<close>

definition ground ::
  "'s fact_env \<Rightarrow> fact_request \<Rightarrow> request_context \<Rightarrow> ('s, fact_result + resolved_entities \<times> resolved_entities \<times> resolved_entities list) fx" where
  "ground v q c =
     andthen (resolve_reference v (rq_subject q) c (allow_empty q) (expect_many q)) (\<lambda>a.
     andthen (case rq_other q of None \<Rightarrow> return (Inr nothing_resolved) | Some r \<Rightarrow> resolve_reference v r c False False) (\<lambda>b.
     andthen (each (\<lambda>r. resolve_reference v r c False (rf_cardinality r = ''collection'')) (rq_exclude q)) (\<lambda>xs.
       return (case a of Inl e \<Rightarrow> Inl e
         | Inr r \<Rightarrow> (case b of Inl e \<Rightarrow> Inl e
           | Inr o' \<Rightarrow> (case map_res (\<lambda>y. y) xs of Inl e \<Rightarrow> Inl e | Inr rs \<Rightarrow> Inr (r, o', rs)))))))"

definition not_excluded :: "string list \<Rightarrow> string option \<Rightarrow> bool" where
  "not_excluded ids i \<longleftrightarrow> (case i of None \<Rightarrow> True | Some j \<Rightarrow> j \<notin> set ids)"

text \<open>The answer, with the entities that the filters left.\<close>

definition answer ::
  "'s fact_env \<Rightarrow> fact_request \<Rightarrow> request_context \<Rightarrow> fields list \<Rightarrow> fields list \<Rightarrow> fields list \<Rightarrow> ('s, fields list \<times> fact_result) fx" where
  "answer v q c es os edges =
     andthen (if rq_filters q = [] then return (es, edges, []) else filter_collection v (cx_now c) q es edges) (\<lambda>(es', edges', rows).
     andthen (if rq_projection q = ''each'' then project_each v q es' edges' c rows else operate v q es' os edges' c)
       (\<lambda>r. return (es', r)))"

fun by_id :: "fields list \<Rightarrow> (string \<times> fields) list res" where
  "by_id [] = Inr []"
| "by_id (e # es) = (case map_of e ''id'' of None \<Rightarrow> Inl KeyError
     | Some w \<Rightarrow> bind_res (by_id es) (\<lambda>d. Inr (case w of VStr i \<Rightarrow> if map_of d i = None then (i, e) # d else d | _ \<Rightarrow> d)))"

definition visible_groups :: "content_group list \<Rightarrow> fields list \<Rightarrow> content_group list res" where
  "visible_groups gs es = bind_res (by_id es) (\<lambda>d.
     let seen = (\<lambda>g. List.map_filter (\<lambda>e. case entity_id e of None \<Rightarrow> None | Some i \<Rightarrow> map_of d i) (cg_entities g)) in
     Inr (map (\<lambda>g. g\<lparr>cg_entities := seen g\<rparr>) (filter (\<lambda>g. seen g \<noteq> []) gs)))"

definition focus_anchor :: "fact_request \<Rightarrow> string list \<Rightarrow> relationship_evidence list \<Rightarrow> string option" where
  "focus_anchor q final evs =
     (if rf_kind (rq_subject q) = ''named_entity'' \<and> rf_path (rq_subject q) \<noteq> [] \<and> rf_type (rq_subject q) \<notin> Some ` set final
      then find (\<lambda>i. Some (before_colon i) = rf_type (rq_subject q))
        (concat (map (\<lambda>e. List.map_filter (\<lambda>x. x) [re_source e, re_target e]) evs))
      else None)"

definition focus_of :: "'s fact_env \<Rightarrow> fact_request \<Rightarrow> fields list \<Rightarrow> fields list \<Rightarrow> relationship_evidence list \<Rightarrow> fact_result \<Rightarrow> string list" where
  "focus_of v q es os evs r =
     (let own = (case fr_value r of
            VDict d \<Rightarrow> if rq_other q = None \<and> rq_source q = ''entity'' then shown_id v d else None | _ \<Rightarrow> None);
          base = (case own of None \<Rightarrow> shown_ids v (es @ os) | Some i \<Rightarrow> [i])
      in rev (remdups (rev ((case focus_anchor q (map (entity_type (fe_str v)) es) evs of None \<Rightarrow> base | Some a \<Rightarrow> a # base)))))"

definition entity_list :: "pyval \<Rightarrow> fields list" where
  "entity_list v = (case v of VList vs \<Rightarrow> mappings vs | _ \<Rightarrow> [])"

definition finish ::
  "'s fact_env \<Rightarrow> fact_request \<Rightarrow> resolved_entities \<Rightarrow> fields list \<Rightarrow> fields list \<Rightarrow> fact_result \<Rightarrow> ('s, fact_result) fx" where
  "finish v q g es os r =
     (if fr_status r \<noteq> Found then return r
      else andthen (if fr_shape r = Entities \<and> rv_groups g \<noteq> [] then lift (visible_groups (rv_groups g) (entity_list (fr_value r)))
          else return (fr_groups r)) (\<lambda>gs.
        return (r\<lparr>fr_groups := gs, fr_focus := focus_of v q es os (ev_relationships (rv_evidence g)) r\<rparr>)))"

definition execute_grounded ::
  "'s fact_env \<Rightarrow> fact_request \<Rightarrow> request_context \<Rightarrow> resolved_entities \<Rightarrow> resolved_entities \<Rightarrow> resolved_entities list \<Rightarrow> ('s, fact_result) fx" where
  "execute_grounded v q c g o' xs =
     (let ids = concat (map rv_ids xs);
          es = filter (\<lambda>e. not_excluded ids (entity_id e)) (rv_entities g);
          edges = filter (\<lambda>edge. not_excluded ids (related_entity_id (fe_str v) edge)) (rv_edges g)
      in andthen (catch_failure (\<lambda>f. (es, failed_result f)) (answer v q c es (rv_entities o') edges)) (\<lambda>(es', r).
           finish v q g es' (rv_entities o') r))"

definition execute :: "'s fact_env \<Rightarrow> fact_request \<Rightarrow> request_context \<Rightarrow> 's \<Rightarrow> 's \<times> (fact_error + fact_result \<times> nat)" where
  "execute v q c s =
     (if \<not> validates (fe_schema v) q then (s, Inr (fact_result_of SemanticPlanUnsupported, 0))
      else case andthen (ground v q c) (\<lambda>m. case m of
               Inl e \<Rightarrow> return e
             | Inr (g, o', xs) \<Rightarrow> execute_grounded v q c g o' xs) (new_execution s) of
        (x, Inl e) \<Rightarrow> (ex_state x, Inl e)
      | (x, Inr r) \<Rightarrow> (ex_state x, Inr (r, ex_queries x)))"

end
