(* ===== verification/GraphReads.thy ===== *)
theory GraphReads
  imports FactEngine
begin

text \<open>
  What the resolver finds out about the graph. A step over a store that its queries do not change either gives the
  value that the stored edges determine, or fails because a query failed or a collection was not complete; the
  relation \<open>yields\<close> says so and is closed under the combinators of the resolver. The locale \<open>graph_reads\<close> states
  what the resolver relies on: an answer shorter than the limit holds every edge.
\<close>

section \<open>Determined steps\<close>

definition unfinished :: "fact_error \<Rightarrow> bool" where
  "unfinished e \<longleftrightarrow> e = Failed (failure ComputationImpossible) \<or> (\<exists>rel. e = Failed (missing CollectionIncomplete [rel]))"

definition yields :: "'s \<Rightarrow> ('s, 'a) fx \<Rightarrow> fact_error + 'a \<Rightarrow> bool" where
  "yields s m r \<longleftrightarrow> (\<forall>x. ex_state x = s \<longrightarrow> ex_state (fst (m x)) = s
     \<and> (snd (m x) = r \<or> (\<exists>e. snd (m x) = Inl e \<and> unfinished e)))"

named_theorems determined

lemma yieldsD:
  assumes "yields s m r" and "ex_state x = s"
  obtains y where "m x = (y, r)" "ex_state y = s"
  | y e where "m x = (y, Inl e)" "ex_state y = s" "unfinished e"
proof -
  obtain y q where m: "m x = (y, q)" by (cases "m x")
  with assms have "ex_state y = s" "q = r \<or> (\<exists>e. q = Inl e \<and> unfinished e)"
    unfolding yields_def by (metis fst_conv snd_conv)+
  with m show ?thesis using that by blast
qed

lemma yields_return [determined]: "yields s (return a) (Inr a)"
  by (simp add: yields_def return_def)

lemma yields_raise [determined]: "yields s (raise f) (Inl (Failed f))"
  by (simp add: yields_def raise_def)

lemma yields_throw [determined]: "yields s (throw e) (Inl e)"
  by (simp add: yields_def throw_def)

lemma yields_andthen:
  assumes m: "yields s m (Inr a)" and k: "yields s (k a) r"
  shows "yields s (andthen m k) r"
  unfolding yields_def
proof (intro allI impI)
  fix x :: "'a execution" assume x: "ex_state x = s"
  show "ex_state (fst (andthen m k x)) = s
      \<and> (snd (andthen m k x) = r \<or> (\<exists>e. snd (andthen m k x) = Inl e \<and> unfinished e))"
  proof (cases rule: yieldsD[OF m x])
    case (1 y)
    then have "andthen m k x = k a y" by (simp add: andthen_def)
    moreover have "ex_state (fst (k a y)) = s \<and> (snd (k a y) = r \<or> (\<exists>e. snd (k a y) = Inl e \<and> unfinished e))"
      using k 1(2) by (simp add: yields_def)
    ultimately show ?thesis by simp
  next
    case (2 y e)
    then show ?thesis by (simp add: andthen_def)
  qed
qed

lemma yields_any:
  "(\<And>a. a \<in> set as \<Longrightarrow> yields s (f a) (Inr (b a))) \<Longrightarrow> yields s (any f as) (Inr (list_ex b as))"
proof (induction as)
  case (Cons a as)
  then have "yields s (f a) (Inr (b a))" "yields s (any f as) (Inr (list_ex b as))" by simp_all
  then show ?case
    by (cases "b a") (auto intro!: yields_andthen[of s "f a" "b a"] yields_return)
qed (simp add: yields_return)

lemma yields_each:
  "(\<And>a. a \<in> set as \<Longrightarrow> yields s (f a) (Inr (g a))) \<Longrightarrow> yields s (each f as) (Inr (map g as))"
proof (induction as)
  case (Cons a as)
  then have "yields s (f a) (Inr (g a))" "yields s (each f as) (Inr (map g as))" by simp_all
  then show ?case by (auto intro!: yields_andthen[OF _ yields_andthen] yields_return)
qed (simp add: yields_return)

lemma yields_loop:
  "(\<And>a b. a \<in> set as \<Longrightarrow> yields s (f a b) (Inr (g a b))) \<Longrightarrow> yields s (loop f as b) (Inr (fold g as b))"
proof (induction as arbitrary: b)
  case (Cons a as)
  then have "yields s (f a b) (Inr (g a b))" "yields s (loop f as (g a b)) (Inr (fold g as (g a b)))" by simp_all
  then show ?case by (auto intro!: yields_andthen)
qed (simp add: yields_return)

lemma yields_remember [determined]: "yields s (remember_relationship v rel e) (Inr ())"
  by (simp add: yields_def remember_relationship_def Let_def)

section \<open>The interface\<close>

text \<open>The arguments of a query for the current edges of an entity.\<close>

definition edge_argument_names :: "string list" where
  "edge_argument_names = [''entity_id'', ''relation'', ''direction'', ''include_ended'', ''limit'']"

definition asks_edges :: "fields \<Rightarrow> string \<Rightarrow> string \<Rightarrow> string option \<Rightarrow> nat \<Rightarrow> bool" where
  "asks_edges args i rel dir n \<longleftrightarrow> set (map fst args) \<subseteq> set edge_argument_names
     \<and> map_of args ''entity_id'' = Some (VStr i) \<and> map_of args ''relation'' = Some (VStr rel)
     \<and> map_of args ''direction'' = map_option VStr dir \<and> map_of args ''include_ended'' = Some (VBool False)
     \<and> map_of args ''limit'' = Some (VInt (int n))"

definition holds_all :: "fields list \<Rightarrow> nat \<Rightarrow> fields list \<Rightarrow> bool" where
  "holds_all es n all \<longleftrightarrow> length es = min n (length all) \<and> (length es < n \<longrightarrow> es = all)"

text \<open>The relation tables that lead from an entity to what contains it, and the entities found there.\<close>

definition related_ids :: "fields list \<Rightarrow> string list" where
  "related_ids es = List.map_filter (\<lambda>e. case get_or_None e ''related_entity'' of VDict d \<Rightarrow> entity_id d | _ \<Rightarrow> None) es"

definition parents :: "(string \<Rightarrow> string \<Rightarrow> string option \<Rightarrow> fields list) \<Rightarrow> registry \<Rightarrow> string \<Rightarrow> string list" where
  "parents all g i = concat (map (\<lambda>rel. related_ids (all i rel (Some ''out''))) (scope_parent_relations g (before_colon i)))"

text \<open>A chain of at most \<open>n\<close> such edges leads to the household.\<close>

fun chain_within :: "(string \<Rightarrow> string list) \<Rightarrow> nat \<Rightarrow> string \<Rightarrow> string \<Rightarrow> bool" where
  "chain_within up 0 i home = (i = home)"
| "chain_within up (Suc n) i home = (i = home \<or> list_ex (\<lambda>p. chain_within up n p home) (up i))"

text \<open>The same, without passing an entity twice.\<close>

fun simple_chain :: "(string \<Rightarrow> string list) \<Rightarrow> nat \<Rightarrow> string \<Rightarrow> string \<Rightarrow> string list \<Rightarrow> bool" where
  "simple_chain up 0 i home seen = (i = home)"
| "simple_chain up (Suc n) i home seen =
     (i = home \<or> i \<notin> set seen \<and> list_ex (\<lambda>p. simple_chain up n p home (i # seen)) (up i))"

lemma simple_chain_within: "simple_chain up n i home seen \<Longrightarrow> chain_within up n i home"
  by (induction n arbitrary: i seen) (auto simp: list_ex_iff)

lemma chain_within_Suc: "chain_within up n i home \<Longrightarrow> chain_within up (Suc n) i home"
proof (induction n arbitrary: i)
  case (Suc n)
  then show ?case
    by (simp only: chain_within.simps(2)[of up "Suc n"] chain_within.simps(2)[of up n]) (auto simp: list_ex_iff)
qed simp

lemma simple_chain_Suc: "simple_chain up n i home seen \<Longrightarrow> simple_chain up (Suc n) i home seen"
proof (induction n arbitrary: i seen)
  case (Suc n)
  from Suc.prems consider "i = home"
    | p where "i \<notin> set seen" "p \<in> set (up i)" "simple_chain up n p home (i # seen)"
    by (auto simp: list_ex_iff)
  then show ?case
  proof cases
    case 2
    with Suc.IH have "simple_chain up (Suc n) p home (i # seen)" by blast
    with 2 show ?thesis by (subst simple_chain.simps) (auto simp: list_ex_iff simp del: simple_chain.simps)
  qed simp
qed simp

text \<open>A shortest chain passes no entity twice.\<close>

lemma within_simple_chain:
  "chain_within up n i home \<Longrightarrow> \<forall>w \<in> set seen. \<not> chain_within up n w home \<Longrightarrow> simple_chain up n i home seen"
proof (induction n arbitrary: i seen)
  case (Suc n)
  have away: "\<forall>w \<in> set seen. \<not> chain_within up n w home" using Suc.prems(2) chain_within_Suc by blast
  show ?case
  proof (cases "chain_within up n i home")
    case True
    then show ?thesis using Suc.IH away simple_chain_Suc by blast
  next
    case False
    have i: "i \<notin> set seen" using Suc.prems by blast
    from Suc.prems(1) consider "i = home" | p where "p \<in> set (up i)" "chain_within up n p home"
      by (auto simp: list_ex_iff)
    then show ?thesis
    proof cases
      case 2
      have "simple_chain up n p home (i # seen)" using Suc.IH[OF 2(2)] False away by simp
      then show ?thesis using i 2(1) by (auto simp: list_ex_iff)
    qed simp
  qed
qed simp

lemma simple_chain_iff: "simple_chain up n i home [] \<longleftrightarrow> chain_within up n i home"
  using simple_chain_within within_simple_chain by fastforce


text \<open>A record whose kind of entity is found in something must lie in the household; others need not.\<close>

definition admitted :: "(string \<Rightarrow> string \<Rightarrow> string option \<Rightarrow> fields list) \<Rightarrow> 's fact_env \<Rightarrow> string \<Rightarrow> fields \<Rightarrow> bool" where
  "admitted all v home d \<longleftrightarrow> scope_parent_relations (sc_edges (fe_schema v)) (entity_type (fe_str v) d) = []
     \<or> (case entity_id d of None \<Rightarrow> False | Some i \<Rightarrow> chain_within (parents all (sc_edges (fe_schema v))) 12 i home)"

locale graph_reads =
  fixes v :: "'s fact_env" and all :: "'s \<Rightarrow> string \<Rightarrow> string \<Rightarrow> string option \<Rightarrow> fields list"
  assumes edges_answered: "asks_edges args i rel dir n \<Longrightarrow> 1 \<le> n \<Longrightarrow> n \<le> 100 \<Longrightarrow>
      fe_call v ''get_relationships'' args s = (s', r) \<Longrightarrow>
      s' = s \<and> (case response_records r of None \<Rightarrow> True | Some es \<Rightarrow> holds_all es n (all s i rel dir))"
    and maximum: "1 \<le> fe_max v" "fe_max v < 100"
begin

lemma complete_edges_yields:
  assumes "asks_edges args i rel dir (fe_max v + 1)" and "length (all s i rel dir) \<le> fe_max v \<Longrightarrow> es' = all s i rel dir"
  shows "yields s (complete_edges v rel args) (Inr es')"
  unfolding yields_def
proof (intro allI impI)
  fix x :: "'s execution" assume x: "ex_state x = s"
  obtain s' r where c: "fe_call v ''get_relationships'' args s = (s', r)" by fastforce
  have law: "s' = s \<and> (case response_records r of None \<Rightarrow> True | Some es \<Rightarrow> holds_all es (fe_max v + 1) (all s i rel dir))"
    using edges_answered[OF assms(1) _ _ c] maximum by simp
  have q: "fx_records v ''get_relationships'' args x = query v ''get_relationships'' args x"
    by (simp add: fx_records_def)
  show "ex_state (fst (complete_edges v rel args x)) = s
      \<and> (snd (complete_edges v rel args x) = Inr es'
        \<or> (\<exists>e. snd (complete_edges v rel args x) = Inl e \<and> unfinished e))"
  proof (cases "response_records r")
    case None
    then show ?thesis using law
      by (simp add: complete_edges_def andthen_def q query_def x c unfinished_def)
  next
    case (Some es)
    then have h: "holds_all es (fe_max v + 1) (all s i rel dir)" using law by simp
    show ?thesis
    proof (cases "length es > fe_max v")
      case True
      then show ?thesis using law Some
        by (auto simp: complete_edges_def andthen_def q query_def x c unfinished_def raise_def)
    next
      case False
      then have "es = all s i rel dir" using h by (simp add: holds_all_def)
      moreover from this have "es' = all s i rel dir" using assms(2) False by simp
      ultimately show ?thesis using law Some False
        by (simp add: complete_edges_def andthen_def q query_def x c return_def)
    qed
  qed
qed

lemma parent_edges_yields [determined]:
  "yields s (parent_edges v i rel) (Inr (all s i rel (Some ''out'')))"
  unfolding parent_edges_def
  by (rule complete_edges_yields[where i=i and dir="Some ''out''"]) (simp_all add: asks_edges_def edge_argument_names_def edge_limit_def)

lemma relation_edges_yields:
  assumes "length (all s i rel dir) \<le> fe_max v \<Longrightarrow> es = all s i rel dir"
  shows "yields s (relation_edges v i rel dir) (Inr es)"
  unfolding relation_edges_def using assms
  by (intro complete_edges_yields[where i=i and dir=dir]) (auto simp: asks_edges_def edge_argument_names_def edge_limit_def split: option.split)

lemma related_any:
  assumes "\<And>p. p \<in> set (related_ids es) \<Longrightarrow> yields s (f p) (Inr (b p))"
  shows "yields s (any (\<lambda>edge. case get_or_None edge ''related_entity'' of
      VDict d \<Rightarrow> (case entity_id d of None \<Rightarrow> return False | Some p \<Rightarrow> f p) | _ \<Rightarrow> return False) es)
    (Inr (list_ex b (related_ids es)))"
  using assms
proof (induction es)
  case (Cons e es)
  define here where "here = (case get_or_None e ''related_entity'' of VDict d \<Rightarrow> entity_id d | _ \<Rightarrow> None)"
  have ids: "related_ids (e # es) = (case here of None \<Rightarrow> related_ids es | Some p \<Rightarrow> p # related_ids es)"
    by (simp add: related_ids_def here_def List.map_filter_simps split: option.split)
  have rest: "yields s (any (\<lambda>edge. case get_or_None edge ''related_entity'' of
      VDict d \<Rightarrow> (case entity_id d of None \<Rightarrow> return False | Some p \<Rightarrow> f p) | _ \<Rightarrow> return False) es)
    (Inr (list_ex b (related_ids es)))"
    by (rule Cons.IH) (rule Cons.prems, simp add: ids split: option.split)
  have this_one: "yields s (case get_or_None e ''related_entity'' of
      VDict d \<Rightarrow> (case entity_id d of None \<Rightarrow> return False | Some p \<Rightarrow> f p) | _ \<Rightarrow> return False)
    (Inr (case here of None \<Rightarrow> False | Some p \<Rightarrow> b p))"
  proof (cases here)
    case None
    then show ?thesis by (auto simp: here_def yields_return split: pyval.splits option.splits)
  next
    case (Some p)
    then show ?thesis using Cons.prems[of p] by (auto simp: here_def ids split: pyval.splits option.splits)
  qed
  show ?case
    unfolding any.simps
  proof (rule yields_andthen[OF this_one])
    show "yields s (if case here of None \<Rightarrow> False | Some p \<Rightarrow> b p then return True
        else any (\<lambda>edge. case get_or_None edge ''related_entity'' of
          VDict d \<Rightarrow> (case entity_id d of None \<Rightarrow> return False | Some p \<Rightarrow> f p) | _ \<Rightarrow> return False) es)
      (Inr (list_ex b (related_ids (e # es))))"
      using rest by (auto simp: ids yields_return split: option.split)
  qed
qed (simp add: related_ids_def List.map_filter_simps yields_return)

lemma belongs_simple: "yields s (belongs_to_household n v i home seen) (Inr (simple_chain (parents (all s) (sc_edges (fe_schema v))) n i home seen))"
proof (induction n arbitrary: i seen)
  case (Suc n)
  let ?rels = "scope_parent_relations (sc_edges (fe_schema v)) (before_colon i)"
  let ?edges = "\<lambda>rel. related_ids (all s i rel (Some ''out''))"
  have "yields s (any (\<lambda>rel. andthen (parent_edges v i rel) (\<lambda>edges.
           any (\<lambda>edge. case get_or_None edge ''related_entity'' of
               VDict d \<Rightarrow> (case entity_id d of None \<Rightarrow> return False | Some p \<Rightarrow> belongs_to_household n v p home (i # seen))
             | _ \<Rightarrow> return False) edges)) ?rels)
      (Inr (list_ex (\<lambda>rel. list_ex (\<lambda>p. simple_chain (parents (all s) (sc_edges (fe_schema v))) n p home (i # seen)) (?edges rel)) ?rels))"
    by (intro yields_any yields_andthen[OF parent_edges_yields] related_any Suc.IH)
  moreover have "list_ex (\<lambda>rel. list_ex (\<lambda>p. simple_chain (parents (all s) (sc_edges (fe_schema v))) n p home (i # seen)) (?edges rel)) ?rels
      = list_ex (\<lambda>p. simple_chain (parents (all s) (sc_edges (fe_schema v))) n p home (i # seen)) (parents (all s) (sc_edges (fe_schema v)) i)"
    by (simp add: parents_def list_ex_iff)
  ultimately show ?case by (simp add: yields_return)
qed (simp add: yields_return)

lemma belongs_exact: "yields s (belongs_to_household n v i home []) (Inr (chain_within (parents (all s) (sc_edges (fe_schema v))) n i home))"
  using belongs_simple[of s n i home "[]"] by (simp add: simple_chain_iff)

lemma scope_exact:
  "yields s (scope_named_records v rs (Some home)) (Inr (filter (admitted (all s) v home) rs))"
proof -
  have one: "yields s (in_scope v home r) (Inr (admitted (all s) v home r))" for r
    using belongs_exact by (auto simp: in_scope_def admitted_def scope_depth_def yields_return split: option.split)
  have fold: "fold (\<lambda>r acc. if admitted (all s) v home r then acc @ [r] else acc) rs acc = acc @ filter (admitted (all s) v home) rs" for acc
    by (induction rs arbitrary: acc) auto
  have "yields s (scope_named_records v rs (Some home)) (Inr (fold (\<lambda>r acc. if admitted (all s) v home r then acc @ [r] else acc) rs []))"
    unfolding scope_named_records_def option.case
    by (intro yields_loop yields_andthen[OF one]) (simp add: yields_return)
  then show ?thesis by (simp add: fold)
qed

end

end
