(* ===== verification/HostedSpaces.thy ===== *)
theory HostedSpaces
  imports GraphReads
begin

text \<open>
  The walk over hosted spaces is a depth-first search with an explicit stack. It ends, it collects exactly the spaces
  below the one it starts from, and it refuses exactly when one of them is hosted within itself.
\<close>

section \<open>The walk without its effects\<close>

definition space_id :: "fields \<Rightarrow> string" where
  "space_id e = (case entity_id e of None \<Rightarrow> [] | Some i \<Rightarrow> i)"

definition cycle_failure :: fact_error where
  "cycle_failure = Failed (missing ComputationImpossible [''hosting_cycle''])"

fun walk :: "(string \<Rightarrow> fields list) \<Rightarrow> nat \<Rightarrow> (fields \<times> bool) list \<Rightarrow> string list \<Rightarrow> string list \<Rightarrow> fields list
    \<Rightarrow> fact_error + fields list" where
  "walk kids n [] visited active ds = Inr ds"
| "walk kids 0 (t # stack) visited active ds = Inl Exhausted"
| "walk kids (Suc n) ((e, leaving) # stack) visited active ds =
     (let i = space_id e in
      if leaving then walk kids n stack visited (removeAll i active) ds
      else if i \<in> set active then Inl cycle_failure
      else if i \<in> set visited then walk kids n stack visited active ds
      else walk kids n (rev (map (\<lambda>k. (k, False)) (kids i)) @ (e, True) # stack) (i # visited) (i # active) (ds @ kids i))"

text \<open>The relation of hosting, on identifiers.\<close>

definition hosts :: "(string \<Rightarrow> fields list) \<Rightarrow> (string \<times> string) set" where
  "hosts kids = {(i, j). j \<in> space_id ` set (kids i)}"

lemma hosts_iff: "(i, j) \<in> hosts kids \<longleftrightarrow> j \<in> space_id ` set (kids i)"
  by (simp add: hosts_def)

section \<open>Termination\<close>

lemma walk_ends:
  assumes "finite U" and "\<And>i. space_id ` set (kids i) \<subseteq> U" and "\<And>i. length (kids i) \<le> m"
    and "(space_id \<circ> fst) ` set stack \<subseteq> U"
    and "length stack + card (U - set visited) * Suc m \<le> n"
  shows "walk kids n stack visited active ds \<noteq> Inl Exhausted"
  using assms
proof (induction kids n stack visited active ds rule: walk.induct)
  case (3 kids n e leaving stack visited active ds)
  define i where "i = space_id e"
  have i: "i \<in> U" and rest: "(space_id \<circ> fst) ` set stack \<subseteq> U" using "3.prems"(4) by (simp_all add: i_def)
  show ?case
  proof (cases "leaving \<or> i \<in> set active \<or> i \<in> set visited")
    case True
    have less: "length stack + card (U - set visited) * Suc m \<le> n" using "3.prems"(5) by simp
    consider "leaving" | "\<not> leaving" "i \<in> set active" | "\<not> leaving" "i \<notin> set active" "i \<in> set visited"
      using True by blast
    then show ?thesis
    proof cases
      case 1
      then show ?thesis using "3.IH"(1)[OF i_def 1 "3.prems"(1-3) rest less] by (simp add: i_def)
    next
      case 2
      then show ?thesis by (simp add: i_def cycle_failure_def)
    next
      case 3
      then show ?thesis using "3.IH"(2)[OF i_def 3 "3.prems"(1-3) rest less] by (simp add: i_def)
    qed
  next
    case False
    have split: "U - set visited = insert i (U - set (i # visited))" using False i by auto
    have "card (insert i (U - set (i # visited))) = Suc (card (U - set (i # visited)))"
      using "3.prems"(1) by (intro card_insert_disjoint) simp_all
    then have "card (U - set visited) = Suc (card (U - set (i # visited)))" by (simp only: split)
    define c where "c = card (U - set (i # visited)) * Suc m"
    have "Suc (length stack) + (c + Suc m) \<le> Suc n"
      using "3.prems"(5) \<open>card (U - set visited) = _\<close> by (simp add: c_def)
    then have "length (kids i) + Suc (length stack) + c \<le> n" using "3.prems"(3)[of i] by simp
    then have "length (rev (map (\<lambda>k. (k, False)) (kids i)) @ (e, True) # stack) + card (U - set (i # visited)) * Suc m \<le> n"
      by (simp add: c_def)
    moreover have "(space_id \<circ> fst) ` set (rev (map (\<lambda>k. (k, False)) (kids i)) @ (e, True) # stack) \<subseteq> U"
      using i rest "3.prems"(2)[of i] by (simp add: image_Un image_image i_def)
    ultimately show ?thesis using "3.IH"(3)[OF i_def] "3.prems"(1-3) False by (simp add: i_def Let_def)
  qed
qed simp_all

lemma walk_members: "walk kids n stack visited active ds = Inr ds' \<Longrightarrow> set ds' \<subseteq> set ds \<union> (\<Union>i. set (kids i))"
proof (induction kids n stack visited active ds rule: walk.induct)
  case (3 kids n e leaving stack visited active ds)
  consider "leaving" | "\<not> leaving" "space_id e \<in> set active"
    | "\<not> leaving" "space_id e \<notin> set active" "space_id e \<in> set visited"
    | "\<not> leaving" "space_id e \<notin> set active" "space_id e \<notin> set visited" by blast
  then show ?case
  proof cases
    case 1
    then show ?thesis using "3.IH"(1)[OF refl] "3.prems" by simp
  next
    case 2
    then show ?thesis using "3.prems" by simp
  next
    case 3
    then show ?thesis using "3.IH"(2)[OF refl 3] "3.prems" by simp
  next
    case 4
    then have "walk kids n (rev (map (\<lambda>k. (k, False)) (kids (space_id e))) @ (e, True) # stack)
        (space_id e # visited) (space_id e # active) (ds @ kids (space_id e)) = Inr ds'"
      using "3.prems" by (simp add: Let_def)
    then have "set ds' \<subseteq> set (ds @ kids (space_id e)) \<union> (\<Union>i. set (kids i))" by (rule "3.IH"(3)[OF refl 4])
    then show ?thesis by auto
  qed
qed simp_all

section \<open>The search\<close>

definition trues :: "(fields \<times> bool) list \<Rightarrow> string list" where
  "trues stack = map (space_id \<circ> fst) (filter snd stack)"

lemma trues_simps [simp]:
  "trues [] = []" "trues ((e, True) # st) = space_id e # trues st" "trues ((e, False) # st) = trues st"
  "trues (map (\<lambda>k. (k, False)) ks @ st) = trues st"
  by (simp_all add: trues_def)

text \<open>Every entry of the stack was pushed by the space that is entered next below it.\<close>

fun linked :: "(string \<Rightarrow> fields list) \<Rightarrow> (fields \<times> bool) list \<Rightarrow> bool" where
  "linked kids [] = True"
| "linked kids ((e, b) # st) = (linked kids st \<and> (trues st \<noteq> [] \<longrightarrow> (hd (trues st), space_id e) \<in> hosts kids))"

text \<open>What a space that is being visited hosts is finished or waits above it.\<close>

fun covered :: "(string \<Rightarrow> fields list) \<Rightarrow> string set \<Rightarrow> (fields \<times> bool) list \<Rightarrow> bool" where
  "covered kids A [] = True"
| "covered kids A ((e, b) # st) = ((b \<longrightarrow> space_id ` set (kids (space_id e)) \<subseteq> A) \<and> covered kids (insert (space_id e) A) st)"

text \<open>The finished spaces, the last one first: each hosts only earlier ones.\<close>

fun finished :: "(string \<Rightarrow> fields list) \<Rightarrow> string list \<Rightarrow> bool" where
  "finished kids [] = True"
| "finished kids (u # us) = (finished kids us \<and> u \<notin> set us \<and> space_id ` set (kids u) \<subseteq> set us)"

lemma covered_mono: "covered kids A st \<Longrightarrow> A \<subseteq> B \<Longrightarrow> covered kids B st"
proof (induction st arbitrary: A B)
  case (Cons t st)
  obtain e b where t: "t = (e, b)" by fastforce
  have "covered kids (insert (space_id e) B) st"
    using Cons.IH[of "insert (space_id e) A" "insert (space_id e) B"] Cons.prems by (auto simp: t)
  then show ?case using Cons.prems by (auto simp: t)
qed simp

lemma covered_waiting:
  "covered kids A (map (\<lambda>k. (k, False)) ks @ st) \<longleftrightarrow> covered kids (A \<union> space_id ` set ks) st"
  by (induction ks arbitrary: A) simp_all

lemma linked_waiting:
  "linked kids (map (\<lambda>k. (k, False)) ks @ st)
     \<longleftrightarrow> linked kids st \<and> (trues st \<noteq> [] \<longrightarrow> (\<forall>k \<in> set ks. (hd (trues st), space_id k) \<in> hosts kids))"
  by (induction ks) auto

lemma linked_path: "linked kids st \<Longrightarrow> i \<in> set (trues st) \<Longrightarrow> (i, hd (trues st)) \<in> (hosts kids)\<^sup>*"
proof (induction st)
  case (Cons t st)
  obtain e b where t: "t = (e, b)" by fastforce
  show ?case
  proof (cases "b \<and> i \<noteq> space_id e")
    case True
    then have "i \<in> set (trues st)" using Cons.prems by (simp add: t)
    moreover from this have "trues st \<noteq> []" by auto
    ultimately have "(i, hd (trues st)) \<in> (hosts kids)\<^sup>*" "(hd (trues st), space_id e) \<in> hosts kids"
      using Cons by (auto simp: t)
    then show ?thesis using True by (simp add: t rtrancl.rtrancl_into_rtrancl)
  next
    case False
    then show ?thesis using Cons by (cases b) (auto simp: t)
  qed
qed simp

lemma finished_closed:
  assumes "finished kids us" and "(u, w) \<in> (hosts kids)\<^sup>*" and "u \<in> set us"
  shows "w \<in> set us"
  using assms(2,3)
proof (induction rule: rtrancl_induct)
  case (step y z)
  have "space_id ` set (kids y) \<subseteq> set us" if "y \<in> set us"
    using assms(1) that by (induction us) auto
  then show ?case using step by (auto simp: hosts_iff)
qed simp

lemma finished_acyclic: "finished kids us \<Longrightarrow> u \<in> set us \<Longrightarrow> (u, u) \<notin> (hosts kids)\<^sup>+"
proof (induction us)
  case (Cons x us)
  show ?case
  proof (cases "u \<in> set us")
    case False
    then have u: "u = x" using Cons.prems by simp
    show ?thesis
    proof
      assume "(u, u) \<in> (hosts kids)\<^sup>+"
      then obtain y where "(u, y) \<in> hosts kids" "(y, u) \<in> (hosts kids)\<^sup>*" by (meson tranclD)
      moreover have "y \<in> set us" using Cons.prems u calculation(1) by (auto simp: hosts_iff)
      ultimately show False using finished_closed[of kids us y u] Cons.prems u by simp
    qed
  qed (use Cons in simp)
qed simp

record search =
  se_stack :: "(fields \<times> bool) list"
  se_visited :: "string list"
  se_active :: "string list"
  se_found :: "fields list"
  se_done :: "string list"

definition search_ok :: "(string \<Rightarrow> fields list) \<Rightarrow> string \<Rightarrow> search \<Rightarrow> bool" where
  "search_ok kids p w \<longleftrightarrow>
     set (se_active w) = set (trues (se_stack w)) \<and> distinct (trues (se_stack w))
     \<and> set (se_visited w) = set (se_done w) \<union> set (trues (se_stack w))
     \<and> set (se_done w) \<inter> set (trues (se_stack w)) = {}
     \<and> finished kids (se_done w) \<and> covered kids (set (se_done w)) (se_stack w) \<and> linked kids (se_stack w)
     \<and> space_id ` set (se_found w) = (\<Union>i \<in> set (se_visited w). space_id ` set (kids i))
     \<and> insert p (space_id ` set (se_found w)) \<subseteq> set (se_visited w) \<union> (space_id \<circ> fst) ` set (se_stack w)
     \<and> set (se_visited w) \<union> (space_id \<circ> fst) ` set (se_stack w) \<subseteq> (hosts kids)\<^sup>* `` {p}"

definition searched :: "(string \<Rightarrow> fields list) \<Rightarrow> string \<Rightarrow> fact_error + fields list \<Rightarrow> bool" where
  "searched kids p r \<longleftrightarrow> (let reached = (hosts kids)\<^sup>* `` {p}; cyclic = (\<exists>j \<in> reached. (j, j) \<in> (hosts kids)\<^sup>+) in
     case r of Inl e \<Rightarrow> e = Exhausted \<or> e = cycle_failure \<and> cyclic
     | Inr ds \<Rightarrow> \<not> cyclic \<and> space_id ` set ds = (hosts kids)\<^sup>+ `` {p})"

lemma search_okD:
  assumes "search_ok kids p w"
  shows "set (se_active w) = set (trues (se_stack w))" "distinct (trues (se_stack w))"
    and "set (se_visited w) = set (se_done w) \<union> set (trues (se_stack w))"
    and "set (se_done w) \<inter> set (trues (se_stack w)) = {}"
    and "finished kids (se_done w)" "covered kids (set (se_done w)) (se_stack w)" "linked kids (se_stack w)"
    and "space_id ` set (se_found w) = (\<Union>i \<in> set (se_visited w). space_id ` set (kids i))"
    and "insert p (space_id ` set (se_found w)) \<subseteq> set (se_visited w) \<union> (space_id \<circ> fst) ` set (se_stack w)"
    and "set (se_visited w) \<union> (space_id \<circ> fst) ` set (se_stack w) \<subseteq> (hosts kids)\<^sup>* `` {p}"
proof -
  note all = assms[unfolded search_ok_def]
  show "set (se_active w) = set (trues (se_stack w))" using all by (elim conjE) assumption
  show "distinct (trues (se_stack w))" using all by (elim conjE) assumption
  show "set (se_visited w) = set (se_done w) \<union> set (trues (se_stack w))" using all by (elim conjE) assumption
  show "set (se_done w) \<inter> set (trues (se_stack w)) = {}" using all by (elim conjE) assumption
  show "finished kids (se_done w)" using all by (elim conjE) assumption
  show "covered kids (set (se_done w)) (se_stack w)" using all by (elim conjE) assumption
  show "linked kids (se_stack w)" using all by (elim conjE) assumption
  show "space_id ` set (se_found w) = (\<Union>i \<in> set (se_visited w). space_id ` set (kids i))" using all by (elim conjE) assumption
  show "insert p (space_id ` set (se_found w)) \<subseteq> set (se_visited w) \<union> (space_id \<circ> fst) ` set (se_stack w)" using all by (elim conjE) assumption
  show "set (se_visited w) \<union> (space_id \<circ> fst) ` set (se_stack w) \<subseteq> (hosts kids)\<^sup>* `` {p}" using all by (elim conjE) assumption
qed

lemma hosts_image: "hosts kids `` A = (\<Union>i \<in> A. space_id ` set (kids i))"
  unfolding hosts_def by blast

lemma search_ends:
  assumes "search_ok kids p w" and "se_stack w = []"
  shows "searched kids p (Inr (se_found w))"
proof -
  note ok = search_okD[OF assms(1), unfolded assms(2)]
  have v: "set (se_visited w) = set (se_done w)" using ok(3) by simp
  have sub: "p \<in> set (se_done w)" using ok(9) v by simp
  have all: "set (se_visited w) = (hosts kids)\<^sup>* `` {p}"
  proof
    show "set (se_visited w) \<subseteq> (hosts kids)\<^sup>* `` {p}" using ok(10) by simp
    show "(hosts kids)\<^sup>* `` {p} \<subseteq> set (se_visited w)" using finished_closed[OF ok(5)] sub v by blast
  qed
  have "space_id ` set (se_found w) = hosts kids `` ((hosts kids)\<^sup>* `` {p})"
    unfolding ok(8) all hosts_image ..
  also have "\<dots> = (hosts kids)\<^sup>+ `` {p}"
    by (simp add: trancl_unfold_right relcomp_Image)
  finally have "space_id ` set (se_found w) = (hosts kids)\<^sup>+ `` {p}" .
  moreover have "\<not> (\<exists>j \<in> (hosts kids)\<^sup>* `` {p}. (j, j) \<in> (hosts kids)\<^sup>+)"
    using finished_acyclic[OF ok(5)] all v by blast
  ultimately show ?thesis by (simp add: searched_def)
qed

lemma leave_ok:
  assumes "search_ok kids p w" and "se_stack w = (e, True) # st"
  shows "search_ok kids p (w\<lparr>se_stack := st, se_active := removeAll (space_id e) (se_active w), se_done := space_id e # se_done w\<rparr>)"
proof -
  note ok = search_okD[OF assms(1), unfolded assms(2)]
  have v: "space_id e \<in> set (se_visited w)" using ok(3) by simp
  have a: "set (removeAll (space_id e) (se_active w)) = set (trues st)" using ok(1,2) by auto
  have d: "set (se_visited w) = set (space_id e # se_done w) \<union> set (trues st)" using ok(3) by auto
  have n: "set (space_id e # se_done w) \<inter> set (trues st) = {}" using ok(2,4) by auto
  have f: "finished kids (space_id e # se_done w)" using ok(4,5,6) by auto
  have c: "covered kids (set (space_id e # se_done w)) st" using ok(6) by simp
  have i: "insert p (space_id ` set (se_found w)) \<subseteq> set (se_visited w) \<union> (space_id \<circ> fst) ` set st"
    using ok(9) v by auto
  have r: "set (se_visited w) \<union> (space_id \<circ> fst) ` set st \<subseteq> (hosts kids)\<^sup>* `` {p}" using ok(10) by auto
  show ?thesis using ok(2,7,8) a d n f c i r by (simp add: search_ok_def)
qed

lemma skip_ok:
  assumes "search_ok kids p w" and "se_stack w = (e, False) # st" and "space_id e \<in> set (se_visited w)"
    and "space_id e \<notin> set (se_active w)"
  shows "search_ok kids p (w\<lparr>se_stack := st\<rparr>)"
proof -
  note ok = search_okD[OF assms(1), unfolded assms(2)]
  have "space_id e \<in> set (se_done w)" using ok(1,3) assms(3,4) by auto
  then have "insert (space_id e) (set (se_done w)) = set (se_done w)" by (rule insert_absorb)
  then have c: "covered kids (set (se_done w)) st" using ok(6) by simp
  have i: "insert p (space_id ` set (se_found w)) \<subseteq> set (se_visited w) \<union> (space_id \<circ> fst) ` set st"
    using ok(9) assms(3) by auto
  have r: "set (se_visited w) \<union> (space_id \<circ> fst) ` set st \<subseteq> (hosts kids)\<^sup>* `` {p}" using ok(10) by auto
  show ?thesis using ok(1-5,7,8) c i r by (simp add: search_ok_def)
qed

lemma enter_ok:
  assumes good: "search_ok kids p w" and st: "se_stack w = (e, False) # st" and new: "space_id e \<notin> set (se_visited w)"
  shows "search_ok kids p (w\<lparr>se_stack := rev (map (\<lambda>k. (k, False)) (kids (space_id e))) @ (e, True) # st,
     se_visited := space_id e # se_visited w, se_active := space_id e # se_active w, se_found := se_found w @ kids (space_id e)\<rparr>)"
    (is "search_ok kids p ?w")
proof -
  note ok = search_okD[OF good, unfolded st]
  define i where "i = space_id e"
  define ks where "ks = rev (kids i)"
  have stack: "se_stack ?w = map (\<lambda>k. (k, False)) ks @ (e, True) # st" by (simp add: rev_map i_def ks_def)
  have ids: "(space_id \<circ> fst) ` set (se_stack ?w) = space_id ` set (kids i) \<union> insert i ((space_id \<circ> fst) ` set st)"
    unfolding stack by (simp add: image_Un image_image ks_def i_def)
  have t: "trues (se_stack ?w) = i # trues st" unfolding stack by (simp add: i_def)
  have vis: "set (se_visited ?w) = insert i (set (se_visited w))" by (simp add: i_def)
  have p: "(p, i) \<in> (hosts kids)\<^sup>*" using ok(10) by (auto simp: i_def)
  have up: "space_id ` set (kids i) \<subseteq> (hosts kids)\<^sup>* `` {p}"
    using p by (auto simp: hosts_iff intro: rtrancl.rtrancl_into_rtrancl)
  have "covered kids (insert i (set (se_done w))) st" using ok(6) by (simp add: i_def)
  then have cov: "covered kids (insert i (set (se_done w) \<union> space_id ` set ks)) st"
    by (rule covered_mono) auto
  have c: "covered kids (set (se_done ?w)) (se_stack ?w)"
    unfolding stack covered_waiting using cov by (auto simp: i_def ks_def)
  have l: "linked kids (se_stack ?w)"
    unfolding stack linked_waiting using ok(7) by (auto simp: hosts_iff ks_def i_def)
  have a: "set (se_active ?w) = set (trues (se_stack ?w))" unfolding t using ok(1) by (simp add: i_def)
  have d: "distinct (trues (se_stack ?w))" unfolding t using ok(2,3) new by (auto simp: i_def)
  have v: "set (se_visited ?w) = set (se_done ?w) \<union> set (trues (se_stack ?w))" unfolding t vis using ok(3) by auto
  have n: "set (se_done ?w) \<inter> set (trues (se_stack ?w)) = {}" unfolding t using ok(3,4) new by (auto simp: i_def)
  have f: "space_id ` set (se_found ?w) = (\<Union>j \<in> set (se_visited ?w). space_id ` set (kids j))"
    unfolding vis using ok(8) by (simp add: image_Un i_def Un_commute)
  have s: "insert p (space_id ` set (se_found ?w)) \<subseteq> set (se_visited ?w) \<union> (space_id \<circ> fst) ` set (se_stack ?w)"
    unfolding ids vis using ok(9) by (auto simp: i_def)
  have r: "set (se_visited ?w) \<union> (space_id \<circ> fst) ` set (se_stack ?w) \<subseteq> (hosts kids)\<^sup>* `` {p}"
    unfolding ids vis using ok(10) p up by auto
  have fin: "finished kids (se_done ?w)" using ok(5) by simp
  show ?thesis unfolding search_ok_def using a d v n fin c l f s r by (intro conjI)
qed

lemma cycle_found:
  assumes "search_ok kids p w" and "se_stack w = (e, False) # st" and "space_id e \<in> set (se_active w)"
  shows "searched kids p (Inl cycle_failure)"
proof -
  let ?i = "space_id e"
  note ok = search_okD[OF assms(1), unfolded assms(2)]
  have i: "?i \<in> set (trues st)" using ok(1) assms(3) by simp
  then have "trues st \<noteq> []" by auto
  then have l: "linked kids st" and h: "(hd (trues st), ?i) \<in> hosts kids" using ok(7) by simp_all
  have "(?i, ?i) \<in> (hosts kids)\<^sup>+" by (rule rtrancl_into_trancl1[OF linked_path[OF l i] h])
  moreover have "(p, ?i) \<in> (hosts kids)\<^sup>*" using ok(10) by auto
  ultimately show ?thesis by (auto simp: searched_def Let_def)
qed

lemma walk_searches:
  "search_ok kids p w \<Longrightarrow> searched kids p (walk kids n (se_stack w) (se_visited w) (se_active w) (se_found w))"
proof (induction n arbitrary: w)
  case 0
  show ?case
  proof (cases "se_stack w")
    case Nil
    then show ?thesis using search_ends[OF 0] by simp
  qed (simp add: searched_def)
next
  case (Suc n)
  show ?case
  proof (cases "se_stack w")
    case Nil
    then show ?thesis using search_ends[OF Suc.prems] by simp
  next
    case (Cons t st)
    obtain e b where t: "t = (e, b)" by fastforce
    consider "b" | "\<not> b" "space_id e \<in> set (se_active w)"
      | "\<not> b" "space_id e \<notin> set (se_active w)" "space_id e \<in> set (se_visited w)"
      | "\<not> b" "space_id e \<notin> set (se_active w)" "space_id e \<notin> set (se_visited w)" by blast
    then show ?thesis
    proof cases
      case 1
      then show ?thesis using Suc.IH[OF leave_ok[OF Suc.prems]] Cons t by simp
    next
      case 2
      then show ?thesis using cycle_found[OF Suc.prems] Cons t by simp
    next
      case 3
      then show ?thesis using Suc.IH[OF skip_ok[OF Suc.prems]] Cons t by simp
    next
      case 4
      then show ?thesis using Suc.IH[OF enter_ok[OF Suc.prems]] Cons t by (simp add: Let_def)
    qed
  qed
qed

lemma walk_exact:
  "searched kids (space_id e) (walk kids n [(e, False)] [] [] [])"
proof -
  have "search_ok kids (space_id e) \<lparr>se_stack = [(e, False)], se_visited = [], se_active = [], se_found = [], se_done = []\<rparr>"
    by (simp add: search_ok_def)
  from walk_searches[OF this, of n] show ?thesis by simp
qed

section \<open>The walk of the resolver\<close>

text \<open>Python's \<open>str\<close> of a value that is no text never reads like the identifier of a space.\<close>

definition plain_str :: "(pyval \<Rightarrow> string) \<Rightarrow> bool" where
  "plain_str sh \<longleftrightarrow> (\<forall>w. (\<forall>i. w \<noteq> VStr i) \<longrightarrow> before_colon (py_str sh w) \<noteq> ''space'')"

definition spaces_in :: "'s fact_env \<Rightarrow> fields list \<Rightarrow> fields list" where
  "spaces_in v es = List.map_filter (space_child v) es"

lemma space_child_id:
  assumes "plain_str (fe_str v)" and "space_child v e = Some d"
  shows "\<exists>i. map_of d ''id'' = Some (VStr i)"
proof -
  have t: "entity_type (fe_str v) d = ''space''" using assms(2) by (auto simp: space_child_def split: pyval.splits if_splits)
  then obtain w where "map_of d ''id'' = Some w"
    by (cases "map_of d ''id''") (auto simp: entity_type_def before_colon_def get_default_def)
  with t assms(1) show ?thesis
    unfolding entity_type_def plain_str_def by (cases w) auto
qed

lemma remember_children_yields: "yields s (remember_children v es) (Inr (spaces_in v es))"
proof -
  have step: "yields s (case space_child v e of None \<Rightarrow> return ds
      | Some d \<Rightarrow> andthen (remember_relationship v ''hosted_space'' e) (\<lambda>_. return (ds @ [d])))
    (Inr (ds @ spaces_in v [e]))" for e ds
    by (auto simp: spaces_in_def List.map_filter_simps yields_return split: option.split
        intro!: yields_andthen[OF yields_remember])
  have "fold (\<lambda>e ds. ds @ spaces_in v [e]) es ds = ds @ spaces_in v es" for ds
    by (induction es arbitrary: ds) (simp_all add: spaces_in_def List.map_filter_simps split: option.split)
  then show ?thesis
    using yields_loop[of es s _ "\<lambda>e ds. ds @ spaces_in v [e]" "[]", OF step] by (simp add: remember_children_def)
qed

definition has_text_id :: "fields \<Rightarrow> bool" where
  "has_text_id e \<longleftrightarrow> (\<exists>i. map_of e ''id'' = Some (VStr i))"

lemma space_id_text: "map_of e ''id'' = Some (VStr i) \<Longrightarrow> space_id e = i"
  by (simp add: space_id_def entity_id_def get_or_None_def)

text \<open>A choice of answers that agrees with the stored edges wherever they are complete.\<close>

definition answers :: "(string \<Rightarrow> string \<Rightarrow> string option \<Rightarrow> fields list) \<Rightarrow> 's fact_env \<Rightarrow> string \<times> string option
    \<Rightarrow> (string \<Rightarrow> fields list) \<Rightarrow> bool" where
  "answers all v h es \<longleftrightarrow> (\<forall>i. length (all i (fst h) (snd h)) \<le> fe_max v \<longrightarrow> es i = all i (fst h) (snd h))"

context graph_reads
begin

lemma hosted_loop_yields:
  assumes "plain_str (fe_str v)" and "answers (all s) v h es" and "list_all (\<lambda>t. has_text_id (fst t)) stack"
  shows "yields s (hosted_loop v h n stack visited active ds) (walk (\<lambda>j. spaces_in v (es j)) n stack visited active ds)"
  using assms(3)
proof (induction n arbitrary: stack visited active ds)
  case 0
  then show ?case by (cases stack) (simp_all add: yields_return yields_throw)
next
  case (Suc n)
  show ?case
  proof (cases stack)
    case (Cons t st)
    obtain e leaving where t: "t = (e, leaving)" by fastforce
    obtain i where i: "map_of e ''id'' = Some (VStr i)" using Suc.prems by (auto simp: Cons t has_text_id_def)
    have st: "list_all (\<lambda>t. has_text_id (fst t)) st" using Suc.prems by (simp add: Cons)
    have id: "space_id e = i" "py_str (fe_str v) (VStr i) = i" using i by (simp_all add: space_id_text py_str_def)
    have kids: "list_all (\<lambda>t. has_text_id (fst t)) (rev (map (\<lambda>k. (k, False)) (spaces_in v (es i))) @ (e, True) # st)"
      using st i space_child_id[OF assms(1)]
      by (auto simp: list_all_iff spaces_in_def List.map_filter_def has_text_id_def)
    have more: "yields s (andthen (relation_edges v i (fst h) (snd h)) (\<lambda>edges. andthen (remember_children v edges) (\<lambda>ks.
        hosted_loop v h n (rev (map (\<lambda>k. (k, False)) ks) @ (e, True) # st) (i # visited) (i # active) (ds @ ks))))
      (walk (\<lambda>j. spaces_in v (es j)) n (rev (map (\<lambda>k. (k, False)) (spaces_in v (es i))) @ (e, True) # st)
        (i # visited) (i # active) (ds @ spaces_in v (es i)))"
      using assms(2) kids
      by (intro yields_andthen[OF relation_edges_yields[of s i "fst h" "snd h" "es i"] yields_andthen[OF remember_children_yields]] Suc.IH)
        (simp_all add: answers_def)
    show ?thesis
      using more Suc.IH[OF st] by (simp add: Cons t i id cycle_failure_def yields_raise Let_def)
  qed (simp add: yields_return)
qed

text \<open>The spaces that the answers lead to are finitely many: they are those of a finite set.\<close>

lemma hosted_loop_exact:
  fixes x :: "'s execution"
  assumes str: "plain_str (fe_str v)" and root: "map_of e ''id'' = Some (VStr i)"
    and U: "finite U" "i \<in> U" "\<And>j. space_id ` set (spaces_in v (all s j (fst h) (snd h))) \<subseteq> U"
    and fuel: "1 + card U * (fe_max v + 1) \<le> n" and x: "ex_state x = s"
  shows "case hosted_loop v h n [(e, False)] [] [] [] x of
      (y, Inl f) \<Rightarrow> ex_state y = s \<and> (unfinished f
        \<or> f = cycle_failure \<and> (\<exists>j. (i, j) \<in> (hosts (\<lambda>j. spaces_in v (all s j (fst h) (snd h))))\<^sup>*
            \<and> (j, j) \<in> (hosts (\<lambda>j. spaces_in v (all s j (fst h) (snd h))))\<^sup>+))
    | (y, Inr ds) \<Rightarrow> ex_state y = s
        \<and> \<not> (\<exists>j. (i, j) \<in> (hosts (\<lambda>j. spaces_in v (all s j (fst h) (snd h))))\<^sup>*
            \<and> (j, j) \<in> (hosts (\<lambda>j. spaces_in v (all s j (fst h) (snd h))))\<^sup>+)
        \<and> space_id ` set ds = (hosts (\<lambda>j. spaces_in v (all s j (fst h) (snd h))))\<^sup>+ `` {i}
        \<and> set ds \<subseteq> (\<Union>j. set (spaces_in v (all s j (fst h) (snd h))))"
proof -
  define es where "es = (\<lambda>j. all s j (fst h) (snd h))"
  define kids where "kids = (\<lambda>j. spaces_in v (all s j (fst h) (snd h)))"
  have kids: "(\<lambda>j. spaces_in v (es j)) = kids" by (simp add: es_def kids_def)
  define short where "short = (\<lambda>j. if length (es j) \<le> fe_max v then es j else [])"
  have start: "list_all (\<lambda>t. has_text_id (fst t)) [(e, False)]" using root by (simp add: has_text_id_def)
  have full: "yields s (hosted_loop v h n [(e, False)] [] [] []) (walk (\<lambda>j. spaces_in v (es j)) n [(e, False)] [] [] [])"
    by (rule hosted_loop_yields[OF str _ start]) (simp add: answers_def es_def)
  have cut: "yields s (hosted_loop v h n [(e, False)] [] [] []) (walk (\<lambda>j. spaces_in v (short j)) n [(e, False)] [] [] [])"
    by (rule hosted_loop_yields[OF str _ start]) (simp add: answers_def short_def es_def)
  have id: "space_id e = i" using root by (rule space_id_text)
  have "length (spaces_in v (short j)) \<le> fe_max v" for j
  proof -
    have "length (spaces_in v l) \<le> length l" for l
      by (simp add: spaces_in_def List.map_filter_def)
    moreover have "length (short j) \<le> fe_max v" by (simp add: short_def)
    ultimately show ?thesis using le_trans by blast
  qed
  then have ends: "walk (\<lambda>j. spaces_in v (short j)) n [(e, False)] [] [] [] \<noteq> Inl Exhausted"
    using U fuel by (intro walk_ends[of U _ "fe_max v"]) (auto simp: short_def es_def id spaces_in_def List.map_filter_simps)
  obtain y r where m: "hosted_loop v h n [(e, False)] [] [] [] x = (y, r)" by fastforce
  have state: "ex_state y = s" and r: "r = walk (\<lambda>j. spaces_in v (es j)) n [(e, False)] [] [] [] \<or> (\<exists>f. r = Inl f \<and> unfinished f)"
    and r': "r = walk (\<lambda>j. spaces_in v (short j)) n [(e, False)] [] [] [] \<or> (\<exists>f. r = Inl f \<and> unfinished f)"
    using full cut x m by (auto simp: yields_def)
  show ?thesis
  proof (cases "\<exists>f. r = Inl f \<and> unfinished f")
    case False
    then have w: "r = walk kids n [(e, False)] [] [] []" using r kids False by blast
    have "r \<noteq> Inl Exhausted" using False r' ends by metis
    moreover have "searched kids i r" using walk_exact[of kids e n] w id by simp
    ultimately have "case r of Inl f \<Rightarrow> f = cycle_failure \<and> (\<exists>j. (i, j) \<in> (hosts kids)\<^sup>* \<and> (j, j) \<in> (hosts kids)\<^sup>+)
      | Inr ds \<Rightarrow> \<not> (\<exists>j. (i, j) \<in> (hosts kids)\<^sup>* \<and> (j, j) \<in> (hosts kids)\<^sup>+) \<and> space_id ` set ds = (hosts kids)\<^sup>+ `` {i}"
      by (cases r) (auto simp: searched_def Let_def)
    moreover have "set ds \<subseteq> (\<Union>j. set (kids j))" if "r = Inr ds" for ds
      using walk_members[of kids n "[(e, False)]" "[]" "[]" "[]" ds] w that by simp
    ultimately show ?thesis
      using state unfolding m kids_def by (cases r) simp_all
  qed (use m state in auto)
qed

end

end
