(* ===== verification/Retrieval.thy ===== *)
theory Retrieval
  imports ItemWriting Display "HOL-Library.Product_Lexorder"
begin

text \<open>
  \<open>persistence/retrieval.py\<close> with the name matching of \<open>persistence/schema_catalog.py\<close>: the read-only operations on the
  graph that facts are grounded in. The three queries it sends are an access record \<open>reader\<close>; a stored row is a
  dictionary of dynamic values, which \<open>json_value\<close> turns into JSON.
\<close>

section \<open>Names\<close>

text \<open>NFKC below code point 256. The characters whose compatibility form leaves that range (the spacing accents, the
  acute accent, the cedilla, the micro sign and the vulgar fractions) are excluded from the strings the model
  speaks of.\<close>

definition nfkc_char :: "char \<Rightarrow> char" where
  "nfkc_char c = (case map_of [(160, CHR '' ''), (170, CHR ''a''), (178, CHR ''2''), (179, CHR ''3''), (185, CHR ''1''), (186, CHR ''o'')]
     (code_pt c) of None \<Rightarrow> c | Some d \<Rightarrow> d)"

text \<open>The characters whose Unicode category is a punctuation.\<close>

definition punctuation :: "char \<Rightarrow> bool" where
  "punctuation c \<longleftrightarrow> c \<in> set ''!#%&*,./:;?@-_()[]{}'' \<or> code_pt c \<in> {34, 39, 92, 161, 167, 171, 182, 183, 187, 191}"

definition normalize_alias :: "string \<Rightarrow> string" where
  "normalize_alias s = (let n = strip (casefold (map nfkc_char s)) in
     join '' '' (words (map (\<lambda>c. if punctuation c then CHR '' '' else c) n)))"

definition text_of :: "pyval \<Rightarrow> string list" where
  "text_of v = (case v of VStr s \<Rightarrow> [s] | _ \<Rightarrow> [])"

definition alias_value :: "pyval \<Rightarrow> string list" where
  "alias_value v = (case v of VDict d \<Rightarrow> text_of (get_or_None d ''value'') | _ \<Rightarrow> [])"

definition present :: "string list \<Rightarrow> string list" where
  "present = filter (\<lambda>s. strip s \<noteq> [])"

definition own_names :: "fields \<Rightarrow> string list" where
  "own_names d = (case get_or_None d ''name'' of
     VStr s \<Rightarrow> [s]
   | VDict e \<Rightarrow> map strip (present (concat (map (text_of \<circ> snd) e)))
   | VList vs \<Rightarrow> map strip (present (concat (map text_of vs)))
   | _ \<Rightarrow> [])"

definition stored_aliases :: "fields \<Rightarrow> string list" where
  "stored_aliases d = (case get_or_None d ''aliases'' of
     VList vs \<Rightarrow> present (concat (map text_of vs)) @ present (concat (map alias_value vs))
   | _ \<Rightarrow> [])"

definition given_names :: "fields \<Rightarrow> string list" where
  "given_names d = (case get_or_None d ''first_name'' of
     VStr a \<Rightarrow> a # (case get_or_None d ''last_name'' of VStr b \<Rightarrow> [a @ '' '' @ b] | _ \<Rightarrow> [])
   | _ \<Rightarrow> [])"

definition record_aliases :: "fields \<Rightarrow> string list" where
  "record_aliases d = (let all = own_names d @ stored_aliases d @ present (text_of (get_or_None d ''display_name'')) @ given_names d
     in rev (remdups (rev (map strip (present all)))))"

text \<open>Names that mean an entity only within a household, or for some speakers.\<close>

record appellation =
  ap_value :: string
  ap_household :: "string option"
  ap_speakers :: "string list"

definition read_appellation :: "pyval \<Rightarrow> appellation option" where
  "read_appellation v = (case v of
     VDict d \<Rightarrow>
       (case (get_or_None d ''value'', get_or_None d ''household_id'', get_default d ''speaker_ids'' (VList [])) of
          (VStr s, h, VList ws) \<Rightarrow>
            (let speakers = filter (\<lambda>w. w \<noteq> []) (concat (map text_of ws));
                 home = (case h of VStr i \<Rightarrow> Some i | _ \<Rightarrow> None)
             in if strip s = [] \<or> (h \<noteq> VNone \<and> home = None) \<or> (h = VNone \<and> speakers = []) then None
                else Some \<lparr>ap_value = strip s, ap_household = home, ap_speakers = speakers\<rparr>)
        | _ \<Rightarrow> None)
   | _ \<Rightarrow> None)"

definition record_appellations :: "fields \<Rightarrow> appellation list" where
  "record_appellations d = (case get_or_None d ''appellations'' of VList vs \<Rightarrow> List.map_filter read_appellation vs | _ \<Rightarrow> [])"

definition scope_admits :: "string option \<Rightarrow> string option \<Rightarrow> appellation \<Rightarrow> bool" where
  "scope_admits speaker home a \<longleftrightarrow> (ap_household a = None \<or> home = ap_household a)
     \<and> (ap_speakers a = [] \<or> (case speaker of None \<Rightarrow> False | Some i \<Rightarrow> i \<in> set (ap_speakers a)))"

definition matches_scoped_appellation :: "fields \<Rightarrow> string \<Rightarrow> string option \<Rightarrow> string option \<Rightarrow> bool" where
  "matches_scoped_appellation d name speaker home \<longleftrightarrow>
     list_ex (\<lambda>a. normalize_alias (ap_value a) = normalize_alias name \<and> scope_admits speaker home a) (record_appellations d)"

definition matches_alias :: "fields \<Rightarrow> string \<Rightarrow> bool" where
  "matches_alias d name \<longleftrightarrow> list_ex (\<lambda>a. normalize_alias a = normalize_alias name) (record_aliases d)"

text \<open>\<open>str(record.get("id", ""))\<close>; \<open>sh\<close> is Python's \<open>str\<close> of a value that is no text.\<close>

definition id_text :: "(pyval \<Rightarrow> string) \<Rightarrow> fields \<Rightarrow> string" where
  "id_text sh d = py_str sh (get_default d ''id'' (VStr []))"

definition matching_named_entities ::
  "(pyval \<Rightarrow> string) \<Rightarrow> fields list \<Rightarrow> string \<Rightarrow> int \<Rightarrow> string option \<Rightarrow> string option \<Rightarrow> fields list res" where
  "matching_named_entities sh rs name limit speaker home =
     (if normalize_alias name = [] then Inl ValueError
      else let direct = filter (\<lambda>d. matches_alias d name) rs;
               chosen = (if direct \<noteq> [] then direct else filter (\<lambda>d. matches_scoped_appellation d name speaker home) rs)
           in Inr (take (nat limit) (sort_key (id_text sh) chosen)))"

section \<open>The service\<close>

record 'db reader =
  rd_record :: "'db \<Rightarrow> rid \<Rightarrow> pyval res"      \<comment> \<open>\<open>SELECT * FROM $id\<close>\<close>
  rd_names :: "'db \<Rightarrow> string \<Rightarrow> pyval res"     \<comment> \<open>the identity fields of a table, \<open>ORDER BY id\<close>\<close>
  rd_edges :: "'db \<Rightarrow> string \<Rightarrow> string \<Rightarrow> bool \<Rightarrow> rid \<Rightarrow> int \<Rightarrow> pyval res"
    \<comment> \<open>the edges of a table at a record in a stored direction, with both end points, \<open>ORDER BY id LIMIT $limit\<close>\<close>

record retrieval =
  rt_limit :: int
  rt_registry :: registry
  rt_nodes :: "string list"

definition new_retrieval :: "int \<Rightarrow> registry \<Rightarrow> string list \<Rightarrow> retrieval" where
  "new_retrieval limit g sources = \<lparr>rt_limit = limit, rt_registry = g,
     rt_nodes = sort (remdups ((if sources = [] then [''address'', ''item'', ''person'', ''space''] else sources)
       @ concat (map (\<lambda>s. es_from s @ es_to s) (map snd (rg_schemas g)))))\<rparr>"

definition summary_fields :: "string list" where
  "summary_fields = [''id'', ''name'', ''display_name'', ''address_as'', ''gender'', ''first_name'', ''last_name'',
     ''address_type'', ''item_type'', ''space_type'', ''type'']"

definition entity_summary :: "fields \<Rightarrow> fields" where
  "entity_summary d = filter (\<lambda>kv. fst kv \<in> set summary_fields) d"

fun dicts :: "pyval list \<Rightarrow> fields list res" where
  "dicts [] = Inr []"
| "dicts (v # vs) = (case v of VDict d \<Rightarrow> bind_res (dicts vs) (\<lambda>ds. Inr (d # ds)) | _ \<Rightarrow> Inl RuntimeError)"

definition query_records :: "pyval \<Rightarrow> fields list res" where
  "query_records v = (case json_value v of VNone \<Rightarrow> Inr [] | VDict d \<Rightarrow> Inr [d] | VList vs \<Rightarrow> dicts vs | _ \<Rightarrow> Inl RuntimeError)"

definition validated_limit :: "retrieval \<Rightarrow> int option \<Rightarrow> int res" where
  "validated_limit t n = (case n of None \<Rightarrow> Inr (rt_limit t)
     | Some k \<Rightarrow> if 1 \<le> k \<and> k \<le> min (rt_limit t + 1) 100 then Inr k else Inl ValueError)"

definition get_entity :: "'db reader \<Rightarrow> retrieval \<Rightarrow> 'db \<Rightarrow> string \<Rightarrow> fields option res" where
  "get_entity api t db i = bind_res (as_record_id i) (\<lambda>r.
     if fst r \<notin> set (rt_nodes t) then Inl ValueError
     else bind_res (rd_record api db r) (\<lambda>v. bind_res (query_records v) (\<lambda>ds.
       Inr (find (\<lambda>d. get_or_None d ''id'' = VStr i) ds))))"

definition table_records :: "'db reader \<Rightarrow> 'db \<Rightarrow> string \<Rightarrow> fields list res" where
  "table_records api db tab = bind_res (rd_names api db tab) query_records"

definition resolve_entity_alias :: "'db reader \<Rightarrow> (pyval \<Rightarrow> string) \<Rightarrow> retrieval \<Rightarrow> 'db \<Rightarrow> string \<Rightarrow> string option \<Rightarrow> int option
    \<Rightarrow> string option \<Rightarrow> string option \<Rightarrow> fields list res" where
  "resolve_entity_alias api sh t db name kind limit speaker home =
     bind_res (validated_limit t limit) (\<lambda>n.
     bind_res (case kind of None \<Rightarrow> Inr (rt_nodes t)
       | Some k \<Rightarrow> if k \<in> set (rt_nodes t) then Inr [k] else Inl ValueError) (\<lambda>tables.
     bind_res (map_res (table_records api db) tables) (\<lambda>rss.
     bind_res (matching_named_entities sh (concat rss) name n speaker home) (\<lambda>ms.
       Inr (map entity_summary ms)))))"

section \<open>Relationships\<close>

definition reversed :: "string \<Rightarrow> string" where
  "reversed d = (if d = ''out'' then ''in'' else ''out'')"

definition stored_direction :: "edge_schema \<Rightarrow> bool \<Rightarrow> string \<Rightarrow> string option \<Rightarrow> string" where
  "stored_direction s inverted kind requested =
     (if es_symmetric s then ''both''
      else case requested of
        Some d \<Rightarrow> if \<not> inverted \<or> d = ''both'' then d else reversed d
      | None \<Rightarrow>
          if inverted then ''in''
          else if kind \<in> set (es_from s) \<and> kind \<notin> set (es_to s) then ''out''
          else if kind \<in> set (es_to s) \<and> kind \<notin> set (es_from s) then ''in''
          else ''both'')"

definition relationship_direction :: "fields \<Rightarrow> string \<Rightarrow> string" where
  "relationship_direction e i =
     (let source = (get_or_None e ''in'' = VStr i); target = (get_or_None e ''out'' = VStr i) in
      if source \<and> target then ''both'' else if source then ''outgoing'' else ''incoming'')"

definition semantic_relation :: "edge_schema \<Rightarrow> string \<Rightarrow> string" where
  "semantic_relation s d = (if es_symmetric s \<or> d \<in> {''outgoing'', ''both''} then es_id s
     else case es_inverse s of None \<Rightarrow> es_id s | Some n \<Rightarrow> if n = [] then es_id s else n)"

definition is_current :: "fields \<Rightarrow> bool" where
  "is_current e \<longleftrightarrow> get_or_None e ''end'' = VNone"

definition put_summary :: "string \<Rightarrow> pyval \<Rightarrow> fields \<Rightarrow> fields" where
  "put_summary k v e = (case v of VDict d \<Rightarrow> AList.update k (VDict (entity_summary d)) e | _ \<Rightarrow> e)"

text \<open>What a stored edge becomes: its relation and direction as seen from the entity, and summaries of both ends in
  the place of their stored records.\<close>

definition shown_edge :: "edge_schema \<Rightarrow> string \<Rightarrow> fields \<Rightarrow> fields" where
  "shown_edge s i e =
     (let e1 = AList.update ''relation'' (VStr (es_id s)) e;
          d = relationship_direction e1 i;
          e2 = AList.update ''semantic_relation'' (VStr (semantic_relation s d)) e1;
          source = get_or_None e2 ''source_entity''; target = get_or_None e2 ''target_entity'';
          e3 = AList.update ''direction'' (VStr d) (AList.delete ''target_entity'' (AList.delete ''source_entity'' e2))
      in put_summary ''related_entity'' (if d = ''incoming'' then source else target)
           (put_summary ''entity'' (if d = ''outgoing'' then source else target) e3))"

definition relation_edges_of :: "'db reader \<Rightarrow> 'db \<Rightarrow> string \<Rightarrow> rid \<Rightarrow> string option \<Rightarrow> bool \<Rightarrow> int
    \<Rightarrow> edge_schema \<times> bool \<Rightarrow> fields list res" where
  "relation_edges_of api db i r requested ended n sb = (case sb of (s, inverted) \<Rightarrow>
     bind_res (rd_edges api db (es_id s) (stored_direction s inverted (fst r) requested) ended r n) (\<lambda>v.
     bind_res (query_records v) (\<lambda>es.
       Inr (map (shown_edge s i) (filter (\<lambda>e. ended \<or> is_current e) es)))))"

definition edge_key :: "(pyval \<Rightarrow> string) \<Rightarrow> fields \<Rightarrow> string \<times> string" where
  "edge_key sh e = (py_str sh (get_default e ''relation'' (VStr [])), id_text sh e)"

definition resolved_relations :: "retrieval \<Rightarrow> string option \<Rightarrow> string option \<Rightarrow> (edge_schema \<times> bool) list res" where
  "resolved_relations t rel requested = (case rel of
     Some n \<Rightarrow> (case resolve (rt_registry t) n of
         Inl e \<Rightarrow> Inl (if e = UnknownEdgeSchemaError then ValueError else e) | Inr sb \<Rightarrow> Inr [sb])
   | None \<Rightarrow> if requested \<noteq> None then Inl ValueError
       else map_res (\<lambda>n. bind_res (get_schema (rt_registry t) n) (\<lambda>s. Inr (s, False))) (relationship_names (rt_registry t)))"

definition get_relationships :: "'db reader \<Rightarrow> (pyval \<Rightarrow> string) \<Rightarrow> retrieval \<Rightarrow> 'db \<Rightarrow> string \<Rightarrow> string option \<Rightarrow> string option
    \<Rightarrow> int option \<Rightarrow> bool \<Rightarrow> fields list res" where
  "get_relationships api sh t db i rel requested limit ended =
     bind_res (as_record_id i) (\<lambda>r.
     bind_res (validated_limit t limit) (\<lambda>n.
     bind_res (resolved_relations t rel requested) (\<lambda>sbs.
     bind_res (map_res (relation_edges_of api db i r requested ended n) sbs) (\<lambda>ess.
       Inr (take (nat n) (sort_key (edge_key sh) (concat ess)))))))"

end
