(* ===== verification/HouseholdGraph.thy ===== *)
theory HouseholdGraph
  imports HostedSpaces Retrieval Dispatcher
begin

text \<open>
  The engine on the stored graph: its queries go through the dispatcher to retrieval and from there to the database.
  What is relied on of the database is the locale \<open>edge_store\<close>: a query for edges answers with the rows of the table
  that match, in order and up to the limit. The interface of the resolver holds of this composition.
\<close>

section \<open>The parts put together\<close>

text \<open>The handlers of the dispatcher for the graph operations, over the retrieval service.\<close>

definition dict_list :: "fields list res \<Rightarrow> pyval list res" where
  "dict_list r = bind_res r (\<lambda>ds. Inr (map VDict ds))"

definition with_retrieval :: "'db reader \<Rightarrow> (pyval \<Rightarrow> string) \<Rightarrow> retrieval \<Rightarrow> ('c, 'db) services \<Rightarrow> ('c, 'db) services" where
  "with_retrieval api sh t sv = sv\<lparr>
     sv_alias := (\<lambda>args s. (s, dict_list (resolve_entity_alias api sh t s (arg_text args ''text'') (arg_option args ''entity_type'')
       (arg_limit args) (arg_option args ''speaker_id'') (arg_option args ''household_id'')))),
     sv_entity := (\<lambda>i s. (s, get_entity api t s i)),
     sv_relationships := (\<lambda>args s. (s, dict_list (get_relationships api sh t s (arg_text args ''entity_id'')
       (arg_option args ''relation'') (arg_option args ''direction'') (arg_limit args)
       (get_or_None args ''include_ended'' = VBool True))))\<rparr>"

text \<open>A query of the engine: the dispatcher's entry for trusted callers.\<close>

definition household_call ::
  "('c, 'db) services \<Rightarrow> (string \<Rightarrow> string) \<Rightarrow> string list \<Rightarrow> string option \<Rightarrow> string \<Rightarrow> fields \<Rightarrow> 'db \<Rightarrow> 'db \<times> pyval res" where
  "household_call sv quote public caller tool args s =
     (case dispatch_internal sv quote public tool (VDict args) caller None s of (s', d) \<Rightarrow> (s', Inr (VDict d)))"

section \<open>The database\<close>

definition at_end :: "rid \<Rightarrow> fields \<Rightarrow> string \<Rightarrow> bool" where
  "at_end r e k \<longleftrightarrow> get_or_None e k = rec_val r"

text \<open>\<open>in = $entity\<close>, \<open>out = $entity\<close> or either, and \<open>end = NONE OR end = NULL\<close>.\<close>

definition row_matches :: "string \<Rightarrow> bool \<Rightarrow> rid \<Rightarrow> fields \<Rightarrow> bool" where
  "row_matches dir ended r e \<longleftrightarrow>
     (if dir = ''out'' then at_end r e ''in'' else if dir = ''in'' then at_end r e ''out'' else at_end r e ''in'' \<or> at_end r e ''out'')
     \<and> (ended \<or> is_current e)"

text \<open>Every current edge of the graph at an entity, as retrieval shows it.\<close>

definition current_edges :: "('db \<Rightarrow> string \<Rightarrow> fields list) \<Rightarrow> (pyval \<Rightarrow> string) \<Rightarrow> registry \<Rightarrow> 'db \<Rightarrow> string \<Rightarrow> string
    \<Rightarrow> string option \<Rightarrow> fields list" where
  "current_edges rows sh g db i rel dir = (case (match_record_id i, resolve g rel) of
     (Some r, Inr (s, inverted)) \<Rightarrow> sort_key (edge_key sh) (map (shown_edge s i \<circ> json_items)
       (filter (row_matches (stored_direction s inverted (fst r) dir) False r) (rows db (es_id s))))
   | _ \<Rightarrow> [])"

locale edge_store =
  fixes api :: "'db reader" and rows :: "'db \<Rightarrow> string \<Rightarrow> fields list"
  assumes edges_read: "rd_edges api db tab dir ended r n = Inr v \<Longrightarrow>
    v = VList (map VDict (take (nat n) (filter (row_matches dir ended r) (rows db tab))))"

lemma dicts_json: "dicts (json_list (map VDict es)) = Inr (map json_items es)"
  by (induction es) simp_all

lemma map_of_json: "map_of (json_items d) k = map_option json_value (map_of d k)"
  by (induction d) auto

lemma current_json: "is_current e \<Longrightarrow> is_current (json_items e)"
  by (auto simp: is_current_def get_or_None_def map_of_json split: option.splits)

lemma take_short: "length (take n xs) < n \<Longrightarrow> take n xs = xs"
  by simp

context edge_store
begin

lemma get_relationships_holds:
  assumes "get_relationships api sh t db i (Some rel) dir (Some (int n)) False = Inr es"
  shows "holds_all es n (current_edges rows sh (rt_registry t) db i rel dir)"
proof -
  from assms obtain r s b v where r: "match_record_id i = Some r" and s: "resolve (rt_registry t) rel = Inr (s, b)"
    and v: "rd_edges api db (es_id s) (stored_direction s b (fst r) dir) False r (int n) = Inr v"
    and es: "\<exists>ds. query_records v = Inr ds \<and> es = take n (sort_key (edge_key sh) (map (shown_edge s i) (filter is_current ds)))"
    by (auto simp: get_relationships_def Inr_iffs as_record_id_def split_record_id_def validated_limit_def resolved_relations_def
        relation_edges_of_def split: option.splits sum.splits if_splits)
  let ?all = "filter (row_matches (stored_direction s b (fst r) dir) False r) (rows db (es_id s))"
  have "query_records v = Inr (map json_items (take n ?all))"
    using edges_read[OF v] by (simp add: query_records_def dicts_json)
  moreover have "filter is_current (map json_items (take n ?all)) = map json_items (take n ?all)"
    by (auto simp: filter_id_conv row_matches_def current_json dest: in_set_takeD)
  ultimately have es': "es = take n (sort_key (edge_key sh) (map (shown_edge s i \<circ> json_items) (take n ?all)))"
    using es by (simp add: comp_def)
  have all: "current_edges rows sh (rt_registry t) db i rel dir = sort_key (edge_key sh) (map (shown_edge s i \<circ> json_items) ?all)"
    by (cases r) (simp add: current_edges_def r s)
  have "length es = min n (length ?all)" unfolding es' by simp
  moreover have "es = sort_key (edge_key sh) (map (shown_edge s i \<circ> json_items) ?all)" if "length ?all < n"
    unfolding es' using that by simp
  ultimately show ?thesis unfolding all holds_all_def by auto
qed

end

section \<open>The dispatcher in between\<close>

lemma map_of_asked:
  assumes "asks_edges args i rel dir n"
  shows "map_of args ''entity_id'' = Some (VStr i)" "map_of args ''relation'' = Some (VStr rel)"
    "map_of args ''direction'' = map_option VStr dir" "map_of args ''include_ended'' = Some (VBool False)"
    "map_of args ''limit'' = Some (VInt (int n))"
  using assms by (simp_all add: asks_edges_def)

text \<open>An accepted query reaches retrieval with the same entity and relation, stripped of white space around them.\<close>

lemma asked_arguments:
  assumes ask: "asks_edges args i rel dir n" and ok: "validate_model get_relationships_arguments args = Some valid"
  shows "arg_text valid ''entity_id'' = trim i \<and> arg_option valid ''relation'' = Some (trim rel)
    \<and> arg_option valid ''direction'' = dir \<and> arg_limit valid = Some (int n) \<and> get_or_None valid ''include_ended'' = VBool False"
proof -
  have "valid_fields get_relationships_arguments args = Some valid"
    using ok by (simp add: validate_model_def split: if_splits)
  then have "valid = [(''entity_id'', VStr (trim i)), (''relation'', VStr (trim rel)), (''direction'', opt_text dir),
      (''include_ended'', VBool False), (''limit'', VInt (int n))]"
    by (cases dir) (simp_all add: get_relationships_arguments_def map_of_asked[OF ask] valid_arg_def optional_def opt_text_def
        split: if_splits)
  then show ?thesis
    by (cases dir) (simp_all add: arg_text_def arg_option_def arg_limit_def get_or_None_def opt_text_def)
qed

definition graph_edges :: "('db \<Rightarrow> string \<Rightarrow> fields list) \<Rightarrow> (pyval \<Rightarrow> string) \<Rightarrow> retrieval \<Rightarrow> 'db \<Rightarrow> string \<Rightarrow> string
    \<Rightarrow> string option \<Rightarrow> fields list" where
  "graph_edges rows sh t db i rel dir = current_edges rows sh (rt_registry t) db (trim i) (trim rel) dir"

lemma mappings_VDict [simp]: "mappings (map VDict es) = es"
  by (induction es) simp_all

context edge_store
begin

lemma household_edges_answered:
  assumes ask: "asks_edges args i rel dir n"
    and call: "household_call (with_retrieval api sh t sv) quote public caller ''get_relationships'' args s = (s', r)"
  shows "s' = s \<and> (case response_records r of None \<Rightarrow> True | Some es \<Rightarrow> holds_all es n (graph_edges rows sh t s i rel dir))"
proof (cases "validate_model get_relationships_arguments args")
  case None
  then show ?thesis using call
    by (auto simp: household_call_def dispatch_internal_def dispatch_call_def guarded_call_def argument_model_def graph_operations_def tool_error_def
        response_records_def get_or_None_def)
next
  case (Some valid)
  note args = asked_arguments[OF ask Some]
  define q where "q = get_relationships api sh t s (trim i) (Some (trim rel)) dir (Some (int n)) False"
  have "household_call (with_retrieval api sh t sv) quote public caller ''get_relationships'' args s =
      (s, Inr (VDict (case q of
         Inl e \<Rightarrow> tool_error ''get_relationships'' (failure_code e) (failure_message (with_retrieval api sh t sv) ''get_relationships'' e) []
       | Inr es \<Rightarrow> [(''ok'', VBool True), (''tool'', VStr ''get_relationships''), (''result'', VList (map VDict es))])))"
    using args
    by (cases q) (simp_all add: household_call_def dispatch_internal_def dispatch_call_def guarded_call_def argument_model_def graph_operations_def Some
        handle_def graph_handle_def with_retrieval_def then_db_def dict_list_def q_def)
  then show ?thesis using call get_relationships_holds[of sh t s "trim i" "trim rel" dir n]
    by (cases q) (auto simp: q_def response_records_def get_or_None_def tool_error_def graph_edges_def)
qed

lemma household_reads:
  assumes "new_engine (household_call (with_retrieval api sh t sv) quote public caller) schema show_val most steps = Inr v"
  shows "graph_reads v (graph_edges rows sh t)"
proof
  from assms have v: "fe_call v = household_call (with_retrieval api sh t sv) quote public caller"
    "1 \<le> most" "most < 100" "fe_max v = nat most"
    by (auto simp: new_engine_def split: if_splits)
  then show "1 \<le> fe_max v" "fe_max v < 100" by auto
  show "asks_edges args i rel dir n \<Longrightarrow> 1 \<le> n \<Longrightarrow> n \<le> 100 \<Longrightarrow> fe_call v ''get_relationships'' args s = (s', r) \<Longrightarrow>
      s' = s \<and> (case response_records r of None \<Rightarrow> True | Some es \<Rightarrow> holds_all es n (graph_edges rows sh t s i rel dir))" for args i rel dir n s s' r
    unfolding v(1) by (rule household_edges_answered)
qed

end

end
