(* ===== verification/HouseholdFacts.thy ===== *)
theory HouseholdFacts
  imports HouseholdGraph
begin

text \<open>What the engine guarantees on the stored graph.\<close>

text \<open>C12: a record is found by a name exactly when it lies in the household of the request: a chain of at most twelve
  current edges of the declared containment relations leads from it to the household, whatever order the edges are
  stored in. Records of kinds without such a relation are always found. Over the dispatcher, retrieval and the
  database the answer is exact or the step fails because a query failed or an answer was not complete; nothing is
  written.\<close>

theorem household_scope_exact:
  assumes "edge_store api rows"
    and "new_engine (household_call (with_retrieval api sh t sv) quote public caller) schema show_val most steps = Inr v"
    and "ex_state x = s"
  shows "case scope_named_records v rs (Some home) x of
      (y, Inl e) \<Rightarrow> ex_state y = s \<and> unfinished e
    | (y, Inr ds) \<Rightarrow> ex_state y = s \<and> ds = filter (admitted (graph_edges rows sh t s) v home) rs"
proof -
  note reads = edge_store.household_reads[OF assms(1,2)]
  show ?thesis by (cases rule: yieldsD[OF graph_reads.scope_exact[OF reads] assms(3), of rs home]) auto
qed

section \<open>Names\<close>

text \<open>An appellation is never without a scope.\<close>

lemma read_appellation_scoped: "read_appellation v = Some a \<Longrightarrow> ap_household a \<noteq> None \<or> ap_speakers a \<noteq> []"
  by (auto simp: read_appellation_def Let_def split: pyval.splits if_splits)

lemma record_appellations_scoped: "a \<in> set (record_appellations d) \<Longrightarrow> ap_household a \<noteq> None \<or> ap_speakers a \<noteq> []"
proof -
  assume a: "a \<in> set (record_appellations d)"
  have "a \<in> set (List.map_filter read_appellation vs) \<Longrightarrow> \<exists>v. read_appellation v = Some a" for vs
    by (induction vs) (auto simp: List.map_filter_simps split: option.splits)
  then obtain v where "read_appellation v = Some a" using a by (auto simp: record_appellations_def split: pyval.splits)
  then show "ap_household a \<noteq> None \<or> ap_speakers a \<noteq> []" by (rule read_appellation_scoped)
qed

definition private_name :: "fields \<Rightarrow> string \<Rightarrow> string option \<Rightarrow> string option \<Rightarrow> bool" where
  "private_name d name speaker home \<longleftrightarrow> list_ex (\<lambda>a. normalize_alias (ap_value a) = normalize_alias name
     \<and> (ap_household a \<noteq> None \<or> ap_speakers a \<noteq> [])
     \<and> (ap_household a \<noteq> None \<longrightarrow> home = ap_household a)
     \<and> (ap_speakers a \<noteq> [] \<longrightarrow> (\<exists>i \<in> set (ap_speakers a). speaker = Some i))) (record_appellations d)"

lemma scoped_private: "matches_scoped_appellation d name speaker home \<Longrightarrow> private_name d name speaker home"
proof -
  assume "matches_scoped_appellation d name speaker home"
  then obtain a where a: "a \<in> set (record_appellations d)" "normalize_alias (ap_value a) = normalize_alias name"
      "scope_admits speaker home a"
    by (auto simp: matches_scoped_appellation_def list_ex_iff)
  with record_appellations_scoped[OF a(1)] show ?thesis
    unfolding private_name_def list_ex_iff scope_admits_def by (intro bexI[of _ a]) (auto split: option.splits)
qed

lemma take_sorted_member: "d \<in> set (take n (sort_key f xs)) \<Longrightarrow> d \<in> set xs"
  by (drule in_set_takeD) simp

text \<open>C15: looking up a name finds a record of an admitted table only by a name it goes by publicly, or by one it has
  in the household of the request or for the person who speaks, so that a request without household and speaker
  finds it only by a public name. Of the record only the summary fields are shown, and at most as many records as
  were asked for.\<close>

theorem private_names_scoped:
  assumes "resolve_entity_alias api sh t db name kind limit speaker home = Inr ms"
  shows "length ms \<le> nat (case limit of None \<Rightarrow> rt_limit t | Some n \<Rightarrow> n)
    \<and> (\<forall>m \<in> set ms. set (map fst m) \<subseteq> set summary_fields
       \<and> (\<exists>tab \<in> set (rt_nodes t). \<exists>ds. table_records api db tab = Inr ds \<and> (case kind of None \<Rightarrow> True | Some k \<Rightarrow> tab = k)
          \<and> (\<exists>d \<in> set ds. m = entity_summary d \<and> (matches_alias d name \<or> private_name d name speaker home))))"
proof -
  from assms obtain n tables rss rs where n: "validated_limit t limit = Inr n"
    and tables: "(case kind of None \<Rightarrow> Inr (rt_nodes t) | Some k \<Rightarrow> if k \<in> set (rt_nodes t) then Inr [k] else Inl ValueError) = Inr tables"
    and rss: "map_res (table_records api db) tables = Inr rss"
    and rs: "matching_named_entities sh (concat rss) name n speaker home = Inr rs" and ms: "ms = map entity_summary rs"
    by (auto simp: resolve_entity_alias_def Inr_iffs)
  have most: "n = (case limit of None \<Rightarrow> rt_limit t | Some n \<Rightarrow> n)"
    using n by (auto simp: validated_limit_def split: option.splits if_splits)
  have admitted: "tab \<in> set (rt_nodes t) \<and> (case kind of None \<Rightarrow> True | Some k \<Rightarrow> tab = k)" if "tab \<in> set tables" for tab
    using tables that by (auto split: option.splits if_splits)
  have found: "d \<in> set (concat rss) \<and> (matches_alias d name \<or> private_name d name speaker home)" if "d \<in> set rs" for d
    using rs that scoped_private
    by (auto simp: matching_named_entities_def Let_def split: if_splits dest!: take_sorted_member)
  have "\<exists>tab \<in> set (rt_nodes t). \<exists>ds. table_records api db tab = Inr ds \<and> (case kind of None \<Rightarrow> True | Some k \<Rightarrow> tab = k)
      \<and> (\<exists>d \<in> set ds. m = entity_summary d \<and> (matches_alias d name \<or> private_name d name speaker home))" if "m \<in> set ms" for m
  proof -
    from that ms obtain d where d: "d \<in> set rs" "m = entity_summary d" by auto
    with found obtain ds where ds: "ds \<in> set rss" "d \<in> set ds" by fastforce
    from map_res_member[OF rss ds(1)] obtain tab where "tab \<in> set tables" "table_records api db tab = Inr ds" by blast
    with admitted d found ds(2) show ?thesis by blast
  qed
  moreover have "length ms \<le> nat n"
    using rs by (auto simp: ms matching_named_entities_def Let_def split: if_splits)
  ultimately show ?thesis
    by (auto simp: most ms entity_summary_def)
qed

section \<open>Hosted spaces\<close>

lemma unique_from_ids:
  "set (entity_ids (unique_from seen es)) = {i. \<exists>e \<in> set es. map_of e ''id'' = Some (VStr i)} - set seen"
  "distinct (entity_ids (unique_from seen es))"
  by (induction es arbitrary: seen)
    (auto simp: entity_ids_def entity_id_def List.map_filter_simps split: option.splits pyval.splits)

lemma unique_entities_ids:
  "set (entity_ids (unique_entities es)) = {i. \<exists>e \<in> set es. map_of e ''id'' = Some (VStr i)}"
  "distinct (entity_ids (unique_entities es))"
  unfolding unique_entities_def using unique_from_ids[of "[]" es] by auto

text \<open>The identifiers that an edge can lead to are those of the records stored in its row.\<close>

definition row_ids :: "fields \<Rightarrow> string list" where
  "row_ids e = map (\<lambda>k. case get_or_None (json_items e) k of VDict d \<Rightarrow> space_id d | _ \<Rightarrow> [])
     [''source_entity'', ''target_entity'', ''related_entity'']"

lemma map_of_filter_key: "P k \<Longrightarrow> map_of (filter (\<lambda>kv. P (fst kv)) d) k = map_of d k"
  by (induction d) auto

lemma summary_id: "space_id (entity_summary d) = space_id d"
  using map_of_filter_key[of "\<lambda>k. k \<in> set summary_fields" "''id''" d]
  by (simp add: space_id_def entity_id_def entity_summary_def summary_fields_def)

definition summary_or :: "pyval \<Rightarrow> pyval \<Rightarrow> pyval" where
  "summary_or v w = (case v of VDict d \<Rightarrow> VDict (entity_summary d) | _ \<Rightarrow> w)"

lemma summary_put_same: "get_or_None (put_summary k v e) k = summary_or v (get_or_None e k)"
  by (cases v) (simp_all add: summary_or_def put_summary_def get_or_None_def map_of_update)

lemma summary_put_other: "k \<noteq> k' \<Longrightarrow> get_or_None (put_summary k v e) k' = get_or_None e k'"
  by (cases v) (simp_all add: put_summary_def get_or_None_def map_of_update)

lemma get_update: "get_or_None (AList.update k v e) k' = (if k = k' then v else get_or_None e k')"
  by (simp add: get_or_None_def map_of_update)

lemma get_delete: "get_or_None (AList.delete k e) k' = (if k = k' then VNone else get_or_None e k')"
  by (simp add: get_or_None_def map_of_delete)

lemma shown_edge_related:
  assumes "get_or_None (shown_edge s i e) ''related_entity'' = VDict d"
  shows "\<exists>k \<in> {''source_entity'', ''target_entity'', ''related_entity''}. \<exists>d'. get_or_None e k = VDict d' \<and> space_id d = space_id d'"
proof -
  define dir where "dir = relationship_direction (AList.update ''relation'' (VStr (es_id s)) e) i"
  define k where "k = (if dir = ''incoming'' then ''source_entity'' else ''target_entity'')"
  have "get_or_None (shown_edge s i e) ''related_entity''
      = summary_or (get_or_None e k) (get_or_None e ''related_entity'')"
    unfolding shown_edge_def Let_def dir_def[symmetric]
    by (cases "dir = ''incoming''") (simp_all add: summary_put_same summary_put_other get_update get_delete k_def)
  then have r: "summary_or (get_or_None e k) (get_or_None e ''related_entity'') = VDict d"
    using assms by simp
  have k: "k \<in> {''source_entity'', ''target_entity''}" by (simp add: k_def)
  show ?thesis
  proof (cases "\<exists>d'. get_or_None e k = VDict d'")
    case True
    then show ?thesis using k r summary_id by (auto simp: summary_or_def)
  next
    case False
    then have "get_or_None e ''related_entity'' = VDict d" using r by (auto simp: summary_or_def split: pyval.splits)
    then show ?thesis by blast
  qed
qed

lemma spaces_in_member: "d \<in> set (spaces_in v es) \<longleftrightarrow> (\<exists>e \<in> set es. space_child v e = Some d)"
  unfolding spaces_in_def by (induction es) (auto simp: List.map_filter_simps split: option.split)

lemma space_child_related: "space_child v e = Some d \<Longrightarrow> get_or_None e ''related_entity'' = VDict d"
  by (simp add: space_child_def split: pyval.splits if_splits)

lemma space_child_row:
  assumes "d \<in> set (spaces_in v (graph_edges rows sh t s j rel dir))"
  obtains g sb e where "resolve (rt_registry t) (trim rel) = Inr (g, sb)" "e \<in> set (rows s (es_id g))" "space_id d \<in> set (row_ids e)"
proof -
  obtain edge where edge: "edge \<in> set (graph_edges rows sh t s j rel dir)" and d: "get_or_None edge ''related_entity'' = VDict d"
    using assms by (auto simp: spaces_in_member dest: space_child_related)
  obtain r where r: "match_record_id (trim j) = Some r"
    using edge by (cases "match_record_id (trim j)") (simp_all add: graph_edges_def current_edges_def)
  obtain g sb where g: "resolve (rt_registry t) (trim rel) = Inr (g, sb)"
    using edge r by (cases "resolve (rt_registry t) (trim rel)") (auto simp: graph_edges_def current_edges_def)
  obtain e where e: "e \<in> set (rows s (es_id g))" and shown: "edge = shown_edge g (trim j) (json_items e)"
    using edge by (cases r) (auto simp: graph_edges_def current_edges_def r g)
  have "space_id d \<in> set (row_ids e)"
    using shown_edge_related[OF d[unfolded shown]] by (auto simp: row_ids_def)
  with g e show ?thesis by (rule that)
qed

text \<open>All spaces that edges of one relation can lead to.\<close>

lemma hosted_ids:
  assumes "\<And>tab. length (rows s tab) \<le> m"
  shows "\<exists>U. finite U \<and> i \<in> U \<and> card U \<le> 3 * m + 1
    \<and> (\<forall>j. space_id ` set (spaces_in v (graph_edges rows sh t s j rel dir)) \<subseteq> U)"
proof -
  define es where "es = (case resolve (rt_registry t) (trim rel) of Inl e \<Rightarrow> [] | Inr (g, sb) \<Rightarrow> rows s (es_id g))"
  let ?ids = "i # concat (map row_ids es)"
  have "length es \<le> m" using assms by (auto simp: es_def split: sum.split)
  moreover have "length (concat (map row_ids l)) = 3 * length l" for l
    by (induction l) (simp_all add: row_ids_def)
  ultimately have "card (set ?ids) \<le> 3 * m + 1"
    using card_length[of ?ids] by simp
  moreover have "space_id ` set (spaces_in v (graph_edges rows sh t s j rel dir)) \<subseteq> set ?ids" for j
  proof
    fix k assume "k \<in> space_id ` set (spaces_in v (graph_edges rows sh t s j rel dir))"
    then obtain d where d: "d \<in> set (spaces_in v (graph_edges rows sh t s j rel dir))" "k = space_id d" by auto
    show "k \<in> set ?ids" using d(2) by (cases rule: space_child_row[OF d(1)]) (auto simp: es_def)
  qed
  ultimately show ?thesis by (intro exI[of _ "set ?ids"]) simp
qed

lemma text_ids: "\<forall>d \<in> set ds. has_text_id d \<Longrightarrow> set (entity_ids (unique_entities ds)) = space_id ` set ds"
  unfolding unique_entities_ids has_text_id_def by (auto simp: image_iff) (metis space_id_text)+

text \<open>C13: looking into a space with all that it hosts always comes to an end, within the number of steps that the
  stored edges determine: a walk over a graph of at most \<open>m\<close> edges needs no more than \<open>1 + (3m + 1)(max + 1)\<close> steps.
  When every query was answered completely it finds exactly the spaces hosted below the space, directly or through
  others, and it is refused exactly when one of these is hosted within itself.\<close>

theorem hosted_spaces_exact:
  assumes "edge_store api rows"
    and "new_engine (household_call (with_retrieval api sh t sv) quote public caller) schema show_val most steps = Inr v"
    and "plain_str show_val" and "physical_relation schema ''hosted_space'' = Some h"
    and "map_of parent ''id'' = Some (VStr i)" and "ex_state x = s"
    and "\<And>tab. length (rows s tab) \<le> m" and "1 + (3 * m + 1) * (nat most + 1) \<le> steps"
  defines "R \<equiv> hosts (\<lambda>j. spaces_in v (graph_edges rows sh t s j (fst h) (snd h)))"
  shows "case hosted_descendants v parent x of
      (y, Inl f) \<Rightarrow> ex_state y = s \<and> (unfinished f \<or> f = cycle_failure \<and> (\<exists>j. (i, j) \<in> R\<^sup>* \<and> (j, j) \<in> R\<^sup>+))
    | (y, Inr ds) \<Rightarrow> ex_state y = s \<and> \<not> (\<exists>j. (i, j) \<in> R\<^sup>* \<and> (j, j) \<in> R\<^sup>+) \<and> set (entity_ids ds) = R\<^sup>+ `` {i}"
proof -
  note reads = edge_store.household_reads[OF assms(1,2)]
  have v: "fe_schema v = schema" "fe_str v = show_val" "fe_max v = nat most" "fe_steps v = steps"
    using assms(2) by (auto simp: new_engine_def split: if_splits)
  obtain U where U: "finite U" "i \<in> U" "card U \<le> 3 * m + 1"
    and into: "\<And>j. space_id ` set (spaces_in v (graph_edges rows sh t s j (fst h) (snd h))) \<subseteq> U"
    using hosted_ids[of rows s m i v sh t "fst h" "snd h"] assms(7) by blast
  have "card U * (fe_max v + 1) \<le> (3 * m + 1) * (nat most + 1)" unfolding v by (rule mult_le_mono1[OF U(3)])
  then have fuel: "1 + card U * (fe_max v + 1) \<le> steps" using assms(8) by linarith
  have str: "plain_str (fe_str v)" using assms(3) by (simp add: v)
  obtain y r where m: "hosted_loop v h steps [(parent, False)] [] [] [] x = (y, r)" by fastforce
  have d: "hosted_descendants v parent x = (y, case r of Inl e \<Rightarrow> Inl e | Inr ds \<Rightarrow> Inr (unique_entities ds))"
    by (cases r) (simp_all add: hosted_descendants_def v assms(4) andthen_def m return_def)
  note exact = graph_reads.hosted_loop_exact[OF reads str assms(5) U(1,2) into fuel assms(6), unfolded m R_def[symmetric]]
  show ?thesis
  proof (cases r)
    case (Inl f)
    then show ?thesis using exact unfolding d by simp
  next
    case (Inr ds)
    have members: "set ds \<subseteq> (\<Union>j. set (spaces_in v (graph_edges rows sh t s j (fst h) (snd h))))"
      using exact by (simp add: Inr)
    have "\<forall>d \<in> set ds. has_text_id d"
    proof
      fix d assume "d \<in> set ds"
      then obtain j where "d \<in> set (spaces_in v (graph_edges rows sh t s j (fst h) (snd h)))" using members by blast
      then obtain e where "space_child v e = Some d" unfolding spaces_in_member by blast
      then show "has_text_id d" unfolding has_text_id_def by (rule space_child_id[OF str])
    qed
    then show ?thesis using exact unfolding d by (simp add: Inr text_ids)
  qed
qed

end
