(* ===== verification/HouseholdAnswers.thy ===== *)
theory HouseholdAnswers
  imports HouseholdFacts
begin

text \<open>
  An answer from end to end: a question for the number of entities that a path of relations leads to is answered with
  their exact number, or not at all.
\<close>

section \<open>Steps with a condition on their result\<close>






lemma andthen_return [simp]: "andthen (return a) k = k a"
  by (simp add: andthen_def return_def fun_eq_iff)



section \<open>Plain paths\<close>


















section \<open>Where a reference starts\<close>







section \<open>Names through the dispatcher\<close>




section \<open>The count\<close>



end
