(* ===== verification/HouseholdExample.thy ===== *)
theory HouseholdExample
  imports HouseholdAnswers
begin

text \<open>
  The interfaces on the model: a database that is a list of tables answers as \<open>edge_store\<close> promises, and a small
  household, with two rooms, an alcove in one of them and a lamp, on which the properties of the engine are evaluated.
\<close>

section \<open>Tables\<close>

type_synonym tables = "(string \<times> fields list) list"

definition table_rows :: "tables \<Rightarrow> string \<Rightarrow> fields list" where
  "table_rows db tab = (case map_of db tab of None \<Rightarrow> [] | Some es \<Rightarrow> es)"

definition table_reader :: "tables reader" where
  "table_reader = \<lparr>
     rd_record = (\<lambda>db r. Inr (VList (map VDict (filter (\<lambda>d. get_or_None d ''id'' = rec_val r) (table_rows db (fst r)))))),
     rd_names = (\<lambda>db tab. Inr (VList (map VDict (table_rows db tab)))),
     rd_edges = (\<lambda>db tab dir ended r n. Inr (VList (map VDict (take (nat n) (filter (row_matches dir ended r) (table_rows db tab))))))\<rparr>"

interpretation tables: edge_store table_reader table_rows
  by unfold_locales (simp add: table_reader_def)

section \<open>A household\<close>

definition stored :: "string \<times> string \<Rightarrow> fields" where
  "stored r = [(''id'', rec_val r), (''name'', VStr (snd r))]"

definition edge_row :: "string \<Rightarrow> string \<Rightarrow> string \<times> string \<Rightarrow> string \<times> string \<Rightarrow> fields" where
  "edge_row tab i a b = [(''id'', rec_val (tab, i)), (''in'', rec_val a), (''out'', rec_val b),
     (''source_entity'', VDict (stored a)), (''target_entity'', VDict (stored b))]"

definition house :: tables where
  "house = [(''hosted_by'', [edge_row ''hosted_by'' ''1'' (''space'', ''study'') (''item'', ''house''),
      edge_row ''hosted_by'' ''2'' (''space'', ''kitchen'') (''item'', ''house''),
      edge_row ''hosted_by'' ''3'' (''space'', ''alcove'') (''space'', ''study'')]),
    (''located_in'', [edge_row ''located_in'' ''4'' (''item'', ''house'') (''address'', ''home''),
      edge_row ''located_in'' ''5'' (''item'', ''lamp'') (''space'', ''alcove'')])]"

definition hosted_by :: edge_schema where
  "hosted_by = \<lparr>es_id = ''hosted_by'', es_symmetric = False, es_from = [''space''], es_to = [''item'', ''space''], es_temporal = False,
     es_inverse = Some ''hosts_space'', es_unique_from = True, es_scope_parent = True\<rparr>"

definition located_in :: edge_schema where
  "located_in = \<lparr>es_id = ''located_in'', es_symmetric = False, es_from = [''item''], es_to = [''address'', ''space''],
     es_temporal = False, es_inverse = Some ''contains'', es_unique_from = True, es_scope_parent = True\<rparr>"

definition house_edges :: registry where
  "house_edges = \<lparr>rg_schemas = [(''hosted_by'', hosted_by), (''located_in'', located_in)],
     rg_inverse = [(''hosts_space'', ''hosted_by''), (''contains'', ''located_in'')]\<rparr>"

definition house_schema :: semantic_schema where
  "house_schema = \<lparr>
     sc_catalog = \<lparr>
       ca_entities = map (\<lambda>t. (t, \<lparr>en_properties = [''id'', ''name''], en_types = []\<rparr>)) [''item'', ''space'', ''address''],
       ca_relations = map (\<lambda>s. (es_id s, \<lparr>rl_from = es_from s, rl_to = es_to s, rl_properties = [], rl_types = []\<rparr>))
         [hosted_by, located_in]\<rparr>,
     sc_ontology = \<lparr>ot_properties = [], ot_computed = [],
       ot_relations = [(''hosted_space'', ''hosts_space''), (''location'', ''located_in''), (''contents'', ''contains'')],
       ot_concepts = [], ot_policy = [], ot_predicates = []\<rparr>,
     sc_edges = house_edges, sc_entity_bindings = [], sc_relation_bindings = [], sc_computed = [], sc_predicates = []\<rparr>"

definition no_services :: "(unit, tables) services" where
  "no_services = \<lparr>sv_alias = (\<lambda>args s. (s, Inr [])), sv_entity = (\<lambda>i s. (s, Inr None)), sv_relationships = (\<lambda>args s. (s, Inr [])),
     sv_write_model = (\<lambda>args. None), sv_write = (\<lambda>g args c i s. (s, Inl ValueError)), sv_calendar = None,
     sv_provider = (\<lambda>s i a b n. (s, Inl CalendarUnavailableError)),
     sv_zones = (\<lambda>z. Inl ValueError), sv_calculate = (\<lambda>x. Inl CalculationError), sv_caller = (\<lambda>c. None),
     sv_report = (\<lambda>tool args. VNone), sv_say = (\<lambda>e. ''refused'')\<rparr>"

definition show_other :: "pyval \<Rightarrow> string" where "show_other v = ''?''"

definition house_retrieval :: retrieval where
  "house_retrieval = new_retrieval 20 house_edges []"

definition house_call :: "string \<Rightarrow> fields \<Rightarrow> tables \<Rightarrow> tables \<times> pyval res" where
  "house_call = household_call (with_retrieval table_reader show_other house_retrieval no_services) (\<lambda>s. s) [''calculate''] None"

definition house_engine :: "tables fact_env" where
  "house_engine = \<lparr>fe_call = house_call, fe_schema = house_schema, fe_str = show_other, fe_max = 5, fe_steps = 100\<rparr>"

definition an_entity :: "string \<Rightarrow> fields" where "an_entity i = [(''id'', VStr i)]"

lemma house_built: "new_engine house_call house_schema show_other 5 100 = Inr house_engine"
  by (simp add: new_engine_def house_engine_def)

interpretation house: graph_reads house_engine "graph_edges table_rows show_other house_retrieval"
  by (rule tables.household_reads[OF house_built[unfolded house_call_def]])


section \<open>The properties at this household\<close>

lemma house_scope_runs:
  "case scope_named_records house_engine [an_entity ''item:lamp'', an_entity ''item:chair''] (Some ''address:home'') (new_execution house) of
    (y, Inr ds) \<Rightarrow> ds = [an_entity ''item:lamp''] | _ \<Rightarrow> False"
  by code_simp

theorem household_scope_exact_witness:
  "filter (admitted (graph_edges table_rows show_other house_retrieval house) house_engine ''address:home'')
     [an_entity ''item:lamp'', an_entity ''item:chair''] = [an_entity ''item:lamp'']"
proof -
  have "ex_state (new_execution house) = house" by (simp add: new_execution_def)
  from household_scope_exact[OF tables.edge_store_axioms house_built[unfolded house_call_def] this,
      where rs = "[an_entity ''item:lamp'', an_entity ''item:chair'']" and home = "''address:home''"]
  show ?thesis using house_scope_runs by (auto simp del: filter.simps split: prod.splits sum.splits)
qed

lemma plain_show_other: "plain_str show_other"
proof -
  have "takeWhile (\<lambda>c. c \<noteq> CHR '':'') (show_int n) \<noteq> ''space''" for n
  proof
    assume "takeWhile (\<lambda>c. c \<noteq> CHR '':'') (show_int n) = ''space''"
    then have "CHR ''s'' \<in> set (show_int n)" by (metis list.set_intros(1) set_takeWhileD)
    then show False by (auto simp: show_int_def char_class_defs dest: is_digit_show_nat split: if_splits)
  qed
  then show ?thesis by (simp add: plain_str_def show_other_def py_str_def before_colon_def split: pyval.splits)
qed

lemma house_hosted_runs:
  "case hosted_descendants house_engine (an_entity ''item:house'') (new_execution house) of
    (y, Inr ds) \<Rightarrow> set (entity_ids ds) = {''space:study'', ''space:kitchen'', ''space:alcove''} | _ \<Rightarrow> False"
  by code_simp

theorem hosted_spaces_exact_witness:
  "(hosts (\<lambda>j. spaces_in house_engine (graph_edges table_rows show_other house_retrieval house j ''hosted_by'' (Some ''in''))))\<^sup>+
     `` {''item:house''} = {''space:study'', ''space:kitchen'', ''space:alcove''}"
proof -
  have "ex_state (new_execution house) = house" by (simp add: new_execution_def)
  moreover have "physical_relation house_schema ''hosted_space'' = Some (''hosted_by'', Some ''in'')" by code_simp
  moreover note plain_show_other
  moreover have "map_of (an_entity ''item:house'') ''id'' = Some (VStr ''item:house'')" by (simp add: an_entity_def)
  moreover have "length (table_rows house tab) \<le> 3" for tab by (simp add: table_rows_def house_def)
  ultimately show ?thesis
    using hosted_spaces_exact[OF tables.edge_store_axioms house_built[unfolded house_call_def], of "(''hosted_by'', Some ''in'')"
        "an_entity ''item:house''" "''item:house''" "new_execution house" house 3] house_hosted_runs
    by (auto split: prod.splits sum.splits)
qed










text \<open>A nickname of one household.\<close>

definition people :: tables where
  "people = [(''person'', [[(''id'', rec_val (''person'', ''ann'')), (''name'', VStr ''Ann''), (''born'', VStr ''1980-01-01''),
     (''appellations'', VList [VDict [(''value'', VStr ''Mum''), (''household_id'', VStr ''address:home''), (''speaker_ids'', VList [])]])]])]"

lemma people_found:
  "resolve_entity_alias table_reader show_other house_retrieval people ''mum'' None (Some 5) None (Some ''address:home'')
     = Inr [[(''id'', VStr ''person:ann''), (''name'', VStr ''Ann'')]]"
  "resolve_entity_alias table_reader show_other house_retrieval people ''mum'' None (Some 5) None None = Inr []"
  by code_simp+

theorem private_names_scoped_witness:
  "\<exists>tab \<in> set (rt_nodes house_retrieval). \<exists>ds. table_records table_reader people tab = Inr ds
     \<and> (\<exists>d \<in> set ds. entity_summary d = [(''id'', VStr ''person:ann''), (''name'', VStr ''Ann'')]
        \<and> (matches_alias d ''mum'' \<or> private_name d ''mum'' None (Some ''address:home'')))"
  using private_names_scoped[OF people_found(1)] by fastforce

end
