(* ===== verification/Ontology.thy ===== *)
theory Ontology
  imports SemanticSchema
begin

text \<open>
  The parser of \<open>semantic/ontology.py\<close>: the declared vocabulary of the household, checked as a whole before anything is
  bound to it. The YAML document is a dynamic value whose keys are strings. What only labels the vocabulary (names,
  labels, hints) is kept beside the \<open>ontology\<close> that the engine works on.
\<close>

section \<open>The parts of a document\<close>

definition doc_mapping :: "pyval \<Rightarrow> fields res" where
  "doc_mapping v = (case v of VDict d \<Rightarrow> Inr d | _ \<Rightarrow> Inl ValueError)"

definition stripped_text :: "pyval \<Rightarrow> string res" where
  "stripped_text v = (case v of VStr s \<Rightarrow> if strip s = [] then Inl ValueError else Inr (strip s) | _ \<Rightarrow> Inl ValueError)"

definition doc_strings :: "pyval \<Rightarrow> string list res" where
  "doc_strings v = (case v of
     VList vs \<Rightarrow> bind_res (map_res stripped_text vs) (\<lambda>ss. if distinct ss then Inr ss else Inl ValueError)
   | _ \<Rightarrow> Inl ValueError)"

definition doc_labels :: "pyval \<Rightarrow> (string \<times> string) list res" where
  "doc_labels v = bind_res (doc_mapping v) (map_res (\<lambda>(k, w).
     if strip k = [] then Inl ValueError else bind_res (stripped_text w) (\<lambda>t. Inr (k, t))))"

definition only_keys :: "fields \<Rightarrow> string list \<Rightarrow> unit res" where
  "only_keys d ks = guard (set (map fst d) \<subseteq> set ks) ValueError"

text \<open>\<open>if v not in {...}: raise ValueError\<close>, and the string that was looked up.\<close>

definition chosen_from :: "pyval \<Rightarrow> string list \<Rightarrow> string res" where
  "chosen_from v ks = bind_res (mode_in v (map VStr ks)) (\<lambda>b. case v of VStr s \<Rightarrow> if b then Inr s else Inl ValueError | _ \<Rightarrow> Inl ValueError)"

definition optional_of :: "(pyval \<Rightarrow> string res) \<Rightarrow> pyval \<Rightarrow> string option res" where
  "optional_of f v = (if v = VNone then Inr None else bind_res (f v) (\<lambda>s. Inr (Some s)))"

definition any_string :: "pyval \<Rightarrow> string res" where
  "any_string v = (case v of VStr s \<Rightarrow> Inr s | _ \<Rightarrow> Inl ValueError)"

definition nonempty_string :: "pyval \<Rightarrow> string res" where
  "nonempty_string v = (case v of VStr s \<Rightarrow> if s = [] then Inl ValueError else Inr s | _ \<Rightarrow> Inl ValueError)"

definition any_boolean :: "pyval \<Rightarrow> bool res" where
  "any_boolean v = (case v of VBool b \<Rightarrow> Inr b | _ \<Rightarrow> Inl ValueError)"

text \<open>Every entry of a mapping under its own name.\<close>

definition each_entry :: "(string \<Rightarrow> fields \<Rightarrow> 'a res) \<Rightarrow> pyval \<Rightarrow> 'a dict res" where
  "each_entry f v = bind_res (doc_mapping v) (map_res (\<lambda>(n, w).
     bind_res (doc_mapping w) (\<lambda>d. bind_res (f n d) (\<lambda>a. Inr (n, a)))))"

section \<open>Words\<close>

record property_words =
  pw_aliases :: "string list"
  pw_ordering :: "(string \<times> string list) list"
  pw_label :: "(string \<times> string) list"
  pw_value_labels :: "(string \<times> (string \<times> string) list) list"
  pw_writable :: "string option"
  pw_hint :: "string option"

record filter_words =
  fw_aliases :: "string list"
  fw_label :: "(string \<times> string) list"
  fw_unit :: "(string \<times> string) list"

record concept_words =
  cw_aliases :: "string list"
  cw_label :: "(string \<times> string) list"
  cw_count_label :: "(string \<times> string) list"

record predicate_words =
  qw_aliases :: "string list"
  qw_scope :: "string option"
  qw_label :: "(string \<times> string) list"
  qw_modifier :: "(string \<times> string) list"

record vocabulary =
  vo_ontology :: ontology
  vo_properties :: "property_words dict"
  vo_computed :: "filter_words dict"
  vo_concepts :: "concept_words dict"
  vo_predicates :: "predicate_words dict"

section \<open>Properties\<close>

text \<open>The labels of closed values stand with the values; other properties declare them apart.\<close>

definition value_label_source :: "fields \<Rightarrow> pyval" where
  "value_label_source d = (let apart = get_default d ''value_labels'' (VDict []) in
     case map_of d ''values'' of
       Some (VDict vs) \<Rightarrow> if list_all (\<lambda>(k, w). case w of VDict e \<Rightarrow> True | _ \<Rightarrow> False) vs
         then VDict (map (\<lambda>(k, w). (k, case w of VDict e \<Rightarrow> get_default e ''label'' (VDict []) | _ \<Rightarrow> VNone)) vs) else apart
     | _ \<Rightarrow> apart)"

definition writable_kinds :: "string list" where
  "writable_kinds = [''string'', ''number'', ''integer'', ''boolean'', ''date'']"

definition parse_ordering :: "fields \<Rightarrow> (string \<times> string list) list res" where
  "parse_ordering = map_res (\<lambda>(k, w). bind_res (doc_strings w) (\<lambda>ss. Inr (k, ss)))"

definition parse_property :: "string \<Rightarrow> fields \<Rightarrow> (ontology_property \<times> property_words) res" where
  "parse_property name d =
     bind_res (guard (map_of d ''values'' = None \<or> map_of d ''value_labels'' = None) ValueError) (\<lambda>_.
     bind_res (only_keys d [''fields'', ''aliases'', ''ordering'', ''label'', ''value_labels'', ''item_writable'', ''write_hint'',
       ''type'', ''applies_to'', ''filter_operators'', ''values'']) (\<lambda>_.
     bind_res (optional_of any_string (get_or_None d ''write_hint'')) (\<lambda>hint.
     bind_res (optional_of (\<lambda>v. chosen_from v writable_kinds) (get_or_None d ''item_writable'')) (\<lambda>writable.
     bind_res (doc_mapping (get_default d ''ordering'' (VDict []))) (\<lambda>ordering.
     bind_res (only_keys ordering [''minimum'', ''maximum'']) (\<lambda>_.
     bind_res (doc_strings (get_or_None d ''fields'')) (\<lambda>columns.
     bind_res (doc_strings (get_default d ''aliases'' (VList []))) (\<lambda>aliases.
     bind_res (parse_contract d) (\<lambda>c.
     bind_res (parse_ordering ordering) (\<lambda>directions.
     bind_res (doc_labels (get_default d ''label'' (VDict []))) (\<lambda>label.
     bind_res (bind_res (doc_mapping (value_label_source d)) (map_res (\<lambda>(k, w). bind_res (doc_labels w) (\<lambda>ls. Inr (k, ls))))) (\<lambda>value_labels.
       Inr (\<lparr>on_fields = columns, on_contract = c\<rparr>,
         \<lparr>pw_aliases = aliases, pw_ordering = directions, pw_label = label, pw_value_labels = value_labels,
           pw_writable = writable, pw_hint = hint\<rparr>)))))))))))))"

section \<open>Computed filters\<close>

definition parse_int :: "pyval \<Rightarrow> int res" where
  "parse_int v = (case v of VInt i \<Rightarrow> Inr i | _ \<Rightarrow> Inl ValueError)"

text \<open>The conditions of the declaration, in the order in which they are tried.\<close>

definition parse_computed :: "ontology_property dict \<Rightarrow> string \<Rightarrow> fields \<Rightarrow> (computed_filter \<times> filter_words) res" where
  "parse_computed props name d =
     bind_res (only_keys d [''aliases'', ''label'', ''unit'', ''source_property'', ''transform'', ''mode'', ''reference'',
       ''require_past'', ''minimum'', ''maximum'', ''type'', ''applies_to'', ''filter_operators'']) (\<lambda>_.
     bind_res (guard (map_of props name = None) ValueError) (\<lambda>_.
     bind_res (parse_contract d) (\<lambda>c.
     bind_res (chosen_from (get_or_None d ''source_property'') (map fst props)) (\<lambda>source.
     bind_res (guard (get_or_None d ''transform'' = VStr ''date_difference'') ValueError) (\<lambda>_.
     bind_res (chosen_from (get_or_None d ''mode'') [''years'', ''months'', ''days'']) (\<lambda>mode.
     bind_res (guard (get_or_None d ''reference'' = VStr ''household_now'') ValueError) (\<lambda>_.
     bind_res (any_boolean (get_default d ''require_past'' (VBool False))) (\<lambda>past.
     bind_res (parse_int (get_or_None d ''minimum'')) (\<lambda>low.
     bind_res (parse_int (get_or_None d ''maximum'')) (\<lambda>high.
     let stored = (case map_of props source of None \<Rightarrow> c | Some p \<Rightarrow> on_contract p) in
     bind_res (guard (0 \<le> low \<and> low \<le> high \<and> execution_kind (pc_type c) = ''integer'' \<and> pc_relationships c = []
         \<and> set (pc_entities c) \<subseteq> set (pc_entities stored) \<and> set (kinds (pc_type stored)) \<subseteq> {''date'', ''datetime''}) ValueError) (\<lambda>_.
     bind_res (doc_strings (get_default d ''aliases'' (VList []))) (\<lambda>aliases.
     bind_res (doc_labels (get_default d ''label'' (VDict []))) (\<lambda>label.
     bind_res (doc_labels (get_default d ''unit'' (VDict []))) (\<lambda>unit_label.
       Inr (\<lparr>cf_source = source, cf_transform = ''date_difference'', cf_mode = mode, cf_past = past, cf_minimum = low,
             cf_maximum = high, cf_contract = c\<rparr>,
         \<lparr>fw_aliases = aliases, fw_label = label, fw_unit = unit_label\<rparr>)))))))))))))))"

section \<open>Relations and concepts\<close>

definition parse_base_relation :: "string \<Rightarrow> fields \<Rightarrow> string res" where
  "parse_base_relation name d = (if has_keys d [''edge''] then any_string (get_or_None d ''edge'') else Inl ValueError)"

definition scalar :: "pyval \<Rightarrow> bool" where
  "scalar v \<longleftrightarrow> (case v of VStr s \<Rightarrow> True | VInt i \<Rightarrow> True | VFloat f \<Rightarrow> True | VBool b \<Rightarrow> True | _ \<Rightarrow> False)"

definition parse_concept_filter :: "pyval \<Rightarrow> ontology_filter res" where
  "parse_concept_filter raw =
     bind_res (doc_mapping raw) (\<lambda>d.
     bind_res (only_keys d [''property'', ''operator'', ''value'', ''source'', ''value_from'', ''value_property'']) (\<lambda>_.
     bind_res (any_string (get_or_None d ''property'')) (\<lambda>name.
     bind_res (chosen_from (get_default d ''operator'' (VStr ''eq'')) predicate_operators) (\<lambda>test.
     bind_res (chosen_from (get_default d ''source'' (VStr ''entity'')) [''entity'', ''relation'']) (\<lambda>source.
     bind_res (optional_of (\<lambda>v. chosen_from v [''anchor'']) (get_or_None d ''value_from'')) (\<lambda>anchor.
     bind_res (optional_of any_string (get_or_None d ''value_property'')) (\<lambda>target.
     let value = get_or_None d ''value'' in
     if (target \<noteq> None \<and> anchor = None) \<or> (anchor \<noteq> None \<and> source \<noteq> ''entity'') \<or> (value \<noteq> VNone \<and> \<not> scalar value)
        \<or> (anchor \<noteq> None \<and> value \<noteq> VNone)
     then Inl ValueError
     else Inr \<lparr>of_property = name, of_operator = test, of_value = value, of_source = source, of_value_from = anchor,
       of_value_property = target\<rparr>)))))))"

text \<open>What a loop over the declared filters runs over: the elements of a list, the keys of an object, the characters of
  a string. The keys and characters are no filters, so that only empty ones pass.\<close>

definition iterated :: "pyval \<Rightarrow> pyval list res" where
  "iterated v = (case v of
     VList vs \<Rightarrow> Inr vs
   | VDict d \<Rightarrow> Inr (map (VStr \<circ> fst) d)
   | VStr s \<Rightarrow> Inr (map (\<lambda>c. VStr [c]) s)
   | _ \<Rightarrow> Inl TypeError)"

definition parse_concept_step :: "string dict \<Rightarrow> pyval \<Rightarrow> (string \<times> ontology_filter list) res" where
  "parse_concept_step rels raw =
     bind_res (doc_mapping raw) (\<lambda>d.
     bind_res (only_keys d [''relation'', ''filters'']) (\<lambda>_.
     bind_res (any_string (get_or_None d ''relation'')) (\<lambda>rel.
     bind_res (guard (map_of rels rel \<noteq> None) ValueError) (\<lambda>_.
     bind_res (iterated (get_default d ''filters'' (VList []))) (\<lambda>vs.
     bind_res (map_res parse_concept_filter vs) (\<lambda>fs. Inr (rel, fs)))))))"

definition parse_concept :: "string dict \<Rightarrow> string \<Rightarrow> fields \<Rightarrow> ((string \<times> ontology_filter list) list \<times> concept_words) res" where
  "parse_concept rels name d =
     bind_res (only_keys d [''aliases'', ''path'', ''label'', ''count_label'']) (\<lambda>_.
     bind_res (doc_strings (get_or_None d ''aliases'')) (\<lambda>aliases.
     bind_res (case get_or_None d ''path'' of VList vs \<Rightarrow> if vs = [] then Inl ValueError else Inr vs | _ \<Rightarrow> Inl ValueError) (\<lambda>vs.
     bind_res (map_res (parse_concept_step rels) vs) (\<lambda>path.
     bind_res (doc_labels (get_default d ''label'' (VDict []))) (\<lambda>label.
     bind_res (doc_labels (get_default d ''count_label'' (VDict []))) (\<lambda>counted.
       Inr (path, \<lparr>cw_aliases = aliases, cw_label = label, cw_count_label = counted\<rparr>)))))))"

section \<open>Policies and predicates\<close>

definition policy_number :: "pyval \<Rightarrow> bool" where
  "policy_number v \<longleftrightarrow> (case v of
     VInt i \<Rightarrow> 0 \<le> i
   | VFloat f \<Rightarrow> py_less False v (VInt 0) \<noteq> Inr True
   | _ \<Rightarrow> False)"

definition parse_policy_values :: "pyval \<Rightarrow> fields res" where
  "parse_policy_values v = bind_res (doc_mapping v) (\<lambda>d. if list_all (\<lambda>(k, w). policy_number w) d then Inr d else Inl ValueError)"

definition parse_fallback :: "fields \<Rightarrow> pyval \<Rightarrow> predicate_fallback res" where
  "parse_fallback policies v =
     bind_res (doc_mapping v) (\<lambda>d.
     bind_res (guard (set (map fst d) - {''mode'', ''require_past''} = {''property'', ''transform'', ''operator'', ''value_from_policy''})
       ValueError) (\<lambda>_.
     bind_res (nonempty_string (get_or_None d ''property'')) (\<lambda>name.
     bind_res (nonempty_string (get_or_None d ''transform'')) (\<lambda>transform.
     bind_res (nonempty_string (get_or_None d ''operator'')) (\<lambda>test.
     bind_res (nonempty_string (get_or_None d ''value_from_policy'')) (\<lambda>policy.
     bind_res (guard (case map_of operators transform of None \<Rightarrow> False | Some p \<Rightarrow> od_run p \<noteq> None) ValueError) (\<lambda>_.
     bind_res (any_boolean (get_default d ''require_past'' (VBool False))) (\<lambda>past.
     bind_res (optional_of (\<lambda>v. chosen_from v [''years'', ''months'', ''days'', ''seconds'']) (get_or_None d ''mode'')) (\<lambda>mode.
       if transform = ''date_difference'' \<and> mode = None then Inl ValueError
       else if test \<notin> set predicate_operators then Inl ValueError
       else if map_of policies policy = None then Inl ValueError
       else Inr \<lparr>fb_property = name, fb_transform = transform, fb_operator = test, fb_policy = policy, fb_mode = mode,
         fb_past = past\<rparr>)))))))))"

definition parse_predicate :: "fields \<Rightarrow> string \<Rightarrow> fields \<Rightarrow> (collection_predicate \<times> predicate_words) res" where
  "parse_predicate policies name d =
     bind_res (only_keys d [''aliases'', ''entity_types'', ''relation_property'', ''recognized_values'', ''matching_values'',
       ''fallback'', ''default_scope_relation'', ''label'', ''modifier'', ''disjoint_with'']) (\<lambda>_.
     bind_res (nonempty_string (get_or_None d ''relation_property'')) (\<lambda>role.
     bind_res (optional_of nonempty_string (get_or_None d ''default_scope_relation'')) (\<lambda>scope.
     bind_res (doc_strings (get_or_None d ''recognized_values'')) (\<lambda>recognized.
     bind_res (doc_strings (get_or_None d ''matching_values'')) (\<lambda>matching.
     bind_res (guard (set matching \<subseteq> set recognized) ValueError) (\<lambda>_.
     bind_res (parse_fallback policies (get_or_None d ''fallback'')) (\<lambda>fallback.
     bind_res (doc_strings (get_or_None d ''aliases'')) (\<lambda>aliases.
     bind_res (doc_strings (get_or_None d ''entity_types'')) (\<lambda>entities.
     bind_res (doc_labels (get_default d ''label'' (VDict []))) (\<lambda>label.
     bind_res (doc_labels (get_default d ''modifier'' (VDict []))) (\<lambda>modifier.
     bind_res (unique_strings (get_default d ''disjoint_with'' (VList []))) (\<lambda>disjoint.
       Inr (\<lparr>cp_entities = entities, cp_relation_property = role, cp_recognized = recognized, cp_matching = matching,
             cp_fallback = fallback, cp_disjoint = disjoint\<rparr>,
         \<lparr>qw_aliases = aliases, qw_scope = scope, qw_label = label, qw_modifier = modifier\<rparr>)))))))))))))"

section \<open>The declarations together\<close>

text \<open>Two predicates that exclude each other say so both.\<close>

definition disjoint_declared :: "collection_predicate dict \<Rightarrow> bool" where
  "disjoint_declared ps \<longleftrightarrow> list_all (\<lambda>(n, p). list_all (\<lambda>m. m \<noteq> n
     \<and> (case map_of ps m of None \<Rightarrow> False | Some q \<Rightarrow> n \<in> set (cp_disjoint q))) (cp_disjoint p)) ps"

definition concept_filter_valid :: "ontology_property dict \<Rightarrow> string \<Rightarrow> ontology_filter \<Rightarrow> bool" where
  "concept_filter_valid props rel f \<longleftrightarrow> (case map_of props (of_property f) of
     None \<Rightarrow> False
   | Some p \<Rightarrow> literal_error (on_contract p) (of_operator f) (of_value f) (of_value_from f \<noteq> None) = None
       \<and> (case of_value_property f of None \<Rightarrow> True | Some n \<Rightarrow> n = [] \<or> map_of props n \<noteq> None)
       \<and> (of_source f = ''relation'' \<longrightarrow> rel \<in> set (pc_relationships (on_contract p))))"

definition predicate_valid ::
  "ontology_property dict \<Rightarrow> collection_predicate dict \<Rightarrow> collection_predicate \<Rightarrow> string option \<Rightarrow> bool" where
  "predicate_valid props ps p scope \<longleftrightarrow>
     (case (map_of props (cp_relation_property p), map_of props (fb_property (cp_fallback p)),
            map_of operators (fb_transform (cp_fallback p))) of
        (Some r, Some b, Some t) \<Rightarrow>
          set (cp_entities p) \<subseteq> set (pc_entities (on_contract b))
          \<and> (''any'' \<in> set (od_field_kinds t) \<or> set (kinds (pc_type (on_contract b))) \<subseteq> set (od_field_kinds t))
          \<and> (case scope of None \<Rightarrow> True | Some rel \<Rightarrow> rel \<in> set (pc_relationships (on_contract r)))
          \<and> list_all (\<lambda>v. contract_accepts (on_contract r) (VStr v)) (cp_recognized p)
          \<and> list_all (\<lambda>m. case map_of ps m of None \<Rightarrow> False
              | Some q \<Rightarrow> \<not> (cp_relation_property p = cp_relation_property q \<and> set (cp_matching p) \<inter> set (cp_matching q) \<noteq> {})
                  \<and> cp_fallback p \<noteq> cp_fallback q) (cp_disjoint p)
      | _ \<Rightarrow> False)"

text \<open>The constructor: no alias, in lower case, stands for two concepts or predicates.\<close>

definition concept_aliases :: "vocabulary \<Rightarrow> string list" where
  "concept_aliases w = concat (map (\<lambda>(n, c). map casefold (cw_aliases c)) (vo_concepts w))"

definition predicate_names :: "vocabulary \<Rightarrow> (string \<times> string) list" where
  "predicate_names w = concat (map (\<lambda>(n, q). map (\<lambda>a. (casefold a, n)) (n # qw_aliases q)) (vo_predicates w))"

definition new_vocabulary :: "vocabulary \<Rightarrow> vocabulary res" where
  "new_vocabulary w = (if distinct (concept_aliases w) \<and> distinct (map fst (predicate_names w)) then Inr w else Inl ValueError)"

definition first_parts :: "('a \<times> 'b) dict \<Rightarrow> 'a dict" where "first_parts xs = map (\<lambda>(n, a, b). (n, a)) xs"
definition second_parts :: "('a \<times> 'b) dict \<Rightarrow> 'b dict" where "second_parts xs = map (\<lambda>(n, a, b). (n, b)) xs"

text \<open>What holds of the declarations together.\<close>

definition declarations_valid :: "vocabulary \<Rightarrow> bool" where
  "declarations_valid w \<longleftrightarrow> (let o' = vo_ontology w; props = ot_properties o'; ps = ot_predicates o' in
     list_all (\<lambda>(n, q). case qw_scope q of None \<Rightarrow> True | Some r \<Rightarrow> map_of (ot_relations o') r \<noteq> None) (vo_predicates w)
     \<and> disjoint_declared ps
     \<and> list_all (\<lambda>(n, p). list_all (\<lambda>r. map_of (ot_relations o') r \<noteq> None) (pc_relationships (on_contract p))) props
     \<and> list_all (\<lambda>(n, path). list_all (\<lambda>(r, fs). list_all (concept_filter_valid props r) fs) path) (ot_concepts o')
     \<and> list_all (\<lambda>(n, p). predicate_valid props ps p (case map_of (vo_predicates w) n of None \<Rightarrow> None | Some q \<Rightarrow> qw_scope q)) ps)"

definition assemble :: "(ontology_property \<times> property_words) dict \<Rightarrow> (computed_filter \<times> filter_words) dict \<Rightarrow> string dict
    \<Rightarrow> ((string \<times> ontology_filter list) list \<times> concept_words) dict \<Rightarrow> fields \<Rightarrow> (collection_predicate \<times> predicate_words) dict
    \<Rightarrow> vocabulary" where
  "assemble props computed rels concepts policies preds =
     \<lparr>vo_ontology = \<lparr>ot_properties = first_parts props, ot_computed = first_parts computed, ot_relations = rels,
        ot_concepts = first_parts concepts, ot_policy = policies, ot_predicates = first_parts preds\<rparr>,
      vo_properties = second_parts props, vo_computed = second_parts computed, vo_concepts = second_parts concepts,
      vo_predicates = second_parts preds\<rparr>"

definition checked_vocabulary :: "vocabulary \<Rightarrow> vocabulary res" where
  "checked_vocabulary w = (if declarations_valid w then new_vocabulary w else Inl ValueError)"

definition parse_ontology :: "pyval \<Rightarrow> vocabulary res" where
  "parse_ontology raw =
     bind_res (doc_mapping raw) (\<lambda>d.
     bind_res (only_keys d [''version'', ''properties'', ''computed_filters'', ''base_relations'', ''reference_concepts'',
       ''policy_values'', ''collection_predicates'']) (\<lambda>_.
     bind_res (guard (py_eq (get_or_None d ''version'') (VInt 2)) ValueError) (\<lambda>_.
     bind_res (each_entry parse_property (get_or_None d ''properties'')) (\<lambda>props.
     bind_res (each_entry (parse_computed (first_parts props)) (get_default d ''computed_filters'' (VDict []))) (\<lambda>computed.
     bind_res (each_entry parse_base_relation (get_or_None d ''base_relations'')) (\<lambda>rels.
     bind_res (each_entry (parse_concept rels) (get_or_None d ''reference_concepts'')) (\<lambda>concepts.
     bind_res (parse_policy_values (get_default d ''policy_values'' (VDict []))) (\<lambda>policies.
     bind_res (each_entry (parse_predicate policies) (get_default d ''collection_predicates'' (VDict []))) (\<lambda>preds.
       checked_vocabulary (assemble props computed rels concepts policies preds))))))))))"

text \<open>\<open>from_file\<close> and \<open>load_default\<close>: a candidate is absent or holds a document.\<close>

definition ontology_from_file :: "pyval option \<Rightarrow> vocabulary res" where
  "ontology_from_file f = (case f of None \<Rightarrow> Inl FileNotFoundError | Some v \<Rightarrow> parse_ontology v)"

definition load_default_ontology :: "pyval option list \<Rightarrow> vocabulary res" where
  "load_default_ontology candidates = ontology_from_file (case find (\<lambda>c. c \<noteq> None) candidates of None \<Rightarrow> None | Some c \<Rightarrow> c)"

section \<open>Queries\<close>

definition property_fields :: "vocabulary \<Rightarrow> string \<Rightarrow> string list" where
  "property_fields w n = (case map_of (ot_properties (vo_ontology w)) n of None \<Rightarrow> [n] | Some p \<Rightarrow> on_fields p)"

definition resolve_collection_predicate :: "vocabulary \<Rightarrow> string \<Rightarrow> string option" where
  "resolve_collection_predicate w s = map_of (rev (predicate_names w)) (casefold s)"

end
