(* ===== verification/Concepts.thy ===== *)
theory Concepts
  imports Ontology
begin

text \<open>
  The schema of a deployment from its data (\<open>RuntimeSchemaCatalog.from_data_dir\<close> in \<open>persistence/schema_catalog.py\<close>), the
  reference concepts that it can follow, and their expansion in the output of the interpreter
  (\<open>semantic/schema.py\<close>). The files of a data directory are dynamic values, parsed by the JSON library.
\<close>

section \<open>The catalog of a data directory\<close>

record data_directory =
  dd_node_files :: "(string \<times> pyval) list option"   \<comment> \<open>\<open>nodes/<table>.json\<close>; none without the directory\<close>
  dd_node_shards :: "(string \<times> pyval list) list"      \<comment> \<open>\<open>nodes/<table>/*.json\<close>\<close>
  dd_edge_files :: "(string \<times> pyval) list"            \<comment> \<open>\<open>edges/<relation>.json\<close>\<close>

text \<open>The JSON sources of each table, by name: a file or its shards, not both.\<close>

fun add_shards :: "(string \<times> pyval list) list \<Rightarrow> (string \<times> pyval list) list \<Rightarrow> (string \<times> pyval list) list res" where
  "add_shards tables [] = Inr tables"
| "add_shards tables ((n, vs) # ds) =
     (if \<not> table_name n then Inl ValueError
      else if vs = [] then add_shards tables ds
      else if map_of tables n \<noteq> None then Inl ValueError
      else add_shards (tables @ [(n, vs)]) ds)"

definition node_table_sources :: "data_directory \<Rightarrow> (string \<times> pyval list) list res" where
  "node_table_sources dir = (case dd_node_files dir of
     None \<Rightarrow> Inr []
   | Some files \<Rightarrow>
       if list_ex (\<lambda>(n, v). \<not> table_name n) files then Inl ValueError
       else bind_res (add_shards (map (\<lambda>(n, v). (n, [v])) files) (dd_node_shards dir)) (\<lambda>tables. Inr (sort_key fst tables)))"

definition json_records :: "pyval \<Rightarrow> fields list res" where
  "json_records v = (case v of
     VList vs \<Rightarrow> Inr (concat (map (\<lambda>w. case w of VDict d \<Rightarrow> [d] | _ \<Rightarrow> []) vs)) | _ \<Rightarrow> Inl ValueError)"

definition infer_property_types :: "fields list \<Rightarrow> string list \<Rightarrow> string dict" where
  "infer_property_types rs names = filter (\<lambda>(f, k). k \<noteq> ''unknown'')
     (map (\<lambda>f. (f, infer_field_kind (concat (map (\<lambda>r. case map_of r f of None \<Rightarrow> [] | Some v \<Rightarrow> [v]) rs)))) names)"

definition value_kinds :: "string list" where
  "value_kinds = [''unknown'', ''any'', ''boolean'', ''integer'', ''number'', ''string'', ''date'', ''datetime'', ''object'',
     ''collection'', ''record'']"

definition types_valid :: "string list \<Rightarrow> string dict \<Rightarrow> bool" where
  "types_valid ps ts \<longleftrightarrow> set (map fst ts) \<subseteq> set ps \<and> set (map snd ts) \<subseteq> set value_kinds"

definition new_entity :: "string list \<Rightarrow> string dict \<Rightarrow> entity_schema res" where
  "new_entity ps ts = (if types_valid ps ts then Inr \<lparr>en_properties = ps, en_types = ts\<rparr> else Inl ValueError)"

definition new_relation :: "edge_schema \<Rightarrow> string list \<Rightarrow> string dict \<Rightarrow> relation_schema res" where
  "new_relation s ps ts = (if types_valid ps ts
     then Inr \<lparr>rl_from = es_from s, rl_to = es_to s, rl_properties = ps, rl_types = ts\<rparr> else Inl ValueError)"

text \<open>\<open>sorted({key for record in records for key in record})\<close>\<close>

definition record_keys :: "fields list \<Rightarrow> string list" where
  "record_keys rs = sort (remdups (concat (map (map fst) rs)))"

definition read_tables :: "(string \<times> pyval list) list \<Rightarrow> entity_schema dict res" where
  "read_tables = map_res (\<lambda>(n, vs). bind_res (map_res json_records vs) (\<lambda>rss. let rs = concat rss; names = record_keys rs in
     bind_res (new_entity names (infer_property_types rs names)) (\<lambda>e. Inr (n, e))))"

definition with_endpoint :: "string \<Rightarrow> entity_schema dict \<Rightarrow> entity_schema dict" where
  "with_endpoint n es = (if map_of es n \<noteq> None then es else es @ [(n, \<lparr>en_properties = [], en_types = []\<rparr>)])"

text \<open>The attributes of items that may be written are known before any item has a value.\<close>

definition writable_types :: "vocabulary \<Rightarrow> string dict" where
  "writable_types w = concat (map (\<lambda>(n, p). case (map_of (vo_properties w) n, on_fields p) of
     (Some q, f # fs) \<Rightarrow> (case pw_writable q of Some k \<Rightarrow> if k = [] then [] else [(f, k)] | None \<Rightarrow> []) | _ \<Rightarrow> [])
       (ot_properties (vo_ontology w)))"

definition with_item :: "vocabulary res \<Rightarrow> entity_schema dict \<Rightarrow> entity_schema dict res" where
  "with_item voc es = (case map_of es ''item'' of
     None \<Rightarrow> Inr es
   | Some e \<Rightarrow> bind_res voc (\<lambda>w. let ts = fold (\<lambda>(f, k) ts. AList.update f k ts) (writable_types w) (en_types e) in
       bind_res (new_entity (sort (remdups (en_properties e @ map fst ts))) ts) (\<lambda>e'. Inr (AList.update ''item'' e' es))))"

definition read_relation :: "data_directory \<Rightarrow> registry \<Rightarrow> string \<Rightarrow> (string \<times> relation_schema) res" where
  "read_relation dir g n =
     bind_res (get_schema g n) (\<lambda>s.
     bind_res (case map_of (dd_edge_files dir) n of None \<Rightarrow> Inr [] | Some v \<Rightarrow> json_records v) (\<lambda>rs.
     let names = filter (\<lambda>k. k \<notin> {''from'', ''to'', ''id''}) (record_keys rs);
         ps = sort (remdups (names @ (if es_temporal s then [''start'', ''end''] else [])))
     in bind_res (new_relation s ps (infer_property_types rs ps)) (\<lambda>r. Inr (n, r))))"

definition from_data_dir :: "data_directory \<Rightarrow> vocabulary res \<Rightarrow> registry \<Rightarrow> schema_catalog res" where
  "from_data_dir dir voc g =
     bind_res (node_table_sources dir) (\<lambda>tables.
     bind_res (read_tables tables) (\<lambda>es.
     bind_res (map_res (get_schema g) (relationship_names g)) (\<lambda>ss.
     bind_res (with_item voc (fold with_endpoint (concat (map (\<lambda>s. es_from s @ es_to s) ss)) es)) (\<lambda>es'.
     bind_res (map_res (read_relation dir g) (relationship_names g)) (\<lambda>rs.
       Inr \<lparr>ca_entities = es', ca_relations = rs\<rparr>)))))"

section \<open>Concepts that can be followed\<close>

text \<open>\<open>item.value_property or item.property\<close>\<close>

definition anchor_target :: "ontology_filter \<Rightarrow> string" where
  "anchor_target f = (case of_value_property f of Some n \<Rightarrow> if n = [] then of_property f else n | None \<Rightarrow> of_property f)"

definition concept_filter_bound :: "semantic_schema \<Rightarrow> string \<Rightarrow> string \<Rightarrow> string list \<Rightarrow> ontology_filter \<Rightarrow> bool res" where
  "concept_filter_bound s start rel ts f = (case contract_of s (Some (of_property f)) of
     None \<Rightarrow> Inl KeyError
   | Some c \<Rightarrow>
       if of_source f \<noteq> ''entity'' then Inr (bound (sc_relation_bindings s) rel (of_property f))
       else if \<not> set ts \<subseteq> set (pc_entities c) then Inl ValueError
       else let ok = (semantic_kind s ts (Some (of_property f)) \<noteq> None) in
         if of_value_from f = None then Inr ok
         else (case contract_of s (Some (anchor_target f)) of
             None \<Rightarrow> Inl KeyError
           | Some k \<Rightarrow> if pc_type c \<noteq> pc_type k then Inl ValueError
               else Inr (ok \<and> bound (sc_entity_bindings s) start (anchor_target f))))"

fun concept_walk :: "semantic_schema \<Rightarrow> string \<Rightarrow> (string \<times> ontology_filter list) list \<Rightarrow> string list \<Rightarrow> bool res" where
  "concept_walk s start [] ts = Inr True"
| "concept_walk s start ((rel, fs) # ps) ts = (case traversal_target_types s rel ts of
     None \<Rightarrow> Inr False
   | Some us \<Rightarrow> if us = [] then Inr False
       else bind_res (map_res (concept_filter_bound s start rel us) fs) (\<lambda>bs.
            bind_res (concept_walk s start ps us) (\<lambda>b. Inr (list_all (\<lambda>x. x) bs \<and> b))))"

fun concept_from :: "semantic_schema \<Rightarrow> (string \<times> ontology_filter list) list \<Rightarrow> string list \<Rightarrow> bool res" where
  "concept_from s path [] = Inr False"
| "concept_from s path (start # rs) = bind_res (concept_walk s start path [start]) (\<lambda>b. if b then Inr True else concept_from s path rs)"

definition available_concepts :: "semantic_schema \<Rightarrow> string list res" where
  "available_concepts s =
     bind_res (map_res (\<lambda>(n, path). bind_res (concept_from s path (map fst (ca_entities (sc_catalog s)))) (\<lambda>b. Inr (n, b)))
       (ot_concepts (sc_ontology s))) (\<lambda>nbs. Inr (map fst (filter snd nbs)))"

section \<open>Expansion\<close>

definition when_not :: "'a \<Rightarrow> ('a \<Rightarrow> pyval) \<Rightarrow> string \<Rightarrow> 'a \<Rightarrow> fields" where
  "when_not standard show n v = (if v = standard then [] else [(n, show v)])"

text \<open>A declared filter, with the options that differ from the defaults.\<close>

definition concept_filter_payload :: "ontology_filter \<Rightarrow> pyval" where
  "concept_filter_payload f = VDict ([(''property'', VStr (of_property f))] @ when_not ''eq'' VStr ''operator'' (of_operator f)
     @ when_not VNone (\<lambda>v. v) ''value'' (of_value f) @ when_not ''entity'' VStr ''source'' (of_source f)
     @ when_not None (opt_val VStr) ''value_from'' (of_value_from f)
     @ when_not None (opt_val VStr) ''value_property'' (of_value_property f))"

definition concept_step_payload :: "string \<times> ontology_filter list \<Rightarrow> fields" where
  "concept_step_payload p = (''relation'', VStr (fst p))
     # (if snd p = [] then [] else [(''filters'', VList (map concept_filter_payload (snd p)))])"

definition concept_payload :: "semantic_schema \<Rightarrow> string list \<Rightarrow> string \<Rightarrow> fields list option" where
  "concept_payload s available n = (if n \<notin> set available then None
     else map_option (map concept_step_payload) (map_of (ot_concepts (sc_ontology s)) n))"

text \<open>Further filters of a use of a concept belong to its last step.\<close>

definition more_filters :: "pyval list \<Rightarrow> fields \<Rightarrow> pyval list res" where
  "more_filters extra d = bind_res (iterated (get_default d ''filters'' (VList []))) (\<lambda>vs. Inr (vs @ extra))"

definition with_filters :: "pyval list \<Rightarrow> fields list \<Rightarrow> fields list res" where
  "with_filters extra ds = (if extra = [] then Inr ds
     else if ds = [] then Inl IndexError
     else bind_res (more_filters extra (last ds)) (\<lambda>vs. Inr (butlast ds @ [AList.update ''filters'' (VList vs) (last ds)])))"

text \<open>\<open>use\<close> is the model of a concept use: its name and its filters, dumped without what is none; none when it refuses.\<close>

definition expand_step :: "semantic_schema \<Rightarrow> string list \<Rightarrow> (fields \<Rightarrow> (string \<times> pyval list) option) \<Rightarrow> pyval \<Rightarrow> pyval list res" where
  "expand_step s available use v = (case v of
     VDict d \<Rightarrow> if map_of d ''concept'' = None then Inr [v]
       else (case use d of
           None \<Rightarrow> Inl ValueError
         | Some (n, extra) \<Rightarrow> (case concept_payload s available n of
             None \<Rightarrow> Inl ValueError
           | Some ds \<Rightarrow> bind_res (with_filters extra ds) (\<lambda>ds'. Inr (map VDict ds'))))
   | _ \<Rightarrow> Inr [v])"

text \<open>A named entity whose first relation only one type of entity has, has that type.\<close>

definition legal_types :: "semantic_schema \<Rightarrow> string \<Rightarrow> string list" where
  "legal_types s rel = filter (\<lambda>t. case traversal_target_types s rel [t] of None \<Rightarrow> False | Some us \<Rightarrow> us \<noteq> [])
     (map fst (ca_entities (sc_catalog s)))"

definition first_relation :: "pyval list \<Rightarrow> string option" where
  "first_relation path = (case path of
     VDict e # vs \<Rightarrow> (case get_or_None e ''relation'' of VStr rel \<Rightarrow> Some rel | _ \<Rightarrow> None) | _ \<Rightarrow> None)"

definition complete_type :: "semantic_schema \<Rightarrow> pyval list \<Rightarrow> fields \<Rightarrow> fields res" where
  "complete_type s path d = (if get_or_None d ''kind'' \<noteq> VStr ''named_entity'' then Inr d
     else case map_option (legal_types s) (first_relation path) of
       Some [t] \<Rightarrow> bind_res (mode_in (get_or_None d ''entity_type'') [VStr t]) (\<lambda>b.
         Inr (if b then d else AList.update ''entity_type'' (VStr t) d))
     | _ \<Rightarrow> Inr d)"

definition expand_reference :: "semantic_schema \<Rightarrow> string list \<Rightarrow> (fields \<Rightarrow> (string \<times> pyval list) option) \<Rightarrow> pyval \<Rightarrow> pyval res" where
  "expand_reference s available use v = (case v of
     VDict d \<Rightarrow> (case get_default d ''path'' (VList []) of
         VList vs \<Rightarrow> bind_res (map_res (expand_step s available use) vs) (\<lambda>vss.
           bind_res (complete_type s (concat vss) (AList.update ''path'' (VList (concat vss)) d)) (\<lambda>e. Inr (VDict e)))
       | _ \<Rightarrow> Inr v)
   | _ \<Rightarrow> Inr v)"

definition expand_key :: "semantic_schema \<Rightarrow> string list \<Rightarrow> (fields \<Rightarrow> (string \<times> pyval list) option) \<Rightarrow> string \<Rightarrow> fields \<Rightarrow> fields res" where
  "expand_key s available use k d = (case map_of d k of
     Some (VDict e) \<Rightarrow> bind_res (expand_reference s available use (VDict e)) (\<lambda>v. Inr (AList.update k v d))
   | _ \<Rightarrow> Inr d)"

definition expand_excluded :: "semantic_schema \<Rightarrow> string list \<Rightarrow> (fields \<Rightarrow> (string \<times> pyval list) option) \<Rightarrow> fields \<Rightarrow> fields res" where
  "expand_excluded s available use d = (case map_of d ''exclude'' of
     Some (VList vs) \<Rightarrow> bind_res (map_res (expand_reference s available use) vs) (\<lambda>ws. Inr (AList.update ''exclude'' (VList ws) d))
   | _ \<Rightarrow> Inr d)"

definition expand_planner_concepts :: "semantic_schema \<Rightarrow> string list \<Rightarrow> (fields \<Rightarrow> (string \<times> pyval list) option) \<Rightarrow> fields \<Rightarrow> fields res" where
  "expand_planner_concepts s available use payload = (case get_or_None payload ''request'' of
     VDict d \<Rightarrow>
       bind_res (expand_excluded s available use d) (\<lambda>d1.
       bind_res (expand_key s available use ''subject'' d1) (\<lambda>d2.
       bind_res (expand_key s available use ''other'' d2) (\<lambda>d3.
         Inr (AList.update ''request'' (VDict d3) payload))))
   | _ \<Rightarrow> Inr payload)"

end
