(* ===== verification/ConceptFacts.thy ===== *)
theory ConceptFacts
  imports Concepts OperatorFacts Resolver
begin

text \<open>
  What the parsed vocabulary guarantees of the requests made from it: the concepts that a deployment advertises are
  accepted by its own validator, expansion leaves none of them behind, and computed filters are decided.
\<close>

section \<open>What the parser guarantees\<close>

lemma each_entry_member:
  assumes "each_entry f v = Inr ns" and "(n, a) \<in> set ns"
  obtains d where "f n d = Inr a"
  using assms by (auto simp: each_entry_def bind_res_Inr_iff dest!: map_res_member)

lemma first_parts_member: "(n, a) \<in> set (first_parts xs) \<longleftrightarrow> (\<exists>b. (n, a, b) \<in> set xs)"
  by (force simp: first_parts_def)

text \<open>A vocabulary that the parser accepts.\<close>

lemma checked_vocabularyD:
  "checked_vocabulary v = Inr w \<Longrightarrow> w = v \<and> declarations_valid v \<and> distinct (map fst (predicate_names v))"
  by (auto simp: checked_vocabulary_def new_vocabulary_def split: if_splits)

lemma parse_ontologyD:
  assumes "parse_ontology raw = Inr w"
  obtains props computed rels concepts policies preds where
    "w = assemble props computed rels concepts policies preds" "declarations_valid w" "distinct (map fst (predicate_names w))"
    "\<And>n p. (n, p) \<in> set props \<Longrightarrow> \<exists>d. parse_property n d = Inr p"
    "\<And>n p. (n, p) \<in> set computed \<Longrightarrow> \<exists>d. parse_computed (first_parts props) n d = Inr p"
    "\<And>n p. (n, p) \<in> set concepts \<Longrightarrow> \<exists>d. parse_concept rels n d = Inr p"
    "\<And>n p. (n, p) \<in> set preds \<Longrightarrow> \<exists>d. parse_predicate policies n d = Inr p"
proof -
  from assms obtain d props computed rels concepts policies preds where
    e: "each_entry parse_property (get_or_None d ''properties'') = Inr props"
       "each_entry (parse_computed (first_parts props)) (get_default d ''computed_filters'' (VDict [])) = Inr computed"
       "each_entry (parse_concept rels) (get_or_None d ''reference_concepts'') = Inr concepts"
       "each_entry (parse_predicate policies) (get_default d ''collection_predicates'' (VDict [])) = Inr preds"
    and w: "checked_vocabulary (assemble props computed rels concepts policies preds) = Inr w"
    unfolding parse_ontology_def by (auto simp only: bind_res_Inr_iff)
  show ?thesis
  proof (rule that)
    show "\<exists>d. parse_property n d = Inr p" if "(n, p) \<in> set props" for n p by (rule each_entry_member[OF e(1) that]) blast
    show "\<exists>d. parse_computed (first_parts props) n d = Inr p" if "(n, p) \<in> set computed" for n p by (rule each_entry_member[OF e(2) that]) blast
    show "\<exists>d. parse_concept rels n d = Inr p" if "(n, p) \<in> set concepts" for n p by (rule each_entry_member[OF e(3) that]) blast
    show "\<exists>d. parse_predicate policies n d = Inr p" if "(n, p) \<in> set preds" for n p by (rule each_entry_member[OF e(4) that]) blast
  qed (use checked_vocabularyD[OF w] in auto)
qed

text \<open>A computed filter is no stored property, and is declared over dates.\<close>

lemma parse_computedD:
  assumes "parse_computed props n d = Inr (f, q)"
  shows "map_of props n = None \<and> (\<exists>p. map_of props (cf_source f) = Some p \<and> set (kinds (pc_type (on_contract p))) \<subseteq> {''date'', ''datetime''})
    \<and> cf_transform f = ''date_difference'' \<and> cf_mode f \<in> {''years'', ''months'', ''days''} \<and> (\<exists>e. parse_contract e = Inr (cf_contract f))"
proof -
  have one: "chosen_from v ks = Inr s \<Longrightarrow> s \<in> set ks" for v ks s
    by (auto simp: chosen_from_def mode_in_def bind_res_Inr_iff list_ex_iff split: pyval.splits if_splits)
  have known: "s \<in> set (map fst props) \<Longrightarrow> \<exists>p. map_of props s = Some p" for s
    by (cases "map_of props s") (auto simp: map_of_eq_None_iff)
  show ?thesis
    using assms unfolding parse_computed_def Let_def
    by (auto simp only: bind_res_Inr_iff guard_Inr_iff sum.inject prod.inject dest!: one known) auto
qed

section \<open>Concepts are accepted\<close>

definition concept_condition :: "ontology_filter \<Rightarrow> semantic_filter" where
  "concept_condition f = \<lparr>sf_property = Some (of_property f), sf_predicate = None, sf_operator = of_operator f, sf_value = of_value f,
     sf_source = of_source f, sf_value_from = of_value_from f, sf_value_property = of_value_property f, sf_transform = None,
     sf_mode = None\<rparr>"

definition concept_steps :: "(string \<times> ontology_filter list) list \<Rightarrow> relation_step list" where
  "concept_steps = map (\<lambda>(r, fs). \<lparr>st_relation = r, st_filters = map concept_condition fs\<rparr>)"

text \<open>A value taken from the anchor comes from a property with the same closed values.\<close>

definition same_domain :: "ontology_property dict \<Rightarrow> ontology_filter \<Rightarrow> bool" where
  "same_domain props f \<longleftrightarrow> of_value_from f = None \<or> (case (map_of props (of_property f), map_of props (anchor_target f)) of
     (Some p, Some q) \<Rightarrow> value_names (on_contract p) = value_names (on_contract q) | _ \<Rightarrow> True)"

lemma new_schemaD:
  assumes "new_schema c o' g = Inr s"
  shows "sc_ontology s = o'" "sc_catalog s = c" "sc_edges s = g"
    "bindings_of (bind_relation c o' g) pc_relationships o' = Inr (sc_relation_bindings s)"
  using assms by (auto simp: new_schema_def bind_res_Inr_iff)

lemma bindings_of_member:
  assumes "bindings_of f owners o' = Inr bs" and "b \<in> set bs"
  obtains name t bs' and p :: ontology_property where "f name (on_contract p) t = Inr bs'" "b \<in> set bs'"
proof -
  from assms(1) obtain tss where tss: "map_res (\<lambda>(name, p). bind_res (map_res (f name (on_contract p)) (owners (on_contract p))) (\<lambda>bs. Inr (concat bs)))
      (ot_properties o') = Inr tss" "bs = concat tss"
    by (auto simp: bindings_of_def bind_res_Inr_iff)
  with assms(2) obtain ts where ts: "ts \<in> set tss" "b \<in> set ts" by auto
  from map_res_member[OF tss(1) ts(1)] obtain np :: "string \<times> ontology_property" where np: "(case np of (name, p) \<Rightarrow>
      bind_res (map_res (f name (on_contract p)) (owners (on_contract p))) (\<lambda>bs. Inr (concat bs))) = Inr ts" by blast
  obtain name p where "np = (name, p)" by (cases np)
  with np obtain us where us: "map_res (f name (on_contract p)) (owners (on_contract p)) = Inr us" "ts = concat us"
    by (auto simp: bind_res_Inr_iff)
  with ts obtain bs' where bs': "bs' \<in> set us" "b \<in> set bs'" by auto
  from map_res_member[OF us(1) bs'(1)] obtain t where "f name (on_contract p) t = Inr bs'" by blast
  then show ?thesis using bs'(2) by (rule that)
qed

lemma relation_bound:
  assumes "new_schema c o' g = Inr s" and "bound (sc_relation_bindings s) rel n"
  shows "\<exists>tab dir. physical_relation s rel = Some (tab, dir) \<and> relation_property s tab n \<noteq> None"
proof -
  note s = new_schemaD[OF assms(1)]
  from assms(2) obtain f where b: "((rel, n), f) \<in> set (sc_relation_bindings s)" by (auto simp: bound_def dest: map_of_SomeD)
  obtain name t bs and p :: ontology_property where "bind_relation c o' g name (on_contract p) t = Inr bs" "((rel, n), f) \<in> set bs"
    by (rule bindings_of_member[OF s(4) b])
  then show ?thesis
    by (auto simp: bind_relation_def physical_relation_def relation_property_def s split: option.splits if_splits)
qed

lemma kinds_same: "pc_type c = pc_type k \<Longrightarrow> execution_kind (pc_type c) = execution_kind (pc_type k)"
  by simp

lemma filter_accepted:
  assumes s: "new_schema c o' g = Inr s" and comp: "map_of (ot_computed o') (of_property f) = None"
    "map_of (ot_computed o') (anchor_target f) = None"
    and valid: "concept_filter_valid (ot_properties o') rel f" "valid_filter (concept_condition f)" "same_domain (ot_properties o') f"
    and bnd: "concept_filter_bound s start rel us f = Inr True" and us: "us \<noteq> []"
  shows "contract_filter_error s (concept_condition f) us (Some rel) [start] = None
    \<and> \<not> step_filter_invalid s rel us [start] (concept_condition f)
    \<and> (if of_source f = ''entity'' then semantic_kind s us (Some (of_property f)) \<noteq> None
       else \<exists>tab dir. physical_relation s rel = Some (tab, dir) \<and> relation_property s tab (of_property f) \<noteq> None)"
proof -
  note sch = new_schemaD[OF s]
  from valid(1) obtain p where p: "map_of (ot_properties o') (of_property f) = Some p"
    and lit: "literal_error (on_contract p) (of_operator f) (of_value f) (of_value_from f \<noteq> None) = None"
    by (auto simp: concept_filter_valid_def split: option.splits)
  have c: "contract_of s (Some (of_property f)) = Some (on_contract p)" by (simp add: contract_of_def sch p)
  have nc: "computed_of s (Some (of_property f)) = None" "computed_of s (Some (anchor_target f)) = None"
    by (simp_all add: computed_of_def sch comp)
  have target: "filter_target (concept_condition f) = Some (anchor_target f)" and src: "of_source f \<in> {''entity'', ''relation''}"
    and anchor: "of_value_from f = None \<or> of_value_from f = Some ''anchor'' \<and> of_source f = ''entity''"
    using valid(2) by (auto simp: valid_filter_def concept_condition_def filter_target_def anchor_target_def opt_name_def table_name_def
        split: option.splits)
  show ?thesis
  proof (cases "of_source f = ''entity''")
    case True
    from bnd c True have k: "semantic_kind s us (Some (of_property f)) \<noteq> None"
      by (auto simp: concept_filter_bound_def Let_def split: if_splits option.splits)
    then have b: "list_all (\<lambda>t. bound (sc_entity_bindings s) t (of_property f)) us"
      and kind: "semantic_kind s us (Some (of_property f)) = Some (execution_kind (pc_type (on_contract p)))"
      by (auto simp: semantic_kind_def nc c split: if_splits)
    show ?thesis
    proof (cases "of_value_from f = None")
      case None: True
      then show ?thesis using True b c nc k kind lit us
        by (simp add: contract_filter_error_def step_filter_invalid_def valid_filter_kind_def all_bound_def concept_condition_def)
    next
      case anchored: False
      with bnd c True obtain q where q: "contract_of s (Some (anchor_target f)) = Some q" "pc_type (on_contract p) = pc_type q"
          "bound (sc_entity_bindings s) start (anchor_target f)"
        by (auto simp: concept_filter_bound_def Let_def split: if_splits option.splits)
      then obtain r where r: "map_of (ot_properties o') (anchor_target f) = Some r" "q = on_contract r"
        by (auto simp: contract_of_def sch)
      have "value_names (on_contract p) = value_names q" using valid(3) anchored by (simp add: same_domain_def p r)
      moreover have "semantic_kind s [start] (Some (anchor_target f)) = Some (execution_kind (pc_type q))"
        by (simp add: semantic_kind_def nc q)
      ultimately show ?thesis using True b c nc k kind lit us anchored q target anchor
        by (simp add: contract_filter_error_def step_filter_invalid_def valid_filter_kind_def all_bound_def concept_condition_def)
    qed
  next
    case False
    with src have src: "of_source f = ''relation''" by simp
    with anchor have unanchored: "of_value_from f = None" by simp
    from bnd c src have b: "bound (sc_relation_bindings s) rel (of_property f)"
      by (simp add: concept_filter_bound_def)
    from relation_bound[OF s b] obtain tab dir where "physical_relation s rel = Some (tab, dir)" "relation_property s tab (of_property f) \<noteq> None"
      by blast
    then show ?thesis using src unanchored b c nc lit
      by (auto simp: contract_filter_error_def step_filter_invalid_def valid_filter_kind_def concept_condition_def)
  qed
qed

lemma map_res_true: "map_res f xs = Inr bs \<Longrightarrow> list_all (\<lambda>b. b) bs \<Longrightarrow> x \<in> set xs \<Longrightarrow> f x = Inr True"
  by (induction xs arbitrary: bs) (auto simp: bind_res_Inr_iff)

text \<open>A declared path: stored properties, filters that fit them and that the model of a request admits.\<close>

definition path_fits :: "ontology \<Rightarrow> (string \<times> ontology_filter list) list \<Rightarrow> bool" where
  "path_fits o' path \<longleftrightarrow> list_all (\<lambda>(rel, fs). list_all (\<lambda>f. map_of (ot_computed o') (of_property f) = None
     \<and> map_of (ot_computed o') (anchor_target f) = None \<and> concept_filter_valid (ot_properties o') rel f
     \<and> valid_filter (concept_condition f)) fs) path"

text \<open>A value taken from an anchor with other closed values is refused on every walk.\<close>

definition same_domains :: "ontology_property dict \<Rightarrow> (string \<times> ontology_filter list) list \<Rightarrow> bool" where
  "same_domains props path \<longleftrightarrow> list_all (\<lambda>(rel, fs). list_all (same_domain props) fs) path"

lemma first_error_None: "(\<And>x. x \<in> set xs \<Longrightarrow> f x = None) \<Longrightarrow> first_error f xs = None"
  by (induction xs) (auto simp: orelse_def)

lemma walk_accepted:
  assumes s: "new_schema c o' g = Inr s"
  shows "concept_walk s start path ts = Inr True \<Longrightarrow> path_fits o' path \<Longrightarrow> same_domains (ot_properties o') path \<Longrightarrow>
    follow_types s (concept_steps path) ts \<noteq> None \<and> path_contract_error s [start] (concept_steps path) ts = None
    \<and> \<not> unknown_in_path s (concept_steps path) ts \<and> \<not> path_invalid s [start] (concept_steps path) ts"
proof (induction path arbitrary: ts)
  case (Cons p ps)
  obtain rel fs where p: "p = (rel, fs)" by (cases p)
  from Cons.prems(1) obtain us bs where us: "traversal_target_types s rel ts = Some us" "us \<noteq> []"
    and bs: "map_res (concept_filter_bound s start rel us) fs = Inr bs" "list_all (\<lambda>x. x) bs" and rest: "concept_walk s start ps us = Inr True"
    by (auto simp: p bind_res_Inr_iff split: option.splits if_splits)
  have valid: "path_fits o' ps" "same_domains (ot_properties o') ps" using Cons.prems(2,3) by (simp_all add: path_fits_def same_domains_def)
  have fine: "contract_filter_error s (concept_condition f) us (Some rel) [start] = None
      \<and> \<not> step_filter_invalid s rel us [start] (concept_condition f)
      \<and> (if of_source f = ''entity'' then semantic_kind s us (Some (of_property f)) \<noteq> None
         else \<exists>tab dir. physical_relation s rel = Some (tab, dir) \<and> relation_property s tab (of_property f) \<noteq> None)" if "f \<in> set fs" for f
  proof (rule filter_accepted[OF s])
    show "concept_filter_bound s start rel us f = Inr True" by (rule map_res_true[OF bs that])
  qed (use Cons.prems(2,3) that us in \<open>auto simp: path_fits_def same_domains_def p list_all_iff\<close>)
  have err: "first_error (\<lambda>f. contract_filter_error s f us (Some rel) [start]) (map concept_condition fs) = None"
    using fine by (intro first_error_None) auto
  have "\<not> (if of_source f = ''entity'' then semantic_kind s us (Some (of_property f)) = None
      else (case physical_relation s rel of None \<Rightarrow> False | Some (r, _) \<Rightarrow> relation_property s r (of_property f) = None))" if "f \<in> set fs" for f
    using fine[OF that] by (cases "physical_relation s rel") (auto split: if_splits)
  then have un: "\<not> list_ex (\<lambda>f. case sf_property f of None \<Rightarrow> False
         | Some n \<Rightarrow> if sf_source f = ''entity'' then semantic_kind s us (Some n) = None
             else (case physical_relation s rel of None \<Rightarrow> False
               | Some (r, _) \<Rightarrow> relation_property s r n = None)) (map concept_condition fs)"
    by (simp add: list_ex_iff concept_condition_def)
  have inv: "\<not> list_ex (step_filter_invalid s rel us [start]) (map concept_condition fs)"
    using fine by (auto simp: list_ex_iff)
  show ?case
    using Cons.IH[OF rest valid] us err un inv
    unfolding p concept_steps_def list.map prod.case unknown_in_path.simps relation_step.simps
    by (simp add: orelse_def split del: if_split)
qed (simp add: concept_steps_def)

lemma first_error_Some: "x \<in> set xs \<Longrightarrow> f x \<noteq> None \<Longrightarrow> first_error f xs \<noteq> None"
  by (induction xs) (auto simp: orelse_def split: option.splits)

lemma filter_refused:
  assumes s: "new_schema c o' g = Inr s" and comp: "map_of (ot_computed o') (of_property f) = None"
    and fits: "valid_filter (concept_condition f)" and other: "\<not> same_domain (ot_properties o') f"
  shows "contract_filter_error s (concept_condition f) us (Some rel) [start] \<noteq> None"
proof -
  note sch = new_schemaD[OF s]
  from other obtain p q where p: "map_of (ot_properties o') (of_property f) = Some p" and q: "map_of (ot_properties o') (anchor_target f) = Some q"
    and ne: "of_value_from f \<noteq> None" "value_names (on_contract p) \<noteq> value_names (on_contract q)"
    by (auto simp: same_domain_def split: option.splits)
  have c: "contract_of s (Some (of_property f)) = Some (on_contract p)" "contract_of s (Some (anchor_target f)) = Some (on_contract q)"
    by (simp_all add: contract_of_def sch p q)
  have nc: "computed_of s (Some (of_property f)) = None" by (simp add: computed_of_def sch comp)
  have target: "filter_target (concept_condition f) = Some (anchor_target f)"
    using fits by (auto simp: valid_filter_def concept_condition_def filter_target_def anchor_target_def opt_name_def table_name_def
        split: option.splits)
  show ?thesis using c nc ne target by (simp add: contract_filter_error_def concept_condition_def)
qed

lemma walk_refused:
  assumes s: "new_schema c o' g = Inr s"
  shows "concept_walk s start path ts = Inr True \<Longrightarrow> path_fits o' path \<Longrightarrow> \<not> same_domains (ot_properties o') path
    \<Longrightarrow> path_contract_error s [start] (concept_steps path) ts \<noteq> None"
proof (induction path arbitrary: ts)
  case (Cons p ps)
  obtain rel fs where p: "p = (rel, fs)" by (cases p)
  from Cons.prems(1) obtain us bs where us: "traversal_target_types s rel ts = Some us" "us \<noteq> []" and rest: "concept_walk s start ps us = Inr True"
    by (auto simp: p bind_res_Inr_iff split: option.splits if_splits)
  let ?e = "first_error (\<lambda>f. contract_filter_error s f us (Some rel) [start]) (map concept_condition fs)"
  have "?e \<noteq> None \<or> path_contract_error s [start] (concept_steps ps) us \<noteq> None"
  proof (cases "list_all (same_domain (ot_properties o')) fs")
    case True
    with Cons.prems rest Cons.IH[OF rest] show ?thesis by (simp add: p path_fits_def same_domains_def)
  next
    case False
    then obtain f where f: "f \<in> set fs" "\<not> same_domain (ot_properties o') f" by (auto simp: list_all_iff)
    then have "contract_filter_error s (concept_condition f) us (Some rel) [start] \<noteq> None"
      using Cons.prems(2) by (intro filter_refused[OF s]) (auto simp: p path_fits_def list_all_iff)
    with f(1) have "?e \<noteq> None" by (intro first_error_Some[of "concept_condition f"]) auto
    then show ?thesis ..
  qed
  with us show ?case by (auto simp: p concept_steps_def orelse_def split: option.splits)
qed (simp add: same_domains_def)

lemma concept_fromD: "concept_from s path ts = Inr True \<Longrightarrow> \<exists>t \<in> set ts. concept_walk s t path [t] = Inr True"
  by (induction ts) (auto simp: bind_res_Inr_iff split: if_splits)

lemma available_concept:
  assumes "available_concepts s = Inr names" and "n \<in> set names" and "map_of (ot_concepts (sc_ontology s)) n = Some path"
    and "distinct (map fst (ot_concepts (sc_ontology s)))"
  obtains t where "t \<in> set (map fst (ca_entities (sc_catalog s)))" "concept_walk s t path [t] = Inr True"
proof -
  let ?ts = "map fst (ca_entities (sc_catalog s))"
  from assms(1) obtain nbs where nbs: "map_res (\<lambda>(n, path). bind_res (concept_from s path ?ts) (\<lambda>b. Inr (n, b))) (ot_concepts (sc_ontology s)) = Inr nbs"
      "names = map fst (filter snd nbs)"
    by (auto simp: available_concepts_def bind_res_Inr_iff)
  with assms(2) have "(n, True) \<in> set nbs" by auto
  from map_res_member[OF nbs(1) this] obtain path' where "(n, path') \<in> set (ot_concepts (sc_ontology s))" "concept_from s path' ?ts = Inr True"
    by (auto simp: bind_res_Inr_iff)
  moreover from this have "path' = path" using assms(3,4) by simp
  ultimately have "\<exists>t \<in> set ?ts. concept_walk s t path [t] = Inr True" by (intro concept_fromD) simp
  then show ?thesis by (blast intro: that)
qed

text \<open>The declarations of a parsed vocabulary fit together.\<close>

text \<open>Filters whose properties have names that a request can write are filters that the model of a request admits.\<close>

definition plain_names :: "(string \<times> ontology_filter list) list \<Rightarrow> bool" where
  "plain_names path \<longleftrightarrow> list_all (\<lambda>(rel, fs). list_all (\<lambda>f. table_name (of_property f) \<and> opt_name (of_value_property f)) fs) path"

lemma chosen_from_Inr: "chosen_from v ks = Inr s \<Longrightarrow> s \<in> set ks"
  by (auto simp: chosen_from_def mode_in_def bind_res_Inr_iff list_ex_iff split: pyval.splits if_splits)

lemma optional_of_Inr: "optional_of f v = Inr r \<Longrightarrow> r = None \<or> (\<exists>a. f v = Inr a \<and> r = Some a)"
  by (auto simp: optional_of_def bind_res_Inr_iff split: if_splits pyval.splits)

lemma parse_concept_filterD:
  assumes "parse_concept_filter raw = Inr f"
  shows "of_operator f \<in> set predicate_operators" "of_source f \<in> {''entity'', ''relation''}"
    "of_value_from f \<in> {None, Some ''anchor''}" "of_value_property f \<noteq> None \<longrightarrow> of_value_from f \<noteq> None"
    "of_value_from f \<noteq> None \<longrightarrow> of_source f = ''entity'' \<and> of_value f = VNone" "scalar_value (of_value f)"
  using assms unfolding parse_concept_filter_def Let_def
  by (auto simp: bind_res_Inr_iff scalar_value_def scalar_def dest!: chosen_from_Inr optional_of_Inr split: if_splits pyval.splits)

lemma parsed_filter:
  assumes "parse_concept_filter raw = Inr f" and "concept_filter_valid props rel f"
    and "table_name (of_property f)" and "opt_name (of_value_property f)"
  shows "valid_filter (concept_condition f)"
proof -
  note p = parse_concept_filterD[OF assms(1)]
  have "of_value_from f \<noteq> None \<longrightarrow> of_operator f \<notin> {''in'', ''exists'', ''date_range''}"
    using assms(2) by (auto simp: concept_filter_valid_def literal_error_def split: option.splits if_splits)
  with p assms(3,4) show ?thesis by (auto simp: valid_filter_def concept_condition_def opt_name_def)
qed

lemma parse_concept_filters:
  assumes "parse_concept rels n d = Inr (path, q)" and "(r, fs) \<in> set path" and "f \<in> set fs"
  obtains raw where "parse_concept_filter raw = Inr f"
proof -
  from assms(1) obtain vs where "map_res (parse_concept_step rels) vs = Inr path"
    by (auto simp: parse_concept_def bind_res_Inr_iff)
  from map_res_member[OF this assms(2)] obtain v where "parse_concept_step rels v = Inr (r, fs)" by blast
  then obtain us where "map_res parse_concept_filter us = Inr fs" by (auto simp: parse_concept_step_def bind_res_Inr_iff)
  from map_res_member[OF this assms(3)] show thesis by (blast intro: that)
qed

lemma parsed_path:
  assumes "parse_ontology raw = Inr w" and "map_of (ot_concepts (vo_ontology w)) n = Some path"
    and "plain_names path"
  shows "path_fits (vo_ontology w) path \<and> path \<noteq> []"
proof (cases rule: parse_ontologyD[OF assms(1)])
  case (1 props computed rels concepts policies preds)
  have o': "ot_properties (vo_ontology w) = first_parts props" "ot_computed (vo_ontology w) = first_parts computed"
      "ot_concepts (vo_ontology w) = first_parts concepts"
    by (simp_all add: 1(1) assemble_def)
  have computed: "map_of (first_parts computed) k = None" if known: "map_of (first_parts props) k \<noteq> None" for k
  proof (rule ccontr)
    assume "map_of (first_parts computed) k \<noteq> None"
    then obtain f where "(k, f) \<in> set (first_parts computed)" by (auto dest: map_of_SomeD)
    then obtain q d where "parse_computed (first_parts props) k d = Inr (f, q)" using 1(5) by (auto simp: first_parts_member) blast
    from parse_computedD[OF this] known show False by simp
  qed
  have mem: "(n, path) \<in> set (first_parts concepts)" using assms(2) by (simp add: o' map_of_SomeD)
  have "list_all (\<lambda>(n, path). list_all (\<lambda>(r, fs). list_all (concept_filter_valid (first_parts props) r) fs) path) (first_parts concepts)"
    using 1(2) by (simp add: declarations_valid_def Let_def o')
  then have "list_all (\<lambda>(r, fs). list_all (concept_filter_valid (first_parts props) r) fs) path"
    using mem by (fastforce simp: list_all_iff)
  then have fits: "concept_filter_valid (first_parts props) r f" if "(r, fs) \<in> set path" "f \<in> set fs" for r fs f
    using that by (fastforce simp: list_all_iff)
  obtain q d where con: "parse_concept rels n d = Inr (path, q)" using 1(6) mem by (auto simp: first_parts_member) blast
  have "valid_filter (concept_condition f)" if f: "(r, fs) \<in> set path" "f \<in> set fs" for r fs f
  proof -
    obtain raw where "parse_concept_filter raw = Inr f" by (rule parse_concept_filters[OF con f])
    then show ?thesis by (rule parsed_filter) (use fits f assms(3) in \<open>auto simp: plain_names_def list_all_iff\<close>)
  qed
  moreover have "map_of (first_parts computed) (of_property f) = None \<and> map_of (first_parts computed) (anchor_target f) = None"
    if "concept_filter_valid (first_parts props) r f" for r f
    using that computed[of "of_property f"] computed[of "anchor_target f"]
    by (auto simp: concept_filter_valid_def anchor_target_def split: option.splits if_splits)
  ultimately have "path_fits (vo_ontology w) path"
    using fits unfolding path_fits_def o' list_all_iff by blast
  moreover from con have "path \<noteq> []" by (auto simp: parse_concept_def bind_res_Inr_iff map_res_Inr_iff split: pyval.splits if_splits)
  ultimately show ?thesis by blast
qed

lemma follow_physical: "follow_types s ps ts \<noteq> None \<Longrightarrow> list_all (\<lambda>p. physical_relation s (st_relation p) \<noteq> None) ps"
proof (induction ps arbitrary: ts)
  case (Cons p ps)
  then obtain us where "traversal_target_types s (st_relation p) ts = Some us" "follow_types s ps us \<noteq> None"
    by (auto split: option.splits if_splits)
  then show ?case using Cons.IH by (auto simp: traversal_target_types_def split: option.splits)
qed simp

definition how_many :: "string \<Rightarrow> string \<Rightarrow> (string \<times> ontology_filter list) list \<Rightarrow> fact_request" where
  "how_many t x path = \<lparr>rq_operation = ''count'', rq_subject = \<lparr>rf_kind = ''named_entity'', rf_value = Some x, rf_type = Some t,
       rf_path = concept_steps path, rf_offset = None, rf_cardinality = ''single''\<rparr>,
     rq_property = None, rq_source = ''entity'', rq_filters = [], rq_projection = ''scalar'', rq_exclude = [], rq_amount = None,
     rq_other = None, rq_mode = None, rq_from = None, rq_to = None\<rparr>"

lemma count_declared: "map_of fact_operators ''count'' = Some (collection_operator ''count'' ''none'' op_count)"
  by (simp add: fact_operators_def operators_def operator_definitions_def plain_operator_def predicate_operator_def
      collection_operator_def aggregate_operator_def transform_operator_def temporal_order_def)

lemma count_computation: "computation_valid s (how_many t x path) (collection_operator ''count'' ''none'' op_count) ts"
  by (simp add: computation_valid_def how_many_def validate_operator_def collection_operator_def plain_operator_def parameters_def
      check_def validate_kind_def opt_val_def)

lemma question_valid:
  assumes "new_schema c o' g = Inr s" and t: "t \<in> set (map fst (ca_entities c))" "concept_walk s t path [t] = Inr True"
    and path: "path_fits o' path" "path \<noteq> []" and same: "same_domains (ot_properties o') path"
  shows "validates s (how_many t x path)"
proof -
  note sch = new_schemaD[OF assms(1)]
  let ?q = "how_many t x path"
  have q: "references ?q = [rq_subject ?q]" "rq_filters ?q = []" "rq_property ?q = None" "rf_path (rq_subject ?q) = concept_steps path"
    by (simp_all add: how_many_def references_def)
  have base: "base_entity_types s (rq_subject ?q) = [t]"
    by (simp add: how_many_def base_entity_types_def context_entity_types_def)
  note walk = walk_accepted[OF assms(1) t(2) path(1) same]
  have known: "map_of (ca_entities (sc_catalog s)) t \<noteq> None" using t(1) by (auto simp: sch map_of_eq_None_iff)
  then have types: "reference_entity_types s (rq_subject ?q) \<noteq> None"
    using walk by (simp add: reference_entity_types_def base q)
  have physical: "list_all (\<lambda>p. physical_relation s (st_relation p) \<noteq> None) (concept_steps path)"
    using walk by (blast intro: follow_physical)
  have contract: "contract_error s ?q = None"
    using walk by (simp add: contract_error_def contradictory_def q base orelse_def List.map_filter_simps)
  have valid: "\<not> reference_invalid s (rq_subject ?q)"
    using walk types by (simp add: reference_invalid_def base) (simp add: how_many_def context_entity_types_def)
  obtain ts where ts: "reference_entity_types s (rq_subject ?q) = Some ts" using types by auto
  have "rf_path (rq_subject ?q) \<noteq> []" using path(2) by (simp add: q concept_steps_def)
  then have shape: "shape_valid s ?q (collection_operator ''count'' ''none'' op_count) ts"
    using count_computation[of s t x path ts]
    by (simp add: shape_valid_def collection_input_def) (simp add: how_many_def collection_operator_def plain_operator_def)
  have "rq_operation ?q = ''count''" by (simp add: how_many_def)
  then show ?thesis
    using physical contract valid ts shape walk
    by (simp add: validates_def validation_code_def count_declared q base closed_order_def contract_of_def unknown_property_def
        list_all_iff list_ex_iff)
qed

lemma question_refused:
  assumes "path_contract_error s [t] (concept_steps path) [t] \<noteq> None"
  shows "validation_code s (how_many t x path) = ''INVALID_PLAN''"
proof -
  let ?q = "how_many t x path"
  have q: "references ?q = [rq_subject ?q]" "rq_filters ?q = []" "rf_path (rq_subject ?q) = concept_steps path"
    "rq_operation ?q = ''count''" by (simp_all add: how_many_def references_def)
  have "base_entity_types s (rq_subject ?q) = [t]"
    by (simp add: how_many_def base_entity_types_def context_entity_types_def)
  with assms have "contract_error s ?q \<noteq> None"
    by (auto simp: contract_error_def contradictory_def q orelse_def List.map_filter_simps split: option.splits)
  then show ?thesis by (simp add: validation_code_def count_declared q)
qed

text \<open>C16: a concept that a deployment advertises leads from some type of entity of the catalog, with filters that the model
  of a request admits, and the validator of the deployment accepts the question for the number of entities that it
  leads to, whatever name the entity has, exactly when every value taken from the anchor has the closed values of
  the property it is compared with; otherwise it answers INVALID_PLAN (the advertisement does not look at the closed
  values). The properties that the filters name have names that a request can write.\<close>

theorem concept_question_decided:
  assumes "parse_ontology raw = Inr w" and "new_schema c (vo_ontology w) g = Inr s" and "available_concepts s = Inr names"
    and "n \<in> set names" and "distinct (map fst (ot_concepts (vo_ontology w)))" and "map_of (ot_concepts (vo_ontology w)) n = Some path"
    and "plain_names path"
  shows "list_all (\<lambda>(rel, fs). list_all (\<lambda>f. valid_filter (concept_condition f)) fs) path
    \<and> (\<exists>t \<in> set (map fst (ca_entities c)). concept_walk s t path [t] = Inr True
        \<and> (\<forall>x. validation_code s (how_many t x path)
             = (if same_domains (ot_properties (vo_ontology w)) path then ''VALID'' else ''INVALID_PLAN'')))"
proof (intro conjI)
  note sch = new_schemaD[OF assms(2)]
  have path: "path_fits (vo_ontology w) path" "path \<noteq> []" using parsed_path[OF assms(1,6,7)] by auto
  then show "list_all (\<lambda>(rel, fs). list_all (\<lambda>f. valid_filter (concept_condition f)) fs) path"
    by (auto simp: path_fits_def list_all_iff)
  obtain t where t: "t \<in> set (map fst (ca_entities c))" "concept_walk s t path [t] = Inr True"
    using available_concept[OF assms(3,4)] assms(5,6) by (metis sch(1,2))
  have "validates s (how_many t x path)" if "same_domains (ot_properties (vo_ontology w)) path" for x
    using question_valid[OF assms(2) t path that] .
  moreover have "validation_code s (how_many t x path) = ''INVALID_PLAN''" if "\<not> same_domains (ot_properties (vo_ontology w)) path" for x
    by (rule question_refused[OF walk_refused[OF assms(2) t(2) path(1) that]])
  ultimately show "\<exists>t \<in> set (map fst (ca_entities c)). concept_walk s t path [t] = Inr True
        \<and> (\<forall>x. validation_code s (how_many t x path)
             = (if same_domains (ot_properties (vo_ontology w)) path then ''VALID'' else ''INVALID_PLAN''))"
    using t by (intro bexI[of _ t]) (auto simp: validates_def)
qed

section \<open>Computed filters are decided\<close>

lemma difference_declared:
  "map_of operators ''date_difference'' = Some (transform_operator ''date_difference'' temporal_kinds [''mode'', ''reference''] op_date_difference)"
  by (simp add: operators_def operator_definitions_def plain_operator_def predicate_operator_def
      collection_operator_def aggregate_operator_def transform_operator_def temporal_order_def)

lemma execute_difference: "execute_operator ''date_difference'' x = op_date_difference x"
  by (simp add: execute_operator_def difference_declared transform_operator_def)

lemma validate_operator_errors:
  "validate_operator d f fkind ord okind ps = Inl e \<Longrightarrow> e = OperatorValidationError \<or> e = TypeError"
  by (auto simp: validate_operator_def Let_def bind_res_Inl_iff check_def validate_kind_def mode_in_def split: if_splits pyval.splits)

lemma clock_date_errors:
  assumes "in_range_us (ck_wall now)" and "clock_date now = Inl e"
  shows "e = ValueError"
proof -
  have "1 \<le> ck_wall now div day_us \<and> ck_wall now div day_us \<le> max_ordinal"
    using assms(1) unfolding in_range_us_def by (auto simp: day_us_def max_ordinal_def)
  then show ?thesis using assms(2)
    by (auto simp: clock_date_def fromordinal_def mk_date_def split: prod.splits if_splits)
qed

lemma date_difference_of_date:
  assumes "temporal_value raw = Inr (TDate d)" and "raw \<noteq> VNone" and "m \<in> {''years'', ''months'', ''days'', ''seconds''}"
    and "in_range_us (ck_wall now)" and "op_date_difference ((value_input raw now)\<lparr>oi_reference := r, oi_mode := Some m\<rparr>) = Inl e"
  shows "e = ValueError"
  using assms clock_date_errors[OF assms(4)]
  by (auto simp: op_date_difference_def value_input_def no_input_def only_value_def source_values_def required_now_def get_or_None_def
      bind_res_Inl_iff Let_def split: if_splits)

lemma seconds_of_date:
  assumes "temporal_value raw = Inr (TDate d)" and "raw \<noteq> VNone"
    and "op_date_difference ((value_input raw now)\<lparr>oi_mode := Some ''seconds''\<rparr>) = Inr v"
  shows "\<exists>f. v = VFloat f"
  using assms by (auto simp: op_date_difference_def value_input_def no_input_def only_value_def source_values_def required_now_def
      get_or_None_def bind_res_Inr_iff Let_def total_seconds_def split: if_splits)

lemma derived_from_date:
  assumes t: "temporal_value raw = Inr (TDate d)" "raw \<noteq> VNone" and m: "m \<in> {''years'', ''months'', ''days''}"
    and now: "in_range_us (ck_wall now)" and e: "derived_value raw now ''date_difference'' (Some m) past = Inl e"
  shows "input_error e"
proof -
  have ve: "input_error ValueError" "input_error OperatorValidationError" "input_error TypeError" "input_error OperatorExecutionError"
    by (simp_all add: input_error_def)
  have "input_error e'" if "is_past raw now = Inl e'" for e'
  proof (cases "op_date_difference ((value_input raw now)\<lparr>oi_mode := Some ''seconds''\<rparr>)")
    case (Inl f)
    then have "f = ValueError" using date_difference_of_date[OF t _ now, of "''seconds''" None] by (simp add: value_input_def no_input_def)
    then show ?thesis using that Inl ve by (simp add: is_past_def execute_difference)
  next
    case (Inr v)
    then obtain f where "v = VFloat f" using seconds_of_date[OF t] by blast
    then show ?thesis using that Inr ve by (simp add: is_past_def execute_difference bind_res_Inl_iff)
  qed
  moreover have "input_error e'" if "validate_operator o' a b c d' ps = Inl e'" for o' a b c d' ps e'
    using validate_operator_errors[OF that] ve by auto
  moreover have "input_error e'" if "op_date_difference ((value_input raw now)\<lparr>oi_reference := r, oi_mode := Some m\<rparr>) = Inl e'" for r e'
    using date_difference_of_date[OF t _ now that] m ve by auto
  ultimately show ?thesis
    using e by (auto simp: derived_value_def difference_declared execute_difference bind_res_Inl_iff split: if_splits)
qed

lemma parse_contract_operators: "parse_contract e = Inr c \<Longrightarrow> set (pc_operators c) \<subseteq> set predicate_operators"
proof -
  assume "parse_contract e = Inr c"
  then obtain t closing ops where "list_all (operator_fits t closing) ops" "pc_operators c = ops"
    by (clarsimp simp: parse_contract_def bind_res_Inr_iff case_VDict_Inr split: if_split_asm) auto
  then show ?thesis by (auto simp: operator_fits_def list_all_iff)
qed

lemma accepted_date:
  assumes "contract_accepts c v" and "pc_type c = Atom ''date''"
  shows "v \<noteq> VNone \<and> (\<exists>d. temporal_value v = Inr (TDate d))"
  using assms by (auto simp: contract_accepts_def temporal_value_def split: pyval.splits sum.splits if_splits)

lemma predicate_decided: "name \<in> set predicate_operators \<Longrightarrow> \<exists>b. evaluate_predicate name a b' = Inr b"
  by (auto simp: evaluate_predicate_def dest: compare_errors split: sum.split)

lemma computed_member:
  assumes "parse_ontology raw = Inr w" and "map_of (ot_computed (vo_ontology w)) n = Some d"
  shows "cf_transform d = ''date_difference'' \<and> cf_mode d \<in> {''years'', ''months'', ''days''} \<and> (\<exists>e. parse_contract e = Inr (cf_contract d))
    \<and> (\<exists>p. map_of (ot_properties (vo_ontology w)) (cf_source d) = Some p)"
proof (cases rule: parse_ontologyD[OF assms(1)])
  case (1 props computed rels concepts policies preds)
  have o': "ot_properties (vo_ontology w) = first_parts props" "ot_computed (vo_ontology w) = first_parts computed"
    by (simp_all add: 1(1) assemble_def)
  have "(n, d) \<in> set (first_parts computed)" using assms(2) by (simp add: o' map_of_SomeD)
  then obtain q e where "parse_computed (first_parts props) n e = Inr (d, q)" using 1(5) by (auto simp: first_parts_member) blast
  from parse_computedD[OF this] show ?thesis by (auto simp: o')
qed

text \<open>C17: a filter that the vocabulary computes from a date, such as an age, is decided for every stored record or answered by
  a missing or unsupported input, whatever the record holds in the field and whatever the request compares it with:
  no exception of the operators or of the calendar leaves the engine. The clock of the request shows a time that the
  calendar has.\<close>

theorem computed_filter_decided:
  assumes "parse_ontology raw = Inr w" and "new_schema c (vo_ontology w) g = Inr s" and "fe_schema v = s"
    and "map_of (ot_computed (vo_ontology w)) n = Some d" and "contract_of s (Some (cf_source d)) = Some k" and "pc_type k = Atom ''date''"
    and "sf_property f = Some n" and "contract_filter_error s f ts rel anchors = None" and "in_range_us (ck_wall now)"
  shows "\<exists>r. entity_predicate v now as stored (f, field) x = (x, r)
    \<and> (case r of Inr b \<Rightarrow> True | Inl (Failed e) \<Rightarrow> ff_status e \<in> {FilterInputMissing, FilterUnsupported} | _ \<Rightarrow> False)"
proof -
  let ?held = "get_or_None stored field"
  note sch = new_schemaD[OF assms(2)]
  have computed: "computed_of s (Some n) = Some d" by (simp add: computed_of_def sch assms(4))
  from assms(8) have "literal_error (cf_contract d) (sf_operator f) (sf_value f) False = None"
    by (auto simp: contract_filter_error_def assms(7) computed split: if_splits pyval.splits)
  then have "sf_operator f \<in> set (pc_operators (cf_contract d))" by (auto simp: literal_error_def split: if_splits)
  with computed_member[OF assms(1,4)] have op: "sf_operator f \<in> set predicate_operators" using parse_contract_operators by blast
  have m: "cf_transform d = ''date_difference''" "cf_mode d \<in> {''years'', ''months'', ''days''}"
    using computed_member[OF assms(1,4)] by auto
  show ?thesis
  proof (cases "filter_value_failure s n ?held")
    case (Some e)
    then have "ff_status e \<in> {FilterInputMissing, FilterUnsupported}"
      by (auto simp: filter_value_failure_def Let_def missing_def failure_def split: if_splits)
    then show ?thesis
      by (simp add: entity_predicate_def andthen_def refused_def raise_def assms(3,7) filter_name_def Some)
  next
    case None
    then have "contract_accepts k ?held"
      using assms(5) by (auto simp: filter_value_failure_def computed value_valid_def Let_def split: if_splits)
    then obtain date where date: "?held \<noteq> VNone" "temporal_value ?held = Inr (TDate date)" using accepted_date[OF _ assms(6)] by blast
    have run: "entity_predicate v now as stored (f, field) x
        = derived_date_matches ?held now ''date_difference'' (Some (cf_mode d)) (sf_operator f) (sf_value f) (cf_past d) [n] x"
      by (simp add: entity_predicate_def andthen_def refused_def return_def assms(3,7) filter_name_def None computed m)
    show ?thesis
    proof (cases "derived_value ?held now ''date_difference'' (Some (cf_mode d)) (cf_past d)")
      case (Inl e)
      then have "input_error e" using derived_from_date[OF date(2,1) m(2) assms(9)] by blast
      then show ?thesis by (simp add: run derived_date_matches_def Inl raise_def missing_def failure_def)
    next
      case (Inr a)
      obtain b where "evaluate_predicate (sf_operator f) a (sf_value f) = Inr b" using predicate_decided[OF op] by blast
      then show ?thesis using Inr by (simp add: run derived_date_matches_def lift_def)
    qed
  qed
qed

end
