(* ===== verification/ExpandFacts.thy ===== *)
theory ExpandFacts
  imports ConceptFacts
begin

text \<open>
  The expansion of concepts in the output of the interpreter, exactly; the completeness of the catalog of a data directory
  and the names of predicates.
\<close>

section \<open>Expansion leaves no concept behind\<close>

lemma update_same: "map_of d k = Some v \<Longrightarrow> AList.update k v d = d"
  by (induction d) auto

lemma map_res_stable: "(\<And>v. v \<in> set vs \<Longrightarrow> f v = Inr v) \<Longrightarrow> map_res f vs = Inr vs"
  by (induction vs) auto

lemma map_res_single: "(\<And>v. v \<in> set vs \<Longrightarrow> f v = Inr [v]) \<Longrightarrow> map_res f vs = Inr (map (\<lambda>v. [v]) vs)"
  by (induction vs) auto

lemma concat_single: "concat (map (\<lambda>v. [v]) vs) = vs"
  by (induction vs) auto

lemma payload_plain: "concept_payload s available n = Some ds \<Longrightarrow> d \<in> set ds \<Longrightarrow> map_of d ''concept'' = None"
  by (auto simp: concept_payload_def concept_step_payload_def split: if_splits)

lemma with_filters_plain:
  assumes "with_filters extra ds = Inr ds'" and "\<And>d. d \<in> set ds \<Longrightarrow> map_of d ''concept'' = None" and "d \<in> set ds'"
  shows "map_of d ''concept'' = None"
  using assms by (auto simp: with_filters_def bind_res_Inr_iff map_of_update split: if_splits) (blast dest: in_set_butlastD)

lemma expand_step_stable:
  assumes "expand_step s available use v = Inr ws" and "w \<in> set ws"
  shows "expand_step s available use' w = Inr [w]"
  using assms payload_plain with_filters_plain
  by (fastforce simp: expand_step_def bind_res_Inr_iff split: pyval.splits option.splits if_splits prod.splits)

lemma complete_type_cases:
  assumes "complete_type s path d = Inr e"
  obtains "e = d" | t where "e = AList.update ''entity_type'' (VStr t) d" "map_option (legal_types s) (first_relation path) = Some [t]"
proof (cases "map_option (legal_types s) (first_relation path)")
  case None
  then show ?thesis using assms that by (auto simp: complete_type_def split: if_splits)
next
  case (Some ts)
  then show ?thesis using assms that by (auto simp: complete_type_def bind_res_Inr_iff split: if_splits list.splits)
qed

lemma complete_type_path: "complete_type s path d = Inr e \<Longrightarrow> map_of e ''path'' = map_of d ''path''"
  by (erule complete_type_cases) (simp_all add: map_of_update)

lemma complete_type_stable:
  assumes "complete_type s path d = Inr e"
  shows "complete_type s path e = Inr e"
  using assms
proof (cases rule: complete_type_cases)
  case (2 t)
  have "mode_in (VStr t) [VStr t] = Inr True" by (simp add: mode_in_def)
  then show ?thesis by (simp add: complete_type_def 2 get_or_None_def map_of_update)
qed (use assms in simp)

lemma expand_reference_stable:
  assumes "expand_reference s available use v = Inr w"
  shows "expand_reference s available use' w = Inr w"
proof -
  consider d vs where "v = VDict d" "get_default d ''path'' (VList []) = VList vs"
    | d where "v = VDict d" "\<forall>vs. get_default d ''path'' (VList []) \<noteq> VList vs" | "\<forall>d. v \<noteq> VDict d"
    by (cases v) auto
  then show ?thesis
  proof cases
    case 1
    with assms obtain vss e where vss: "map_res (expand_step s available use) vs = Inr vss" and w: "w = VDict e"
      and e: "complete_type s (concat vss) (AList.update ''path'' (VList (concat vss)) d) = Inr e"
      by (auto simp: expand_reference_def bind_res_Inr_iff)
    have path: "map_of e ''path'' = Some (VList (concat vss))"
      using complete_type_path[OF e] by (simp add: map_of_update)
    have "map_res (expand_step s available use') (concat vss) = Inr (map (\<lambda>v. [v]) (concat vss))"
      using map_res_member[OF vss] by (intro map_res_single) (auto intro: expand_step_stable)
    then show ?thesis using complete_type_stable[OF e] path
      by (simp add: expand_reference_def w get_default_def concat_single update_same)
  next
    case 2
    then show ?thesis using assms by (auto simp: expand_reference_def split: pyval.splits)
  next
    case 3
    then show ?thesis using assms by (auto simp: expand_reference_def split: pyval.splits)
  qed
qed

lemma expand_key_other: "expand_key s available use k d = Inr e \<Longrightarrow> k' \<noteq> k \<Longrightarrow> map_of e k' = map_of d k'"
  by (auto simp: expand_key_def bind_res_Inr_iff map_of_update split: option.splits pyval.splits)

lemma expand_key_stable:
  assumes "expand_key s available use k d = Inr e" and "map_of e' k = map_of e k"
  shows "expand_key s available use' k e' = Inr e'"
proof (cases "\<exists>d'. map_of d k = Some (VDict d')")
  case True
  then obtain d' v where v: "map_of d k = Some (VDict d')" "expand_reference s available use (VDict d') = Inr v" "map_of e k = Some v"
    using assms(1) by (auto simp: expand_key_def bind_res_Inr_iff map_of_update)
  then have "expand_reference s available use' v = Inr v" by (blast intro: expand_reference_stable)
  then show ?thesis using v(3) assms(2) by (auto simp: expand_key_def update_same split: pyval.splits)
next
  case False
  then have "e = d" using assms(1) by (auto simp: expand_key_def split: option.splits pyval.splits)
  then show ?thesis using False assms(2) by (auto simp: expand_key_def split: option.splits pyval.splits)
qed

lemma expand_excluded_stable:
  assumes "expand_excluded s available use d = Inr e" and "map_of e' ''exclude'' = map_of e ''exclude''"
  shows "expand_excluded s available use' e' = Inr e'"
proof (cases "\<exists>vs. map_of d ''exclude'' = Some (VList vs)")
  case True
  then obtain vs ws where ws: "map_res (expand_reference s available use) vs = Inr ws" "map_of e ''exclude'' = Some (VList ws)"
    using assms(1) by (auto simp: expand_excluded_def bind_res_Inr_iff map_of_update)
  have "map_res (expand_reference s available use') ws = Inr ws"
    using map_res_member[OF ws(1)] by (intro map_res_stable) (blast intro: expand_reference_stable)
  then show ?thesis using ws(2) assms(2) by (auto simp: expand_excluded_def update_same split: pyval.splits)
next
  case False
  then have "e = d" using assms(1) by (auto simp: expand_excluded_def split: option.splits pyval.splits)
  then show ?thesis using False assms(2) by (auto simp: expand_excluded_def split: option.splits pyval.splits)
qed

text \<open>Expanding the result again changes nothing, with any model of a concept use, even one that refuses every use.\<close>

lemma expansion_idempotent:
  assumes "expand_planner_concepts s available use payload = Inr p"
  shows "expand_planner_concepts s available use' p = Inr p"
proof (cases "\<exists>d. get_or_None payload ''request'' = VDict d")
  case True
  then obtain d d1 d2 d3 where d: "expand_excluded s available use d = Inr d1" "expand_key s available use ''subject'' d1 = Inr d2"
      "expand_key s available use ''other'' d2 = Inr d3" and p: "p = AList.update ''request'' (VDict d3) payload"
    using assms by (auto simp: expand_planner_concepts_def bind_res_Inr_iff)
  have "expand_excluded s available use' d3 = Inr d3"
    using expand_key_other[OF d(2)] expand_key_other[OF d(3)] by (intro expand_excluded_stable[OF d(1)]) simp
  moreover have "expand_key s available use' ''subject'' d3 = Inr d3"
    using expand_key_other[OF d(3)] by (intro expand_key_stable[OF d(2)]) simp
  moreover have "expand_key s available use' ''other'' d3 = Inr d3"
    by (rule expand_key_stable[OF d(3)]) simp
  ultimately show ?thesis
    by (simp add: expand_planner_concepts_def p get_or_None_def map_of_update update_same)
next
  case False
  then have "p = payload" using assms by (auto simp: expand_planner_concepts_def split: pyval.splits)
  then show ?thesis using False by (auto simp: expand_planner_concepts_def split: pyval.splits)
qed

section \<open>What expansion writes\<close>

text \<open>A condition in a request that says what a declared filter says; what it leaves out is the default of a request.\<close>

definition means_filter :: "ontology_filter \<Rightarrow> pyval \<Rightarrow> bool" where
  "means_filter f v \<longleftrightarrow> (case v of
     VDict d \<Rightarrow> get_or_None d ''property'' = VStr (of_property f) \<and> get_default d ''operator'' (VStr ''eq'') = VStr (of_operator f)
       \<and> get_or_None d ''value'' = of_value f \<and> get_default d ''source'' (VStr ''entity'') = VStr (of_source f)
       \<and> get_or_None d ''value_from'' = opt_val VStr (of_value_from f)
       \<and> get_or_None d ''value_property'' = opt_val VStr (of_value_property f)
   | _ \<Rightarrow> False)"

text \<open>A step in a request that follows a declared step: its relation, its filters in their order, then the extra ones.\<close>

definition means_step :: "string \<times> ontology_filter list \<Rightarrow> pyval list \<Rightarrow> pyval \<Rightarrow> bool" where
  "means_step p extra v \<longleftrightarrow> (case v of
     VDict d \<Rightarrow> set (map fst d) \<subseteq> {''relation'', ''filters''} \<and> get_or_None d ''relation'' = VStr (fst p)
       \<and> (\<exists>vs. get_default d ''filters'' (VList []) = VList (vs @ extra) \<and> list_all2 means_filter (snd p) vs)
   | _ \<Rightarrow> False)"

text \<open>What a step of a path becomes: itself, or, for a use of a concept, the declared steps of an available concept, with
  the filters of the use on the last of them.\<close>

definition step_expanded :: "semantic_schema \<Rightarrow> string list \<Rightarrow> (fields \<Rightarrow> (string \<times> pyval list) option) \<Rightarrow> pyval \<Rightarrow> pyval list \<Rightarrow> bool" where
  "step_expanded s available use v ws \<longleftrightarrow> (case v of
     VDict d \<Rightarrow> if map_of d ''concept'' = None then ws = [v]
       else (\<exists>n extra path. use d = Some (n, extra) \<and> n \<in> set available \<and> map_of (ot_concepts (sc_ontology s)) n = Some path
         \<and> length ws = length path
         \<and> (\<forall>i < length path. means_step (path ! i) (if Suc i = length path then extra else []) (ws ! i)))
   | _ \<Rightarrow> ws = [v])"

text \<open>What a reference becomes: its path is expanded step by step, a named entity gets the type that alone has the first
  relation of the path, and nothing else changes. What is no reference with a path stays.\<close>

definition reference_expanded :: "semantic_schema \<Rightarrow> string list \<Rightarrow> (fields \<Rightarrow> (string \<times> pyval list) option) \<Rightarrow> pyval \<Rightarrow> pyval \<Rightarrow> bool" where
  "reference_expanded s available use v w \<longleftrightarrow> (case v of
     VDict d \<Rightarrow> (case get_default d ''path'' (VList []) of
         VList vs \<Rightarrow> (\<exists>wss e. w = VDict e \<and> list_all2 (step_expanded s available use) vs wss
           \<and> map_of e ''path'' = Some (VList (concat wss))
           \<and> map_of e ''entity_type'' = (if get_or_None d ''kind'' = VStr ''named_entity'' then
                (case map_option (legal_types s) (first_relation (concat wss)) of
                   Some [t] \<Rightarrow> Some (VStr t) | _ \<Rightarrow> map_of d ''entity_type'')
              else map_of d ''entity_type'')
           \<and> (\<forall>k. k \<noteq> ''path'' \<and> k \<noteq> ''entity_type'' \<longrightarrow> map_of e k = map_of d k))
       | _ \<Rightarrow> w = v)
   | _ \<Rightarrow> w = v)"

lemma filter_payload_means: "means_filter f (concept_filter_payload f)"
  by (simp add: means_filter_def concept_filter_payload_def when_not_def get_or_None_def get_default_def opt_val_def split: option.splits)

lemma filters_mean: "list_all2 means_filter fs (map concept_filter_payload fs)"
  by (simp add: list_all2_conv_all_nth filter_payload_means)

lemma step_payload_means: "means_step p [] (VDict (concept_step_payload p))"
  using filters_mean[of "snd p"]
  by (auto simp: means_step_def concept_step_payload_def get_or_None_def get_default_def)

lemma step_payload_more:
  assumes "more_filters extra (concept_step_payload p) = Inr vs"
  shows "means_step p extra (VDict (AList.update ''filters'' (VList vs) (concept_step_payload p)))"
  using assms filters_mean[of "snd p"]
  by (auto simp: more_filters_def iterated_def means_step_def concept_step_payload_def get_or_None_def get_default_def)

lemma with_filters_mean:
  assumes "with_filters extra (map concept_step_payload path) = Inr ds" and "i < length path"
  shows "length ds = length path \<and> means_step (path ! i) (if Suc i = length path then extra else []) (VDict (ds ! i))"
proof (cases "extra = []")
  case True
  with assms show ?thesis by (auto simp: with_filters_def step_payload_means)
next
  case False
  then obtain vs where vs: "more_filters extra (concept_step_payload (last path)) = Inr vs"
    and ds: "ds = map concept_step_payload (butlast path) @ [AList.update ''filters'' (VList vs) (concept_step_payload (last path))]"
    using assms by (auto simp: with_filters_def bind_res_Inr_iff last_map map_butlast split: if_splits)
  show ?thesis
  proof (cases "Suc i = length path")
    case True
    then have "path ! i = last path" "ds ! i = AList.update ''filters'' (VList vs) (concept_step_payload (last path))"
      using assms(2) by (auto simp: ds nth_append) (metis diff_Suc_1 last_conv_nth length_0_conv nat.distinct(1))
    with True assms(2) show ?thesis using step_payload_more[OF vs] by (simp add: ds)
  next
    case False
    then have "i < length path - 1" using assms(2) by simp
    then have "ds ! i = concept_step_payload (path ! i)" using assms(2) by (simp add: ds nth_append nth_butlast)
    with False assms(2) show ?thesis by (simp add: ds step_payload_means)
  qed
qed

lemma with_filters_length: "with_filters extra ds = Inr ds' \<Longrightarrow> length ds' = length ds"
  by (auto simp: with_filters_def bind_res_Inr_iff split: if_splits)

lemma expand_step_exact:
  assumes "expand_step s available use v = Inr ws"
  shows "step_expanded s available use v ws"
proof (cases "\<exists>d. v = VDict d \<and> map_of d ''concept'' \<noteq> None")
  case True
  with assms obtain d n extra path ds where d: "v = VDict d" "map_of d ''concept'' \<noteq> None" "use d = Some (n, extra)" "n \<in> set available"
      "map_of (ot_concepts (sc_ontology s)) n = Some path"
    and ds: "with_filters extra (map concept_step_payload path) = Inr ds" "ws = map VDict ds"
    by (auto simp: expand_step_def concept_payload_def bind_res_Inr_iff split: option.splits if_splits)
  have "means_step (path ! i) (if Suc i = length path then extra else []) (ws ! i)" if "i < length path" for i
    using with_filters_mean[OF ds(1) that] that by (simp add: ds(2))
  then show ?thesis using d with_filters_length[OF ds(1)] by (auto simp: step_expanded_def ds(2))
next
  case False
  then show ?thesis using assms by (auto simp: expand_step_def step_expanded_def split: pyval.splits if_splits)
qed

lemma py_eq_text: "py_eq v (VStr t) \<longleftrightarrow> v = VStr t"
  by (cases v) (auto simp: num_eq_def split: pyfloat.splits)

lemma complete_type_exact:
  assumes "complete_type s path d = Inr e"
  shows "map_of e ''entity_type'' = (if get_or_None d ''kind'' = VStr ''named_entity'' then
      (case map_option (legal_types s) (first_relation path) of Some [t] \<Rightarrow> Some (VStr t) | _ \<Rightarrow> map_of d ''entity_type'')
      else map_of d ''entity_type'')"
    and "\<forall>k. k \<noteq> ''entity_type'' \<longrightarrow> map_of e k = map_of d k"
  using assms
  by (auto simp: complete_type_def bind_res_Inr_iff mode_in_def py_eq_text map_of_update get_or_None_def
      split: if_splits option.splits list.splits pyval.splits)

lemma expand_reference_exact:
  assumes "expand_reference s available use v = Inr w"
  shows "reference_expanded s available use v w"
proof (cases "\<exists>d vs. v = VDict d \<and> get_default d ''path'' (VList []) = VList vs")
  case True
  with assms obtain d vs vss e where d: "v = VDict d" "get_default d ''path'' (VList []) = VList vs" "w = VDict e"
    and vss: "map_res (expand_step s available use) vs = Inr vss"
    and e: "complete_type s (concat vss) (AList.update ''path'' (VList (concat vss)) d) = Inr e"
    by (auto simp: expand_reference_def bind_res_Inr_iff)
  have "list_all2 (step_expanded s available use) vs vss"
    using vss unfolding map_res_Inr_iff by (rule list_all2_mono) (rule expand_step_exact)
  moreover have "map_of e ''entity_type'' = (if get_or_None d ''kind'' = VStr ''named_entity'' then
      (case map_option (legal_types s) (first_relation (concat vss)) of Some [t] \<Rightarrow> Some (VStr t) | _ \<Rightarrow> map_of d ''entity_type'')
      else map_of d ''entity_type'')"
    using complete_type_exact(1)[OF e] unfolding get_or_None_def map_of_update by simp
  moreover have "map_of e ''path'' = Some (VList (concat vss)) \<and> (\<forall>k. k \<noteq> ''path'' \<and> k \<noteq> ''entity_type'' \<longrightarrow> map_of e k = map_of d k)"
    using complete_type_exact(2)[OF e] by (simp add: map_of_update)
  ultimately show ?thesis unfolding reference_expanded_def d pyval.case by blast
next
  case False
  then show ?thesis using assms by (auto simp: expand_reference_def reference_expanded_def split: pyval.splits)
qed

lemma expand_key_exact:
  assumes "expand_key s available use k d = Inr e"
  shows "rel_option (reference_expanded s available use) (map_of d k) (map_of e k)"
proof (cases "\<exists>d'. map_of d k = Some (VDict d')")
  case True
  then obtain d' v where "map_of d k = Some (VDict d')" "expand_reference s available use (VDict d') = Inr v" "e = AList.update k v d"
    using assms by (auto simp: expand_key_def bind_res_Inr_iff)
  then show ?thesis by (simp add: map_of_update expand_reference_exact)
next
  case False
  have "reference_expanded s available use v v" if "\<forall>d'. v \<noteq> VDict d'" for v
    using that by (cases v) (simp_all add: reference_expanded_def)
  moreover from False assms have "e = d" by (auto simp: expand_key_def split: option.splits pyval.splits)
  ultimately show ?thesis using False by (cases "map_of d k") auto
qed

text \<open>The excluded references, element by element.\<close>

definition excluded_expanded :: "semantic_schema \<Rightarrow> string list \<Rightarrow> (fields \<Rightarrow> (string \<times> pyval list) option) \<Rightarrow> pyval \<Rightarrow> pyval \<Rightarrow> bool" where
  "excluded_expanded s available use v w \<longleftrightarrow> (case v of
     VList vs \<Rightarrow> (\<exists>ws. w = VList ws \<and> list_all2 (reference_expanded s available use) vs ws) | _ \<Rightarrow> w = v)"

lemma expand_excluded_exact:
  assumes "expand_excluded s available use d = Inr e"
  shows "rel_option (excluded_expanded s available use) (map_of d ''exclude'') (map_of e ''exclude'')"
    and "k \<noteq> ''exclude'' \<Longrightarrow> map_of e k = map_of d k"
proof -
  have "list_all2 (reference_expanded s available use) vs ws" if "map_res (expand_reference s available use) vs = Inr ws" for vs ws
    using that unfolding map_res_Inr_iff by (rule list_all2_mono) (rule expand_reference_exact)
  with assms show "rel_option (excluded_expanded s available use) (map_of d ''exclude'') (map_of e ''exclude'')"
    by (auto simp: expand_excluded_def bind_res_Inr_iff map_of_update excluded_expanded_def split: option.splits pyval.splits)
  from assms show "k \<noteq> ''exclude'' \<Longrightarrow> map_of e k = map_of d k"
    by (auto simp: expand_excluded_def bind_res_Inr_iff map_of_update split: option.splits pyval.splits)
qed

text \<open>C18: expansion of the output of the interpreter, when it succeeds, replaces each use of a concept in the subject, the
  other and every excluded reference by the declared steps of an available concept, with all the declared filters and
  then those of the use on the last step; steps that use no concept stay as they are, a named entity gets the type
  that alone has the first relation of its path, and nothing else of the request or the payload changes. Expanding the
  result again changes nothing, so no use of a concept is left.\<close>

theorem expansion_exact:
  assumes "expand_planner_concepts s available use payload = Inr p"
  shows "(case get_or_None payload ''request'' of
      VDict d \<Rightarrow> (\<exists>e. get_or_None p ''request'' = VDict e
        \<and> rel_option (reference_expanded s available use) (map_of d ''subject'') (map_of e ''subject'')
        \<and> rel_option (reference_expanded s available use) (map_of d ''other'') (map_of e ''other'')
        \<and> rel_option (excluded_expanded s available use) (map_of d ''exclude'') (map_of e ''exclude'')
        \<and> (\<forall>k. k \<notin> {''subject'', ''other'', ''exclude''} \<longrightarrow> map_of e k = map_of d k)
        \<and> (\<forall>k. k \<noteq> ''request'' \<longrightarrow> map_of p k = map_of payload k))
    | _ \<Rightarrow> p = payload)
    \<and> expand_planner_concepts s available use' p = Inr p"
proof (rule conjI[OF _ expansion_idempotent[OF assms]])
  show "case get_or_None payload ''request'' of
      VDict d \<Rightarrow> (\<exists>e. get_or_None p ''request'' = VDict e
        \<and> rel_option (reference_expanded s available use) (map_of d ''subject'') (map_of e ''subject'')
        \<and> rel_option (reference_expanded s available use) (map_of d ''other'') (map_of e ''other'')
        \<and> rel_option (excluded_expanded s available use) (map_of d ''exclude'') (map_of e ''exclude'')
        \<and> (\<forall>k. k \<notin> {''subject'', ''other'', ''exclude''} \<longrightarrow> map_of e k = map_of d k)
        \<and> (\<forall>k. k \<noteq> ''request'' \<longrightarrow> map_of p k = map_of payload k))
    | _ \<Rightarrow> p = payload"
  proof (cases "\<exists>d. get_or_None payload ''request'' = VDict d")
    case True
    then obtain d d1 d2 d3 where r: "get_or_None payload ''request'' = VDict d"
        and d: "expand_excluded s available use d = Inr d1" "expand_key s available use ''subject'' d1 = Inr d2"
          "expand_key s available use ''other'' d2 = Inr d3" and p: "p = AList.update ''request'' (VDict d3) payload"
      using assms by (auto simp: expand_planner_concepts_def bind_res_Inr_iff)
    note other = expand_key_other[OF d(2)] expand_key_other[OF d(3)] expand_excluded_exact(2)[OF d(1)]
    have "rel_option (reference_expanded s available use) (map_of d ''subject'') (map_of d3 ''subject'')"
      using expand_key_exact[OF d(2)] by (simp add: other)
    moreover have "rel_option (reference_expanded s available use) (map_of d ''other'') (map_of d3 ''other'')"
      using expand_key_exact[OF d(3)] by (simp add: other)
    moreover have "rel_option (excluded_expanded s available use) (map_of d ''exclude'') (map_of d3 ''exclude'')"
      using expand_excluded_exact(1)[OF d(1)] by (simp add: other)
    moreover have "get_or_None p ''request'' = VDict d3" "\<forall>k. k \<noteq> ''request'' \<longrightarrow> map_of p k = map_of payload k"
      by (simp_all add: p map_of_update get_or_None_def)
    moreover have "\<forall>k. k \<notin> {''subject'', ''other'', ''exclude''} \<longrightarrow> map_of d3 k = map_of d k" by (simp add: other)
    ultimately show ?thesis unfolding r pyval.case by blast
  next
    case False
    then show ?thesis using assms by (auto simp: expand_planner_concepts_def split: pyval.splits)
  qed
qed

section \<open>The catalog of a deployment\<close>

lemma map_res_keyed:
  assumes "map_res (\<lambda>n. f n) ns = Inr rs" and "\<And>n r. f n = Inr r \<Longrightarrow> fst r = n" and "n \<in> set ns"
  shows "\<exists>r. map_of rs n = Some r \<and> f n = Inr (n, r)"
  using assms
proof (induction ns arbitrary: rs)
  case (Cons m ns)
  then obtain p ps where p: "f m = Inr p" "map_res f ns = Inr ps" "rs = p # ps" by (auto simp: bind_res_Inr_iff)
  have "p = (m, snd p)" using Cons.prems(2)[OF p(1)] by (cases p) simp
  then have rs: "map_of rs n = (if n = m then Some (snd p) else map_of ps n)" and m: "f m = Inr (m, snd p)"
    using p by (metis map_of.simps(2) fun_upd_apply fst_conv snd_conv, simp)
  show ?case
  proof (cases "n = m")
    case True
    then show ?thesis using rs m by simp
  next
    case False
    then have "\<exists>r. map_of ps n = Some r \<and> f n = Inr (n, r)" using Cons.IH[OF p(2)] Cons.prems(2,3) by simp
    then show ?thesis using rs False by simp
  qed
qed simp

lemma map_res_image: "map_res f xs = Inr ys \<Longrightarrow> x \<in> set xs \<Longrightarrow> f x = Inr y \<Longrightarrow> y \<in> set ys"
  by (induction xs arbitrary: ys) (auto simp: bind_res_Inr_iff)

lemma read_relation_name: "read_relation dir g n = Inr p \<Longrightarrow> fst p = n"
  by (auto simp: read_relation_def bind_res_Inr_iff Let_def)

lemma read_relationD:
  assumes "read_relation dir g n = Inr (n, r)" and "get_schema g n = Inr s"
  shows "rl_from r = es_from s \<and> rl_to r = es_to s \<and> (es_temporal s \<longrightarrow> {''start'', ''end''} \<subseteq> set (rl_properties r))
    \<and> set (map fst (rl_types r)) \<subseteq> set (rl_properties r) \<and> set (map snd (rl_types r)) \<subseteq> set value_kinds"
proof -
  obtain ps ts where "new_relation s ps ts = Inr r" "es_temporal s \<longrightarrow> {''start'', ''end''} \<subseteq> set ps"
    using assms by (auto simp: read_relation_def bind_res_Inr_iff Let_def)
  then show ?thesis by (clarsimp simp: new_relation_def types_valid_def split: if_splits)
qed

lemma with_endpoint_known: "map_of es t \<noteq> None \<Longrightarrow> map_of (with_endpoint n es) t \<noteq> None" "map_of (with_endpoint n es) n \<noteq> None"
  by (auto simp: with_endpoint_def map_add_def split: option.split)

lemma endpoints_known:
  "map_of es t \<noteq> None \<or> t \<in> set ns \<Longrightarrow> map_of (fold with_endpoint ns es) t \<noteq> None"
proof (induction ns arbitrary: es)
  case (Cons n ns)
  then have "map_of (with_endpoint n es) t \<noteq> None \<or> t \<in> set ns" using with_endpoint_known by auto
  then show ?case using Cons.IH by simp
qed simp

lemma with_item_known: "with_item voc es = Inr es' \<Longrightarrow> map_of es t \<noteq> None \<Longrightarrow> map_of es' t \<noteq> None"
  by (auto simp: with_item_def bind_res_Inr_iff Let_def map_of_update split: option.splits)

lemma known_schema: "get_schema g n = Inr s \<Longrightarrow> n \<in> set (relationship_names g)"
  by (force simp: get_schema_def relationship_names_def split: option.splits dest: map_of_SomeD)

text \<open>C19: the catalog of a data directory loses no declared relation: each is there with its declared ends, every type at an
  end is a type of entity even if nothing of it is stored, the times of a temporal relation are properties of it, and
  kinds are known for its properties only. So every public relation that names it can be followed.\<close>

theorem catalog_complete:
  assumes "from_data_dir dir voc g = Inr c" and "get_schema g (es_id s) = Inr s" and "map_of (ot_relations o') name = Some public"
    and "resolve g public = Inr (s, inverted)"
  shows "\<exists>r. map_of (ca_relations c) (es_id s) = Some r \<and> rl_from r = es_from s \<and> rl_to r = es_to s
      \<and> (\<forall>t \<in> set (es_from s @ es_to s). map_of (ca_entities c) t \<noteq> None)
      \<and> (es_temporal s \<longrightarrow> {''start'', ''end''} \<subseteq> set (rl_properties r))
      \<and> set (map fst (rl_types r)) \<subseteq> set (rl_properties r) \<and> set (map snd (rl_types r)) \<subseteq> set value_kinds
      \<and> resolve_relation c o' g name = Some (es_id s, if es_symmetric s then None else Some (if inverted then ''in'' else ''out''))"
proof -
  have n: "es_id s \<in> set (relationship_names g)" using assms(2) by (rule known_schema)
  from assms(1) obtain es ss es' where ss: "map_res (get_schema g) (relationship_names g) = Inr ss"
    and item: "with_item voc (fold with_endpoint (concat (map (\<lambda>s. es_from s @ es_to s) ss)) es) = Inr es'"
    and rs: "map_res (read_relation dir g) (relationship_names g) = Inr (ca_relations c)" and c: "ca_entities c = es'"
    by (auto simp: from_data_dir_def bind_res_Inr_iff)
  obtain r where r: "map_of (ca_relations c) (es_id s) = Some r" "read_relation dir g (es_id s) = Inr (es_id s, r)"
    using map_res_keyed[OF rs _ n] read_relation_name[of dir g] by blast
  have "s \<in> set ss" using map_res_image[OF ss n assms(2)] .
  then have ends: "map_of (ca_entities c) t \<noteq> None" if "t \<in> set (es_from s @ es_to s)" for t
    using that unfolding c by (intro with_item_known[OF item] endpoints_known) auto
  have "resolve_relation c o' g name = Some (es_id s, if es_symmetric s then None else Some (if inverted then ''in'' else ''out''))"
    using assms(3,4) r(1) by (simp add: resolve_relation_def)
  then show ?thesis using r(1) read_relationD[OF r(2) assms(2)] ends by (intro exI[of _ r]) blast
qed

section \<open>Names of predicates\<close>

text \<open>A text names a collection predicate exactly when it is, up to case, the name or an alias of it; no text names two.\<close>

theorem predicate_names_exact:
  assumes "parse_ontology raw = Inr w"
  shows "resolve_collection_predicate w text' = Some n
    \<longleftrightarrow> (\<exists>q. (n, q) \<in> set (vo_predicates w) \<and> casefold text' \<in> casefold ` set (n # qw_aliases q))"
proof -
  have d: "distinct (map fst (predicate_names w))" by (rule parse_ontologyD[OF assms])
  then have "map_of (rev (predicate_names w)) = map_of (predicate_names w)" by (intro map_of_eqI) (auto simp: rev_map[symmetric])
  then have "resolve_collection_predicate w text' = Some n \<longleftrightarrow> (casefold text', n) \<in> set (predicate_names w)"
    using d by (simp add: resolve_collection_predicate_def)
  then show ?thesis by (auto simp: predicate_names_def)
qed

end
