(* ===== verification/ConceptExample.thy ===== *)
theory ConceptExample
  imports ExpandFacts
begin

text \<open>A small vocabulary and data directory on which the properties of the vocabulary are applied.\<close>

definition texts :: "string list \<Rightarrow> pyval" where "texts ss = VList (map VStr ss)"

definition owned_by :: "string list \<Rightarrow> pyval" where
  "owned_by es = VDict [(''entity'', texts es), (''relationship'', texts [])]"

definition birth_document :: pyval where
  "birth_document = VDict [(''fields'', texts [''birth_date'']), (''type'', VDict [(''kind'', VStr ''date'')]),
     (''applies_to'', owned_by [''person'']), (''filter_operators'', texts [''eq'', ''lt''])]"

definition age_document :: pyval where
  "age_document = VDict [(''source_property'', VStr ''birth_date''), (''transform'', VStr ''date_difference''), (''mode'', VStr ''years''),
     (''reference'', VStr ''household_now''), (''minimum'', VInt 0), (''maximum'', VInt 120), (''type'', VDict [(''kind'', VStr ''integer'')]),
     (''applies_to'', owned_by [''person'']), (''filter_operators'', texts [''gte''])]"

definition role_document :: pyval where
  "role_document = VDict [(''fields'', texts [''role'']), (''type'', VDict [(''kind'', VStr ''string'')]),
     (''applies_to'', VDict [(''entity'', texts []), (''relationship'', texts [''member''])]), (''filter_operators'', texts [''eq''])]"

definition elder_document :: pyval where
  "elder_document = VDict [(''aliases'', texts [''elders'']), (''path'', VList [VDict [(''relation'', VStr ''member''),
     (''filters'', VList [VDict [(''property'', VStr ''birth_date''), (''operator'', VStr ''lt''), (''value'', VStr ''1960-01-01'')]])]])]"

definition adult_document :: pyval where
  "adult_document = VDict [(''aliases'', texts [''Grown up'']), (''entity_types'', texts [''person'']), (''relation_property'', VStr ''role''),
     (''recognized_values'', texts [''adult'']), (''matching_values'', texts [''adult'']),
     (''fallback'', VDict [(''property'', VStr ''birth_date''), (''transform'', VStr ''date_difference''), (''operator'', VStr ''gte''),
        (''value_from_policy'', VStr ''adult_age''), (''mode'', VStr ''years'')])]"

definition home_document :: pyval where
  "home_document = VDict [(''version'', VInt 2), (''properties'', VDict [(''birth_date'', birth_document), (''role'', role_document)]),
     (''computed_filters'', VDict [(''age'', age_document)]),
     (''base_relations'', VDict [(''member'', VDict [(''edge'', VStr ''has_resident'')])]),
     (''reference_concepts'', VDict [(''elder'', elder_document)]), (''policy_values'', VDict [(''adult_age'', VInt 18)]),
     (''collection_predicates'', VDict [(''adult'', adult_document)])]"

definition lives_in :: edge_schema where
  "lives_in = \<lparr>es_id = ''lives_in'', es_symmetric = False, es_from = [''person''], es_to = [''address''], es_temporal = True,
     es_inverse = Some ''has_resident'', es_unique_from = False, es_scope_parent = True\<rparr>"

definition home_edges :: registry where
  "home_edges = \<lparr>rg_schemas = [(''lives_in'', lives_in)], rg_inverse = [(''has_resident'', ''lives_in'')]\<rparr>"

definition home_data :: data_directory where
  "home_data = \<lparr>dd_node_files = Some [(''person'', VList [VDict [(''id'', VStr ''ann''), (''birth_date'', VStr ''1950-02-01'')]])],
     dd_node_shards = [], dd_edge_files = [(''lives_in'', VList [VDict [(''from'', VStr ''person:ann''), (''role'', VStr ''adult'')]])]\<rparr>"

definition home_vocabulary :: vocabulary where
  "home_vocabulary = (case parse_ontology home_document of Inr w \<Rightarrow> w | Inl e \<Rightarrow> undefined)"

lemma home_parsed: "case parse_ontology home_document of Inr w \<Rightarrow> True | Inl e \<Rightarrow> False"
  by code_simp

lemma home_vocabulary: "parse_ontology home_document = Inr home_vocabulary"
  using home_parsed by (simp add: home_vocabulary_def split: sum.splits)

definition home_catalog :: schema_catalog where
  "home_catalog = (case from_data_dir home_data (Inr home_vocabulary) home_edges of Inr c \<Rightarrow> c | Inl e \<Rightarrow> undefined)"

definition home_schema :: semantic_schema where
  "home_schema = (case new_schema home_catalog (vo_ontology home_vocabulary) home_edges of Inr s \<Rightarrow> s | Inl e \<Rightarrow> undefined)"

lemma home_catalog_runs: "case from_data_dir home_data (Inr home_vocabulary) home_edges of Inr c \<Rightarrow> True | Inl e \<Rightarrow> False"
  by code_simp

lemma home_schema_runs: "case new_schema home_catalog (vo_ontology home_vocabulary) home_edges of Inr s \<Rightarrow> True | Inl e \<Rightarrow> False"
  by code_simp

lemma home_catalog: "from_data_dir home_data (Inr home_vocabulary) home_edges = Inr home_catalog"
  using home_catalog_runs by (simp add: home_catalog_def split: sum.splits)

lemma home_schema: "new_schema home_catalog (vo_ontology home_vocabulary) home_edges = Inr home_schema"
  using home_schema_runs by (simp add: home_schema_def split: sum.splits)

lemma home_concepts: "available_concepts home_schema = Inr [''elder'']"
  by code_simp

section \<open>The properties at this vocabulary\<close>

definition elder_path :: "(string \<times> ontology_filter list) list" where
  "elder_path = [(''member'', [\<lparr>of_property = ''birth_date'', of_operator = ''lt'', of_value = VStr ''1960-01-01'', of_source = ''entity'',
     of_value_from = None, of_value_property = None\<rparr>])]"

lemma elder_declared: "map_of (ot_concepts (vo_ontology home_vocabulary)) ''elder'' = Some elder_path"
  by code_simp

lemma elder_keys: "distinct (map fst (ot_concepts (vo_ontology home_vocabulary)))"
  by code_simp

lemma elder_names: "plain_names elder_path" "same_domains (ot_properties (vo_ontology home_vocabulary)) elder_path"
  by code_simp+

theorem concept_question_decided_witness:
  "\<exists>t \<in> set (map fst (ca_entities home_catalog)). validation_code home_schema (how_many t ''Home'' elder_path) = ''VALID''"
  using concept_question_decided[OF home_vocabulary home_schema home_concepts _ elder_keys elder_declared elder_names(1)]
    elder_names(2) by auto

definition age_filter :: semantic_filter where
  "age_filter = \<lparr>sf_property = Some ''age'', sf_predicate = None, sf_operator = ''gte'', sf_value = VInt 65, sf_source = ''entity'',
     sf_value_from = None, sf_value_property = None, sf_transform = None, sf_mode = None\<rparr>"

definition home_env :: "unit fact_env" where
  "home_env = \<lparr>fe_call = (\<lambda>tool args u. (u, Inr VNone)), fe_schema = home_schema, fe_str = (\<lambda>v. ''?''), fe_max = 5, fe_steps = 10\<rparr>"

definition spring :: clock where
  "spring = \<lparr>ck_wall = 730000 * day_us, ck_fold = False, ck_zone = None, ck_system = \<lparr>zn_off = (\<lambda>i. 0), zn_wall = (\<lambda>w f. 0)\<rparr>\<rparr>"

lemma age_facts:
  "(case map_of (ot_computed (vo_ontology home_vocabulary)) ''age'' of Some d \<Rightarrow> cf_source d = ''birth_date'' | None \<Rightarrow> False)"
  "(case contract_of home_schema (Some ''birth_date'') of Some k \<Rightarrow> pc_type k = Atom ''date'' | None \<Rightarrow> False)"
  "contract_filter_error home_schema age_filter [''person''] None [] = None"
  by code_simp+

theorem computed_filter_decided_witness:
  "\<exists>r. entity_predicate home_env spring [] [(''birth_date'', VStr ''soon'')] (age_filter, ''birth_date'') (new_execution ()) = (new_execution (), r)
    \<and> (case r of Inr b \<Rightarrow> True | Inl (Failed e) \<Rightarrow> ff_status e \<in> {FilterInputMissing, FilterUnsupported} | _ \<Rightarrow> False)"
proof -
  obtain d where d: "map_of (ot_computed (vo_ontology home_vocabulary)) ''age'' = Some d" "cf_source d = ''birth_date''"
    using age_facts(1) by (auto split: option.splits)
  obtain k where k: "contract_of home_schema (Some ''birth_date'') = Some k" "pc_type k = Atom ''date''"
    using age_facts(2) by (auto split: option.splits)
  have "fe_schema home_env = home_schema" "sf_property age_filter = Some ''age''" "in_range_us (ck_wall spring)"
    by (simp_all add: home_env_def age_filter_def spring_def in_range_us_def day_us_def max_ordinal_def)
  from computed_filter_decided[OF home_vocabulary home_schema this(1) d(1) k(1)[folded d(2)] k(2) this(2) age_facts(3) this(3)]
  show ?thesis .
qed

text \<open>Everyone of Home but its elders of one role: a use of a concept with a filter of its own, in an excluded reference.\<close>

definition role_condition :: pyval where
  "role_condition = VDict [(''property'', VStr ''role''), (''value'', VStr ''adult''), (''source'', VStr ''relation'')]"

definition members_reference :: pyval where
  "members_reference = VDict [(''kind'', VStr ''named_entity''), (''value'', VStr ''Home''),
     (''path'', VList [VDict [(''relation'', VStr ''member'')]]), (''entity_type'', VStr ''address'')]"

definition elder_request :: fields where
  "elder_request = [(''operation'', VStr ''count''), (''subject'', members_reference),
     (''exclude'', VList [VDict [(''kind'', VStr ''named_entity''), (''value'', VStr ''Home''),
        (''path'', VList [VDict [(''concept'', VStr ''elder''), (''filters'', VList [role_condition])]])]])]"

definition elder_expanded :: fields where
  "elder_expanded = [(''operation'', VStr ''count''), (''subject'', members_reference),
     (''exclude'', VList [VDict [(''kind'', VStr ''named_entity''), (''value'', VStr ''Home''),
        (''path'', VList [VDict [(''relation'', VStr ''member''), (''filters'', VList [VDict [
          (''property'', VStr ''birth_date''), (''operator'', VStr ''lt''), (''value'', VStr ''1960-01-01'')], role_condition])]]),
        (''entity_type'', VStr ''address'')]])]"

definition elder_use :: "fields \<Rightarrow> (string \<times> pyval list) option" where
  "elder_use d = Some (''elder'', [role_condition])"

lemma elder_expands:
  "expand_planner_concepts home_schema [''elder''] elder_use [(''request'', VDict elder_request)] = Inr [(''request'', VDict elder_expanded)]"
  by code_simp

theorem expansion_exact_witness:
  "rel_option (reference_expanded home_schema [''elder''] elder_use) (Some members_reference) (map_of elder_expanded ''subject'')
    \<and> rel_option (excluded_expanded home_schema [''elder''] elder_use) (map_of elder_request ''exclude'') (map_of elder_expanded ''exclude'')
    \<and> expand_planner_concepts home_schema [''elder''] (\<lambda>d. None) [(''request'', VDict elder_expanded)]
        = Inr [(''request'', VDict elder_expanded)]"
proof -
  have "map_of elder_request ''subject'' = Some members_reference" by (simp add: elder_request_def)
  then show ?thesis
    using expansion_exact[OF elder_expands, of "\<lambda>d. None"] by (simp add: get_or_None_def)
qed

theorem catalog_complete_witness:
  "resolve_relation home_catalog (vo_ontology home_vocabulary) home_edges ''member'' = Some (''lives_in'', Some ''in'')"
proof -
  have g: "get_schema home_edges (es_id lives_in) = Inr lives_in" "resolve home_edges ''has_resident'' = Inr (lives_in, True)"
      "es_id lives_in = ''lives_in''" "\<not> es_symmetric lives_in"
    by (simp_all add: home_edges_def lives_in_def get_schema_def resolve_def)
  have "map_of (ot_relations (vo_ontology home_vocabulary)) ''member'' = Some ''has_resident''" by code_simp
  from catalog_complete[OF home_catalog g(1) this g(2)] show ?thesis by (auto simp: g(3,4))
qed

theorem predicate_names_exact_witness: "resolve_collection_predicate home_vocabulary ''GROWN up'' = Some ''adult''"
proof -
  have "case map_of (vo_predicates home_vocabulary) ''adult'' of Some q \<Rightarrow> casefold ''GROWN up'' \<in> casefold ` set (''adult'' # qw_aliases q) | None \<Rightarrow> False"
    by code_simp
  then show ?thesis
    using predicate_names_exact[OF home_vocabulary, of "''GROWN up''" "''adult''"] by (auto dest: map_of_SomeD split: option.splits)
qed

end
