(* ===== verification/Spec2Isabelle.thy ===== *)
theory Spec2Isabelle
  imports EmbodimentStore ItemWritingFacts GuiSession ConversationFacts OperatorFacts
    CalendarServiceFacts SmallAgent VisionDocuments HouseholdExample ConceptExample
begin

text \<open>
  A verification library for home-cortex, the service that answers questions about one household from a graph of
  stored facts, lets robots (bodies) report where they are, and talks to its users through a language model that
  may call a few tools. The library models the deterministic core, which decides what the language model may
  cause, what is stored and what is answered. Paths below are relative to \<open>src/home_cortex\<close>.

  The parts and how they interact.

  \<^bold>\<open>Values.\<close> \<open>Prelude\<close>, \<open>PyVal\<close>, \<open>PyArith\<close>, \<open>PyTime\<close>, \<open>CalendarFacts\<close> and \<open>FloatFacts\<close> hold what all parts share: results
  as sums with the exceptions of the program, dictionaries as association lists in insertion order, Python's
  dynamic values, binary64 floats as the rationals they denote, dates, zones and instants. \<open>RecordIds\<close> is
  \<open>persistence/record_ids.py\<close>, \<open>common/identity.py\<close> and \<open>common/text.py\<close>.

  \<^bold>\<open>Bodies and sessions.\<close> \<open>Embodiment\<close> and \<open>Telemetry\<close> are the contracts of \<open>spatial/embodiment.py\<close> and
  \<open>spatial/telemetry.py\<close>. \<open>Presence\<close> (\<open>spatial/presence.py\<close>) keeps the latest sample of each body, \<open>Connections\<close>
  (\<open>agents/embodiments.py\<close>) the cached catalogue and the session table, \<open>Sessions\<close> (\<open>agents/session.py\<close>,
  \<open>agents/registration.py\<close>, \<open>agents/presence.py\<close>) the protocol of a body over both. The attributes of the objects
  are the fields of the records \<open>presence\<close>, \<open>catalog\<close> and \<open>runtime\<close>; a method is a definition that returns the new
  record, and a request of the protocol is a value of a datatype that \<open>handle\<close> runs. \<open>SessionFacts\<close> makes the
  requests a step relation and proves its invariant over all reachable runtimes: who may change a sample, that an
  identifier never returns, and that a refused request changes nothing.

  \<^bold>\<open>The stored graph.\<close> \<open>Surreal\<close> states what the services rely on of the database, as an access record and the
  locale \<open>surreal_db\<close>. \<open>EdgeSchema\<close> (\<open>persistence/edge_schema.py\<close>) resolves relation names. \<open>EmbodimentStore\<close>
  (\<open>mutation/embodiments.py\<close>) and \<open>ItemWriting\<close> (\<open>mutation/writing.py\<close>) are the two paths that write; their facts
  state the exact effect of every applied mutation on the graph and that nothing else is written.

  \<^bold>\<open>Conversations.\<close> \<open>Conversation\<close> (\<open>conversation/store.py\<close>) has the bounded transcript store in memory and the
  durable one; \<open>ConversationFacts\<close> proves that the durable store refines the other, listings included, as long as the
  one in memory need not evict, identifiers are fresh and message times increase. \<open>GuiSession\<close>
  (\<open>conversation/session.py\<close>) is the signed token of the interface.

  \<^bold>\<open>The model and its tools.\<close> \<open>ModelLoop\<close> (\<open>runtime/model_loop.py\<close>) is the bounded loop in which the language model
  answers or calls tools; \<open>ModelLoopFacts\<close> bounds it and relates its streamed answer to the other one, for agents with
  and without a name. \<open>Dispatcher\<close> (\<open>capabilities/dispatcher.py\<close>) is the allow-list behind it; its handlers are
  the calculator (\<open>Calculation\<close>, \<open>capabilities/calculation.py\<close>), the calendar (\<open>Calendar\<close> and \<open>GoogleCalendar\<close>,
  \<open>capabilities/calendar.py\<close>), retrieval, and named writing, an argument that gets the internal calls of the graph
  operations (\<open>graph_call\<close>) by which it resolves names. \<open>ToolHost\<close> interprets the host interface of the loop on
  the dispatcher, and \<open>SmallAgent\<close> is a small instance on which the properties are applied. \<open>Display\<close>
  (\<open>common/display.py\<close>) replaces record identifiers in what the user sees, also in a stream.

  \<^bold>\<open>Reading the graph.\<close> \<open>Retrieval\<close> (\<open>persistence/retrieval.py\<close>, with the names of \<open>persistence/schema_catalog.py\<close>) is the
  read-only service behind the graph operations of the dispatcher. \<open>HouseholdGraph\<close> puts engine, dispatcher, retrieval
  and database together; \<open>GraphReads\<close> and \<open>HostedSpaces\<close> state in a locale what the resolver relies on of its queries
  and prove there the searches exact; \<open>HouseholdFacts\<close> and \<open>HouseholdAnswers\<close> carry this over to the composition,
  from the scope of a name to the number that a question is answered with, and \<open>HouseholdExample\<close> interprets the
  locales and applies the properties to a small household.

  \<^bold>\<open>The vocabulary.\<close> \<open>Ontology\<close> is the parser of \<open>semantic/ontology.py\<close>, \<open>Concepts\<close> the catalog that is read from a data
  directory (\<open>persistence/schema_catalog.py\<close>), the reference concepts that a deployment can follow and their expansion
  (\<open>semantic/schema.py\<close>). \<open>ConceptFacts\<close> proves when exactly an advertised concept passes the validator (its anchored
  values must have the closed values they are compared with) and that computed filters are decided, \<open>ExpandFacts\<close> what
  expansion writes, reference by reference, that nothing is left to expand, and that the catalog is complete; \<open>ConceptExample\<close> applies
  this to a small vocabulary.

  \<^bold>\<open>Facts.\<close> A question that the interpreter has turned into a request (\<open>SemanticIR\<close>, \<open>semantic/ir.py\<close>) is checked
  against the vocabulary of the deployment (\<open>SemanticContract\<close>, \<open>SemanticSchema\<close>: \<open>semantic/contracts.py\<close> and
  \<open>semantic/schema.py\<close>), its references are grounded in stored entities (\<open>Resolver\<close>, \<open>facts/resolver.py\<close>) and the
  operation is executed (\<open>FactEngine\<close>, \<open>facts/engine.py\<close>, over \<open>Operators\<close>, \<open>facts/operators.py\<close>). The attributes of
  \<open>_FactExecution\<close> are the record \<open>execution\<close>, which every step threads; \<open>_FactFailure\<close> is the case \<open>Failed\<close> of the
  step's error. The dispatcher is the argument \<open>fe_call\<close>.

  \<^bold>\<open>Evidence of the cameras.\<close> \<open>Units\<close>, \<open>RobotPose\<close> and \<open>VisionContracts\<close> are \<open>spatial/units.py\<close>,
  \<open>spatial/localization/pose.py\<close> and \<open>vision/contracts.py\<close>; \<open>VisionFacts\<close> and \<open>VisionDocuments\<close> prove that each
  accepted document reads back, by one interface that is interpreted for every part.

  \<^bold>\<open>Bounds and fuel.\<close> The page loop of the calendar provider has fuel: one more than the number of page tokens is
  enough, because a repeated token is refused (\<open>pages_terminate\<close>). The search for the next annual occurrence
  looks at nine years, because a leap day returns within eight. The walk from a name to its household passes at
  most twelve entities, as in the source. The walk over
  hosted spaces has a budget of steps: over at most \<open>m\<close> stored edges \<open>1 + (3 m + 1) (max + 1)\<close> steps are enough, where
  \<open>max\<close> is the number of edges the engine reads at once (\<open>hosted_spaces_exact\<close>). The steps of the model
  loop are structural recursion on the number of steps left.

  \<^bold>\<open>Conventions.\<close> Strings have code points below 256. The sign of zero is not kept. Exceptions are values
  without their texts. Sets are lists whose order is not used. The calendars of one listing are read one after the
  other. Local times are taken to be unambiguous in the zones that two times are compared in. Locks are left
  out: every operation is one step.

  \<^bold>\<open>Not modelled.\<close> The planner, its prompts and the schemas generated for it, reading and parsing the text of files, the
  rendering of answers in two languages, the HTTP interfaces, the providers of language models, ingestion and
  export of data files, the numerical geometry of poses and occupancy, and the scripts of the repository: they are
  input and output, numerical code over the C library, text for a model, or glue over the parts above. Code that
  is not in the repository (SurrealDB, the language model, zone data, the parser behind the calculator, the HTTP
  client) is an argument of the definitions, and what is relied on is a named hypothesis or a locale.
\<close>

end
